(* ===== verification/Prelude.thy ===== *)
theory Prelude
  imports Main "HOL-Library.Word" "HOL-Library.AList"
begin

text \<open>
  What every component of the development shares: the machine integers of the code and the
  checked and saturating arithmetic of the Rust standard library on them, results as sums,
  big-endian byte strings, associative containers (\<^verbatim>\<open>HashMap\<close>, \<^verbatim>\<open>BTreeMap\<close>) as association
  lists with distinct keys, and the collections of facts the component proofs use.
\<close>

unbundle bit_operations_syntax

named_theorems rust_arith \<open>checked and saturating arithmetic read as natural numbers\<close>
named_theorems be_facts \<open>lengths and round trips of big-endian byte strings\<close>
named_theorems assoc_facts \<open>association lists used as maps\<close>

section \<open>Machine integers\<close>

type_synonym u8 = "8 word"
type_synonym u16 = "16 word"
type_synonym u32 = "32 word"
type_synonym u64 = "64 word"
type_synonym u128 = "128 word"
type_synonym bytes = "u8 list"

definition sat_add :: "'a::len word \<Rightarrow> 'a word \<Rightarrow> 'a word" where
  "sat_add a b = (if unat a + unat b < 2 ^ LENGTH('a) then a + b else - 1)"

definition sat_sub :: "'a::len word \<Rightarrow> 'a word \<Rightarrow> 'a word" where
  "sat_sub a b = (if b \<le> a then a - b else 0)"

definition sat_mul :: "'a::len word \<Rightarrow> 'a word \<Rightarrow> 'a word" where
  "sat_mul a b = (if unat a * unat b < 2 ^ LENGTH('a) then a * b else - 1)"

definition checked_add :: "'a::len word \<Rightarrow> 'a word \<Rightarrow> 'a word option" where
  "checked_add a b = (if unat a + unat b < 2 ^ LENGTH('a) then Some (a + b) else None)"

definition checked_sub :: "'a::len word \<Rightarrow> 'a word \<Rightarrow> 'a word option" where
  "checked_sub a b = (if b \<le> a then Some (a - b) else None)"

definition checked_mul :: "'a::len word \<Rightarrow> 'a word \<Rightarrow> 'a word option" where
  "checked_mul a b = (if unat a * unat b < 2 ^ LENGTH('a) then Some (a * b) else None)"

definition abs_diff :: "'a::len word \<Rightarrow> 'a word \<Rightarrow> 'a word" where
  "abs_diff a b = (if a \<le> b then b - a else a - b)"

text \<open>\<^verbatim>\<open>div_ceil\<close>; the code only calls it with a positive divisor.\<close>

definition div_ceil_nat :: "nat \<Rightarrow> nat \<Rightarrow> nat" where
  "div_ceil_nat a b = a div b + (if a mod b = 0 then 0 else 1)"

definition div_ceil :: "'a::len word \<Rightarrow> 'a word \<Rightarrow> 'a word" where
  "div_ceil a b = a div b + (if a mod b = 0 then 0 else 1)"

text \<open>\<^verbatim>\<open>try_from\<close> and \<^verbatim>\<open>from\<close> between widths: the value, or \<^const>\<open>None\<close> when it does not fit.\<close>

definition try_cast :: "'a::len word \<Rightarrow> 'b::len word option" where
  "try_cast a = (if unat a < 2 ^ LENGTH('b) then Some (ucast a) else None)"

definition word_of_nat_checked :: "nat \<Rightarrow> 'a::len word option" where
  "word_of_nat_checked n = (if n < 2 ^ LENGTH('a) then Some (of_nat n) else None)"

text \<open>Signed 64-bit values are integers; an operation that may leave the range is checked.\<close>

definition i64_max :: int where "i64_max = 9223372036854775807"
definition i64_min :: int where "i64_min = - 9223372036854775808"

definition fits_i64 :: "int \<Rightarrow> bool" where
  "fits_i64 x \<longleftrightarrow> i64_min \<le> x \<and> x \<le> i64_max"

definition i64_checked_mul :: "int \<Rightarrow> int \<Rightarrow> int option" where
  "i64_checked_mul a b = (if fits_i64 (a * b) then Some (a * b) else None)"

definition u64_of_i64 :: "int \<Rightarrow> u64 option" where
  "u64_of_i64 x = (if 0 \<le> x \<and> x < 2 ^ 64 then Some (word_of_int x) else None)"

lemma unat_max_word: "unat (- 1 :: 'a::len word) = 2 ^ LENGTH('a) - 1"
  by (simp add: unsigned_minus_1_eq_mask mask_eq_exp_minus_1)

lemma unat_lt2p: "unat (a :: 'a::len word) < 2 ^ LENGTH('a)"
  by (rule unsigned_less)

lemma unat_ucast_widen:
  fixes x :: "'a::len word"
  assumes "LENGTH('a) \<le> LENGTH('b::len)"
  shows "unat (ucast x :: 'b word) = unat x"
proof -
  have "unat x < 2 ^ LENGTH('b)"
    using unat_lt2p [of x] power_increasing [OF assms, of "2 :: nat"] by linarith
  then show ?thesis by (simp add: unsigned_ucast_eq take_bit_nat_eq_self)
qed

lemma unat_sat_add [rust_arith]:
  fixes a b :: "'a::len word"
  shows "unat (sat_add a b) = min (unat a + unat b) (2 ^ LENGTH('a) - 1)"
  by (auto simp: sat_add_def unat_max_word unat_word_ariths min_def)

lemma unat_sat_mul [rust_arith]:
  fixes a b :: "'a::len word"
  shows "unat (sat_mul a b) = min (unat a * unat b) (2 ^ LENGTH('a) - 1)"
proof (cases "unat a * unat b < 2 ^ LENGTH('a)")
  case True
  then show ?thesis by (simp add: sat_mul_def unat_word_ariths)
next
  case False
  then have "min (unat a * unat b) (2 ^ LENGTH('a) - 1) = 2 ^ LENGTH('a) - 1"
    by (intro min_absorb2) linarith
  with False show ?thesis by (simp add: sat_mul_def unat_max_word)
qed

lemma unat_sat_sub [rust_arith]: "unat (sat_sub a b) = unat a - unat b"
  by (auto simp: sat_sub_def unat_sub word_le_nat_alt)

lemma le_sat_add: "a \<le> sat_add a (b :: 'a::len word)"
proof -
  have "unat a \<le> 2 ^ LENGTH('a) - 1" using unat_lt2p [of a] by linarith
  then show ?thesis by (simp add: word_le_nat_alt unat_sat_add)
qed

lemma checked_add_eq_Some [rust_arith]:
  fixes a b c :: "'a::len word"
  shows "checked_add a b = Some c \<longleftrightarrow> unat c = unat a + unat b"
proof (cases "unat a + unat b < 2 ^ LENGTH('a)")
  case True
  then have "unat (a + b) = unat a + unat b" by (simp add: unat_word_ariths)
  with True show ?thesis by (auto simp: checked_add_def word_unat_eq_iff)
next
  case False
  with unat_lt2p [of c] have "unat c \<noteq> unat a + unat b" by linarith
  with False show ?thesis by (simp add: checked_add_def)
qed

lemma checked_mul_eq_Some [rust_arith]:
  fixes a b c :: "'a::len word"
  shows "checked_mul a b = Some c \<longleftrightarrow> unat c = unat a * unat b"
proof (cases "unat a * unat b < 2 ^ LENGTH('a)")
  case True
  then have "unat (a * b) = unat a * unat b" by (simp add: unat_word_ariths)
  with True show ?thesis by (auto simp: checked_mul_def word_unat_eq_iff)
next
  case False
  with unat_lt2p [of c] have "unat c \<noteq> unat a * unat b" by linarith
  with False show ?thesis by (simp add: checked_mul_def)
qed

lemma checked_sub_eq_Some [rust_arith]:
  "checked_sub a b = Some c \<longleftrightarrow> unat a = unat c + unat b"
proof -
  have "unat (a - b) = unat a - unat b" if "b \<le> a"
    using that by (rule unat_sub)
  then show ?thesis
    by (auto simp: checked_sub_def word_unat_eq_iff word_le_nat_alt)
qed

lemma checked_add_None [rust_arith]:
  fixes a b :: "'a::len word"
  shows "checked_add a b = None \<longleftrightarrow> 2 ^ LENGTH('a) \<le> unat a + unat b"
  by (simp add: checked_add_def)

lemma checked_mul_None [rust_arith]:
  fixes a b :: "'a::len word"
  shows "checked_mul a b = None \<longleftrightarrow> 2 ^ LENGTH('a) \<le> unat a * unat b"
  by (simp add: checked_mul_def)

lemma unat_abs_diff [rust_arith]:
  "unat (abs_diff a b) = (if unat a \<le> unat b then unat b - unat a else unat a - unat b)"
  by (auto simp: abs_diff_def unat_sub word_le_nat_alt)

lemma u64_of_i64_uint: assumes "u64_of_i64 x = Some w" shows "uint w = x" and "0 \<le> x"
proof -
  from assms have r: "0 \<le> x" "x < 2 ^ 64" and w: "w = word_of_int x"
    by (simp_all add: u64_of_i64_def split: if_splits)
  show "uint w = x" unfolding w using r by (simp add: uint_word_of_int)
  show "0 \<le> x" by (rule r)
qed

lemma checked_mul_uint:
  assumes "checked_mul a b = Some c" shows "uint c = uint a * uint b"
proof -
  from assms have "unat c = unat a * unat b" by (simp only: checked_mul_eq_Some)
  then have "int (unat c) = int (unat a) * int (unat b)" by (simp only: of_nat_mult)
  then show ?thesis by simp
qed

lemma checked_add_uint:
  assumes "checked_add a b = Some c" shows "uint c = uint a + uint b"
proof -
  from assms have "unat c = unat a + unat b" by (simp only: checked_add_eq_Some)
  then have "int (unat c) = int (unat a) + int (unat b)" by (simp only: of_nat_add)
  then show ?thesis by simp
qed
lemma uint_ucast_widen:
  fixes x :: "'a::len word"
  assumes "LENGTH('a) \<le> LENGTH('b::len)"
  shows "uint (ucast x :: 'b word) = uint x"
proof -
  have "int (unat (ucast x :: 'b word)) = int (unat x)" by (simp only: unat_ucast_widen [OF assms])
  then show ?thesis by simp
qed

lemma div_ceil_nat_le_iff:
  assumes "0 < b"
  shows "div_ceil_nat a b \<le> k \<longleftrightarrow> a \<le> k * b"
proof -
  have a: "a = a div b * b + a mod b" and m: "a mod b < b" using assms by simp_all
  show ?thesis
  proof
    assume "div_ceil_nat a b \<le> k"
    then have "a div b * b + (if a mod b = 0 then 0 else b) \<le> k * b"
      using mult_le_mono1 [of "div_ceil_nat a b" k b]
      by (auto simp: div_ceil_nat_def algebra_simps split: if_splits)
    moreover have "a mod b \<le> (if a mod b = 0 then 0 else b)" using m by simp
    ultimately show "a \<le> k * b" using a by linarith
  next
    assume k: "a \<le> k * b"
    show "div_ceil_nat a b \<le> k"
    proof (cases "a mod b = 0")
      case True
      with a k have "a div b * b \<le> k * b" by linarith
      with assms True show ?thesis by (simp add: div_ceil_nat_def)
    next
      case False
      with a k have "a div b * b < k * b" by linarith
      with False show ?thesis by (simp add: div_ceil_nat_def)
    qed
  qed
qed

section \<open>Results\<close>

text \<open>A Rust \<^verbatim>\<open>Result<A, E>\<close> is a sum, \<^const>\<open>Inl\<close> the error; \<open>?\<close> is \<open>res_bind\<close>.\<close>

definition res_bind :: "'e + 'a \<Rightarrow> ('a \<Rightarrow> 'e + 'b) \<Rightarrow> 'e + 'b" where
  "res_bind r f = (case r of Inl e \<Rightarrow> Inl e | Inr a \<Rightarrow> f a)"

definition ok_or :: "'e \<Rightarrow> 'a option \<Rightarrow> 'e + 'a" where
  "ok_or e x = (case x of None \<Rightarrow> Inl e | Some a \<Rightarrow> Inr a)"

definition map_err :: "('e \<Rightarrow> 'f) \<Rightarrow> 'e + 'a \<Rightarrow> 'f + 'a" where
  "map_err g r = (case r of Inl e \<Rightarrow> Inl (g e) | Inr a \<Rightarrow> Inr a)"

definition guard_err :: "bool \<Rightarrow> 'e \<Rightarrow> 'e + unit" where
  "guard_err bad e = (if bad then Inl e else Inr ())"

definition is_ok :: "'e + 'a \<Rightarrow> bool" where
  "is_ok r = (case r of Inl _ \<Rightarrow> False | Inr _ \<Rightarrow> True)"

lemma res_bind_simps [simp]:
  "res_bind (Inl e) f = Inl e"
  "res_bind (Inr a) f = f a"
  by (simp_all add: res_bind_def)

lemma res_bind_eq_Inr: "res_bind r f = Inr b \<longleftrightarrow> (\<exists>a. r = Inr a \<and> f a = Inr b)"
  by (cases r) auto

lemma ok_or_simps [simp]:
  "ok_or e None = Inl e"
  "ok_or e (Some a) = Inr a"
  by (simp_all add: ok_or_def)

lemma ok_or_eq_Inr: "ok_or e x = Inr a \<longleftrightarrow> x = Some a"
  by (cases x) auto

lemma map_err_simps [simp]:
  "map_err g (Inl e) = Inl (g e)"
  "map_err g (Inr a) = Inr a"
  by (simp_all add: map_err_def)

lemma map_err_eq_Inr: "map_err g r = Inr a \<longleftrightarrow> r = Inr a"
  by (cases r) auto

lemma guard_err_eq_Inr: "guard_err b e = Inr u \<longleftrightarrow> \<not> b"
  by (simp add: guard_err_def)

lemma guard_err_simps [simp]:
  "guard_err True e = Inl e"
  "guard_err False e = Inr ()"
  by (simp_all add: guard_err_def)

lemma is_ok_simps [simp]: "is_ok (Inl e) = False" "is_ok (Inr a) = True"
  by (simp_all add: is_ok_def)

lemma is_ok_iff: "is_ok r \<longleftrightarrow> (\<exists>a. r = Inr a)"
  by (cases r) auto

lemmas res_ok = res_bind_eq_Inr ok_or_eq_Inr map_err_eq_Inr guard_err_eq_Inr


text \<open>The same for code that also changes a state, as \<open>async fn\<close> bodies with \<open>?\<close> do.\<close>

type_synonym ('e, 'a, 's) fallible = "'s \<Rightarrow> ('e + 'a) \<times> 's"

definition sbind :: "('e, 'a, 's) fallible \<Rightarrow> ('a \<Rightarrow> ('e, 'b, 's) fallible) \<Rightarrow> ('e, 'b, 's) fallible" where
  "sbind m f s = (case m s of (Inl e, s') \<Rightarrow> (Inl e, s') | (Inr a, s') \<Rightarrow> f a s')"

definition slift :: "'e + 'a \<Rightarrow> ('e, 'a, 's) fallible" where "slift r s = (r, s)"
definition supdate :: "('s \<Rightarrow> 's) \<Rightarrow> ('e, unit, 's) fallible" where "supdate f s = (Inr (), f s)"
definition sget :: "('s \<Rightarrow> 'a) \<Rightarrow> ('e, 'a, 's) fallible" where "sget f s = (Inr (f s), s)"
definition swhen :: "bool \<Rightarrow> ('e, unit, 's) fallible \<Rightarrow> ('e, unit, 's) fallible" where
  "swhen b m = (if b then m else slift (Inr ()))"

lemma sbind_eq_Inr:
  "sbind m f s = (Inr b, s'') \<longleftrightarrow> (\<exists>a s'. m s = (Inr a, s') \<and> f a s' = (Inr b, s''))"
  by (auto simp: sbind_def split: sum.splits prod.splits)

lemma slift_eq_Inr: "slift r s = (Inr a, s') \<longleftrightarrow> r = Inr a \<and> s' = s"
  by (auto simp: slift_def)

lemma supdate_eq_Inr: "supdate f s = (Inr u, s') \<longleftrightarrow> s' = f s"
  by (auto simp: supdate_def)

lemma sget_eq_Inr: "sget f s = (Inr a, s') \<longleftrightarrow> a = f s \<and> s' = s"
  by (auto simp: sget_def)

lemmas state_ok = sbind_eq_Inr slift_eq_Inr supdate_eq_Inr sget_eq_Inr

text \<open>A property of the state that every part keeps is kept by the whole.\<close>

definition keeps :: "('s \<Rightarrow> bool) \<Rightarrow> ('e, 'a, 's) fallible \<Rightarrow> bool" where
  "keeps P m \<longleftrightarrow> (\<forall>s. P s \<longrightarrow> P (snd (m s)))"

named_theorems keeps_intros \<open>preservation of a state property through fallible code\<close>

lemma keepsD: "keeps P m \<Longrightarrow> m s = (r, s') \<Longrightarrow> P s \<Longrightarrow> P s'"
  unfolding keeps_def by (metis snd_conv)

lemma keeps_sbind [keeps_intros]: "keeps P m \<Longrightarrow> (\<And>a. keeps P (f a)) \<Longrightarrow> keeps P (sbind m f)"
  by (fastforce simp: keeps_def sbind_def split: sum.split prod.split)

lemma keeps_slift [keeps_intros]: "keeps P (slift r)"
  by (simp add: keeps_def slift_def)

lemma keeps_sget [keeps_intros]: "keeps P (sget f)"
  by (simp add: keeps_def sget_def)

lemma keeps_swhen [keeps_intros]: "(b \<Longrightarrow> keeps P m) \<Longrightarrow> keeps P (swhen b m)"
  by (simp add: swhen_def keeps_slift)

lemma keeps_supdate: "(\<And>s. P s \<Longrightarrow> P (f s)) \<Longrightarrow> keeps P (supdate f)"
  by (simp add: keeps_def supdate_def)

section \<open>Associative containers\<close>

text \<open>
  A \<^verbatim>\<open>HashMap\<close> or \<^verbatim>\<open>BTreeMap\<close> is an association list with distinct keys; \<^verbatim>\<open>len\<close> is its
  length, \<^verbatim>\<open>get\<close> is \<^const>\<open>map_of\<close>, \<^verbatim>\<open>insert\<close> is \<^const>\<open>AList.update\<close>, \<^verbatim>\<open>remove\<close> is
  \<^const>\<open>AList.delete\<close>, \<^verbatim>\<open>retain\<close> is a filter on the entries.
\<close>

type_synonym ('k, 'v) assoc = "('k \<times> 'v) list"

definition wf_assoc :: "('k, 'v) assoc \<Rightarrow> bool" where
  "wf_assoc m \<longleftrightarrow> distinct (map fst m)"

definition contains_key :: "'k \<Rightarrow> ('k, 'v) assoc \<Rightarrow> bool" where
  "contains_key k m \<longleftrightarrow> map_of m k \<noteq> None"

definition retain :: "('k \<Rightarrow> 'v \<Rightarrow> bool) \<Rightarrow> ('k, 'v) assoc \<Rightarrow> ('k, 'v) assoc" where
  "retain P m = filter (\<lambda>(k, v). P k v) m"

lemma wf_assoc_Nil [simp]: "wf_assoc []"
  by (simp add: wf_assoc_def)

lemma wf_assoc_update [assoc_facts, intro]: "wf_assoc m \<Longrightarrow> wf_assoc (AList.update k v m)"
  by (simp add: wf_assoc_def distinct_update)

lemma wf_assoc_retain [assoc_facts, intro]: "wf_assoc m \<Longrightarrow> wf_assoc (retain P m)"
  by (simp add: wf_assoc_def retain_def distinct_map_filter)

lemma wf_assoc_delete [assoc_facts, intro]: "wf_assoc m \<Longrightarrow> wf_assoc (AList.delete k m)"
  by (simp add: wf_assoc_def distinct_delete)

lemma contains_key_fst: "contains_key k m \<longleftrightarrow> k \<in> fst ` set m"
  by (simp add: contains_key_def map_of_eq_None_iff)

lemma length_update [assoc_facts]:
  "length (AList.update k v m) = (if contains_key k m then length m else Suc (length m))"
  by (induction m) (auto simp: contains_key_def)

lemma map_of_update [assoc_facts]: "map_of (AList.update k v m) = (map_of m)(k \<mapsto> v)"
  by (rule update_conv')

lemma map_of_delete [assoc_facts]: "map_of (AList.delete k m) = (map_of m)(k := None)"
  by (rule delete_conv')

lemma length_retain [assoc_facts]: "length (retain P m) \<le> length m"
  by (simp add: retain_def)

lemma map_of_filter_None: "k \<notin> fst ` set m \<Longrightarrow> map_of (filter P m) k = None"
  by (force simp: map_of_eq_None_iff)

lemma map_of_retain [assoc_facts]:
  "wf_assoc m \<Longrightarrow>
   map_of (retain P m) k = (case map_of m k of None \<Rightarrow> None | Some v \<Rightarrow> if P k v then Some v else None)"
proof (induction m)
  case Nil
  then show ?case by (simp add: retain_def)
next
  case (Cons kv m)
  obtain k' v' where kv: "kv = (k', v')" by (cases kv)
  from Cons.prems have "wf_assoc m" and "k' \<notin> fst ` set m" by (simp_all add: wf_assoc_def kv)
  with Cons.IH show ?case
    by (auto simp: kv retain_def map_of_filter_None split: option.splits)
qed

lemma retain_Some: "wf_assoc m \<Longrightarrow> map_of (retain P m) k = Some v \<Longrightarrow> map_of m k = Some v \<and> P k v"
  by (auto simp: map_of_retain split: option.splits if_splits)

lemma set_retain: "set (retain P m) = {(k, v) \<in> set m. P k v}"
  by (auto simp: retain_def)

lemma set_update: "wf_assoc m \<Longrightarrow> set (AList.update k v m) = insert (k, v) {(k', v') \<in> set m. k' \<noteq> k}"
  by (induction m) (force simp: wf_assoc_def)+

end
