(* ===== verification/Codec.thy ===== *)
theory Codec
  imports Prelude
begin

text \<open>
  Byte strings and text: big-endian integers, the UTF-8 check behind \<^verbatim>\<open>str::from_utf8\<close>, ASCII
  case folding, and the decimal syntax that \<^verbatim>\<open>to_string\<close> prints and \<^verbatim>\<open>parse\<close> reads for the
  unsigned integer types. A Rust \<^verbatim>\<open>str\<close> is a \<^typ>\<open>string\<close>, one \<^typ>\<open>char\<close> per byte.
\<close>

section \<open>Big-endian integers\<close>

fun be_bytes :: "nat \<Rightarrow> nat \<Rightarrow> bytes" where
  "be_bytes 0 v = []"
| "be_bytes (Suc n) v = of_nat (v div 256 ^ n) # be_bytes n v"

fun be_value :: "bytes \<Rightarrow> nat" where
  "be_value [] = 0"
| "be_value (b # bs) = unat b * 256 ^ length bs + be_value bs"

lemma length_be_bytes [simp, be_facts]: "length (be_bytes n v) = n"
  by (induction n) auto

lemma be_value_less [be_facts]: "be_value bs < 256 ^ length bs"
proof (induction bs)
  case Nil
  then show ?case by simp
next
  case (Cons b bs)
  have "unat b < 256" using unat_lt2p [of b] by simp
  then have "Suc (unat b) * 256 ^ length bs \<le> 256 * 256 ^ length bs"
    by (intro mult_le_mono1) simp
  moreover have "be_value (b # bs) < Suc (unat b) * 256 ^ length bs" using Cons by simp
  ultimately have "be_value (b # bs) < 256 * 256 ^ length bs" by linarith
  then show ?case by simp
qed

lemma unat_byte: "unat (of_nat v :: u8) = v mod 256"
  by (simp add: unat_of_nat)

lemma be_value_be_bytes [be_facts]: "be_value (be_bytes n v) = v mod 256 ^ n"
proof (induction n)
  case 0
  then show ?case by simp
next
  case (Suc n)
  have "be_value (be_bytes (Suc n) v) = (v div 256 ^ n mod 256) * 256 ^ n + v mod 256 ^ n"
    by (simp add: Suc unat_byte)
  also have "\<dots> = v mod (256 ^ n * 256)" by (simp add: mod_mult2_eq)
  finally show ?case by (simp add: mult.commute)
qed

lemma be_bytes_mod: "be_bytes n (v mod 256 ^ n) = be_bytes n v"
proof (induction n arbitrary: v)
  case 0
  then show ?case by simp
next
  case (Suc n)
  have "be_bytes n (v mod 256 ^ Suc n) = be_bytes n ((v mod 256 ^ Suc n) mod 256 ^ n)"
    by (simp add: Suc)
  also have "(v mod 256 ^ Suc n) mod 256 ^ n = v mod 256 ^ n"
    by (simp add: mod_mod_cancel)
  finally have tail: "be_bytes n (v mod 256 ^ Suc n) = be_bytes n v" by (simp add: Suc)
  have "(v mod (256 ^ n * 256)) div 256 ^ n = v div 256 ^ n mod 256"
    by (simp add: mod_mult2_eq)
  then have "(of_nat ((v mod 256 ^ Suc n) div 256 ^ n) :: u8) = of_nat (v div 256 ^ n)"
    by (simp add: word_unat_eq_iff unat_byte mult.commute)
  with tail show ?case by simp
qed

lemma be_bytes_be_value [be_facts]: "be_bytes (length bs) (be_value bs) = bs"
proof (induction bs)
  case Nil
  then show ?case by simp
next
  case (Cons b bs)
  have less: "be_value bs < 256 ^ length bs" by (rule be_value_less)
  have "be_bytes (length bs) (be_value (b # bs)) = be_bytes (length bs) (be_value (b # bs) mod 256 ^ length bs)"
    by (simp only: be_bytes_mod)
  also have "be_value (b # bs) mod 256 ^ length bs = be_value bs" using less by simp
  finally have tail: "be_bytes (length bs) (be_value (b # bs)) = bs" using Cons by simp
  have "be_value (b # bs) div 256 ^ length bs = unat b" using less by simp
  with tail show ?case by simp
qed

definition u32_be :: "u32 \<Rightarrow> bytes" where "u32_be w = be_bytes 4 (unat w)"
definition u64_be :: "u64 \<Rightarrow> bytes" where "u64_be w = be_bytes 8 (unat w)"

lemma length_u32_be [simp]: "length (u32_be w) = 4" by (simp add: u32_be_def)
lemma length_u64_be [simp]: "length (u64_be w) = 8" by (simp add: u64_be_def)

lemma be_value_u32_be [simp]: "be_value (u32_be w) = unat w"
  using unat_lt2p [of w] by (simp add: u32_be_def be_value_be_bytes)

lemma be_value_u64_be [simp]: "be_value (u64_be w) = unat w"
  using unat_lt2p [of w] by (simp add: u64_be_def be_value_be_bytes)

section \<open>Text\<close>

definition str_of_bytes :: "bytes \<Rightarrow> string" where
  "str_of_bytes bs = map (\<lambda>b. char_of (unat b)) bs"

definition bytes_of_str :: "string \<Rightarrow> bytes" where
  "bytes_of_str s = map (\<lambda>c. of_nat (of_char c)) s"

lemma length_str_of_bytes [simp]: "length (str_of_bytes bs) = length bs"
  by (simp add: str_of_bytes_def)

lemma length_bytes_of_str [simp]: "length (bytes_of_str s) = length s"
  by (simp add: bytes_of_str_def)

lemma str_of_bytes_of_str [simp]: "str_of_bytes (bytes_of_str s) = s"
proof -
  have "char_of (unat (of_nat (of_char c) :: u8)) = c" for c :: char
  proof -
    show ?thesis by (simp add: unat_byte)
  qed
  then show ?thesis by (simp add: str_of_bytes_def bytes_of_str_def o_def)
qed

lemma bytes_of_str_of_bytes [simp]: "bytes_of_str (str_of_bytes bs) = bs"
proof -
  have "(of_nat (of_char (char_of (unat b))) :: u8) = b" for b :: u8
  proof -
    have "unat b < 256" using unat_lt2p [of b] by simp
    then show ?thesis by (simp add: word_unat_eq_iff unat_byte)
  qed
  then show ?thesis by (simp add: str_of_bytes_def bytes_of_str_def o_def map_idI)
qed

text \<open>
  Well-formed UTF-8 as \<^verbatim>\<open>str::from_utf8\<close> accepts it: no overlong forms, no surrogates, nothing
  beyond U+10FFFF.
\<close>

definition utf8_cont :: "u8 \<Rightarrow> bool" where
  "utf8_cont b \<longleftrightarrow> 0x80 \<le> b \<and> b \<le> 0xBF"

fun utf8_ok :: "bytes \<Rightarrow> bool" where
  "utf8_ok [] = True"
| "utf8_ok (a # xs) =
     (if a \<le> 0x7F then utf8_ok xs
      else case xs of
        [] \<Rightarrow> False
      | b # ys \<Rightarrow>
          if 0xC2 \<le> a \<and> a \<le> 0xDF then utf8_cont b \<and> utf8_ok ys
          else case ys of
            [] \<Rightarrow> False
          | c # zs \<Rightarrow>
              if 0xE0 \<le> a \<and> a \<le> 0xEF then
                utf8_cont b \<and> (a = 0xE0 \<longrightarrow> 0xA0 \<le> b) \<and> (a = 0xED \<longrightarrow> b \<le> 0x9F)
                \<and> utf8_cont c \<and> utf8_ok zs
              else case zs of
                [] \<Rightarrow> False
              | d # ws \<Rightarrow>
                  0xF0 \<le> a \<and> a \<le> 0xF4 \<and> utf8_cont b \<and> (a = 0xF0 \<longrightarrow> 0x90 \<le> b)
                  \<and> (a = 0xF4 \<longrightarrow> b \<le> 0x8F) \<and> utf8_cont c \<and> utf8_cont d \<and> utf8_ok ws)"

definition from_utf8 :: "bytes \<Rightarrow> string option" where
  "from_utf8 bs = (if utf8_ok bs then Some (str_of_bytes bs) else None)"

lemma utf8_ok_ascii: "\<forall>b \<in> set bs. b \<le> 0x7F \<Longrightarrow> utf8_ok bs"
  by (induction bs) auto

definition char_code :: "char \<Rightarrow> nat" where "char_code c = of_char c"

definition ascii_lower :: "char \<Rightarrow> char" where
  "ascii_lower c = (if 65 \<le> char_code c \<and> char_code c \<le> 90 then char_of (char_code c + 32) else c)"

definition to_ascii_lowercase :: "string \<Rightarrow> string" where
  "to_ascii_lowercase s = map ascii_lower s"

definition eq_ignore_ascii_case :: "string \<Rightarrow> string \<Rightarrow> bool" where
  "eq_ignore_ascii_case a b \<longleftrightarrow> to_ascii_lowercase a = to_ascii_lowercase b"

definition is_ascii_digit :: "char \<Rightarrow> bool" where
  "is_ascii_digit c \<longleftrightarrow> 48 \<le> char_code c \<and> char_code c \<le> 57"

definition is_ascii_alphanumeric :: "char \<Rightarrow> bool" where
  "is_ascii_alphanumeric c \<longleftrightarrow> is_ascii_digit c
     \<or> 65 \<le> char_code c \<and> char_code c \<le> 90 \<or> 97 \<le> char_code c \<and> char_code c \<le> 122"

text \<open>\<^verbatim>\<open>u8::is_ascii_whitespace\<close>: space, tab, line feed, form feed, carriage return.\<close>

definition is_ascii_whitespace :: "char \<Rightarrow> bool" where
  "is_ascii_whitespace c \<longleftrightarrow> char_code c \<in> {32, 9, 10, 12, 13}"

fun strip_prefix :: "'a list \<Rightarrow> 'a list \<Rightarrow> 'a list option" where
  "strip_prefix [] ys = Some ys"
| "strip_prefix (x # xs) [] = None"
| "strip_prefix (x # xs) (y # ys) = (if x = y then strip_prefix xs ys else None)"

lemma strip_prefix_eq_Some: "strip_prefix xs ys = Some zs \<longleftrightarrow> ys = xs @ zs"
  by (induction xs ys rule: strip_prefix.induct) auto

definition starts_with :: "'a list \<Rightarrow> 'a list \<Rightarrow> bool" where
  "starts_with xs ys \<longleftrightarrow> strip_prefix xs ys \<noteq> None"

lemma starts_with_iff: "starts_with xs ys \<longleftrightarrow> (\<exists>zs. ys = xs @ zs)"
  by (auto simp: starts_with_def strip_prefix_eq_Some)

section \<open>Decimal integers\<close>

definition digit_char :: "nat \<Rightarrow> char" where "digit_char d = char_of (48 + d)"
definition digit_val :: "char \<Rightarrow> nat" where "digit_val c = char_code c - 48"

fun dec_str :: "nat \<Rightarrow> string" where
  "dec_str n = (if n < 10 then [digit_char n] else dec_str (n div 10) @ [digit_char (n mod 10)])"

declare dec_str.simps [simp del]

definition dec_value :: "string \<Rightarrow> nat" where
  "dec_value s = foldl (\<lambda>acc c. acc * 10 + digit_val c) 0 s"

definition all_digits :: "string \<Rightarrow> bool" where
  "all_digits s \<longleftrightarrow> list_all is_ascii_digit s"

text \<open>\<^verbatim>\<open>str::parse\<close> at an unsigned type: an optional plus sign, at least one digit, no overflow.\<close>

definition parse_uint :: "string \<Rightarrow> 'a::len word option" where
  "parse_uint s =
     (let ds = (case s of c # cs \<Rightarrow> (if c = CHR ''+'' then cs else s) | [] \<Rightarrow> s)
      in if ds \<noteq> [] \<and> all_digits ds then word_of_nat_checked (dec_value ds) else None)"

definition to_string :: "'a::len word \<Rightarrow> string" where
  "to_string w = dec_str (unat w)"

definition canonical_dec :: "string \<Rightarrow> bool" where
  "canonical_dec s \<longleftrightarrow> s \<noteq> [] \<and> all_digits s \<and> (1 < length s \<longrightarrow> hd s \<noteq> CHR ''0'')"

lemma digit_char_code [simp]: "d < 10 \<Longrightarrow> char_code (digit_char d) = 48 + d"
  by (simp add: char_code_def digit_char_def)

lemma digit_val_char [simp]: "d < 10 \<Longrightarrow> digit_val (digit_char d) = d"
  by (simp add: digit_val_def)

lemma is_digit_char [simp]: "d < 10 \<Longrightarrow> is_ascii_digit (digit_char d)"
  by (simp add: is_ascii_digit_def)

lemma digit_char_val: "is_ascii_digit c \<Longrightarrow> digit_char (digit_val c) = c"
  by (simp add: is_ascii_digit_def digit_char_def digit_val_def char_code_def)

lemma digit_val_less: "is_ascii_digit c \<Longrightarrow> digit_val c < 10"
  by (auto simp: is_ascii_digit_def digit_val_def)

lemma zero_char: "CHR ''0'' = digit_char 0"
proof -
  have "of_char (CHR ''0'') = (48 :: nat)" by simp
  then show ?thesis by (metis add_0_right char_of_char digit_char_def)
qed

lemma dec_value_snoc: "dec_value (s @ [c]) = dec_value s * 10 + digit_val c"
  by (simp add: dec_value_def)

lemma dec_value_dec_str [simp]: "dec_value (dec_str n) = n"
proof (induction n rule: dec_str.induct)
  case (1 n)
  show ?case
  proof (cases "n < 10")
    case True
    then show ?thesis by (simp add: dec_str.simps [of n] dec_value_def)
  next
    case False
    with 1 show ?thesis by (simp add: dec_str.simps [of n] dec_value_snoc)
  qed
qed

lemma dec_str_not_Nil [simp]: "dec_str n \<noteq> []"
  by (subst dec_str.simps) simp

lemma all_digits_dec_str [simp]: "all_digits (dec_str n)"
proof (induction n rule: dec_str.induct)
  case (1 n)
  then show ?case by (simp add: dec_str.simps [of n] all_digits_def)
qed

lemma digit_char_inj: "a < 10 \<Longrightarrow> b < 10 \<Longrightarrow> digit_char a = digit_char b \<Longrightarrow> a = b"
  by (metis digit_val_char)

lemma hd_dec_str: "0 < n \<Longrightarrow> hd (dec_str n) \<noteq> CHR ''0''"
proof (induction n rule: dec_str.induct)
  case (1 n)
  show ?case
  proof (cases "n < 10")
    case True
    with "1.prems" digit_char_inj [of n 0] show ?thesis
      by (auto simp: dec_str.simps [of n] zero_char)
  next
    case False
    with 1 show ?thesis by (simp add: dec_str.simps [of n])
  qed
qed

lemma length_dec_str_0: "length (dec_str 0) = 1"
  by (simp add: dec_str.simps)

lemma canonical_dec_str [simp]: "canonical_dec (dec_str n)"
  by (cases "n = 0") (simp_all add: canonical_dec_def hd_dec_str length_dec_str_0)

lemma dec_value_pos: "all_digits s \<Longrightarrow> s \<noteq> [] \<Longrightarrow> hd s \<noteq> CHR ''0'' \<Longrightarrow> 0 < dec_value s"
proof (induction s rule: rev_induct)
  case Nil
  then show ?case by simp
next
  case (snoc c s)
  show ?case
  proof (cases s)
    case Nil
    with snoc.prems have "is_ascii_digit c" and "c \<noteq> CHR ''0''" by (simp_all add: all_digits_def)
    then have "digit_val c \<noteq> 0" by (metis digit_char_val zero_char)
    with Nil show ?thesis by (simp add: dec_value_def)
  next
    case (Cons d ds)
    with snoc have "0 < dec_value s" by (simp add: all_digits_def)
    then show ?thesis by (simp add: dec_value_snoc)
  qed
qed

lemma dec_str_dec_value: "canonical_dec s \<Longrightarrow> dec_str (dec_value s) = s"
proof (induction s rule: rev_induct)
  case Nil
  then show ?case by (simp add: canonical_dec_def)
next
  case (snoc c s)
  from snoc.prems have c: "is_ascii_digit c" and ds: "all_digits s"
    by (simp_all add: canonical_dec_def all_digits_def)
  note lt = digit_val_less [OF c]
  show ?case
  proof (cases "s = []")
    case True
    with c lt show ?thesis
      by (simp add: dec_str.simps [of "digit_val c"] dec_value_def digit_char_val)
  next
    case False
    with snoc.prems have hd: "hd s \<noteq> CHR ''0''" by (simp add: canonical_dec_def)
    with False ds have "canonical_dec s" by (simp add: canonical_dec_def)
    then have IH: "dec_str (dec_value s) = s" by (rule snoc.IH)
    from dec_value_pos [OF ds False hd] lt IH c show ?thesis
      by (simp add: dec_str.simps [of "dec_value s * 10 + digit_val c"] dec_value_snoc digit_char_val)
  qed
qed

lemma not_plus_digit: "is_ascii_digit c \<Longrightarrow> c \<noteq> CHR ''+''"
  by (auto simp: is_ascii_digit_def char_code_def)

lemma parse_uint_digits:
  "s \<noteq> [] \<Longrightarrow> all_digits s \<Longrightarrow> parse_uint s = word_of_nat_checked (dec_value s)"
  by (cases s) (auto simp: parse_uint_def all_digits_def dest: not_plus_digit)

lemma word_of_nat_checked_unat [simp]: "word_of_nat_checked (unat w) = Some (w :: 'a::len word)"
  using unat_lt2p [of w] by (simp add: word_of_nat_checked_def)

lemma parse_uint_to_string [simp]: "parse_uint (to_string w) = Some w"
  by (simp add: to_string_def parse_uint_digits)

lemma word_of_nat_checked_eq_Some:
  "word_of_nat_checked n = Some (w :: 'a::len word) \<longleftrightarrow> unat w = n"
  by (auto simp: word_of_nat_checked_def unat_of_nat intro: unat_lt2p)

lemma parse_uint_canonical:
  fixes w :: "'a::len word"
  shows "canonical_dec s \<Longrightarrow> parse_uint s = Some w \<Longrightarrow> s = to_string w"
  by (metis canonical_dec_def dec_str_dec_value parse_uint_digits to_string_def
      word_of_nat_checked_eq_Some)

end
