(* ===== verification/Ingress_Types.thy ===== *)
theory Ingress_Types
  imports Codec
begin

text \<open>
  The vocabulary of \<^verbatim>\<open>src/src/ingress_authorization.rs\<close>: the migration mode, the finite rejection
  codes, the value-free error, and what the code reads of the types of the \<^verbatim>\<open>media-object\<close> and
  \<^verbatim>\<open>media-capability\<close> crates. Those crates are not in the repository: a value of one of their
  types is the record of what its getters return, an enumeration has the variants the code names
  and one more constructor for the variants it only meets in a wildcard arm, and their functions
  and constants are arguments of the definitions that use them.
\<close>

section \<open>Values of the media-object crate\<close>

datatype media_class = Program | Talkback | TakeChunk | OtherMediaClass nat

datatype operation = Publish | UploadTake | OtherOperation nat

datatype capture_disposition = MonitorOnly | OtherDisposition nat

datatype payload_format = FmtOpus | FmtPcmS24le | FmtFlac | FmtJson | FmtOpaque

datatype media_control_error_code =
  McConfigurationMismatch | McLimitExceeded | McExpired | McOther nat

record media_control_error =
  mc_code :: media_control_error_code
  mc_field :: string

record session_media_identity =
  id_tenant :: string
  id_session :: string
  id_session_epoch :: u64
  id_participant :: string
  id_endpoint :: string
  id_contributor :: string
  id_topology_generation :: u64
  id_media_class :: media_class
  id_source :: "string option"
  id_audience :: "string option"
  id_take :: "string option"

record media_frame_configuration =
  cf_identity :: session_media_identity
  cf_configuration_id :: string
  cf_binding_generation :: u64
  cf_configuration_ref :: u32
  cf_configuration_epoch :: u64
  cf_capture_disposition :: capture_disposition
  cf_payload_format :: payload_format
  cf_capture_timebase_hz :: u32
  cf_channel_count :: u16

record media_frame_envelope =
  ev_binding_generation :: u64
  ev_configuration_ref :: u32
  ev_configuration_epoch :: u64
  ev_sequence :: u64
  ev_payload_bytes :: u32
  ev_duration_ticks :: u32
  ev_capture_pts :: int

section \<open>Values of the media-capability crate\<close>

datatype verifier_error_code =
  VeInvalidSignature | VeAuthorizationRejected | VeReplayAdmissionRejected | VeSegmentTooLarge
| VeOther nat

record verifier_error =
  ve_code :: verifier_error_code
  ve_claims_code :: "media_control_error_code option"
  ve_field :: string

datatype replay_rejection = Replay | Capacity

record replay_admission =
  ra_capability_id :: string
  ra_expires_at :: int

section \<open>Mode, rejection codes, errors\<close>

datatype publish_authorization_mode = Off | Observe | Enforce

fun mode_as_str :: "publish_authorization_mode \<Rightarrow> string" where
  "mode_as_str Off = ''off''"
| "mode_as_str Observe = ''observe''"
| "mode_as_str Enforce = ''enforce''"

datatype publish_rejection_code =
    LegacyPath
  | MissingCapability
  | MalformedAuthorization
  | CapabilityTooLarge
  | MissingEnvelope
  | EnvelopeTooLarge
  | MalformedEnvelope
  | NonCanonicalEnvelope
  | MissingContentLength
  | InvalidContentLength
  | PayloadLengthMismatch
  | UnknownBinding
  | RevokedBinding
  | ConfigurationMismatch
  | InvalidSignature
  | WrongScope
  | CapabilityRejected
  | CapabilityReplay
  | FrameReplay
  | CapabilityExpired
  | ChannelLimit
  | BitrateLimit
  | StreamMismatch
  | TalkbackIsolation
  | DatagramLimit

text \<open>The discriminants, which index the metrics array.\<close>

fun code_index :: "publish_rejection_code \<Rightarrow> nat" where
  "code_index LegacyPath = 0"
| "code_index MissingCapability = 1"
| "code_index MalformedAuthorization = 2"
| "code_index CapabilityTooLarge = 3"
| "code_index MissingEnvelope = 4"
| "code_index EnvelopeTooLarge = 5"
| "code_index MalformedEnvelope = 6"
| "code_index NonCanonicalEnvelope = 7"
| "code_index MissingContentLength = 8"
| "code_index InvalidContentLength = 9"
| "code_index PayloadLengthMismatch = 10"
| "code_index UnknownBinding = 11"
| "code_index RevokedBinding = 12"
| "code_index ConfigurationMismatch = 13"
| "code_index InvalidSignature = 14"
| "code_index WrongScope = 15"
| "code_index CapabilityRejected = 16"
| "code_index CapabilityReplay = 17"
| "code_index FrameReplay = 18"
| "code_index CapabilityExpired = 19"
| "code_index ChannelLimit = 20"
| "code_index BitrateLimit = 21"
| "code_index StreamMismatch = 22"
| "code_index TalkbackIsolation = 23"
| "code_index DatagramLimit = 24"

fun code_as_str :: "publish_rejection_code \<Rightarrow> string" where
  "code_as_str LegacyPath = ''legacy_path''"
| "code_as_str MissingCapability = ''missing_capability''"
| "code_as_str MalformedAuthorization = ''malformed_authorization''"
| "code_as_str CapabilityTooLarge = ''capability_too_large''"
| "code_as_str MissingEnvelope = ''missing_envelope''"
| "code_as_str EnvelopeTooLarge = ''envelope_too_large''"
| "code_as_str MalformedEnvelope = ''malformed_envelope''"
| "code_as_str NonCanonicalEnvelope = ''non_canonical_envelope''"
| "code_as_str MissingContentLength = ''missing_content_length''"
| "code_as_str InvalidContentLength = ''invalid_content_length''"
| "code_as_str PayloadLengthMismatch = ''payload_length_mismatch''"
| "code_as_str UnknownBinding = ''unknown_binding''"
| "code_as_str RevokedBinding = ''revoked_binding''"
| "code_as_str ConfigurationMismatch = ''configuration_mismatch''"
| "code_as_str InvalidSignature = ''invalid_signature''"
| "code_as_str WrongScope = ''wrong_scope''"
| "code_as_str CapabilityRejected = ''capability_rejected''"
| "code_as_str CapabilityReplay = ''capability_replay''"
| "code_as_str FrameReplay = ''frame_replay''"
| "code_as_str CapabilityExpired = ''capability_expired''"
| "code_as_str ChannelLimit = ''channel_limit''"
| "code_as_str BitrateLimit = ''bitrate_limit''"
| "code_as_str StreamMismatch = ''stream_mismatch''"
| "code_as_str TalkbackIsolation = ''talkback_isolation''"
| "code_as_str DatagramLimit = ''datagram_limit''"

definition rejection_code_count :: nat where "rejection_code_count = 25"

definition all_rejection_codes :: "publish_rejection_code list" where
  "all_rejection_codes =
    [LegacyPath, MissingCapability, MalformedAuthorization,
     CapabilityTooLarge, MissingEnvelope, EnvelopeTooLarge,
     MalformedEnvelope, NonCanonicalEnvelope, MissingContentLength,
     InvalidContentLength, PayloadLengthMismatch, UnknownBinding,
     RevokedBinding, ConfigurationMismatch, InvalidSignature,
     WrongScope, CapabilityRejected, CapabilityReplay,
     FrameReplay, CapabilityExpired, ChannelLimit,
     BitrateLimit, StreamMismatch, TalkbackIsolation,
     DatagramLimit]"

record publish_ingress_error =
  err_code :: publish_rejection_code
  err_field :: string

text \<open>\<^verbatim>\<open>PublishIngressError::new\<close> and \<^verbatim>\<open>integration\<close>.\<close>

definition ingress_error :: "publish_rejection_code \<Rightarrow> string \<Rightarrow> publish_ingress_error" where
  "ingress_error code field = \<lparr>err_code = code, err_field = field\<rparr>"

text \<open>\<^verbatim>\<open>Display\<close>: only the label is printed, never the field.\<close>

definition display_error :: "publish_ingress_error \<Rightarrow> string" where
  "display_error e = code_as_str (err_code e) @ '': request rejected''"

lemma err_code_ingress_error [simp]: "err_code (ingress_error c f) = c"
  by (simp add: ingress_error_def)

lemma err_field_ingress_error [simp]: "err_field (ingress_error c f) = f"
  by (simp add: ingress_error_def)

text \<open>The codes are ordered by their discriminants, as the derived \<^verbatim>\<open>Ord\<close> orders them.\<close>

lemma code_index_less: "code_index c < rejection_code_count"
  by (cases c) (simp_all add: rejection_code_count_def)

lemma all_rejection_codes_index: "map code_index all_rejection_codes = [0..<rejection_code_count]"
  by (simp add: all_rejection_codes_def rejection_code_count_def upt_rec)

lemma nth_all_rejection_codes: "all_rejection_codes ! code_index c = c"
  by (cases c) (simp_all add: all_rejection_codes_def)

lemma code_index_inj: "code_index a = code_index b \<Longrightarrow> a = b"
  by (metis nth_all_rejection_codes)

instantiation publish_rejection_code :: linorder
begin

definition less_eq_publish_rejection_code :: "publish_rejection_code \<Rightarrow> publish_rejection_code \<Rightarrow> bool" where
  "less_eq_publish_rejection_code a b \<longleftrightarrow> code_index a \<le> code_index b"

definition less_publish_rejection_code :: "publish_rejection_code \<Rightarrow> publish_rejection_code \<Rightarrow> bool" where
  "less_publish_rejection_code a b \<longleftrightarrow> code_index a < code_index b"

instance
  by standard
    (auto simp: less_eq_publish_rejection_code_def less_publish_rejection_code_def intro: code_index_inj)

end

lemma set_all_rejection_codes: "c \<in> set all_rejection_codes"
proof -
  have "length (map code_index all_rejection_codes) = rejection_code_count"
    by (simp add: all_rejection_codes_index)
  then have "code_index c < length all_rejection_codes" using code_index_less [of c] by simp
  from nth_mem [OF this] show ?thesis by (simp add: nth_all_rejection_codes)
qed

lemma distinct_all_rejection_codes: "distinct all_rejection_codes"
  using distinct_upt [of 0 rejection_code_count]
  by (metis all_rejection_codes_index distinct_map)

section \<open>Shared checks\<close>

text \<open>\<^verbatim>\<open>validate_talkback_isolation\<close>.\<close>

definition validate_talkback_isolation :: "media_frame_configuration \<Rightarrow> publish_ingress_error + unit" where
  "validate_talkback_isolation cfg =
     (if id_media_class (cf_identity cfg) = Talkback
         \<and> (cf_capture_disposition cfg \<noteq> MonitorOnly \<or> cf_payload_format cfg \<noteq> FmtOpus
            \<or> cf_capture_timebase_hz cfg \<noteq> 48000 \<or> cf_channel_count cfg \<noteq> 1)
      then Inl (ingress_error TalkbackIsolation ''capture_disposition'')
      else Inr ())"

text \<open>\<^verbatim>\<open>map_envelope_error\<close> and \<^verbatim>\<open>map_verifier_error\<close>.\<close>

definition map_envelope_error :: "media_control_error \<Rightarrow> publish_ingress_error" where
  "map_envelope_error e =
     ingress_error
       (case mc_code e of
          McConfigurationMismatch \<Rightarrow> ConfigurationMismatch
        | McLimitExceeded \<Rightarrow> EnvelopeTooLarge
        | _ \<Rightarrow> MalformedEnvelope)
       (mc_field e)"

definition map_verifier_error :: "verifier_error \<Rightarrow> publish_ingress_error" where
  "map_verifier_error e =
     ingress_error
       (if ve_claims_code e = Some McExpired then CapabilityExpired
        else case ve_code e of
          VeInvalidSignature \<Rightarrow> InvalidSignature
        | VeAuthorizationRejected \<Rightarrow> WrongScope
        | VeReplayAdmissionRejected \<Rightarrow> CapabilityReplay
        | VeSegmentTooLarge \<Rightarrow> CapabilityTooLarge
        | _ \<Rightarrow> CapabilityRejected)
       (ve_field e)"

end
