(* ===== verification/Binding_Registry.thy ===== *)
theory Binding_Registry
  imports Ingress_Types
begin

text \<open>
  Control-installed publish bindings: \<^verbatim>\<open>CurrentPublishBinding::new\<close> and the
  \<^verbatim>\<open>PublishBindingRegistry\<close> with its synchronous invalidation
  (\<^verbatim>\<open>src/src/ingress_authorization.rs\<close>). The registry's invariant says that revisions never
  exceed the counter and that one carrier stream belongs to one identity; the history lemmas say
  that a revoked coordinate is never resolved again.
\<close>

record control_limits =
  max_generation :: u64
  max_clock_skew_seconds :: int
  max_json_bytes :: nat
  max_compact_jws_bytes :: nat

record current_publish_binding =
  b_configuration :: media_frame_configuration
  b_legacy_stream_id :: u64
  b_media_authorization_epoch :: u64
  b_subject_grant_epoch :: u64
  b_media_policy_version :: u64
  b_class_authorization_epoch :: "u64 option"
  b_operation :: operation
  b_edge_id :: string
  b_clock_skew_seconds :: int

text \<open>\<^verbatim>\<open>CurrentPublishBinding::new\<close>: the argument is the unchecked binding.\<close>

definition new_binding :: "control_limits \<Rightarrow> current_publish_binding \<Rightarrow> publish_ingress_error + current_publish_binding" where
  "new_binding lim b =
     (let bad_generation = (\<lambda>g. g = 0 \<or> max_generation lim < g);
          expected_operation =
            (if id_media_class (cf_identity (b_configuration b)) = TakeChunk then UploadTake else Publish)
      in if list_ex bad_generation
              [b_media_authorization_epoch b, b_subject_grant_epoch b, b_media_policy_version b]
         then Inl (ingress_error ConfigurationMismatch ''authorization_generation'')
         else if (case b_class_authorization_epoch b of None \<Rightarrow> False | Some v \<Rightarrow> bad_generation v)
         then Inl (ingress_error ConfigurationMismatch ''class_authorization_epoch'')
         else if \<not> (0 \<le> b_clock_skew_seconds b \<and> b_clock_skew_seconds b \<le> max_clock_skew_seconds lim)
         then Inl (ingress_error ConfigurationMismatch ''clock_skew_seconds'')
         else if b_operation b \<noteq> expected_operation
         then Inl (ingress_error ConfigurationMismatch ''operation'')
         else res_bind (validate_talkback_isolation (b_configuration b)) (\<lambda>_. Inr b))"

record binding_key =
  bk_binding_generation :: u64
  bk_configuration_ref :: u32
  bk_configuration_epoch :: u64

definition key_from_configuration :: "media_frame_configuration \<Rightarrow> binding_key" where
  "key_from_configuration c =
     \<lparr>bk_binding_generation = cf_binding_generation c, bk_configuration_ref = cf_configuration_ref c,
      bk_configuration_epoch = cf_configuration_epoch c\<rparr>"

definition key_from_envelope :: "media_frame_envelope \<Rightarrow> binding_key" where
  "key_from_envelope e =
     \<lparr>bk_binding_generation = ev_binding_generation e, bk_configuration_ref = ev_configuration_ref e,
      bk_configuration_epoch = ev_configuration_epoch e\<rparr>"

definition binding_key_of :: "current_publish_binding \<Rightarrow> binding_key" where
  "binding_key_of b = key_from_configuration (b_configuration b)"

record registered_binding =
  rb_binding :: current_publish_binding
  rb_revision :: u64
  rb_active :: bool

record registry =
  next_revision :: u64
  bindings :: "(binding_key, registered_binding) assoc"

definition new_registry :: registry where
  "new_registry = \<lparr>next_revision = 0, bindings = []\<rparr>"

definition bump_revision :: "registry \<Rightarrow> u64" where
  "bump_revision r = max (sat_add (next_revision r) 1) 1"

text \<open>\<^verbatim>\<open>install\<close>: a stream bound to another identity and a used coordinate are refused.\<close>

definition install :: "registry \<Rightarrow> current_publish_binding \<Rightarrow> (publish_ingress_error + u64) \<times> registry" where
  "install r b =
     (if list_ex (\<lambda>(k, e). b_legacy_stream_id (rb_binding e) = b_legacy_stream_id b
                   \<and> cf_identity (b_configuration (rb_binding e)) \<noteq> cf_identity (b_configuration b))
           (bindings r)
      then (Inl (ingress_error StreamMismatch ''legacy_stream_id''), r)
      else if contains_key (binding_key_of b) (bindings r)
      then (Inl (ingress_error ConfigurationMismatch ''configuration_coordinates''), r)
      else let rev = bump_revision r
        in (Inr rev,
            \<lparr>next_revision = rev,
             bindings = AList.update (binding_key_of b)
               \<lparr>rb_binding = b, rb_revision = rev, rb_active = True\<rparr> (bindings r)\<rparr>))"

definition invalidate :: "registry \<Rightarrow> binding_key \<Rightarrow> bool \<times> registry" where
  "invalidate r k =
     (case map_of (bindings r) k of
        Some e \<Rightarrow>
          if rb_active e then
            let rev = bump_revision r
            in (True, \<lparr>next_revision = rev,
                       bindings = AList.update k (e\<lparr>rb_active := False, rb_revision := rev\<rparr>) (bindings r)\<rparr>)
          else (False, r)
      | None \<Rightarrow> (False, r))"

definition resolve :: "registry \<Rightarrow> binding_key \<Rightarrow> publish_ingress_error + registered_binding" where
  "resolve r k =
     (case map_of (bindings r) k of
        None \<Rightarrow> Inl (ingress_error UnknownBinding ''configuration_ref'')
      | Some e \<Rightarrow>
          if \<not> rb_active e then Inl (ingress_error RevokedBinding ''configuration_ref'') else Inr e)"

definition revalidate :: "registry \<Rightarrow> binding_key \<Rightarrow> u64 \<Rightarrow> publish_ingress_error + unit" where
  "revalidate r k revision =
     res_bind (resolve r k) (\<lambda>e.
       if rb_revision e \<noteq> revision
       then Inl (ingress_error RevokedBinding ''configuration_ref'') else Inr ())"

section \<open>Installation and invalidation\<close>

lemma resolve_Inr: "resolve r k = Inr e \<longleftrightarrow> map_of (bindings r) k = Some e \<and> rb_active e"
  by (auto simp: resolve_def split: option.splits if_splits)

lemma revalidate_Inr:
  "revalidate r k v = Inr () \<longleftrightarrow> (\<exists>e. map_of (bindings r) k = Some e \<and> rb_active e \<and> rb_revision e = v)"
  by (auto simp: revalidate_def res_ok resolve_Inr split: if_splits)

lemma install_Inr:
  assumes "install r b = (Inr v, r')"
  shows "v = bump_revision r" and "next_revision r' = v"
    and "map_of (bindings r') = (map_of (bindings r))
           (binding_key_of b \<mapsto> \<lparr>rb_binding = b, rb_revision = v, rb_active = True\<rparr>)"
    and "map_of (bindings r) (binding_key_of b) = None"
  using assms
  by (auto simp: install_def Let_def assoc_facts contains_key_def split: if_splits)

lemma install_Inl: "install r b = (Inl e, r') \<Longrightarrow> r' = r"
  by (auto simp: install_def Let_def split: if_splits)

lemma invalidate_True:
  assumes "invalidate r k = (True, r')"
  obtains e where "map_of (bindings r) k = Some e" "rb_active e"
    "next_revision r' = bump_revision r"
    "map_of (bindings r') = (map_of (bindings r))(k \<mapsto> e\<lparr>rb_active := False, rb_revision := bump_revision r\<rparr>)"
  using assms
  by (auto simp: invalidate_def Let_def assoc_facts split: option.splits if_splits)

lemma invalidate_False: "invalidate r k = (False, r') \<Longrightarrow> r' = r"
  by (auto simp: invalidate_def Let_def split: option.splits if_splits)

lemma invalidate_iff: "fst (invalidate r k) \<longleftrightarrow> is_ok (resolve r k)"
  by (auto simp: invalidate_def resolve_def Let_def split: option.splits)

section \<open>The registry invariant\<close>

abbreviation carrier :: "registered_binding \<Rightarrow> u64" where
  "carrier e \<equiv> b_legacy_stream_id (rb_binding e)"

abbreviation owner :: "registered_binding \<Rightarrow> session_media_identity" where
  "owner e \<equiv> cf_identity (b_configuration (rb_binding e))"

definition stream_identity_unique :: "registry \<Rightarrow> bool" where
  "stream_identity_unique r \<longleftrightarrow>
     (\<forall>k e k' e'. map_of (bindings r) k = Some e \<longrightarrow> map_of (bindings r) k' = Some e'
        \<longrightarrow> carrier e = carrier e' \<longrightarrow> owner e = owner e')"

lemma stream_identity_uniqueD:
  "stream_identity_unique r \<Longrightarrow> map_of (bindings r) k = Some e \<Longrightarrow> map_of (bindings r) k' = Some e'
   \<Longrightarrow> carrier e = carrier e' \<Longrightarrow> owner e = owner e'"
  unfolding stream_identity_unique_def by blast

lemma stream_identity_unique_update:
  assumes "stream_identity_unique r"
    and "map_of (bindings r') = (map_of (bindings r))(k \<mapsto> e)"
    and "\<And>k' e'. map_of (bindings r) k' = Some e' \<Longrightarrow> carrier e' = carrier e \<Longrightarrow> owner e' = owner e"
  shows "stream_identity_unique r'"
  unfolding stream_identity_unique_def
proof (intro allI impI)
  fix k1 e1 k2 e2
  assume one: "map_of (bindings r') k1 = Some e1" and two: "map_of (bindings r') k2 = Some e2"
    and same: "carrier e1 = carrier e2"
  have "e1 = e \<or> map_of (bindings r) k1 = Some e1" using one assms(2) by (auto split: if_splits)
  moreover have "e2 = e \<or> map_of (bindings r) k2 = Some e2" using two assms(2) by (auto split: if_splits)
  ultimately show "owner e1 = owner e2"
    using same assms(3) stream_identity_uniqueD [OF assms(1)] by metis
qed

definition registry_inv :: "registry \<Rightarrow> bool" where
  "registry_inv r \<longleftrightarrow> wf_assoc (bindings r) \<and> stream_identity_unique r
     \<and> (\<forall>k e. map_of (bindings r) k = Some e \<longrightarrow>
          binding_key_of (rb_binding e) = k \<and> 1 \<le> rb_revision e \<and> rb_revision e \<le> next_revision r)"

lemma bump_revision_ge: "next_revision r \<le> bump_revision r" "1 \<le> bump_revision r"
  using le_sat_add [of "next_revision r" 1] by (auto simp: bump_revision_def le_max_iff_disj)

lemma registry_inv_new [simp]: "registry_inv new_registry"
  by (simp add: registry_inv_def new_registry_def stream_identity_unique_def)

lemma install_no_conflict:
  assumes "wf_assoc (bindings r)" and "install r b = (Inr v, r')"
    and "map_of (bindings r) k = Some e" and "b_legacy_stream_id (rb_binding e) = b_legacy_stream_id b"
  shows "cf_identity (b_configuration (rb_binding e)) = cf_identity (b_configuration b)"
proof -
  from assms(3) have "(k, e) \<in> set (bindings r)" by (rule map_of_SomeD)
  with assms(2,4) show ?thesis by (auto simp: install_def Let_def list_ex_iff split: if_splits)
qed

lemma install_wf: "wf_assoc (bindings r) \<Longrightarrow> wf_assoc (bindings (snd (install r b)))"
  by (auto simp: install_def Let_def)

lemma invalidate_wf: "wf_assoc (bindings r) \<Longrightarrow> wf_assoc (bindings (snd (invalidate r k)))"
  by (auto simp: invalidate_def Let_def split: option.splits)

lemma entries_in_range_update:
  assumes inv: "registry_inv r"
    and upd: "map_of (bindings r') = (map_of (bindings r))(k \<mapsto> e)"
    and new: "binding_key_of (rb_binding e) = k" "1 \<le> rb_revision e" "rb_revision e \<le> next_revision r'"
    and grow: "next_revision r \<le> next_revision r'"
  shows "\<forall>k' e'. map_of (bindings r') k' = Some e' \<longrightarrow>
    binding_key_of (rb_binding e') = k' \<and> 1 \<le> rb_revision e' \<and> rb_revision e' \<le> next_revision r'"
proof (intro allI impI)
  fix k' e'
  assume look: "map_of (bindings r') k' = Some e'"
  show "binding_key_of (rb_binding e') = k' \<and> 1 \<le> rb_revision e' \<and> rb_revision e' \<le> next_revision r'"
  proof (cases "k' = k")
    case True
    with look upd new show ?thesis by simp
  next
    case False
    with look upd have "map_of (bindings r) k' = Some e'" by simp
    with inv have "binding_key_of (rb_binding e') = k'" "1 \<le> rb_revision e'" "rb_revision e' \<le> next_revision r"
      by (simp_all add: registry_inv_def)
    with grow show ?thesis by (meson order_trans)
  qed
qed

lemma registry_inv_install:
  assumes inv: "registry_inv r"
  shows "registry_inv (snd (install r b))"
proof (cases "install r b")
  case (Pair res r')
  show ?thesis
  proof (cases res)
    case (Inl e)
    with Pair inv show ?thesis by (auto dest: install_Inl)
  next
    case (Inr v)
    with Pair have ok: "install r b = (Inr v, r')" by simp
    note facts = install_Inr [OF ok]
    from inv have wf: "wf_assoc (bindings r)" by (simp add: registry_inv_def)
    have wf': "wf_assoc (bindings r')" using install_wf [OF wf, of b] ok by simp
    have "stream_identity_unique r'"
    proof (rule stream_identity_unique_update [OF _ facts(3)])
      show "stream_identity_unique r" using inv by (simp add: registry_inv_def)
    qed (use install_no_conflict [OF wf ok] in simp)
    moreover have "\<forall>k e. map_of (bindings r') k = Some e \<longrightarrow>
        binding_key_of (rb_binding e) = k \<and> 1 \<le> rb_revision e \<and> rb_revision e \<le> next_revision r'"
      by (rule entries_in_range_update [OF inv facts(3)]) (simp_all add: facts(1,2) bump_revision_ge)
    ultimately show ?thesis using wf' by (simp add: registry_inv_def ok)
  qed
qed

lemma registry_inv_invalidate:
  assumes inv: "registry_inv r"
  shows "registry_inv (snd (invalidate r k))"
proof (cases "invalidate r k")
  case (Pair res r')
  show ?thesis
  proof (cases res)
    case False
    with Pair inv show ?thesis by (auto dest: invalidate_False)
  next
    case True
    with Pair have ok: "invalidate r k = (True, r')" by simp
    from ok obtain e where e: "map_of (bindings r) k = Some e" "rb_active e"
      and rev: "next_revision r' = bump_revision r"
      and upd: "map_of (bindings r') = (map_of (bindings r))(k \<mapsto> e\<lparr>rb_active := False, rb_revision := bump_revision r\<rparr>)"
      by (rule invalidate_True)
    from inv have wf: "wf_assoc (bindings r)" by (simp add: registry_inv_def)
    have wf': "wf_assoc (bindings r')" using invalidate_wf [OF wf, of k] ok by simp
    have sid: "stream_identity_unique r" using inv by (simp add: registry_inv_def)
    have "stream_identity_unique r'"
      by (rule stream_identity_unique_update [OF sid upd])
        (use stream_identity_uniqueD [OF sid _ e(1)] in simp)
    moreover have "binding_key_of (rb_binding e) = k" using inv e by (simp add: registry_inv_def)
    then have "\<forall>k' e'. map_of (bindings r') k' = Some e' \<longrightarrow>
        binding_key_of (rb_binding e') = k' \<and> 1 \<le> rb_revision e' \<and> rb_revision e' \<le> next_revision r'"
      by (intro entries_in_range_update [OF inv upd]) (simp_all add: rev bump_revision_ge)
    ultimately show ?thesis using wf' by (simp add: registry_inv_def ok)
  qed
qed

section \<open>Histories of control events\<close>

datatype registry_event = Install current_publish_binding | Invalidate binding_key

fun registry_step :: "registry \<Rightarrow> registry_event \<Rightarrow> registry" where
  "registry_step r (Install b) = snd (install r b)"
| "registry_step r (Invalidate k) = snd (invalidate r k)"

definition registry_run :: "registry \<Rightarrow> registry_event list \<Rightarrow> registry" where
  "registry_run r es = foldl registry_step r es"

lemma registry_run_inv: "registry_inv r \<Longrightarrow> registry_inv (registry_run r es)"
proof (induction es arbitrary: r)
  case Nil
  then show ?case by (simp add: registry_run_def)
next
  case (Cons x es)
  then have "registry_inv (registry_step r x)"
    by (cases x) (simp_all add: registry_inv_install registry_inv_invalidate)
  from Cons.IH [OF this] show ?case by (simp add: registry_run_def)
qed

text \<open>An installed coordinate keeps its binding; an inactive one stays inactive.\<close>

definition coordinate_kept :: "binding_key \<Rightarrow> registered_binding \<Rightarrow> registry \<Rightarrow> bool" where
  "coordinate_kept k e r \<longleftrightarrow>
     (\<exists>e'. map_of (bindings r) k = Some e' \<and> rb_binding e' = rb_binding e
        \<and> (rb_active e' \<longrightarrow> e' = e))"

lemma coordinate_kept_step: "coordinate_kept k e r \<Longrightarrow> coordinate_kept k e (registry_step r x)"
proof (cases x)
  case (Install b)
  assume kept: "coordinate_kept k e r"
  show ?thesis
  proof (cases "install r b")
    case (Pair res r')
    show ?thesis
    proof (cases res)
      case (Inl a)
      with Pair kept Install show ?thesis by (auto dest: install_Inl)
    next
      case (Inr v)
      with Pair have ok: "install r b = (Inr v, r')" by simp
      have "k \<noteq> binding_key_of b"
        using kept install_Inr(4) [OF ok] by (auto simp: coordinate_kept_def)
      then show ?thesis using kept Install by (simp add: coordinate_kept_def ok install_Inr(3) [OF ok])
    qed
  qed
next
  case (Invalidate k')
  assume kept: "coordinate_kept k e r"
  show ?thesis
  proof (cases "invalidate r k'")
    case (Pair res r')
    show ?thesis
    proof (cases res)
      case True
      with Pair have "invalidate r k' = (True, r')" by simp
      then show ?thesis
        using kept Invalidate Pair by (auto simp: coordinate_kept_def elim!: invalidate_True)
    next
      case False
      with Pair kept Invalidate show ?thesis by (auto dest: invalidate_False)
    qed
  qed
qed

lemma coordinate_kept_run: "coordinate_kept k e r \<Longrightarrow> coordinate_kept k e (registry_run r es)"
  by (induction es arbitrary: r) (simp_all add: registry_run_def coordinate_kept_step)

lemma revoked_coordinate_stays:
  assumes "map_of (bindings r) k = Some e" and "\<not> rb_active e"
  shows "resolve (registry_run r es) k = Inl (ingress_error RevokedBinding ''configuration_ref'')"
proof -
  have "coordinate_kept k e r" using assms by (simp add: coordinate_kept_def)
  from coordinate_kept_run [OF this, of es] assms(2) show ?thesis
    by (auto simp: coordinate_kept_def resolve_def)
qed

lemma invalidate_revokes:
  assumes "fst (invalidate r k)"
  shows "resolve (registry_run (snd (invalidate r k)) es) k
     = Inl (ingress_error RevokedBinding ''configuration_ref'')"
proof -
  obtain r' where ok: "invalidate r k = (True, r')" using assms by (cases "invalidate r k") simp
  then obtain e where "map_of (bindings r') k = Some (e\<lparr>rb_active := False, rb_revision := bump_revision r\<rparr>)"
    by (auto elim!: invalidate_True)
  from revoked_coordinate_stays [OF this] show ?thesis by (simp add: ok)
qed

end
