(* ===== verification/Admission_Windows.thy ===== *)
theory Admission_Windows
  imports Binding_Registry
begin

text \<open>
  The two replay barriers of \<^verbatim>\<open>src/src/ingress_authorization.rs\<close>: the 128-frame sliding
  \<^verbatim>\<open>SequenceWindow\<close> of one capability on one binding, and the \<^verbatim>\<open>AdmissionGuard\<close> that ties a
  capability to the first coordinates it was used for. The locale \<open>replay_window\<close> states what the
  gate relies on in a window; the bit window is shown to implement it.
\<close>

section \<open>What a replay window promises\<close>

fun accepted :: "('w \<Rightarrow> 's \<Rightarrow> bool \<times> 'w) \<Rightarrow> 'w \<Rightarrow> 's list \<Rightarrow> 's list" where
  "accepted admit w [] = []"
| "accepted admit w (s # ss) =
     (case admit w s of (ok, w') \<Rightarrow> if ok then s # accepted admit w' ss else accepted admit w' ss)"

locale replay_window =
  fixes first_w :: "'s \<Rightarrow> 'w"
    and admit_w :: "'w \<Rightarrow> 's \<Rightarrow> bool \<times> 'w"
    and tracks :: "'w \<Rightarrow> 's set \<Rightarrow> bool"
  assumes tracks_first: "tracks (first_w s) {s}"
    and admit_fresh: "tracks w A \<Longrightarrow> admit_w w s = (True, w') \<Longrightarrow> s \<notin> A \<and> tracks w' (insert s A)"
    and admit_refused: "tracks w A \<Longrightarrow> admit_w w s = (False, w') \<Longrightarrow> tracks w' A"
begin

lemma admit_cases:
  assumes "tracks w A" and "admit_w w s = (ok, w')"
  shows "tracks w' (if ok then insert s A else A)" and "ok \<Longrightarrow> s \<notin> A"
  using assms admit_fresh admit_refused by (cases ok; simp)+

lemma accepted_avoids: "tracks w A \<Longrightarrow> set (accepted admit_w w ss) \<inter> A = {}"
proof (induction ss arbitrary: w A)
  case Nil
  then show ?case by simp
next
  case (Cons s ss)
  obtain ok w' where step: "admit_w w s = (ok, w')" by (cases "admit_w w s")
  note next_state = admit_cases [OF Cons.prems step]
  from Cons.IH [OF next_state(1)] next_state(2) show ?case
    by (cases ok) (auto simp: step)
qed

lemma accepted_distinct: "tracks w A \<Longrightarrow> distinct (accepted admit_w w ss)"
proof (induction ss arbitrary: w A)
  case Nil
  then show ?case by simp
next
  case (Cons s ss)
  obtain ok w' where step: "admit_w w s = (ok, w')" by (cases "admit_w w s")
  note next_state = admit_cases [OF Cons.prems step]
  from Cons.IH [OF next_state(1)] accepted_avoids [OF next_state(1), of ss] show ?case
    by (cases ok) (auto simp: step)
qed

end

section \<open>The sliding bit window\<close>

definition sequence_window_bits :: u64 where "sequence_window_bits = 128"

record sequence_window =
  win_highest :: u64
  win_seen :: u128

definition window_first :: "u64 \<Rightarrow> sequence_window" where
  "window_first s = \<lparr>win_highest = s, win_seen = 1\<rparr>"

definition window_admit :: "sequence_window \<Rightarrow> u64 \<Rightarrow> bool \<times> sequence_window" where
  "window_admit w s =
     (if win_highest w < s then
        let shift = s - win_highest w
        in (True, w\<lparr>win_seen := (if sequence_window_bits \<le> shift then 1
                                  else push_bit (unat shift) (win_seen w) OR 1),
                    win_highest := s\<rparr>)
      else
        let distance = win_highest w - s
        in if sequence_window_bits \<le> distance then (False, w)
           else let b = push_bit (unat distance) (1 :: u128)
             in if win_seen w AND b \<noteq> 0 then (False, w)
                else (True, w\<lparr>win_seen := win_seen w OR b\<rparr>))"

text \<open>The numbers a window remembers: those within 128 of the highest whose bit is set.\<close>

definition window_recent :: "sequence_window \<Rightarrow> nat set" where
  "window_recent w = {n. n \<le> unat (win_highest w) \<and> unat (win_highest w) < n + 128
     \<and> bit (win_seen w) (unat (win_highest w) - n)}"

text \<open>
  A window tracks the set of every sequence number ever admitted when the highest is the largest
  of them and the bits say exactly which of the last 128 were admitted.
\<close>

definition window_tracks :: "sequence_window \<Rightarrow> u64 set \<Rightarrow> bool" where
  "window_tracks w A \<longleftrightarrow> win_highest w \<in> A \<and> (\<forall>s \<in> A. s \<le> win_highest w)
     \<and> window_recent w = {n \<in> unat ` A. unat (win_highest w) < n + 128}"

lemma seen_bit:
  "x AND push_bit n (1 :: u128) = 0 \<longleftrightarrow> \<not> bit x n"
  "x AND 2 ^ n = (0 :: u128) \<longleftrightarrow> \<not> bit x n"
  by (simp_all add: push_bit_of_1 and_exp_eq_0_iff_not_bit)

lemma bits_le_iff: "sequence_window_bits \<le> x \<longleftrightarrow> 128 \<le> unat x"
  by (simp add: sequence_window_bits_def word_le_nat_alt)

text \<open>One admission, case by case, on the remembered set.\<close>

lemma window_admit_newer:
  assumes "win_highest w < s"
  shows "fst (window_admit w s)" and "win_highest (snd (window_admit w s)) = s"
    and "window_recent (snd (window_admit w s))
       = insert (unat s) {n \<in> window_recent w. unat s < n + 128}"
proof -
  let ?h = "unat (win_highest w)" and ?s = "unat s"
  from assms have less: "?h < ?s" by (simp add: word_less_nat_alt)
  have shift: "unat (s - win_highest w) = ?s - ?h"
    using assms by (intro unat_sub) simp
  show "fst (window_admit w s)" and "win_highest (snd (window_admit w s)) = s"
    using assms by (simp_all add: window_admit_def Let_def)
  have seen: "win_seen (snd (window_admit w s))
      = (if 128 \<le> ?s - ?h then 1 else push_bit (?s - ?h) (win_seen w) OR 1)"
    using assms by (simp add: window_admit_def Let_def bits_le_iff shift)
  have high: "win_highest (snd (window_admit w s)) = s"
    using assms by (simp add: window_admit_def Let_def)
  have one: "bit (1 :: u128) k \<longleftrightarrow> k = 0" for k by (simp add: bit_1_iff)
  show "window_recent (snd (window_admit w s)) = insert ?s {n \<in> window_recent w. ?s < n + 128}"
  proof (rule set_eqI)
    fix n
    show "n \<in> window_recent (snd (window_admit w s)) \<longleftrightarrow> n \<in> insert ?s {n \<in> window_recent w. ?s < n + 128}"
    proof (cases "128 \<le> ?s - ?h")
      case True
      with less show ?thesis
        by (auto simp: window_recent_def seen one high)
    next
      case False
      have "bit (push_bit (?s - ?h) (win_seen w)) (?s - n) \<longleftrightarrow> n \<le> ?h \<and> bit (win_seen w) (?h - n)"
        if "n \<le> ?s" "?s < n + 128"
        using that less by (auto simp: bit_push_bit_iff)
      with False less show ?thesis
        by (auto simp: window_recent_def seen one high bit_or_iff)
    qed
  qed
qed

lemma window_admit_older:
  assumes "s \<le> win_highest w"
  shows "fst (window_admit w s) \<longleftrightarrow> unat (win_highest w) < unat s + 128 \<and> unat s \<notin> window_recent w"
    and "win_highest (snd (window_admit w s)) = win_highest w"
    and "fst (window_admit w s) \<Longrightarrow> window_recent (snd (window_admit w s)) = insert (unat s) (window_recent w)"
    and "\<not> fst (window_admit w s) \<Longrightarrow> snd (window_admit w s) = w"
proof -
  let ?h = "unat (win_highest w)" and ?s = "unat s"
  from assms have le: "?s \<le> ?h" by (simp add: word_le_nat_alt)
  have dist: "unat (win_highest w - s) = ?h - ?s" using assms by (rule unat_sub)
  note def = window_admit_def Let_def bits_le_iff dist seen_bit
  show "fst (window_admit w s) \<longleftrightarrow> ?h < ?s + 128 \<and> ?s \<notin> window_recent w"
    using assms le by (auto simp: def window_recent_def)
  show "win_highest (snd (window_admit w s)) = win_highest w"
    using leD [OF assms] by (simp add: window_admit_def Let_def)
  show "snd (window_admit w s) = w" if "\<not> fst (window_admit w s)"
    using that assms by (auto simp: def split: if_splits)
  show "window_recent (snd (window_admit w s)) = insert ?s (window_recent w)" if ok: "fst (window_admit w s)"
  proof -
    have near: "?h < ?s + 128" using ok assms le by (auto simp: def split: if_splits)
    have st: "snd (window_admit w s) = w\<lparr>win_seen := win_seen w OR push_bit (?h - ?s) 1\<rparr>"
      using ok assms by (auto simp: def split: if_splits)
    have "bit (push_bit (?h - ?s) (1 :: u128)) (?h - n) \<longleftrightarrow> n = ?s"
      if "n \<le> ?h" "?h < n + 128" for n
      using that le near by (auto simp: push_bit_of_1 bit_exp_iff)
    then show ?thesis using le near
      by (auto simp: st window_recent_def bit_or_iff push_bit_of_1 bit_exp_iff)
  qed
qed

text \<open>The set of numbers admitted so far is tracked by the window.\<close>

lemma window_tracks_first: "window_tracks (window_first s) {s}"
  by (auto simp: window_tracks_def window_recent_def window_first_def bit_1_iff)

lemma window_recent_iff:
  assumes "window_tracks w A" and "unat (win_highest w) < unat s + 128"
  shows "unat s \<in> window_recent w \<longleftrightarrow> s \<in> A"
  using assms by (auto simp: window_tracks_def simp flip: word_unat_eq_iff)

lemma window_tracks_newer:
  assumes tr: "window_tracks w A" and new: "win_highest w < s"
  shows "s \<notin> A" and "window_tracks (snd (window_admit w s)) (insert s A)"
proof -
  from tr have le: "\<And>x. x \<in> A \<Longrightarrow> x \<le> win_highest w"
    and rec: "window_recent w = {n \<in> unat ` A. unat (win_highest w) < n + 128}"
    by (auto simp: window_tracks_def)
  from le new show "s \<notin> A" by force
  have less: "unat (win_highest w) < unat s" using new by (simp add: word_less_nat_alt)
  have top: "\<forall>x \<in> insert s A. x \<le> s" using le new by force
  have "insert (unat s) {n \<in> window_recent w. unat s < n + 128}
      = {n \<in> unat ` insert s A. unat s < n + 128}"
    using less by (auto simp: rec)
  with top show "window_tracks (snd (window_admit w s)) (insert s A)"
    by (simp add: window_tracks_def window_admit_newer [OF new])
qed

lemma window_tracks_older:
  assumes tr: "window_tracks w A" and old: "s \<le> win_highest w"
  shows "fst (window_admit w s) \<longleftrightarrow> unat (win_highest w) < unat s + 128 \<and> s \<notin> A"
    and "fst (window_admit w s) \<Longrightarrow> window_tracks (snd (window_admit w s)) (insert s A)"
    and "\<not> fst (window_admit w s) \<Longrightarrow> snd (window_admit w s) = w"
proof -
  note step = window_admit_older [OF old]
  show acc: "fst (window_admit w s) \<longleftrightarrow> unat (win_highest w) < unat s + 128 \<and> s \<notin> A"
    using step(1) window_recent_iff [OF tr, of s] by blast
  show "\<not> fst (window_admit w s) \<Longrightarrow> snd (window_admit w s) = w" by (rule step(4))
  assume ok: "fst (window_admit w s)"
  from tr have "win_highest w \<in> A" and le: "\<forall>x \<in> A. x \<le> win_highest w"
    and rec: "window_recent w = {n \<in> unat ` A. unat (win_highest w) < n + 128}"
    by (auto simp: window_tracks_def)
  moreover from ok acc have "unat (win_highest w) < unat s + 128" by simp
  ultimately show "window_tracks (snd (window_admit w s)) (insert s A)"
    using old by (auto simp: window_tracks_def step(2) step(3) [OF ok])
qed

lemma window_admit_spec:
  assumes "window_tracks w A"
  shows "fst (window_admit w s) \<longleftrightarrow>
    win_highest w < s \<or> (unat (win_highest w) < unat s + 128 \<and> s \<notin> A)"
proof (cases "win_highest w < s")
  case True
  then show ?thesis by (simp add: window_admit_newer)
next
  case False
  then show ?thesis using window_tracks_older(1) [OF assms, of s] by (auto simp: not_less)
qed

lemma window_tracks_admit:
  assumes tr: "window_tracks w A" and step: "window_admit w s = (ok, w')"
  shows "window_tracks w' (if ok then insert s A else A)" and "ok \<Longrightarrow> s \<notin> A"
proof -
  consider (newer) "win_highest w < s" | (older) "s \<le> win_highest w" by (meson not_less)
  then have "window_tracks w' (if ok then insert s A else A) \<and> (ok \<longrightarrow> s \<notin> A)"
  proof cases
    case newer
    from window_admit_newer(1) [OF newer] window_tracks_newer [OF tr newer] step
    show ?thesis by simp
  next
    case older
    from window_tracks_older [OF tr older] step tr
    show ?thesis by auto
  qed
  then show "window_tracks w' (if ok then insert s A else A)" and "ok \<Longrightarrow> s \<notin> A" by simp_all
qed

interpretation seq_window: replay_window window_first window_admit window_tracks
proof unfold_locales
  show "window_tracks (window_first s) {s}" for s by (rule window_tracks_first)
  show "s \<notin> A \<and> window_tracks w' (insert s A)"
    if "window_tracks w A" "window_admit w s = (True, w')" for w A s w'
    using window_tracks_admit [OF that] by simp
  show "window_tracks w' A" if "window_tracks w A" "window_admit w s = (False, w')" for w A s w'
    using window_tracks_admit [OF that] by simp
qed

section \<open>The capability admission guard\<close>

definition max_active_publish_leases :: nat where "max_active_publish_leases = 65536"

record admission_fingerprint =
  fp_session :: string
  fp_endpoint :: string
  fp_edge :: string
  fp_operation :: operation
  fp_key :: binding_key
  fp_source :: "string option"
  fp_audience :: "string option"
  fp_take :: "string option"

record capability_admission =
  adm_fingerprint :: admission_fingerprint
  adm_expires_at :: int

type_synonym admissions = "(string, capability_admission) assoc"

definition live_admissions :: "int \<Rightarrow> admissions \<Rightarrow> admissions" where
  "live_admissions now m = retain (\<lambda>_ prior. now < adm_expires_at prior) m"

definition check_and_admit ::
    "admission_fingerprint \<Rightarrow> int \<Rightarrow> admissions \<Rightarrow> replay_admission \<Rightarrow> (replay_rejection + unit) \<times> admissions" where
  "check_and_admit fp now m a =
     (let m = live_admissions now m; cap = ra_capability_id a
      in if \<not> contains_key cap m \<and> max_active_publish_leases \<le> length m then (Inl Capacity, m)
         else case map_of m cap of
             None \<Rightarrow> (Inr (), AList.update cap \<lparr>adm_fingerprint = fp, adm_expires_at = ra_expires_at a\<rparr> m)
           | Some prior \<Rightarrow>
               if adm_fingerprint prior = fp
               then (Inr (), AList.update cap (prior\<lparr>adm_expires_at := ra_expires_at a\<rparr>) m)
               else (Inl Replay, m))"

definition admissions_inv :: "admissions \<Rightarrow> bool" where
  "admissions_inv m \<longleftrightarrow> wf_assoc m \<and> length m \<le> max_active_publish_leases"

lemma live_admissions_inv: "admissions_inv m \<Longrightarrow> admissions_inv (live_admissions now m)"
  unfolding admissions_inv_def live_admissions_def by (meson length_retain order_trans wf_assoc_retain)

lemma check_and_admit_inv:
  "admissions_inv m \<Longrightarrow> admissions_inv (snd (check_and_admit fp now m a))"
  using live_admissions_inv [of m now]
  by (auto simp: check_and_admit_def Let_def admissions_inv_def length_update contains_key_def
      split: option.splits)

lemma check_and_admit_Inr:
  assumes "check_and_admit fp now m a = (Inr (), m')"
  shows "map_of m' (ra_capability_id a) = Some \<lparr>adm_fingerprint = fp, adm_expires_at = ra_expires_at a\<rparr>"
  using assms
  by (auto simp: check_and_admit_def Let_def assoc_facts split: option.splits if_splits)

text \<open>A live capability admitted for other coordinates is refused and keeps its coordinates.\<close>

lemma check_and_admit_bound:
  assumes "wf_assoc m" and "map_of m (ra_capability_id a) = Some prior"
    and "now < adm_expires_at prior" and "adm_fingerprint prior \<noteq> fp"
  shows "check_and_admit fp now m a = (Inl Replay, live_admissions now m)"
    and "map_of (live_admissions now m) (ra_capability_id a) = Some prior"
  using assms
  by (simp_all add: check_and_admit_def Let_def live_admissions_def map_of_retain contains_key_def)

end
