(* ===== verification/Publish_Gate.thy ===== *)
theory Publish_Gate
  imports Admission_Windows
begin

text \<open>
  \<^verbatim>\<open>PublishIngressGate\<close> of \<^verbatim>\<open>src/src/ingress_authorization.rs\<close>: the strict authorization of one
  frame from its headers, the migration modes around it, the revalidation before forwarding and
  the decision counters. What the gate calls in the \<^verbatim>\<open>media-object\<close> and \<^verbatim>\<open>media-capability\<close>
  crates is the record \<open>media_api\<close>; the verifier gets the admission guard as a function and
  threads the guarded map, as the code passes it \<^verbatim>\<open>&mut dyn ReplayAdmissionGuard\<close>.
\<close>

section \<open>Requests, leases, state\<close>

record publish_ingress_request =
  rq_compact_jws :: string
  rq_envelope_json :: bytes
  rq_content_length :: u64
  rq_legacy_stream_id :: u64
  rq_now :: int

record authorization_context =
  cx_tenant :: string
  cx_session :: string
  cx_session_epoch :: u64
  cx_media_authorization_epoch :: u64
  cx_subject_grant_epoch :: u64
  cx_media_policy_version :: u64
  cx_class_authorization_epoch :: "u64 option"
  cx_binding_generation :: u64
  cx_topology_generation :: u64
  cx_participant :: string
  cx_endpoint :: string
  cx_contributor :: "string option"
  cx_operation :: operation
  cx_media_class :: media_class
  cx_source :: "string option"
  cx_audience :: "string option"
  cx_take :: "string option"
  cx_edge :: string
  cx_now :: int
  cx_clock_skew_seconds :: int

record verified_capability =
  vc_capability_id :: string
  vc_expires_at :: int
  vc_max_channels :: u16
  vc_max_bitrate :: u64
  vc_max_datagram_bytes :: u32

type_synonym replay_guard = "admissions \<Rightarrow> replay_admission \<Rightarrow> (replay_rejection + unit) \<times> admissions"

type_synonym lease_verifier =
  "string \<Rightarrow> authorization_context \<Rightarrow> replay_guard \<Rightarrow> admissions
   \<Rightarrow> (verifier_error + verified_capability) \<times> admissions"

record media_api =
  api_limits :: control_limits
  api_from_json :: "bytes \<Rightarrow> media_control_error + media_frame_envelope"
  api_to_json :: "media_frame_envelope \<Rightarrow> media_control_error + bytes"
  api_resolve :: "media_frame_envelope \<Rightarrow> media_frame_configuration \<Rightarrow> media_control_error + unit"
  api_verify :: lease_verifier

record publish_lease =
  pl_binding :: current_publish_binding
  pl_envelope :: media_frame_envelope
  pl_binding_revision :: u64
  pl_expires_at :: int
  pl_max_datagram_bytes :: u32

record publish_admission =
  pa_lease :: "publish_lease option"
  pa_observed_rejection :: "publish_ingress_error option"

record sequence_admission =
  sa_window :: sequence_window
  sa_expires_at :: int

type_synonym sequence_windows = "(string \<times> binding_key, sequence_admission) assoc"

record gate_metrics =
  gm_admitted :: u64
  gm_observed_mismatches :: u64
  gm_enforced_rejections :: u64
  gm_rejection_reasons :: "u64 list"

definition default_metrics :: gate_metrics where
  "default_metrics = \<lparr>gm_admitted = 0, gm_observed_mismatches = 0, gm_enforced_rejections = 0,
     gm_rejection_reasons = replicate rejection_code_count 0\<rparr>"

record gate =
  g_mode :: publish_authorization_mode
  g_registry :: registry
  g_admissions :: admissions
  g_windows :: sequence_windows
  g_metrics :: gate_metrics

definition new_gate :: "publish_authorization_mode \<Rightarrow> registry \<Rightarrow> gate" where
  "new_gate mode r = \<lparr>g_mode = mode, g_registry = r, g_admissions = [], g_windows = [],
     g_metrics = default_metrics\<rparr>"

section \<open>The strict authorization, in its phases\<close>

text \<open>The header checks, up to the body length.\<close>

definition check_request :: "media_api \<Rightarrow> publish_ingress_request \<Rightarrow> publish_ingress_error + media_frame_envelope" where
  "check_request api q =
     (if rq_compact_jws q = [] then Inl (ingress_error MissingCapability ''authorization'')
      else if max_compact_jws_bytes (api_limits api) < length (rq_compact_jws q)
      then Inl (ingress_error CapabilityTooLarge ''authorization'')
      else if rq_envelope_json q = [] then Inl (ingress_error MissingEnvelope ''frame_envelope'')
      else if max_json_bytes (api_limits api) < length (rq_envelope_json q)
      then Inl (ingress_error EnvelopeTooLarge ''frame_envelope'')
      else res_bind (map_err map_envelope_error (api_from_json api (rq_envelope_json q))) (\<lambda>env.
        res_bind (map_err map_envelope_error (api_to_json api env)) (\<lambda>canonical.
          if canonical \<noteq> rq_envelope_json q
          then Inl (ingress_error NonCanonicalEnvelope ''frame_envelope'')
          else if rq_content_length q \<noteq> ucast (ev_payload_bytes env)
          then Inl (ingress_error PayloadLengthMismatch ''content_length'')
          else Inr env)))"

text \<open>The control-installed binding of the envelope's coordinates.\<close>

definition resolve_binding ::
    "media_api \<Rightarrow> registry \<Rightarrow> publish_ingress_request \<Rightarrow> media_frame_envelope \<Rightarrow> publish_ingress_error + registered_binding" where
  "resolve_binding api r q env =
     res_bind (resolve r (key_from_envelope env)) (\<lambda>registered.
       let b = rb_binding registered in
       res_bind (map_err map_envelope_error (api_resolve api env (b_configuration b))) (\<lambda>_.
         if rq_legacy_stream_id q \<noteq> b_legacy_stream_id b
         then Inl (ingress_error StreamMismatch ''stream_id'')
         else res_bind (validate_talkback_isolation (b_configuration b)) (\<lambda>_. Inr registered)))"

definition fingerprint_of :: "current_publish_binding \<Rightarrow> binding_key \<Rightarrow> admission_fingerprint" where
  "fingerprint_of b k =
     (let i = cf_identity (b_configuration b) in
      \<lparr>fp_session = id_session i, fp_endpoint = id_endpoint i, fp_edge = b_edge_id b,
       fp_operation = b_operation b, fp_key = k, fp_source = id_source i, fp_audience = id_audience i,
       fp_take = id_take i\<rparr>)"

definition context_of :: "current_publish_binding \<Rightarrow> int \<Rightarrow> authorization_context" where
  "context_of b now =
     (let i = cf_identity (b_configuration b) in
      \<lparr>cx_tenant = id_tenant i, cx_session = id_session i, cx_session_epoch = id_session_epoch i,
       cx_media_authorization_epoch = b_media_authorization_epoch b,
       cx_subject_grant_epoch = b_subject_grant_epoch b,
       cx_media_policy_version = b_media_policy_version b,
       cx_class_authorization_epoch = b_class_authorization_epoch b,
       cx_binding_generation = cf_binding_generation (b_configuration b),
       cx_topology_generation = id_topology_generation i, cx_participant = id_participant i,
       cx_endpoint = id_endpoint i, cx_contributor = Some (id_contributor i),
       cx_operation = b_operation b, cx_media_class = id_media_class i, cx_source = id_source i,
       cx_audience = id_audience i, cx_take = id_take i, cx_edge = b_edge_id b, cx_now = now,
       cx_clock_skew_seconds = b_clock_skew_seconds b\<rparr>)"

text \<open>Expiry, channel and bitrate limits, in 128-bit saturating arithmetic.\<close>

definition required_bits :: "media_frame_envelope \<Rightarrow> media_frame_configuration \<Rightarrow> u128" where
  "required_bits env cfg =
     sat_mul (sat_mul (ucast (ev_payload_bytes env)) 8) (ucast (cf_capture_timebase_hz cfg))"

definition allowed_bits :: "verified_capability \<Rightarrow> media_frame_envelope \<Rightarrow> u128" where
  "allowed_bits v env = sat_mul (ucast (vc_max_bitrate v)) (ucast (ev_duration_ticks env))"

definition check_limits ::
    "int \<Rightarrow> media_frame_envelope \<Rightarrow> current_publish_binding \<Rightarrow> verified_capability \<Rightarrow> publish_ingress_error + unit" where
  "check_limits now env b v =
     (if vc_expires_at v \<le> now then Inl (ingress_error CapabilityExpired ''expires_at'')
      else if vc_max_channels v < cf_channel_count (b_configuration b)
      then Inl (ingress_error ChannelLimit ''channel_count'')
      else if allowed_bits v env < required_bits env (b_configuration b)
      then Inl (ingress_error BitrateLimit ''max_bitrate'')
      else Inr ())"

text \<open>The sequence window of the capability on this binding.\<close>

definition admit_sequence ::
    "int \<Rightarrow> string \<times> binding_key \<Rightarrow> int \<Rightarrow> u64 \<Rightarrow> sequence_windows \<Rightarrow> (publish_ingress_error + unit) \<times> sequence_windows" where
  "admit_sequence now ck expires s ws =
     (let ws = retain (\<lambda>_ prior. now < sa_expires_at prior) ws
      in if \<not> contains_key ck ws \<and> max_active_publish_leases \<le> length ws
         then (Inl (ingress_error CapabilityRejected ''admission_capacity''), ws)
         else case map_of ws ck of
             None \<Rightarrow> (Inr (), AList.update ck \<lparr>sa_window = window_first s, sa_expires_at = expires\<rparr> ws)
           | Some prior \<Rightarrow>
               (case window_admit (sa_window prior) s of (ok, w) \<Rightarrow>
                 (if ok then Inr () else Inl (ingress_error FrameReplay ''sequence''),
                  AList.update ck \<lparr>sa_window = w, sa_expires_at = expires\<rparr> ws)))"

definition lease_of :: "registered_binding \<Rightarrow> media_frame_envelope \<Rightarrow> verified_capability \<Rightarrow> publish_lease" where
  "lease_of registered env v =
     \<lparr>pl_binding = rb_binding registered, pl_envelope = env, pl_binding_revision = rb_revision registered,
      pl_expires_at = vc_expires_at v, pl_max_datagram_bytes = vc_max_datagram_bytes v\<rparr>"

text \<open>
  \<^verbatim>\<open>authorize_strict\<close>; \<open>authorize_verified\<close> also returns the verified capability, a local
  variable of the code that the lease does not keep.
\<close>

definition authorize_verified ::
    "media_api \<Rightarrow> gate \<Rightarrow> publish_ingress_request \<Rightarrow> (publish_ingress_error + verified_capability \<times> publish_lease) \<times> gate" where
  "authorize_verified api g q =
     (case check_request api q of Inl e \<Rightarrow> (Inl e, g) | Inr env \<Rightarrow>
      case resolve_binding api (g_registry g) q env of Inl e \<Rightarrow> (Inl e, g) | Inr registered \<Rightarrow>
      let key = key_from_envelope env; b = rb_binding registered in
      case api_verify api (rq_compact_jws q) (context_of b (rq_now q))
             (check_and_admit (fingerprint_of b key) (rq_now q)) (g_admissions g) of
        (Inl e, m) \<Rightarrow> (Inl (map_verifier_error e), g\<lparr>g_admissions := m\<rparr>)
      | (Inr v, m) \<Rightarrow>
          let g = g\<lparr>g_admissions := m\<rparr> in
          case check_limits (rq_now q) env b v of Inl e \<Rightarrow> (Inl e, g) | Inr _ \<Rightarrow>
          case admit_sequence (rq_now q) (vc_capability_id v, key) (vc_expires_at v) (ev_sequence env) (g_windows g) of
            (Inl e, ws) \<Rightarrow> (Inl e, g\<lparr>g_windows := ws\<rparr>)
          | (Inr _, ws) \<Rightarrow> (Inr (v, lease_of registered env v), g\<lparr>g_windows := ws\<rparr>))"

definition authorize_strict ::
    "media_api \<Rightarrow> gate \<Rightarrow> publish_ingress_request \<Rightarrow> (publish_ingress_error + publish_lease) \<times> gate" where
  "authorize_strict api g q =
     (case authorize_verified api g q of
        (Inl e, g') \<Rightarrow> (Inl e, g')
      | (Inr (v, l), g') \<Rightarrow> (Inr l, g'))"

section \<open>Modes and counters\<close>

definition record_rejection :: "gate \<Rightarrow> publish_ingress_error \<Rightarrow> bool \<Rightarrow> gate" where
  "record_rejection g e enforced =
     (let m = g_metrics g; i = code_index (err_code e);
          m = m\<lparr>gm_rejection_reasons := (gm_rejection_reasons m)[i := gm_rejection_reasons m ! i + 1]\<rparr>
      in g\<lparr>g_metrics :=
             (if enforced then m\<lparr>gm_enforced_rejections := gm_enforced_rejections m + 1\<rparr>
              else m\<lparr>gm_observed_mismatches := gm_observed_mismatches m + 1\<rparr>)\<rparr>)"

definition record_admitted :: "gate \<Rightarrow> gate" where
  "record_admitted g = g\<lparr>g_metrics := (g_metrics g)\<lparr>gm_admitted := gm_admitted (g_metrics g) + 1\<rparr>\<rparr>"

definition authorize ::
    "media_api \<Rightarrow> gate \<Rightarrow> publish_ingress_request \<Rightarrow> (publish_ingress_error + publish_admission) \<times> gate" where
  "authorize api g q =
     (if g_mode g = Off then (Inr \<lparr>pa_lease = None, pa_observed_rejection = None\<rparr>, g)
      else case authorize_strict api g q of
        (Inr l, g') \<Rightarrow> (Inr \<lparr>pa_lease = Some l, pa_observed_rejection = None\<rparr>, record_admitted g')
      | (Inl e, g') \<Rightarrow>
          if g_mode g = Observe
          then (Inr \<lparr>pa_lease = None, pa_observed_rejection = Some e\<rparr>, record_rejection g' e False)
          else (Inl e, record_rejection g' e True))"

definition apply_mode :: "gate \<Rightarrow> publish_ingress_error \<Rightarrow> (publish_ingress_error + unit) \<times> gate" where
  "apply_mode g e =
     (case g_mode g of
        Off \<Rightarrow> (Inr (), g)
      | Observe \<Rightarrow> (Inr (), record_rejection g e False)
      | Enforce \<Rightarrow> (Inl e, record_rejection g e True))"

definition handle_integration_error :: "gate \<Rightarrow> publish_ingress_error \<Rightarrow> (publish_ingress_error + unit) \<times> gate" where
  "handle_integration_error g e = apply_mode g e"

definition authorize_legacy_path :: "gate \<Rightarrow> (publish_ingress_error + unit) \<times> gate" where
  "authorize_legacy_path g = apply_mode g (ingress_error LegacyPath ''ingress_path'')"

definition revalidate_strict :: "gate \<Rightarrow> publish_lease \<Rightarrow> nat \<Rightarrow> int \<Rightarrow> publish_ingress_error + unit" where
  "revalidate_strict g l actual now =
     (if pl_expires_at l \<le> now then Inl (ingress_error CapabilityExpired ''expires_at'')
      else if actual \<noteq> unat (ev_payload_bytes (pl_envelope l))
      then Inl (ingress_error PayloadLengthMismatch ''payload_bytes'')
      else revalidate (g_registry g) (key_from_envelope (pl_envelope l)) (pl_binding_revision l))"

definition revalidate_before_forward ::
    "gate \<Rightarrow> publish_lease \<Rightarrow> nat \<Rightarrow> int \<Rightarrow> (publish_ingress_error + unit) \<times> gate" where
  "revalidate_before_forward g l actual now =
     (case revalidate_strict g l actual now of
        Inr _ \<Rightarrow> (Inr (), g)
      | Inl e \<Rightarrow> apply_mode g e)"

definition nl :: string where "nl = [CHR 0x0A]"
definition dq :: string where "dq = [CHR 0x22]"

definition prometheus_metrics :: "gate \<Rightarrow> string" where
  "prometheus_metrics g =
     (let m = g_metrics g; total = ''av_contrib_publish_authorization_total'';
          reasons = ''av_contrib_publish_authorization_rejections_total'' in
      ''# HELP '' @ total @ '' Publish authorization decisions.'' @ nl
      @ ''# TYPE '' @ total @ '' counter'' @ nl
      @ total @ ''{mode='' @ dq @ mode_as_str (g_mode g) @ dq @ '',decision='' @ dq @ ''admit'' @ dq @ ''} ''
      @ dec_str (unat (gm_admitted m)) @ nl
      @ total @ ''{mode='' @ dq @ ''observe'' @ dq @ '',decision='' @ dq @ ''mismatch'' @ dq @ ''} ''
      @ dec_str (unat (gm_observed_mismatches m)) @ nl
      @ total @ ''{mode='' @ dq @ ''enforce'' @ dq @ '',decision='' @ dq @ ''reject'' @ dq @ ''} ''
      @ dec_str (unat (gm_enforced_rejections m)) @ nl
      @ ''# HELP '' @ reasons @ '' Publish authorization rejections by stable reason.'' @ nl
      @ ''# TYPE '' @ reasons @ '' counter'' @ nl
      @ concat (map (\<lambda>c. reasons @ ''{reason='' @ dq @ code_as_str c @ dq @ ''} ''
                   @ dec_str (unat (gm_rejection_reasons m ! code_index c)) @ nl)
          all_rejection_codes))"

end
