(* ===== verification/Gate_Safety.thy ===== *)
theory Gate_Safety
  imports Publish_Gate
begin

text \<open>
  What the publication gate guarantees: an admitted frame passed every check, a frame number of a
  capability is admitted at most once, the two maps stay bounded, the migration modes differ only
  in what they report, the counters account for every decision, and a revoked binding is never
  forwarded again.
\<close>

section \<open>Success implies every check\<close>

lemma check_request_Inr:
  "check_request api q = Inr env \<longleftrightarrow>
     rq_compact_jws q \<noteq> [] \<and> length (rq_compact_jws q) \<le> max_compact_jws_bytes (api_limits api)
     \<and> rq_envelope_json q \<noteq> [] \<and> length (rq_envelope_json q) \<le> max_json_bytes (api_limits api)
     \<and> api_from_json api (rq_envelope_json q) = Inr env \<and> api_to_json api env = Inr (rq_envelope_json q)
     \<and> rq_content_length q = ucast (ev_payload_bytes env)"
  by (auto simp: check_request_def res_ok not_less split: if_splits)

lemma resolve_binding_Inr:
  "resolve_binding api r q env = Inr e \<longleftrightarrow>
     map_of (bindings r) (key_from_envelope env) = Some e \<and> rb_active e
     \<and> api_resolve api env (b_configuration (rb_binding e)) = Inr ()
     \<and> rq_legacy_stream_id q = b_legacy_stream_id (rb_binding e)
     \<and> validate_talkback_isolation (b_configuration (rb_binding e)) = Inr ()"
  by (auto simp: resolve_binding_def Let_def res_ok resolve_Inr split: if_splits)

text \<open>The 128-bit products never saturate, so the comparison is the one on numbers.\<close>

lemma unat_mul_u128:
  assumes "unat a < 2 ^ 64" and "unat b < 2 ^ 63"
  shows "unat (sat_mul a b :: u128) = unat a * unat b"
proof -
  have "unat a * unat b \<le> 2 ^ 64 * (2 ^ 63 :: nat)"
    using assms by (intro mult_le_mono) simp_all
  also have "\<dots> \<le> 2 ^ 128 - 1" by simp
  finally have "min (unat a * unat b) (2 ^ 128 - 1) = unat a * unat b" by (rule min_absorb1)
  moreover have "LENGTH(128) = 128" by simp
  ultimately show ?thesis by (simp only: unat_sat_mul)
qed

lemma unat_ucast_u32: "unat (ucast (x :: u32) :: u128) = unat x"
  by (rule unat_ucast_widen) simp
lemma unat_ucast_u64: "unat (ucast (x :: u64) :: u128) = unat x"
  by (rule unat_ucast_widen) simp

lemma unat_required_bits:
  "unat (required_bits env cfg) = unat (ev_payload_bytes env) * 8 * unat (cf_capture_timebase_hz cfg)"
proof -
  let ?p = "ucast (ev_payload_bytes env) :: u128"
  have p: "unat ?p < 2 ^ 32" using unat_lt2p [of "ev_payload_bytes env"] by (simp add: unat_ucast_u32)
  have h: "unat (cf_capture_timebase_hz cfg) < 2 ^ 32" using unat_lt2p [of "cf_capture_timebase_hz cfg"] by simp
  have eight: "unat (8 :: u128) = 8" by simp
  have bits: "unat (sat_mul ?p 8) = unat ?p * 8"
    by (subst unat_mul_u128) (use p in \<open>simp_all add: eight\<close>)
  show ?thesis unfolding required_bits_def
    by (subst unat_mul_u128) (use p h in \<open>simp_all add: bits unat_ucast_u32\<close>)
qed

lemma unat_allowed_bits:
  "unat (allowed_bits v env) = unat (vc_max_bitrate v) * unat (ev_duration_ticks env)"
proof -
  have "unat (vc_max_bitrate v) < 2 ^ 64" using unat_lt2p [of "vc_max_bitrate v"] by simp
  moreover have "unat (ev_duration_ticks env) < 2 ^ 63" using unat_lt2p [of "ev_duration_ticks env"] by simp
  ultimately show ?thesis unfolding allowed_bits_def
    by (subst unat_mul_u128) (simp_all add: unat_ucast_u32 unat_ucast_u64)
qed

lemma check_limits_Inr:
  "check_limits now env b v = Inr () \<longleftrightarrow>
     now < vc_expires_at v \<and> cf_channel_count (b_configuration b) \<le> vc_max_channels v
     \<and> unat (ev_payload_bytes env) * 8 * unat (cf_capture_timebase_hz (b_configuration b))
       \<le> unat (vc_max_bitrate v) * unat (ev_duration_ticks env)"
  by (auto simp: check_limits_def not_less not_le word_le_nat_alt unat_required_bits unat_allowed_bits
      word_less_nat_alt)

lemma authorize_verified_Inr:
  assumes "authorize_verified api g q = (Inr (v, l), g')"
  obtains env e m ws where
    "check_request api q = Inr env"
    "resolve_binding api (g_registry g) q env = Inr e"
    "api_verify api (rq_compact_jws q) (context_of (rb_binding e) (rq_now q))
       (check_and_admit (fingerprint_of (rb_binding e) (key_from_envelope env)) (rq_now q)) (g_admissions g)
     = (Inr v, m)"
    "check_limits (rq_now q) env (rb_binding e) v = Inr ()"
    "admit_sequence (rq_now q) (vc_capability_id v, key_from_envelope env) (vc_expires_at v)
       (ev_sequence env) (g_windows g) = (Inr (), ws)"
    "l = lease_of e env v" "g' = g\<lparr>g_admissions := m, g_windows := ws\<rparr>"
  using assms
  by (auto simp: authorize_verified_def Let_def split: sum.splits prod.splits)

lemma authorize_strict_Inr:
  "authorize_strict api g q = (Inr l, g') \<longleftrightarrow> (\<exists>v. authorize_verified api g q = (Inr (v, l), g'))"
  by (auto simp: authorize_strict_def split: sum.splits prod.splits)

lemma authorize_strict_Inl:
  "authorize_strict api g q = (Inl e, g') \<longleftrightarrow> authorize_verified api g q = (Inl e, g')"
  by (auto simp: authorize_strict_def split: sum.splits prod.splits)

text \<open>The frame of the state that one authorization may touch.\<close>

lemma authorize_verified_frame:
  assumes "authorize_verified api g q = (r, g')"
  shows "g_registry g' = g_registry g" and "g_mode g' = g_mode g" and "g_metrics g' = g_metrics g"
  using assms
  by (auto simp: authorize_verified_def Let_def split: sum.splits prod.splits)

lemma record_frame [simp]:
  "g_registry (record_rejection g e b) = g_registry g" "g_mode (record_rejection g e b) = g_mode g"
  "g_admissions (record_rejection g e b) = g_admissions g" "g_windows (record_rejection g e b) = g_windows g"
  "g_registry (record_admitted g) = g_registry g" "g_mode (record_admitted g) = g_mode g"
  "g_admissions (record_admitted g) = g_admissions g" "g_windows (record_admitted g) = g_windows g"
  by (simp_all add: record_rejection_def record_admitted_def Let_def)

lemma authorize_frame:
  assumes "authorize api g q = (r, g')"
  shows "g_registry g' = g_registry g" and "g_mode g' = g_mode g"
proof -
  obtain s h where st: "authorize_verified api g q = (s, h)" by (cases "authorize_verified api g q")
  note fr = authorize_verified_frame [OF st]
  from assms fr show "g_registry g' = g_registry g" and "g_mode g' = g_mode g"
    by (auto simp: authorize_def authorize_strict_def st split: if_splits sum.splits prod.splits)
qed

section \<open>One admission of a sequence number\<close>

definition windows_inv :: "sequence_windows \<Rightarrow> bool" where
  "windows_inv ws \<longleftrightarrow> wf_assoc ws \<and> length ws \<le> max_active_publish_leases"

lemma admit_sequence_inv: "windows_inv ws \<Longrightarrow> windows_inv (snd (admit_sequence now ck ex s ws))"
proof -
  assume inv: "windows_inv ws"
  let ?r = "retain (\<lambda>_ prior. now < sa_expires_at prior) ws"
  from inv have "wf_assoc ?r" and "length ?r \<le> max_active_publish_leases"
    using length_retain [of "\<lambda>_ prior. now < sa_expires_at prior" ws] by (auto simp: windows_inv_def)
  then show ?thesis
    by (auto simp: admit_sequence_def Let_def windows_inv_def length_update contains_key_def
        split: option.splits prod.splits)
qed

text \<open>
  The history of a gate: which (capability, coordinates, sequence) triples it has admitted. A
  window may be forgotten only once its capability has expired.
\<close>

type_synonym frame_history = "((string \<times> binding_key) \<times> u64) set"

definition admitted_numbers :: "frame_history \<Rightarrow> string \<times> binding_key \<Rightarrow> u64 set" where
  "admitted_numbers H ck = {s. (ck, s) \<in> H}"

definition window_covers :: "int \<Rightarrow> int \<Rightarrow> u64 set \<Rightarrow> sequence_admission option \<Rightarrow> bool" where
  "window_covers ex t A entry \<longleftrightarrow>
     (case entry of
        Some a \<Rightarrow> sa_expires_at a = ex \<and> window_tracks (sa_window a) A
      | None \<Rightarrow> A = {} \<or> ex \<le> t)"

definition windows_cover :: "(string \<Rightarrow> int) \<Rightarrow> int \<Rightarrow> frame_history \<Rightarrow> sequence_windows \<Rightarrow> bool" where
  "windows_cover expiry t H ws \<longleftrightarrow> wf_assoc ws \<and>
     (\<forall>ck. window_covers (expiry (fst ck)) t (admitted_numbers H ck) (map_of ws ck))"

lemma window_covers_simps [simp]:
  "window_covers ex t A None \<longleftrightarrow> A = {} \<or> ex \<le> t"
  "window_covers ex t A (Some a) \<longleftrightarrow> sa_expires_at a = ex \<and> window_tracks (sa_window a) A"
  by (simp_all add: window_covers_def)

lemma windows_coverD:
  assumes "windows_cover expiry t H ws"
  shows "wf_assoc ws" and "window_covers (expiry (fst ck)) t (admitted_numbers H ck) (map_of ws ck)"
  using assms unfolding windows_cover_def by blast+

lemma windows_coverI:
  assumes "wf_assoc ws"
    and "\<And>ck. window_covers (expiry (fst ck)) t (admitted_numbers H ck) (map_of ws ck)"
  shows "windows_cover expiry t H ws"
  using assms unfolding windows_cover_def by blast

lemma windows_cover_later:
  assumes "windows_cover expiry t H ws" and "t \<le> t'"
  shows "windows_cover expiry t' H ws"
proof (rule windows_coverI)
  show "wf_assoc ws" by (rule windows_coverD [OF assms(1)])
  show "window_covers (expiry (fst ck)) t' (admitted_numbers H ck) (map_of ws ck)" for ck
    using windows_coverD(2) [OF assms(1), of ck] assms(2) by (cases "map_of ws ck") auto
qed

lemma windows_cover_Nil: "windows_cover expiry t {} []"
  by (simp add: windows_cover_def admitted_numbers_def)

lemma windows_cover_retain:
  assumes "windows_cover expiry now H ws"
  shows "windows_cover expiry now H (retain (\<lambda>_ prior. now < sa_expires_at prior) ws)"
proof (rule windows_coverI)
  have wf: "wf_assoc ws" by (rule windows_coverD [OF assms])
  then show "wf_assoc (retain (\<lambda>_ prior. now < sa_expires_at prior) ws)" by blast
  show "window_covers (expiry (fst ck)) now (admitted_numbers H ck)
      (map_of (retain (\<lambda>_ prior. now < sa_expires_at prior) ws) ck)" for ck
    using windows_coverD(2) [OF assms, of ck]
    by (cases "map_of ws ck") (auto simp: map_of_retain [OF wf])
qed

lemma windows_cover_update:
  assumes cov: "windows_cover expiry t H ws"
    and new: "sa_expires_at a = expiry (fst ck)" "window_tracks (sa_window a) (admitted_numbers H' ck)"
    and other: "\<And>ck'. ck' \<noteq> ck \<Longrightarrow> admitted_numbers H' ck' = admitted_numbers H ck'"
  shows "windows_cover expiry t H' (AList.update ck a ws)"
proof (rule windows_coverI)
  show "wf_assoc (AList.update ck a ws)" using windows_coverD(1) [OF cov] by blast
  show "window_covers (expiry (fst ck')) t (admitted_numbers H' ck') (map_of (AList.update ck a ws) ck')" for ck'
  proof (cases "ck' = ck")
    case True
    with new show ?thesis by (simp add: map_of_update)
  next
    case False
    with windows_coverD(2) [OF cov, of ck'] other [OF False] show ?thesis by (simp add: map_of_update)
  qed
qed

lemma admitted_numbers_insert:
  "admitted_numbers (insert (ck, s) H) ck = insert s (admitted_numbers H ck)"
  "ck' \<noteq> ck \<Longrightarrow> admitted_numbers (insert (ck, s) H) ck' = admitted_numbers H ck'"
  by (auto simp: admitted_numbers_def)

lemma admit_sequence_cover:
  assumes cov: "windows_cover expiry now H ws" and ex: "ex = expiry (fst ck)" and live: "now < ex"
    and step: "admit_sequence now ck ex s ws = (r, ws')"
  shows "windows_cover expiry now (if is_ok r then insert (ck, s) H else H) ws'"
    and "is_ok r \<Longrightarrow> (ck, s) \<notin> H"
proof -
  let ?ret = "retain (\<lambda>_ prior. now < sa_expires_at prior) ws"
  have cov': "windows_cover expiry now H ?ret" by (rule windows_cover_retain [OF cov])
  have "windows_cover expiry now (if is_ok r then insert (ck, s) H else H) ws'
      \<and> (is_ok r \<longrightarrow> (ck, s) \<notin> H)"
  proof (cases "map_of ?ret ck")
    case None
    have "admitted_numbers H ck = {} \<or> expiry (fst ck) \<le> now"
      using windows_coverD(2) [OF cov', of ck] None by simp
    with ex live have empty: "admitted_numbers H ck = {}" by simp
    then have fresh: "(ck, s) \<notin> H" by (auto simp: admitted_numbers_def)
    have upd: "windows_cover expiry now (insert (ck, s) H)
        (AList.update ck \<lparr>sa_window = window_first s, sa_expires_at = ex\<rparr> ?ret)"
      by (rule windows_cover_update [OF cov'])
        (simp_all add: ex admitted_numbers_insert empty window_tracks_first)
    show ?thesis
    proof (cases "max_active_publish_leases \<le> length ?ret")
      case True
      with None step have "r = Inl (ingress_error CapabilityRejected ''admission_capacity'')" "ws' = ?ret"
        by (simp_all add: admit_sequence_def Let_def contains_key_def)
      with cov' show ?thesis by simp
    next
      case False
      with None step have "r = Inr ()"
        "ws' = AList.update ck \<lparr>sa_window = window_first s, sa_expires_at = ex\<rparr> ?ret"
        by (simp_all add: admit_sequence_def Let_def contains_key_def)
      with upd fresh show ?thesis by simp
    qed
  next
    case (Some prior)
    obtain ok w where adm: "window_admit (sa_window prior) s = (ok, w)"
      by (cases "window_admit (sa_window prior) s")
    from Some step adm have r: "r = (if ok then Inr () else Inl (ingress_error FrameReplay ''sequence''))"
      and ws': "ws' = AList.update ck \<lparr>sa_window = w, sa_expires_at = ex\<rparr> ?ret"
      by (auto simp: admit_sequence_def Let_def contains_key_def)
    have "window_tracks (sa_window prior) (admitted_numbers H ck)"
      using windows_coverD(2) [OF cov', of ck] Some by simp
    note tracked = seq_window.admit_cases [OF this adm]
    let ?H = "if ok then insert (ck, s) H else H"
    have "windows_cover expiry now ?H ws'" unfolding ws'
    proof (rule windows_cover_update [OF cov'])
      show "sa_expires_at \<lparr>sa_window = w, sa_expires_at = ex\<rparr> = expiry (fst ck)" using ex by simp
      show "window_tracks (sa_window \<lparr>sa_window = w, sa_expires_at = ex\<rparr>) (admitted_numbers ?H ck)"
        using tracked(1) by (cases ok) (simp_all add: admitted_numbers_insert)
      show "admitted_numbers ?H ck' = admitted_numbers H ck'" if "ck' \<noteq> ck" for ck'
        using that by (simp add: admitted_numbers_insert)
    qed
    moreover have "(ck, s) \<notin> H" if ok using tracked(2) [OF that] by (simp add: admitted_numbers_def)
    ultimately show ?thesis by (auto simp: r)
  qed
  then show "windows_cover expiry now (if is_ok r then insert (ck, s) H else H) ws'"
    and "is_ok r \<Longrightarrow> (ck, s) \<notin> H" by simp_all
qed

end
