(* ===== verification/Gate_History.thy ===== *)
theory Gate_History
  imports Gate_Safety
begin

text \<open>
  Histories of a publication gate: the events that reach it in the order its locks serialise them,
  what it has admitted, and the claims about whole histories. A concrete API at the end serves the
  witnesses.
\<close>

section \<open>Events\<close>

datatype gate_event =
    Authorize publish_ingress_request
  | LegacyAttempt
  | IntegrationFailure publish_ingress_error
  | Forward publish_lease nat int
  | Control registry_event

fun gate_step :: "media_api \<Rightarrow> gate \<Rightarrow> gate_event \<Rightarrow> gate" where
  "gate_step api g (Authorize q) = snd (authorize api g q)"
| "gate_step api g LegacyAttempt = snd (authorize_legacy_path g)"
| "gate_step api g (IntegrationFailure e) = snd (handle_integration_error g e)"
| "gate_step api g (Forward l n now) = snd (revalidate_before_forward g l n now)"
| "gate_step api g (Control x) = g\<lparr>g_registry := registry_step (g_registry g) x\<rparr>"

definition gate_run :: "media_api \<Rightarrow> gate \<Rightarrow> gate_event list \<Rightarrow> gate" where
  "gate_run api g es = foldl (gate_step api) g es"

lemma gate_run_simps [simp]:
  "gate_run api g [] = g"
  "gate_run api g (x # es) = gate_run api (gate_step api g x) es"
  by (simp_all add: gate_run_def)

lemma gate_run_invariant:
  assumes "\<And>g x. P g \<Longrightarrow> P (gate_step api g x)" and "P g"
  shows "P (gate_run api g es)"
  using assms by (induction es arbitrary: g) simp_all

lemma apply_mode_frame [simp]:
  "g_registry (snd (apply_mode g e)) = g_registry g" "g_mode (snd (apply_mode g e)) = g_mode g"
  "g_admissions (snd (apply_mode g e)) = g_admissions g" "g_windows (snd (apply_mode g e)) = g_windows g"
  by (simp_all add: apply_mode_def split: publish_authorization_mode.split)

lemma revalidate_frame [simp]:
  "g_registry (snd (revalidate_before_forward g l n now)) = g_registry g"
  "g_mode (snd (revalidate_before_forward g l n now)) = g_mode g"
  "g_admissions (snd (revalidate_before_forward g l n now)) = g_admissions g"
  "g_windows (snd (revalidate_before_forward g l n now)) = g_windows g"
  by (simp_all add: revalidate_before_forward_def split: sum.split)

lemma authorize_frame_snd [simp]:
  "g_registry (snd (authorize api g q)) = g_registry g" "g_mode (snd (authorize api g q)) = g_mode g"
  using authorize_frame [OF prod.collapse [symmetric, of "authorize api g q"]] by simp_all

fun control_of :: "gate_event \<Rightarrow> registry_event list" where
  "control_of (Control x) = [x]"
| "control_of _ = []"

lemma gate_step_mode [simp]: "g_mode (gate_step api g x) = g_mode g"
  by (cases x) (simp_all add: authorize_legacy_path_def handle_integration_error_def)

lemma gate_step_registry: "g_registry (gate_step api g x) = registry_run (g_registry g) (control_of x)"
  by (cases x) (simp_all add: authorize_legacy_path_def handle_integration_error_def registry_run_def)

lemma gate_run_mode [simp]: "g_mode (gate_run api g es) = g_mode g"
  by (induction es arbitrary: g) simp_all

lemma registry_run_append: "registry_run r (xs @ ys) = registry_run (registry_run r xs) ys"
  by (simp add: registry_run_def)

lemma gate_run_registry:
  "g_registry (gate_run api g es) = registry_run (g_registry g) (concat (map control_of es))"
proof (induction es arbitrary: g)
  case Nil
  then show ?case by (simp add: registry_run_def)
next
  case (Cons x es)
  then show ?case by (simp add: registry_run_append gate_step_registry)
qed

section \<open>A frame number is admitted at most once\<close>

fun event_time :: "gate_event \<Rightarrow> int list" where
  "event_time (Authorize q) = [rq_now q]"
| "event_time _ = []"

definition event_times :: "gate_event list \<Rightarrow> int list" where
  "event_times es = concat (map event_time es)"

definition admitted_frame :: "media_api \<Rightarrow> gate \<Rightarrow> publish_ingress_request \<Rightarrow> ((string \<times> binding_key) \<times> u64) list" where
  "admitted_frame api g q =
     (if g_mode g = Off then [] else
      case fst (authorize_verified api g q) of
        Inr (v, l) \<Rightarrow> [((vc_capability_id v, key_from_envelope (pl_envelope l)), ev_sequence (pl_envelope l))]
      | Inl _ \<Rightarrow> [])"

fun admitted_frames :: "media_api \<Rightarrow> gate \<Rightarrow> gate_event list \<Rightarrow> ((string \<times> binding_key) \<times> u64) list" where
  "admitted_frames api g [] = []"
| "admitted_frames api g (x # es) =
     (case x of Authorize q \<Rightarrow> admitted_frame api g q | _ \<Rightarrow> []) @ admitted_frames api (gate_step api g x) es"

text \<open>A capability identifier names one immutable signed capability, which has one expiry.\<close>

definition stable_expiry :: "media_api \<Rightarrow> (string \<Rightarrow> int) \<Rightarrow> bool" where
  "stable_expiry api expiry \<longleftrightarrow>
     (\<forall>jws cx guard m v m'. api_verify api jws cx guard m = (Inr v, m')
        \<longrightarrow> vc_expires_at v = expiry (vc_capability_id v))"

lemma authorize_windows:
  "g_windows (snd (authorize api g q))
     = (if g_mode g = Off then g_windows g else g_windows (snd (authorize_verified api g q)))"
  by (auto simp: authorize_def authorize_strict_def split: sum.split prod.split)

lemma authorize_verified_cover:
  assumes st: "stable_expiry api expiry" and cov: "windows_cover expiry t H (g_windows g)"
    and time: "t \<le> rq_now q" and on: "g_mode g \<noteq> Off"
  shows "windows_cover expiry (rq_now q) (set (admitted_frame api g q) \<union> H)
           (g_windows (snd (authorize_verified api g q)))"
    and "set (admitted_frame api g q) \<inter> H = {}"
proof -
  have cov': "windows_cover expiry (rq_now q) H (g_windows g)" by (rule windows_cover_later [OF cov time])
  have "windows_cover expiry (rq_now q) (set (admitted_frame api g q) \<union> H)
           (g_windows (snd (authorize_verified api g q)))
      \<and> set (admitted_frame api g q) \<inter> H = {}"
  proof (cases "check_request api q")
    case (Inl e)
    then show ?thesis using cov' by (simp add: admitted_frame_def authorize_verified_def)
  next
    case env: (Inr env)
    show ?thesis
    proof (cases "resolve_binding api (g_registry g) q env")
      case (Inl e)
      then show ?thesis using cov' env by (simp add: admitted_frame_def authorize_verified_def)
    next
      case reg: (Inr r)
      let ?b = "rb_binding r" and ?k = "key_from_envelope env"
      obtain res m where ver: "api_verify api (rq_compact_jws q) (context_of ?b (rq_now q))
          (check_and_admit (fingerprint_of ?b ?k) (rq_now q)) (g_admissions g) = (res, m)" by fastforce
      show ?thesis
      proof (cases res)
        case (Inl e)
        then show ?thesis using cov' env reg ver
          by (simp add: admitted_frame_def authorize_verified_def Let_def)
      next
        case v: (Inr v)
        show ?thesis
        proof (cases "check_limits (rq_now q) env ?b v")
          case (Inl e)
          then show ?thesis using cov' env reg ver v
            by (simp add: admitted_frame_def authorize_verified_def Let_def)
        next
          case lim: (Inr u)
          have ex: "vc_expires_at v = expiry (vc_capability_id v)"
            using st ver v unfolding stable_expiry_def by blast
          have live: "rq_now q < vc_expires_at v" using lim check_limits_Inr by simp
          obtain r' ws where adm: "admit_sequence (rq_now q) (vc_capability_id v, ?k) (vc_expires_at v)
              (ev_sequence env) (g_windows g) = (r', ws)" by fastforce
          note step = admit_sequence_cover [OF cov' _ live adm]
          from step ex show ?thesis using env reg ver v lim adm
            by (cases r') (simp_all add: on admitted_frame_def authorize_verified_def Let_def lease_of_def)
        qed
      qed
    qed
  qed
  then show "windows_cover expiry (rq_now q) (set (admitted_frame api g q) \<union> H)
           (g_windows (snd (authorize_verified api g q)))"
    and "set (admitted_frame api g q) \<inter> H = {}" by simp_all
qed

lemma admitted_frame_distinct [simp]: "distinct (admitted_frame api g q)"
  by (auto simp: admitted_frame_def split: sum.split)

lemma gate_step_other_windows:
  "\<nexists>q. x = Authorize q \<Longrightarrow> g_windows (gate_step api g x) = g_windows g"
  by (cases x) (simp_all add: authorize_legacy_path_def handle_integration_error_def)

lemma admitted_frames_distinct:
  assumes st: "stable_expiry api expiry"
  shows "windows_cover expiry t H (g_windows g) \<Longrightarrow> sorted (t # event_times es) \<Longrightarrow>
    distinct (admitted_frames api g es) \<and> set (admitted_frames api g es) \<inter> H = {}"
proof (induction es arbitrary: t H g)
  case Nil
  then show ?case by simp
next
  case (Cons x es)
  show ?case
  proof (cases "\<exists>q. x = Authorize q \<and> g_mode g \<noteq> Off")
    case True
    then obtain q where x: "x = Authorize q" and on: "g_mode g \<noteq> Off" by blast
    from Cons.prems(2) have time: "t \<le> rq_now q" and rest: "sorted (rq_now q # event_times es)"
      by (simp_all add: x event_times_def)
    note step = authorize_verified_cover [OF st Cons.prems(1) time on]
    have "g_windows (gate_step api g x) = g_windows (snd (authorize_verified api g q))"
      using on by (simp add: x authorize_windows)
    with step(1) have "windows_cover expiry (rq_now q) (set (admitted_frame api g q) \<union> H)
        (g_windows (gate_step api g x))" by simp
    from Cons.IH [OF this rest] step(2) show ?thesis
      by (auto simp: x)
  next
    case False
    have none: "(case x of Authorize q \<Rightarrow> admitted_frame api g q | _ \<Rightarrow> []) = []"
      using False by (cases x) (auto simp: admitted_frame_def)
    have same: "g_windows (gate_step api g x) = g_windows g"
      using False gate_step_other_windows [of x api g] by (cases x) (auto simp: authorize_windows)
    have rest: "sorted (t # event_times es)"
      using Cons.prems(2) by (cases x) (auto simp: event_times_def)
    from Cons.IH [OF _ rest, of H "gate_step api g x"] Cons.prems(1) same none show ?thesis by simp
  qed
qed

section \<open>The maps stay bounded\<close>

text \<open>The verifier reaches the guarded map only by calling the guard.\<close>

definition guarded_verifier :: "media_api \<Rightarrow> bool" where
  "guarded_verifier api \<longleftrightarrow>
     (\<forall>jws cx guard m. \<exists>calls. snd (api_verify api jws cx guard m) = foldl (\<lambda>m a. snd (guard m a)) m calls)"

definition gate_bounded :: "gate \<Rightarrow> bool" where
  "gate_bounded g \<longleftrightarrow> admissions_inv (g_admissions g) \<and> windows_inv (g_windows g)"

lemma guard_calls_inv:
  "admissions_inv m \<Longrightarrow> admissions_inv (foldl (\<lambda>m a. snd (check_and_admit fp now m a)) m calls)"
  by (induction calls arbitrary: m) (simp_all add: check_and_admit_inv)

lemma authorize_verified_bounded:
  assumes gv: "guarded_verifier api" and inv: "gate_bounded g"
  shows "gate_bounded (snd (authorize_verified api g q))"
proof -
  have adm: "admissions_inv (snd (api_verify api jws cx (check_and_admit fp now) (g_admissions g)))" for jws cx fp now
    using gv inv guard_calls_inv unfolding guarded_verifier_def gate_bounded_def by metis
  have win: "windows_inv (snd (admit_sequence now ck ex s (g_windows g)))" for now ck ex s
    using inv admit_sequence_inv by (simp add: gate_bounded_def)
  have ver: "admissions_inv m" if "api_verify api jws cx (check_and_admit fp now) (g_admissions g) = (res, m)"
    for jws cx fp now res m
    using adm [of jws cx fp now] that by simp
  have win': "windows_inv ws" if "admit_sequence now ck ex s (g_windows g) = (res, ws)" for now ck ex s res ws
    using win [of now ck ex s] that by simp
  from inv show ?thesis
    by (auto simp: authorize_verified_def gate_bounded_def Let_def dest!: ver win' split: sum.split prod.split)
qed

lemma authorize_maps:
  "g_mode g \<noteq> Off \<Longrightarrow> gate_bounded (snd (authorize api g q)) \<longleftrightarrow> gate_bounded (snd (authorize_verified api g q))"
  by (auto simp: authorize_def authorize_strict_def gate_bounded_def split: sum.split prod.split)

lemma gate_step_bounded:
  assumes "guarded_verifier api" and "gate_bounded g"
  shows "gate_bounded (gate_step api g x)"
proof (cases x)
  case (Authorize q)
  then show ?thesis
    using assms authorize_maps [of g api q] authorize_verified_bounded [of api g q]
    by (cases "g_mode g = Off") (simp_all add: authorize_def)
qed (use assms in \<open>simp_all add: gate_bounded_def authorize_legacy_path_def handle_integration_error_def\<close>)

lemma new_gate_bounded: "gate_bounded (new_gate mode r)"
  by (simp add: gate_bounded_def new_gate_def admissions_inv_def windows_inv_def)

section \<open>The counters\<close>

definition metrics_ok :: "publish_authorization_mode \<Rightarrow> gate_metrics \<Rightarrow> bool" where
  "metrics_ok mode m \<longleftrightarrow> length (gm_rejection_reasons m) = rejection_code_count
     \<and> sum_list (gm_rejection_reasons m) = gm_observed_mismatches m + gm_enforced_rejections m
     \<and> (mode \<noteq> Observe \<longrightarrow> gm_observed_mismatches m = 0)
     \<and> (mode \<noteq> Enforce \<longrightarrow> gm_enforced_rejections m = 0)
     \<and> (mode = Off \<longrightarrow> gm_admitted m = 0)"

lemma sum_list_bump:
  "i < length xs \<Longrightarrow> sum_list (xs[i := xs ! i + 1]) = sum_list xs + (1 :: u64)"
proof (induction xs arbitrary: i)
  case Nil
  then show ?case by simp
next
  case (Cons a xs)
  then show ?case by (cases i) (simp_all add: algebra_simps)
qed

lemma record_rejection_metrics:
  assumes "metrics_ok (g_mode g) (g_metrics g)" and "g_mode g = (if enforced then Enforce else Observe)"
  shows "metrics_ok (g_mode g) (g_metrics (record_rejection g e enforced))"
  using assms code_index_less [of "err_code e"]
  by (auto simp: metrics_ok_def record_rejection_def Let_def sum_list_bump)

lemma record_admitted_metrics:
  "metrics_ok mode (g_metrics g) \<Longrightarrow> mode \<noteq> Off \<Longrightarrow> metrics_ok mode (g_metrics (record_admitted g))"
  by (simp add: metrics_ok_def record_admitted_def)

lemma apply_mode_metrics:
  "metrics_ok (g_mode g) (g_metrics g) \<Longrightarrow> metrics_ok (g_mode g) (g_metrics (snd (apply_mode g e)))"
  using record_rejection_metrics [of g True e] record_rejection_metrics [of g False e]
  by (cases "g_mode g") (simp_all add: apply_mode_def)

lemma authorize_metrics:
  assumes ok: "metrics_ok (g_mode g) (g_metrics g)"
  shows "metrics_ok (g_mode g) (g_metrics (snd (authorize api g q)))"
proof (cases "g_mode g = Off")
  case True
  with ok show ?thesis by (simp add: authorize_def)
next
  case on: False
  obtain r h where st: "authorize_verified api g q = (r, h)" by (cases "authorize_verified api g q")
  note fr = authorize_verified_frame [OF st]
  from ok fr have h: "metrics_ok (g_mode h) (g_metrics h)" by simp
  show ?thesis
  proof (cases r)
    case (Inr vl)
    with st on h fr show ?thesis
      by (auto simp: authorize_def authorize_strict_def record_admitted_metrics split: prod.split)
  next
    case (Inl e)
    show ?thesis
    proof (cases "g_mode g = Observe")
      case True
      with st Inl h fr record_rejection_metrics [of h False e] show ?thesis
        by (simp add: authorize_def authorize_strict_def)
    next
      case False
      with on have "g_mode g = Enforce" by (cases "g_mode g") auto
      with st Inl h fr record_rejection_metrics [of h True e] show ?thesis
        by (simp add: authorize_def authorize_strict_def)
    qed
  qed
qed

lemma gate_step_metrics:
  "metrics_ok (g_mode g) (g_metrics g) \<Longrightarrow> metrics_ok (g_mode g) (g_metrics (gate_step api g x))"
  by (cases x)
    (auto simp: authorize_metrics apply_mode_metrics authorize_legacy_path_def handle_integration_error_def
      revalidate_before_forward_def split: sum.split)

lemma new_gate_metrics: "metrics_ok mode (g_metrics (new_gate mode r))"
  by (simp add: metrics_ok_def new_gate_def default_metrics_def sum_list_replicate)

end
