(* ===== verification/Gate_Claims.thy ===== *)
theory Gate_Claims
  imports Gate_History
begin

text \<open>
  The properties of the publication gate and its registry, with the concrete API, binding and
  requests that their witnesses run on.
\<close>

section \<open>A concrete gate\<close>

definition demo_limits :: control_limits where
  "demo_limits = \<lparr>max_generation = 1000, max_clock_skew_seconds = 60, max_json_bytes = 64,
     max_compact_jws_bytes = 64\<rparr>"

definition demo_identity :: session_media_identity where
  "demo_identity = \<lparr>id_tenant = ''t'', id_session = ''s'', id_session_epoch = 1, id_participant = ''p'',
     id_endpoint = ''e'', id_contributor = ''c'', id_topology_generation = 1, id_media_class = Program,
     id_source = Some ''cam'', id_audience = None, id_take = None\<rparr>"

definition demo_configuration :: media_frame_configuration where
  "demo_configuration = \<lparr>cf_identity = demo_identity, cf_configuration_id = ''cfg'',
     cf_binding_generation = 3, cf_configuration_ref = 4, cf_configuration_epoch = 5,
     cf_capture_disposition = OtherDisposition 0, cf_payload_format = FmtOpus,
     cf_capture_timebase_hz = 48000, cf_channel_count = 2\<rparr>"

definition demo_binding :: current_publish_binding where
  "demo_binding = \<lparr>b_configuration = demo_configuration, b_legacy_stream_id = 77,
     b_media_authorization_epoch = 1, b_subject_grant_epoch = 1, b_media_policy_version = 1,
     b_class_authorization_epoch = None, b_operation = Publish, b_edge_id = ''edge'',
     b_clock_skew_seconds = 0\<rparr>"

definition demo_envelope :: "u64 \<Rightarrow> media_frame_envelope" where
  "demo_envelope s = \<lparr>ev_binding_generation = 3, ev_configuration_ref = 4, ev_configuration_epoch = 5,
     ev_sequence = s, ev_payload_bytes = 100, ev_duration_ticks = 960, ev_capture_pts = 0\<rparr>"

definition demo_verify :: lease_verifier where
  "demo_verify jws cx guard m =
     (case guard m \<lparr>ra_capability_id = jws, ra_expires_at = 100\<rparr> of
        (Inl _, m') \<Rightarrow> (Inl \<lparr>ve_code = VeReplayAdmissionRejected, ve_claims_code = None, ve_field = ''replay''\<rparr>, m')
      | (Inr _, m') \<Rightarrow> (Inr \<lparr>vc_capability_id = jws, vc_expires_at = 100, vc_max_channels = 2,
           vc_max_bitrate = 64000, vc_max_datagram_bytes = 1200\<rparr>, m'))"

definition demo_api :: media_api where
  "demo_api = \<lparr>api_limits = demo_limits,
     api_from_json = (\<lambda>bs. case bs of [s] \<Rightarrow> Inr (demo_envelope (ucast s))
       | _ \<Rightarrow> Inl \<lparr>mc_code = McOther 0, mc_field = ''json''\<rparr>),
     api_to_json = (\<lambda>env. Inr [ucast (ev_sequence env)]),
     api_resolve = (\<lambda>_ _. Inr ()),
     api_verify = demo_verify\<rparr>"

definition demo_gate :: "publish_authorization_mode \<Rightarrow> gate" where
  "demo_gate mode = new_gate mode (snd (install new_registry demo_binding))"

definition demo_request :: "u8 \<Rightarrow> publish_ingress_request" where
  "demo_request s = \<lparr>rq_compact_jws = ''jws'', rq_envelope_json = [s], rq_content_length = 100,
     rq_legacy_stream_id = 77, rq_now = 10\<rparr>"

lemma demo_stable: "stable_expiry demo_api (\<lambda>_. 100)"
  by (auto simp: stable_expiry_def demo_api_def demo_verify_def split: prod.splits sum.splits)

lemma demo_guarded: "guarded_verifier demo_api"
  unfolding guarded_verifier_def
proof (intro allI)
  fix jws cx guard m
  have "snd (api_verify demo_api jws cx guard m)
      = foldl (\<lambda>m a. snd (guard m a)) m [\<lparr>ra_capability_id = jws, ra_expires_at = 100\<rparr>]"
    by (simp add: demo_api_def demo_verify_def split: prod.split sum.split)
  then show "\<exists>calls. snd (api_verify demo_api jws cx guard m) = foldl (\<lambda>m a. snd (guard m a)) m calls" ..
qed

lemmas demo_defs = demo_limits_def demo_identity_def demo_configuration_def demo_binding_def
  demo_envelope_def demo_verify_def demo_api_def demo_gate_def demo_request_def

lemmas gate_eval = demo_defs authorize_verified_def check_request_def resolve_binding_def
  check_limits_def required_bits_def allowed_bits_def sat_mul_def admit_sequence_def Let_def
  new_gate_def install_def new_registry_def bump_revision_def sat_add_def binding_key_of_def
  key_from_configuration_def key_from_envelope_def contains_key_def resolve_def
  validate_talkback_isolation_def check_and_admit_def live_admissions_def retain_def
  max_active_publish_leases_def fingerprint_of_def context_of_def lease_of_def

lemma demo_admits:
  "\<exists>l g. authorize_strict demo_api (demo_gate Enforce) (demo_request 7) = (Inr l, g)
     \<and> pl_expires_at l = 100 \<and> pl_binding_revision l = 1 \<and> ev_sequence (pl_envelope l) = 7"
  by (simp add: authorize_strict_def gate_eval)

section \<open>Admission\<close>





definition window_run :: "u64 \<Rightarrow> u64 list \<Rightarrow> sequence_window" where
  "window_run s0 ss = foldl (\<lambda>w s. snd (window_admit w s)) (window_first s0) ss"

definition window_accepts :: "u64 \<Rightarrow> u64 list \<Rightarrow> u64 list" where
  "window_accepts s0 ss = s0 # accepted window_admit (window_first s0) ss"

lemma window_run_tracks:
  "window_tracks w A \<Longrightarrow> window_tracks (foldl (\<lambda>w s. snd (window_admit w s)) w ss) (A \<union> set (accepted window_admit w ss))"
proof (induction ss arbitrary: w A)
  case Nil
  then show ?case by simp
next
  case (Cons s ss)
  obtain ok w' where step: "window_admit w s = (ok, w')" by fastforce
  from Cons.IH [OF seq_window.admit_cases(1) [OF Cons.prems step]] show ?case
    by (cases ok) (auto simp: step)
qed

text \<open>C4: The 128-bit window answers exactly as the unbounded history would: after any run of
  admissions it admits a number iff the number is newer than every admitted one, or lies within
  128 of the newest and was not admitted before.\<close>

theorem window_exact:
  "fst (window_admit (window_run s0 ss) s) \<longleftrightarrow>
     (let A = set (window_accepts s0 ss); newest = Max A
      in newest < s \<or> (unat newest < unat s + 128 \<and> s \<notin> A))"
proof -
  let ?A = "set (window_accepts s0 ss)"
  have tr: "window_tracks (window_run s0 ss) ?A"
    using window_run_tracks [OF window_tracks_first, of s0 ss]
    by (simp add: window_run_def window_accepts_def)
  then have "win_highest (window_run s0 ss) = Max ?A"
    by (intro Max_eqI [symmetric]) (auto simp: window_tracks_def)
  with window_admit_spec [OF tr, of s] show ?thesis by (simp add: Let_def)
qed

text \<open>A capability that is still live stays bound to the coordinates it was first used for: the
  guard answers a use for other coordinates with a replay rejection and leaves the entry as it is.\<close>

theorem capability_stays_bound:
  assumes "wf_assoc m" and "map_of m (ra_capability_id a) = Some prior"
    and "now < adm_expires_at prior" and "adm_fingerprint prior \<noteq> fp"
  shows "fst (check_and_admit fp now m a) = Inl Replay
    \<and> map_of (snd (check_and_admit fp now m a)) (ra_capability_id a) = Some prior"
  using check_and_admit_bound [OF assms] by simp

definition demo_admission :: capability_admission where
  "demo_admission = \<lparr>adm_fingerprint = fingerprint_of demo_binding (binding_key_of demo_binding),
     adm_expires_at = 100\<rparr>"

definition demo_other_key :: binding_key where
  "demo_other_key = \<lparr>bk_binding_generation = 3, bk_configuration_ref = 9, bk_configuration_epoch = 5\<rparr>"

lemma capability_stays_bound_witness:
  "fst (check_and_admit (fingerprint_of demo_binding demo_other_key) 10 [(''jws'', demo_admission)]
      \<lparr>ra_capability_id = ''jws'', ra_expires_at = 100\<rparr>) = Inl Replay"
  using capability_stays_bound [of "[(''jws'', demo_admission)]" "\<lparr>ra_capability_id = ''jws'', ra_expires_at = 100\<rparr>"
      demo_admission 10 "fingerprint_of demo_binding demo_other_key"]
  by (simp add: wf_assoc_def demo_admission_def demo_other_key_def gate_eval)

section \<open>Revocation\<close>

lemma revalidate_strict_revoked:
  "resolve (g_registry g) (key_from_envelope (pl_envelope l)) = Inl e \<Longrightarrow> \<exists>e'. revalidate_strict g l n now = Inl e'"
  by (auto simp: revalidate_strict_def revalidate_def)

lemma revalidate_enforced:
  "g_mode g = Enforce \<Longrightarrow> revalidate_strict g l n now = Inl e \<Longrightarrow> fst (revalidate_before_forward g l n now) = Inl e"
  by (simp add: revalidate_before_forward_def apply_mode_def)

text \<open>C3: Once control has invalidated the coordinates of a lease, an enforcing gate forwards no frame
  under that lease, whatever events follow; the coordinates cannot be installed again.\<close>

theorem revoked_lease_never_forwards:
  assumes "g_mode g = Enforce"
    and "fst (invalidate (g_registry g) (key_from_envelope (pl_envelope l)))"
  shows "\<exists>e. fst (revalidate_before_forward
      (gate_run api g (Control (Invalidate (key_from_envelope (pl_envelope l))) # es)) l n now) = Inl e"
proof -
  let ?k = "key_from_envelope (pl_envelope l)"
  let ?g = "gate_run api g (Control (Invalidate ?k) # es)"
  have "g_registry ?g = registry_run (snd (invalidate (g_registry g) ?k)) (concat (map control_of es))"
    by (simp add: gate_run_registry)
  with invalidate_revokes [OF assms(2)]
  have "resolve (g_registry ?g) ?k = Inl (ingress_error RevokedBinding ''configuration_ref'')" by simp
  then obtain e where "revalidate_strict ?g l n now = Inl e" using revalidate_strict_revoked by blast
  moreover have "g_mode ?g = Enforce" using assms(1) by simp
  ultimately show ?thesis using revalidate_enforced by blast
qed

definition demo_lease :: publish_lease where
  "demo_lease = \<lparr>pl_binding = demo_binding, pl_envelope = demo_envelope 7, pl_binding_revision = 1,
     pl_expires_at = 100, pl_max_datagram_bytes = 1200\<rparr>"

lemma revoked_lease_never_forwards_witness:
  "\<exists>e. fst (revalidate_before_forward
      (gate_run demo_api (demo_gate Enforce)
        [Control (Invalidate (key_from_envelope (pl_envelope demo_lease))), Control (Install demo_binding)])
      demo_lease 100 20) = Inl e"
  by (rule revoked_lease_never_forwards) (simp_all add: demo_lease_def gate_eval invalidate_def)

text \<open>C7: A lease just granted is forwarded: with the body length its request declared and before its
  expiry, revalidation against the resulting state succeeds and changes nothing.\<close>

theorem fresh_lease_forwards:
  assumes "authorize_strict api g q = (Inr l, g')" and "now < pl_expires_at l"
  shows "revalidate_before_forward g' l (unat (rq_content_length q)) now = (Inr (), g')"
proof -
  from assms(1) obtain v where ok: "authorize_verified api g q = (Inr (v, l), g')"
    by (auto simp: authorize_strict_Inr)
  from authorize_verified_frame(1) [OF ok] ok assms(2) show ?thesis
    by (auto simp: revalidate_before_forward_def revalidate_strict_def revalidate_Inr lease_of_def
        check_request_Inr resolve_binding_Inr unat_ucast_widen elim!: authorize_verified_Inr split: sum.split)
      (auto simp: revalidate_def resolve_def)
qed

lemma fresh_lease_forwards_witness:
  "\<exists>l g'. authorize_strict demo_api (demo_gate Enforce) (demo_request 7) = (Inr l, g')
     \<and> revalidate_before_forward g' l 100 20 = (Inr (), g')"
proof -
  obtain l g' where ok: "authorize_strict demo_api (demo_gate Enforce) (demo_request 7) = (Inr l, g')"
    and "pl_expires_at l = 100" using demo_admits by blast
  with fresh_lease_forwards [OF ok, of 20] show ?thesis by (simp add: demo_request_def)
qed

section \<open>Modes, counters, bounds\<close>

text \<open>\<^verbatim>\<open>Observe\<close> and \<^verbatim>\<open>Off\<close> never reject, \<^verbatim>\<open>Enforce\<close> rejects exactly what the strict
  authorization rejects with its error, and \<^verbatim>\<open>Observe\<close> reports exactly that error.\<close>

theorem mode_semantics:
  "fst (authorize api g q) =
     (case g_mode g of
        Off \<Rightarrow> Inr \<lparr>pa_lease = None, pa_observed_rejection = None\<rparr>
      | Observe \<Rightarrow>
          (case fst (authorize_strict api g q) of
             Inr l \<Rightarrow> Inr \<lparr>pa_lease = Some l, pa_observed_rejection = None\<rparr>
           | Inl e \<Rightarrow> Inr \<lparr>pa_lease = None, pa_observed_rejection = Some e\<rparr>)
      | Enforce \<Rightarrow>
          (case fst (authorize_strict api g q) of
             Inr l \<Rightarrow> Inr \<lparr>pa_lease = Some l, pa_observed_rejection = None\<rparr>
           | Inl e \<Rightarrow> Inl e))"
  by (cases "g_mode g") (auto simp: authorize_def split: prod.split sum.split)

text \<open>C6: The counters of a gate account for every decision of its history: the per-reason counters
  sum to the observed plus the enforced rejections, and a mode only moves its own counters.\<close>

theorem metrics_account_for_decisions:
  "metrics_ok mode (g_metrics (gate_run api (new_gate mode r) es))"
proof -
  have "metrics_ok (g_mode (gate_run api g es)) (g_metrics (gate_run api g es))"
    if "metrics_ok (g_mode g) (g_metrics g)" for g
    using that by (rule gate_run_invariant [rotated]) (simp add: gate_step_metrics)
  from this [of "new_gate mode r"] new_gate_metrics [of mode r] show ?thesis
    by (simp add: new_gate_def)
qed

text \<open>Whatever clients send, the capability map and the window map keep distinct keys and never
  exceed 65536 entries.\<close>

theorem gate_memory_bounded:
  assumes "guarded_verifier api"
  shows "gate_bounded (gate_run api (new_gate mode r) es)"
  using gate_step_bounded [OF assms] new_gate_bounded by (rule gate_run_invariant)

lemma gate_memory_bounded_witness:
  "gate_bounded (gate_run demo_api (new_gate Enforce new_registry) [Authorize (demo_request 7), LegacyAttempt])"
  by (rule gate_memory_bounded [OF demo_guarded])

section \<open>The registry\<close>

text \<open>C8: Over any history of installations and invalidations the registry keeps its invariant: every
  coordinate is stored under its own key with a revision between one and the counter, and one
  carrier stream is never bound to two identities.\<close>

theorem registry_history_invariant:
  "registry_inv (registry_run new_registry es)"
  by (rule registry_run_inv) simp

text \<open>An invalidation succeeds exactly on a coordinate that resolves, and afterwards that coordinate
  is refused as revoked whatever control installs or invalidates later.\<close>

theorem invalidation_is_final:
  assumes "is_ok (resolve r k)"
  shows "fst (invalidate r k) \<and> resolve (registry_run (snd (invalidate r k)) es) k
    = Inl (ingress_error RevokedBinding ''configuration_ref'')"
  using assms invalidate_iff [of r k] invalidate_revokes [of r k es] by simp

lemma invalidation_is_final_witness:
  "resolve (registry_run (snd (invalidate (snd (install new_registry demo_binding)) (binding_key_of demo_binding)))
      [Install demo_binding]) (binding_key_of demo_binding)
    = Inl (ingress_error RevokedBinding ''configuration_ref'')"
  by (rule invalidation_is_final [THEN conjunct2]) (simp add: gate_eval)

end
