(* ===== verification/Ingress_Headers.thy ===== *)
theory Ingress_Headers
  imports Publish_Gate
begin

text \<open>
  The header parsers and the trusted startup bundle of \<^verbatim>\<open>src/src/ingress_authorization.rs\<close>.
  The base64 engine, the JSON reader and the keyring of the verifier are arguments.
\<close>

section \<open>Headers\<close>

definition parse_bearer_header :: "bytes option \<Rightarrow> publish_ingress_error + string" where
  "parse_bearer_header value =
     res_bind (ok_or (ingress_error MissingCapability ''authorization'') value) (\<lambda>bs.
     res_bind (ok_or (ingress_error MalformedAuthorization ''authorization'') (from_utf8 bs)) (\<lambda>str.
     res_bind (ok_or (ingress_error MalformedAuthorization ''authorization'') (strip_prefix ''Bearer '' str)) (\<lambda>token.
       if token = [] \<or> list_ex is_ascii_whitespace token
       then Inl (ingress_error MalformedAuthorization ''authorization'') else Inr token)))"

definition parse_content_length_header :: "bytes option \<Rightarrow> publish_ingress_error + u64" where
  "parse_content_length_header value =
     res_bind (ok_or (ingress_error MissingContentLength ''content_length'') value) (\<lambda>bs.
     res_bind (ok_or (ingress_error InvalidContentLength ''content_length'') (from_utf8 bs)) (\<lambda>str.
       if str = [] \<or> (1 < length str \<and> starts_with ''0'' str) \<or> \<not> list_all is_ascii_digit str
       then Inl (ingress_error InvalidContentLength ''content_length'')
       else ok_or (ingress_error InvalidContentLength ''content_length'') (parse_uint str)))"

record base64_engine =
  b64_decode :: "string \<Rightarrow> bytes option"
  b64_encode :: "bytes \<Rightarrow> string"

definition decode_envelope_header :: "base64_engine \<Rightarrow> control_limits \<Rightarrow> string \<Rightarrow> publish_ingress_error + bytes" where
  "decode_envelope_header b64 lim value =
     (if div_ceil_nat (max_json_bytes lim) 3 * 4 < length value
      then Inl (ingress_error EnvelopeTooLarge ''frame_envelope'')
      else res_bind (ok_or (ingress_error MalformedEnvelope ''frame_envelope'') (b64_decode b64 value)) (\<lambda>decoded.
        if max_json_bytes lim < length decoded \<or> b64_encode b64 decoded \<noteq> value
        then Inl (ingress_error MalformedEnvelope ''frame_envelope'') else Inr decoded))"

definition decode_envelope_header_bytes ::
    "base64_engine \<Rightarrow> control_limits \<Rightarrow> bytes option \<Rightarrow> publish_ingress_error + bytes" where
  "decode_envelope_header_bytes b64 lim value =
     res_bind (ok_or (ingress_error MissingEnvelope ''frame_envelope'') value) (\<lambda>bs.
     res_bind (ok_or (ingress_error MalformedEnvelope ''frame_envelope'') (from_utf8 bs))
       (decode_envelope_header b64 lim))"

lemma ascii_bytes_utf8: "list_all is_ascii_digit s \<Longrightarrow> from_utf8 (bytes_of_str s) = Some s"
proof -
  assume digits: "list_all is_ascii_digit s"
  have "\<forall>b \<in> set (bytes_of_str s). b \<le> 0x7F"
  proof
    fix b assume "b \<in> set (bytes_of_str s)"
    then obtain c where c: "c \<in> set s" "b = of_nat (char_code c)"
      by (auto simp: bytes_of_str_def char_code_def)
    with digits have "char_code c \<le> 57" by (auto simp: list_all_iff is_ascii_digit_def char_code_def)
    then have "unat b \<le> 57" by (simp add: c(2) unat_byte)
    then show "b \<le> 0x7F" by (simp add: word_le_nat_alt)
  qed
  from utf8_ok_ascii [OF this] show ?thesis by (simp add: from_utf8_def)
qed

lemma from_utf8_eq_Some: "from_utf8 bs = Some s \<longleftrightarrow> utf8_ok bs \<and> s = str_of_bytes bs"
  by (auto simp: from_utf8_def)

lemma content_length_shape:
  "(str \<noteq> [] \<and> \<not> (1 < length str \<and> starts_with ''0'' str) \<and> list_all is_ascii_digit str) \<longleftrightarrow>
    canonical_dec str"
proof (cases str)
  case Nil
  then show ?thesis by (simp add: canonical_dec_def)
next
  case (Cons c cs)
  then show ?thesis
    by (cases cs) (auto simp: canonical_dec_def starts_with_iff all_digits_def list_all_iff)
qed

text \<open>The declared body length is accepted exactly in its canonical decimal form: the header is the
  rendering of the accepted number, and every 64-bit number's rendering is accepted as that
  number; signs, leading zeros, blanks and overflow are refused.\<close>

theorem content_length_exact:
  "parse_content_length_header (Some bs) = Inr n \<longleftrightarrow> bs = bytes_of_str (to_string n)"
proof
  assume "parse_content_length_header (Some bs) = Inr n"
  then have utf: "utf8_ok bs" and canon: "canonical_dec (str_of_bytes bs)"
    and num: "parse_uint (str_of_bytes bs) = Some n"
    using content_length_shape [of "str_of_bytes bs"]
    by (auto simp: parse_content_length_header_def res_ok from_utf8_eq_Some split: if_splits)
  have "str_of_bytes bs = to_string n" by (rule parse_uint_canonical [OF canon num])
  then show "bs = bytes_of_str (to_string n)" by (metis bytes_of_str_of_bytes)
next
  assume bs: "bs = bytes_of_str (to_string n)"
  have canon: "canonical_dec (to_string n)" by (simp add: to_string_def)
  then have "list_all is_ascii_digit (to_string n)"
    by (simp add: canonical_dec_def all_digits_def list_all_iff)
  from ascii_bytes_utf8 [OF this] content_length_shape [of "to_string n"] canon
  show "parse_content_length_header (Some bs) = Inr n"
    by (auto simp: bs parse_content_length_header_def)
qed

lemma parse_bearer_Inr:
  "parse_bearer_header (Some bs) = Inr t \<longleftrightarrow>
     utf8_ok bs \<and> str_of_bytes bs = ''Bearer '' @ t \<and> t \<noteq> [] \<and> \<not> list_ex is_ascii_whitespace t"
  by (auto simp: parse_bearer_header_def res_ok from_utf8_eq_Some strip_prefix_eq_Some split: if_splits)

text \<open>An accepted envelope header is the one canonical encoding of a bounded byte string: the
  decoded bytes encode back to the header, are the decoder's answer, and fit the JSON limit, and
  every failure is one of the four value-free errors.\<close>

theorem envelope_header_canonical:
  "(case decode_envelope_header_bytes b64 lim (Some bs) of
      Inr d \<Rightarrow> b64_encode b64 d = str_of_bytes bs \<and> b64_decode b64 (str_of_bytes bs) = Some d
        \<and> length d \<le> max_json_bytes lim
    | Inl e \<Rightarrow> err_field e = ''frame_envelope'' \<and> err_code e \<in> {EnvelopeTooLarge, MalformedEnvelope})"
  by (auto simp: decode_envelope_header_bytes_def decode_envelope_header_def res_bind_def ok_or_def
      from_utf8_def split: sum.split option.split)

section \<open>The startup bundle\<close>

definition max_publish_authorization_bundle_bytes :: nat where
  "max_publish_authorization_bundle_bytes = 1024 * 1024"
definition max_bootstrap_keys :: nat where "max_bootstrap_keys = 16"
definition max_bootstrap_bindings :: nat where "max_bootstrap_bindings = 4096"

record bootstrap_key =
  bo_kid :: string
  bo_public_key_base64url :: string
  bo_retiring_accept_until :: "int option"

record bootstrap =
  bo_version :: u16
  bo_issuer :: string
  bo_audience :: string
  bo_keys :: "bootstrap_key list"
  bo_bindings :: "current_publish_binding list"

record 'kr keyring_api =
  kr_new :: 'kr
  kr_insert_active :: "'kr \<Rightarrow> string \<Rightarrow> bytes \<Rightarrow> string + 'kr"
  kr_insert_retiring :: "'kr \<Rightarrow> string \<Rightarrow> bytes \<Rightarrow> int \<Rightarrow> string + 'kr"
  kr_verifier :: "'kr \<Rightarrow> string \<Rightarrow> string \<Rightarrow> string + lease_verifier"

abbreviation bootstrap_error :: "string \<Rightarrow> publish_ingress_error" where
  "bootstrap_error field \<equiv> ingress_error ConfigurationMismatch field"

fun insert_keys :: "base64_engine \<Rightarrow> 'kr keyring_api \<Rightarrow> bootstrap_key list \<Rightarrow> 'kr \<Rightarrow> publish_ingress_error + 'kr" where
  "insert_keys b64 api [] kr = Inr kr"
| "insert_keys b64 api (k # ks) kr =
     res_bind (ok_or (bootstrap_error ''public_key'') (b64_decode b64 (bo_public_key_base64url k))) (\<lambda>decoded.
       if length decoded \<noteq> 32 then Inl (bootstrap_error ''public_key'')
       else res_bind
         (map_err bootstrap_error
           (case bo_retiring_accept_until k of
              Some until \<Rightarrow> kr_insert_retiring api kr (bo_kid k) decoded until
            | None \<Rightarrow> kr_insert_active api kr (bo_kid k) decoded))
         (insert_keys b64 api ks))"

fun install_all :: "control_limits \<Rightarrow> current_publish_binding list \<Rightarrow> registry \<Rightarrow> publish_ingress_error + registry" where
  "install_all lim [] r = Inr r"
| "install_all lim (b # bs) r =
     res_bind (new_binding lim b) (\<lambda>b.
       case install r b of (Inl e, r') \<Rightarrow> Inl e | (Inr _, r') \<Rightarrow> install_all lim bs r')"

definition gate_from_bootstrap_json ::
    "base64_engine \<Rightarrow> 'kr keyring_api \<Rightarrow> control_limits \<Rightarrow> (bytes \<Rightarrow> bootstrap option) \<Rightarrow> bytes
     \<Rightarrow> publish_authorization_mode \<Rightarrow> publish_ingress_error + gate \<times> lease_verifier" where
  "gate_from_bootstrap_json b64 api lim read_json bs mode =
     (if max_publish_authorization_bundle_bytes < length bs then Inl (bootstrap_error ''bootstrap_json'')
      else res_bind (ok_or (bootstrap_error ''bootstrap_json'') (read_json bs)) (\<lambda>boot.
        if bo_version boot \<noteq> 1 \<or> bo_keys boot = [] \<or> max_bootstrap_keys < length (bo_keys boot)
           \<or> bo_bindings boot = [] \<or> max_bootstrap_bindings < length (bo_bindings boot)
        then Inl (bootstrap_error ''bootstrap_json'')
        else res_bind (insert_keys b64 api (bo_keys boot) (kr_new api)) (\<lambda>kr.
          res_bind (map_err bootstrap_error (kr_verifier api kr (bo_issuer boot) (bo_audience boot))) (\<lambda>verifier.
            res_bind (install_all lim (bo_bindings boot) new_registry) (\<lambda>r.
              Inr (new_gate mode r, verifier))))))"

text \<open>\<^verbatim>\<open>gate_from_bootstrap_path\<close>: the file is read up to one byte past the limit.\<close>

definition gate_from_bootstrap_path ::
    "base64_engine \<Rightarrow> 'kr keyring_api \<Rightarrow> control_limits \<Rightarrow> (bytes \<Rightarrow> bootstrap option) \<Rightarrow> bytes option
     \<Rightarrow> publish_authorization_mode \<Rightarrow> publish_ingress_error + gate \<times> lease_verifier" where
  "gate_from_bootstrap_path b64 api lim read_json file mode =
     res_bind (ok_or (bootstrap_error ''bootstrap_path'') file) (\<lambda>bs.
       gate_from_bootstrap_json b64 api lim read_json (take (max_publish_authorization_bundle_bytes + 1) bs) mode)"

lemma new_binding_id: "new_binding lim b = Inr b' \<Longrightarrow> b' = b"
  by (auto simp: new_binding_def Let_def res_ok split: if_splits)

lemma bump_revision_suc:
  assumes "n < 2 ^ 64 - 1" and "unat (next_revision r) = n"
  shows "unat (bump_revision r) = Suc n"
proof -
  have "unat (sat_add (next_revision r) 1) = Suc n" using assms by (simp add: unat_sat_add)
  moreover from this have "1 \<le> sat_add (next_revision r) 1" by (simp add: word_le_nat_alt)
  ultimately show ?thesis by (simp add: bump_revision_def max_absorb1)
qed

lemma install_all_sound:
  assumes "install_all lim bs r = Inr r'" and "registry_inv r"
    and "unat (next_revision r) + length bs < 2 ^ 64"
  shows "registry_inv r'" and "unat (next_revision r') = unat (next_revision r) + length bs"
    and "\<And>k e. map_of (bindings r) k = Some e \<Longrightarrow> map_of (bindings r') k = Some e"
    and "\<And>i. i < length bs \<Longrightarrow> new_binding lim (bs ! i) = Inr (bs ! i) \<and>
      (\<exists>e. map_of (bindings r') (binding_key_of (bs ! i)) = Some e \<and> rb_active e \<and> rb_binding e = bs ! i
         \<and> unat (rb_revision e) = unat (next_revision r) + i + 1)"
proof -
  have "registry_inv r' \<and> unat (next_revision r') = unat (next_revision r) + length bs
    \<and> (\<forall>k e. map_of (bindings r) k = Some e \<longrightarrow> map_of (bindings r') k = Some e)
    \<and> (\<forall>i < length bs. new_binding lim (bs ! i) = Inr (bs ! i) \<and>
      (\<exists>e. map_of (bindings r') (binding_key_of (bs ! i)) = Some e \<and> rb_active e \<and> rb_binding e = bs ! i
         \<and> unat (rb_revision e) = unat (next_revision r) + i + 1))"
    using assms
  proof (induction bs arbitrary: r)
    case Nil
    then show ?case by simp
  next
    case (Cons b bs)
    obtain v r1 where b: "new_binding lim b = Inr b" and ins: "install r b = (Inr v, r1)"
      and rest: "install_all lim bs r1 = Inr r'"
    proof -
      from Cons.prems(1) obtain b' where b': "new_binding lim b = Inr b'"
        by (cases "new_binding lim b") simp_all
      then have "b' = b" by (rule new_binding_id)
      with b' Cons.prems(1) that show ?thesis
        by (cases "install r b"; cases "fst (install r b)") auto
    qed
    note one = install_Inr [OF ins]
    have v: "unat v = Suc (unat (next_revision r))"
      using bump_revision_suc [of "unat (next_revision r)" r] Cons.prems(3) one(1) by simp
    have inv1: "registry_inv r1" using registry_inv_install [OF Cons.prems(2), of b] ins by simp
    have small: "unat (next_revision r1) + length bs < 2 ^ 64" using Cons.prems(3) one(2) v by simp
    from Cons.IH [OF rest inv1 small]
    have inv': "registry_inv r'" and cnt: "unat (next_revision r') = unat (next_revision r1) + length bs"
      and keep: "\<And>k e. map_of (bindings r1) k = Some e \<Longrightarrow> map_of (bindings r') k = Some e"
      and each: "\<And>i. i < length bs \<Longrightarrow> new_binding lim (bs ! i) = Inr (bs ! i) \<and>
        (\<exists>e. map_of (bindings r') (binding_key_of (bs ! i)) = Some e \<and> rb_active e \<and> rb_binding e = bs ! i
         \<and> unat (rb_revision e) = unat (next_revision r1) + i + 1)" by auto
    have first: "map_of (bindings r') (binding_key_of b)
        = Some \<lparr>rb_binding = b, rb_revision = v, rb_active = True\<rparr>"
      by (rule keep) (simp add: one(3))
    have older: "map_of (bindings r') k = Some e" if "map_of (bindings r) k = Some e" for k e
    proof (rule keep)
      show "map_of (bindings r1) k = Some e" using that one(3,4) by (cases "k = binding_key_of b") simp_all
    qed
    have "new_binding lim ((b # bs) ! i) = Inr ((b # bs) ! i) \<and>
      (\<exists>e. map_of (bindings r') (binding_key_of ((b # bs) ! i)) = Some e \<and> rb_active e \<and> rb_binding e = (b # bs) ! i
         \<and> unat (rb_revision e) = unat (next_revision r) + i + 1)" if "i < length (b # bs)" for i
    proof (cases i)
      case 0
      then show ?thesis using b first v by simp
    next
      case (Suc j)
      with that each [of j] one(2) v show ?thesis by auto
    qed
    then show ?case using inv' cnt older one(2) v by simp
  qed
  then show "registry_inv r'" and "unat (next_revision r') = unat (next_revision r) + length bs"
    and "\<And>k e. map_of (bindings r) k = Some e \<Longrightarrow> map_of (bindings r') k = Some e"
    and "\<And>i. i < length bs \<Longrightarrow> new_binding lim (bs ! i) = Inr (bs ! i) \<and>
      (\<exists>e. map_of (bindings r') (binding_key_of (bs ! i)) = Some e \<and> rb_active e \<and> rb_binding e = bs ! i
         \<and> unat (rb_revision e) = unat (next_revision r) + i + 1)" by blast+
qed

end
