(* ===== verification/Lease_Objects.thy ===== *)
theory Lease_Objects
  imports Publish_Gate
begin

text \<open>
  What an admitted lease is turned into: the canonical media object for the mesh
  (\<^verbatim>\<open>PublishLease::canonical_media_object\<close>), the ephemeral talkback frame
  (\<^verbatim>\<open>src/src/talkback_publish.rs\<close>), and the capability-bound ingress of synchronized stems
  (\<^verbatim>\<open>src/src/synchronized_stem_ingress.rs\<close>). The constructors of the media crates are arguments.
\<close>

section \<open>The canonical media object\<close>

record object_key =
  ok_tenant :: string
  ok_stream :: string
  ok_configuration :: string
  ok_generation :: u64
  ok_reference :: u64
  ok_sequence :: u64
  ok_part :: u64

record canonical_object =
  co_key :: object_key
  co_payload :: bytes
  co_configuration_epoch :: u64
  co_deadline_ns :: int
  co_metadata :: "(string \<times> bytes) list"

record object_api =
  oa_key_for_payload :: "object_key \<Rightarrow> bytes \<Rightarrow> object_key option"
  oa_clock_timestamp :: "int \<Rightarrow> int option"
  oa_configuration_json :: "media_frame_configuration \<Rightarrow> media_control_error + bytes"
  oa_envelope_json :: "media_frame_envelope \<Rightarrow> media_control_error + bytes"
  oa_build :: "canonical_object \<Rightarrow> canonical_object option"

definition operation_label :: "operation \<Rightarrow> string option" where
  "operation_label op = (case op of Publish \<Rightarrow> Some ''publish'' | UploadTake \<Rightarrow> Some ''upload_take''
     | OtherOperation _ \<Rightarrow> None)"

definition lease_identity :: "publish_lease \<Rightarrow> session_media_identity" where
  "lease_identity l = cf_identity (b_configuration (pl_binding l))"

definition canonical_media_object :: "object_api \<Rightarrow> publish_lease \<Rightarrow> bytes \<Rightarrow> publish_ingress_error + canonical_object" where
  "canonical_media_object oa l payload =
     (let b = pl_binding l; env = pl_envelope l; i = lease_identity l in
      if id_media_class i = Talkback then Inl (ingress_error TalkbackIsolation ''canonical_media_object'')
      else if length payload \<noteq> unat (ev_payload_bytes env)
      then Inl (ingress_error PayloadLengthMismatch ''payload_bytes'')
      else res_bind (ok_or (ingress_error ConfigurationMismatch ''canonical_object_key'')
        (oa_key_for_payload oa
          \<lparr>ok_tenant = id_tenant i, ok_stream = to_string (b_legacy_stream_id b),
           ok_configuration = cf_configuration_id (b_configuration b),
           ok_generation = ev_binding_generation env, ok_reference = ucast (ev_configuration_ref env),
           ok_sequence = ev_sequence env, ok_part = 1\<rparr> payload)) (\<lambda>key.
      res_bind (ok_or (ingress_error ConfigurationMismatch ''expires_at'')
        (i64_checked_mul (pl_expires_at l) 1000000000)) (\<lambda>deadline_ns.
      res_bind (ok_or (ingress_error ConfigurationMismatch ''expires_at'') (oa_clock_timestamp oa deadline_ns)) (\<lambda>deadline.
      res_bind (map_err map_envelope_error (oa_configuration_json oa (b_configuration b))) (\<lambda>configuration.
      res_bind (map_err map_envelope_error (oa_envelope_json oa env)) (\<lambda>envelope.
      res_bind (ok_or (ingress_error ConfigurationMismatch ''operation'') (operation_label (b_operation b))) (\<lambda>op.
      ok_or (ingress_error ConfigurationMismatch ''canonical_media_object'')
        (oa_build oa
          \<lparr>co_key = key, co_payload = payload, co_configuration_epoch = ev_configuration_epoch env,
           co_deadline_ns = deadline,
           co_metadata = [(''media-control-contract'', bytes_of_str ''v1''),
             (''media-operation-v1'', bytes_of_str op),
             (''media-frame-configuration-v1'', configuration),
             (''media-frame-envelope-v1'', envelope)]\<rparr>))))))))"

section \<open>Ephemeral talkback frames\<close>

record talkback_constants =
  tk_frame_samples :: u32
  tk_sample_rate :: u32
  tk_channels :: u16

record talkback_frame =
  tf_session :: string
  tf_session_epoch :: u64
  tf_media_authorization_epoch :: u64
  tf_subject_grant_epoch :: u64
  tf_talkback_epoch :: u64
  tf_policy_version :: u64
  tf_participant :: string
  tf_endpoint :: string
  tf_audience :: string
  tf_sequence :: u64
  tf_capture_pts_us :: int
  tf_sample_rate :: u32
  tf_channels :: u16
  tf_frame_samples :: u32
  tf_payload :: bytes

record ephemeral_talkback =
  et_frame :: talkback_frame
  et_accepted_at :: u64
  et_deadline :: u64

record talkback_api =
  tk_constants :: talkback_constants
  tk_new_frame :: "talkback_frame \<Rightarrow> talkback_frame option"
  tk_new_ephemeral :: "talkback_frame \<Rightarrow> u64 \<Rightarrow> u64 \<Rightarrow> ephemeral_talkback option"

definition talkback_contributor_lifetime_us :: u64 where "talkback_contributor_lifetime_us = 100000"

definition isolation_error :: "string \<Rightarrow> publish_ingress_error" where
  "isolation_error field = ingress_error TalkbackIsolation field"

definition capture_pts_us_of :: "talkback_constants \<Rightarrow> int \<Rightarrow> publish_ingress_error + int" where
  "capture_pts_us_of k pts =
     res_bind (ok_or (isolation_error ''capture_pts'') (u64_of_i64 pts)) (\<lambda>p.
       ok_or (isolation_error ''capture_pts'')
         (case checked_mul p 1000000 of
            None \<Rightarrow> None
          | Some v \<Rightarrow>
              let us = v div ucast (tk_sample_rate k)
              in if fits_i64 (uint us) then Some (uint us) else None))"

definition talkback_params :: "talkback_constants \<Rightarrow> publish_lease \<Rightarrow> bytes \<Rightarrow> string \<Rightarrow> u64 \<Rightarrow> int \<Rightarrow> talkback_frame" where
  "talkback_params k l payload audience epoch pts_us =
     (let i = lease_identity l; b = pl_binding l in
      \<lparr>tf_session = id_session i, tf_session_epoch = id_session_epoch i,
       tf_media_authorization_epoch = b_media_authorization_epoch b,
       tf_subject_grant_epoch = b_subject_grant_epoch b, tf_talkback_epoch = epoch,
       tf_policy_version = b_media_policy_version b, tf_participant = id_participant i,
       tf_endpoint = id_endpoint i, tf_audience = audience, tf_sequence = ev_sequence (pl_envelope l),
       tf_capture_pts_us = pts_us, tf_sample_rate = tk_sample_rate k, tf_channels = tk_channels k,
       tf_frame_samples = tk_frame_samples k, tf_payload = payload\<rparr>)"

definition capability_deadline_us :: "publish_lease \<Rightarrow> u64 option" where
  "capability_deadline_us l =
     (case u64_of_i64 (pl_expires_at l) of None \<Rightarrow> None | Some s \<Rightarrow> checked_mul s 1000000)"

definition ephemeral_talkback_frame ::
    "talkback_api \<Rightarrow> publish_lease \<Rightarrow> bytes \<Rightarrow> u64 \<Rightarrow> publish_ingress_error + ephemeral_talkback" where
  "ephemeral_talkback_frame api l payload accepted_at =
     (let i = lease_identity l; b = pl_binding l; env = pl_envelope l; k = tk_constants api in
      if id_media_class i \<noteq> Talkback then Inl (isolation_error ''media_class'')
      else res_bind (ok_or (isolation_error ''audience_id'') (id_audience i)) (\<lambda>audience.
      res_bind (ok_or (isolation_error ''talkback_epoch'') (b_class_authorization_epoch b)) (\<lambda>epoch.
      if ev_duration_ticks env \<noteq> tk_frame_samples k \<or> length payload \<noteq> unat (ev_payload_bytes env)
      then Inl (isolation_error ''frame_profile'')
      else res_bind (capture_pts_us_of k (ev_capture_pts env)) (\<lambda>pts_us.
      res_bind (ok_or (isolation_error ''talkback_frame'')
        (tk_new_frame api (talkback_params k l payload audience epoch pts_us))) (\<lambda>frame.
      res_bind (ok_or (isolation_error ''expires_at'') (capability_deadline_us l)) (\<lambda>capability_deadline.
      res_bind (ok_or (isolation_error ''deadline'')
        (checked_add accepted_at talkback_contributor_lifetime_us)) (\<lambda>live_deadline.
      ok_or (isolation_error ''deadline'')
        (tk_new_ephemeral api frame accepted_at (min capability_deadline live_deadline)))))))))"

section \<open>Synchronized stems\<close>

datatype stem_error_code =
  InvalidConfig | CapabilityScope | StemCapabilityExpired | StemChannelLimit | StemDatagramLimit | StemMedia nat

record stem_error =
  se_code :: stem_error_code
  se_field :: string

definition stem_error_of :: "stem_error_code \<Rightarrow> string \<Rightarrow> stem_error" where
  "stem_error_of c f = \<lparr>se_code = c, se_field = f\<rparr>"

datatype stem_operation = StemPublish | StemSubscribe
datatype stem_media_class = StemProgram | StemTalkback

record composite_identity =
  ci_tenant :: string
  ci_session :: string
  ci_session_epoch :: u64
  ci_contributor :: string

record authorized_claims =
  ac_tenant :: string
  ac_session :: string
  ac_session_epoch :: u64
  ac_contributor :: "string option"
  ac_topology_generation :: u64
  ac_binding_generation :: u64
  ac_operation :: operation
  ac_media_class :: media_class
  ac_source_ids :: "string list"
  ac_expires_at :: int
  ac_max_channels :: u16
  ac_max_datagram_bytes :: u32

record verified_claims_view =
  vv_identity :: composite_identity
  vv_topology_generation :: u64
  vv_binding_generation :: u64
  vv_operation :: stem_operation
  vv_media_class :: stem_media_class
  vv_source_ids :: "string list"
  vv_expires_at :: int
  vv_max_channels :: u16
  vv_max_datagram_bytes :: u32

record stem_config =
  sc_identity :: composite_identity
  sc_topology_generation :: u64
  sc_binding_generation :: u64
  sc_channel_counts :: "u16 list"
  sc_max_datagram_bytes :: u16

record stem_authorization =
  sx_identity :: composite_identity
  sx_topology_generation :: u64
  sx_binding_generation :: u64
  sx_operation :: stem_operation
  sx_media_class :: stem_media_class
  sx_source_ids :: "string list"

record stem_ingress =
  si_config :: stem_config
  si_authorization :: stem_authorization
  si_expires_at :: int
  si_max_datagram_bytes :: u32

definition claims_view :: "(composite_identity \<Rightarrow> composite_identity option) \<Rightarrow> authorized_claims \<Rightarrow> stem_error + verified_claims_view" where
  "claims_view new_identity c =
     res_bind (ok_or (stem_error_of CapabilityScope ''contributorId'') (ac_contributor c)) (\<lambda>contributor.
     res_bind (ok_or (stem_error_of CapabilityScope ''identity'')
       (new_identity \<lparr>ci_tenant = ac_tenant c, ci_session = ac_session c,
          ci_session_epoch = ac_session_epoch c, ci_contributor = contributor\<rparr>)) (\<lambda>identity.
     Inr \<lparr>vv_identity = identity, vv_topology_generation = ac_topology_generation c,
          vv_binding_generation = ac_binding_generation c,
          vv_operation = (if ac_operation c = Publish then StemPublish else StemSubscribe),
          vv_media_class = (if ac_media_class c = Program then StemProgram else StemTalkback),
          vv_source_ids = ac_source_ids c, vv_expires_at = ac_expires_at c,
          vv_max_channels = ac_max_channels c, vv_max_datagram_bytes = ac_max_datagram_bytes c\<rparr>))"

fun sum_channels :: "u16 list \<Rightarrow> u32 \<Rightarrow> u32 option" where
  "sum_channels [] acc = Some acc"
| "sum_channels (c # cs) acc =
     (case checked_add acc (ucast c) of None \<Rightarrow> None | Some acc' \<Rightarrow> sum_channels cs acc')"

definition stem_from_verified_claims ::
    "(bytes \<Rightarrow> stem_config option) \<Rightarrow> bytes \<Rightarrow> verified_claims_view \<Rightarrow> stem_error + stem_ingress" where
  "stem_from_verified_claims from_json json v =
     res_bind (ok_or (stem_error_of InvalidConfig ''stemStreamConfig'') (from_json json)) (\<lambda>cfg.
       if vv_identity v \<noteq> sc_identity cfg \<or> vv_topology_generation v \<noteq> sc_topology_generation cfg
          \<or> vv_binding_generation v \<noteq> sc_binding_generation cfg \<or> vv_operation v \<noteq> StemPublish
          \<or> vv_media_class v \<noteq> StemProgram
       then Inl (stem_error_of CapabilityScope ''capability'')
       else res_bind (ok_or (stem_error_of StemChannelLimit ''maxChannels'')
              (sum_channels (sc_channel_counts cfg) 0)) (\<lambda>admitted.
         if (ucast (vv_max_channels v) :: u32) < admitted
         then Inl (stem_error_of StemChannelLimit ''maxChannels'')
         else if vv_max_datagram_bytes v < ucast (sc_max_datagram_bytes cfg)
         then Inl (stem_error_of StemDatagramLimit ''maxDatagramBytes'')
         else Inr
           \<lparr>si_config = cfg,
            si_authorization = \<lparr>sx_identity = vv_identity v, sx_topology_generation = vv_topology_generation v,
              sx_binding_generation = vv_binding_generation v, sx_operation = vv_operation v,
              sx_media_class = vv_media_class v, sx_source_ids = vv_source_ids v\<rparr>,
            si_expires_at = vv_expires_at v, si_max_datagram_bytes = vv_max_datagram_bytes v\<rparr>))"

definition stem_from_authorized ::
    "(composite_identity \<Rightarrow> composite_identity option) \<Rightarrow> (bytes \<Rightarrow> stem_config option) \<Rightarrow> bytes
     \<Rightarrow> authorized_claims \<Rightarrow> stem_error + stem_ingress" where
  "stem_from_authorized new_identity from_json json c =
     res_bind (claims_view new_identity c) (stem_from_verified_claims from_json json)"

definition stem_open ::
    "(bytes \<Rightarrow> stem_config \<Rightarrow> stem_authorization \<Rightarrow> (nat \<times> string) + 'symbol) \<Rightarrow> stem_ingress \<Rightarrow> bytes \<Rightarrow> int
     \<Rightarrow> stem_error + 'symbol" where
  "stem_open opener s datagram now =
     (if si_expires_at s \<le> now then Inl (stem_error_of StemCapabilityExpired ''expiresAt'')
      else if unat (si_max_datagram_bytes s) < length datagram
      then Inl (stem_error_of StemDatagramLimit ''maxDatagramBytes'')
      else map_err (\<lambda>(code, field). stem_error_of (StemMedia code) field)
        (opener datagram (si_config s) (si_authorization s)))"

section \<open>Lemmas\<close>

lemma sum_channels_Some:
  "sum_channels cs acc = Some t \<longleftrightarrow> unat t = unat acc + (\<Sum>c\<leftarrow>cs. unat c)"
proof (induction cs arbitrary: acc)
  case Nil
  then show ?case by (auto simp: word_unat_eq_iff)
next
  case (Cons c cs)
  have c: "unat (ucast c :: u32) = unat c" by (rule unat_ucast_widen) simp
  show ?case
  proof (cases "checked_add acc (ucast c)")
    case None
    then have "2 ^ 32 \<le> unat acc + unat c" using c by (simp add: checked_add_None)
    moreover have "unat t < 2 ^ 32" using unat_lt2p [of t] by simp
    ultimately have "unat t \<noteq> unat acc + (unat c + (\<Sum>c\<leftarrow>cs. unat c))" by linarith
    then show ?thesis by (simp add: None)
  next
    case (Some a)
    then have "unat a = unat acc + unat c" using c by (simp add: checked_add_eq_Some)
    with Some Cons.IH [of a] show ?thesis by (simp add: add.assoc)
  qed
qed

lemma stem_channels_fit:
  "(\<exists>t. sum_channels cs 0 = Some t \<and> \<not> (ucast m :: u32) < t) \<longleftrightarrow> (\<Sum>c\<leftarrow>cs. unat c) \<le> unat (m :: u16)"
proof -
  have w: "unat (ucast m :: u32) = unat m" by (rule unat_ucast_widen) simp
  show ?thesis
  proof
    assume le: "(\<Sum>c\<leftarrow>cs. unat c) \<le> unat m"
    let ?t = "of_nat (\<Sum>c\<leftarrow>cs. unat c) :: u32"
    have "unat m < 2 ^ 16" using unat_lt2p [of m] by simp
    with le have "(\<Sum>c\<leftarrow>cs. unat c) < 2 ^ LENGTH(32)" by simp
    then have t: "unat ?t = (\<Sum>c\<leftarrow>cs. unat c)" by (simp only: unat_of_nat mod_less)
    then have "sum_channels cs 0 = Some ?t" by (simp only: sum_channels_Some) simp
    moreover have "\<not> ucast m < ?t" using le t by (simp only: word_less_nat_alt w not_less)
    ultimately show "\<exists>t. sum_channels cs 0 = Some t \<and> \<not> (ucast m :: u32) < t" by blast
  qed (auto simp: sum_channels_Some word_less_nat_alt w)
qed

lemma stem_datagram_fits:
  "\<not> (m :: u32) < ucast (d :: u16) \<longleftrightarrow> unat d \<le> unat m"
proof -
  have "unat (ucast d :: u32) = unat d" by (rule unat_ucast_widen) simp
  then show ?thesis by (simp add: word_less_nat_alt not_less)
qed

lemma stem_from_verified_claims_Inr:
  "stem_from_verified_claims from_json json v = Inr s \<longleftrightarrow>
     (\<exists>cfg. from_json json = Some cfg \<and> vv_identity v = sc_identity cfg
        \<and> vv_topology_generation v = sc_topology_generation cfg
        \<and> vv_binding_generation v = sc_binding_generation cfg
        \<and> vv_operation v = StemPublish \<and> vv_media_class v = StemProgram
        \<and> (\<Sum>c\<leftarrow>sc_channel_counts cfg. unat c) \<le> unat (vv_max_channels v)
        \<and> unat (sc_max_datagram_bytes cfg) \<le> unat (vv_max_datagram_bytes v)
        \<and> s = \<lparr>si_config = cfg,
            si_authorization = \<lparr>sx_identity = vv_identity v, sx_topology_generation = vv_topology_generation v,
              sx_binding_generation = vv_binding_generation v, sx_operation = vv_operation v,
              sx_media_class = vv_media_class v, sx_source_ids = vv_source_ids v\<rparr>,
            si_expires_at = vv_expires_at v, si_max_datagram_bytes = vv_max_datagram_bytes v\<rparr>)"
proof (cases "from_json json")
  case None
  then show ?thesis by (simp add: stem_from_verified_claims_def)
next
  case (Some cfg)
  show ?thesis
    unfolding stem_channels_fit [symmetric] stem_datagram_fits [symmetric]
    by (cases "sum_channels (sc_channel_counts cfg) 0")
      (auto simp: stem_from_verified_claims_def Some)
qed

end
