(* ===== verification/Ingress_Claims.thy ===== *)
theory Ingress_Claims
  imports Gate_Claims Ingress_Headers Lease_Objects
begin

text \<open>
  The properties of the startup bundle and of what a lease is turned into: canonical objects,
  talkback frames, synchronized stems.
\<close>

section \<open>The startup bundle\<close>


definition demo_keyring :: "nat keyring_api" where
  "demo_keyring = \<lparr>kr_new = 0, kr_insert_active = (\<lambda>n _ _. Inr (n + 1)),
     kr_insert_retiring = (\<lambda>n _ _ _. Inr n), kr_verifier = (\<lambda>_ _ _. Inr demo_verify)\<rparr>"

definition demo_base64 :: base64_engine where
  "demo_base64 = \<lparr>b64_decode = (\<lambda>s. Some (replicate 32 0)), b64_encode = (\<lambda>_. ''key'')\<rparr>"

definition demo_bootstrap :: bootstrap where
  "demo_bootstrap = \<lparr>bo_version = 1, bo_issuer = ''i'', bo_audience = ''a'',
     bo_keys = [\<lparr>bo_kid = ''k'', bo_public_key_base64url = ''key'', bo_retiring_accept_until = None\<rparr>],
     bo_bindings = [demo_binding]\<rparr>"


section \<open>Talkback stays off the mesh\<close>

text \<open>The two outlets are disjoint: a lease of the talkback class never becomes a canonical mesh
  object, and a lease of any other class never becomes a talkback frame.\<close>

theorem talkback_isolated:
  "\<not> (is_ok (canonical_media_object oa l payload) \<and> is_ok (ephemeral_talkback_frame api l payload' now))"
  by (simp add: canonical_media_object_def ephemeral_talkback_frame_def Let_def)

lemma capture_pts_us_of_Inr:
  assumes "capture_pts_us_of k pts = Inr us"
  shows "us = pts * 1000000 div uint (tk_sample_rate k)"
proof (cases "u64_of_i64 pts")
  case None
  with assms show ?thesis by (simp add: capture_pts_us_of_def)
next
  case p: (Some p)
  show ?thesis
  proof (cases "checked_mul p 1000000")
    case None
    with assms p show ?thesis by (simp add: capture_pts_us_of_def)
  next
    case v: (Some v)
    have us: "us = uint (v div ucast (tk_sample_rate k))"
      using assms p v by (simp add: capture_pts_us_of_def Let_def split: if_splits)
    have rate: "uint (ucast (tk_sample_rate k) :: u64) = uint (tk_sample_rate k)"
      by (rule uint_ucast_widen) simp
    have "uint v = pts * 1000000"
      using checked_mul_uint [OF v] u64_of_i64_uint(1) [OF p] by simp
    then show ?thesis unfolding us uint_div_distrib rate by simp
  qed
qed

lemma capability_deadline_uint:
  assumes "capability_deadline_us l = Some d"
  shows "uint d = pl_expires_at l * 1000000"
proof (cases "u64_of_i64 (pl_expires_at l)")
  case None
  with assms show ?thesis by (simp add: capability_deadline_us_def)
next
  case (Some s)
  with assms have "checked_mul s 1000000 = Some d" by (simp add: capability_deadline_us_def)
  from checked_mul_uint [OF this] u64_of_i64_uint(1) [OF Some] show ?thesis by simp
qed

lemma ephemeral_talkback_frame_Inr:
  assumes "ephemeral_talkback_frame api l payload accepted_at = Inr x"
  obtains audience epoch us frame cap live where
    "id_audience (lease_identity l) = Some audience"
    "ev_duration_ticks (pl_envelope l) = tk_frame_samples (tk_constants api)"
    "length payload = unat (ev_payload_bytes (pl_envelope l))"
    "capture_pts_us_of (tk_constants api) (ev_capture_pts (pl_envelope l)) = Inr us"
    "tk_new_frame api (talkback_params (tk_constants api) l payload audience epoch us) = Some frame"
    "capability_deadline_us l = Some cap"
    "checked_add accepted_at talkback_contributor_lifetime_us = Some live"
    "tk_new_ephemeral api frame accepted_at (min cap live) = Some x"
  using assms unfolding ephemeral_talkback_frame_def Let_def
  by (simp add: res_ok split: if_splits) blast

text \<open>A talkback frame made from a lease has the profile the lane requires and exact times: the body
  length and duration of its envelope, its capture time in microseconds with no wrap-around, and a
  deadline that is the earlier of the capability's expiry and 100 ms after acceptance.\<close>

theorem talkback_frame_exact:
  assumes "ephemeral_talkback_frame api l payload accepted_at = Inr x"
  shows "\<exists>frame p deadline. tk_new_frame api p = Some frame \<and> tk_new_ephemeral api frame accepted_at deadline = Some x
    \<and> tf_payload p = payload \<and> length payload = unat (ev_payload_bytes (pl_envelope l))
    \<and> ev_duration_ticks (pl_envelope l) = tk_frame_samples (tk_constants api)
    \<and> tf_sequence p = ev_sequence (pl_envelope l) \<and> Some (tf_audience p) = id_audience (lease_identity l)
    \<and> tf_capture_pts_us p = ev_capture_pts (pl_envelope l) * 1000000 div uint (tk_sample_rate (tk_constants api))
    \<and> uint deadline = min (pl_expires_at l * 1000000) (uint accepted_at + 100000)"
proof -
  from assms obtain audience epoch us frame cap live where
    facts: "id_audience (lease_identity l) = Some audience"
      "ev_duration_ticks (pl_envelope l) = tk_frame_samples (tk_constants api)"
      "length payload = unat (ev_payload_bytes (pl_envelope l))"
    and pts: "capture_pts_us_of (tk_constants api) (ev_capture_pts (pl_envelope l)) = Inr us"
    and frame: "tk_new_frame api (talkback_params (tk_constants api) l payload audience epoch us) = Some frame"
    and cap: "capability_deadline_us l = Some cap"
    and live: "checked_add accepted_at talkback_contributor_lifetime_us = Some live"
    and x: "tk_new_ephemeral api frame accepted_at (min cap live) = Some x"
    by (rule ephemeral_talkback_frame_Inr)
  have "uint live = uint accepted_at + 100000"
    using checked_add_uint [OF live] by (simp add: talkback_contributor_lifetime_us_def)
  then have "uint (min cap live) = min (pl_expires_at l * 1000000) (uint accepted_at + 100000)"
    using capability_deadline_uint [OF cap] by (simp add: min_def word_le_def)
  with facts frame x capture_pts_us_of_Inr [OF pts] show ?thesis
    by (intro exI [of _ frame] exI [of _ "min cap live"]
        exI [of _ "talkback_params (tk_constants api) l payload audience epoch us"])
      (simp add: talkback_params_def Let_def)
qed

definition demo_talkback :: talkback_api where
  "demo_talkback = \<lparr>tk_constants = \<lparr>tk_frame_samples = 960, tk_sample_rate = 48000, tk_channels = 1\<rparr>,
     tk_new_frame = Some,
     tk_new_ephemeral = (\<lambda>f a d. if a < d then Some \<lparr>et_frame = f, et_accepted_at = a, et_deadline = d\<rparr> else None)\<rparr>"

definition demo_talkback_lease :: publish_lease where
  "demo_talkback_lease = demo_lease\<lparr>
     pl_binding := demo_binding\<lparr>
       b_configuration := demo_configuration\<lparr>cf_identity := demo_identity\<lparr>id_media_class := Talkback, id_audience := Some ''aud''\<rparr>\<rparr>,
       b_class_authorization_epoch := Some 1\<rparr>,
     pl_envelope := (demo_envelope 7)\<lparr>ev_payload_bytes := 2\<rparr>\<rparr>"

lemma talkback_frame_exact_witness:
  "\<exists>x frame p deadline. ephemeral_talkback_frame demo_talkback demo_talkback_lease [1, 2] 50 = Inr x
    \<and> tk_new_ephemeral demo_talkback frame 50 deadline = Some x
    \<and> uint deadline = min (pl_expires_at demo_talkback_lease * 1000000) (uint (50 :: u64) + 100000)"
proof -
  obtain x where ok: "ephemeral_talkback_frame demo_talkback demo_talkback_lease [1, 2] 50 = Inr x"
    by (simp add: ephemeral_talkback_frame_def demo_talkback_def demo_talkback_lease_def demo_lease_def gate_eval
        lease_identity_def capture_pts_us_of_def capability_deadline_us_def talkback_params_def u64_of_i64_def checked_mul_def checked_add_def fits_i64_def
        i64_max_def i64_min_def talkback_contributor_lifetime_us_def min_def)
  from talkback_frame_exact [OF ok] ok show ?thesis by blast
qed

section \<open>Synchronized stems\<close>


definition demo_stem_identity :: composite_identity where
  "demo_stem_identity = \<lparr>ci_tenant = ''t'', ci_session = ''s'', ci_session_epoch = 9, ci_contributor = ''c''\<rparr>"

definition demo_claims :: authorized_claims where
  "demo_claims = \<lparr>ac_tenant = ''t'', ac_session = ''s'', ac_session_epoch = 9, ac_contributor = Some ''c'',
     ac_topology_generation = 11, ac_binding_generation = 13, ac_operation = Publish, ac_media_class = Program,
     ac_source_ids = [''src_guitar'', ''src_vocal''], ac_expires_at = 200, ac_max_channels = 2,
     ac_max_datagram_bytes = 1200\<rparr>"

definition demo_stem_config :: stem_config where
  "demo_stem_config = \<lparr>sc_identity = demo_stem_identity, sc_topology_generation = 11,
     sc_binding_generation = 13, sc_channel_counts = [1, 1], sc_max_datagram_bytes = 1200\<rparr>"


end
