(* ===== verification/Framing.thy ===== *)
theory Framing
  imports Codec
begin

text \<open>
  Length-delimited framing of byte strings. The locale \<open>frame_codec\<close> states what a decoder of one
  frame and the loop over a whole buffer must satisfy; inside it, parsing a buffer and laying out
  frames are shown to be inverse. It is interpreted on the AVCC samples of
  \<^verbatim>\<open>src/src/fmp4_bridge.rs\<close> and on the datagram bodies of the HTTP ingress.
\<close>

locale frame_codec =
  fixes enc :: "'a \<Rightarrow> bytes"
    and fits :: "'a \<Rightarrow> bool"
    and next_frame :: "bytes \<Rightarrow> 'e + ('a \<times> bytes) option"
    and frames :: "bytes \<Rightarrow> 'e + 'a list"
  assumes next_enc: "fits x \<Longrightarrow> next_frame (enc x @ rest) = Inr (Some (x, rest))"
    and next_sound: "next_frame bs = Inr (Some (x, rest)) \<Longrightarrow> fits x \<and> bs = enc x @ rest"
    and next_end: "next_frame bs = Inr None \<longleftrightarrow> bs = []"
    and enc_nonempty: "enc x \<noteq> []"
    and frames_unfold: "frames bs = (case next_frame bs of
        Inl e \<Rightarrow> Inl e
      | Inr None \<Rightarrow> Inr []
      | Inr (Some (x, rest)) \<Rightarrow> res_bind (frames rest) (\<lambda>xs. Inr (x # xs)))"
begin

lemma frames_Nil: "frames [] = Inr []"
  using next_end [of "[]"] by (subst frames_unfold) simp

lemma frames_enc: "fits x \<Longrightarrow> frames (enc x @ rest) = res_bind (frames rest) (\<lambda>xs. Inr (x # xs))"
  by (subst frames_unfold) (simp add: next_enc)

lemma frames_layout: "list_all fits xs \<Longrightarrow> frames (concat (map enc xs)) = Inr xs"
  by (induction xs) (simp_all add: frames_Nil frames_enc)

lemma frames_sound: "frames bs = Inr xs \<Longrightarrow> list_all fits xs \<and> bs = concat (map enc xs)"
proof (induction xs arbitrary: bs)
  case Nil
  then have "next_frame bs = Inr None"
    by (subst (asm) frames_unfold) (auto simp: res_bind_eq_Inr split: sum.splits option.splits)
  then show ?case by (simp add: next_end)
next
  case (Cons x xs)
  from Cons.prems obtain rest where "next_frame bs = Inr (Some (x, rest))" and rest: "frames rest = Inr xs"
    by (subst (asm) frames_unfold) (auto simp: res_bind_eq_Inr split: sum.splits option.splits)
  from next_sound [OF this(1)] Cons.IH [OF rest] show ?case by simp
qed

lemma frames_iff: "frames bs = Inr xs \<longleftrightarrow> list_all fits xs \<and> bs = concat (map enc xs)"
  using frames_sound frames_layout by blast

end

end
