(* ===== verification/Avcc.thy ===== *)
theory Avcc
  imports Framing
begin

text \<open>
  H.264 access units as length-prefixed (AVCC) samples, from \<^verbatim>\<open>src/src/fmp4_bridge.rs\<close>: reading the
  length-prefixed NAL units, building a sample from an Annex B stream, dropping the parameter
  sets of a sample, and the checks on a sequence parameter set. The Annex B splitter, the framing
  detector and the SPS decoder belong to other crates and are fields of \<open>h264_api\<close>.
\<close>

section \<open>Length-prefixed samples\<close>

datatype h264_sample_error = TruncatedLengthPrefix nat | TruncatedNalu nat nat

definition next_h264_length_prefixed_nalu :: "bytes \<Rightarrow> h264_sample_error + (bytes \<times> bytes) option" where
  "next_h264_length_prefixed_nalu data =
     (if data = [] then Inr None
      else if length data < 4 then Inl (TruncatedLengthPrefix (length data))
      else let nalu_len = be_value (take 4 data); data = drop 4 data
        in if length data < nalu_len then Inl (TruncatedNalu nalu_len (length data))
           else Inr (Some (take nalu_len data, drop nalu_len data)))"

lemma next_nalu_shorter:
  "next_h264_length_prefixed_nalu data = Inr (Some (nalu, rest)) \<Longrightarrow> length rest < length data"
  by (auto simp: next_h264_length_prefixed_nalu_def Let_def split: if_splits)

text \<open>The loop over a sample.\<close>

function h264_nalus :: "bytes \<Rightarrow> h264_sample_error + bytes list" where
  "h264_nalus data =
     (case next_h264_length_prefixed_nalu data of
        Inl e \<Rightarrow> Inl e
      | Inr None \<Rightarrow> Inr []
      | Inr (Some (nalu, rest)) \<Rightarrow> res_bind (h264_nalus rest) (\<lambda>ns. Inr (nalu # ns)))"
  by pat_completeness auto
termination by (relation "measure length") (auto dest: next_nalu_shorter)

declare h264_nalus.simps [simp del]

definition avcc_nalu :: "bytes \<Rightarrow> bytes" where
  "avcc_nalu nalu = be_bytes 4 (length nalu) @ nalu"

definition nalu_fits :: "bytes \<Rightarrow> bool" where
  "nalu_fits nalu \<longleftrightarrow> length nalu < 2 ^ 32"

lemma length_avcc_nalu [simp]: "length (avcc_nalu nalu) = 4 + length nalu"
  by (simp add: avcc_nalu_def)

lemma avcc_nalu_not_Nil [simp]: "avcc_nalu nalu \<noteq> []"
  using length_avcc_nalu [of nalu] by (metis add_is_0 list.size(3) zero_neq_numeral)

lemma next_nalu_avcc:
  assumes "nalu_fits nalu"
  shows "next_h264_length_prefixed_nalu (avcc_nalu nalu @ rest) = Inr (Some (nalu, rest))"
proof -
  have "be_value (be_bytes 4 (length nalu)) = length nalu"
    using assms by (simp add: be_value_be_bytes nalu_fits_def)
  moreover have "take 4 (avcc_nalu nalu @ rest) = be_bytes 4 (length nalu)"
    "drop 4 (avcc_nalu nalu @ rest) = nalu @ rest"
    by (simp_all add: avcc_nalu_def)
  moreover have "4 \<le> length (avcc_nalu nalu @ rest)" by (simp add: avcc_nalu_def)
  ultimately show ?thesis
    by (auto simp: next_h264_length_prefixed_nalu_def Let_def)
qed

lemma next_nalu_sound:
  assumes "next_h264_length_prefixed_nalu bs = Inr (Some (nalu, rest))"
  shows "nalu_fits nalu" and "bs = avcc_nalu nalu @ rest"
proof -
  let ?n = "be_value (take 4 bs)"
  from assms have len: "4 \<le> length bs" "?n \<le> length (drop 4 bs)"
    and nalu: "nalu = take ?n (drop 4 bs)" and rest: "rest = drop ?n (drop 4 bs)"
    by (auto simp: next_h264_length_prefixed_nalu_def Let_def split: if_splits)
  have l4: "length (take 4 bs) = 4" using len(1) by simp
  have n: "length nalu = ?n" using len(2) by (simp add: nalu)
  have "?n < 256 ^ 4" using be_value_less [of "take 4 bs"] unfolding l4 .
  then show "nalu_fits nalu" by (simp add: nalu_fits_def n)
  have "be_bytes 4 (length nalu) = take 4 bs" using be_bytes_be_value [of "take 4 bs"] unfolding l4 n .
  moreover have "nalu @ rest = drop 4 bs" by (simp only: nalu rest append_take_drop_id)
  ultimately show "bs = avcc_nalu nalu @ rest" by (simp add: avcc_nalu_def)
qed

interpretation avcc: frame_codec avcc_nalu nalu_fits next_h264_length_prefixed_nalu h264_nalus
proof unfold_locales
  show "next_h264_length_prefixed_nalu (avcc_nalu x @ rest) = Inr (Some (x, rest))" if "nalu_fits x" for x rest
    using that by (rule next_nalu_avcc)
  show "nalu_fits x \<and> bs = avcc_nalu x @ rest"
    if "next_h264_length_prefixed_nalu bs = Inr (Some (x, rest))" for bs x rest
    using next_nalu_sound [OF that] by simp
  show "next_h264_length_prefixed_nalu bs = Inr None \<longleftrightarrow> bs = []" for bs
    by (auto simp: next_h264_length_prefixed_nalu_def Let_def)
  show "avcc_nalu x \<noteq> []" for x by simp
  show "h264_nalus bs = (case next_h264_length_prefixed_nalu bs of
        Inl e \<Rightarrow> Inl e
      | Inr None \<Rightarrow> Inr []
      | Inr (Some (x, rest)) \<Rightarrow> res_bind (h264_nalus rest) (\<lambda>xs. Inr (x # xs)))" for bs
    by (rule h264_nalus.simps)
qed

section \<open>Sequence parameter sets\<close>

record h264_sps =
  sps_crop_left :: u64
  sps_crop_right :: u64
  sps_crop_top :: u64
  sps_crop_bottom :: u64
  sps_crop_unit_x :: u64
  sps_crop_unit_y :: u64
  sps_pic_width_in_samples :: u64
  sps_frame_height_in_mbs :: u64
  sps_profile_idc :: u8
  sps_level_idc :: u8

datatype h264_framing = FramingAvcc | FramingAnnexB

datatype sps_decode_error = NaluUndecodable | RbspUndecodable

record h264_api =
  h264_detect_framing :: "bytes \<Rightarrow> h264_framing option"
  h264_annex_b :: "bytes \<Rightarrow> bytes list"
  h264_decode_sps_rbsp :: "bytes \<Rightarrow> sps_decode_error + h264_sps"

definition min_h264_width :: u16 where "min_h264_width = 160"
definition min_h264_height :: u16 where "min_h264_height = 90"
definition max_h264_dimension :: u16 where "max_h264_dimension = 8192"

definition opt_bind :: "'a option \<Rightarrow> ('a \<Rightarrow> 'b option) \<Rightarrow> 'b option" where
  "opt_bind x f = (case x of None \<Rightarrow> None | Some a \<Rightarrow> f a)"

definition h264_display_dimensions :: "h264_sps \<Rightarrow> (u16 \<times> u16) option" where
  "h264_display_dimensions sps =
     opt_bind (opt_bind (checked_add (sps_crop_left sps) (sps_crop_right sps))
        (\<lambda>crop. checked_mul crop (sps_crop_unit_x sps))) (\<lambda>width_crop.
     opt_bind (opt_bind (checked_add (sps_crop_top sps) (sps_crop_bottom sps))
        (\<lambda>crop. checked_mul crop (sps_crop_unit_y sps))) (\<lambda>height_crop.
     opt_bind (opt_bind (checked_sub (sps_pic_width_in_samples sps) width_crop) try_cast) (\<lambda>width.
     opt_bind (opt_bind (opt_bind (checked_mul (sps_frame_height_in_mbs sps) 16)
        (\<lambda>lines. checked_sub lines height_crop)) try_cast) (\<lambda>height.
     Some (width, height)))))"

datatype h264_sps_validation_error =
  UndecodableNalu | UndecodableRbsp | InvalidDimensions | ImplausibleDimensions u16 u16

definition decode_h264_sps :: "h264_api \<Rightarrow> bytes \<Rightarrow> h264_sps_validation_error + h264_sps \<times> u16 \<times> u16" where
  "decode_h264_sps api sps =
     res_bind (map_err (\<lambda>e. case e of NaluUndecodable \<Rightarrow> UndecodableNalu | RbspUndecodable \<Rightarrow> UndecodableRbsp)
       (h264_decode_sps_rbsp api sps)) (\<lambda>decoded.
     res_bind (ok_or InvalidDimensions (h264_display_dimensions decoded)) (\<lambda>(width, height).
       if width < min_h264_width \<or> height < min_h264_height \<or> max_h264_dimension < width
          \<or> max_h264_dimension < height
       then Inl (ImplausibleDimensions width height)
       else Inr (decoded, width, height)))"

section \<open>Building and stripping samples\<close>

definition nal_unit_type :: "bytes \<Rightarrow> u8" where "nal_unit_type nalu = hd nalu AND 0x1F"

definition nal_idr :: u8 where "nal_idr = 5"
definition nal_sei :: u8 where "nal_sei = 6"
definition nal_sps :: u8 where "nal_sps = 7"
definition nal_pps :: u8 where "nal_pps = 8"

datatype h264_nalu_append = Appended bool | RejectedSps h264_sps_validation_error | Ignored

definition append_h264_nalu_to_avcc_sample :: "h264_api \<Rightarrow> bytes \<Rightarrow> bytes \<Rightarrow> h264_nalu_append \<times> bytes" where
  "append_h264_nalu_to_avcc_sample api sample nalu =
     (if nalu = [] \<or> hd nalu AND 0x80 \<noteq> 0 then (Ignored, sample)
      else let t = nal_unit_type nalu in
        if t = 1 \<or> t = nal_idr \<or> t = nal_sei \<or> t = nal_pps
        then (Appended (t = nal_idr), sample @ avcc_nalu nalu)
        else if t = nal_sps
        then case decode_h264_sps api nalu of
            Inr _ \<Rightarrow> (Appended False, sample @ avcc_nalu nalu)
          | Inl e \<Rightarrow> (RejectedSps e, sample)
        else (Ignored, sample))"

record access_unit =
  au_key :: bool
  au_pts :: u64
  au_dts :: u64
  au_data :: bytes
  au_stream_type :: u8
  au_id :: u64

fun packetize_annex_b :: "h264_api \<Rightarrow> bytes list \<Rightarrow> bytes \<Rightarrow> bool \<Rightarrow> bytes \<times> bool" where
  "packetize_annex_b api [] sample key = (sample, key)"
| "packetize_annex_b api (nalu # nalus) sample key =
     (if nalu = [] then packetize_annex_b api nalus sample key
      else case append_h264_nalu_to_avcc_sample api sample nalu of
          (Appended keyframe, sample') \<Rightarrow> packetize_annex_b api nalus sample' (key \<or> keyframe)
        | (_, sample') \<Rightarrow> packetize_annex_b api nalus sample' key)"

text \<open>\<^verbatim>\<open>ensure_h264_length_prefixed\<close> returns whether the unit is usable and the unit.\<close>

definition ensure_h264_length_prefixed :: "h264_api \<Rightarrow> access_unit \<Rightarrow> bool \<times> access_unit" where
  "ensure_h264_length_prefixed api au =
     (case h264_detect_framing api (au_data au) of
        Some FramingAvcc \<Rightarrow> (True, au)
      | None \<Rightarrow> (False, au)
      | Some FramingAnnexB \<Rightarrow>
          (case packetize_annex_b api (h264_annex_b api (au_data au)) [] (au_key au) of
             (sample, key) \<Rightarrow>
               if sample = [] then (False, au) else (True, au\<lparr>au_data := sample, au_key := key\<rparr>)))"

definition is_parameter_set :: "bytes \<Rightarrow> bool" where
  "is_parameter_set nalu \<longleftrightarrow> nal_unit_type nalu = nal_sps \<or> nal_unit_type nalu = nal_pps"

definition strip_h264_parameter_sets :: "access_unit \<Rightarrow> h264_sample_error + bool \<times> access_unit" where
  "strip_h264_parameter_sets au =
     res_bind (h264_nalus (au_data au)) (\<lambda>nalus.
       let sample = concat (map avcc_nalu (filter (\<lambda>n. n \<noteq> [] \<and> \<not> is_parameter_set n) nalus))
       in if sample = [] then Inr (False, au) else Inr (True, au\<lparr>au_data := sample\<rparr>))"

section \<open>Lemmas\<close>

text \<open>The NAL units a sample is built from.\<close>

definition accepts_nalu :: "h264_api \<Rightarrow> bytes \<Rightarrow> bool" where
  "accepts_nalu api nalu \<longleftrightarrow> nalu \<noteq> [] \<and> hd nalu AND 0x80 = 0
     \<and> (nal_unit_type nalu \<in> {1, nal_idr, nal_sei, nal_pps}
        \<or> (nal_unit_type nalu = nal_sps \<and> is_ok (decode_h264_sps api nalu)))"

lemma nal_types_distinct: "nal_sps \<noteq> 1" "nal_sps \<noteq> nal_idr" "nal_sps \<noteq> nal_sei" "nal_sps \<noteq> nal_pps"
  by (simp_all add: nal_sps_def nal_idr_def nal_sei_def nal_pps_def)

lemma append_nalu_cases:
  "append_h264_nalu_to_avcc_sample api sample nalu =
     (if accepts_nalu api nalu then (Appended (nal_unit_type nalu = nal_idr), sample @ avcc_nalu nalu)
      else (fst (append_h264_nalu_to_avcc_sample api sample nalu), sample))"
  "\<not> accepts_nalu api nalu \<Longrightarrow> fst (append_h264_nalu_to_avcc_sample api sample nalu) \<noteq> Appended k"
  using nal_types_distinct
  by (auto simp: append_h264_nalu_to_avcc_sample_def accepts_nalu_def Let_def split: sum.split)

lemma packetize_eq:
  "packetize_annex_b api nalus sample key =
     (sample @ concat (map avcc_nalu (filter (accepts_nalu api) nalus)),
      key \<or> list_ex (\<lambda>n. nal_unit_type n = nal_idr) (filter (accepts_nalu api) nalus))"
proof (induction nalus arbitrary: sample key)
  case Nil
  then show ?case by simp
next
  case (Cons n ns)
  show ?case
  proof (cases "accepts_nalu api n")
    case True
    moreover from True have "n \<noteq> []" by (simp add: accepts_nalu_def)
    ultimately show ?thesis
      by (simp add: append_nalu_cases(1) [of api sample n] Cons.IH)
  next
    case False
    obtain a where a: "append_h264_nalu_to_avcc_sample api sample n = (a, sample)"
      using False append_nalu_cases(1) [of api sample n] by auto
    show ?thesis
    proof (cases a)
      case (Appended k)
      with append_nalu_cases(2) [OF False, of sample k] a show ?thesis by simp
    qed (use False in \<open>simp_all add: a Cons.IH\<close>)
  qed
qed

lemma strip_idempotent_core:
  "filter (\<lambda>n. n \<noteq> [] \<and> \<not> is_parameter_set n) (filter (\<lambda>n. n \<noteq> [] \<and> \<not> is_parameter_set n) ns)
     = filter (\<lambda>n. n \<noteq> [] \<and> \<not> is_parameter_set n) ns"
  by simp

text \<open>C16: Packetizing an Annex B access unit and reading the sample back gives exactly the NAL units that
  are kept (slices, SEI, PPS and decodable SPS, forbidden-zero-bit units and others dropped), and
  the unit becomes a key unit exactly when it was one or an IDR slice is kept.\<close>

theorem avcc_roundtrip:
  assumes "h264_detect_framing api (au_data au) = Some FramingAnnexB"
    and "list_all nalu_fits (h264_annex_b api (au_data au))"
    and "ensure_h264_length_prefixed api au = (True, au')"
  shows "h264_nalus (au_data au') = Inr (filter (accepts_nalu api) (h264_annex_b api (au_data au)))
    \<and> (au_key au' \<longleftrightarrow> au_key au \<or> (\<exists>n \<in> set (h264_annex_b api (au_data au)). accepts_nalu api n \<and> nal_unit_type n = nal_idr))"
proof -
  let ?ns = "filter (accepts_nalu api) (h264_annex_b api (au_data au))"
  have "list_all nalu_fits ?ns" using assms(2) by (auto simp: list_all_iff)
  moreover have "au_data au' = concat (map avcc_nalu ?ns)" and "au_key au' = (au_key au \<or> list_ex (\<lambda>n. nal_unit_type n = nal_idr) ?ns)"
    using assms(1,3) by (auto simp: ensure_h264_length_prefixed_def packetize_eq split: if_splits)
  ultimately show ?thesis by (auto simp: avcc.frames_layout list_ex_iff)
qed

definition demo_h264 :: h264_api where
  "demo_h264 = \<lparr>h264_detect_framing = (\<lambda>_. Some FramingAnnexB), h264_annex_b = (\<lambda>d. [[0x09, 0xF0], d]),
     h264_decode_sps_rbsp = (\<lambda>_. Inl NaluUndecodable)\<rparr>"

definition demo_unit :: "bytes \<Rightarrow> access_unit" where
  "demo_unit d = \<lparr>au_key = False, au_pts = 0, au_dts = 0, au_data = d, au_stream_type = 0x1B, au_id = 0\<rparr>"

lemma avcc_roundtrip_witness:
  "h264_nalus (au_data (snd (ensure_h264_length_prefixed demo_h264 (demo_unit [0x65, 0xAA]))))
    = Inr [[0x65, 0xAA]]"
proof -
  let ?au = "demo_unit [0x65, 0xAA]"
  obtain au' where step: "ensure_h264_length_prefixed demo_h264 ?au = (True, au')"
    by (simp add: ensure_h264_length_prefixed_def packetize_eq demo_h264_def demo_unit_def accepts_nalu_def
        nal_unit_type_def nal_idr_def nal_sei_def nal_sps_def nal_pps_def avcc_nalu_def)
  have "h264_nalus (au_data au') = Inr (filter (accepts_nalu demo_h264) (h264_annex_b demo_h264 (au_data ?au)))"
    by (rule avcc_roundtrip [OF _ _ step, THEN conjunct1])
      (simp_all add: demo_h264_def demo_unit_def nalu_fits_def)
  then show ?thesis unfolding step snd_conv
    by (simp add: demo_h264_def demo_unit_def accepts_nalu_def nal_unit_type_def
        nal_idr_def nal_sei_def nal_sps_def nal_pps_def)
qed

text \<open>Stripping a sample keeps its NAL units in order except the parameter sets and the empty ones, is
  reported as unusable exactly when nothing is left, and stripping twice is stripping once.\<close>

theorem strip_parameter_sets_exact:
  assumes "strip_h264_parameter_sets au = Inr (kept, au')"
  shows "\<exists>nalus. h264_nalus (au_data au) = Inr nalus
    \<and> (kept \<longleftrightarrow> (\<exists>n \<in> set nalus. n \<noteq> [] \<and> \<not> is_parameter_set n))
    \<and> (if kept then h264_nalus (au_data au') = Inr (filter (\<lambda>n. n \<noteq> [] \<and> \<not> is_parameter_set n) nalus)
         \<and> strip_h264_parameter_sets au' = Inr (True, au') else au' = au)"
proof -
  from assms obtain nalus where ns: "h264_nalus (au_data au) = Inr nalus"
    by (auto simp: strip_h264_parameter_sets_def res_bind_eq_Inr)
  let ?keep = "filter (\<lambda>n. n \<noteq> [] \<and> \<not> is_parameter_set n) nalus"
  have fits: "list_all nalu_fits ?keep"
    using avcc.frames_sound [OF ns] by (auto simp: list_all_iff)
  have empty: "concat (map avcc_nalu ?keep) = [] \<longleftrightarrow> ?keep = []"
    by (auto simp: filter_empty_conv)
  have read: "h264_nalus (concat (map avcc_nalu ?keep)) = Inr ?keep" by (rule avcc.frames_layout [OF fits])
  from assms have res: "kept \<longleftrightarrow> ?keep \<noteq> []" "kept \<Longrightarrow> au' = au\<lparr>au_data := concat (map avcc_nalu ?keep)\<rparr>"
    "\<not> kept \<Longrightarrow> au' = au"
    using empty by (auto simp: strip_h264_parameter_sets_def ns Let_def split: if_splits)
  have again: "strip_h264_parameter_sets (au\<lparr>au_data := concat (map avcc_nalu ?keep)\<rparr>)
      = Inr (True, au\<lparr>au_data := concat (map avcc_nalu ?keep)\<rparr>)" if "?keep \<noteq> []"
    unfolding strip_h264_parameter_sets_def using that read empty by (simp add: Let_def)
  show ?thesis
    using ns res read again by (auto simp: filter_empty_conv)
qed

lemma strip_parameter_sets_exact_witness:
  "\<exists>au' nalus. strip_h264_parameter_sets (demo_unit (avcc_nalu [0x67] @ avcc_nalu [0x65, 0xAA])) = Inr (True, au')
    \<and> h264_nalus (au_data (demo_unit (avcc_nalu [0x67] @ avcc_nalu [0x65, 0xAA]))) = Inr nalus
    \<and> h264_nalus (au_data au') = Inr (filter (\<lambda>n. n \<noteq> [] \<and> \<not> is_parameter_set n) nalus)"
proof -
  let ?au = "demo_unit (avcc_nalu [0x67] @ avcc_nalu [0x65, 0xAA])"
  have "h264_nalus (au_data ?au) = Inr [[0x67], [0x65, 0xAA]]"
    using avcc.frames_layout [of "[[0x67], [0x65, 0xAA]]"] by (simp add: demo_unit_def nalu_fits_def)
  then obtain au' where step: "strip_h264_parameter_sets ?au = Inr (True, au')"
    by (simp add: strip_h264_parameter_sets_def Let_def is_parameter_set_def nal_unit_type_def
        nal_sps_def nal_pps_def avcc_nalu_def)
  from strip_parameter_sets_exact [OF step] step show ?thesis by auto
qed

end
