(* ===== verification/Fmp4_Segmenter.thy ===== *)
theory Fmp4_Segmenter
  imports Avcc
begin

text \<open>
  The fragmented-MP4 segmenter of \<^verbatim>\<open>src/src/fmp4_bridge.rs\<close>: the state of one rendition, the video
  and audio paths of an access unit, the flushes that box and publish a part, and the timestamp
  arithmetic. The elementary-stream parsers and the boxer are fields of \<open>fmp4_api\<close>; the clock, the
  publisher and the local cache act on an abstract world through \<open>fmp4_env\<close>. Log output is not
  modelled.
\<close>

section \<open>External interfaces\<close>

record psi_stream_types =
  psi_h264 :: u8
  psi_aac :: u8
  psi_mpeg4_aac :: u8
  psi_private_data :: u8
  psi_audio_opus :: u8

record adts_header =
  adts_profile :: u8
  adts_sample_rate :: u32
  adts_channels :: u8

record flac_header =
  fl_sample_rate :: u32
  fl_channels :: u8
  fl_bps :: u8
  fl_block_size :: u32

datatype audio_type = TypeFlac | TypeAac | TypeM4a | TypeOpus | TypeOggOpus | TypeOther

datatype pcm_kind = PcmInteger | PcmFloat

record pcm_config =
  pcm_sample_rate :: u32
  pcm_channel_count :: u16
  pcm_sample_size :: u16
  pcm_little_endian :: bool
  pcm_sample_kind :: pcm_kind

record opus_config =
  opus_input_sample_rate :: u32
  opus_channel_count :: u16
  opus_pre_skip :: u16
  opus_output_gain :: u16

datatype audio_track_config = TrackAac | TrackPcm pcm_config | TrackOpus opus_config

record avc_configuration =
  avc_profile_idc :: u8
  avc_constraint_set_flag :: u8
  avc_level_idc :: u8
  avc_sps :: bytes
  avc_pps :: bytes

record video_config =
  vcf_width :: u16
  vcf_height :: u16
  vcf_avcc :: "avc_configuration option"

record boxed_fmp4 =
  bx_init :: "bytes option"
  bx_data :: bytes
  bx_duration :: u32
  bx_key :: bool

record fmp4_api =
  fm_h264 :: h264_api
  fm_streams :: psi_stream_types
  fm_adts :: "bytes \<Rightarrow> adts_header option"
  fm_flac :: "bytes \<Rightarrow> flac_header option"
  fm_detect_audio :: "bytes \<Rightarrow> audio_type"
  fm_opus_duration :: "bytes \<Rightarrow> u32 option"
  fm_box :: "u32 \<Rightarrow> video_config \<Rightarrow> access_unit list \<Rightarrow> access_unit list \<Rightarrow> u64 \<Rightarrow> bool
     \<Rightarrow> audio_track_config option \<Rightarrow> boxed_fmp4"

record published_fmp4_part =
  fp_stream_id :: u64
  fp_stream_idx :: nat
  fp_source_epoch :: "u64 option"
  fp_sequence :: u64
  fp_duration_ms :: u32
  fp_packaged_at :: int
  fp_published_at :: int
  fp_init :: "bytes option"
  fp_bytes :: bytes
  fp_keyframe :: bool
  fp_video_codec :: "string option"
  fp_video_width :: "u16 option"
  fp_video_height :: "u16 option"
  fp_video_units :: nat
  fp_audio_codec :: "string option"
  fp_audio_units :: nat

record ('e, 'w) fmp4_env =
  fe_now :: "'w \<Rightarrow> int \<times> 'w"
  fe_publish :: "published_fmp4_part \<Rightarrow> 'w \<Rightarrow> ('e + unit) \<times> 'w"
  fe_append :: "nat \<Rightarrow> bytes \<Rightarrow> 'w \<Rightarrow> bool \<times> 'w"
  fe_playlist_add :: "u64 \<Rightarrow> boxed_fmp4 \<Rightarrow> 'w \<Rightarrow> bool \<times> 'w"

section \<open>Timestamps\<close>

definition ticks_per_second :: u64 where "ticks_per_second = 90000"
definition default_min_part_ms :: u32 where "default_min_part_ms = 50"
definition max_part_ms_without_key :: u32 where "max_part_ms_without_key = 2000"
definition max_pending_aus_without_config :: nat where "max_pending_aus_without_config = 180"

definition ms_to_ticks :: "u32 \<Rightarrow> u64" where
  "ms_to_ticks ms = ucast ms * ticks_per_second div 1000"

definition ms_to_ticks_u64 :: "u64 \<Rightarrow> u64" where
  "ms_to_ticks_u64 ms = sat_mul ms ticks_per_second div 1000"

definition ticks_to_ms :: "u64 \<Rightarrow> u64" where
  "ticks_to_ms ticks = sat_add (sat_mul ticks 1000) (ticks_per_second div 2) div ticks_per_second"

datatype timestamp_input = Ticks90Khz | Millis | MillisAbsolute

fun scale_video :: "timestamp_input \<Rightarrow> u64 \<Rightarrow> u64" where
  "scale_video Ticks90Khz v = v"
| "scale_video Millis v = ms_to_ticks_u64 v"
| "scale_video MillisAbsolute v = ms_to_ticks_u64 v"

fun scale_audio :: "timestamp_input \<Rightarrow> u64 \<Rightarrow> u64" where
  "scale_audio Ticks90Khz v = ticks_to_ms v"
| "scale_audio Millis v = v"
| "scale_audio MillisAbsolute v = v"

definition is_h264 :: "fmp4_api \<Rightarrow> u8 \<Rightarrow> bool" where
  "is_h264 api t \<longleftrightarrow> t = psi_h264 (fm_streams api)"

definition is_supported_audio :: "fmp4_api \<Rightarrow> u8 \<Rightarrow> bool" where
  "is_supported_audio api t \<longleftrightarrow>
     t \<in> {psi_aac (fm_streams api), psi_mpeg4_aac (fm_streams api), psi_private_data (fm_streams api),
           psi_audio_opus (fm_streams api)}"

section \<open>Audio descriptions\<close>

datatype audio_config_signature =
  SigAac u8 u8 u32 u8 | SigFlac u32 u8 u8 | SigExplicit audio_track_config

fun audio_config_signature_of :: "fmp4_api \<Rightarrow> access_unit list \<Rightarrow> audio_config_signature option" where
  "audio_config_signature_of api [] = None"
| "audio_config_signature_of api (u # us) =
     (case fm_adts api (au_data u) of
        Some h \<Rightarrow> Some (SigAac (au_stream_type u) (adts_profile h) (adts_sample_rate h) (adts_channels h))
      | None \<Rightarrow> (case fm_flac api (au_data u) of
          Some h \<Rightarrow> Some (SigFlac (fl_sample_rate h) (fl_channels h) (fl_bps h))
        | None \<Rightarrow> audio_config_signature_of api us))"

definition aac_frame_ms :: "adts_header \<Rightarrow> u64" where
  "aac_frame_ms h =
     (let sample_rate = ucast (adts_sample_rate h) :: u64
      in sat_add 1024000 (sample_rate div 2) div sample_rate)"

definition pcm_unit_ms :: "pcm_config \<Rightarrow> bytes \<Rightarrow> u64 option" where
  "pcm_unit_ms pcm payload =
     (let size = unat (pcm_sample_size pcm); rate = ucast (pcm_sample_rate pcm) :: u64;
          valid_size = (case pcm_sample_kind pcm of
             PcmInteger \<Rightarrow> size = 16 \<or> size = 24 \<or> size = 32
           | PcmFloat \<Rightarrow> size = 32 \<or> size = 64);
          bytes_per_frame = size div 8 * unat (pcm_channel_count pcm)
      in if \<not> valid_size \<or> pcm_sample_rate pcm = 0 \<or> pcm_channel_count pcm = 0 then None
         else if payload = [] \<or> length payload mod bytes_per_frame \<noteq> 0 then None
         else case word_of_nat_checked (length payload div bytes_per_frame) of
             None \<Rightarrow> None
           | Some frames \<Rightarrow> Some (sat_add (sat_mul frames 1000) (rate div 2) div rate))"

text \<open>The probe of an unconfigured unit at one offset: nothing found, or a final answer.\<close>

definition probe_audio_duration :: "fmp4_api \<Rightarrow> bytes \<Rightarrow> u64 option option" where
  "probe_audio_duration api d =
     (case fm_detect_audio api d of
        TypeFlac \<Rightarrow> Some (case fm_flac api d of
            None \<Rightarrow> None
          | Some h \<Rightarrow> if fl_sample_rate h = 0 then None
              else let rate = ucast (fl_sample_rate h) :: u64
                in Some (sat_add (sat_mul (ucast (fl_block_size h)) 1000) (rate div 2) div rate))
      | TypeAac \<Rightarrow> Some (map_option aac_frame_ms (fm_adts api d))
      | _ \<Rightarrow> None)"

fun first_probe :: "fmp4_api \<Rightarrow> bytes \<Rightarrow> nat list \<Rightarrow> u64 option" where
  "first_probe api d [] = None"
| "first_probe api d (off # offs) =
     (if length d < off then first_probe api d offs
      else case probe_audio_duration api (drop off d) of
          Some answer \<Rightarrow> answer
        | None \<Rightarrow> first_probe api d offs)"

definition audio_access_unit_duration_ms :: "fmp4_api \<Rightarrow> access_unit \<Rightarrow> audio_track_config option \<Rightarrow> u64 option" where
  "audio_access_unit_duration_ms api au cfg =
     (case cfg of
        Some TrackAac \<Rightarrow> map_option aac_frame_ms (fm_adts api (au_data au))
      | Some (TrackPcm pcm) \<Rightarrow> pcm_unit_ms pcm (au_data au)
      | Some (TrackOpus _) \<Rightarrow>
          map_option (\<lambda>samples. sat_add (sat_mul (ucast samples) 1000) 24000 div 48000)
            (fm_opus_duration api (au_data au))
      | None \<Rightarrow> first_probe api (au_data au) [0, 12, 4])"

definition pcm_codec_name :: "pcm_config \<Rightarrow> string" where
  "pcm_codec_name pcm =
     (let size = unat (pcm_sample_size pcm) in
      case pcm_sample_kind pcm of
        PcmInteger \<Rightarrow>
          if \<not> pcm_little_endian pcm then ''pcm_integer_be''
          else if size = 16 then ''pcm_s16le'' else if size = 24 then ''pcm_s24le''
          else if size = 32 then ''pcm_s32le'' else ''pcm_integer_le''
      | PcmFloat \<Rightarrow>
          if \<not> pcm_little_endian pcm then ''pcm_float_be''
          else if size = 32 then ''pcm_f32le'' else if size = 64 then ''pcm_f64le'' else ''pcm_float_le'')"

definition audio_codec_name :: "fmp4_api \<Rightarrow> access_unit list \<Rightarrow> audio_track_config option \<Rightarrow> string option" where
  "audio_codec_name api units cfg =
     (case cfg of
        Some TrackAac \<Rightarrow> Some ''aac''
      | Some (TrackPcm pcm) \<Rightarrow> Some (pcm_codec_name pcm)
      | Some (TrackOpus _) \<Rightarrow> Some ''opus''
      | None \<Rightarrow> (case units of
          [] \<Rightarrow> None
        | u # _ \<Rightarrow> Some (case fm_detect_audio api (au_data u) of
            TypeFlac \<Rightarrow> ''flac'' | TypeAac \<Rightarrow> ''aac'' | _ \<Rightarrow> ''unknown'')))"

section \<open>State\<close>

record h264_config_signature =
  hs_sps :: bytes
  hs_pps :: bytes

record aac_timeline =
  aac_rate :: u32
  aac_next_decode_time :: u64

record init_signature =
  is_video :: "h264_config_signature option"
  is_audio :: "audio_config_signature option"

record fmp4_segmenter =
  sg_stream_id :: u64
  sg_stream_idx :: nat
  sg_source_epoch :: "u64 option"
  sg_input_timestamps :: timestamp_input
  sg_has_publisher :: bool
  sg_retain_local_cache :: bool
  sg_audio_config :: "audio_track_config option"
  sg_min_part_ticks :: u64
  sg_max_part_ticks_without_key :: u64
  sg_video_buf :: "access_unit list"
  sg_video_timestamps :: "u64 list"
  sg_audio_buf :: "access_unit list"
  sg_audio_timestamps :: "u64 list"
  sg_audio_buffered_duration_ms :: "u64 option"
  sg_aac_timeline :: "aac_timeline option"
  sg_config :: video_config
  sg_seg_seq :: u32
  sg_sps :: "bytes option"
  sg_pps :: "bytes option"
  sg_config_signature :: "h264_config_signature option"
  sg_known_audio_signature :: "audio_config_signature option"
  sg_last_init_signature :: "init_signature option"
  sg_force_next_init :: bool
  sg_seen_video :: bool
  sg_started_video :: bool
  sg_published_parts :: u64
  sg_last_packaged_at :: "int option"
  sg_warned_no_config :: bool
  sg_timestamp_base_input :: "u64 option"

definition empty_video_config :: video_config where
  "empty_video_config = \<lparr>vcf_width = 0, vcf_height = 0, vcf_avcc = None\<rparr>"

definition new_segmenter :: "u64 \<Rightarrow> nat \<Rightarrow> timestamp_input \<Rightarrow> u32 \<Rightarrow> bool \<Rightarrow> bool \<Rightarrow> fmp4_segmenter" where
  "new_segmenter stream_id stream_idx input_timestamps min_part_ms has_publisher retain_local_cache =
     \<lparr>sg_stream_id = stream_id, sg_stream_idx = stream_idx, sg_source_epoch = None,
      sg_input_timestamps = input_timestamps, sg_has_publisher = has_publisher,
      sg_retain_local_cache = retain_local_cache, sg_audio_config = None,
      sg_min_part_ticks = ms_to_ticks min_part_ms,
      sg_max_part_ticks_without_key = ms_to_ticks max_part_ms_without_key,
      sg_video_buf = [], sg_video_timestamps = [], sg_audio_buf = [], sg_audio_timestamps = [],
      sg_audio_buffered_duration_ms = Some 0, sg_aac_timeline = None, sg_config = empty_video_config,
      sg_seg_seq = 1, sg_sps = None, sg_pps = None, sg_config_signature = None,
      sg_known_audio_signature = None, sg_last_init_signature = None, sg_force_next_init = True,
      sg_seen_video = False, sg_started_video = False, sg_published_parts = 0,
      sg_last_packaged_at = None, sg_warned_no_config = False, sg_timestamp_base_input = None\<rparr>"

definition set_source_epoch :: "u64 \<Rightarrow> fmp4_segmenter \<Rightarrow> fmp4_segmenter" where
  "set_source_epoch e sg = sg\<lparr>sg_source_epoch := Some (max e 1)\<rparr>"

definition set_audio_track_config :: "audio_track_config option \<Rightarrow> fmp4_segmenter \<Rightarrow> fmp4_segmenter" where
  "set_audio_track_config cfg sg =
     (if sg_audio_config sg = cfg then sg
      else sg\<lparr>sg_audio_config := cfg, sg_last_init_signature := None, sg_force_next_init := True\<rparr>)"

definition reset_segmenter :: "fmp4_segmenter \<Rightarrow> fmp4_segmenter" where
  "reset_segmenter sg = sg\<lparr>
     sg_video_buf := [], sg_video_timestamps := [], sg_audio_buf := [], sg_audio_timestamps := [],
     sg_audio_buffered_duration_ms := Some 0, sg_aac_timeline := None, sg_config := empty_video_config,
     sg_sps := None, sg_pps := None, sg_config_signature := None, sg_known_audio_signature := None,
     sg_last_init_signature := None, sg_force_next_init := True, sg_seen_video := False,
     sg_started_video := False, sg_last_packaged_at := None, sg_warned_no_config := False,
     sg_timestamp_base_input := None\<rparr>"

definition clear_pending_media :: "fmp4_segmenter \<Rightarrow> fmp4_segmenter" where
  "clear_pending_media sg = sg\<lparr>
     sg_video_buf := [], sg_video_timestamps := [], sg_audio_buf := [], sg_audio_timestamps := [],
     sg_audio_buffered_duration_ms := Some 0\<rparr>"

definition drop_pending_without_config_if_needed :: "fmp4_segmenter \<Rightarrow> fmp4_segmenter" where
  "drop_pending_without_config_if_needed sg =
     (if length (sg_video_buf sg) + length (sg_audio_buf sg) \<le> max_pending_aus_without_config then sg
      else clear_pending_media sg)"

definition current_init_signature :: "fmp4_segmenter \<Rightarrow> init_signature" where
  "current_init_signature sg =
     \<lparr>is_video = sg_config_signature sg, is_audio = sg_known_audio_signature sg\<rparr>"

end
