(* ===== verification/Fmp4_Push.thy ===== *)
theory Fmp4_Push
  imports Fmp4_Segmenter
begin

text \<open>
  The operations of the fMP4 segmenter of \<^verbatim>\<open>src/src/fmp4_bridge.rs\<close> on a pair of its state and
  the world: parsing a configuration out of a sample, boxing and publishing a part, and the video
  and audio paths of \<^verbatim>\<open>push_access_unit\<close>.
\<close>

section \<open>Configuration carried in a sample\<close>

fun config_candidates :: "bytes list \<Rightarrow> bool \<times> bytes option \<times> bytes option \<Rightarrow> bool \<times> bytes option \<times> bytes option" where
  "config_candidates [] acc = acc"
| "config_candidates (nalu # nalus) (found, sps, pps) =
     config_candidates nalus
       (if nalu = [] then (found, sps, pps)
        else if nal_unit_type nalu = nal_sps then (True, Some nalu, pps)
        else if nal_unit_type nalu = nal_pps then (True, sps, Some nalu)
        else (found, sps, pps))"

definition parse_h264_config :: "fmp4_api \<Rightarrow> fmp4_segmenter \<Rightarrow> access_unit \<Rightarrow> (video_config \<times> h264_config_signature) option" where
  "parse_h264_config api sg au =
     (case h264_nalus (au_data au) of
        Inl _ \<Rightarrow> None
      | Inr nalus \<Rightarrow>
          (case config_candidates nalus (False, sg_sps sg, sg_pps sg) of
             (True, Some sps, Some pps) \<Rightarrow>
               (case decode_h264_sps (fm_h264 api) sps of
                  Inl _ \<Rightarrow> None
                | Inr (decoded, width, height) \<Rightarrow>
                    if length sps \<le> 2 then None
                    else Some
                      (\<lparr>vcf_width = width, vcf_height = height,
                        vcf_avcc = Some \<lparr>avc_profile_idc = sps_profile_idc decoded,
                          avc_constraint_set_flag = sps ! 2, avc_level_idc = sps_level_idc decoded,
                          avc_sps = sps, avc_pps = pps\<rparr>\<rparr>,
                       \<lparr>hs_sps = sps, hs_pps = pps\<rparr>))
           | _ \<Rightarrow> None))"

definition install_h264_config :: "video_config \<Rightarrow> h264_config_signature \<Rightarrow> fmp4_segmenter \<Rightarrow> fmp4_segmenter" where
  "install_h264_config cfg sig sg = sg\<lparr>
     sg_sps := Some (hs_sps sig), sg_pps := Some (hs_pps sig), sg_config := cfg,
     sg_config_signature := Some sig, sg_force_next_init := True, sg_started_video := False,
     sg_warned_no_config := False\<rparr>"

section \<open>Boxing and publishing a part\<close>

definition boxing_audio_config :: "fmp4_segmenter \<Rightarrow> audio_track_config option" where
  "boxing_audio_config sg =
     (case sg_known_audio_signature sg of
        Some (SigAac _ _ _ _) \<Rightarrow> if sg_audio_config sg = None then Some TrackAac else sg_audio_config sg
      | _ \<Rightarrow> sg_audio_config sg)"

definition include_init :: "fmp4_segmenter \<Rightarrow> bool" where
  "include_init sg \<longleftrightarrow> sg_force_next_init sg \<or> sg_last_init_signature sg \<noteq> Some (current_init_signature sg)"

definition box_part :: "fmp4_api \<Rightarrow> fmp4_segmenter \<Rightarrow> u64 \<Rightarrow> boxed_fmp4" where
  "box_part api sg next_dts =
     fm_box api (sg_seg_seq sg) (sg_config sg) (sg_video_buf sg) (sg_audio_buf sg) next_dts
       (include_init sg) (boxing_audio_config sg)"

definition part_of :: "fmp4_api \<Rightarrow> fmp4_segmenter \<Rightarrow> boxed_fmp4 \<Rightarrow> int \<Rightarrow> int \<Rightarrow> published_fmp4_part" where
  "part_of api sg boxed packaged_at published_at =
     (let video = sg_video_buf sg \<noteq> [] in
      \<lparr>fp_stream_id = sg_stream_id sg, fp_stream_idx = sg_stream_idx sg,
       fp_source_epoch = sg_source_epoch sg, fp_sequence = sg_published_parts sg,
       fp_duration_ms = bx_duration boxed, fp_packaged_at = packaged_at, fp_published_at = published_at,
       fp_init = bx_init boxed, fp_bytes = bx_data boxed, fp_keyframe = (bx_key boxed \<and> video),
       fp_video_codec = (if video then Some ''h264'' else None),
       fp_video_width = (if video then Some (vcf_width (sg_config sg)) else None),
       fp_video_height = (if video then Some (vcf_height (sg_config sg)) else None),
       fp_video_units = length (sg_video_buf sg),
       fp_audio_codec = audio_codec_name api (sg_audio_buf sg) (sg_audio_config sg),
       fp_audio_units = length (sg_audio_buf sg)\<rparr>)"

text \<open>The local cache, when retained: both writes must succeed.\<close>

definition store_locally :: "('e, 'w) fmp4_env \<Rightarrow> fmp4_segmenter \<Rightarrow> boxed_fmp4 \<Rightarrow> 'w \<Rightarrow> bool \<times> 'w" where
  "store_locally env sg boxed w =
     (if sg_retain_local_cache sg then
        (case fe_append env (sg_stream_idx sg) (bx_data boxed) w of
           (False, w) \<Rightarrow> (False, w)
         | (True, w) \<Rightarrow> fe_playlist_add env (sg_stream_id sg) boxed w)
      else (True, w))"

text \<open>Publication to the mesh: whether it succeeded, where having no publisher counts as success.\<close>

definition publish_part :: "fmp4_api \<Rightarrow> ('e, 'w) fmp4_env \<Rightarrow> fmp4_segmenter \<Rightarrow> boxed_fmp4 \<Rightarrow> int \<Rightarrow> 'w \<Rightarrow> bool \<times> 'w" where
  "publish_part api env sg boxed packaged_at w =
     (if sg_has_publisher sg then
        (case fe_now env w of (published_at, w) \<Rightarrow>
         case fe_publish env (part_of api sg boxed packaged_at published_at) w of
           (r, w) \<Rightarrow> (is_ok r, w))
      else (True, w))"

definition after_publish :: "init_signature \<Rightarrow> bool \<Rightarrow> bool \<Rightarrow> fmp4_segmenter \<Rightarrow> fmp4_segmenter" where
  "after_publish sig init_published succeeded sg =
     (let sg = (if init_published \<and> succeeded
                then sg\<lparr>sg_last_init_signature := Some sig, sg_force_next_init := False\<rparr>
                else if init_published then sg\<lparr>sg_force_next_init := True\<rparr> else sg)
      in sg\<lparr>sg_published_parts := sg_published_parts sg + 1, sg_seg_seq := sg_seg_seq sg + 1\<rparr>)"

definition flush_with_next_dts ::
    "fmp4_api \<Rightarrow> ('e, 'w) fmp4_env \<Rightarrow> u64 \<Rightarrow> fmp4_segmenter \<times> 'w \<Rightarrow> fmp4_segmenter \<times> 'w" where
  "flush_with_next_dts api env next_dts st =
     (case st of (sg, w) \<Rightarrow>
      if sg_video_buf sg = [] \<and> sg_audio_buf sg = [] then (sg, w)
      else if vcf_avcc (sg_config sg) = None \<and> sg_seen_video sg
      then (clear_pending_media (sg\<lparr>sg_warned_no_config := True\<rparr>), w)
      else let boxed = box_part api sg next_dts; cleared = clear_pending_media sg in
        if bx_data boxed = [] then (cleared\<lparr>sg_seg_seq := sg_seg_seq cleared + 1\<rparr>, w)
        else case fe_now env w of (packaged_at, w) \<Rightarrow>
          let packaged = cleared\<lparr>sg_last_packaged_at := Some packaged_at\<rparr> in
          case store_locally env sg boxed w of
            (False, w) \<Rightarrow> (packaged, w)
          | (True, w) \<Rightarrow>
              (case publish_part api env sg boxed packaged_at w of (succeeded, w) \<Rightarrow>
                (after_publish (current_init_signature sg) (bx_init boxed \<noteq> None) succeeded packaged, w)))"

text \<open>The additions are the wrapping ones of a release build.\<close>

definition flush_current :: "fmp4_api \<Rightarrow> ('e, 'w) fmp4_env \<Rightarrow> fmp4_segmenter \<times> 'w \<Rightarrow> fmp4_segmenter \<times> 'w" where
  "flush_current api env st =
     (case st of (sg, w) \<Rightarrow>
      let ts = sg_video_timestamps sg in
      if ts \<noteq> [] then
        let last_dts = last ts;
            next_dts = (if 2 \<le> length ts
              then last_dts + max (sat_sub last_dts (ts ! (length ts - 2))) 1
              else last_dts + ms_to_ticks default_min_part_ms)
        in flush_with_next_dts api env next_dts (sg, w)
      else if sg_audio_buf sg \<noteq> [] then flush_with_next_dts api env 0 (sg, w)
      else (sg, w))"

section \<open>Video\<close>

definition flush_needed_before :: "fmp4_segmenter \<Rightarrow> access_unit \<Rightarrow> bool" where
  "flush_needed_before sg au =
     (case sg_video_timestamps sg of
        [] \<Rightarrow> False
      | first_dts # _ \<Rightarrow>
          let elapsed = sat_sub (au_dts au) first_dts
          in sg_min_part_ticks sg \<le> elapsed \<or> sg_max_part_ticks_without_key sg \<le> elapsed)"

text \<open>
  The configuration step of \<^verbatim>\<open>push_video\<close>: \<^const>\<open>None\<close> when the unit is dropped there, else whether
  an accepted configuration changed.
\<close>

definition configure_video ::
    "fmp4_api \<Rightarrow> ('e, 'w) fmp4_env \<Rightarrow> access_unit \<Rightarrow> fmp4_segmenter \<times> 'w \<Rightarrow> bool option \<times> fmp4_segmenter \<times> 'w" where
  "configure_video api env au st =
     (case st of (sg, w) \<Rightarrow>
      case parse_h264_config api sg au of
        None \<Rightarrow> (Some False, sg, w)
      | Some (cfg, sig) \<Rightarrow>
          if sg_config_signature sg = Some sig then (Some False, sg, w)
          else if vcf_avcc (sg_config sg) \<noteq> None then
            (let same = vcf_width (sg_config sg) = vcf_width cfg \<and> vcf_height (sg_config sg) = vcf_height cfg in
             if \<not> au_key au then (if same then (Some False, sg, w) else (None, sg, w))
             else case flush_current api env (sg, w) of (sg, w) \<Rightarrow>
               (Some True, install_h264_config cfg sig (clear_pending_media sg), w))
          else (Some True, install_h264_config cfg sig (clear_pending_media sg), w))"

definition append_video :: "access_unit \<Rightarrow> fmp4_segmenter \<Rightarrow> fmp4_segmenter" where
  "append_video au sg = sg\<lparr>sg_video_timestamps := sg_video_timestamps sg @ [au_dts au],
     sg_video_buf := sg_video_buf sg @ [au]\<rparr>"

definition push_video :: "fmp4_api \<Rightarrow> ('e, 'w) fmp4_env \<Rightarrow> access_unit \<Rightarrow> fmp4_segmenter \<times> 'w \<Rightarrow> fmp4_segmenter \<times> 'w" where
  "push_video api env au st =
     (let had_config = vcf_avcc (sg_config (fst st)) \<noteq> None in
      case configure_video api env au st of
        (None, st) \<Rightarrow> st
      | (Some accepted_config_changed, st) \<Rightarrow>
          (case strip_h264_parameter_sets au of
             Inl _ \<Rightarrow> st
           | Inr (False, _) \<Rightarrow> st
           | Inr (True, au) \<Rightarrow>
               (case st of (sg, w) \<Rightarrow>
                if vcf_avcc (sg_config sg) = None
                then (drop_pending_without_config_if_needed (append_video au sg), w)
                else if (\<not> had_config \<or> accepted_config_changed) \<and> \<not> au_key au then (sg, w)
                else case (if flush_needed_before sg au then flush_with_next_dts api env (au_dts au) (sg, w)
                           else (sg, w)) of
                  (sg, w) \<Rightarrow> ((append_video au sg)\<lparr>sg_started_video := True\<rparr>, w))))"

section \<open>Audio\<close>

definition apply_aac_timeline :: "fmp4_api \<Rightarrow> fmp4_segmenter \<Rightarrow> access_unit \<Rightarrow> fmp4_segmenter \<times> access_unit" where
  "apply_aac_timeline api sg au =
     (if sg_audio_config sg \<noteq> None then (sg, au)
      else case fm_adts api (au_data au) of
        None \<Rightarrow> (sg, au)
      | Some h \<Rightarrow>
          let rate = adts_sample_rate h;
              input = sat_add (sat_mul (au_pts au) (ucast rate)) 500 div 1000;
              decode_time = (case sg_aac_timeline sg of
                  Some t \<Rightarrow>
                    if aac_rate t = rate \<and> \<not> 1024 < abs_diff (aac_next_decode_time t) input
                    then aac_next_decode_time t else input
                | None \<Rightarrow> input)
          in (sg\<lparr>sg_aac_timeline := Some \<lparr>aac_rate = rate, aac_next_decode_time = sat_add decode_time 1024\<rparr>\<rparr>,
              au\<lparr>au_pts := decode_time, au_dts := decode_time\<rparr>))"

definition note_audio_signature :: "fmp4_api \<Rightarrow> access_unit \<Rightarrow> fmp4_segmenter \<Rightarrow> fmp4_segmenter" where
  "note_audio_signature api au sg =
     (case (case sg_audio_config sg of
              Some cfg \<Rightarrow> Some (SigExplicit cfg)
            | None \<Rightarrow> audio_config_signature_of api [au]) of
        None \<Rightarrow> sg
      | Some sig \<Rightarrow>
          if sg_known_audio_signature sg \<noteq> Some sig
          then sg\<lparr>sg_known_audio_signature := Some sig, sg_force_next_init := True\<rparr> else sg)"

definition append_audio :: "access_unit \<Rightarrow> u64 option \<Rightarrow> fmp4_segmenter \<Rightarrow> fmp4_segmenter" where
  "append_audio au duration sg = sg\<lparr>
     sg_audio_timestamps := sg_audio_timestamps sg @ [au_pts au],
     sg_audio_buf := sg_audio_buf sg @ [au],
     sg_audio_buffered_duration_ms :=
       (case (sg_audio_buffered_duration_ms sg, duration) of
          (Some buffered, Some d) \<Rightarrow> Some (sat_add buffered d)
        | _ \<Rightarrow> None)\<rparr>"

definition should_flush_audio_only_before :: "fmp4_segmenter \<Rightarrow> access_unit \<Rightarrow> bool" where
  "should_flush_audio_only_before sg au =
     (case sg_audio_timestamps sg of
        [] \<Rightarrow> False
      | first_pts # _ \<Rightarrow> ticks_to_ms (sg_min_part_ticks sg) \<le> sat_sub (au_pts au) first_pts)"

definition audio_target_reached :: "fmp4_segmenter \<Rightarrow> bool" where
  "audio_target_reached sg \<longleftrightarrow> \<not> sg_seen_video sg
     \<and> (case sg_audio_buffered_duration_ms sg of
          None \<Rightarrow> False
        | Some d \<Rightarrow> ticks_to_ms (sg_min_part_ticks sg) \<le> d)"

definition push_audio :: "fmp4_api \<Rightarrow> ('e, 'w) fmp4_env \<Rightarrow> access_unit \<Rightarrow> fmp4_segmenter \<times> 'w \<Rightarrow> fmp4_segmenter \<times> 'w" where
  "push_audio api env au st =
     (case st of (sg, w) \<Rightarrow>
      case apply_aac_timeline api sg au of (sg, au) \<Rightarrow>
      let sg = note_audio_signature api au sg;
          duration = audio_access_unit_duration_ms api au (sg_audio_config sg)
      in if sg_seen_video sg \<and> (vcf_avcc (sg_config sg) = None \<or> \<not> sg_started_video sg)
         then (drop_pending_without_config_if_needed (append_audio au duration sg), w)
         else case (if sg_video_buf sg = [] \<and> sg_audio_buffered_duration_ms sg = None
                       \<and> should_flush_audio_only_before sg au
                    then flush_with_next_dts api env 0 (sg, w) else (sg, w)) of
           (sg, w) \<Rightarrow>
             let sg = append_audio au duration sg
             in if audio_target_reached sg then flush_with_next_dts api env 0 (sg, w) else (sg, w))"

section \<open>Access units\<close>

definition timestamp_went_backwards :: "fmp4_api \<Rightarrow> fmp4_segmenter \<Rightarrow> access_unit \<Rightarrow> bool" where
  "timestamp_went_backwards api sg au =
     (is_h264 api (au_stream_type au)
      \<and> (case sg_timestamp_base_input sg of None \<Rightarrow> False | Some base \<Rightarrow> au_dts au < base))"

definition normalize_timestamps :: "fmp4_api \<Rightarrow> fmp4_segmenter \<Rightarrow> access_unit \<Rightarrow> fmp4_segmenter \<times> access_unit" where
  "normalize_timestamps api sg au =
     (let (sg, au) =
        (if sg_input_timestamps sg = MillisAbsolute then (sg, au)
         else let base = (case sg_timestamp_base_input sg of Some b \<Rightarrow> b | None \<Rightarrow> au_dts au)
           in (sg\<lparr>sg_timestamp_base_input := Some base\<rparr>,
               au\<lparr>au_pts := sat_sub (au_pts au) base, au_dts := sat_sub (au_dts au) base\<rparr>));
        scale = (if is_h264 api (au_stream_type au) then scale_video (sg_input_timestamps sg)
                 else scale_audio (sg_input_timestamps sg))
      in (sg, au\<lparr>au_pts := scale (au_pts au), au_dts := scale (au_dts au)\<rparr>))"

definition finish_segmenter :: "fmp4_api \<Rightarrow> ('e, 'w) fmp4_env \<Rightarrow> fmp4_segmenter \<times> 'w \<Rightarrow> fmp4_segmenter \<times> 'w" where
  "finish_segmenter api env st = flush_current api env st"

definition push_normalized ::
    "fmp4_api \<Rightarrow> ('e, 'w) fmp4_env \<Rightarrow> access_unit \<Rightarrow> fmp4_segmenter \<times> 'w \<Rightarrow> fmp4_segmenter \<times> 'w" where
  "push_normalized api env au st =
     (let (sg, w) =
        (if timestamp_went_backwards api (fst st) au
         then (case finish_segmenter api env st of (sg, w) \<Rightarrow> (reset_segmenter sg, w))
         else st)
      in case normalize_timestamps api sg au of (sg, au) \<Rightarrow>
        if is_h264 api (au_stream_type au) then push_video api env au (sg, w)
        else push_audio api env au (sg, w))"

definition push_access_unit :: "fmp4_api \<Rightarrow> ('e, 'w) fmp4_env \<Rightarrow> access_unit \<Rightarrow> fmp4_segmenter \<times> 'w \<Rightarrow> fmp4_segmenter \<times> 'w" where
  "push_access_unit api env au st =
     (case st of (sg, w) \<Rightarrow>
      if is_h264 api (au_stream_type au) then
        (let sg = sg\<lparr>sg_seen_video := True\<rparr> in
         case ensure_h264_length_prefixed (fm_h264 api) au of
           (False, _) \<Rightarrow> (sg, w)
         | (True, au) \<Rightarrow> push_normalized api env au (sg, w))
      else if \<not> is_supported_audio api (au_stream_type au) then (sg, w)
      else push_normalized api env au (sg, w))"

end
