(* ===== verification/Fmp4_Steps.thy ===== *)
theory Fmp4_Steps
  imports Fmp4_Push
begin

text \<open>
  Every operation of the fMP4 segmenter is a sequence of a few elementary steps on its state and
  the world. Invariants are proved once per elementary step, by rule induction, and hold for every
  operation and every run.
\<close>

section \<open>Elementary steps\<close>

inductive seg_step :: "fmp4_api \<Rightarrow> ('e, 'w) fmp4_env \<Rightarrow> fmp4_segmenter \<times> 'w \<Rightarrow> fmp4_segmenter \<times> 'w \<Rightarrow> bool"
  for api :: fmp4_api and env :: "('e, 'w) fmp4_env" where
  step_flush: "seg_step api env st (flush_with_next_dts api env d st)"
| step_install: "seg_step api env (sg, w) (install_h264_config cfg sig (clear_pending_media sg), w)"
    if "vcf_avcc cfg \<noteq> None" "avc_sps (the (vcf_avcc cfg)) = hs_sps sig" "avc_pps (the (vcf_avcc cfg)) = hs_pps sig"
| step_pending_video: "seg_step api env (sg, w) (drop_pending_without_config_if_needed (append_video au sg), w)"
    if "vcf_avcc (sg_config sg) = None"
| step_video: "seg_step api env (sg, w) ((append_video au sg)\<lparr>sg_started_video := True\<rparr>, w)"
    if "vcf_avcc (sg_config sg) \<noteq> None"
| step_audio: "seg_step api env (sg, w) (append_audio au d sg, w)"
| step_drop: "seg_step api env (sg, w) (drop_pending_without_config_if_needed sg, w)"
| step_signature: "seg_step api env (sg, w) (sg\<lparr>sg_known_audio_signature := Some a, sg_force_next_init := True\<rparr>, w)"
| step_timeline: "seg_step api env (sg, w) (sg\<lparr>sg_aac_timeline := t\<rparr>, w)"
| step_base: "seg_step api env (sg, w) (sg\<lparr>sg_timestamp_base_input := b\<rparr>, w)"
| step_seen: "seg_step api env (sg, w) (sg\<lparr>sg_seen_video := True\<rparr>, w)"
| step_reset: "seg_step api env (sg, w) (reset_segmenter sg, w)"
| step_audio_config: "seg_step api env (sg, w) (set_audio_track_config cfg sg, w)"

abbreviation seg_steps :: "fmp4_api \<Rightarrow> ('e, 'w) fmp4_env \<Rightarrow> fmp4_segmenter \<times> 'w \<Rightarrow> fmp4_segmenter \<times> 'w \<Rightarrow> bool" where
  "seg_steps api env \<equiv> (seg_step api env)\<^sup>*\<^sup>*"

lemma seg_steps_invariant:
  assumes "seg_steps api env st st'" and "P st" and "\<And>s t. seg_step api env s t \<Longrightarrow> P s \<Longrightarrow> P t"
  shows "P st'"
  using assms by (induction rule: rtranclp_induct) blast+

lemma steps_trans: "seg_steps api env s t \<Longrightarrow> seg_steps api env t u \<Longrightarrow> seg_steps api env s u"
  by (rule rtranclp_trans)

lemma one_step: "seg_step api env s t \<Longrightarrow> seg_steps api env s t"
  by (rule r_into_rtranclp)

section \<open>The operations as steps\<close>

lemma steps_flush: "seg_steps api env st (flush_with_next_dts api env d st)"
  by (rule one_step [OF step_flush])

lemma steps_flush_current: "seg_steps api env st (flush_current api env st)"
proof (cases st)
  case (Pair sg w)
  have "flush_current api env (sg, w) = (sg, w) \<or> (\<exists>d. flush_current api env (sg, w) = flush_with_next_dts api env d (sg, w))"
    by (auto simp: flush_current_def Let_def)
  then show ?thesis using steps_flush [of api env "(sg, w)"] by (auto simp: Pair)
qed

lemma parse_h264_config_shape:
  assumes "parse_h264_config api sg au = Some (cfg, sig)"
  shows "vcf_avcc cfg \<noteq> None" and "avc_sps (the (vcf_avcc cfg)) = hs_sps sig" and "avc_pps (the (vcf_avcc cfg)) = hs_pps sig"
  using assms
  by (auto simp: parse_h264_config_def split: sum.splits prod.splits bool.splits option.splits if_splits)

lemma steps_configure:
  assumes "configure_video api env au st = (r, st')"
  shows "seg_steps api env st st'"
proof (cases st)
  case st: (Pair sg w)
  show ?thesis
  proof (cases "parse_h264_config api sg au")
    case None
    with assms show ?thesis by (auto simp: configure_video_def st)
  next
    case (Some cs)
    obtain cfg sig where cs: "cs = (cfg, sig)" by (cases cs)
    with Some have parse: "parse_h264_config api sg au = Some (cfg, sig)" by simp
    have inst: "seg_step api env (sg', w') (install_h264_config cfg sig (clear_pending_media sg'), w')" for sg' w'
      by (rule step_install [OF parse_h264_config_shape [OF parse]])
    obtain sg' w' where fl: "flush_current api env (sg, w) = (sg', w')" by fastforce
    have flushed: "seg_steps api env (sg, w) (install_h264_config cfg sig (clear_pending_media sg'), w')"
      using steps_flush_current [of api env "(sg, w)"] inst [of sg' w'] unfolding fl by (meson rtranclp.rtrancl_into_rtrancl)
    have direct: "seg_steps api env (sg, w) (install_h264_config cfg sig (clear_pending_media sg), w)"
      using inst by (rule one_step)
    show ?thesis
      using assms flushed direct
      by (auto simp: configure_video_def st parse fl Let_def split: if_splits)
  qed
qed

lemma steps_push_video: "seg_steps api env st (push_video api env au st)"
proof -
  obtain r st1 where conf: "configure_video api env au st = (r, st1)"
    by (cases "configure_video api env au st")
  from steps_configure [OF conf] have pre: "seg_steps api env st st1" .
  obtain sg w where st1: "st1 = (sg, w)" by fastforce
  show ?thesis
  proof (cases r)
    case None
    with pre show ?thesis by (simp add: push_video_def conf Let_def)
  next
    case (Some changed)
    show ?thesis
    proof (cases "strip_h264_parameter_sets au")
      case (Inl e)
      with pre Some show ?thesis by (simp add: push_video_def conf Let_def)
    next
      case strip: (Inr ka)
      obtain kept au' where ka: "ka = (kept, au')" by fastforce
      let ?flushed = "if flush_needed_before sg au' then flush_with_next_dts api env (au_dts au') (sg, w) else (sg, w)"
      obtain sg' w' where fl: "?flushed = (sg', w')" by fastforce
      have fsteps: "seg_steps api env (sg, w) (sg', w')"
        using steps_flush [of api env "(sg, w)" "au_dts au'"] fl by (auto split: if_splits)
      show ?thesis
      proof (cases "kept \<and> vcf_avcc (sg_config sg) \<noteq> None")
        case True
        have keep: "vcf_avcc (sg_config sg') \<noteq> None"
          using fl True
          by (auto simp: flush_with_next_dts_def Let_def clear_pending_media_def after_publish_def
              split: if_splits prod.splits bool.splits)
        have "seg_step api env (sg', w') ((append_video au' sg')\<lparr>sg_started_video := True\<rparr>, w')"
          by (rule step_video [OF keep])
        with fsteps pre
        have "seg_steps api env st ((append_video au' sg')\<lparr>sg_started_video := True\<rparr>, w')"
          unfolding st1 by (meson rtranclp.rtrancl_into_rtrancl steps_trans)
        with pre True show ?thesis
          using fl by (auto simp: push_video_def conf Let_def Some strip ka st1)
      next
        case False
        have "vcf_avcc (sg_config sg) = None \<Longrightarrow>
            seg_step api env (sg, w) (drop_pending_without_config_if_needed (append_video au' sg), w)"
          by (rule step_pending_video)
        with pre have "vcf_avcc (sg_config sg) = None \<Longrightarrow>
            seg_steps api env st (drop_pending_without_config_if_needed (append_video au' sg), w)"
          unfolding st1 by (meson rtranclp.rtrancl_into_rtrancl)
        with pre False show ?thesis
          by (cases kept) (auto simp: push_video_def conf Let_def Some strip ka st1)
      qed
    qed
  qed
qed

lemma steps_aac: "apply_aac_timeline api sg au = (sg', au') \<Longrightarrow> seg_steps api env (sg, w) (sg', w)"
  by (auto simp: apply_aac_timeline_def Let_def intro!: one_step step_timeline split: if_splits option.splits)

lemma steps_note: "seg_steps api env (sg, w) (note_audio_signature api au sg, w)"
  by (auto simp: note_audio_signature_def intro!: one_step step_signature split: option.split)

lemma steps_push_audio: "seg_steps api env st (push_audio api env au st)"
proof -
  obtain sg w where st: "st = (sg, w)" by fastforce
  obtain sg1 au1 where aac: "apply_aac_timeline api sg au = (sg1, au1)" by fastforce
  let ?sg2 = "note_audio_signature api au1 sg1"
  let ?d = "audio_access_unit_duration_ms api au1 (sg_audio_config ?sg2)"
  have pre: "seg_steps api env st (?sg2, w)"
    unfolding st using steps_aac [OF aac] steps_note by (rule steps_trans)
  let ?fl = "if sg_video_buf ?sg2 = [] \<and> sg_audio_buffered_duration_ms ?sg2 = None \<and> should_flush_audio_only_before ?sg2 au1
      then flush_with_next_dts api env 0 (?sg2, w) else (?sg2, w)"
  obtain sg3 w3 where fl: "?fl = (sg3, w3)" by fastforce
  have "seg_steps api env (?sg2, w) (sg3, w3)"
    using steps_flush [of api env "(?sg2, w)" 0] fl by (auto split: if_splits)
  then have app: "seg_steps api env st (append_audio au1 ?d sg3, w3)"
    using pre step_audio by (meson rtranclp.rtrancl_into_rtrancl steps_trans)
  have last: "seg_steps api env st (flush_with_next_dts api env 0 (append_audio au1 ?d sg3, w3))"
    using app steps_flush by (rule steps_trans)
  have buf: "seg_steps api env st (drop_pending_without_config_if_needed (append_audio au1 ?d ?sg2), w)"
    using pre step_audio step_drop by (meson rtranclp.rtrancl_into_rtrancl)
  show ?thesis
    using fl app last buf by (auto simp: push_audio_def st aac Let_def)
qed

lemma steps_normalize: "normalize_timestamps api sg au = (sg', au') \<Longrightarrow> seg_steps api env (sg, w) (sg', w)"
  by (auto simp: normalize_timestamps_def Let_def intro!: one_step step_base split: if_splits)

lemma steps_push_normalized: "seg_steps api env st (push_normalized api env au st)"
proof -
  let ?pre = "if timestamp_went_backwards api (fst st) au
      then (case finish_segmenter api env st of (sg, w) \<Rightarrow> (reset_segmenter sg, w)) else st"
  obtain sg w where pre: "?pre = (sg, w)" by fastforce
  have "seg_steps api env st ?pre"
  proof (cases "timestamp_went_backwards api (fst st) au")
    case True
    obtain sg1 w1 where fin: "flush_current api env st = (sg1, w1)" by fastforce
    have "seg_steps api env st (reset_segmenter sg1, w1)"
      using steps_flush_current [of api env st] step_reset unfolding fin by (meson rtranclp.rtrancl_into_rtrancl)
    with True show ?thesis by (simp add: finish_segmenter_def fin)
  qed simp
  then have 1: "seg_steps api env st (sg, w)" unfolding pre .
  obtain sg' au' where norm: "normalize_timestamps api sg au = (sg', au')" by fastforce
  have "seg_steps api env st (sg', w)" using 1 steps_normalize [OF norm] by (rule steps_trans)
  then have "seg_steps api env st (push_video api env au' (sg', w))" "seg_steps api env st (push_audio api env au' (sg', w))"
    using steps_push_video steps_push_audio steps_trans by blast+
  then show ?thesis unfolding push_normalized_def Let_def pre by (simp add: norm)
qed

lemma steps_push_access_unit: "seg_steps api env st (push_access_unit api env au st)"
proof -
  obtain sg w where st: "st = (sg, w)" by fastforce
  have seen: "seg_steps api env st (sg\<lparr>sg_seen_video := True\<rparr>, w)"
    unfolding st by (rule one_step [OF step_seen])
  have "seg_steps api env st (push_normalized api env au' (sg\<lparr>sg_seen_video := True\<rparr>, w))" for au'
    using seen steps_push_normalized by (rule steps_trans)
  then show ?thesis
    using seen steps_push_normalized [of api env "(sg, w)" au]
    by (auto simp: push_access_unit_def st Let_def split: prod.split bool.split)
qed

section \<open>Runs\<close>

datatype seg_op = PushUnit access_unit | FinishSeg | ResetSeg | SetAudioTrack "audio_track_config option"

fun seg_apply :: "fmp4_api \<Rightarrow> ('e, 'w) fmp4_env \<Rightarrow> fmp4_segmenter \<times> 'w \<Rightarrow> seg_op \<Rightarrow> fmp4_segmenter \<times> 'w" where
  "seg_apply api env st (PushUnit au) = push_access_unit api env au st"
| "seg_apply api env st FinishSeg = finish_segmenter api env st"
| "seg_apply api env (sg, w) ResetSeg = (reset_segmenter sg, w)"
| "seg_apply api env (sg, w) (SetAudioTrack cfg) = (set_audio_track_config cfg sg, w)"

definition seg_run :: "fmp4_api \<Rightarrow> ('e, 'w) fmp4_env \<Rightarrow> fmp4_segmenter \<times> 'w \<Rightarrow> seg_op list \<Rightarrow> fmp4_segmenter \<times> 'w" where
  "seg_run api env st ops = foldl (seg_apply api env) st ops"

lemma steps_apply: "seg_steps api env st (seg_apply api env st x)"
proof (cases x)
  case (PushUnit au)
  then show ?thesis by (simp add: steps_push_access_unit)
next
  case FinishSeg
  then show ?thesis by (simp add: finish_segmenter_def steps_flush_current)
next
  case ResetSeg
  then show ?thesis by (cases st) (simp add: one_step [OF step_reset])
next
  case (SetAudioTrack cfg)
  then show ?thesis by (cases st) (simp add: one_step [OF step_audio_config])
qed

lemma steps_run: "seg_steps api env st (seg_run api env st ops)"
proof (induction ops arbitrary: st)
  case Nil
  then show ?case by (simp add: seg_run_def)
next
  case (Cons x ops)
  from steps_trans [OF steps_apply Cons.IH] show ?case by (simp add: seg_run_def)
qed

end
