(* ===== verification/Fmp4_Facts.thy ===== *)
theory Fmp4_Facts
  imports Fmp4_Steps
begin

text \<open>
  Invariants of the fMP4 segmenter over every run: the buffers and their timestamps, the video
  configuration, the bound on unconfigured media; and the contract with the publisher, stated as
  the locale \<open>init_sink\<close>: a part without initialization is only published where an earlier
  initialization of the stream and source epoch was accepted. Then the timestamp arithmetic.
\<close>

section \<open>The buffers and the configuration\<close>

definition seg_ok :: "fmp4_segmenter \<Rightarrow> bool" where
  "seg_ok sg \<longleftrightarrow>
     sg_video_timestamps sg = map au_dts (sg_video_buf sg)
     \<and> sg_audio_timestamps sg = map au_pts (sg_audio_buf sg)
     \<and> (vcf_avcc (sg_config sg) = None \<longrightarrow> length (sg_video_buf sg) \<le> max_pending_aus_without_config)
     \<and> (case sg_config_signature sg of
          None \<Rightarrow> vcf_avcc (sg_config sg) = None
        | Some sig \<Rightarrow> vcf_avcc (sg_config sg) \<noteq> None
            \<and> avc_sps (the (vcf_avcc (sg_config sg))) = hs_sps sig
            \<and> avc_pps (the (vcf_avcc (sg_config sg))) = hs_pps sig)"

lemma flush_state_cases:
  obtains (same) "fst (flush_with_next_dts api env d (sg, w)) = sg"
  | (unconfigured) "fst (flush_with_next_dts api env d (sg, w)) = clear_pending_media (sg\<lparr>sg_warned_no_config := True\<rparr>)"
  | (empty) "fst (flush_with_next_dts api env d (sg, w)) = (clear_pending_media sg)\<lparr>sg_seg_seq := sg_seg_seq sg + 1\<rparr>"
  | (uncached) t where "fst (flush_with_next_dts api env d (sg, w)) = (clear_pending_media sg)\<lparr>sg_last_packaged_at := Some t\<rparr>"
  | (published) sig b s t where "fst (flush_with_next_dts api env d (sg, w))
      = after_publish sig b s ((clear_pending_media sg)\<lparr>sg_last_packaged_at := Some t\<rparr>)"
proof -
  let ?bx = "box_part api sg d"
  obtain t w1 where now: "fe_now env w = (t, w1)" by fastforce
  obtain ok w2 where st: "store_locally env sg ?bx w1 = (ok, w2)" by fastforce
  obtain s w3 where pub: "publish_part api env sg ?bx t w2 = (s, w3)" by fastforce
  consider "sg_video_buf sg = [] \<and> sg_audio_buf sg = []"
    | "\<not> (sg_video_buf sg = [] \<and> sg_audio_buf sg = [])" "vcf_avcc (sg_config sg) = None \<and> sg_seen_video sg"
    | "\<not> (sg_video_buf sg = [] \<and> sg_audio_buf sg = [])" "\<not> (vcf_avcc (sg_config sg) = None \<and> sg_seen_video sg)"
      "bx_data ?bx = []"
    | "\<not> (sg_video_buf sg = [] \<and> sg_audio_buf sg = [])" "\<not> (vcf_avcc (sg_config sg) = None \<and> sg_seen_video sg)"
      "bx_data ?bx \<noteq> []" by blast
  then show thesis
  proof cases
    case 1
    then show thesis by (intro same) (simp add: flush_with_next_dts_def)
  next
    case 2
    then show thesis by (intro unconfigured) (auto simp: flush_with_next_dts_def)
  next
    case 3
    then have "fst (flush_with_next_dts api env d (sg, w))
        = (clear_pending_media sg)\<lparr>sg_seg_seq := sg_seg_seq (clear_pending_media sg) + 1\<rparr>"
      by (simp only: flush_with_next_dts_def Let_def prod.case if_False if_True fst_conv simp_thms)
    then show thesis by (intro empty) (simp add: clear_pending_media_def)
  next
    case 4
    show thesis
    proof (cases ok)
      case True
      with 4 now st pub have "fst (flush_with_next_dts api env d (sg, w))
        = after_publish (current_init_signature sg) (bx_init ?bx \<noteq> None) s ((clear_pending_media sg)\<lparr>sg_last_packaged_at := Some t\<rparr>)"
        by (simp only: flush_with_next_dts_def Let_def prod.case if_False if_True fst_conv bool.case)
      then show thesis by (rule published)
    next
      case False
      with 4 now st have "fst (flush_with_next_dts api env d (sg, w)) = (clear_pending_media sg)\<lparr>sg_last_packaged_at := Some t\<rparr>"
        by (simp only: flush_with_next_dts_def Let_def prod.case if_False if_True fst_conv bool.case)
      then show thesis by (rule uncached)
    qed
  qed
qed

lemma seg_ok_flush:
  assumes ok: "seg_ok sg"
  shows "seg_ok (fst (flush_with_next_dts api env d (sg, w)))"
proof -
  have clear: "seg_ok (clear_pending_media sg)"
    using ok by (auto simp: seg_ok_def clear_pending_media_def split: option.splits)
  show ?thesis
    by (rule flush_state_cases [of api env d sg w])
      (use ok clear in \<open>auto simp: seg_ok_def clear_pending_media_def after_publish_def Let_def split: option.splits\<close>)
qed

lemma seg_ok_step: "seg_step api env st st' \<Longrightarrow> seg_ok (fst st) \<Longrightarrow> seg_ok (fst st')"
proof (induction rule: seg_step.induct)
  case (step_flush st d)
  then show ?case using seg_ok_flush [of "fst st" api env d "snd st"] by simp
next
  case (step_install cfg sig sg w)
  then show ?case by (simp add: seg_ok_def install_h264_config_def clear_pending_media_def)
next
  case (step_pending_video sg au w)
  then show ?case
    by (auto simp: seg_ok_def drop_pending_without_config_if_needed_def append_video_def clear_pending_media_def
        split: option.splits)
next
  case (step_video sg au w)
  then show ?case by (auto simp: seg_ok_def append_video_def split: option.splits)
next
  case (step_audio sg w au d)
  then show ?case by (auto simp: seg_ok_def append_audio_def split: option.splits)
next
  case (step_drop sg w)
  then show ?case
    by (auto simp: seg_ok_def drop_pending_without_config_if_needed_def clear_pending_media_def split: option.splits)
next
  case (step_audio_config sg w cfg)
  then show ?case by (auto simp: seg_ok_def set_audio_track_config_def split: option.splits)
qed (auto simp: seg_ok_def reset_segmenter_def empty_video_config_def split: option.splits)

lemma seg_ok_new: "seg_ok (new_segmenter i idx ti ms pub ret)"
  by (simp add: seg_ok_def new_segmenter_def empty_video_config_def)

text \<open>C15: Over every run of a segmenter the recorded timestamps are exactly those of the buffered units,
  the installed decoder configuration carries the parameter sets of its signature, and at most 180
  video units wait for a configuration.\<close>

theorem segmenter_invariant:
  "seg_ok (fst (seg_run api env (new_segmenter i idx ti ms pub ret, w) ops))"
  by (rule seg_steps_invariant [OF steps_run, where P = "\<lambda>st. seg_ok (fst st)"])
    (simp_all add: seg_ok_new seg_ok_step)

section \<open>Initialization before media\<close>

text \<open>The contract of a publisher that keeps the initialization each stream depends on.\<close>

definition part_key :: "u64 \<Rightarrow> published_fmp4_part \<Rightarrow> u64 \<times> u64" where
  "part_key fallback p =
     (fp_stream_id p, max (case fp_source_epoch p of Some e \<Rightarrow> e | None \<Rightarrow> fallback) 1)"

locale init_sink =
  fixes env :: "('e, 'w) fmp4_env" and fallback :: u64 and has_init :: "'w \<Rightarrow> u64 \<times> u64 \<Rightarrow> bool"
  assumes accepted_init: "fe_publish env p w = (Inr u, w') \<Longrightarrow> fp_init p \<noteq> None \<Longrightarrow> has_init w' (part_key fallback p)"
    and publish_keeps: "fe_publish env p w = (r, w') \<Longrightarrow> has_init w k \<Longrightarrow> has_init w' k"
    and now_keeps: "fe_now env w = (t, w') \<Longrightarrow> has_init w k \<Longrightarrow> has_init w' k"
    and append_keeps: "fe_append env i b w = (ok, w') \<Longrightarrow> has_init w k \<Longrightarrow> has_init w' k"
    and add_keeps: "fe_playlist_add env s bx w = (ok, w') \<Longrightarrow> has_init w k \<Longrightarrow> has_init w' k"
begin

definition seg_key :: "fmp4_segmenter \<Rightarrow> u64 \<times> u64" where
  "seg_key sg = (sg_stream_id sg, max (case sg_source_epoch sg of Some e \<Rightarrow> e | None \<Rightarrow> fallback) 1)"

text \<open>When no initialization is due, the publisher has one.\<close>

definition init_inv :: "u64 \<times> u64 \<Rightarrow> fmp4_segmenter \<times> 'w \<Rightarrow> bool" where
  "init_inv k st \<longleftrightarrow> seg_key (fst st) = k \<and> sg_has_publisher (fst st)
     \<and> (\<not> sg_force_next_init (fst st) \<and> sg_last_init_signature (fst st) \<noteq> None \<longrightarrow> has_init (snd st) k)"

lemma store_keeps: "store_locally env sg bx w = (ok, w') \<Longrightarrow> has_init w k \<Longrightarrow> has_init w' k"
  by (auto simp: store_locally_def split: if_splits prod.splits bool.splits dest: append_keeps add_keeps)

lemma part_key_of: "part_key fallback (part_of api sg bx a b) = seg_key sg"
  by (simp add: part_key_def part_of_def seg_key_def Let_def)

lemma publish_part_inv:
  assumes "publish_part api env sg bx t w = (ok, w')" and "sg_has_publisher sg"
  shows "has_init w k \<Longrightarrow> has_init w' k" and "ok \<Longrightarrow> bx_init bx \<noteq> None \<Longrightarrow> has_init w' (seg_key sg)"
proof -
  obtain at w1 where now: "fe_now env w = (at, w1)" by fastforce
  obtain r w2 where pub: "fe_publish env (part_of api sg bx t at) w1 = (r, w2)" by fastforce
  from assms now pub have res: "ok = is_ok r" "w' = w2" by (auto simp: publish_part_def)
  show "has_init w k \<Longrightarrow> has_init w' k"
    using now_keeps [OF now] publish_keeps [OF pub] res by blast
  assume "ok" and init: "bx_init bx \<noteq> None"
  then obtain u where "r = Inr u" using res by (auto simp: is_ok_iff)
  with pub have "has_init w2 (part_key fallback (part_of api sg bx t at))"
    using init by (intro accepted_init) (auto simp: part_of_def Let_def)
  then show "has_init w' (seg_key sg)" by (simp add: res part_key_of)
qed

lemma init_inv_flush:
  assumes inv: "init_inv k (sg, w)"
  shows "init_inv k (flush_with_next_dts api env d (sg, w))"
proof -
  let ?bx = "box_part api sg d"
  obtain t w1 where now: "fe_now env w = (t, w1)" by fastforce
  obtain ok w2 where st: "store_locally env sg ?bx w1 = (ok, w2)" by fastforce
  obtain s w3 where pub: "publish_part api env sg ?bx t w2 = (s, w3)" by fastforce
  from inv have hp: "sg_has_publisher sg" and key: "seg_key sg = k" by (simp_all add: init_inv_def)
  note keeps = now_keeps [OF now] store_keeps [OF st] publish_part_inv(1) [OF pub hp]
  note gained = publish_part_inv(2) [OF pub hp]
  show ?thesis
    using inv keeps gained key now st pub
    by (cases ok) (auto simp: flush_with_next_dts_def Let_def init_inv_def clear_pending_media_def after_publish_def
        seg_key_def)
qed

lemma init_inv_step: "seg_step api env st st' \<Longrightarrow> init_inv k st \<Longrightarrow> init_inv k st'"
proof (induction rule: seg_step.induct)
  case (step_flush st d)
  then show ?case using init_inv_flush [of k "fst st" "snd st" api d] by simp
qed (auto simp: init_inv_def seg_key_def install_h264_config_def clear_pending_media_def append_video_def
    append_audio_def drop_pending_without_config_if_needed_def reset_segmenter_def set_audio_track_config_def)

lemma init_inv_start:
  assumes "sg_has_publisher sg" and "sg_force_next_init sg"
  shows "init_inv (seg_key sg) (sg, w)"
  using assms by (simp add: init_inv_def)

lemma init_inv_run:
  assumes "sg_has_publisher sg" and "sg_force_next_init sg"
  shows "init_inv (seg_key sg) (seg_run api env (sg, w) ops)"
  by (rule seg_steps_invariant [OF steps_run, where P = "init_inv (seg_key sg)"])
    (simp_all add: init_inv_start assms init_inv_step)

lemma media_depends_on_init:
  assumes "sg_has_publisher sg" and "sg_force_next_init sg"
    and "seg_run api env (sg, w) ops = (sg', w')" and "\<not> include_init sg'"
  shows "has_init w' (seg_key sg')"
  using init_inv_run [OF assms(1,2), of api w ops] assms(3,4)
  by (auto simp: init_inv_def include_init_def)

end

section \<open>Timestamp arithmetic\<close>

lemma ms_to_ticks_exact: "unat (ms_to_ticks ms) = unat ms * 90"
proof -
  have ms: "unat ms < 2 ^ 32" using unat_lt2p [of ms] by simp
  have u: "unat (ucast ms :: u64) = unat ms" by (rule unat_ucast_widen) simp
  have "unat (ucast ms * ticks_per_second :: u64) = unat ms * 90000"
    using ms by (simp add: unat_word_ariths u ticks_per_second_def)
  then show ?thesis by (simp add: ms_to_ticks_def unat_div_distrib)
qed

lemma unat_ticks_to_ms:
  assumes "unat t < 2 ^ 53"
  shows "unat (ticks_to_ms t) = (unat t * 1000 + 45000) div 90000"
proof -
  have k: "unat (1000 :: u64) = 1000" "unat ticks_per_second = 90000" "unat (ticks_per_second div 2) = 45000"
    by (simp_all add: ticks_per_second_def unat_div_distrib)
  have "unat (sat_mul t 1000) = unat t * 1000"
    using assms k by (simp add: unat_sat_mul)
  then have "unat (sat_add (sat_mul t 1000) (ticks_per_second div 2)) = unat t * 1000 + 45000"
    using assms k by (simp add: unat_sat_add)
  then show ?thesis by (simp add: ticks_to_ms_def unat_div_distrib k)
qed

lemma ticks_ms_roundtrip: "ticks_to_ms (ms_to_ticks ms) = ucast ms"
proof -
  have small: "unat ms < 2 ^ 32" using unat_lt2p [of ms] by simp
  then have "unat (ticks_to_ms (ms_to_ticks ms)) = (unat ms * 90000 + 45000) div 90000"
    by (simp add: unat_ticks_to_ms ms_to_ticks_exact)
  also have "\<dots> = unat ms" by simp
  also have "\<dots> = unat (ucast ms :: u64)" by (rule unat_ucast_widen [symmetric]) simp
  finally show ?thesis by (simp add: word_unat_eq_iff)
qed

end
