(* ===== verification/Stream_Fec.thy ===== *)
theory Stream_Fec
  imports Codec
begin

text \<open>
  The byte-stream lane to the mesh in \<^verbatim>\<open>src/src/bin/av-contrib.rs\<close>: the geometry of a slot, its
  encoding into framed datagrams with reserved wire identifiers, and \<^verbatim>\<open>forward_stream_slot\<close> with
  the datagram limit of an authorized lease. The RaptorQ encoder and its header codec are fields of
  \<open>fec_api\<close>; the socket acts on an abstract network. Telemetry calls are not modelled here.
\<close>

record 'h fec_api =
  fec_max_source_symbols_per_block :: nat
  fec_default_source_symbols :: nat
  fec_header_len :: nat
  fec_encoding_packet_header_len :: nat
  fec_source_symbol_count :: "nat \<Rightarrow> u16 \<Rightarrow> u16"
  fec_encode_object :: "u32 \<Rightarrow> u16 \<Rightarrow> bytes \<Rightarrow> u32 \<Rightarrow> (bytes list \<times> u32) option"
  fec_decode_header :: "bytes \<Rightarrow> 'h option"
  fec_set_packet_sequence :: "u32 \<Rightarrow> 'h \<Rightarrow> 'h"
  fec_set_crc :: "u32 \<Rightarrow> 'h \<Rightarrow> 'h"
  fec_compute_crc :: "'h \<Rightarrow> bytes \<Rightarrow> u32 option"
  fec_encode_header :: "'h \<Rightarrow> bytes option"

definition max_stream_fec_object_bytes :: nat where "max_stream_fec_object_bytes = 8 * 1024 * 1024"
definition max_stream_fec_datagrams :: u32 where "max_stream_fec_datagrams = 32768"

datatype slot_error =
  SlotTooLarge | RepairOverflow | RepairSequenceSpace | PacketSequenceSpace | TooManyDatagrams
| EncodeFailed | GeometryChanged | HeaderFailed | DatagramLimitExceeded | SendFailed

record stream_fec_geometry =
  geo_block_count :: u32
  geo_packet_count :: u32
  geo_repair_symbols :: u32

definition stream_fec_geometry_of :: "'h fec_api \<Rightarrow> nat \<Rightarrow> u16 \<Rightarrow> u32 \<Rightarrow> slot_error + stream_fec_geometry" where
  "stream_fec_geometry_of api payload_len symbol_size repair =
     (let symbol = max symbol_size 1;
          max_object = min (fec_max_source_symbols_per_block api * unat symbol) max_stream_fec_object_bytes;
          legacy_blocks = div_ceil_nat (max payload_len 1) (fec_default_source_symbols api * unat symbol)
      in if max_object < payload_len then Inl SlotTooLarge
         else res_bind (ok_or RepairOverflow
             (checked_mul (of_nat legacy_blocks :: u64) (ucast repair))) (\<lambda>total.
           res_bind (ok_or RepairSequenceSpace (try_cast total)) (\<lambda>repair_symbols :: u32.
           res_bind (ok_or PacketSequenceSpace
             (checked_add (ucast (fec_source_symbol_count api payload_len symbol)) repair_symbols)) (\<lambda>packets.
             if max_stream_fec_datagrams < packets then Inl TooManyDatagrams
             else Inr \<lparr>geo_block_count = 1, geo_packet_count = packets, geo_repair_symbols = repair_symbols\<rparr>))))"

text \<open>Stamping one encoded datagram with its reserved packet sequence, and the stream prefix.\<close>

definition stamp_datagram :: "'h fec_api \<Rightarrow> u64 \<Rightarrow> u32 \<Rightarrow> bytes \<Rightarrow> slot_error + bytes" where
  "stamp_datagram api stream_id sequence datagram =
     res_bind (ok_or HeaderFailed (fec_decode_header api datagram)) (\<lambda>header.
       let header = fec_set_packet_sequence api sequence header;
           body = drop (fec_header_len api) datagram in
       res_bind (ok_or HeaderFailed (fec_compute_crc api header body)) (\<lambda>crc.
       res_bind (ok_or HeaderFailed (fec_encode_header api (fec_set_crc api crc header))) (\<lambda>encoded.
         Inr (u64_be stream_id @ encoded @ body))))"

fun stamp_all :: "'h fec_api \<Rightarrow> u64 \<Rightarrow> u32 \<Rightarrow> bytes list \<Rightarrow> slot_error + bytes list" where
  "stamp_all api stream_id sequence [] = Inr []"
| "stamp_all api stream_id sequence (d # ds) =
     res_bind (stamp_datagram api stream_id sequence d) (\<lambda>framed.
     res_bind (stamp_all api stream_id (sequence + 1) ds) (\<lambda>rest. Inr (framed # rest)))"

definition encode_stream_fec_payload ::
    "'h fec_api \<Rightarrow> u64 \<Rightarrow> bytes \<Rightarrow> u32 \<Rightarrow> u16 \<Rightarrow> u32 \<Rightarrow> u32 \<Rightarrow> slot_error + bytes list" where
  "encode_stream_fec_payload api stream_id payload repair symbol_size block_id sequence =
     res_bind (stream_fec_geometry_of api (length payload) symbol_size repair) (\<lambda>geometry.
     res_bind (ok_or EncodeFailed
       (fec_encode_object api block_id symbol_size payload (geo_repair_symbols geometry))) (\<lambda>(datagrams, next_block).
       if next_block \<noteq> block_id + geo_block_count geometry
          \<or> length datagrams \<noteq> unat (geo_packet_count geometry)
       then Inl GeometryChanged
       else stamp_all api stream_id sequence datagrams))"

record byte_lane =
  bl_next_block_id :: u32
  bl_next_packet_sequence :: u32
  bl_repair_symbols :: u32
  bl_symbol_size :: u16

fun send_all :: "(bytes \<Rightarrow> 'n \<Rightarrow> bool \<times> 'n) \<Rightarrow> bytes list \<Rightarrow> 'n \<Rightarrow> bool \<times> 'n" where
  "send_all send [] n = (True, n)"
| "send_all send (d # ds) n =
     (case send d n of (False, n) \<Rightarrow> (False, n) | (True, n) \<Rightarrow> send_all send ds n)"

definition limited_symbol_size :: "'h fec_api \<Rightarrow> u16 \<Rightarrow> u32 option \<Rightarrow> slot_error + u16" where
  "limited_symbol_size api symbol_size limit =
     (case limit of
        None \<Rightarrow> Inr symbol_size
      | Some maximum \<Rightarrow>
          let overhead = 8 + fec_header_len api + fec_encoding_packet_header_len api;
              room = unat maximum - overhead
          in if overhead \<le> unat maximum \<and> room < 2 ^ 16 \<and> 0 < room
             then Inr (min symbol_size (of_nat room)) else Inl DatagramLimitExceeded)"

definition forward_stream_slot_with_limit ::
    "'h fec_api \<Rightarrow> (bytes \<Rightarrow> 'n \<Rightarrow> bool \<times> 'n) \<Rightarrow> u64 \<Rightarrow> bytes \<Rightarrow> u32 option \<Rightarrow> byte_lane \<times> 'n
     \<Rightarrow> (slot_error + nat) \<times> byte_lane \<times> 'n" where
  "forward_stream_slot_with_limit api send stream_id payload limit st =
     (case st of (lane, n) \<Rightarrow>
      if payload = [] then (Inr 0, lane, n)
      else case limited_symbol_size api (bl_symbol_size lane) limit of Inl e \<Rightarrow> (Inl e, lane, n)
      | Inr symbol_size \<Rightarrow>
      (case stream_fec_geometry_of api (length payload) symbol_size (bl_repair_symbols lane) of Inl e \<Rightarrow> (Inl e, lane, n)
      | Inr geometry \<Rightarrow>
      let block_id = bl_next_block_id lane; sequence = bl_next_packet_sequence lane;
          lane = lane\<lparr>bl_next_block_id := block_id + geo_block_count geometry,
                      bl_next_packet_sequence := sequence + geo_packet_count geometry\<rparr>
      in case encode_stream_fec_payload api stream_id payload (bl_repair_symbols lane) symbol_size block_id sequence of
           Inl e \<Rightarrow> (Inl e, lane, n)
         | Inr datagrams \<Rightarrow>
             if (case limit of None \<Rightarrow> False | Some maximum \<Rightarrow> list_ex (\<lambda>d. unat maximum < length d) datagrams)
             then (Inl DatagramLimitExceeded, lane, n)
             else case send_all send datagrams n of
                 (False, n) \<Rightarrow> (Inl SendFailed, lane, n)
               | (True, n) \<Rightarrow> (Inr (length datagrams), lane, n)))"

definition forward_stream_slot ::
    "'h fec_api \<Rightarrow> (bytes \<Rightarrow> 'n \<Rightarrow> bool \<times> 'n) \<Rightarrow> u64 \<Rightarrow> bytes \<Rightarrow> byte_lane \<times> 'n \<Rightarrow> (slot_error + nat) \<times> byte_lane \<times> 'n" where
  "forward_stream_slot api send stream_id payload st = forward_stream_slot_with_limit api send stream_id payload None st"

section \<open>Lemmas\<close>

lemma stamp_all_length: "stamp_all api s q ds = Inr fs \<Longrightarrow> length fs = length ds"
  by (induction ds arbitrary: q fs) (auto simp: res_ok)

lemma stamp_all_nth:
  "stamp_all api s q ds = Inr fs \<Longrightarrow> i < length ds \<Longrightarrow> stamp_datagram api s (q + of_nat i) (ds ! i) = Inr (fs ! i)"
proof (induction ds arbitrary: q fs i)
  case Nil
  then show ?case by simp
next
  case (Cons d ds)
  then obtain f rest where f: "stamp_datagram api s q d = Inr f" and rest: "stamp_all api s (q + 1) ds = Inr rest"
    and fs: "fs = f # rest" by (auto simp: res_ok)
  show ?case
  proof (cases i)
    case 0
    with f fs show ?thesis by simp
  next
    case (Suc j)
    with Cons.IH [OF rest, of j] Cons.prems(2) show ?thesis by (simp add: fs algebra_simps)
  qed
qed

lemma stamp_all_prefix: "stamp_all api s q ds = Inr fs \<Longrightarrow> f \<in> set fs \<Longrightarrow> take 8 f = u64_be s"
  by (induction ds arbitrary: q fs) (auto simp: res_ok stamp_datagram_def Let_def)

lemma geometry_facts:
  assumes "stream_fec_geometry_of api n symbol repair = Inr g"
  shows "geo_block_count g = 1" and "geo_packet_count g \<le> max_stream_fec_datagrams"
    and "n \<le> max_stream_fec_object_bytes"
    and "unat (geo_packet_count g) = unat (fec_source_symbol_count api n (max symbol 1)) + unat (geo_repair_symbols g)"
proof -
  have w: "unat (ucast (x :: u16) :: u32) = unat x" for x by (rule unat_ucast_widen) simp
  show "geo_block_count g = 1" and "geo_packet_count g \<le> max_stream_fec_datagrams"
    and "n \<le> max_stream_fec_object_bytes"
    and "unat (geo_packet_count g) = unat (fec_source_symbol_count api n (max symbol 1)) + unat (geo_repair_symbols g)"
    using assms
    by (auto simp: stream_fec_geometry_of_def Let_def res_ok not_less checked_add_eq_Some w split: if_splits)
qed

lemma encode_length:
  assumes "encode_stream_fec_payload api s p repair symbol b q = Inr ds"
    and "stream_fec_geometry_of api (length p) symbol repair = Inr g"
  shows "length ds = unat (geo_packet_count g)"
  using assms by (auto simp: encode_stream_fec_payload_def res_ok dest: stamp_all_length split: if_splits)

text \<open>C18: Whatever a lease allows, nothing larger leaves the contributor: every datagram handed to the
  socket by \<^verbatim>\<open>forward_stream_slot_with_limit\<close> is at most the authorized size and starts with the
  big-endian stream identifier, and an oversized slot is refused before anything is sent.\<close>

theorem datagram_limit_respected:
  "case forward_stream_slot_with_limit api send stream_id payload (Some maximum) (lane, n) of (r, lane', n') \<Rightarrow>
     (\<exists>ds. (\<forall>d \<in> set ds. length d \<le> unat maximum \<and> take 8 d = u64_be stream_id)
        \<and> n' = snd (send_all send ds n) \<and> (r = Inl DatagramLimitExceeded \<longrightarrow> n' = n)
        \<and> (\<forall>k. r = Inr k \<longrightarrow> length ds = k))"
proof -
  have pre: "take 8 d = u64_be stream_id"
    if "encode_stream_fec_payload api stream_id payload re sy b q = Inr ds" "d \<in> set ds" for re sy b q ds d
    using that by (auto simp: encode_stream_fec_payload_def res_ok split: if_splits dest: stamp_all_prefix)
  show ?thesis
  proof (cases "payload = []")
    case True
    then show ?thesis by (auto simp: forward_stream_slot_with_limit_def intro!: exI [of _ "[]"])
  next
    case ne: False
    show ?thesis
    proof (cases "limited_symbol_size api (bl_symbol_size lane) (Some maximum)")
      case (Inl e)
      with ne show ?thesis by (auto simp: forward_stream_slot_with_limit_def intro!: exI [of _ "[]"])
    next
      case sym: (Inr symbol)
      show ?thesis
      proof (cases "stream_fec_geometry_of api (length payload) symbol (bl_repair_symbols lane)")
        case (Inl e)
        with ne sym show ?thesis by (auto simp: forward_stream_slot_with_limit_def intro!: exI [of _ "[]"])
      next
        case geo: (Inr g)
        show ?thesis
        proof (cases "encode_stream_fec_payload api stream_id payload (bl_repair_symbols lane) symbol
            (bl_next_block_id lane) (bl_next_packet_sequence lane)")
          case (Inl e)
          with ne sym geo show ?thesis
            by (auto simp: forward_stream_slot_with_limit_def Let_def intro!: exI [of _ "[]"])
        next
          case enc: (Inr ds)
          show ?thesis
          proof (cases "list_ex (\<lambda>d. unat maximum < length d) ds")
            case True
            with ne sym geo enc show ?thesis
              by (auto simp: forward_stream_slot_with_limit_def Let_def intro!: exI [of _ "[]"])
          next
            case False
            then have small: "\<forall>d \<in> set ds. length d \<le> unat maximum \<and> take 8 d = u64_be stream_id"
              using pre [OF enc] by (auto simp: list_ex_iff not_less)
            obtain ok n' where sent: "send_all send ds n = (ok, n')" by fastforce
            with False ne sym geo enc small show ?thesis
              by (cases ok) (auto simp: forward_stream_slot_with_limit_def Let_def intro!: exI [of _ ds])
          qed
        qed
      qed
    qed
  qed
qed

text \<open>Wire identifiers are reserved without overlap: a slot that is sent carries exactly as many
  datagrams as the packet sequence advances, the i-th stamped with the old sequence plus i, at most
  32768 of them, and the block identifier advances by one.\<close>

theorem slot_sequences_reserved:
  assumes "forward_stream_slot api send stream_id payload (lane, n) = (Inr k, lane', n')" and "payload \<noteq> []"
  shows "\<exists>encoded framed. length framed = k \<and> length encoded = k \<and> k \<le> 32768
    \<and> send_all send framed n = (True, n')
    \<and> bl_next_packet_sequence lane' = bl_next_packet_sequence lane + of_nat k
    \<and> bl_next_block_id lane' = bl_next_block_id lane + 1
    \<and> (\<forall>i < k. stamp_datagram api stream_id (bl_next_packet_sequence lane + of_nat i) (encoded ! i) = Inr (framed ! i))"
proof -
  from assms obtain g framed where
    geo: "stream_fec_geometry_of api (length payload) (bl_symbol_size lane) (bl_repair_symbols lane) = Inr g"
    and enc: "encode_stream_fec_payload api stream_id payload (bl_repair_symbols lane) (bl_symbol_size lane)
        (bl_next_block_id lane) (bl_next_packet_sequence lane) = Inr framed"
    and sent: "send_all send framed n = (True, n')" and k: "k = length framed"
    and lane': "lane' = lane\<lparr>bl_next_block_id := bl_next_block_id lane + geo_block_count g,
                      bl_next_packet_sequence := bl_next_packet_sequence lane + geo_packet_count g\<rparr>"
    by (auto simp: forward_stream_slot_def forward_stream_slot_with_limit_def limited_symbol_size_def Let_def
        split: sum.splits prod.splits bool.splits)
  note count = encode_length [OF enc geo]
  from enc geo obtain encoded where st: "stamp_all api stream_id (bl_next_packet_sequence lane) encoded = Inr framed"
    by (auto simp: encode_stream_fec_payload_def res_ok split: if_splits)
  have len: "length encoded = k" using stamp_all_length [OF st] k by simp
  have "of_nat k = geo_packet_count g" using count k by simp
  moreover have "k \<le> 32768"
    using geometry_facts(2) [OF geo] count k by (simp add: word_le_nat_alt max_stream_fec_datagrams_def)
  ultimately show ?thesis
    using st sent k len geometry_facts(1) [OF geo] stamp_all_nth [OF st]
    by (intro exI [of _ encoded] exI [of _ framed]) (simp add: lane')
qed

definition demo_fec :: "u32 fec_api" where
  "demo_fec = \<lparr>fec_max_source_symbols_per_block = 56403, fec_default_source_symbols = 4, fec_header_len = 1, fec_encoding_packet_header_len = 4,
     fec_source_symbol_count = (\<lambda>n s. 1),
     fec_encode_object = (\<lambda>b s p r. Some ([[0, 1], [0, 2]], b + 1)),
     fec_decode_header = (\<lambda>d. Some 0), fec_set_packet_sequence = (\<lambda>q _. q), fec_set_crc = (\<lambda>_ h. h),
     fec_compute_crc = (\<lambda>_ _. Some 0), fec_encode_header = (\<lambda>h. Some [ucast h])\<rparr>"

definition demo_lane :: byte_lane where
  "demo_lane = \<lparr>bl_next_block_id = 5, bl_next_packet_sequence = 0xFFFFFFFF, bl_repair_symbols = 1, bl_symbol_size = 10\<rparr>"

definition demo_send :: "bytes \<Rightarrow> bytes list \<Rightarrow> bool \<times> bytes list" where
  "demo_send d n = (True, n @ [d])"

lemma demo_geometry:
  "stream_fec_geometry_of demo_fec 3 10 1 = Inr \<lparr>geo_block_count = 1, geo_packet_count = 2, geo_repair_symbols = 1\<rparr>"
  by (simp add: stream_fec_geometry_of_def demo_fec_def Let_def div_ceil_nat_def checked_mul_def checked_add_def
      try_cast_def max_def max_stream_fec_object_bytes_def max_stream_fec_datagrams_def)

lemma demo_encode:
  "encode_stream_fec_payload demo_fec 7 [1, 2, 3] 1 10 5 0xFFFFFFFF
     = Inr [u64_be 7 @ [0xFF, 1], u64_be 7 @ [0, 2]]"
proof -
  have three: "length [1, 2, 3 :: u8] = 3" by simp
  show ?thesis unfolding encode_stream_fec_payload_def three demo_geometry
    by (simp add: demo_fec_def stamp_datagram_def Let_def)
qed

lemma slot_sequences_reserved_witness:
  "\<exists>lane' n'. forward_stream_slot demo_fec demo_send 7 [1, 2, 3] (demo_lane, []) = (Inr 2, lane', n')
    \<and> bl_next_packet_sequence lane' = bl_next_packet_sequence demo_lane + 2"
proof -
  obtain lane' n' where ok: "forward_stream_slot demo_fec demo_send 7 [1, 2, 3] (demo_lane, []) = (Inr 2, lane', n')"
    using demo_geometry demo_encode
    by (simp add: forward_stream_slot_def forward_stream_slot_with_limit_def limited_symbol_size_def
        demo_lane_def demo_send_def numeral_3_eq_3)
  from slot_sequences_reserved [OF ok] ok show ?thesis by auto
qed

lemma datagram_limit_respected_witness:
  "\<exists>r lane' n'. forward_stream_slot_with_limit demo_fec demo_send 7 [1, 2, 3] (Some 8) (demo_lane, []) = (r, lane', n')
    \<and> r = Inl DatagramLimitExceeded \<and> n' = []"
proof -
  obtain r lane' n' where out:
    "forward_stream_slot_with_limit demo_fec demo_send 7 [1, 2, 3] (Some 8) (demo_lane, []) = (r, lane', n')"
    by (cases "forward_stream_slot_with_limit demo_fec demo_send 7 [1, 2, 3] (Some 8) (demo_lane, [])")
  then have r: "r = Inl DatagramLimitExceeded"
    by (auto simp: forward_stream_slot_with_limit_def limited_symbol_size_def demo_fec_def Let_def)
  with datagram_limit_respected [where api = demo_fec and send = demo_send and payload = "[1, 2, 3]"
      and stream_id = 7 and maximum = 8 and lane = demo_lane and n = "[]"] out show ?thesis by auto
qed

end
