(* ===== verification/Relay_Lanes.thy ===== *)
theory Relay_Lanes
  imports Codec
begin

text \<open>
  The relay session of \<^verbatim>\<open>src/src/bin/av-contrib.rs\<close>: one canonical object is protected into source
  and repair symbols, sent over a primary and possibly a secondary carrier, and the two lane
  results are resolved into one. The two lanes of \<^verbatim>\<open>tokio::join!\<close> have carriers and clocks of their
  own, so running one after the other is any interleaving of them; the counters they share are
  added up afterwards. Stage durations and the latency histograms are not modelled.
\<close>

section \<open>Lane health\<close>

datatype relay_lane_state = LaneUnknown | LaneHealthy | LaneImpaired

fun lane_state_as_str :: "relay_lane_state \<Rightarrow> string" where
  "lane_state_as_str LaneUnknown = ''unknown''"
| "lane_state_as_str LaneHealthy = ''healthy''"
| "lane_state_as_str LaneImpaired = ''impaired''"

definition relay_lane_impaired_hold_ms :: u64 where "relay_lane_impaired_hold_ms = 3000"

definition relay_lane_state_of :: "u64 \<Rightarrow> u64 \<Rightarrow> u64 \<Rightarrow> relay_lane_state" where
  "relay_lane_state_of now last_success last_failure =
     (if last_success = 0 \<and> last_failure = 0 then LaneUnknown
      else if 0 < last_failure
         \<and> (last_success \<le> last_failure \<or> sat_sub now last_failure < relay_lane_impaired_hold_ms)
      then LaneImpaired else LaneHealthy)"

section \<open>Resolving the lane results\<close>

datatype relay_error =
  NoDeadline | ExpiredBeforeEncoding | ProtectFailed | RepairOnlySurvived | AllLanesFailed
| OnlyLaneFailed | ExpiredWhileEmitting

definition resolve_relay_lane_results :: "bool \<Rightarrow> bool option \<Rightarrow> bool \<Rightarrow> relay_error + bool" where
  "resolve_relay_lane_results primary secondary secondary_carries_source =
     (case (primary, secondary) of
        (True, None) \<Rightarrow> Inr False
      | (True, Some True) \<Rightarrow> Inr False
      | (True, Some False) \<Rightarrow> Inr True
      | (False, Some True) \<Rightarrow> if secondary_carries_source then Inr True else Inl RepairOnlySurvived
      | (False, Some False) \<Rightarrow> Inl AllLanesFailed
      | (False, None) \<Rightarrow> Inl OnlyLaneFailed)"

section \<open>Sending the symbols\<close>

datatype datagram_role = SourceRole | RepairRole

record relay_datagram =
  rd_role :: datagram_role
  rd_deadline_us :: u64
  rd_bytes :: bytes

record 'n relay_carrier =
  rc_now :: "'n \<Rightarrow> u64 \<times> 'n"
  rc_expired :: "u64 \<Rightarrow> u64 \<Rightarrow> bool"
  rc_len :: "relay_datagram \<Rightarrow> nat option"
  rc_send :: "relay_datagram \<Rightarrow> 'n \<Rightarrow> bool \<times> 'n"

record lane_counts =
  lc_source_sent :: u64
  lc_source_bytes :: u64
  lc_repair_sent :: u64
  lc_repair_bytes :: u64
  lc_source_errors :: u64
  lc_repair_errors :: u64
  lc_expired_symbols :: u64

definition zero_counts :: lane_counts where
  "zero_counts = \<lparr>lc_source_sent = 0, lc_source_bytes = 0, lc_repair_sent = 0, lc_repair_bytes = 0,
     lc_source_errors = 0, lc_repair_errors = 0, lc_expired_symbols = 0\<rparr>"

definition count_send_error :: "datagram_role \<Rightarrow> lane_counts \<Rightarrow> lane_counts" where
  "count_send_error role c = (case role of
      SourceRole \<Rightarrow> c\<lparr>lc_source_errors := lc_source_errors c + 1\<rparr>
    | RepairRole \<Rightarrow> c\<lparr>lc_repair_errors := lc_repair_errors c + 1\<rparr>)"

definition count_send_success :: "datagram_role \<Rightarrow> u64 \<Rightarrow> lane_counts \<Rightarrow> lane_counts" where
  "count_send_success role n c = (case role of
      SourceRole \<Rightarrow> c\<lparr>lc_source_sent := lc_source_sent c + 1, lc_source_bytes := lc_source_bytes c + n\<rparr>
    | RepairRole \<Rightarrow> c\<lparr>lc_repair_sent := lc_repair_sent c + 1, lc_repair_bytes := lc_repair_bytes c + n\<rparr>)"

definition send_symbol :: "'n relay_carrier \<Rightarrow> relay_datagram \<Rightarrow> lane_counts \<times> 'n \<Rightarrow> bool \<times> lane_counts \<times> 'n" where
  "send_symbol rc d st =
     (case st of (c, n) \<Rightarrow>
      case rc_now rc n of (now, n) \<Rightarrow>
      if rc_expired rc (rd_deadline_us d) now
      then (let c = count_send_error (rd_role d) c
            in (False, c\<lparr>lc_expired_symbols := lc_expired_symbols c + 1\<rparr>, n))
      else case rc_len rc d of
          None \<Rightarrow> (False, count_send_error (rd_role d) c, n)
        | Some bytes \<Rightarrow>
            (case rc_send rc d n of
               (False, n) \<Rightarrow> (False, count_send_error (rd_role d) c, n)
             | (True, n) \<Rightarrow> (True, count_send_success (rd_role d) (of_nat bytes) c, n)))"

fun send_symbols :: "'n relay_carrier \<Rightarrow> relay_datagram list \<Rightarrow> lane_counts \<times> 'n \<Rightarrow> bool \<times> lane_counts \<times> 'n" where
  "send_symbols rc [] (c, n) = (True, c, n)"
| "send_symbols rc (d # ds) (c, n) =
     (case send_symbol rc d (c, n) of
        (False, c, n) \<Rightarrow> (False, c, n)
      | (True, c, n) \<Rightarrow> send_symbols rc ds (c, n))"

record relay_counters =
  rl_objects_sent :: u64
  rl_deadline_hits :: u64
  rl_deadline_misses :: u64
  rl_expired_objects :: u64
  rl_encode_errors :: u64
  rl_repair_primary_fallback :: u64
  rl_all_lanes_failed :: u64
  rl_surviving_lane :: u64
  rl_last_deadline_us :: u64
  rl_primary_ok :: u64
  rl_primary_failed :: u64
  rl_secondary_ok :: u64
  rl_secondary_failed :: u64

record ('n, 'o) relay_session =
  rs_primary :: "'n relay_carrier"
  rs_secondary :: "'n relay_carrier option"
  rs_secondary_seed_source :: bool
  rs_protect :: "'o \<Rightarrow> u64 \<Rightarrow> (relay_datagram list \<times> relay_datagram list) option"
  rs_expired :: "u64 \<Rightarrow> u64 \<Rightarrow> bool"
  rs_deadline :: "'o \<Rightarrow> int option"

record 'n relay_world =
  rw_clock :: "u64 list"
  rw_primary :: 'n
  rw_secondary :: 'n
  rw_lanes :: lane_counts
  rw_counters :: relay_counters

text \<open>The clock readings of the publication itself: the head of the list, or the last reading again.\<close>

definition read_clock :: "'n relay_world \<Rightarrow> u64 \<times> 'n relay_world" where
  "read_clock w = (case rw_clock w of
      [] \<Rightarrow> (0, w)
    | [t] \<Rightarrow> (t, w)
    | t # ts \<Rightarrow> (t, w\<lparr>rw_clock := ts\<rparr>))"

definition relay_deadline_for_object :: "int option \<Rightarrow> u64 option" where
  "relay_deadline_for_object deadline =
     (case deadline of
        None \<Rightarrow> None
      | Some ns \<Rightarrow> (case u64_of_i64 ns of None \<Rightarrow> None | Some v \<Rightarrow> Some (div_ceil v 1000)))"

definition add_counts :: "lane_counts \<Rightarrow> lane_counts \<Rightarrow> lane_counts" where
  "add_counts a b = \<lparr>lc_source_sent = lc_source_sent a + lc_source_sent b,
     lc_source_bytes = lc_source_bytes a + lc_source_bytes b,
     lc_repair_sent = lc_repair_sent a + lc_repair_sent b,
     lc_repair_bytes = lc_repair_bytes a + lc_repair_bytes b,
     lc_source_errors = lc_source_errors a + lc_source_errors b,
     lc_repair_errors = lc_repair_errors a + lc_repair_errors b,
     lc_expired_symbols = lc_expired_symbols a + lc_expired_symbols b\<rparr>"

definition primary_lane ::
    "('n, 'o) relay_session \<Rightarrow> relay_datagram list \<Rightarrow> relay_datagram list \<Rightarrow> 'n \<Rightarrow> bool \<times> lane_counts \<times> 'n" where
  "primary_lane rs source repair n =
     send_symbols (rs_primary rs) (source @ (if rs_secondary rs = None then repair else [])) (zero_counts, n)"

definition secondary_lane ::
    "('n, 'o) relay_session \<Rightarrow> relay_datagram list \<Rightarrow> relay_datagram list \<Rightarrow> 'n \<Rightarrow> bool \<times> lane_counts \<times> 'n" where
  "secondary_lane rs source repair n =
     (case rs_secondary rs of
        None \<Rightarrow> (True, zero_counts, n)
      | Some rc \<Rightarrow> send_symbols rc ((if rs_secondary_seed_source rs then source else []) @ repair) (zero_counts, n))"

definition count_expired :: "relay_counters \<Rightarrow> relay_counters" where
  "count_expired k = k\<lparr>rl_expired_objects := rl_expired_objects k + 1, rl_deadline_misses := rl_deadline_misses k + 1\<rparr>"

definition count_lane_objects :: "bool \<Rightarrow> bool option \<Rightarrow> relay_counters \<Rightarrow> relay_counters" where
  "count_lane_objects primary secondary k =
     (let k = (if primary then k\<lparr>rl_primary_ok := rl_primary_ok k + 1\<rparr>
               else k\<lparr>rl_primary_failed := rl_primary_failed k + 1\<rparr>)
      in case secondary of
           None \<Rightarrow> k
         | Some True \<Rightarrow> k\<lparr>rl_secondary_ok := rl_secondary_ok k + 1\<rparr>
         | Some False \<Rightarrow> k\<lparr>rl_secondary_failed := rl_secondary_failed k + 1\<rparr>)"

text \<open>Both lanes and the resolution of their results.\<close>

definition run_lanes ::
    "('n, 'o) relay_session \<Rightarrow> relay_datagram list \<Rightarrow> relay_datagram list \<Rightarrow> 'n relay_world
     \<Rightarrow> (relay_error + bool) \<times> 'n relay_world" where
  "run_lanes rs source repair w =
     (case primary_lane rs source repair (rw_primary w) of (p, pc, pn) \<Rightarrow>
      case secondary_lane rs source repair (rw_secondary w) of (s, sc, sn) \<Rightarrow>
      let secondary = (if rs_secondary rs = None then None else Some s) in
      (resolve_relay_lane_results p secondary (rs_secondary_seed_source rs),
       w\<lparr>rw_primary := pn, rw_secondary := sn, rw_lanes := add_counts (rw_lanes w) (add_counts pc sc),
         rw_counters := count_lane_objects p secondary (rw_counters w)\<rparr>))"

definition relay_publish_object ::
    "('n, 'o) relay_session \<Rightarrow> 'o \<Rightarrow> 'n relay_world \<Rightarrow> (relay_error + nat \<times> nat) \<times> 'n relay_world" where
  "relay_publish_object rs object w =
     (case relay_deadline_for_object (rs_deadline rs object) of None \<Rightarrow> (Inl NoDeadline, w) | Some deadline \<Rightarrow>
      case read_clock w of (now, w) \<Rightarrow>
      if rs_expired rs deadline now
      then (Inl ExpiredBeforeEncoding, w\<lparr>rw_counters := count_expired (rw_counters w)\<rparr>)
      else case rs_protect rs object deadline of
        None \<Rightarrow> (Inl ProtectFailed, w\<lparr>rw_counters := (rw_counters w)\<lparr>rl_encode_errors := rl_encode_errors (rw_counters w) + 1\<rparr>\<rparr>)
      | Some (source, repair) \<Rightarrow>
          let k = rw_counters w;
              w = (if rs_secondary rs = None \<and> repair \<noteq> []
                   then w\<lparr>rw_counters := k\<lparr>rl_repair_primary_fallback := rl_repair_primary_fallback k + 1\<rparr>\<rparr> else w)
          in case run_lanes rs source repair w of
            (Inl e, w) \<Rightarrow>
              (case read_clock w of (now, w) \<Rightarrow>
                let k = (rw_counters w)\<lparr>rl_all_lanes_failed := rl_all_lanes_failed (rw_counters w) + 1\<rparr>
                in (Inl e, w\<lparr>rw_counters := if rs_expired rs deadline now then count_expired k else k\<rparr>))
          | (Inr survived, w) \<Rightarrow>
              (case read_clock w of (now, w) \<Rightarrow>
                let k = rw_counters w;
                    k = (if survived then k\<lparr>rl_surviving_lane := rl_surviving_lane k + 1\<rparr> else k)
                in if rs_expired rs deadline now
                   then (Inl ExpiredWhileEmitting, w\<lparr>rw_counters := count_expired k\<rparr>)
                   else (Inr (length source, length repair),
                     w\<lparr>rw_counters := k\<lparr>rl_objects_sent := rl_objects_sent k + 1,
                       rl_deadline_hits := rl_deadline_hits k + 1, rl_last_deadline_us := deadline\<rparr>\<rparr>)))"

section \<open>Lemmas\<close>

text \<open>A lane that succeeds has handed every symbol to its carrier, in order and before it expired.\<close>

inductive carried :: "'n relay_carrier \<Rightarrow> relay_datagram list \<Rightarrow> 'n \<Rightarrow> 'n \<Rightarrow> bool" for rc :: "'n relay_carrier" where
  carried_none: "carried rc [] n n"
| carried_one: "carried rc (d # ds) n n'"
    if "rc_now rc n = (now, n1)" "\<not> rc_expired rc (rd_deadline_us d) now" "rc_send rc d n1 = (True, n2)" "carried rc ds n2 n'"

inductive_cases carried_ConsE: "carried rc (d # ds) n n'"

lemma send_symbol_ok:
  assumes "send_symbol rc d (c, n) = (True, c', n')"
  obtains now n1 where "rc_now rc n = (now, n1)" "\<not> rc_expired rc (rd_deadline_us d) now" "rc_send rc d n1 = (True, n')"
  using assms
  by (auto simp: send_symbol_def Let_def split: prod.splits if_splits option.splits bool.splits)

lemma send_symbols_ok: "send_symbols rc ds (c, n) = (True, c', n') \<Longrightarrow> carried rc ds n n'"
proof (induction ds arbitrary: c n)
  case Nil
  then show ?case by (simp add: carried_none)
next
  case (Cons d ds)
  then obtain c1 n2 where one: "send_symbol rc d (c, n) = (True, c1, n2)" and rest: "send_symbols rc ds (c1, n2) = (True, c', n')"
    by (auto split: prod.splits bool.splits)
  from one obtain now n1 where "rc_now rc n = (now, n1)" "\<not> rc_expired rc (rd_deadline_us d) now" "rc_send rc d n1 = (True, n2)"
    by (rule send_symbol_ok)
  with Cons.IH [OF rest] show ?case by (auto intro: carried_one)
qed

lemma carried_append_left: "carried rc (xs @ ys) n n' \<Longrightarrow> \<exists>m. carried rc xs n m"
proof (induction xs arbitrary: n)
  case Nil
  then show ?case by (auto intro: carried_none)
next
  case (Cons x xs)
  from Cons.prems obtain now n1 n2 where "rc_now rc n = (now, n1)" "\<not> rc_expired rc (rd_deadline_us x) now"
    "rc_send rc x n1 = (True, n2)" "carried rc (xs @ ys) n2 n'"
    by (auto elim: carried_ConsE)
  with Cons.IH show ?case by (blast intro: carried_one)
qed

lemma resolve_Inr_cases:
  "resolve_relay_lane_results p s carries = Inr survived \<Longrightarrow> p \<or> (s = Some True \<and> carries)"
  by (auto simp: resolve_relay_lane_results_def split: prod.splits option.splits bool.splits if_splits)

lemma read_clock_frame:
  "read_clock w = (t, w') \<Longrightarrow> rw_primary w' = rw_primary w \<and> rw_secondary w' = rw_secondary w
     \<and> rw_counters w' = rw_counters w \<and> rw_lanes w' = rw_lanes w"
  by (auto simp: read_clock_def split: list.splits)

lemma read_clock_cong: "rw_clock w = rw_clock w' \<Longrightarrow> fst (read_clock w) = fst (read_clock w')"
  by (simp add: read_clock_def split: list.split)

lemma run_lanes_clock: "run_lanes rs source repair w = (r, w') \<Longrightarrow> rw_clock w' = rw_clock w"
  by (auto simp: run_lanes_def Let_def split: prod.splits)

text \<open>C17: An object reported as published is decodable downstream: all of its source symbols were accepted
  in order by the primary carrier, or by a secondary that is seeded with source symbols, each
  before it expired, and the object itself had expired neither when the publication began nor
  when it ended.\<close>

theorem published_object_carried:
  assumes "relay_publish_object rs object w = (Inr (k, m), w')"
  shows "\<exists>deadline source repair. relay_deadline_for_object (rs_deadline rs object) = Some deadline
    \<and> rs_protect rs object deadline = Some (source, repair) \<and> k = length source \<and> m = length repair
    \<and> ((\<exists>n. carried (rs_primary rs) source (rw_primary w) n)
       \<or> (\<exists>rc n. rs_secondary rs = Some rc \<and> rs_secondary_seed_source rs \<and> carried rc source (rw_secondary w) n))
    \<and> \<not> rs_expired rs deadline (fst (read_clock w))
    \<and> \<not> rs_expired rs deadline (fst (read_clock (snd (read_clock w))))
    \<and> rl_last_deadline_us (rw_counters w') = deadline"
proof -
  from assms obtain deadline where dl: "relay_deadline_for_object (rs_deadline rs object) = Some deadline"
    by (auto simp: relay_publish_object_def split: option.splits)
  obtain now w1 where clk: "read_clock w = (now, w1)" by fastforce
  from assms dl clk obtain source repair where prot: "rs_protect rs object deadline = Some (source, repair)"
    by (auto simp: relay_publish_object_def split: option.splits if_splits)
  define w2 where "w2 = (if rs_secondary rs = None \<and> repair \<noteq> []
      then w1\<lparr>rw_counters := (rw_counters w1)\<lparr>rl_repair_primary_fallback := rl_repair_primary_fallback (rw_counters w1) + 1\<rparr>\<rparr> else w1)"
  have same: "rw_primary w2 = rw_primary w" "rw_secondary w2 = rw_secondary w"
    using read_clock_frame [OF clk] by (simp_all add: w2_def)
  obtain r w3 where run: "run_lanes rs source repair w2 = (r, w3)" by fastforce
  obtain now2 w4 where clk2: "read_clock w3 = (now2, w4)" by fastforce
  have unexpired: "\<not> rs_expired rs deadline now"
    using assms dl clk by (auto simp: relay_publish_object_def split: if_splits)
  have step: "relay_publish_object rs object w =
      (case r of
         Inl e \<Rightarrow> (let k = (rw_counters w4)\<lparr>rl_all_lanes_failed := rl_all_lanes_failed (rw_counters w4) + 1\<rparr>
                in (Inl e, w4\<lparr>rw_counters := if rs_expired rs deadline now2 then count_expired k else k\<rparr>))
       | Inr survived \<Rightarrow> (let k = rw_counters w4;
                    k = (if survived then k\<lparr>rl_surviving_lane := rl_surviving_lane k + 1\<rparr> else k)
                in if rs_expired rs deadline now2
                   then (Inl ExpiredWhileEmitting, w4\<lparr>rw_counters := count_expired k\<rparr>)
                   else (Inr (length source, length repair),
                     w4\<lparr>rw_counters := k\<lparr>rl_objects_sent := rl_objects_sent k + 1,
                       rl_deadline_hits := rl_deadline_hits k + 1, rl_last_deadline_us := deadline\<rparr>\<rparr>)))"
    using dl clk prot unexpired run clk2
    by (simp add: relay_publish_object_def Let_def flip: w2_def split: sum.split)
  obtain survived where r: "r = Inr survived" using assms step by (cases r) (auto simp: Let_def)
  have fin: "k = length source" "m = length repair" "rl_last_deadline_us (rw_counters w') = deadline"
    using assms unfolding step r by (auto simp: Let_def split: if_splits)
  obtain p pc pn where pl: "primary_lane rs source repair (rw_primary w2) = (p, pc, pn)" by (cases "primary_lane rs source repair (rw_primary w2)")
  obtain s sc sn where sl: "secondary_lane rs source repair (rw_secondary w2) = (s, sc, sn)" by (cases "secondary_lane rs source repair (rw_secondary w2)")
  have "resolve_relay_lane_results p (if rs_secondary rs = None then None else Some s) (rs_secondary_seed_source rs) = Inr survived"
    using run by (simp add: run_lanes_def pl sl Let_def r)
  then consider "p" | "s" "rs_secondary rs \<noteq> None" "rs_secondary_seed_source rs"
    by (auto dest!: resolve_Inr_cases split: if_splits)
  then have "(\<exists>n. carried (rs_primary rs) source (rw_primary w) n)
       \<or> (\<exists>rc n. rs_secondary rs = Some rc \<and> rs_secondary_seed_source rs \<and> carried rc source (rw_secondary w) n)"
  proof cases
    case 1
    with pl same have "carried (rs_primary rs) (source @ (if rs_secondary rs = None then repair else [])) (rw_primary w) pn"
      by (auto simp: primary_lane_def intro: send_symbols_ok)
    from carried_append_left [OF this] show ?thesis by blast
  next
    case 2
    then obtain rc where rc: "rs_secondary rs = Some rc" by blast
    with 2 sl same have "carried rc (source @ repair) (rw_secondary w) sn"
      by (auto simp: secondary_lane_def intro: send_symbols_ok)
    from carried_append_left [OF this] show ?thesis using rc 2 by blast
  qed
  moreover have "now = fst (read_clock w)" by (simp add: clk)
  moreover have "now2 = fst (read_clock (snd (read_clock w)))"
    using read_clock_cong [of w3 w1] run_lanes_clock [OF run] by (simp add: clk clk2 w2_def split: if_splits)
  moreover have "\<not> rs_expired rs deadline now2"
    using assms unfolding step r by (auto simp: Let_def split: if_splits)
  ultimately show ?thesis using dl prot fin unexpired by blast
qed

definition demo_carrier :: "bool \<Rightarrow> relay_datagram list relay_carrier" where
  "demo_carrier up = \<lparr>rc_now = (\<lambda>n. (5, n)), rc_expired = (\<lambda>d t. d \<le> t), rc_len = (\<lambda>d. Some (length (rd_bytes d))),
     rc_send = (\<lambda>d n. if up then (True, n @ [d]) else (False, n))\<rparr>"

definition demo_symbol :: "u8 \<Rightarrow> relay_datagram" where
  "demo_symbol b = \<lparr>rd_role = SourceRole, rd_deadline_us = 9, rd_bytes = [b]\<rparr>"

definition demo_session :: "(relay_datagram list, bytes) relay_session" where
  "demo_session = \<lparr>rs_primary = demo_carrier False, rs_secondary = Some (demo_carrier True),
     rs_secondary_seed_source = True, rs_protect = (\<lambda>p d. Some (map demo_symbol p, [])),
     rs_expired = (\<lambda>d t. d \<le> t), rs_deadline = (\<lambda>_. Some 9000)\<rparr>"

definition demo_relay_world :: "relay_datagram list relay_world" where
  "demo_relay_world = \<lparr>rw_clock = [5], rw_primary = [], rw_secondary = [], rw_lanes = zero_counts,
     rw_counters = \<lparr>rl_objects_sent = 0, rl_deadline_hits = 0, rl_deadline_misses = 0, rl_expired_objects = 0,
       rl_encode_errors = 0, rl_repair_primary_fallback = 0, rl_all_lanes_failed = 0, rl_surviving_lane = 0,
       rl_last_deadline_us = 0, rl_primary_ok = 0, rl_primary_failed = 0, rl_secondary_ok = 0, rl_secondary_failed = 0\<rparr>\<rparr>"

lemma published_object_carried_witness:
  "\<exists>w' deadline. relay_publish_object demo_session [1, 2] demo_relay_world = (Inr (Suc (Suc 0), 0), w')
    \<and> relay_deadline_for_object (Some 9000) = Some deadline \<and> rl_last_deadline_us (rw_counters w') = deadline"
proof -
  have dl: "relay_deadline_for_object (Some 9000) = Some 9"
    by (simp add: relay_deadline_for_object_def u64_of_i64_def div_ceil_def)
  obtain w' where ok: "relay_publish_object demo_session [1, 2] demo_relay_world = (Inr (Suc (Suc 0), 0), w')"
    by (simp add: relay_publish_object_def demo_session_def dl demo_relay_world_def read_clock_def
        run_lanes_def primary_lane_def secondary_lane_def send_symbol_def demo_carrier_def demo_symbol_def Let_def
        resolve_relay_lane_results_def)
  from published_object_carried [OF ok] ok dl show ?thesis by (auto simp: demo_session_def)
qed

text \<open>A lane is unknown only before its first outcome, impaired from a failure until a later success and
  for at least three seconds after the failure, healthy otherwise.\<close>

theorem lane_health_exact:
  "relay_lane_state_of now ok bad =
     (if ok = 0 \<and> bad = 0 then LaneUnknown
      else if bad \<noteq> 0 \<and> (unat ok \<le> unat bad \<or> unat now < unat bad + 3000) then LaneImpaired
      else LaneHealthy)"
proof -
  have hold: "sat_sub now bad < relay_lane_impaired_hold_ms \<longleftrightarrow> unat now - unat bad < 3000"
    by (simp add: word_less_nat_alt unat_sat_sub relay_lane_impaired_hold_ms_def)
  have pos: "0 < bad \<longleftrightarrow> bad \<noteq> 0" by (simp add: word_neq_0_conv)
  show ?thesis
    unfolding relay_lane_state_of_def hold pos
    by (auto simp: word_le_nat_alt)
qed

end
