(* ===== verification/Mesh_Publish.thy ===== *)
theory Mesh_Publish
  imports Fmp4_Facts Stream_Fec Relay_Lanes
begin

text \<open>
  The mesh publisher of \<^verbatim>\<open>src/src/bin/av-contrib.rs\<close>: the slot envelope, the canonical
  initialization, media and opaque objects, \<^verbatim>\<open>MeshForwarder\<close> as a publisher of parts, and the
  \<^verbatim>\<open>TelemetryFmp4Publisher\<close> in front of it that renumbers parts. Object keys, the object builder
  and the object codec of the \<^verbatim>\<open>media-object\<close> crate are fields of \<open>mesh_api\<close>. Both publishers are
  interpretations of the contract \<open>init_sink\<close> the segmenter relies on.
\<close>

section \<open>The slot envelope\<close>

definition mesh_fmp4_slot_magic :: bytes where "mesh_fmp4_slot_magic = bytes_of_str ''AVFMP4S1''"

datatype mesh_error =
  InitTooLarge | MediaTooLarge | BadIdentity | BadTimestamp | DeadlineRange | BudgetZero | BuildFailed
| EncodeObjectFailed | OpaqueEmpty | ForwardError slot_error | RelayError relay_error
| NoInitializationDependency | NoInitializationPayload

definition encode_mesh_fmp4_slot :: "bytes option \<Rightarrow> bytes \<Rightarrow> mesh_error + bytes" where
  "encode_mesh_fmp4_slot init media =
     (let init_len = (case init of None \<Rightarrow> 0 | Some b \<Rightarrow> length b)
      in if 2 ^ 32 - 1 < init_len then Inl InitTooLarge
         else if 2 ^ 32 - 1 < length media then Inl MediaTooLarge
         else Inr (mesh_fmp4_slot_magic @ be_bytes 4 init_len @ be_bytes 4 (length media)
                   @ (case init of None \<Rightarrow> [] | Some b \<Rightarrow> b) @ media))"

section \<open>Canonical objects\<close>

record clock_timestamp =
  ct_unix_ns :: int
  ct_error_ns :: u64

record object_ident =
  oi_tenant :: string
  oi_stream :: string
  oi_track :: string
  oi_epoch :: u64
  oi_group :: u64
  oi_sequence :: u64
  oi_version :: u32

datatype object_kind = KindInitialization | KindMedia

record 'k mesh_object =
  mo_key :: 'k
  mo_kind :: object_kind
  mo_payload :: bytes
  mo_keyframe :: bool
  mo_configuration_epoch :: "u64 option"
  mo_deadline :: "clock_timestamp option"
  mo_packaged :: "clock_timestamp option"
  mo_published :: "clock_timestamp option"
  mo_dependency :: "'k option"
  mo_metadata :: "(string \<times> string) list"

record 'k mesh_api =
  ma_digest :: "bytes \<Rightarrow> bytes"
  ma_new_key :: "object_ident \<Rightarrow> bytes \<Rightarrow> 'k option"
  ma_key_for_payload :: "object_ident \<Rightarrow> bytes \<Rightarrow> 'k option"
  ma_timestamp_ok :: "int \<Rightarrow> u64 \<Rightarrow> bool"
  ma_build :: "'k mesh_object \<Rightarrow> 'k mesh_object option"
  ma_encode :: "'k mesh_object \<Rightarrow> bytes option"

definition media_object_tenant :: string where "media_object_tenant = ''default''"
definition media_object_version :: u32 where "media_object_version = 1"

definition canonical_contributor_timestamp :: "'k mesh_api \<Rightarrow> int \<Rightarrow> u64 \<Rightarrow> mesh_error + clock_timestamp" where
  "canonical_contributor_timestamp api ns error_ns =
     (if ma_timestamp_ok api ns error_ns then Inr \<lparr>ct_unix_ns = ns, ct_error_ns = error_ns\<rparr> else Inl BadTimestamp)"

text \<open>128-bit sum of a 64-bit time and a 64-bit budget in milliseconds: only the result can be out of range.\<close>

definition canonical_deadline :: "'k mesh_api \<Rightarrow> int \<Rightarrow> u64 \<Rightarrow> u64 \<Rightarrow> mesh_error + clock_timestamp" where
  "canonical_deadline api published_at budget_ms error_ns =
     (let ns = published_at + uint budget_ms * 1000000
      in if fits_i64 ns then canonical_contributor_timestamp api ns error_ns else Inl DeadlineRange)"

definition build_live_fmp4_initialization_object ::
    "'k mesh_api \<Rightarrow> u64 \<Rightarrow> u64 \<Rightarrow> bytes \<Rightarrow> int \<Rightarrow> u64 \<Rightarrow> u64 \<Rightarrow> mesh_error + 'k mesh_object \<times> u64" where
  "build_live_fmp4_initialization_object api stream_id source_epoch payload published_at budget_ms error_ns =
     res_bind (canonical_deadline api published_at budget_ms error_ns) (\<lambda>deadline.
     let hash = ma_digest api payload;
         configuration_epoch = of_nat (be_value (take 8 hash)) :: u64 in
     res_bind (ok_or BadIdentity (ma_new_key api
       \<lparr>oi_tenant = media_object_tenant, oi_stream = to_string stream_id, oi_track = ''muxed-fmp4-init'',
        oi_epoch = source_epoch, oi_group = configuration_epoch, oi_sequence = 0,
        oi_version = media_object_version\<rparr> hash)) (\<lambda>key.
     res_bind (ok_or BuildFailed (ma_build api
       \<lparr>mo_key = key, mo_kind = KindInitialization, mo_payload = payload, mo_keyframe = False,
        mo_configuration_epoch = Some configuration_epoch, mo_deadline = Some deadline, mo_packaged = None,
        mo_published = None, mo_dependency = None,
        mo_metadata = [(''container'', ''fmp4''), (''payload-format'', ''fmp4-init-v1'')]\<rparr>)) (\<lambda>object.
     Inr (object, configuration_epoch))))"

definition fmp4_scheduler_class :: "published_fmp4_part \<Rightarrow> string" where
  "fmp4_scheduler_class p =
     (if 0 < fp_video_units p \<and> fp_keyframe p then ''video-keyframe''
      else if 0 < fp_audio_units p then ''audio''
      else if 0 < fp_video_units p then ''video-delta'' else ''data'')"

definition fmp4_track_composition :: "published_fmp4_part \<Rightarrow> string" where
  "fmp4_track_composition p =
     (case (0 < fp_video_units p, 0 < fp_audio_units p) of
        (True, True) \<Rightarrow> ''audio+video'' | (True, False) \<Rightarrow> ''video''
      | (False, True) \<Rightarrow> ''audio'' | (False, False) \<Rightarrow> ''empty'')"

definition optional_metadata :: "string \<Rightarrow> string option \<Rightarrow> (string \<times> string) list" where
  "optional_metadata name v = (case v of None \<Rightarrow> [] | Some x \<Rightarrow> [(name, x)])"

definition build_fmp4_media_object ::
    "'k mesh_api \<Rightarrow> published_fmp4_part \<Rightarrow> bytes \<Rightarrow> 'k \<Rightarrow> u64 \<Rightarrow> u64 \<Rightarrow> u64 \<Rightarrow> u64 \<Rightarrow> mesh_error + 'k mesh_object" where
  "build_fmp4_media_object api part payload initialization_key configuration_epoch source_epoch budget_ms error_ns =
     (if budget_ms = 0 then Inl BudgetZero
      else res_bind (ok_or BadIdentity (ma_key_for_payload api
        \<lparr>oi_tenant = media_object_tenant, oi_stream = to_string (fp_stream_id part), oi_track = ''muxed-fmp4'',
         oi_epoch = source_epoch, oi_group = 0, oi_sequence = fp_sequence part,
         oi_version = media_object_version\<rparr> payload)) (\<lambda>key.
      res_bind (canonical_contributor_timestamp api (fp_packaged_at part) error_ns) (\<lambda>packaged.
      res_bind (canonical_contributor_timestamp api (fp_published_at part) error_ns) (\<lambda>published.
      res_bind (canonical_deadline api (fp_published_at part) budget_ms error_ns) (\<lambda>deadline.
      ok_or BuildFailed (ma_build api
        \<lparr>mo_key = key, mo_kind = KindMedia, mo_payload = payload, mo_keyframe = fp_keyframe part,
         mo_configuration_epoch = Some configuration_epoch, mo_deadline = Some deadline,
         mo_packaged = Some packaged, mo_published = Some published, mo_dependency = Some initialization_key,
         mo_metadata =
           [(''container'', ''fmp4''), (''duration-ms'', to_string (fp_duration_ms part)),
            (''payload-format'', ''fmp4-slot-v1''), (''scheduler-class'', fmp4_scheduler_class part),
            (''track-composition'', fmp4_track_composition part)]
           @ optional_metadata ''video-codec'' (fp_video_codec part)
           @ optional_metadata ''video-width'' (map_option to_string (fp_video_width part))
           @ optional_metadata ''video-height'' (map_option to_string (fp_video_height part))
           @ optional_metadata ''audio-codec'' (fp_audio_codec part)\<rparr>))))))"

record opaque_part =
  op_stream_id :: u64
  op_stream_idx :: nat
  op_source_epoch :: "u64 option"
  op_sequence :: u64
  op_duration_ms :: u32
  op_packaged_at :: int
  op_published_at :: int
  op_bytes :: bytes
  op_audio_units :: u64

definition build_opaque_media_object :: "'k mesh_api \<Rightarrow> opaque_part \<Rightarrow> u64 \<Rightarrow> u64 \<Rightarrow> u64 \<Rightarrow> mesh_error + 'k mesh_object" where
  "build_opaque_media_object api part source_epoch budget_ms error_ns =
     (if budget_ms = 0 then Inl BudgetZero
      else if op_bytes part = [] \<or> op_audio_units part = 0 \<or> op_duration_ms part = 0 then Inl OpaqueEmpty
      else res_bind (ok_or BadIdentity (ma_key_for_payload api
        \<lparr>oi_tenant = media_object_tenant, oi_stream = to_string (op_stream_id part), oi_track = ''opaque-audio'',
         oi_epoch = source_epoch, oi_group = 0, oi_sequence = op_sequence part,
         oi_version = media_object_version\<rparr> (op_bytes part))) (\<lambda>key.
      res_bind (canonical_contributor_timestamp api (op_packaged_at part) error_ns) (\<lambda>packaged.
      res_bind (canonical_contributor_timestamp api (op_published_at part) error_ns) (\<lambda>published.
      res_bind (canonical_deadline api (op_published_at part) budget_ms error_ns) (\<lambda>deadline.
      ok_or BuildFailed (ma_build api
        \<lparr>mo_key = key, mo_kind = KindMedia, mo_payload = op_bytes part, mo_keyframe = False,
         mo_configuration_epoch = None, mo_deadline = Some deadline, mo_packaged = Some packaged,
         mo_published = Some published, mo_dependency = None,
         mo_metadata =
           [(''container'', ''opaque''), (''duration-ms'', to_string (op_duration_ms part)),
            (''payload-format'', ''opaque-part-v1''), (''scheduler-class'', ''audio''),
            (''track-composition'', ''audio''), (''content-type'', ''application/octet-stream''),
            (''file-extension'', ''bin'')]\<rparr>))))))"

section \<open>The forwarder\<close>

type_synonym stream_source_epoch = "u64 \<times> u64"

record ('k, 'h, 'n, 'r) mesh_config =
  mc_api :: "'k mesh_api"
  mc_fec :: "'h fec_api"
  mc_send :: "bytes \<Rightarrow> 'n \<Rightarrow> bool \<times> 'n"
  mc_source_epoch :: u64
  mc_delivery_budget_ms :: u64
  mc_clock_error_ns :: u64
  mc_relay :: "('r, 'k mesh_object) relay_session option"
  mc_relay_exclusive :: bool

record ('k, 'n, 'r) mesh_state =
  ms_lane :: byte_lane
  ms_net :: 'n
  ms_relay_world :: "'r relay_world"
  ms_initializations :: "(stream_source_epoch, 'k \<times> u64) assoc"
  ms_initialization_payloads :: "(stream_source_epoch, bytes) assoc"
  ms_source_epoch_metric :: u64

definition mesh_forward_slot ::
    "('k, 'h, 'n, 'r) mesh_config \<Rightarrow> u64 \<Rightarrow> bytes \<Rightarrow> (mesh_error, unit, ('k, 'n, 'r) mesh_state) fallible" where
  "mesh_forward_slot cfg stream_id payload s =
     (case forward_stream_slot (mc_fec cfg) (mc_send cfg) stream_id payload (ms_lane s, ms_net s) of (r, lane, n) \<Rightarrow>
        (case r of Inl e \<Rightarrow> Inl (ForwardError e) | Inr _ \<Rightarrow> Inr (), s\<lparr>ms_lane := lane, ms_net := n\<rparr>))"

definition mesh_relay_publish ::
    "('k, 'h, 'n, 'r) mesh_config \<Rightarrow> 'k mesh_object \<Rightarrow> (mesh_error, unit, ('k, 'n, 'r) mesh_state) fallible" where
  "mesh_relay_publish cfg object s =
     (case mc_relay cfg of
        None \<Rightarrow> (Inr (), s)
      | Some relay \<Rightarrow>
          (case relay_publish_object relay object (ms_relay_world s) of (r, w) \<Rightarrow>
            (case r of Inl e \<Rightarrow> Inl (RelayError e) | Inr _ \<Rightarrow> Inr (), s\<lparr>ms_relay_world := w\<rparr>)))"

text \<open>Both carriers of one encoded object: the byte lane unless the relay is exclusive, then the relay.\<close>

definition mesh_carry ::
    "('k, 'h, 'n, 'r) mesh_config \<Rightarrow> u64 \<Rightarrow> 'k mesh_object \<Rightarrow> (mesh_error, unit, ('k, 'n, 'r) mesh_state) fallible" where
  "mesh_carry cfg stream_id object =
     sbind (slift (ok_or EncodeObjectFailed (ma_encode (mc_api cfg) object))) (\<lambda>encoded.
     sbind (swhen (\<not> mc_relay_exclusive cfg) (mesh_forward_slot cfg stream_id encoded)) (\<lambda>_.
     mesh_relay_publish cfg object))"

definition resolved_source_epoch :: "u64 option \<Rightarrow> u64 \<Rightarrow> u64" where
  "resolved_source_epoch part_epoch own = max (case part_epoch of Some e \<Rightarrow> e | None \<Rightarrow> own) 1"

definition record_source_epoch :: "u64 \<Rightarrow> (mesh_error, unit, ('k, 'n, 'r) mesh_state) fallible" where
  "record_source_epoch e = supdate (\<lambda>s. s\<lparr>ms_source_epoch_metric := max (ms_source_epoch_metric s) e\<rparr>)"

definition publish_initialization ::
    "('k, 'h, 'n, 'r) mesh_config \<Rightarrow> published_fmp4_part \<Rightarrow> u64 \<Rightarrow> bytes
     \<Rightarrow> (mesh_error, 'k \<times> u64 \<times> bytes, ('k, 'n, 'r) mesh_state) fallible" where
  "publish_initialization cfg part source_epoch init =
     sbind (slift (build_live_fmp4_initialization_object (mc_api cfg) (fp_stream_id part) source_epoch init
       (fp_published_at part) (mc_delivery_budget_ms cfg) (mc_clock_error_ns cfg))) (\<lambda>(object, epoch).
     sbind (mesh_carry cfg (fp_stream_id part) object) (\<lambda>_.
     sbind (supdate (\<lambda>s. s\<lparr>ms_initializations :=
       AList.update (fp_stream_id part, source_epoch) (mo_key object, epoch) (ms_initializations s)\<rparr>)) (\<lambda>_.
     sbind (supdate (\<lambda>s. s\<lparr>ms_initialization_payloads :=
       AList.update (fp_stream_id part, source_epoch) init (ms_initialization_payloads s)\<rparr>)) (\<lambda>_.
     slift (Inr (mo_key object, epoch, init))))))"

definition recall_initialization ::
    "stream_source_epoch \<Rightarrow> (mesh_error, 'k \<times> u64 \<times> bytes, ('k, 'n, 'r) mesh_state) fallible" where
  "recall_initialization se =
     sbind (sget (\<lambda>s. map_of (ms_initializations s) se)) (\<lambda>entry.
     sbind (slift (ok_or NoInitializationDependency entry)) (\<lambda>(key, epoch).
     sbind (sget (\<lambda>s. map_of (ms_initialization_payloads s) se)) (\<lambda>payload.
     sbind (slift (ok_or NoInitializationPayload payload)) (\<lambda>init.
     slift (Inr (key, epoch, init))))))"

definition mesh_publish_fmp4_part ::
    "('k, 'h, 'n, 'r) mesh_config \<Rightarrow> published_fmp4_part \<Rightarrow> (mesh_error, unit, ('k, 'n, 'r) mesh_state) fallible" where
  "mesh_publish_fmp4_part cfg part =
     (let source_epoch = resolved_source_epoch (fp_source_epoch part) (mc_source_epoch cfg) in
      sbind (record_source_epoch source_epoch) (\<lambda>_.
      sbind (case fp_init part of
          Some init \<Rightarrow> publish_initialization cfg part source_epoch init
        | None \<Rightarrow> recall_initialization (fp_stream_id part, source_epoch)) (\<lambda>(key, epoch, slot_init).
      sbind (slift (encode_mesh_fmp4_slot (Some slot_init) (fp_bytes part))) (\<lambda>bundled.
      sbind (slift (build_fmp4_media_object (mc_api cfg) part bundled key epoch source_epoch
        (mc_delivery_budget_ms cfg) (mc_clock_error_ns cfg))) (\<lambda>object.
      mesh_carry cfg (fp_stream_id part) object)))))"

definition mesh_publish_opaque_part ::
    "('k, 'h, 'n, 'r) mesh_config \<Rightarrow> opaque_part \<Rightarrow> (mesh_error, unit, ('k, 'n, 'r) mesh_state) fallible" where
  "mesh_publish_opaque_part cfg part =
     (let source_epoch = resolved_source_epoch (op_source_epoch part) (mc_source_epoch cfg) in
      sbind (record_source_epoch source_epoch) (\<lambda>_.
      sbind (slift (build_opaque_media_object (mc_api cfg) part source_epoch
        (mc_delivery_budget_ms cfg) (mc_clock_error_ns cfg))) (\<lambda>object.
      mesh_carry cfg (op_stream_id part) object)))"

section \<open>The renumbering publisher in front\<close>

record 's telemetry_publisher =
  tp_inner :: 's
  tp_canonical_sequences :: "(u64, u64) assoc"

definition next_canonical_sequence :: "u64 \<Rightarrow> (u64, u64) assoc \<Rightarrow> u64 \<times> (u64, u64) assoc" where
  "next_canonical_sequence stream m =
     (let s = (case map_of m stream of Some n \<Rightarrow> n | None \<Rightarrow> 0) in (s, AList.update stream (sat_add s 1) m))"

definition telemetry_publish_fmp4_part ::
    "(published_fmp4_part \<Rightarrow> 's \<Rightarrow> ('e + unit) \<times> 's) \<Rightarrow> published_fmp4_part \<Rightarrow> ('e, unit, 's telemetry_publisher) fallible" where
  "telemetry_publish_fmp4_part inner part tp =
     (case next_canonical_sequence (fp_stream_id part) (tp_canonical_sequences tp) of (sequence, m) \<Rightarrow>
      case inner (part\<lparr>fp_sequence := sequence\<rparr>) (tp_inner tp) of (r, s) \<Rightarrow>
        (r, tp\<lparr>tp_inner := s, tp_canonical_sequences := m\<rparr>))"

definition telemetry_publish_opaque_part ::
    "(opaque_part \<Rightarrow> 's \<Rightarrow> ('e + unit) \<times> 's) \<Rightarrow> opaque_part \<Rightarrow> ('e, unit, 's telemetry_publisher) fallible" where
  "telemetry_publish_opaque_part inner part tp =
     (case next_canonical_sequence (op_stream_id part) (tp_canonical_sequences tp) of (sequence, m) \<Rightarrow>
      case inner (part\<lparr>op_sequence := sequence\<rparr>) (tp_inner tp) of (r, s) \<Rightarrow>
        (r, tp\<lparr>tp_inner := s, tp_canonical_sequences := m\<rparr>))"

end
