(* ===== verification/Mesh_Facts.thy ===== *)
theory Mesh_Facts
  imports Mesh_Publish
begin

text \<open>
  What the mesh publishers guarantee: a slot determines its initialization and media, the forwarder
  and the renumbering publisher keep the contract \<open>init_sink\<close>, so a segmenter over them never
  publishes media whose initialization is missing, and the sequence numbers of a stream are
  contiguous over every interleaving of parts.
\<close>

section \<open>Slots\<close>

definition decode_slot :: "bytes \<Rightarrow> (bytes \<times> bytes) option" where
  "decode_slot bs =
     (if length bs < 16 \<or> take 8 bs \<noteq> mesh_fmp4_slot_magic then None
      else let i = be_value (take 4 (drop 8 bs)); m = be_value (take 4 (drop 12 bs)); rest = drop 16 bs
        in if length rest = i + m then Some (take i rest, drop i rest) else None)"

lemma length_slot_magic [simp]: "length mesh_fmp4_slot_magic = 8"
  by (simp add: mesh_fmp4_slot_magic_def)

text \<open>The slot envelope loses nothing: reading back the two big-endian lengths recovers exactly the
  initialization bytes and the media bytes, and encoding succeeds exactly when both lengths fit
  in 32 bits.\<close>

theorem slot_roundtrip:
  "case encode_mesh_fmp4_slot init media of
     Inr slot \<Rightarrow> decode_slot slot = Some (case init of None \<Rightarrow> [] | Some b \<Rightarrow> b, media)
   | Inl e \<Rightarrow> 2 ^ 32 \<le> (case init of None \<Rightarrow> 0 | Some b \<Rightarrow> length b) \<or> 2 ^ 32 \<le> length media"
proof -
  let ?i = "case init of None \<Rightarrow> [] | Some b \<Rightarrow> b"
  have il: "(case init of None \<Rightarrow> 0 | Some b \<Rightarrow> length b) = length ?i" by (simp split: option.split)
  show ?thesis
  proof (cases "length ?i < 2 ^ 32 \<and> length media < 2 ^ 32")
    case True
    then have v: "be_value (be_bytes 4 (length ?i)) = length ?i" "be_value (be_bytes 4 (length media)) = length media"
      by (simp_all add: be_value_be_bytes)
    let ?slot = "mesh_fmp4_slot_magic @ be_bytes 4 (length ?i) @ be_bytes 4 (length media) @ ?i @ media"
    have enc: "encode_mesh_fmp4_slot init media = Inr ?slot"
      using True by (simp add: encode_mesh_fmp4_slot_def Let_def il)
    have parts: "take 8 ?slot = mesh_fmp4_slot_magic" "take 4 (drop 8 ?slot) = be_bytes 4 (length ?i)"
      "take 4 (drop 12 ?slot) = be_bytes 4 (length media)" "drop 16 ?slot = ?i @ media"
      by simp_all
    have "decode_slot ?slot = Some (?i, media)"
      unfolding decode_slot_def Let_def parts v by simp
    with enc show ?thesis by simp
  next
    case False
    then show ?thesis by (auto simp: encode_mesh_fmp4_slot_def Let_def il split: if_splits)
  qed
qed

section \<open>The forwarder keeps its initializations\<close>

definition mesh_has_init :: "('k, 'n, 'r) mesh_state \<Rightarrow> stream_source_epoch \<Rightarrow> bool" where
  "mesh_has_init s se \<longleftrightarrow> map_of (ms_initializations s) se \<noteq> None \<and> map_of (ms_initialization_payloads s) se \<noteq> None"

lemma keeps_forward [keeps_intros]: "keeps (\<lambda>s. mesh_has_init s se) (mesh_forward_slot cfg i p)"
  by (auto simp: keeps_def mesh_forward_slot_def mesh_has_init_def split: prod.split)

lemma keeps_relay [keeps_intros]: "keeps (\<lambda>s. mesh_has_init s se) (mesh_relay_publish cfg obj)"
  by (auto simp: keeps_def mesh_relay_publish_def mesh_has_init_def split: prod.split option.split)

lemma keeps_carry [keeps_intros]: "keeps (\<lambda>s. mesh_has_init s se) (mesh_carry cfg i obj)"
  unfolding mesh_carry_def by (intro keeps_intros)

lemma keeps_record_epoch [keeps_intros]: "keeps (\<lambda>s. mesh_has_init s se) (record_source_epoch e)"
  unfolding record_source_epoch_def by (rule keeps_supdate) (simp add: mesh_has_init_def)

lemma keeps_initialization [keeps_intros]:
  "keeps (\<lambda>s. mesh_has_init s se) (publish_initialization cfg part e init)"
  unfolding publish_initialization_def split_beta
  by (intro keeps_intros keeps_supdate) (simp_all add: mesh_has_init_def map_of_update)

lemma keeps_recall [keeps_intros]: "keeps (\<lambda>s. mesh_has_init s se) (recall_initialization se')"
  unfolding recall_initialization_def split_beta by (intro keeps_intros)

lemma keeps_publish: "keeps (\<lambda>s. mesh_has_init s se) (mesh_publish_fmp4_part cfg part)"
  unfolding mesh_publish_fmp4_part_def Let_def split_beta
  by (intro keeps_intros) (cases "fp_init part"; simp add: keeps_intros)

lemma initialization_stored:
  assumes "publish_initialization cfg part e init s = (Inr r, s')"
  shows "mesh_has_init s' (fp_stream_id part, e)"
  using assms
  by (auto simp: publish_initialization_def state_ok mesh_has_init_def map_of_update split_beta)

lemma published_init_stored:
  assumes "mesh_publish_fmp4_part cfg part s = (Inr u, s')" and "fp_init part \<noteq> None"
  shows "mesh_has_init s' (part_key (mc_source_epoch cfg) part)"
proof -
  let ?e = "resolved_source_epoch (fp_source_epoch part) (mc_source_epoch cfg)"
  obtain init where init: "fp_init part = Some init" using assms(2) by blast
  from assms(1) init obtain s1 r s2 where
    one: "publish_initialization cfg part ?e init s1 = (Inr r, s2)"
    and rest: "sbind (slift (encode_mesh_fmp4_slot (Some (snd (snd r))) (fp_bytes part))) (\<lambda>bundled.
      sbind (slift (build_fmp4_media_object (mc_api cfg) part bundled (fst r) (fst (snd r)) ?e
        (mc_delivery_budget_ms cfg) (mc_clock_error_ns cfg))) (\<lambda>object.
      mesh_carry cfg (fp_stream_id part) object)) s2 = (Inr u, s')"
    by (auto simp: mesh_publish_fmp4_part_def Let_def sbind_eq_Inr split_beta)
  have "mesh_has_init s2 (fp_stream_id part, ?e)" by (rule initialization_stored [OF one])
  moreover have "keeps (\<lambda>s. mesh_has_init s (fp_stream_id part, ?e))
     (sbind (slift (encode_mesh_fmp4_slot (Some (snd (snd r))) (fp_bytes part))) (\<lambda>bundled.
      sbind (slift (build_fmp4_media_object (mc_api cfg) part bundled (fst r) (fst (snd r)) ?e
        (mc_delivery_budget_ms cfg) (mc_clock_error_ns cfg))) (\<lambda>object.
      mesh_carry cfg (fp_stream_id part) object)))"
    by (intro keeps_intros)
  ultimately have "mesh_has_init s' (fp_stream_id part, ?e)" using rest by (rule keepsD [rotated -1])
  then show ?thesis by (simp add: part_key_def resolved_source_epoch_def)
qed

section \<open>The forwarder as the segmenter's publisher\<close>

text \<open>The world of a segmenter: its publisher, the wall clock readings, and the local cache.\<close>

record ('s, 'c) media_world =
  mw_publisher :: 's
  mw_clock :: "int list"
  mw_cache :: 'c

definition read_wall_clock :: "('s, 'c) media_world \<Rightarrow> int \<times> ('s, 'c) media_world" where
  "read_wall_clock w = (case mw_clock w of [] \<Rightarrow> (0, w) | t # ts \<Rightarrow> (t, w\<lparr>mw_clock := ts\<rparr>))"

definition media_env ::
    "(published_fmp4_part \<Rightarrow> 's \<Rightarrow> ('e + unit) \<times> 's) \<Rightarrow> (nat \<Rightarrow> bytes \<Rightarrow> 'c \<Rightarrow> bool \<times> 'c)
     \<Rightarrow> (u64 \<Rightarrow> boxed_fmp4 \<Rightarrow> 'c \<Rightarrow> bool \<times> 'c) \<Rightarrow> ('e, ('s, 'c) media_world) fmp4_env" where
  "media_env publish cappend cadd =
     \<lparr>fe_now = read_wall_clock,
      fe_publish = (\<lambda>p w. case publish p (mw_publisher w) of (r, s) \<Rightarrow> (r, w\<lparr>mw_publisher := s\<rparr>)),
      fe_append = (\<lambda>i b w. case cappend i b (mw_cache w) of (ok, c) \<Rightarrow> (ok, w\<lparr>mw_cache := c\<rparr>)),
      fe_playlist_add = (\<lambda>i b w. case cadd i b (mw_cache w) of (ok, c) \<Rightarrow> (ok, w\<lparr>mw_cache := c\<rparr>))\<rparr>"

lemma init_sink_media_env:
  assumes "\<And>p s s' u. publish p s = (Inr u, s') \<Longrightarrow> fp_init p \<noteq> None \<Longrightarrow> has s' (part_key fallback p)"
    and "\<And>p s r s' k. publish p s = (r, s') \<Longrightarrow> has s k \<Longrightarrow> has s' k"
  shows "init_sink (media_env publish cappend cadd) fallback (\<lambda>w k. has (mw_publisher w) k)"
  using assms
  by unfold_locales
    (auto simp: media_env_def read_wall_clock_def split: prod.splits list.splits)

interpretation mesh_sink: init_sink "media_env (mesh_publish_fmp4_part cfg) cappend cadd" "mc_source_epoch cfg"
    "\<lambda>w k. mesh_has_init (mw_publisher w) k"
  for cfg cappend cadd
proof (rule init_sink_media_env)
  show "mesh_has_init s' (part_key (mc_source_epoch cfg) p)"
    if "mesh_publish_fmp4_part cfg p s = (Inr u, s')" "fp_init p \<noteq> None" for p s s' u
    using that by (rule published_init_stored)
  show "mesh_has_init s' k" if "mesh_publish_fmp4_part cfg p s = (r, s')" "mesh_has_init s k" for p s r s' k
    using keepsD [OF keeps_publish] that by blast
qed

definition telemetry_over_mesh ::
    "('k, 'h, 'n, 'r) mesh_config \<Rightarrow> published_fmp4_part \<Rightarrow> (mesh_error, unit, ('k, 'n, 'r) mesh_state telemetry_publisher) fallible" where
  "telemetry_over_mesh cfg = telemetry_publish_fmp4_part (mesh_publish_fmp4_part cfg)"

lemma telemetry_inner:
  assumes "telemetry_over_mesh cfg p t = (r, t')"
  obtains q s' where "mesh_publish_fmp4_part cfg (p\<lparr>fp_sequence := q\<rparr>) (tp_inner t) = (r, s')" "tp_inner t' = s'"
  using assms by (auto simp: telemetry_over_mesh_def telemetry_publish_fmp4_part_def split: prod.splits)

lemma part_key_sequence [simp]: "part_key e (p\<lparr>fp_sequence := q\<rparr>) = part_key e p"
  by (simp add: part_key_def)

interpretation telemetry_sink: init_sink "media_env (telemetry_over_mesh cfg) cappend cadd" "mc_source_epoch cfg"
    "\<lambda>w k. mesh_has_init (tp_inner (mw_publisher w)) k"
  for cfg cappend cadd
proof (rule init_sink_media_env [where has = "\<lambda>t k. mesh_has_init (tp_inner t) k"])
  show "mesh_has_init (tp_inner s') (part_key (mc_source_epoch cfg) p)"
    if "telemetry_over_mesh cfg p s = (Inr u, s')" "fp_init p \<noteq> None" for p s s' u
  proof (rule telemetry_inner [OF that(1)])
    fix q t assume "mesh_publish_fmp4_part cfg (p\<lparr>fp_sequence := q\<rparr>) (tp_inner s) = (Inr u, t)" and t: "tp_inner s' = t"
    then have "mesh_has_init t (part_key (mc_source_epoch cfg) (p\<lparr>fp_sequence := q\<rparr>))"
      using that(2) by (intro published_init_stored) simp_all
    with t show ?thesis by simp
  qed
  show "mesh_has_init (tp_inner s') k" if "telemetry_over_mesh cfg p s = (r, s')" "mesh_has_init (tp_inner s) k" for p s r s' k
  proof (rule telemetry_inner [OF that(1)])
    fix q t assume "mesh_publish_fmp4_part cfg (p\<lparr>fp_sequence := q\<rparr>) (tp_inner s) = (r, t)" and t: "tp_inner s' = t"
    from keepsD [OF keeps_publish this(1) that(2)] t show ?thesis by simp
  qed
qed

end
