(* ===== verification/Mesh_Claims.thy ===== *)
theory Mesh_Claims
  imports Mesh_Facts
begin

text \<open>
  The properties that span the segmenter, the renumbering publisher and the mesh forwarder, and
  the concrete mesh their witnesses run on.
\<close>

section \<open>No media without its initialization\<close>

definition orphan_errors :: "mesh_error set" where
  "orphan_errors = {NoInitializationDependency, NoInitializationPayload}"

definition never_orphans :: "(mesh_error, 'a, 's) fallible \<Rightarrow> bool" where
  "never_orphans m \<longleftrightarrow> (\<forall>s e s'. m s = (Inl e, s') \<longrightarrow> e \<notin> orphan_errors)"

lemma never_orphansD: "never_orphans m \<Longrightarrow> m s = (Inl e, s') \<Longrightarrow> e \<notin> orphan_errors"
  unfolding never_orphans_def by blast

named_theorems orphan_intros \<open>code that does not report a missing initialization\<close>

lemma orphans_sbind [orphan_intros]: "never_orphans m \<Longrightarrow> (\<And>a. never_orphans (f a)) \<Longrightarrow> never_orphans (sbind m f)"
  by (fastforce simp: never_orphans_def sbind_def split: sum.splits prod.splits)

lemma orphans_swhen [orphan_intros]: "never_orphans m \<Longrightarrow> never_orphans (swhen b m)"
  by (simp add: never_orphans_def swhen_def slift_def)

lemma orphans_slift: "(\<And>e. r = Inl e \<Longrightarrow> e \<notin> orphan_errors) \<Longrightarrow> never_orphans (slift r)"
  by (simp add: never_orphans_def slift_def)

lemma orphans_supdate [orphan_intros]: "never_orphans (supdate f)"
  by (simp add: never_orphans_def supdate_def)

lemma orphans_forward [orphan_intros]: "never_orphans (mesh_forward_slot cfg i p)"
  by (auto simp: never_orphans_def mesh_forward_slot_def orphan_errors_def split: prod.splits sum.splits)

lemma orphans_relay [orphan_intros]: "never_orphans (mesh_relay_publish cfg obj)"
  by (auto simp: never_orphans_def mesh_relay_publish_def orphan_errors_def split: prod.splits sum.splits option.splits)

lemma orphans_ok_or [orphan_intros]: "e \<notin> orphan_errors \<Longrightarrow> never_orphans (slift (ok_or e x))"
  by (cases x) (auto intro!: orphans_slift)

lemma orphans_carry [orphan_intros]: "never_orphans (mesh_carry cfg i obj)"
  unfolding mesh_carry_def by (intro orphan_intros) (simp add: orphan_errors_def)

lemma timestamp_errors: "canonical_contributor_timestamp api ns err = Inl e \<Longrightarrow> e = BadTimestamp"
  by (auto simp: canonical_contributor_timestamp_def split: if_splits)

lemma deadline_errors: "canonical_deadline api ns b err = Inl e \<Longrightarrow> e \<in> {BadTimestamp, DeadlineRange}"
  by (auto simp: canonical_deadline_def Let_def dest: timestamp_errors split: if_splits)

lemma res_bind_eq_Inl: "res_bind r f = Inl e \<longleftrightarrow> r = Inl e \<or> (\<exists>a. r = Inr a \<and> f a = Inl e)"
  by (cases r) auto

lemma ok_or_eq_Inl: "ok_or e x = Inl e' \<longleftrightarrow> x = None \<and> e' = e"
  by (cases x) auto

lemma initialization_object_errors:
  "build_live_fmp4_initialization_object api i e p t b err = Inl x \<Longrightarrow> x \<notin> orphan_errors"
  by (auto simp: build_live_fmp4_initialization_object_def Let_def res_bind_eq_Inl ok_or_eq_Inl orphan_errors_def
      dest: deadline_errors)

lemma media_object_errors:
  "build_fmp4_media_object api part p k c e b err = Inl x \<Longrightarrow> x \<notin> orphan_errors"
  by (auto simp: build_fmp4_media_object_def res_bind_eq_Inl ok_or_eq_Inl orphan_errors_def
      dest: deadline_errors timestamp_errors split: if_splits)

lemma slot_errors: "encode_mesh_fmp4_slot i m = Inl x \<Longrightarrow> x \<notin> orphan_errors"
  by (auto simp: encode_mesh_fmp4_slot_def Let_def orphan_errors_def split: if_splits)

lemma orphans_initialization: "never_orphans (publish_initialization cfg part e init)"
  unfolding publish_initialization_def split_beta
  by (intro orphan_intros orphans_slift) (auto dest: initialization_object_errors)

lemma orphans_media:
  "never_orphans (sbind (slift (encode_mesh_fmp4_slot i m)) (\<lambda>bundled.
      sbind (slift (build_fmp4_media_object api part bundled k c e b err)) (mesh_carry cfg s)))"
  by (intro orphan_intros orphans_slift) (auto dest: slot_errors media_object_errors)

lemma recall_when_stored:
  assumes "mesh_has_init s se"
  shows "\<exists>r. recall_initialization se s = (Inr r, s)"
  using assms
  by (auto simp: recall_initialization_def mesh_has_init_def sbind_def sget_def slift_def split: prod.split)

lemma publish_not_orphaned:
  assumes "fp_init part \<noteq> None \<or> mesh_has_init s (part_key (mc_source_epoch cfg) part)"
    and "mesh_publish_fmp4_part cfg part s = (Inl e, s')"
  shows "e \<notin> orphan_errors"
proof -
  let ?e = "resolved_source_epoch (fp_source_epoch part) (mc_source_epoch cfg)"
  let ?media = "\<lambda>r. sbind (slift (encode_mesh_fmp4_slot (Some (snd (snd r))) (fp_bytes part))) (\<lambda>bundled.
      sbind (slift (build_fmp4_media_object (mc_api cfg) part bundled (fst r) (fst (snd r)) ?e
        (mc_delivery_budget_ms cfg) (mc_clock_error_ns cfg))) (mesh_carry cfg (fp_stream_id part)))"
  show ?thesis
  proof (cases "fp_init part")
    case (Some init)
    have "never_orphans (mesh_publish_fmp4_part cfg part)"
      unfolding mesh_publish_fmp4_part_def Let_def split_beta record_source_epoch_def Some option.case
      by (intro orphans_sbind orphans_supdate orphans_initialization orphans_slift orphan_intros)
        (auto dest: slot_errors media_object_errors)
    with assms(2) show ?thesis unfolding never_orphans_def by blast
  next
    case None
    let ?s1 = "s\<lparr>ms_source_epoch_metric := max (ms_source_epoch_metric s) ?e\<rparr>"
    have "mesh_has_init ?s1 (fp_stream_id part, ?e)"
      using assms(1) None by (simp add: mesh_has_init_def part_key_def resolved_source_epoch_def)
    then obtain r where "recall_initialization (fp_stream_id part, ?e) ?s1 = (Inr r, ?s1)"
      using recall_when_stored by blast
    with assms(2) None have "?media r ?s1 = (Inl e, s')"
      by (simp add: mesh_publish_fmp4_part_def Let_def split_beta record_source_epoch_def sbind_def supdate_def)
    then show ?thesis by (rule never_orphansD [OF orphans_media])
  qed
qed

text \<open>The boxer returns initialization bytes whenever it is asked to include them in a non-empty part.\<close>

definition boxes_init :: "fmp4_api \<Rightarrow> bool" where
  "boxes_init api \<longleftrightarrow> (\<forall>q c v a d cfg.
     bx_data (fm_box api q c v a d True cfg) \<noteq> [] \<longrightarrow> bx_init (fm_box api q c v a d True cfg) \<noteq> None)"

definition publishing_segmenter :: "u64 \<Rightarrow> nat \<Rightarrow> timestamp_input \<Rightarrow> u32 \<Rightarrow> u64 option \<Rightarrow> fmp4_segmenter" where
  "publishing_segmenter i idx ti ms epoch =
     (let sg = new_segmenter i idx ti ms True False in case epoch of None \<Rightarrow> sg | Some e \<Rightarrow> set_source_epoch e sg)"

lemma part_of_init: "fp_init (part_of api sg bx a b) = bx_init bx"
  by (simp add: part_of_def Let_def)

text \<open>C14: A segmenter that publishes through the renumbering publisher into the mesh forwarder never loses
  a part to a missing initialization: after any run of access units, resets and reconfigurations,
  with any publication failures on the way, the part it would publish next carries its
  initialization or the forwarder still holds one for its stream and source epoch.\<close>

theorem media_never_orphaned:
  fixes cfg :: "('k, 'h, 'n, 'r) mesh_config"
  assumes "boxes_init api"
    and "seg_run api (media_env (telemetry_over_mesh cfg) cappend cadd)
      (publishing_segmenter i idx ti ms epoch, w) ops = (sg, w')"
    and "bx_data (box_part api sg d) \<noteq> []"
    and "fst (telemetry_over_mesh cfg (part_of api sg (box_part api sg d) a b) (mw_publisher w')) = Inl e"
  shows "e \<noteq> NoInitializationDependency \<and> e \<noteq> NoInitializationPayload"
proof -
  let ?p = "part_of api sg (box_part api sg d) a b"
  have start: "sg_has_publisher (publishing_segmenter i idx ti ms epoch)"
    "sg_force_next_init (publishing_segmenter i idx ti ms epoch)"
    by (simp_all add: publishing_segmenter_def new_segmenter_def set_source_epoch_def Let_def split: option.split)
  have ready: "fp_init ?p \<noteq> None \<or> mesh_has_init (tp_inner (mw_publisher w')) (part_key (mc_source_epoch cfg) ?p)"
  proof (cases "include_init sg")
    case True
    with assms(1,3) show ?thesis unfolding part_of_init boxes_init_def by (auto simp: box_part_def)
  next
    case False
    from telemetry_sink.media_depends_on_init [OF start assms(2) False]
    show ?thesis by (simp add: telemetry_sink.part_key_of)
  qed
  obtain r t where step: "telemetry_over_mesh cfg ?p (mw_publisher w') = (r, t)" by fastforce
  with assms(4) have r: "r = Inl e" by simp
  show ?thesis
  proof (rule telemetry_inner [OF step])
    fix q s' assume "mesh_publish_fmp4_part cfg (?p\<lparr>fp_sequence := q\<rparr>) (tp_inner (mw_publisher w')) = (r, s')"
    with ready r have "e \<notin> orphan_errors" by (intro publish_not_orphaned) auto
    then show ?thesis by (simp add: orphan_errors_def)
  qed
qed

section \<open>A mesh to evaluate on\<close>

definition demo_boxer :: fmp4_api where
  "demo_boxer = \<lparr>fm_h264 = demo_h264,
     fm_streams = \<lparr>psi_h264 = 0x1B, psi_aac = 0x0F, psi_mpeg4_aac = 0x11, psi_private_data = 6, psi_audio_opus = 0x9C\<rparr>,
     fm_adts = (\<lambda>_. None), fm_flac = (\<lambda>_. None), fm_detect_audio = (\<lambda>_. TypeOpus), fm_opus_duration = (\<lambda>_. Some 960),
     fm_box = (\<lambda>q c v a d ini cfg. \<lparr>bx_init = (if ini then Some [1] else None), bx_data = 9 # concat (map au_data (v @ a)),
        bx_duration = 0, bx_key = False\<rparr>)\<rparr>"

text \<open>Identities exist for sequence number 0 only, so a second part fails.\<close>

definition demo_mesh_api :: "u64 mesh_api" where
  "demo_mesh_api = \<lparr>ma_digest = id, ma_new_key = (\<lambda>i _. Some (oi_group i)),
     ma_key_for_payload = (\<lambda>i _. if oi_sequence i = 0 then Some 0 else None),
     ma_timestamp_ok = (\<lambda>_ _. True), ma_build = Some, ma_encode = (\<lambda>obj. Some (mo_payload obj))\<rparr>"

definition demo_mesh :: "(u64, u32, bytes list, unit) mesh_config" where
  "demo_mesh = \<lparr>mc_api = demo_mesh_api, mc_fec = demo_fec, mc_send = demo_send, mc_source_epoch = 1,
     mc_delivery_budget_ms = 100, mc_clock_error_ns = 0, mc_relay = None, mc_relay_exclusive = True\<rparr>"

definition demo_part :: "u64 \<Rightarrow> published_fmp4_part" where
  "demo_part i = \<lparr>fp_stream_id = i, fp_stream_idx = 0, fp_source_epoch = None, fp_sequence = 9, fp_duration_ms = 20,
     fp_packaged_at = 0, fp_published_at = 0, fp_init = None, fp_bytes = [], fp_keyframe = False,
     fp_video_codec = None, fp_video_width = None, fp_video_height = None, fp_video_units = 0,
     fp_audio_codec = None, fp_audio_units = 1\<rparr>"

definition demo_opaque :: "u64 \<Rightarrow> opaque_part" where
  "demo_opaque i = \<lparr>op_stream_id = i, op_stream_idx = 0, op_source_epoch = None, op_sequence = 9, op_duration_ms = 20,
     op_packaged_at = 0, op_published_at = 0, op_bytes = [1], op_audio_units = 1\<rparr>"

definition demo_opus_unit :: "u64 \<Rightarrow> access_unit" where
  "demo_opus_unit t = \<lparr>au_key = False, au_pts = t, au_dts = t, au_data = [2], au_stream_type = 0x9C, au_id = 0\<rparr>"

definition demo_track :: audio_track_config where
  "demo_track = TrackOpus \<lparr>opus_input_sample_rate = 48000, opus_channel_count = 2, opus_pre_skip = 0, opus_output_gain = 0\<rparr>"

definition demo_media_world :: "((u64, bytes list, unit) mesh_state telemetry_publisher, unit) media_world" where
  "demo_media_world = \<lparr>mw_publisher = \<lparr>tp_inner = \<lparr>ms_lane = demo_lane, ms_net = [],
          ms_relay_world = \<lparr>rw_clock = [], rw_primary = (), rw_secondary = (), rw_lanes = zero_counts,
     rw_counters = \<lparr>rl_objects_sent = 0, rl_deadline_hits = 0, rl_deadline_misses = 0, rl_expired_objects = 0,
       rl_encode_errors = 0, rl_repair_primary_fallback = 0, rl_all_lanes_failed = 0, rl_surviving_lane = 0,
       rl_last_deadline_us = 0, rl_primary_ok = 0, rl_primary_failed = 0, rl_secondary_ok = 0, rl_secondary_failed = 0\<rparr>\<rparr>, ms_initializations = [],
          ms_initialization_payloads = [], ms_source_epoch_metric = 0\<rparr>, tp_canonical_sequences = []\<rparr>,
       mw_clock = [], mw_cache = ()\<rparr>"

definition demo_ops :: "seg_op list" where
  "demo_ops = [SetAudioTrack (Some demo_track), PushUnit (demo_opus_unit 0)]"

definition demo_env ::
    "(mesh_error, ((u64, bytes list, unit) mesh_state telemetry_publisher, unit) media_world) fmp4_env" where
  "demo_env = media_env (telemetry_over_mesh demo_mesh) (\<lambda>_ _ c. (True, c)) (\<lambda>_ _ c. (True, c))"

lemma demo_part_accepted:
  assumes "fp_stream_id p = 7" "fp_init p = Some [1]" "fp_bytes p = [9, 2]" "fp_source_epoch p = None" "fp_published_at p = 0"
  shows "\<exists>t. telemetry_over_mesh demo_mesh p (mw_publisher demo_media_world) = (Inr (), t) \<and> tp_canonical_sequences t = [(7, 1)]"
  using assms
  by (simp add: telemetry_over_mesh_def telemetry_publish_fmp4_part_def next_canonical_sequence_def demo_media_world_def Let_def
      mesh_publish_fmp4_part_def record_source_epoch_def publish_initialization_def build_live_fmp4_initialization_object_def
      demo_mesh_def demo_mesh_api_def mesh_carry_def mesh_relay_publish_def sbind_def slift_def supdate_def swhen_def
      canonical_deadline_def canonical_contributor_timestamp_def encode_mesh_fmp4_slot_def build_fmp4_media_object_def
      fits_i64_def i64_min_def i64_max_def sat_add_def)

lemma demo_part_refused:
  assumes "fp_stream_id p = 7" "map_of (tp_canonical_sequences t) 7 = Some 1"
  shows "\<exists>e. fst (telemetry_over_mesh demo_mesh p t) = Inl e"
proof -
  obtain r t' where out: "telemetry_over_mesh demo_mesh p t = (r, t')" by fastforce
  have "\<exists>s'. mesh_publish_fmp4_part demo_mesh (p\<lparr>fp_sequence := 1\<rparr>) (tp_inner t) = (r, s')"
    using out assms by (auto simp: telemetry_over_mesh_def telemetry_publish_fmp4_part_def next_canonical_sequence_def split: prod.splits)
  moreover have "mesh_publish_fmp4_part demo_mesh (p\<lparr>fp_sequence := 1\<rparr>) (tp_inner t) \<noteq> (Inr u, s')" for u s'
    by (auto simp: mesh_publish_fmp4_part_def Let_def state_ok split_beta build_fmp4_media_object_def demo_mesh_def demo_mesh_api_def)
  ultimately show ?thesis using out by (cases r) auto
qed


lemma demo_pending:
  "\<exists>sg. seg_run demo_boxer demo_env (publishing_segmenter 7 0 Millis 20 None, demo_media_world) demo_ops
      = flush_with_next_dts demo_boxer demo_env 0 (sg, demo_media_world)
    \<and> sg_audio_buf sg = [demo_opus_unit 0] \<and> sg_video_buf sg = [] \<and> sg_stream_id sg = 7 \<and> sg_source_epoch sg = None
    \<and> sg_has_publisher sg \<and> \<not> sg_retain_local_cache sg \<and> sg_force_next_init sg \<and> \<not> sg_seen_video sg"
  by (simp add: seg_run_def demo_ops_def set_audio_track_config_def publishing_segmenter_def new_segmenter_def
      push_access_unit_def is_h264_def is_supported_audio_def demo_boxer_def demo_opus_unit_def push_normalized_def
      timestamp_went_backwards_def normalize_timestamps_def push_audio_def apply_aac_timeline_def Let_def
      note_audio_signature_def audio_access_unit_duration_ms_def demo_track_def append_audio_def audio_target_reached_def
      ms_to_ticks_def ticks_to_ms_def ticks_per_second_def sat_add_def sat_mul_def sat_sub_def, (rule exI, rule conjI, rule refl), simp)

lemma demo_publishing_run:
  "\<exists>sg w. seg_run demo_boxer demo_env (publishing_segmenter 7 0 Millis 20 None, demo_media_world) demo_ops = (sg, w)
    \<and> \<not> include_init sg \<and> sg_stream_id sg = 7 \<and> tp_canonical_sequences (mw_publisher w) = [(7, 1)]"
proof -
  obtain sg where run: "seg_run demo_boxer demo_env (publishing_segmenter 7 0 Millis 20 None, demo_media_world) demo_ops
      = flush_with_next_dts demo_boxer demo_env 0 (sg, demo_media_world)"
    and sg: "sg_audio_buf sg = [demo_opus_unit 0]" "sg_video_buf sg = []" "sg_stream_id sg = 7" "sg_source_epoch sg = None"
      "sg_has_publisher sg" "\<not> sg_retain_local_cache sg" "sg_force_next_init sg" "\<not> sg_seen_video sg"
    using demo_pending by blast
  let ?p = "part_of demo_boxer sg (box_part demo_boxer sg 0) 0 0"
  have bx: "bx_init (box_part demo_boxer sg 0) = Some [1]" "bx_data (box_part demo_boxer sg 0) = [9, 2]"
    using sg by (simp_all add: box_part_def demo_boxer_def include_init_def demo_opus_unit_def)
  have fields: "fp_stream_id ?p = 7" "fp_init ?p = Some [1]" "fp_bytes ?p = [9, 2]" "fp_source_epoch ?p = None" "fp_published_at ?p = 0"
    using sg bx by (simp_all add: part_of_def Let_def)
  from demo_part_accepted [OF fields] obtain t where
    t: "telemetry_over_mesh demo_mesh ?p (mw_publisher demo_media_world) = (Inr (), t)" "tp_canonical_sequences t = [(7, 1)]" by blast
  have clock: "read_wall_clock demo_media_world = (0, demo_media_world)"
    by (simp add: read_wall_clock_def demo_media_world_def)
  have "publish_part demo_boxer demo_env sg (box_part demo_boxer sg 0) 0 demo_media_world
      = (True, demo_media_world\<lparr>mw_publisher := t\<rparr>)"
    using sg t clock by (simp add: publish_part_def demo_env_def media_env_def)
  with sg bx clock show ?thesis unfolding run
    by (simp add: flush_with_next_dts_def store_locally_def demo_env_def media_env_def after_publish_def Let_def
        include_init_def current_init_signature_def clear_pending_media_def t)
qed


lemma demo_boxes_init: "boxes_init demo_boxer"
  by (simp add: boxes_init_def demo_boxer_def)

lemma media_never_orphaned_witness:
  "\<exists>sg w e. seg_run demo_boxer demo_env (publishing_segmenter 7 0 Millis 20 None, demo_media_world) demo_ops = (sg, w)
    \<and> \<not> include_init sg
    \<and> fst (telemetry_over_mesh demo_mesh (part_of demo_boxer sg (box_part demo_boxer sg 0) 0 0) (mw_publisher w)) = Inl e
    \<and> e \<noteq> NoInitializationDependency \<and> e \<noteq> NoInitializationPayload"
proof -
  obtain sg w where run: "seg_run demo_boxer demo_env (publishing_segmenter 7 0 Millis 20 None, demo_media_world) demo_ops = (sg, w)"
    and sg: "\<not> include_init sg" "sg_stream_id sg = 7" and seq: "tp_canonical_sequences (mw_publisher w) = [(7, 1)]"
    using demo_publishing_run by blast
  let ?p = "part_of demo_boxer sg (box_part demo_boxer sg 0) 0 0"
  have "fp_stream_id ?p = 7" using sg by (simp add: part_of_def Let_def)
  then obtain e where e: "fst (telemetry_over_mesh demo_mesh ?p (mw_publisher w)) = Inl e"
    using demo_part_refused seq by fastforce
  have data: "bx_data (box_part demo_boxer sg 0) \<noteq> []" by (simp add: box_part_def demo_boxer_def)
  from media_never_orphaned [OF demo_boxes_init run [unfolded demo_env_def] data e] run sg e show ?thesis by blast
qed
section \<open>Canonical sequence numbers\<close>

datatype part_event = Fmp4Part published_fmp4_part | OpaquePart opaque_part

fun event_stream :: "part_event \<Rightarrow> u64" where
  "event_stream (Fmp4Part p) = fp_stream_id p"
| "event_stream (OpaquePart p) = op_stream_id p"

fun telemetry_step ::
    "(published_fmp4_part \<Rightarrow> 's \<Rightarrow> ('e + unit) \<times> 's) \<Rightarrow> (opaque_part \<Rightarrow> 's \<Rightarrow> ('e + unit) \<times> 's)
     \<Rightarrow> 's telemetry_publisher \<Rightarrow> part_event \<Rightarrow> 's telemetry_publisher" where
  "telemetry_step f g tp (Fmp4Part p) = snd (telemetry_publish_fmp4_part f p tp)"
| "telemetry_step f g tp (OpaquePart p) = snd (telemetry_publish_opaque_part g p tp)"

text \<open>The stream and the sequence number of every part handed to the inner publisher.\<close>

fun handed_sequences ::
    "(published_fmp4_part \<Rightarrow> 's \<Rightarrow> ('e + unit) \<times> 's) \<Rightarrow> (opaque_part \<Rightarrow> 's \<Rightarrow> ('e + unit) \<times> 's)
     \<Rightarrow> 's telemetry_publisher \<Rightarrow> part_event list \<Rightarrow> (u64 \<times> u64) list" where
  "handed_sequences f g tp [] = []"
| "handed_sequences f g tp (x # es) =
     (event_stream x, fst (next_canonical_sequence (event_stream x) (tp_canonical_sequences tp)))
     # handed_sequences f g (telemetry_step f g tp x) es"

definition next_number :: "(u64, u64) assoc \<Rightarrow> u64 \<Rightarrow> nat" where
  "next_number m stream = (case map_of m stream of Some n \<Rightarrow> unat n | None \<Rightarrow> 0)"

lemma telemetry_step_sequences:
  "tp_canonical_sequences (telemetry_step f g tp x)
     = snd (next_canonical_sequence (event_stream x) (tp_canonical_sequences tp))"
  by (cases x) (simp_all add: telemetry_publish_fmp4_part_def telemetry_publish_opaque_part_def split: prod.split)

lemma next_canonical_number:
  assumes "next_number m stream < 2 ^ 64 - 1"
  shows "unat (fst (next_canonical_sequence stream m)) = next_number m stream"
    and "next_number (snd (next_canonical_sequence stream m)) t = next_number m t + (if t = stream then 1 else 0)"
proof -
  have one: "unat (sat_add n 1) = unat n + 1" if "unat n < 2 ^ 64 - 1" for n :: u64
    using that by (simp add: unat_sat_add)
  show "unat (fst (next_canonical_sequence stream m)) = next_number m stream"
    by (simp add: next_canonical_sequence_def next_number_def Let_def split: option.split)
  show "next_number (snd (next_canonical_sequence stream m)) t = next_number m t + (if t = stream then 1 else 0)"
    using assms one
    by (auto simp: next_canonical_sequence_def next_number_def Let_def map_of_update split: option.splits)
qed

lemma handed_contiguous:
  "next_number (tp_canonical_sequences tp) stream + length es < 2 ^ 64 \<Longrightarrow>
   (\<forall>t. next_number (tp_canonical_sequences tp) t + length es < 2 ^ 64) \<Longrightarrow>
   map (unat \<circ> snd) (filter (\<lambda>h. fst h = stream) (handed_sequences f g tp es))
     = [next_number (tp_canonical_sequences tp) stream ..<
        next_number (tp_canonical_sequences tp) stream + length (filter (\<lambda>x. event_stream x = stream) es)]"
proof (induction es arbitrary: tp)
  case Nil
  then show ?case by simp
next
  case (Cons x es)
  let ?m = "tp_canonical_sequences tp"
  have "next_number ?m (event_stream x) < 2 ^ 64 - 1"
    using Cons.prems(2) [rule_format, of "event_stream x"] by simp
  note num = next_canonical_number [OF this]
  let ?tp = "telemetry_step f g tp x"
  have nx: "next_number (tp_canonical_sequences ?tp) t = next_number ?m t + (if t = event_stream x then 1 else 0)" for t
    by (simp add: telemetry_step_sequences num(2))
  have "next_number (tp_canonical_sequences ?tp) t + length es < 2 ^ 64" for t
    using Cons.prems(2) [rule_format, of t] unfolding nx by (cases "t = event_stream x") simp_all
  with Cons.IH [of ?tp] have
    "map (unat \<circ> snd) (filter (\<lambda>h. fst h = stream) (handed_sequences f g ?tp es))
      = [next_number (tp_canonical_sequences ?tp) stream ..<
         next_number (tp_canonical_sequences ?tp) stream + length (filter (\<lambda>x. event_stream x = stream) es)]" by blast
  then show ?case
    using num(1) by (cases "event_stream x = stream") (simp_all add: nx upt_conv_Cons comp_def del: upt_Suc)
qed

text \<open>The sequence numbers the shared publisher hands on for one stream are 0, 1, 2, ... without gap or
  repetition, however fMP4 and opaque parts of all streams interleave and whichever publications
  fail, for up to 2^64 parts.\<close>

theorem canonical_sequences_contiguous:
  assumes "length es < 2 ^ 64"
  shows "map (unat \<circ> snd) (filter (\<lambda>h. fst h = stream) (handed_sequences f g \<lparr>tp_inner = s, tp_canonical_sequences = []\<rparr> es))
    = [0 ..< length (filter (\<lambda>x. event_stream x = stream) es)]"
proof -
  have zero: "next_number [] t = 0" for t
    by (simp add: next_number_def)
  show ?thesis
    using handed_contiguous [of "\<lparr>tp_inner = s, tp_canonical_sequences = []\<rparr>" stream es f g] assms
    by (simp add: zero)
qed

lemma canonical_sequences_contiguous_witness:
  "map (unat \<circ> snd) (filter (\<lambda>h. fst h = 7)
     (handed_sequences (\<lambda>_ s. (Inl (), s)) (\<lambda>_ s. (Inr (), s)) \<lparr>tp_inner = (), tp_canonical_sequences = []\<rparr>
       [Fmp4Part (demo_part 7), OpaquePart (demo_opaque 7), Fmp4Part (demo_part 8), Fmp4Part (demo_part 7)])) = [0, 1, 2]"
  by (subst canonical_sequences_contiguous) (simp_all add: demo_part_def demo_opaque_def upt_conv_Cons)

end
