(* ===== verification/Audio_Epoch.thy ===== *)
theory Audio_Epoch
  imports Mesh_Publish
begin

text \<open>
  Publication of recovered audio groups of \<^verbatim>\<open>src/src/audio_epoch_hls.rs\<close>: the configuration, the
  opaque part segmenter, and \<^verbatim>\<open>package_group\<close> with its two packagers. The SoundKit header codec and
  the Opus packet parser are fields of \<open>header_api\<close>; the clock and the publisher act on an abstract
  world.
\<close>

section \<open>Groups and configuration\<close>

datatype audio_payload_kind = KindFlac | KindOpus | KindPcm
datatype audio_sample_format = S16Le | S24Le | S32Le | F32Le | Unspecified
datatype hls_packaging = PackOpaque | PackFmp4

record audio_group =
  ag_session_id :: u64
  ag_group_id :: u16
  ag_epoch_id :: u64
  ag_config_generation :: u32
  ag_payload_kind :: audio_payload_kind
  ag_sample_format :: audio_sample_format
  ag_sample_rate :: u32
  ag_channel_count :: u16
  ag_frame_count :: u32
  ag_pts_samples :: u64
  ag_flags :: u8
  ag_payload :: bytes
  ag_recovered_fragments :: u32

record soundkit_header =
  sk_opus :: bool
  sk_encrypted :: bool
  sk_sample_rate :: u32
  sk_channels :: u8
  sk_frame_count :: u32
  sk_payload_size :: u64
  sk_has_crc :: bool

record header_api =
  ha_header_size :: "bytes \<Rightarrow> nat option"
  ha_decode :: "bytes \<Rightarrow> soundkit_header option"
  ha_verify_crc :: "soundkit_header \<Rightarrow> bytes \<Rightarrow> bytes \<Rightarrow> bool option"
  ha_opus_duration :: "bytes \<Rightarrow> u32 option"

record hls_config =
  hc_base_stream_id :: u64
  hc_min_part_ms :: u32
  hc_packaging :: hls_packaging
  hc_formats :: "audio_payload_kind list"

fun unique_formats :: "audio_payload_kind list \<Rightarrow> audio_payload_kind list \<Rightarrow> audio_payload_kind list" where
  "unique_formats unique [] = unique"
| "unique_formats unique (f # fs) = unique_formats (if f \<in> set unique then unique else unique @ [f]) fs"

definition new_hls_config :: "u64 \<Rightarrow> u32 \<Rightarrow> hls_packaging \<Rightarrow> audio_payload_kind list \<Rightarrow> hls_config" where
  "new_hls_config base min_part_ms packaging formats =
     \<lparr>hc_base_stream_id = base, hc_min_part_ms = max min_part_ms 1, hc_packaging = packaging,
      hc_formats = unique_formats [] formats\<rparr>"

definition audio_group_flag_discontinuity :: u8 where "audio_group_flag_discontinuity = 1"
definition audio_group_flag_erasure :: u8 where "audio_group_flag_erasure = 2"
definition opus_rendition_stream_offset :: u64 where "opus_rendition_stream_offset = 1000"
definition pcm_rendition_stream_offset :: u64 where "pcm_rendition_stream_offset = 2000"

datatype 'e package_error =
  AudioErasure | InvalidTiming | StreamIdOverflow | PtsOverflow | DurationTooLong | WrongPackager
| PublishFailed 'e | OpusChannels | PcmSampleFormat | PcmSizeOverflow | PcmSizeMismatch | ZeroSampleRate
| HeaderTruncated | HeaderInvalid | HeaderNotOpus | HeaderEncrypted | HeaderMismatch
| PacketOverflow | NotOnePacket | ChecksumUnverifiable | ChecksumMismatch | NotOpusPacket | OpusDuration

definition rendition_stream_id :: "u64 \<Rightarrow> u16 \<Rightarrow> audio_payload_kind \<Rightarrow> 'e package_error + u64" where
  "rendition_stream_id base group_id kind =
     (let offset = (case kind of KindFlac \<Rightarrow> 0 | KindOpus \<Rightarrow> opus_rendition_stream_offset
                    | KindPcm \<Rightarrow> pcm_rendition_stream_offset)
      in case checked_add base offset of
           None \<Rightarrow> Inl StreamIdOverflow
         | Some stream_id \<Rightarrow> ok_or StreamIdOverflow (checked_add stream_id (ucast group_id)))"

definition samples_to_millis :: "u64 \<Rightarrow> u32 \<Rightarrow> 'e package_error + u64" where
  "samples_to_millis samples sample_rate =
     (if sample_rate = 0 then Inl ZeroSampleRate
      else Inr (sat_add (sat_mul samples 1000) (ucast sample_rate div 2) div ucast sample_rate))"

section \<open>Elementary payloads\<close>

definition audio_track_config_of :: "audio_group \<Rightarrow> 'e package_error + audio_track_config option" where
  "audio_track_config_of g =
     (case ag_payload_kind g of
        KindFlac \<Rightarrow> Inr None
      | KindOpus \<Rightarrow>
          if ag_channel_count g = 1 \<or> ag_channel_count g = 2
          then Inr (Some (TrackOpus \<lparr>opus_input_sample_rate = ag_sample_rate g,
                 opus_channel_count = ag_channel_count g, opus_pre_skip = 0, opus_output_gain = 0\<rparr>))
          else Inl OpusChannels
      | KindPcm \<Rightarrow>
          (case (case ag_sample_format g of
               S16Le \<Rightarrow> Some (16, PcmInteger) | S24Le \<Rightarrow> Some (24, PcmInteger)
             | S32Le \<Rightarrow> Some (32, PcmInteger) | F32Le \<Rightarrow> Some (32, PcmFloat)
             | Unspecified \<Rightarrow> None) of
             None \<Rightarrow> Inl PcmSampleFormat
           | Some (bits, kind) \<Rightarrow>
               Inr (Some (TrackPcm \<lparr>pcm_sample_rate = ag_sample_rate g, pcm_channel_count = ag_channel_count g,
                 pcm_sample_size = bits, pcm_little_endian = True, pcm_sample_kind = kind\<rparr>))))"

text \<open>The last branch is the \<^verbatim>\<open>unreachable!\<close> of the code: the caller has a PCM group.\<close>

definition validate_pcm_group :: "audio_group \<Rightarrow> 'e package_error + unit" where
  "validate_pcm_group g =
     res_bind (audio_track_config_of g) (\<lambda>cfg.
       case cfg of
         Some (TrackPcm pcm) \<Rightarrow>
           (let samples = unat (ag_frame_count g) * unat (ag_channel_count g);
                expected = samples * unat (pcm_sample_size pcm div 8)
            in if 2 ^ 64 \<le> samples \<or> 2 ^ 64 \<le> expected then Inl PcmSizeOverflow
               else guard_err (length (ag_payload g) \<noteq> expected) PcmSizeMismatch)
       | _ \<Rightarrow> Inl PcmSampleFormat)"

text \<open>The packet behind a SoundKit header of the given size.\<close>

definition framed_opus_packet :: "header_api \<Rightarrow> audio_group \<Rightarrow> nat \<Rightarrow> 'e package_error + bytes" where
  "framed_opus_packet api g header_size =
     (let payload = ag_payload g; header_bytes = take header_size payload in
      if length payload < header_size then Inl HeaderTruncated
      else case ha_decode api header_bytes of
        None \<Rightarrow> Inl HeaderInvalid
      | Some h \<Rightarrow>
          if \<not> sk_opus h then Inl HeaderNotOpus
          else if sk_encrypted h then Inl HeaderEncrypted
          else if sk_sample_rate h \<noteq> ag_sample_rate g \<or> ucast (sk_channels h) \<noteq> ag_channel_count g
             \<or> sk_frame_count h \<noteq> ag_frame_count g then Inl HeaderMismatch
          else let packet_end = header_size + unat (sk_payload_size h) in
            if 2 ^ 64 \<le> packet_end then Inl PacketOverflow
            else if packet_end \<noteq> length payload then Inl NotOnePacket
            else let packet = drop header_size payload in
              if sk_has_crc h then
                (case ha_verify_crc api h header_bytes packet of
                   None \<Rightarrow> Inl ChecksumUnverifiable
                 | Some ok \<Rightarrow> if ok then Inr packet else Inl ChecksumMismatch)
              else Inr packet)"

definition raw_opus_packet :: "header_api \<Rightarrow> audio_group \<Rightarrow> 'e package_error + bytes" where
  "raw_opus_packet api g =
     res_bind (case ha_header_size api (ag_payload g) of
         Some header_size \<Rightarrow> framed_opus_packet api g header_size
       | None \<Rightarrow> Inr (ag_payload g)) (\<lambda>packet.
     res_bind (ok_or NotOpusPacket (ha_opus_duration api packet)) (\<lambda>duration.
       if sat_mul (ucast (ag_frame_count g)) (48000 :: u64) \<noteq> sat_mul (ucast duration) (ucast (ag_sample_rate g))
       then Inl OpusDuration else Inr packet))"

section \<open>The opaque part segmenter\<close>

record ('e, 'w) hls_env =
  he_fmp4 :: "('e, 'w) fmp4_env"
  he_publish_opaque :: "opaque_part \<Rightarrow> 'w \<Rightarrow> ('e + unit) \<times> 'w"

record opaque_segmenter =
  os_stream_id :: u64
  os_stream_idx :: nat
  os_source_epoch :: u64
  os_min_part_ms :: u32
  os_bytes :: bytes
  os_duration_ms :: u32
  os_audio_units :: u64
  os_published_parts :: u64

definition new_opaque_segmenter :: "u64 \<Rightarrow> nat \<Rightarrow> u64 \<Rightarrow> u32 \<Rightarrow> opaque_segmenter" where
  "new_opaque_segmenter stream_id stream_idx source_epoch min_part_ms =
     \<lparr>os_stream_id = stream_id, os_stream_idx = stream_idx, os_source_epoch = max source_epoch 1,
      os_min_part_ms = max min_part_ms 1, os_bytes = [], os_duration_ms = 0, os_audio_units = 0,
      os_published_parts = 0\<rparr>"

definition reset_opaque :: "opaque_segmenter \<Rightarrow> opaque_segmenter" where
  "reset_opaque os = os\<lparr>os_bytes := [], os_duration_ms := 0, os_audio_units := 0\<rparr>"

definition opaque_part_of :: "opaque_segmenter \<Rightarrow> int \<Rightarrow> int \<Rightarrow> opaque_part" where
  "opaque_part_of os packaged_at published_at =
     \<lparr>op_stream_id = os_stream_id os, op_stream_idx = os_stream_idx os,
      op_source_epoch = Some (os_source_epoch os), op_sequence = os_published_parts os,
      op_duration_ms = max (os_duration_ms os) 1, op_packaged_at = packaged_at,
      op_published_at = published_at, op_bytes = os_bytes os, op_audio_units = os_audio_units os\<rparr>"

definition flush_opaque ::
    "('e, 'w) hls_env \<Rightarrow> opaque_segmenter \<Rightarrow> 'w \<Rightarrow> ('e package_error + unit) \<times> opaque_segmenter \<times> 'w" where
  "flush_opaque env os w =
     (if os_bytes os = [] then (Inr (), os, w)
      else case fe_now (he_fmp4 env) w of (packaged_at, w) \<Rightarrow>
           case fe_now (he_fmp4 env) w of (published_at, w) \<Rightarrow>
           case he_publish_opaque env (opaque_part_of os packaged_at published_at) w of (r, w) \<Rightarrow>
             (map_err PublishFailed r,
              (reset_opaque os)\<lparr>os_published_parts := sat_add (os_published_parts os) 1\<rparr>, w))"

definition push_opaque ::
    "('e, 'w) hls_env \<Rightarrow> bytes \<Rightarrow> u32 \<Rightarrow> opaque_segmenter \<Rightarrow> 'w \<Rightarrow> ('e package_error + unit) \<times> opaque_segmenter \<times> 'w" where
  "push_opaque env packet duration_ms os w =
     (let os = os\<lparr>os_bytes := os_bytes os @ packet,
                  os_duration_ms := sat_add (os_duration_ms os) duration_ms,
                  os_audio_units := sat_add (os_audio_units os) 1\<rparr>
      in if os_min_part_ms os \<le> os_duration_ms os then flush_opaque env os w else (Inr (), os, w))"

section \<open>Renditions\<close>

record rendition_format =
  rf_config_generation :: u32
  rf_sample_rate :: u32
  rf_channel_count :: u16
  rf_payload_kind :: audio_payload_kind
  rf_sample_format :: audio_sample_format

definition format_of_group :: "audio_group \<Rightarrow> rendition_format" where
  "format_of_group g = \<lparr>rf_config_generation = ag_config_generation g, rf_sample_rate = ag_sample_rate g,
     rf_channel_count = ag_channel_count g, rf_payload_kind = ag_payload_kind g,
     rf_sample_format = ag_sample_format g\<rparr>"

datatype rendition_packager = OpaquePackager opaque_segmenter | Fmp4Packager fmp4_segmenter

record rendition_state =
  rn_format :: rendition_format
  rn_expected_pts :: "u64 option"
  rn_packager :: rendition_packager

type_synonym rendition_key = "u64 \<times> u16 \<times> audio_payload_kind"

definition rendition_key_of :: "audio_group \<Rightarrow> rendition_key" where
  "rendition_key_of g = (ag_session_id g, ag_group_id g, ag_payload_kind g)"

definition new_rendition_packager :: "hls_config \<Rightarrow> u64 \<Rightarrow> nat \<Rightarrow> u64 \<Rightarrow> rendition_packager" where
  "new_rendition_packager cfg stream_id stream_idx session_id =
     (let source_epoch = max (session_id div 1000) 1 in
      case hc_packaging cfg of
        PackOpaque \<Rightarrow> OpaquePackager (new_opaque_segmenter stream_id stream_idx source_epoch (hc_min_part_ms cfg))
      | PackFmp4 \<Rightarrow> Fmp4Packager (set_source_epoch source_epoch
          (new_segmenter stream_id stream_idx MillisAbsolute
            (max (hc_min_part_ms cfg) (min default_min_part_ms (hc_min_part_ms cfg))) True False)))"

definition finish_packager ::
    "fmp4_api \<Rightarrow> ('e, 'w) hls_env \<Rightarrow> rendition_packager \<Rightarrow> 'w \<Rightarrow> ('e package_error + unit) \<times> rendition_packager \<times> 'w" where
  "finish_packager api env p w =
     (case p of
        OpaquePackager os \<Rightarrow> (case flush_opaque env os w of (r, os, w) \<Rightarrow> (r, OpaquePackager os, w))
      | Fmp4Packager sg \<Rightarrow> (case finish_segmenter api (he_fmp4 env) (sg, w) of (sg, w) \<Rightarrow> (Inr (), Fmp4Packager sg, w)))"

fun reset_packager :: "rendition_packager \<Rightarrow> rendition_packager" where
  "reset_packager (OpaquePackager os) = OpaquePackager (reset_opaque os)"
| "reset_packager (Fmp4Packager sg) = Fmp4Packager (reset_segmenter sg)"

section \<open>Packaging a group\<close>

type_synonym ('e, 'w) packaging = "('e package_error, unit, rendition_state \<times> 'w) fallible"

definition new_rendition :: "hls_config \<Rightarrow> audio_group \<Rightarrow> 'e package_error + rendition_state" where
  "new_rendition cfg g =
     res_bind (rendition_stream_id (hc_base_stream_id cfg) (ag_group_id g) (ag_payload_kind g)) (\<lambda>stream_id.
       Inr \<lparr>rn_format = format_of_group g, rn_expected_pts = None,
            rn_packager = new_rendition_packager cfg stream_id (unat stream_id) (ag_session_id g)\<rparr>)"

definition starts_continuity :: "rendition_state \<Rightarrow> audio_group \<Rightarrow> bool" where
  "starts_continuity st g \<longleftrightarrow> rn_format st \<noteq> format_of_group g
     \<or> (case rn_expected_pts st of None \<Rightarrow> False | Some expected \<Rightarrow> expected \<noteq> ag_pts_samples g)
     \<or> ag_flags g AND audio_group_flag_discontinuity \<noteq> 0"

text \<open>Closing the continuity segment: finish, then reset; a failed finish returns before the reset.\<close>

definition close_continuity :: "fmp4_api \<Rightarrow> ('e, 'w) hls_env \<Rightarrow> audio_group \<Rightarrow> ('e, 'w) packaging" where
  "close_continuity api env g =
     (\<lambda>(st, w). if \<not> starts_continuity st g then (Inr (), st, w)
        else case finish_packager api env (rn_packager st) w of (r, p, w) \<Rightarrow>
          (case r of
             Inl e \<Rightarrow> (Inl e, st\<lparr>rn_packager := p\<rparr>, w)
           | Inr _ \<Rightarrow> (Inr (), st\<lparr>rn_packager := reset_packager p, rn_format := format_of_group g\<rparr>, w)))"

definition expect_next :: "audio_group \<Rightarrow> ('e, 'w) packaging" where
  "expect_next g =
     sbind (slift (ok_or PtsOverflow (checked_add (ag_pts_samples g) (ucast (ag_frame_count g))))) (\<lambda>next.
       supdate (\<lambda>(st, w). (st\<lparr>rn_expected_pts := Some next\<rparr>, w)))"

definition push_to_opaque :: "('e, 'w) hls_env \<Rightarrow> bytes \<Rightarrow> u32 \<Rightarrow> ('e, 'w) packaging" where
  "push_to_opaque env payload duration_ms =
     (\<lambda>(st, w). case rn_packager st of
         OpaquePackager os \<Rightarrow>
           (case push_opaque env payload duration_ms os w of (r, os, w) \<Rightarrow> (r, st\<lparr>rn_packager := OpaquePackager os\<rparr>, w))
       | Fmp4Packager _ \<Rightarrow> (Inl WrongPackager, st, w))"

definition elementary_payload :: "header_api \<Rightarrow> fmp4_api \<Rightarrow> audio_group \<Rightarrow> 'e package_error + bytes \<times> u8" where
  "elementary_payload hapi api g =
     (case ag_payload_kind g of
        KindFlac \<Rightarrow> Inr (ag_payload g, psi_private_data (fm_streams api))
      | KindPcm \<Rightarrow> res_bind (validate_pcm_group g) (\<lambda>_. Inr (ag_payload g, psi_private_data (fm_streams api)))
      | KindOpus \<Rightarrow> res_bind (raw_opus_packet hapi g) (\<lambda>packet. Inr (packet, psi_audio_opus (fm_streams api))))"

definition package_group_as_fmp4 :: "header_api \<Rightarrow> fmp4_api \<Rightarrow> ('e, 'w) hls_env \<Rightarrow> audio_group \<Rightarrow> ('e, 'w) packaging" where
  "package_group_as_fmp4 hapi api env g =
     sbind (slift (audio_track_config_of g)) (\<lambda>cfg.
     sbind (slift (elementary_payload hapi api g)) (\<lambda>(audio, stream_type).
     sbind (slift (samples_to_millis (ag_pts_samples g) (ag_sample_rate g))) (\<lambda>pts_ms.
     (\<lambda>(st, w). case rn_packager st of
         OpaquePackager _ \<Rightarrow> (Inl WrongPackager, st, w)
       | Fmp4Packager sg \<Rightarrow>
           (case push_access_unit api (he_fmp4 env)
              \<lparr>au_key = True, au_pts = pts_ms, au_dts = pts_ms, au_data = audio, au_stream_type = stream_type,
               au_id = ag_epoch_id g\<rparr> (set_audio_track_config cfg sg, w) of
              (sg, w) \<Rightarrow> (Inr (), st\<lparr>rn_packager := Fmp4Packager sg\<rparr>, w))))))"

definition package_in :: "header_api \<Rightarrow> fmp4_api \<Rightarrow> ('e, 'w) hls_env \<Rightarrow> hls_config \<Rightarrow> audio_group \<Rightarrow> ('e, 'w) packaging" where
  "package_in hapi api env cfg g =
     sbind (close_continuity api env g) (\<lambda>_.
     sbind (expect_next g) (\<lambda>_.
     sbind (slift (samples_to_millis (ucast (ag_frame_count g)) (ag_sample_rate g))) (\<lambda>millis.
     sbind (slift (ok_or DurationTooLong (try_cast millis :: u32 option))) (\<lambda>duration_ms.
     case hc_packaging cfg of
       PackOpaque \<Rightarrow> push_to_opaque env (ag_payload g) (max duration_ms 1)
     | PackFmp4 \<Rightarrow> package_group_as_fmp4 hapi api env g))))"

definition package_group ::
    "header_api \<Rightarrow> fmp4_api \<Rightarrow> ('e, 'w) hls_env \<Rightarrow> hls_config \<Rightarrow> audio_group
     \<Rightarrow> ('e package_error, unit, (rendition_key, rendition_state) assoc \<times> 'w) fallible" where
  "package_group hapi api env cfg g =
     (\<lambda>(rs, w).
      if ag_flags g AND audio_group_flag_erasure \<noteq> 0 \<or> ag_payload g = [] then (Inl AudioErasure, rs, w)
      else if ag_sample_rate g = 0 \<or> ag_frame_count g = 0 \<or> ag_channel_count g = 0 then (Inl InvalidTiming, rs, w)
      else case (case map_of rs (rendition_key_of g) of Some st \<Rightarrow> Inr st | None \<Rightarrow> new_rendition cfg g) of
          Inl e \<Rightarrow> (Inl e, rs, w)
        | Inr st \<Rightarrow> (case package_in hapi api env cfg g (st, w) of
            (r, st, w) \<Rightarrow> (r, AList.update (rendition_key_of g) st rs, w)))"

section \<open>The worker of one rendition\<close>

fun package_run ::
    "header_api \<Rightarrow> fmp4_api \<Rightarrow> ('e, 'w) hls_env \<Rightarrow> hls_config \<Rightarrow> audio_group list
     \<Rightarrow> (rendition_key, rendition_state) assoc \<times> 'w
     \<Rightarrow> ('e package_error + unit) list \<times> (rendition_key, rendition_state) assoc \<times> 'w" where
  "package_run hapi api env cfg [] s = ([], s)"
| "package_run hapi api env cfg (g # gs) s =
     (case package_group hapi api env cfg g s of (r, s) \<Rightarrow>
      case package_run hapi api env cfg gs s of (rs, s) \<Rightarrow> (r # rs, s))"

fun finish_all ::
    "fmp4_api \<Rightarrow> ('e, 'w) hls_env \<Rightarrow> (rendition_key, rendition_state) assoc \<Rightarrow> 'w
     \<Rightarrow> ('e package_error + unit) list \<times> 'w" where
  "finish_all api env [] w = ([], w)"
| "finish_all api env ((k, st) # m) w =
     (case finish_packager api env (rn_packager st) w of (r, _, w) \<Rightarrow>
      case finish_all api env m w of (rs, w) \<Rightarrow> (r # rs, w))"

text \<open>The outcomes of every group and of the final flushes; each failure is one worker error.\<close>

definition run_rendition_worker ::
    "header_api \<Rightarrow> fmp4_api \<Rightarrow> ('e, 'w) hls_env \<Rightarrow> hls_config \<Rightarrow> audio_group list \<Rightarrow> 'w
     \<Rightarrow> ('e package_error + unit) list \<times> ('e package_error + unit) list \<times> 'w" where
  "run_rendition_worker hapi api env cfg gs w =
     (case package_run hapi api env cfg gs ([], w) of (rs, m, w) \<Rightarrow>
      case finish_all api env m w of (fs, w) \<Rightarrow> (rs, fs, w))"

end
