(* ===== verification/Audio_Epoch_Facts.thy ===== *)
theory Audio_Epoch_Facts
  imports Audio_Epoch Mesh_Claims
begin

text \<open>
  Properties of audio publication: the exact stream identifiers, times and Opus packets; that opaque
  publication neither loses, repeats nor reorders bytes; and that the audio configuration of an fMP4
  rendition only changes between continuity segments.
\<close>

section \<open>Identifiers and times\<close>

definition kind_offset :: "audio_payload_kind \<Rightarrow> nat" where
  "kind_offset k = (case k of KindFlac \<Rightarrow> 0 | KindOpus \<Rightarrow> 1000 | KindPcm \<Rightarrow> 2000)"

lemma rendition_stream_id_exact:
  "(rendition_stream_id base gid k :: 'e package_error + u64) = Inr i \<longleftrightarrow> unat i = unat base + kind_offset k + unat gid"
proof -
  have u: "unat (ucast gid :: u64) = unat gid" by (rule unat_ucast_widen) simp
  have i: "unat i < 2 ^ 64" using unat_lt2p [of i] by simp
  have off: "unat (case k of KindFlac \<Rightarrow> 0 | KindOpus \<Rightarrow> opus_rendition_stream_offset
       | KindPcm \<Rightarrow> pcm_rendition_stream_offset) = kind_offset k"
    by (cases k) (simp_all add: kind_offset_def opus_rendition_stream_offset_def pcm_rendition_stream_offset_def)
  show ?thesis
    unfolding rendition_stream_id_def Let_def
    using i by (auto simp: checked_add_def ok_or_def off u unat_word_ariths word_unat_eq_iff split: option.splits if_splits)
qed

text \<open>Renditions of one contributor never share a stream: two groups get the same identifier only when
  they are the same group in the same format, for group numbers below 1000.\<close>

theorem rendition_streams_disjoint:
  assumes "(rendition_stream_id base gid k :: 'e package_error + u64) = Inr i"
    and "(rendition_stream_id base gid' k' :: 'e package_error + u64) = Inr i"
    and "gid < 1000" and "gid' < 1000"
  shows "gid = gid' \<and> k = k'"
proof -
  have "kind_offset k + unat gid = kind_offset k' + unat gid'"
    using assms(1,2) unfolding rendition_stream_id_exact by simp
  moreover have "unat gid < 1000" "unat gid' < 1000" using assms(3,4) by (simp_all add: word_less_nat_alt)
  ultimately show ?thesis
    by (cases k; cases k') (auto simp: kind_offset_def word_unat_eq_iff)
qed

lemma rendition_streams_disjoint_witness:
  "\<exists>i :: u64. (rendition_stream_id 7 5 KindOpus :: unit package_error + u64) = Inr i \<and> unat i = 1012 \<and> (5 :: u16) = 5 \<and> KindOpus = KindOpus"
proof -
  have r: "(rendition_stream_id 7 5 KindOpus :: unit package_error + u64) = Inr 1012"
    unfolding rendition_stream_id_exact by (simp add: kind_offset_def)
  from rendition_streams_disjoint [OF r r] show ?thesis using r by simp
qed

text \<open>Above 1000 the ranges of the formats overlap.\<close>

lemma rendition_streams_collide:
  "(rendition_stream_id 1 1000 KindFlac :: 'e package_error + u64) = rendition_stream_id 1 0 KindOpus"
  by (simp add: rendition_stream_id_def checked_add_def opus_rendition_stream_offset_def)

lemma rounded_division:
  fixes m r s :: nat
  assumes "0 < r" and "m = (s + r div 2) div r"
  shows "2 * \<bar>int m * int r - int s\<bar> \<le> int r"
proof -
  obtain h y where hy: "h = r div 2" "y = (s + r div 2) mod r" by simp
  have "m * r + y = s + h" using assms(2) by (simp add: hy)
  then have "int m * int r - int s = int h - int y" by (simp flip: of_nat_mult of_nat_add add: algebra_simps)
  moreover have "y < r" "2 * h \<le> r" "r \<le> 2 * h + 1" using assms(1) by (simp_all add: hy)
  then have "2 * \<bar>int h - int y\<bar> \<le> int r" by (cases "h \<le> y") (simp_all add: abs_if)
  ultimately show ?thesis by simp
qed

text \<open>The timeline of a rendition does not drift: the millisecond time of a sample position is within
  half a sample period of the exact time, wherever the scaled position fits in 64 bits.\<close>

theorem samples_to_millis_exact:
  assumes "(samples_to_millis samples rate :: 'e package_error + u64) = Inr ms"
    and "unat samples * 1000 + unat rate < 2 ^ 64"
  shows "2 * \<bar>int (unat ms) * int (unat rate) - int (unat samples) * 1000\<bar> \<le> int (unat rate)"
proof -
  let ?r = "unat rate"
  let ?s = "unat samples * 1000"
  have u: "unat (ucast rate :: u64) = ?r" by (rule unat_ucast_widen) simp
  have k: "unat (1000 :: u64) = 1000" by simp
  have "rate \<noteq> 0" using assms(1) by (auto simp: samples_to_millis_def)
  then have pos: "0 < ?r" by (simp add: word_neq_0_conv word_less_nat_alt)
  have ms: "ms = sat_add (sat_mul samples 1000) (ucast rate div 2) div ucast rate"
    using assms(1) by (simp add: samples_to_millis_def split: if_splits)
  have half: "unat (ucast rate div 2 :: u64) = ?r div 2" by (simp add: unat_div_distrib u)
  have "unat (sat_add (sat_mul samples 1000) (ucast rate div 2)) = ?s + ?r div 2"
    unfolding unat_sat_add unat_sat_mul half k using assms(2) by simp
  then have "unat ms = (?s + ?r div 2) div ?r" by (simp add: ms unat_div_distrib u)
  from rounded_division [OF pos this] show ?thesis by simp
qed

lemma samples_to_millis_exact_witness:
  "\<exists>ms :: u64. (samples_to_millis 44101 44100 :: unit package_error + u64) = Inr ms
     \<and> 2 * \<bar>int (unat ms) * 44100 - 44101000\<bar> \<le> 44100"
proof -
  obtain ms where ms: "(samples_to_millis 44101 44100 :: unit package_error + u64) = Inr ms"
    by (simp add: samples_to_millis_def)
  from samples_to_millis_exact [OF ms] show ?thesis by (auto simp: ms)
qed

section \<open>Opus packets\<close>

lemma small_product: "unat (sat_mul (ucast (a :: u32)) (ucast (b :: u32)) :: u64) = unat a * unat b"
proof -
  have "unat a < 2 ^ 32" "unat b < 2 ^ 32" using unat_lt2p [of a] unat_lt2p [of b] by simp_all
  then have "unat a * unat b < 2 ^ 32 * 2 ^ 32" by (intro mult_strict_mono) simp_all
  then show ?thesis by (simp add: unat_sat_mul unat_ucast_widen)
qed

text \<open>A published Opus packet is the recovered payload itself or what follows its SoundKit header, the
  header is unencrypted Opus for this group and its checksum holds, and the packet lasts exactly as
  long as the group: rate times packet duration is 48000 times the frame count, with no rounding or
  saturation.\<close>

theorem raw_opus_packet_exact:
  assumes "(raw_opus_packet api g :: 'e package_error + bytes) = Inr packet"
  shows "(\<exists>d. ha_opus_duration api packet = Some d \<and> unat (ag_frame_count g) * 48000 = unat d * unat (ag_sample_rate g))
    \<and> (case ha_header_size api (ag_payload g) of
         None \<Rightarrow> packet = ag_payload g
       | Some n \<Rightarrow> ag_payload g = take n (ag_payload g) @ packet \<and> n \<le> length (ag_payload g)
           \<and> (\<exists>h. ha_decode api (take n (ag_payload g)) = Some h \<and> sk_opus h \<and> \<not> sk_encrypted h
               \<and> length packet = unat (sk_payload_size h)
               \<and> (sk_has_crc h \<longrightarrow> ha_verify_crc api h (take n (ag_payload g)) packet = Some True)))"
proof -
  have k: "sat_mul (ucast (ag_frame_count g)) (48000 :: u64) = sat_mul (ucast (ag_frame_count g)) (ucast (48000 :: u32))"
    by simp
  from assms obtain d where d: "ha_opus_duration api packet = Some d"
    and eq: "sat_mul (ucast (ag_frame_count g)) (48000 :: u64) = sat_mul (ucast d) (ucast (ag_sample_rate g))"
    and src: "(case ha_header_size api (ag_payload g) of Some n \<Rightarrow> framed_opus_packet api g n | None \<Rightarrow> Inr (ag_payload g)) =
       (Inr packet :: 'e package_error + bytes)"
    by (auto simp: raw_opus_packet_def res_ok split: if_splits)
  have "unat (ag_frame_count g) * unat (48000 :: u32) = unat d * unat (ag_sample_rate g)"
    unfolding small_product [symmetric] eq [unfolded k] ..
  then have "unat (ag_frame_count g) * 48000 = unat d * unat (ag_sample_rate g)" by simp
  with d src show ?thesis
    by (auto simp: framed_opus_packet_def Let_def split: option.splits if_splits)
qed


definition demo_headers :: header_api where
  "demo_headers = \<lparr>ha_header_size = (\<lambda>p. if take 1 p = [0x5A] then Some 1 else None),
     ha_decode = (\<lambda>_. Some \<lparr>sk_opus = True, sk_encrypted = False, sk_sample_rate = 48000, sk_channels = 2,
        sk_frame_count = 960, sk_payload_size = 2, sk_has_crc = True\<rparr>),
     ha_verify_crc = (\<lambda>_ _ _. Some True), ha_opus_duration = (\<lambda>p. Some 960)\<rparr>"

definition demo_group :: "audio_payload_kind \<Rightarrow> u64 \<Rightarrow> bytes \<Rightarrow> audio_group" where
  "demo_group k pts payload = \<lparr>ag_session_id = 9000, ag_group_id = 3, ag_epoch_id = 1, ag_config_generation = 1,
     ag_payload_kind = k, ag_sample_format = Unspecified, ag_sample_rate = 48000, ag_channel_count = 2,
     ag_frame_count = 960, ag_pts_samples = pts, ag_flags = 0, ag_payload = payload, ag_recovered_fragments = 0\<rparr>"

lemma raw_opus_packet_exact_witness:
  "(raw_opus_packet demo_headers (demo_group KindOpus 0 [0x5A, 1, 2]) :: unit package_error + bytes) = Inr [1, 2]
    \<and> (\<exists>d. ha_opus_duration demo_headers [1, 2] = Some d \<and> 960 * 48000 = unat d * 48000)"
proof -
  have r: "(raw_opus_packet demo_headers (demo_group KindOpus 0 [0x5A, 1, 2]) :: unit package_error + bytes) = Inr [1, 2]"
    by (simp add: raw_opus_packet_def framed_opus_packet_def demo_headers_def demo_group_def Let_def sat_mul_def)
  from raw_opus_packet_exact [OF r] r show ?thesis by (simp add: demo_group_def)
qed

section \<open>Opaque publication\<close>

text \<open>A publisher whose world keeps the opaque parts it was handed, whether or not it accepted them.\<close>

locale opaque_log =
  fixes env :: "('e, 'w) hls_env" and handed :: "'w \<Rightarrow> opaque_part list"
  assumes handed_publish: "he_publish_opaque env p w = (r, w') \<Longrightarrow> handed w' = handed w @ [p]"
    and handed_now: "fe_now (he_fmp4 env) w = (t, w') \<Longrightarrow> handed w' = handed w"
begin

definition handed_bytes :: "'w \<Rightarrow> bytes" where
  "handed_bytes w = concat (map op_bytes (handed w))"

lemma flush_bytes:
  assumes "flush_opaque env os w = (r, os', w')"
  shows "handed_bytes w' @ os_bytes os' = handed_bytes w @ os_bytes os"
    and "os_bytes os' = []" and "r = Inl e \<Longrightarrow> \<exists>x. e = PublishFailed x"
  using assms
  by (auto simp: flush_opaque_def reset_opaque_def handed_bytes_def opaque_part_of_def map_err_def
      split: if_splits prod.splits sum.splits dest!: handed_publish handed_now)

lemma push_bytes:
  assumes "push_opaque env packet d os w = (r, os', w')"
  shows "handed_bytes w' @ os_bytes os' = handed_bytes w @ os_bytes os @ packet"
    and "r = Inl e \<Longrightarrow> \<exists>x. e = PublishFailed x"
  using assms by (auto simp: push_opaque_def Let_def split: if_splits dest: flush_bytes)

text \<open>One group: its payload is taken whole or not at all; not when packaging fails before publication.\<close>

definition buffered :: "rendition_state \<Rightarrow> bytes" where
  "buffered st = (case rn_packager st of OpaquePackager os \<Rightarrow> os_bytes os | Fmp4Packager _ \<Rightarrow> [])"

definition is_opaque :: "rendition_state \<Rightarrow> bool" where
  "is_opaque st = (case rn_packager st of OpaquePackager _ \<Rightarrow> True | Fmp4Packager _ \<Rightarrow> False)"

definition taken_ok :: "'e package_error + unit \<Rightarrow> bool \<Rightarrow> bool" where
  "taken_ok r b \<longleftrightarrow> (case r of Inr _ \<Rightarrow> b | Inl e \<Rightarrow> (\<exists>x. e = PublishFailed x) \<or> \<not> b)"

lemma close_bytes:
  assumes "close_continuity api env g (st, w) = (r, st', w')" and "is_opaque st"
  shows "is_opaque st'" and "handed_bytes w' @ buffered st' = handed_bytes w @ buffered st"
    and "r = Inl e \<Longrightarrow> \<exists>x. e = PublishFailed x"
  using assms flush_bytes
  by (fastforce simp: close_continuity_def finish_packager_def is_opaque_def buffered_def reset_opaque_def
      split: if_splits prod.splits sum.splits rendition_packager.splits)+

lemma package_in_bytes:
  assumes "package_in hapi api env cfg g (st, w) = (r, st', w')" and "is_opaque st" and "hc_packaging cfg = PackOpaque"
  shows "is_opaque st' \<and> (\<exists>b. taken_ok r b
    \<and> handed_bytes w' @ buffered st' = handed_bytes w @ buffered st @ (if b then ag_payload g else []))"
proof -
  obtain r1 st1 w1 where close: "close_continuity api env g (st, w) = (r1, st1, w1)" by (cases "close_continuity api env g (st, w)")
  note cb = close_bytes [OF close assms(2)]
  show ?thesis
  proof (cases r1)
    case (Inl e)
    with assms close cb show ?thesis
      by (auto simp: package_in_def sbind_def taken_ok_def intro!: exI [of _ False])
  next
    case ok: (Inr u)
    let ?st2 = "\<lambda>n. st1\<lparr>rn_expected_pts := Some n\<rparr>"
    have upd: "is_opaque (?st2 n) = is_opaque st1" "buffered (?st2 n) = buffered st1" for n
      by (simp_all add: is_opaque_def buffered_def)
    obtain os where os: "rn_packager st1 = OpaquePackager os"
      using cb(1) by (auto simp: is_opaque_def split: rendition_packager.splits)
    show ?thesis
    proof (cases "\<exists>n d. checked_add (ag_pts_samples g) (ucast (ag_frame_count g)) = Some n
        \<and> (\<exists>ms. (samples_to_millis (ucast (ag_frame_count g)) (ag_sample_rate g) :: 'e package_error + u64) = Inr ms
           \<and> (try_cast ms :: u32 option) = Some d)")
      case True
      then obtain n d ms where n: "checked_add (ag_pts_samples g) (ucast (ag_frame_count g)) = Some n"
        and ms: "(samples_to_millis (ucast (ag_frame_count g)) (ag_sample_rate g) :: 'e package_error + u64) = Inr ms"
        and d: "(try_cast ms :: u32 option) = Some d" by blast
      obtain r2 os' w2 where push: "push_opaque env (ag_payload g) (max d 1) os w1 = (r2, os', w2)"
        by (cases "push_opaque env (ag_payload g) (max d 1) os w1")
      note pb = push_bytes [OF push]
      have "r = r2" "w' = w2" "rn_packager st' = OpaquePackager os'"
        using assms close ok n ms d push os
        by (auto simp: package_in_def sbind_def slift_def supdate_def expect_next_def push_to_opaque_def)
      with pb cb os show ?thesis
        by (auto simp: is_opaque_def buffered_def taken_ok_def split: sum.split intro!: exI [of _ True])
    next
      case False
      then show ?thesis
        using assms close ok cb upd
        by (auto simp: package_in_def sbind_def slift_def supdate_def expect_next_def taken_ok_def ok_or_def
            samples_to_millis_def split: option.splits if_splits sum.splits intro!: exI [of _ False])
    qed
  qed
qed

definition one_rendition :: "rendition_key \<Rightarrow> (rendition_key, rendition_state) assoc \<Rightarrow> bool" where
  "one_rendition k m \<longleftrightarrow> m = [] \<or> (\<exists>st. m = [(k, st)] \<and> is_opaque st)"

definition pending :: "(rendition_key, rendition_state) assoc \<Rightarrow> bytes" where
  "pending m = concat (map (buffered \<circ> snd) m)"

lemma new_rendition_opaque:
  "new_rendition cfg g = Inr st \<Longrightarrow> hc_packaging cfg = PackOpaque \<Longrightarrow> is_opaque st \<and> buffered st = []"
  by (auto simp: new_rendition_def res_ok is_opaque_def buffered_def new_rendition_packager_def
      new_opaque_segmenter_def Let_def)

lemma new_rendition_error: "new_rendition cfg g = Inl e \<Longrightarrow> e = StreamIdOverflow"
  by (auto simp: new_rendition_def rendition_stream_id_def Let_def res_bind_def ok_or_def split: sum.splits option.splits)

lemma package_group_bytes:
  assumes step: "package_group hapi api env cfg g (m, w) = (r, m', w')"
    and one: "one_rendition (rendition_key_of g) m" and cfg: "hc_packaging cfg = PackOpaque"
  shows "one_rendition (rendition_key_of g) m' \<and> (\<exists>b. taken_ok r b
    \<and> handed_bytes w' @ pending m' = handed_bytes w @ pending m @ (if b then ag_payload g else []))"
proof (cases "\<exists>e. r = Inl e \<and> m' = m \<and> w' = w \<and> (\<nexists>x. e = PublishFailed x)")
  case True
  with one show ?thesis by (auto simp: taken_ok_def intro!: exI [of _ False])
next
  case False
  let ?k = "rendition_key_of g"
  from step False obtain st where
    st: "(case map_of m ?k of Some st \<Rightarrow> Inr st | None \<Rightarrow> new_rendition cfg g) = (Inr st :: 'e package_error + rendition_state)"
    by (auto simp: package_group_def split: if_splits sum.splits option.splits dest: new_rendition_error)
  with one cfg have opq: "is_opaque st" and pend: "pending m = buffered st"
    by (auto simp: one_rendition_def pending_def dest: new_rendition_opaque split: option.splits if_splits)
  obtain r1 st1 w1 where pk: "package_in hapi api env cfg g (st, w) = (r1, st1, w1)"
    by (cases "package_in hapi api env cfg g (st, w)")
  from step False st pk have out: "r = r1" "m' = AList.update ?k st1 m" "w' = w1"
    by (auto simp: package_group_def split: if_splits)
  have upd: "AList.update ?k st1 m = [(?k, st1)]" using one by (auto simp: one_rendition_def)
  from package_in_bytes [OF pk opq cfg] out upd pend show ?thesis
    by (auto simp: one_rendition_def pending_def)
qed

text \<open>What a list of outcomes says was published of a list of groups.\<close>

definition taken_bytes :: "bool list \<Rightarrow> audio_group list \<Rightarrow> bytes" where
  "taken_bytes bs gs = concat (map2 (\<lambda>b g. if b then ag_payload g else []) bs gs)"

lemma package_run_bytes:
  assumes "package_run hapi api env cfg gs (m, w) = (rs, m', w')"
    and "\<forall>g \<in> set gs. rendition_key_of g = k" and "one_rendition k m" and "hc_packaging cfg = PackOpaque"
  shows "one_rendition k m' \<and> (\<exists>bs. list_all2 taken_ok rs bs
    \<and> handed_bytes w' @ pending m' = handed_bytes w @ pending m @ taken_bytes bs gs)"
  using assms
proof (induction gs arbitrary: m w rs)
  case Nil
  then show ?case by (auto simp: taken_bytes_def intro!: exI [of _ "[]"])
next
  case (Cons g gs)
  obtain r m1 w1 where g: "package_group hapi api env cfg g (m, w) = (r, m1, w1)" by (cases "package_group hapi api env cfg g (m, w)")
  obtain rs' where run: "package_run hapi api env cfg gs (m1, w1) = (rs', m', w')" and rs: "rs = r # rs'"
    using Cons.prems(1) g by (auto split: prod.splits)
  from package_group_bytes [OF g] Cons.prems obtain b where one1: "one_rendition k m1" and b: "taken_ok r b"
    "handed_bytes w1 @ pending m1 = handed_bytes w @ pending m @ (if b then ag_payload g else [])" by auto
  from Cons.IH [OF run _ one1 Cons.prems(4)] Cons.prems(2) obtain bs where "one_rendition k m'" "list_all2 taken_ok rs' bs"
    "handed_bytes w' @ pending m' = handed_bytes w1 @ pending m1 @ taken_bytes bs gs" by auto
  with b rs show ?case by (auto simp: taken_bytes_def intro!: exI [of _ "b # bs"])
qed

lemma finish_all_bytes:
  assumes "finish_all api env m w = (fs, w')" and "one_rendition k m"
  shows "handed_bytes w' = handed_bytes w @ pending m"
proof (cases m)
  case Nil
  with assms(1) show ?thesis by (simp add: pending_def)
next
  case (Cons a as)
  with assms(2) obtain st where m: "m = [(k, st)]" and "is_opaque st" by (auto simp: one_rendition_def)
  then obtain os where os: "rn_packager st = OpaquePackager os"
    by (cases "rn_packager st") (auto simp: is_opaque_def)
  obtain r os' w1 where fl: "flush_opaque env os w = (r, os', w1)" by (cases "flush_opaque env os w")
  with assms(1) m os have "w' = w1" by (simp add: finish_packager_def)
  with flush_bytes(1,2) [OF fl] show ?thesis by (simp add: m os pending_def buffered_def)
qed

lemma worker_bytes:
  assumes "run_rendition_worker hapi api env cfg gs w = (rs, fs, w')" and "handed w = []"
    and "\<forall>g \<in> set gs. rendition_key_of g = k" and "hc_packaging cfg = PackOpaque"
  shows "\<exists>bs. list_all2 taken_ok rs bs \<and> concat (map op_bytes (handed w')) = taken_bytes bs gs"
proof -
  obtain m w1 where run: "package_run hapi api env cfg gs ([], w) = (rs, m, w1)" and fin: "finish_all api env m w1 = (fs, w')"
    using assms(1) by (auto simp: run_rendition_worker_def split: prod.splits)
  from package_run_bytes [OF run assms(3) _ assms(4)] obtain bs where "one_rendition k m" "list_all2 taken_ok rs bs"
    "handed_bytes w1 @ pending m = handed_bytes w @ pending [] @ taken_bytes bs gs" by (auto simp: one_rendition_def)
  with finish_all_bytes [OF fin] assms(2) show ?thesis by (auto simp: handed_bytes_def pending_def)
qed

end

text \<open>Any publisher, with a record of the opaque parts handed to it.\<close>

definition recording :: "('e, 'w) hls_env \<Rightarrow> ('e, 'w \<times> opaque_part list) hls_env" where
  "recording env =
     \<lparr>he_fmp4 = \<lparr>fe_now = (\<lambda>(w, l). case fe_now (he_fmp4 env) w of (t, w) \<Rightarrow> (t, w, l)),
        fe_publish = (\<lambda>p (w, l). case fe_publish (he_fmp4 env) p w of (r, w) \<Rightarrow> (r, w, l)),
        fe_append = (\<lambda>i b (w, l). case fe_append (he_fmp4 env) i b w of (ok, w) \<Rightarrow> (ok, w, l)),
        fe_playlist_add = (\<lambda>i b (w, l). case fe_playlist_add (he_fmp4 env) i b w of (ok, w) \<Rightarrow> (ok, w, l))\<rparr>,
      he_publish_opaque = (\<lambda>p (w, l). case he_publish_opaque env p w of (r, w) \<Rightarrow> (r, w, l @ [p]))\<rparr>"

interpretation recorded: opaque_log "recording env" snd for env
  by unfold_locales (auto simp: recording_def split: prod.splits)

text \<open>C19: Opaque publication is lossless: after a rendition worker stops, the bytes handed to the publisher are
  the payloads of its groups, in order, each whole or not at all; every group reported packaged is
  among them, every group refused before publication is not, and a continuity break or a failing
  publication loses or repeats nothing.\<close>

theorem opaque_publication_lossless:
  assumes "run_rendition_worker hapi api (recording env) cfg gs (w, []) = (rs, fs, w', parts)"
    and "\<forall>g \<in> set gs. rendition_key_of g = k" and "hc_packaging cfg = PackOpaque"
  shows "\<exists>bs. list_all2 (\<lambda>r b. case r of Inr _ \<Rightarrow> b | Inl e \<Rightarrow> (\<exists>x. e = PublishFailed x) \<or> \<not> b) rs bs
    \<and> concat (map op_bytes parts) = concat (map2 (\<lambda>b g. if b then ag_payload g else []) bs gs)"
  using recorded.worker_bytes [OF assms(1) _ assms(2,3)]
  by (simp add: recorded.taken_ok_def [abs_def] recorded.taken_bytes_def)

definition demo_hls_config :: "hls_packaging \<Rightarrow> hls_config" where
  "demo_hls_config pk = new_hls_config 1 20 pk [KindFlac, KindOpus]"

definition demo_quiet_env :: "(unit, nat) hls_env" where
  "demo_quiet_env = \<lparr>he_fmp4 = \<lparr>fe_now = (\<lambda>n. (0, n)), fe_publish = (\<lambda>_ n. (Inr (), n)),
        fe_append = (\<lambda>_ _ n. (True, n)), fe_playlist_add = (\<lambda>_ _ n. (True, n))\<rparr>,
      he_publish_opaque = (\<lambda>_ n. (Inr (), Suc n))\<rparr>"

lemma opaque_publication_lossless_witness:
  "\<exists>rs fs w' parts bs. run_rendition_worker demo_headers demo_boxer (recording demo_quiet_env) (demo_hls_config PackOpaque)
      [demo_group KindFlac 0 [1], demo_group KindFlac 960 [], demo_group KindFlac 960 [2]] (0, []) = (rs, fs, w', parts)
    \<and> concat (map op_bytes parts) = concat (map2 (\<lambda>b g. if b then ag_payload g else []) bs
      [demo_group KindFlac 0 [1], demo_group KindFlac 960 [], demo_group KindFlac 960 [2]])"
proof -
  let ?gs = "[demo_group KindFlac 0 [1], demo_group KindFlac 960 [], demo_group KindFlac 960 [2]]"
  obtain rs fs w' parts where run: "run_rendition_worker demo_headers demo_boxer (recording demo_quiet_env)
      (demo_hls_config PackOpaque) ?gs (0, []) = (rs, fs, w', parts)" by (metis prod_cases4)
  have key: "\<forall>g \<in> set ?gs. rendition_key_of g = (9000, 3, KindFlac)"
    by (simp add: demo_group_def rendition_key_of_def)
  from opaque_publication_lossless [OF run key] run show ?thesis
    by (auto simp: demo_hls_config_def new_hls_config_def)
qed

section \<open>The audio configuration of an fMP4 rendition\<close>

lemma audio_config_flush [simp]: "sg_audio_config (fst (flush_with_next_dts api env d st)) = sg_audio_config (fst st)"
  by (cases st; rule flush_state_cases [of api env d "fst st" "snd st"])
    (simp_all add: clear_pending_media_def after_publish_def Let_def)

lemma audio_config_flush_pair:
  "flush_with_next_dts api env d st = (sg, w) \<Longrightarrow> sg_audio_config sg = sg_audio_config (fst st)"
  using audio_config_flush [of api env d st] by simp

lemma audio_config_flush_current [simp]: "sg_audio_config (fst (flush_current api env st)) = sg_audio_config (fst st)"
  by (simp add: flush_current_def Let_def split: prod.split)

lemma audio_config_flush_current_pair:
  "flush_current api env st = (sg, w) \<Longrightarrow> sg_audio_config sg = sg_audio_config (fst st)"
  using audio_config_flush_current [of api env st] by simp

lemma audio_config_aac: "apply_aac_timeline api sg au = (sg', au') \<Longrightarrow> sg_audio_config sg' = sg_audio_config sg"
  by (auto simp: apply_aac_timeline_def Let_def split: if_splits option.splits)

lemma audio_config_note [simp]: "sg_audio_config (note_audio_signature api au sg) = sg_audio_config sg"
  by (simp add: note_audio_signature_def split: option.split)

lemma audio_config_append [simp]: "sg_audio_config (append_audio au d sg) = sg_audio_config sg"
  by (simp add: append_audio_def)

lemma audio_config_drop [simp]: "sg_audio_config (drop_pending_without_config_if_needed sg) = sg_audio_config sg"
  by (simp add: drop_pending_without_config_if_needed_def clear_pending_media_def)

lemma audio_config_push_audio [simp]: "sg_audio_config (fst (push_audio api env au st)) = sg_audio_config (fst st)"
proof -
  obtain sg w where st: "st = (sg, w)" by (cases st)
  obtain sg1 au1 where aac: "apply_aac_timeline api sg au = (sg1, au1)" by (cases "apply_aac_timeline api sg au")
  let ?sg2 = "note_audio_signature api au1 sg1"
  obtain sg3 w3 where fl: "(if sg_video_buf ?sg2 = [] \<and> sg_audio_buffered_duration_ms ?sg2 = None
      \<and> should_flush_audio_only_before ?sg2 au1 then flush_with_next_dts api env 0 (?sg2, w) else (?sg2, w)) = (sg3, w3)"
    by fastforce
  then have "sg_audio_config sg3 = sg_audio_config ?sg2"
    by (auto split: if_splits dest: audio_config_flush_pair)
  with fl audio_config_aac [OF aac] show ?thesis
    by (simp add: push_audio_def st aac Let_def del: if_split)
qed

lemma audio_config_configure [simp]:
  "sg_audio_config (fst (snd (configure_video api env au st))) = sg_audio_config (fst st)"
proof -
  obtain sg w where f: "flush_current api env st = (sg, w)" by (cases "flush_current api env st")
  from audio_config_flush_current_pair [OF f] f show ?thesis
    by (cases st) (simp add: configure_video_def Let_def install_h264_config_def clear_pending_media_def
        split: option.split)
qed

lemma audio_config_configure_pair:
  "configure_video api env au st = (c, st') \<Longrightarrow> sg_audio_config (fst st') = sg_audio_config (fst st)"
  using audio_config_configure [of api env au st] by simp

lemma audio_config_push_video [simp]: "sg_audio_config (fst (push_video api env au st)) = sg_audio_config (fst st)"
proof -
  obtain c sg w where c: "configure_video api env au st = (c, sg, w)" by (cases "configure_video api env au st")
  from audio_config_configure_pair [OF c] have "sg_audio_config sg = sg_audio_config (fst st)" by simp
  then show ?thesis
    by (auto simp: push_video_def Let_def c append_video_def drop_pending_without_config_if_needed_def
        clear_pending_media_def split: prod.splits option.split sum.split bool.splits dest!: audio_config_flush_pair)
qed

lemma audio_config_push_normalized [simp]:
  "sg_audio_config (fst (push_normalized api env au st)) = sg_audio_config (fst st)"
proof -
  obtain sg w where f: "flush_current api env st = (sg, w)" by (cases "flush_current api env st")
  from audio_config_flush_current_pair [OF f] f show ?thesis
    by (cases st) (simp add: push_normalized_def Let_def finish_segmenter_def reset_segmenter_def
        normalize_timestamps_def)
qed

lemma audio_config_push [simp]: "sg_audio_config (fst (push_access_unit api env au st)) = sg_audio_config (fst st)"
  by (auto simp: push_access_unit_def Let_def split: prod.splits bool.splits)

text \<open>The configuration is a function of the recorded format.\<close>

definition configured_for :: "rendition_format \<Rightarrow> audio_track_config option \<Rightarrow> bool" where
  "configured_for fmt cfg \<longleftrightarrow>
     (\<exists>g. format_of_group g = fmt \<and> (audio_track_config_of g :: unit package_error + _) = Inr cfg)"

lemma config_same_format:
  assumes "format_of_group g = format_of_group g'"
  shows "audio_track_config_of g = audio_track_config_of g'"
proof -
  have eqs: "ag_sample_rate g = ag_sample_rate g'" "ag_channel_count g = ag_channel_count g'"
    "ag_payload_kind g = ag_payload_kind g'" "ag_sample_format g = ag_sample_format g'"
    using assms by (simp_all add: format_of_group_def)
  show ?thesis unfolding audio_track_config_of_def eqs ..
qed

lemma config_retype:
  "(audio_track_config_of g :: 'e package_error + audio_track_config option) = Inr cfg
    \<longleftrightarrow> (audio_track_config_of g :: 'f package_error + audio_track_config option) = Inr cfg"
  by (cases "ag_payload_kind g"; cases "ag_sample_format g") (simp_all add: audio_track_config_of_def)

lemma configured_for_group:
  "(audio_track_config_of g :: 'e package_error + audio_track_config option) = Inr cfg
    \<Longrightarrow> configured_for (format_of_group g) cfg' \<longleftrightarrow> cfg' = cfg"
  unfolding configured_for_def using config_same_format config_retype by (metis sum.inject(2))

definition settled :: "rendition_state \<Rightarrow> bool" where
  "settled st \<longleftrightarrow> (\<forall>sg. rn_packager st = Fmp4Packager sg \<longrightarrow>
     sg_audio_buf sg = [] \<or> configured_for (rn_format st) (sg_audio_config sg))"

lemma settled_new: "new_rendition cfg g = Inr st \<Longrightarrow> settled st"
  by (cases "hc_packaging cfg")
    (auto simp: new_rendition_def res_ok settled_def new_rendition_packager_def new_segmenter_def set_source_epoch_def Let_def)

lemma settled_close:
  assumes "close_continuity api env g (st, w) = (r, st', w')" and "settled st"
  shows "settled st' \<and> (r = Inr () \<longrightarrow> rn_format st' = format_of_group g)"
proof (cases "starts_continuity st g")
  case False
  with assms show ?thesis by (auto simp: close_continuity_def starts_continuity_def)
next
  case True
  obtain r1 p w1 where fin: "finish_packager api env (rn_packager st) w = (r1, p, w1)"
    by (cases "finish_packager api env (rn_packager st) w")
  have opq: "p \<noteq> Fmp4Packager sg" if "r1 = Inl e" for e sg
    using fin that by (auto simp: finish_packager_def split: rendition_packager.splits prod.splits)
  have emp: "reset_packager p = Fmp4Packager sg \<Longrightarrow> sg_audio_buf sg = []" for sg
    by (cases p) (auto simp: reset_segmenter_def)
  from True fin assms(1) opq emp show ?thesis
    by (auto simp: close_continuity_def settled_def split: sum.splits)
qed

lemma settled_expected: "settled (st\<lparr>rn_expected_pts := e\<rparr>) = settled st"
  by (simp add: settled_def)

lemma settled_opaque: "push_to_opaque env b d (st, w) = (r, st', w') \<Longrightarrow> settled st \<Longrightarrow> settled st'"
  by (auto simp: push_to_opaque_def settled_def split: rendition_packager.splits prod.splits)

lemma settled_fmp4:
  assumes "package_group_as_fmp4 hapi api env g (st, w) = (r, st', w')" and "settled st"
    and fmt: "rn_format st = format_of_group g"
  shows "settled st'"
proof -
  consider "st' = st"
    | cfg sg au sg' w1 where "(audio_track_config_of g :: 'a package_error + audio_track_config option) = Inr cfg"
      "rn_packager st = Fmp4Packager sg"
      "push_access_unit api (he_fmp4 env) au (set_audio_track_config cfg sg, w) = (sg', w1)"
      "st' = st\<lparr>rn_packager := Fmp4Packager sg'\<rparr>"
  proof (cases "audio_track_config_of g :: 'a package_error + audio_track_config option")
    case (Inl e)
    with assms(1) that(1) show ?thesis by (simp add: package_group_as_fmp4_def sbind_def slift_def)
  next
    case cfg: (Inr cfg)
    show ?thesis
    proof (cases "elementary_payload hapi api g :: 'a package_error + bytes \<times> u8")
      case (Inl e)
      with cfg assms(1) that(1) show ?thesis by (simp add: package_group_as_fmp4_def sbind_def slift_def)
    next
      case pay: (Inr p)
      show ?thesis
      proof (cases "samples_to_millis (ag_pts_samples g) (ag_sample_rate g) :: 'a package_error + u64")
        case (Inl e)
        with cfg pay assms(1) that(1) show ?thesis by (simp add: package_group_as_fmp4_def sbind_def slift_def split_beta)
      next
        case pts: (Inr pts)
        let ?au = "\<lparr>au_key = True, au_pts = pts, au_dts = pts, au_data = fst p, au_stream_type = snd p, au_id = ag_epoch_id g\<rparr>"
        show ?thesis
        proof (cases "rn_packager st")
          case (OpaquePackager os)
          with cfg pay pts assms(1) that(1) show ?thesis
            by (simp add: package_group_as_fmp4_def sbind_def slift_def split_beta)
        next
          case (Fmp4Packager sg)
          obtain sg' w1 where push: "push_access_unit api (he_fmp4 env) ?au (set_audio_track_config cfg sg, w) = (sg', w1)"
            by (cases "push_access_unit api (he_fmp4 env) ?au (set_audio_track_config cfg sg, w)")
          from cfg pay pts assms(1) Fmp4Packager push have "st' = st\<lparr>rn_packager := Fmp4Packager sg'\<rparr>"
            by (simp add: package_group_as_fmp4_def sbind_def slift_def split_beta)
          with that(2) [OF cfg Fmp4Packager push] show ?thesis .
        qed
      qed
    qed
  qed
  then show ?thesis
  proof cases
    case 1
    with assms(2) show ?thesis by simp
  next
    case (2 cfg sg au sg' w1)
    have "sg_audio_config sg' = sg_audio_config (set_audio_track_config cfg sg)"
      using audio_config_push [of api "he_fmp4 env" au "(set_audio_track_config cfg sg, w)"] 2(3) by simp
    also have "\<dots> = cfg" by (simp add: set_audio_track_config_def)
    finally show ?thesis using 2(4) fmt configured_for_group [OF 2(1)] by (simp add: settled_def)
  qed
qed

lemma settled_package_in:
  assumes "package_in hapi api env cfg g (st, w) = (r, st', w')" and "settled st"
  shows "settled st'"
proof -
  obtain r1 st1 w1 where close: "close_continuity api env g (st, w) = (r1, st1, w1)" by (cases "close_continuity api env g (st, w)")
  note c = settled_close [OF close assms(2)]
  have fmt: "rn_format (st1\<lparr>rn_expected_pts := e\<rparr>) = format_of_group g" if "r1 = Inr ()" for e using c that by simp
  show ?thesis
    using assms(1) close c fmt
    by (auto simp: package_in_def sbind_def slift_def supdate_def expect_next_def settled_expected
        split: sum.splits prod.splits hls_packaging.splits dest: settled_opaque settled_fmp4)
qed

definition all_settled :: "(rendition_key, rendition_state) assoc \<Rightarrow> bool" where
  "all_settled m \<longleftrightarrow> (\<forall>st \<in> ran (map_of m). settled st)"

lemma all_settledD: "all_settled m \<Longrightarrow> map_of m k = Some st \<Longrightarrow> settled st"
  by (meson all_settled_def ranI)

lemma all_settled_update: "all_settled m \<Longrightarrow> settled st \<Longrightarrow> all_settled (AList.update k st m)"
  by (auto simp: all_settled_def map_of_update ran_def split: if_splits)

lemma settled_package_group:
  assumes "package_group hapi api env cfg g (m, w) = (r, m', w')" and "all_settled m"
  shows "all_settled m'"
  using assms
  by (auto simp: package_group_def split: if_splits sum.splits option.splits prod.splits
      dest!: settled_new dest: all_settledD settled_package_in intro!: all_settled_update)

lemma settled_run:
  "package_run hapi api env cfg gs (m, w) = (rs, m', w') \<Longrightarrow> all_settled m \<Longrightarrow> all_settled m'"
proof (induction gs arbitrary: m w rs)
  case Nil
  then show ?case by simp
next
  case (Cons g gs)
  from Cons.prems(1) obtain r m1 w1 rs' where g: "package_group hapi api env cfg g (m, w) = (r, m1, w1)"
    and run: "package_run hapi api env cfg gs (m1, w1) = (rs', m', w')"
    by (auto split: prod.splits)
  from Cons.IH [OF run settled_package_group [OF g Cons.prems(2)]] show ?case .
qed

text \<open>The configuration of an fMP4 rendition only changes between continuity segments: whatever groups came
  before, when the next group has passed the continuity check its configuration is the one installed
  or no audio is buffered, so the assertion in \<^verbatim>\<open>set_audio_track_config\<close> never fails.\<close>

theorem audio_config_changes_between_segments:
  fixes env :: "('e, 'w) hls_env"
  assumes "package_run hapi api env cfg gs ([], w) = (rs, m, w1)" and "map_of m (rendition_key_of g) = Some st"
    and "close_continuity api env g (st, w1) = (Inr (), st', w2)" and "rn_packager st' = Fmp4Packager sg"
    and "(audio_track_config_of g :: 'e package_error + audio_track_config option) = Inr c"
  shows "sg_audio_buf sg = [] \<or> sg_audio_config sg = c"
proof -
  have "all_settled m" using settled_run [OF assms(1)] by (simp add: all_settled_def)
  then have "settled st" using assms(2) by (rule all_settledD)
  from settled_close [OF assms(3) this] have "settled st'" and fmt: "rn_format st' = format_of_group g" by simp_all
  then have "sg_audio_buf sg = [] \<or> configured_for (format_of_group g) (sg_audio_config sg)"
    using assms(4) by (simp add: settled_def)
  with configured_for_group [OF assms(5)] show ?thesis by simp
qed

lemma close_fmp4:
  assumes "rn_packager st = Fmp4Packager sg"
  shows "\<exists>st' sg' w'. close_continuity api env g (st, w) = (Inr (), st', w') \<and> rn_packager st' = Fmp4Packager sg'"
  using assms by (auto simp: close_continuity_def finish_packager_def split: prod.split)

lemma audio_config_changes_between_segments_witness:
  "\<exists>rs m w1 st sg. package_run demo_headers demo_boxer demo_quiet_env (demo_hls_config PackFmp4)
      [demo_group KindFlac 0 [1]] ([], 0) = (rs, m, w1)
    \<and> map_of m (rendition_key_of (demo_group KindFlac 960 [2])) = Some st
    \<and> (\<exists>st' w2. close_continuity demo_boxer demo_quiet_env (demo_group KindFlac 960 [2]) (st, w1) = (Inr (), st', w2)
        \<and> rn_packager st' = Fmp4Packager sg)
    \<and> (sg_audio_buf sg = [] \<or> sg_audio_config sg = None)"
proof -
  let ?g = "demo_group KindFlac 0 [1]" and ?g' = "demo_group KindFlac 960 [2]"
  obtain r m w1 where run: "package_group demo_headers demo_boxer demo_quiet_env (demo_hls_config PackFmp4) ?g ([], 0) = (r, m, w1)"
    by (metis prod_cases3)
  have id: "(rendition_stream_id 1 3 KindFlac :: unit package_error + u64) = Inr 4"
    by (simp add: rendition_stream_id_def checked_add_def)
  obtain st0 sg0 where new: "(new_rendition (demo_hls_config PackFmp4) ?g :: unit package_error + rendition_state) = Inr st0"
    and sg0: "rn_packager st0 = Fmp4Packager sg0" and ready: "\<not> starts_continuity st0 ?g"
    by (simp add: new_rendition_def demo_group_def demo_hls_config_def new_hls_config_def id new_rendition_packager_def
        Let_def starts_continuity_def format_of_group_def)
  obtain st1 sg1 where st1: "map_of m (rendition_key_of ?g) = Some st1" "rn_packager st1 = Fmp4Packager sg1"
    using run new sg0 ready
    by (auto simp: package_group_def package_in_def close_continuity_def expect_next_def sbind_def slift_def supdate_def
        package_group_as_fmp4_def elementary_payload_def audio_track_config_of_def samples_to_millis_def checked_add_def
        try_cast_def demo_hls_config_def new_hls_config_def demo_group_def map_of_update sat_mul_def sat_add_def
        split: prod.splits)
  have key: "rendition_key_of ?g' = rendition_key_of ?g" by (simp add: rendition_key_of_def demo_group_def)
  obtain st2 sg2 w2 where close: "close_continuity demo_boxer demo_quiet_env ?g' (st1, w1) = (Inr (), st2, w2)"
    "rn_packager st2 = Fmp4Packager sg2" using close_fmp4 [OF st1(2), of demo_boxer demo_quiet_env ?g' w1] by blast
  have runs: "package_run demo_headers demo_boxer demo_quiet_env (demo_hls_config PackFmp4) [?g] ([], 0) = ([r], m, w1)"
    using run by simp
  have cfg: "(audio_track_config_of ?g' :: unit package_error + audio_track_config option) = Inr None"
    by (simp add: audio_track_config_of_def demo_group_def)
  from audio_config_changes_between_segments [OF runs _ close cfg] st1(1) show ?thesis
    using runs key close by fastforce
qed

end
