(* ===== verification/Audio_Workers.thy ===== *)
theory Audio_Workers
  imports Audio_Epoch_Facts
begin

text \<open>
  The AEP1 worker of \<^verbatim>\<open>src/src/audio_epoch_hls.rs\<close>: receivers per peer, one rendition worker per
  session, group and format, idle retirement, the shutdown drain and the process-wide counters. The
  datagram transport and the FEC receiver are fields of \<open>receiver_api\<close>. A rendition worker consumes
  its channel in order, so it is modelled by the sequence of groups sent to it, on which
  \<^const>\<open>run_rendition_worker\<close> computes what it publishes; the channel bound only delays the sender.
  \<open>hw_completed\<close> and \<open>hw_finished\<close> record history for the statements and are never read.
\<close>

section \<open>State\<close>

text \<open>Instants and durations are in nanoseconds.\<close>

definition audio_epoch_idle_timeout :: nat where "audio_epoch_idle_timeout = 30 * 10 ^ 9"

record 'r receiver_api =
  ra_payload :: "bytes \<Rightarrow> bytes option"
  ra_new :: 'r
  ra_push :: "bytes \<Rightarrow> 'r \<Rightarrow> audio_group list option \<times> 'r"

record hls_worker_stats =
  hs_datagrams :: u64
  hs_groups_completed :: u64
  hs_fragments_recovered :: u64
  hs_errors :: u64
  hs_active_receivers :: u64
  hs_active_workers :: u64
  hs_retired_receivers :: u64
  hs_retired_workers :: u64

definition zero_worker_stats :: hls_worker_stats where
  "zero_worker_stats = \<lparr>hs_datagrams = 0, hs_groups_completed = 0, hs_fragments_recovered = 0, hs_errors = 0,
     hs_active_receivers = 0, hs_active_workers = 0, hs_retired_receivers = 0, hs_retired_workers = 0\<rparr>"

record 'r receiver_state =
  rcv_receiver :: 'r
  rcv_last_seen :: nat

record rendition_worker =
  wk_queue :: "audio_group list"
  wk_last_seen :: nat

record ('r, 'p) hls_worker =
  hw_receivers :: "('p, 'r receiver_state) assoc"
  hw_workers :: "(rendition_key, rendition_worker) assoc"
  hw_stats :: hls_worker_stats
  hw_clock :: "nat list"
  hw_completed :: "audio_group list"
  hw_finished :: "(rendition_key \<times> audio_group list) list"

definition new_hls_worker :: "nat list \<Rightarrow> ('r, 'p) hls_worker" where
  "new_hls_worker clock = \<lparr>hw_receivers = [], hw_workers = [], hw_stats = zero_worker_stats, hw_clock = clock,
     hw_completed = [], hw_finished = []\<rparr>"

definition worker_now :: "('r, 'p) hls_worker \<Rightarrow> nat \<times> ('r, 'p) hls_worker" where
  "worker_now s = (case hw_clock s of [] \<Rightarrow> (0, s) | t # ts \<Rightarrow> (t, s\<lparr>hw_clock := ts\<rparr>))"

section \<open>Datagrams and groups\<close>

definition dispatch_group_to_rendition_worker :: "audio_group \<Rightarrow> ('r, 'p) hls_worker \<Rightarrow> ('r, 'p) hls_worker" where
  "dispatch_group_to_rendition_worker g s =
     (case worker_now s of (now, s) \<Rightarrow>
      let key = rendition_key_of g in
      case map_of (hw_workers s) key of
        Some worker \<Rightarrow> s\<lparr>hw_workers := AList.update key
            (worker\<lparr>wk_last_seen := now, wk_queue := wk_queue worker @ [g]\<rparr>) (hw_workers s)\<rparr>
      | None \<Rightarrow> s\<lparr>hw_workers := AList.update key \<lparr>wk_queue = [g], wk_last_seen = now\<rparr> (hw_workers s),
            hw_stats := (hw_stats s)\<lparr>hs_active_workers := hs_active_workers (hw_stats s) + 1\<rparr>\<rparr>)"

definition handle_group :: "hls_config \<Rightarrow> audio_group \<Rightarrow> ('r, 'p) hls_worker \<Rightarrow> ('r, 'p) hls_worker" where
  "handle_group cfg g s =
     (let st = hw_stats s;
          s = s\<lparr>hw_completed := hw_completed s @ [g],
                hw_stats := st\<lparr>hs_groups_completed := hs_groups_completed st + 1,
                  hs_fragments_recovered := hs_fragments_recovered st + ucast (ag_recovered_fragments g)\<rparr>\<rparr>
      in if ag_payload_kind g \<notin> set (hc_formats cfg) then s else dispatch_group_to_rendition_worker g s)"

definition touch_receiver :: "'r receiver_api \<Rightarrow> 'p \<Rightarrow> nat \<Rightarrow> ('r, 'p) hls_worker \<Rightarrow> 'r \<times> ('r, 'p) hls_worker" where
  "touch_receiver api peer now s =
     (case map_of (hw_receivers s) peer of
        Some r \<Rightarrow> (rcv_receiver r, s)
      | None \<Rightarrow> (ra_new api, s\<lparr>hw_stats := (hw_stats s)\<lparr>hs_active_receivers := hs_active_receivers (hw_stats s) + 1\<rparr>\<rparr>))"

definition handle_datagram ::
    "'r receiver_api \<Rightarrow> hls_config \<Rightarrow> 'p \<Rightarrow> bytes \<Rightarrow> ('r, 'p) hls_worker \<Rightarrow> ('r, 'p) hls_worker" where
  "handle_datagram api cfg peer datagram s =
     (case ra_payload api datagram of None \<Rightarrow> s | Some payload \<Rightarrow>
      case worker_now s of (now, s) \<Rightarrow>
      case touch_receiver api peer now s of (r, s) \<Rightarrow>
      case ra_push api payload r of (outcome, r) \<Rightarrow>
      let s = s\<lparr>hw_receivers := AList.update peer \<lparr>rcv_receiver = r, rcv_last_seen = now\<rparr> (hw_receivers s)\<rparr>;
          st = hw_stats s in
      case outcome of
        None \<Rightarrow> s\<lparr>hw_stats := st\<lparr>hs_errors := hs_errors st + 1\<rparr>\<rparr>
      | Some groups \<Rightarrow> fold (handle_group cfg) groups (s\<lparr>hw_stats := st\<lparr>hs_datagrams := hs_datagrams st + 1\<rparr>\<rparr>))"

section \<open>Retirement and shutdown\<close>

definition idle_since :: "nat \<Rightarrow> nat \<Rightarrow> bool" where
  "idle_since now last_seen \<longleftrightarrow> audio_epoch_idle_timeout \<le> now - last_seen"

definition retire_idle_receivers :: "nat \<Rightarrow> ('r, 'p) hls_worker \<Rightarrow> ('r, 'p) hls_worker" where
  "retire_idle_receivers now s =
     (let before = length (hw_receivers s);
          kept = retain (\<lambda>_ r. \<not> idle_since now (rcv_last_seen r)) (hw_receivers s);
          retired = before - length kept; st = hw_stats s
      in s\<lparr>hw_receivers := kept,
           hw_stats := (if 0 < retired
             then st\<lparr>hs_active_receivers := hs_active_receivers st - of_nat retired,
                     hs_retired_receivers := hs_retired_receivers st + of_nat retired\<rparr> else st)\<rparr>)"

text \<open>Dropping the senders ends the channels; each worker then drains its queue and stops.\<close>

definition stop_rendition_workers :: "(rendition_key, rendition_worker) assoc \<Rightarrow> ('r, 'p) hls_worker \<Rightarrow> ('r, 'p) hls_worker" where
  "stop_rendition_workers ws s =
     s\<lparr>hw_finished := hw_finished s @ map (\<lambda>(k, w). (k, wk_queue w)) ws,
       hw_stats := (hw_stats s)\<lparr>hs_active_workers := hs_active_workers (hw_stats s) - of_nat (length ws)\<rparr>\<rparr>"

definition retire_idle_rendition_workers :: "nat \<Rightarrow> ('r, 'p) hls_worker \<Rightarrow> ('r, 'p) hls_worker" where
  "retire_idle_rendition_workers now s =
     (let idle = retain (\<lambda>_ w. idle_since now (wk_last_seen w)) (hw_workers s); st = hw_stats s
      in if idle = [] then s
         else stop_rendition_workers idle
           (s\<lparr>hw_workers := retain (\<lambda>_ w. \<not> idle_since now (wk_last_seen w)) (hw_workers s),
              hw_stats := st\<lparr>hs_retired_workers := hs_retired_workers st + of_nat (length idle)\<rparr>\<rparr>))"

definition idle_sweep :: "('r, 'p) hls_worker \<Rightarrow> ('r, 'p) hls_worker" where
  "idle_sweep s =
     (case worker_now s of (now, s) \<Rightarrow>
      case worker_now (retire_idle_receivers now s) of (now', s) \<Rightarrow> retire_idle_rendition_workers now' s)"

datatype 'p hls_event = Tick | Datagram 'p bytes

definition hls_event_step :: "'r receiver_api \<Rightarrow> hls_config \<Rightarrow> 'p hls_event \<Rightarrow> ('r, 'p) hls_worker \<Rightarrow> ('r, 'p) hls_worker" where
  "hls_event_step api cfg e s =
     (case e of Tick \<Rightarrow> idle_sweep s | Datagram peer d \<Rightarrow> handle_datagram api cfg peer d s)"

text \<open>
  The loop over events, then the drain of the datagrams still queued (whose refusals by the transport
  are dropped the same way), then the release of all receivers and workers.
\<close>

definition worker_shutdown :: "('r, 'p) hls_worker \<Rightarrow> ('r, 'p) hls_worker" where
  "worker_shutdown s =
     (let s = s\<lparr>hw_stats := (hw_stats s)\<lparr>hs_active_receivers :=
            hs_active_receivers (hw_stats s) - of_nat (length (hw_receivers s))\<rparr>, hw_receivers := []\<rparr>
      in (stop_rendition_workers (hw_workers s) s)\<lparr>hw_workers := []\<rparr>)"

definition run_audio_epoch_hls_worker ::
    "'r receiver_api \<Rightarrow> hls_config \<Rightarrow> 'p hls_event list \<Rightarrow> ('p \<times> bytes) list \<Rightarrow> ('r, 'p) hls_worker \<Rightarrow> ('r, 'p) hls_worker" where
  "run_audio_epoch_hls_worker api cfg events queued s =
     worker_shutdown (fold (\<lambda>(peer, d). handle_datagram api cfg peer d) queued (fold (hls_event_step api cfg) events s))"

section \<open>Accounting and routing\<close>

declare split_paired_All [simp del]

text \<open>What the worker of a key has been sent over its incarnations.\<close>

definition inputs_of :: "rendition_key \<Rightarrow> ('r, 'p) hls_worker \<Rightarrow> audio_group list" where
  "inputs_of k s = concat (map snd (filter (\<lambda>f. fst f = k) (hw_finished s)))
     @ (case map_of (hw_workers s) k of None \<Rightarrow> [] | Some w \<Rightarrow> wk_queue w)"

definition routed :: "hls_config \<Rightarrow> ('r, 'p) hls_worker \<Rightarrow> bool" where
  "routed cfg s \<longleftrightarrow> (\<forall>k. inputs_of k s
     = filter (\<lambda>g. rendition_key_of g = k \<and> ag_payload_kind g \<in> set (hc_formats cfg)) (hw_completed s))"

definition accounted :: "('r, 'p) hls_worker \<Rightarrow> bool" where
  "accounted s \<longleftrightarrow> wf_assoc (hw_receivers s) \<and> wf_assoc (hw_workers s)
     \<and> hs_active_receivers (hw_stats s) = of_nat (length (hw_receivers s))
     \<and> hs_active_workers (hw_stats s) = of_nat (length (hw_workers s))
     \<and> hs_groups_completed (hw_stats s) = of_nat (length (hw_completed s))"

definition worker_ok :: "hls_config \<Rightarrow> ('r, 'p) hls_worker \<Rightarrow> bool" where
  "worker_ok cfg s \<longleftrightarrow> accounted s \<and> routed cfg s"

lemma worker_ok_new: "worker_ok cfg (new_hls_worker clock)"
  by (simp add: worker_ok_def accounted_def routed_def inputs_of_def new_hls_worker_def zero_worker_stats_def)

lemma worker_ok_now: "worker_now s = (t, s') \<Longrightarrow> worker_ok cfg s \<Longrightarrow> worker_ok cfg s'"
  by (auto simp: worker_now_def worker_ok_def accounted_def routed_def inputs_of_def split: list.splits)

lemma worker_ok_stats:
  "worker_ok cfg s \<Longrightarrow> hs_active_receivers st = hs_active_receivers (hw_stats s)
    \<Longrightarrow> hs_active_workers st = hs_active_workers (hw_stats s)
    \<Longrightarrow> hs_groups_completed st = hs_groups_completed (hw_stats s) \<Longrightarrow> worker_ok cfg (s\<lparr>hw_stats := st\<rparr>)"
  by (simp add: worker_ok_def accounted_def routed_def inputs_of_def)

lemma worker_now_fields:
  "worker_now s = (t, s') \<Longrightarrow> hw_receivers s' = hw_receivers s \<and> hw_workers s' = hw_workers s
     \<and> hw_stats s' = hw_stats s \<and> hw_completed s' = hw_completed s \<and> hw_finished s' = hw_finished s"
  by (auto simp: worker_now_def split: list.splits)

lemma worker_ok_handle_group:
  assumes ok: "worker_ok cfg s"
  shows "worker_ok cfg (handle_group cfg g s)"
proof -
  let ?st = "hw_stats s"
  define s1 where "s1 = s\<lparr>hw_completed := hw_completed s @ [g],
    hw_stats := ?st\<lparr>hs_groups_completed := hs_groups_completed ?st + 1,
      hs_fragments_recovered := hs_fragments_recovered ?st + ucast (ag_recovered_fragments g)\<rparr>\<rparr>"
  have s1: "accounted s1" "inputs_of k s1 = inputs_of k s" for k
    using ok by (simp_all add: worker_ok_def accounted_def s1_def inputs_of_def)
  show ?thesis
  proof (cases "ag_payload_kind g \<in> set (hc_formats cfg)")
    case False
    with ok s1 show ?thesis
      by (auto simp: handle_group_def Let_def worker_ok_def routed_def simp flip: s1_def) (simp add: s1_def)
  next
    case True
    obtain now s2 where now: "worker_now s1 = (now, s2)" by fastforce
    note f = worker_now_fields [OF now]
    let ?k = "rendition_key_of g"
    have step: "handle_group cfg g s = dispatch_group_to_rendition_worker g s1"
      using True by (simp add: handle_group_def Let_def s1_def)
    have acc: "accounted s2" "inputs_of k s2 = inputs_of k s" for k
      using s1 f by (simp_all add: accounted_def inputs_of_def)
    have compl: "hw_completed s2 = hw_completed s @ [g]" using f by (simp add: s1_def)
    have inputs: "inputs_of k s = filter (\<lambda>g. rendition_key_of g = k \<and> ag_payload_kind g \<in> set (hc_formats cfg)) (hw_completed s)" for k
      using ok unfolding worker_ok_def routed_def by blast
    show ?thesis
    proof (cases "map_of (hw_workers s2) ?k")
      case None
      let ?s3 = "s2\<lparr>hw_workers := AList.update ?k \<lparr>wk_queue = [g], wk_last_seen = now\<rparr> (hw_workers s2),
            hw_stats := (hw_stats s2)\<lparr>hs_active_workers := hs_active_workers (hw_stats s2) + 1\<rparr>\<rparr>"
      have eq: "handle_group cfg g s = ?s3"
        using step now None by (simp add: dispatch_group_to_rendition_worker_def Let_def)
      have "inputs_of k ?s3 = inputs_of k s2 @ (if k = ?k then [g] else [])" for k
        using None by (simp add: inputs_of_def map_of_update)
      with acc inputs compl True have "routed cfg ?s3" by (simp add: routed_def)
      moreover have "accounted ?s3"
        using acc None by (simp add: accounted_def wf_assoc_update length_update contains_key_def)
      ultimately show ?thesis unfolding eq worker_ok_def by blast
    next
      case (Some w)
      let ?s3 = "s2\<lparr>hw_workers := AList.update ?k (w\<lparr>wk_last_seen := now, wk_queue := wk_queue w @ [g]\<rparr>) (hw_workers s2)\<rparr>"
      have eq: "handle_group cfg g s = ?s3"
        using step now Some by (simp add: dispatch_group_to_rendition_worker_def Let_def)
      have "inputs_of k ?s3 = inputs_of k s2 @ (if k = ?k then [g] else [])" for k
        using Some by (simp add: inputs_of_def map_of_update)
      with acc inputs compl True have "routed cfg ?s3" by (simp add: routed_def)
      moreover have "accounted ?s3"
        using acc Some by (simp add: accounted_def wf_assoc_update length_update contains_key_def)
      ultimately show ?thesis unfolding eq worker_ok_def by blast
    qed
  qed
qed

lemma worker_ok_fold: "(\<And>x s. worker_ok cfg s \<Longrightarrow> worker_ok cfg (f x s)) \<Longrightarrow> worker_ok cfg s \<Longrightarrow> worker_ok cfg (fold f xs s)"
  by (induction xs arbitrary: s) auto

lemma routed_cong:
  "hw_finished s' = hw_finished s \<Longrightarrow> hw_workers s' = hw_workers s \<Longrightarrow> hw_completed s' = hw_completed s
    \<Longrightarrow> routed cfg s' = routed cfg s"
  by (simp add: routed_def inputs_of_def)

lemma worker_ok_touched:
  assumes "touch_receiver api peer now s = (r, s1)" and "worker_ok cfg s"
  shows "worker_ok cfg (s1\<lparr>hw_receivers := AList.update peer v (hw_receivers s1)\<rparr>)" (is "worker_ok cfg ?s2")
proof -
  have "routed cfg ?s2 = routed cfg s"
    by (rule routed_cong) (use assms(1) in \<open>auto simp: touch_receiver_def split: option.splits\<close>)
  moreover have "accounted ?s2"
    using assms by (auto simp: touch_receiver_def worker_ok_def accounted_def wf_assoc_update length_update
        contains_key_def split: option.splits)
  ultimately show ?thesis using assms(2) by (simp add: worker_ok_def)
qed

lemma worker_ok_datagram:
  assumes "worker_ok cfg s"
  shows "worker_ok cfg (handle_datagram api cfg peer d s)"
proof (cases "ra_payload api d")
  case None
  with assms show ?thesis by (simp add: handle_datagram_def)
next
  case (Some payload)
  obtain now s1 where now: "worker_now s = (now, s1)" by fastforce
  obtain r s2 where touch: "touch_receiver api peer now s1 = (r, s2)" by fastforce
  obtain out r' where push: "ra_push api payload r = (out, r')" by fastforce
  let ?s3 = "s2\<lparr>hw_receivers := AList.update peer \<lparr>rcv_receiver = r', rcv_last_seen = now\<rparr> (hw_receivers s2)\<rparr>"
  have ok: "worker_ok cfg ?s3" using worker_ok_touched [OF touch] worker_ok_now [OF now assms] by blast
  show ?thesis
  proof (cases out)
    case None
    with ok Some now touch push show ?thesis by (simp add: handle_datagram_def Let_def worker_ok_stats)
  next
    case groups: (Some groups)
    have "worker_ok cfg (?s3\<lparr>hw_stats := (hw_stats ?s3)\<lparr>hs_datagrams := hs_datagrams (hw_stats ?s3) + 1\<rparr>\<rparr>)"
      using ok by (rule worker_ok_stats) simp_all
    then show ?thesis
      using Some now touch push groups by (simp add: handle_datagram_def Let_def worker_ok_fold worker_ok_handle_group)
  qed
qed

lemma length_retain_split: "length (retain P m) + length (retain (\<lambda>k v. \<not> P k v) m) = length m"
  unfolding retain_def split_def by (induction m) auto

lemma worker_ok_retire_receivers:
  assumes "worker_ok cfg s"
  shows "worker_ok cfg (retire_idle_receivers now s)"
proof -
  let ?kept = "retain (\<lambda>_ r. \<not> idle_since now (rcv_last_seen r)) (hw_receivers s)"
  have le: "length ?kept \<le> length (hw_receivers s)" by (rule length_retain)
  then have "(of_nat (length (hw_receivers s)) :: u64) - of_nat (length (hw_receivers s) - length ?kept) = of_nat (length ?kept)"
    by (simp add: of_nat_diff)
  with assms le show ?thesis
    by (auto simp: retire_idle_receivers_def Let_def worker_ok_def accounted_def routed_def inputs_of_def wf_assoc_retain)
qed

text \<open>Stopping entries that have left the live map: their queues become finished inputs.\<close>

lemma no_finished: "k \<notin> fst ` set m \<Longrightarrow> filter (\<lambda>f. fst f = k) (map (\<lambda>(k, w). (k, wk_queue w)) m) = []"
  by (induction m) auto

lemma finished_of_key:
  assumes "wf_assoc m"
  shows "concat (map snd (filter (\<lambda>f. fst f = k) (map (\<lambda>(k, w). (k, wk_queue w)) m)))
    = (case map_of m k of None \<Rightarrow> [] | Some w \<Rightarrow> wk_queue w)"
  using assms
proof (induction m)
  case Nil
  then show ?case by simp
next
  case (Cons kw m)
  obtain k' w where kw: "kw = (k', w)" by (cases kw)
  then have "k' \<notin> fst ` set m" using Cons.prems by (simp add: wf_assoc_def)
  note none = no_finished [OF this]
  show ?case
  proof (cases "k = k'")
    case True
    then show ?thesis using none by (simp add: kw)
  next
    case False
    with Cons show ?thesis by (simp add: kw wf_assoc_def)
  qed
qed

lemma worker_ok_stop:
  assumes ok: "worker_ok cfg s"
  shows "worker_ok cfg ((stop_rendition_workers (retain P (hw_workers s)) s)
    \<lparr>hw_workers := retain (\<lambda>k w. \<not> P k w) (hw_workers s)\<rparr>)"
proof -
  let ?m = "hw_workers s"
  have wf: "wf_assoc ?m" using ok by (simp add: worker_ok_def accounted_def)
  have "length ?m = length (retain P ?m) + length (retain (\<lambda>k w. \<not> P k w) ?m)" by (simp add: length_retain_split)
  then have "(of_nat (length ?m) :: u64) - of_nat (length (retain P ?m)) = of_nat (length (retain (\<lambda>k w. \<not> P k w) ?m))"
    by simp
  moreover have "inputs_of k ((stop_rendition_workers (retain P ?m) s)\<lparr>hw_workers := retain (\<lambda>k w. \<not> P k w) ?m\<rparr>) = inputs_of k s" for k
    using wf by (simp add: inputs_of_def stop_rendition_workers_def finished_of_key wf_assoc_retain map_of_retain
        split: option.split)
  ultimately show ?thesis
    using ok by (simp add: worker_ok_def accounted_def routed_def wf_assoc_retain stop_rendition_workers_def)
qed

lemma worker_ok_retire_workers:
  assumes "worker_ok cfg s"
  shows "worker_ok cfg (retire_idle_rendition_workers now s)"
proof -
  let ?P = "\<lambda>_ w. idle_since now (wk_last_seen w)"
  let ?n = "of_nat (length (retain ?P (hw_workers s)))"
  let ?s1 = "s\<lparr>hw_stats := (hw_stats s)\<lparr>hs_retired_workers := hs_retired_workers (hw_stats s) + ?n\<rparr>\<rparr>"
  have "worker_ok cfg ?s1" using assms by (rule worker_ok_stats) simp_all
  note stop = worker_ok_stop [OF this, of ?P]
  have "retire_idle_rendition_workers now s = (if retain ?P (hw_workers s) = [] then s
      else (stop_rendition_workers (retain ?P (hw_workers ?s1)) ?s1)\<lparr>hw_workers := retain (\<lambda>k w. \<not> ?P k w) (hw_workers ?s1)\<rparr>)"
    by (cases s) (simp add: retire_idle_rendition_workers_def Let_def stop_rendition_workers_def)
  then show ?thesis using assms stop by (simp del: hls_worker.simps)
qed

lemma worker_ok_step: "worker_ok cfg s \<Longrightarrow> worker_ok cfg (hls_event_step api cfg e s)"
  by (auto simp: hls_event_step_def idle_sweep_def worker_ok_datagram split: hls_event.split prod.split
      intro!: worker_ok_retire_workers dest: worker_ok_now)
    (meson worker_ok_now worker_ok_retire_receivers)

lemma worker_ok_events: "worker_ok cfg (fold (hls_event_step api cfg) events (new_hls_worker clock))"
  by (rule worker_ok_fold) (simp_all add: worker_ok_step worker_ok_new)

lemma worker_shutdown_ok:
  assumes "worker_ok cfg s"
  shows "worker_ok cfg (worker_shutdown s)" and "hw_receivers (worker_shutdown s) = []" and "hw_workers (worker_shutdown s) = []"
proof -
  let ?s1 = "s\<lparr>hw_stats := (hw_stats s)\<lparr>hs_active_receivers :=
      hs_active_receivers (hw_stats s) - of_nat (length (hw_receivers s))\<rparr>, hw_receivers := []\<rparr>"
  have "worker_ok cfg ?s1"
    using assms by (simp add: worker_ok_def accounted_def routed_def inputs_of_def)
  from worker_ok_stop [OF this, of "\<lambda>_ _. True"]
  show "worker_ok cfg (worker_shutdown s)"
    by (simp add: worker_shutdown_def Let_def retain_def)
  show "hw_receivers (worker_shutdown s) = []" and "hw_workers (worker_shutdown s) = []"
    by (simp_all add: worker_shutdown_def Let_def stop_rendition_workers_def)
qed

text \<open>The worker gauges are exact: over every sequence of datagrams and idle sweeps the active receiver and
  rendition worker counters equal the entries alive, under distinct keys, and both are zero again
  after shutdown.\<close>

theorem hls_worker_gauges_exact:
  "accounted (fold (hls_event_step api cfg) events (new_hls_worker clock))
   \<and> (let s = run_audio_epoch_hls_worker api cfg events queued (new_hls_worker clock)
      in hs_active_receivers (hw_stats s) = 0 \<and> hs_active_workers (hw_stats s) = 0)"
proof -
  let ?s = "fold (\<lambda>(peer, d). handle_datagram api cfg peer d) queued (fold (hls_event_step api cfg) events (new_hls_worker clock))"
  have "worker_ok cfg ?s"
    by (rule worker_ok_fold) (auto simp: worker_ok_datagram worker_ok_events)
  note fin = worker_shutdown_ok [OF this]
  show ?thesis
    using worker_ok_events [of cfg api events clock] fin
    by (auto simp: worker_ok_def run_audio_epoch_hls_worker_def accounted_def Let_def)
qed

text \<open>C20: Every recovered group of an enabled format reaches exactly one rendition worker and in order: after
  shutdown, the inputs of the successive workers of a key concatenate to the completed groups of that
  key, however idle sweeps retired and recreated them, and each worker only sees its own key.\<close>

theorem groups_reach_their_worker:
  fixes api :: "'r receiver_api" and clock :: "nat list" and events :: "'p hls_event list"
  shows "let s = run_audio_epoch_hls_worker api cfg events queued (new_hls_worker clock) in
    (\<forall>k. concat (map snd (filter (\<lambda>f. fst f = k) (hw_finished s)))
       = filter (\<lambda>g. rendition_key_of g = k \<and> ag_payload_kind g \<in> set (hc_formats cfg)) (hw_completed s))
    \<and> list_all (\<lambda>(k, gs). list_all (\<lambda>g. rendition_key_of g = k \<and> ag_payload_kind g \<in> set (hc_formats cfg)) gs) (hw_finished s)"
proof -
  let ?s = "fold (\<lambda>(peer, d). handle_datagram api cfg peer d) queued (fold (hls_event_step api cfg) events (new_hls_worker clock))"
  let ?f = "run_audio_epoch_hls_worker api cfg events queued (new_hls_worker clock)"
  have "worker_ok cfg ?s"
    by (rule worker_ok_fold) (auto simp: worker_ok_datagram worker_ok_events)
  note fin = worker_shutdown_ok [OF this]
  have routes: "concat (map snd (filter (\<lambda>f. fst f = k) (hw_finished ?f)))
       = filter (\<lambda>g. rendition_key_of g = k \<and> ag_payload_kind g \<in> set (hc_formats cfg)) (hw_completed ?f)" for k
    using fin by (auto simp: worker_ok_def routed_def inputs_of_def run_audio_epoch_hls_worker_def)
  have "rendition_key_of g = k \<and> ag_payload_kind g \<in> set (hc_formats cfg)"
    if "(k, gs) \<in> set (hw_finished ?f)" "g \<in> set gs" for k gs g
  proof -
    have "(k, gs) \<in> set (filter (\<lambda>f. fst f = k) (hw_finished ?f))" using that(1) by simp
    then have "g \<in> set (concat (map snd (filter (\<lambda>f. fst f = k) (hw_finished ?f))))"
      using that(2) unfolding set_concat set_map by (intro UN_I [of gs] image_eqI [of _ _ "(k, gs)"]) simp_all
    then show ?thesis unfolding routes by simp
  qed
  with routes show ?thesis by (auto simp: Let_def list_all_iff)
qed

end
