(* ===== verification/Telemetry.thy ===== *)
theory Telemetry
  imports Codec
begin

text \<open>
  The runtime telemetry of \<^verbatim>\<open>src/src/bin/av-contrib.rs\<close>: duration histograms, counters per path,
  per-stream and per-protocol records, the ingest sessions with their pruning, and the bounded lists of
  alerts and activity. The counters are the atomics of the code, which wrap; a \<^verbatim>\<open>now_unix_ms()\<close> reads
  the next value of a list of times. A hash map is an association list, so the order in which the code
  meets equally old sessions is one of the orders it may take. Socket addresses and error texts are
  strings.
\<close>

section \<open>Duration histograms\<close>

definition duration_histogram_buckets_us :: "u64 list" where
  "duration_histogram_buckets_us =
     [100, 250, 500, 1000, 2500, 5000, 10000, 25000, 50000, 100000, 250000, 500000, 1000000]"

record duration_histogram =
  dh_count :: u64
  dh_sum_us :: u64
  dh_max_us :: u64
  dh_buckets :: "u64 list"

definition default_histogram :: duration_histogram where
  "default_histogram = \<lparr>dh_count = 0, dh_sum_us = 0, dh_max_us = 0,
     dh_buckets = map (\<lambda>_. 0) duration_histogram_buckets_us\<rparr>"

definition clamp_duration_us :: "nat \<Rightarrow> u64" where
  "clamp_duration_us micros = (if micros < 2 ^ 64 then of_nat micros else - 1)"

definition histogram_record :: "nat \<Rightarrow> duration_histogram \<Rightarrow> duration_histogram" where
  "histogram_record micros h =
     (let d = clamp_duration_us micros in
      \<lparr>dh_count = dh_count h + 1, dh_sum_us = dh_sum_us h + d, dh_max_us = max (dh_max_us h) d,
       dh_buckets = map2 (\<lambda>bound n. if d \<le> bound then n + 1 else n) duration_histogram_buckets_us (dh_buckets h)\<rparr>)"

definition histogram_percentile_upper_bound_us :: "u64 \<Rightarrow> u64 list \<Rightarrow> u64 \<Rightarrow> u64 \<Rightarrow> u64 option" where
  "histogram_percentile_upper_bound_us n buckets percentile max_us =
     (if n = 0 then None
      else let rank = sat_add (sat_mul n percentile) 99 div 100 in
        case find (\<lambda>(bound, k). rank \<le> k) (zip duration_histogram_buckets_us buckets) of
          Some (bound, _) \<Rightarrow> Some bound
        | None \<Rightarrow> Some max_us)"

record histogram_snapshot =
  sn_count :: u64
  sn_sum_us :: u64
  sn_p95_us :: "u64 option"
  sn_buckets :: "u64 list"

definition histogram_snapshot_of :: "duration_histogram \<Rightarrow> histogram_snapshot" where
  "histogram_snapshot_of h = \<lparr>sn_count = dh_count h, sn_sum_us = dh_sum_us h,
     sn_p95_us = histogram_percentile_upper_bound_us (dh_count h) (dh_buckets h) 95 (dh_max_us h),
     sn_buckets = dh_buckets h\<rparr>"

section \<open>Records\<close>

record contrib_alert =
  al_level :: string
  al_code :: string
  al_message :: string
  al_count :: u64
  al_last_seen :: "u64 option"
  al_stream_id_text :: "string option"
  al_protocol :: "string option"

record contrib_activity =
  ac_level :: string
  ac_code :: string
  ac_message :: string
  ac_stream_id_text :: "string option"
  ac_bytes :: "u64 option"
  ac_datagrams :: "u64 option"
  ac_sequence :: "u64 option"
  ac_seen :: u64

record stream_runtime =
  sr_stream_id_text :: string
  sr_input_units :: u64
  sr_input_bytes :: u64
  sr_mesh_payloads :: u64
  sr_mesh_payload_bytes :: u64
  sr_mesh_datagrams :: u64
  sr_mesh_datagram_bytes :: u64
  sr_mesh_errors :: u64
  sr_fmp4_parts :: u64
  sr_fmp4_bytes :: u64
  sr_fmp4_init_bytes :: u64
  sr_fmp4_publish_errors :: u64
  sr_latest_fmp4_sequence :: "u64 option"
  sr_video_codec :: "string option"
  sr_video_width :: "u16 option"
  sr_video_height :: "u16 option"
  sr_video_parts :: u64
  sr_video_access_units :: u64
  sr_audio_codec :: "string option"
  sr_audio_parts :: u64
  sr_audio_access_units :: u64
  sr_last_input :: "u64 option"
  sr_last_mesh_forward :: "u64 option"
  sr_last_fmp4 :: "u64 option"

definition default_stream_runtime :: "u64 \<Rightarrow> stream_runtime" where
  "default_stream_runtime stream_id =
     \<lparr>sr_stream_id_text = to_string stream_id, sr_input_units = 0, sr_input_bytes = 0, sr_mesh_payloads = 0,
      sr_mesh_payload_bytes = 0, sr_mesh_datagrams = 0, sr_mesh_datagram_bytes = 0, sr_mesh_errors = 0,
      sr_fmp4_parts = 0, sr_fmp4_bytes = 0, sr_fmp4_init_bytes = 0, sr_fmp4_publish_errors = 0,
      sr_latest_fmp4_sequence = None, sr_video_codec = None, sr_video_width = None, sr_video_height = None,
      sr_video_parts = 0, sr_video_access_units = 0, sr_audio_codec = None, sr_audio_parts = 0,
      sr_audio_access_units = 0, sr_last_input = None, sr_last_mesh_forward = None, sr_last_fmp4 = None\<rparr>"

record protocol_runtime =
  pr_units :: u64
  pr_bytes :: u64
  pr_last_seen :: "u64 option"

definition default_protocol_runtime :: protocol_runtime where
  "default_protocol_runtime = \<lparr>pr_units = 0, pr_bytes = 0, pr_last_seen = None\<rparr>"

record ingest_session =
  is_session_id :: u64
  is_protocol :: string
  is_stream_id_text :: string
  is_output_stream_id_text :: "string option"
  is_output_stream_idx :: "nat option"
  is_peer :: "string option"
  is_path :: "string option"
  is_state :: string
  is_started :: u64
  is_last_seen :: u64
  is_ended :: "u64 option"
  is_body_slots :: u64
  is_bytes :: u64
  is_access_units :: u64
  is_end_reason :: "string option"

record mesh_lane_counters =
  ml_payloads :: u64
  ml_payload_bytes :: u64
  ml_datagrams :: u64
  ml_datagram_bytes :: u64
  ml_errors :: u64
  ml_last :: u64

record path_counters =
  pc_units :: u64
  pc_chunks :: u64
  pc_bytes :: u64
  pc_datagrams :: u64
  pc_last :: u64

record ts_counters =
  ts_slots :: u64
  ts_bytes :: u64
  ts_last :: u64
  ts_continuity_errors :: u64
  ts_continuity_dropped_bytes :: u64
  ts_payload_drops :: u64
  ts_payload_drop_bytes :: u64
  ts_last_error :: u64

record fmp4_counters =
  fc_parts :: u64
  fc_bytes :: u64
  fc_init_bytes :: u64
  fc_publish_errors :: u64
  fc_last_publish :: u64
  fc_video_width :: u64
  fc_video_height :: u64
  fc_video_parts :: u64
  fc_video_access_units :: u64
  fc_audio_parts :: u64
  fc_audio_access_units :: u64

record ingest_telemetry =
  tm_raw_http :: path_counters
  tm_media :: path_counters
  tm_rtmp :: path_counters
  tm_mesh_stream :: mesh_lane_counters
  tm_mesh_media :: mesh_lane_counters
  tm_mpeg_ts :: ts_counters
  tm_fmp4 :: fmp4_counters
  tm_sessions_started :: u64
  tm_sessions_ended :: u64
  tm_streams :: "(u64, stream_runtime) assoc"
  tm_protocols :: "(string, protocol_runtime) assoc"
  tm_sessions :: "(string, ingest_session) assoc"
  tm_alerts :: "contrib_alert list"
  tm_activity :: "contrib_activity list"
  tm_clock :: "u64 list"

definition zero_path :: path_counters where
  "zero_path = \<lparr>pc_units = 0, pc_chunks = 0, pc_bytes = 0, pc_datagrams = 0, pc_last = 0\<rparr>"

definition zero_mesh_lane :: mesh_lane_counters where
  "zero_mesh_lane = \<lparr>ml_payloads = 0, ml_payload_bytes = 0, ml_datagrams = 0, ml_datagram_bytes = 0,
     ml_errors = 0, ml_last = 0\<rparr>"

definition default_telemetry :: "u64 list \<Rightarrow> ingest_telemetry" where
  "default_telemetry clock =
     \<lparr>tm_raw_http = zero_path, tm_media = zero_path, tm_rtmp = zero_path,
      tm_mesh_stream = zero_mesh_lane, tm_mesh_media = zero_mesh_lane,
      tm_mpeg_ts = \<lparr>ts_slots = 0, ts_bytes = 0, ts_last = 0, ts_continuity_errors = 0,
        ts_continuity_dropped_bytes = 0, ts_payload_drops = 0, ts_payload_drop_bytes = 0, ts_last_error = 0\<rparr>,
      tm_fmp4 = \<lparr>fc_parts = 0, fc_bytes = 0, fc_init_bytes = 0, fc_publish_errors = 0, fc_last_publish = 0,
        fc_video_width = 0, fc_video_height = 0, fc_video_parts = 0, fc_video_access_units = 0,
        fc_audio_parts = 0, fc_audio_access_units = 0\<rparr>,
      tm_sessions_started = 0, tm_sessions_ended = 0, tm_streams = [], tm_protocols = [], tm_sessions = [],
      tm_alerts = [], tm_activity = [], tm_clock = clock\<rparr>"

definition tm_now :: "ingest_telemetry \<Rightarrow> u64 \<times> ingest_telemetry" where
  "tm_now t = (case tm_clock t of [] \<Rightarrow> (0, t) | n # ns \<Rightarrow> (n, t\<lparr>tm_clock := ns\<rparr>))"

section \<open>Bounded lists\<close>

definition contrib_activity_limit :: nat where "contrib_activity_limit = 64"
definition contrib_alert_limit :: nat where "contrib_alert_limit = 32"
definition contrib_ingest_session_limit :: nat where "contrib_ingest_session_limit = 48"

fun merge_alert :: "contrib_alert \<Rightarrow> contrib_alert list \<Rightarrow> contrib_alert list option" where
  "merge_alert a [] = None"
| "merge_alert a (x # xs) =
     (if al_code x = al_code a \<and> al_message x = al_message a
      then Some (x\<lparr>al_count := sat_add (al_count x) 1, al_last_seen := al_last_seen a\<rparr> # xs)
      else map_option (\<lambda>ys. x # ys) (merge_alert a xs))"

definition push_alert :: "contrib_alert \<Rightarrow> ingest_telemetry \<Rightarrow> ingest_telemetry" where
  "push_alert a t = t\<lparr>tm_alerts :=
     (case merge_alert a (tm_alerts t) of
        Some merged \<Rightarrow> merged
      | None \<Rightarrow> take contrib_alert_limit (a # tm_alerts t))\<rparr>"

definition push_activity :: "contrib_activity \<Rightarrow> ingest_telemetry \<Rightarrow> ingest_telemetry" where
  "push_activity a t = t\<lparr>tm_activity := take contrib_activity_limit (a # tm_activity t)\<rparr>"

definition should_sample_activity :: "u64 \<Rightarrow> u64 \<Rightarrow> bool" where
  "should_sample_activity n interval \<longleftrightarrow> n \<le> 3 \<or> n mod interval = 0"

definition update_stream_runtime :: "u64 \<Rightarrow> (stream_runtime \<Rightarrow> stream_runtime) \<Rightarrow> ingest_telemetry \<Rightarrow> ingest_telemetry" where
  "update_stream_runtime stream_id f t =
     (let r = (case map_of (tm_streams t) stream_id of None \<Rightarrow> default_stream_runtime stream_id | Some r \<Rightarrow> r)
      in t\<lparr>tm_streams := AList.update stream_id (f r) (tm_streams t)\<rparr>)"

definition record_protocol_unit :: "string \<Rightarrow> u64 \<Rightarrow> ingest_telemetry \<Rightarrow> ingest_telemetry" where
  "record_protocol_unit protocol bytes t =
     (case tm_now t of (now, t) \<Rightarrow>
      let r = (case map_of (tm_protocols t) protocol of None \<Rightarrow> default_protocol_runtime | Some r \<Rightarrow> r)
      in t\<lparr>tm_protocols := AList.update protocol
          (r\<lparr>pr_units := sat_add (pr_units r) 1, pr_bytes := sat_add (pr_bytes r) bytes, pr_last_seen := Some now\<rparr>)
          (tm_protocols t)\<rparr>)"

section \<open>Counters of the ingest paths\<close>

definition note_input :: "u64 \<Rightarrow> u64 \<Rightarrow> stream_runtime \<Rightarrow> stream_runtime" where
  "note_input bytes now r = r\<lparr>sr_input_units := sat_add (sr_input_units r) 1,
     sr_input_bytes := sat_add (sr_input_bytes r) bytes, sr_last_input := Some now\<rparr>"

definition info_activity :: "string \<Rightarrow> string \<Rightarrow> u64 \<Rightarrow> u64 option \<Rightarrow> u64 option \<Rightarrow> u64 option \<Rightarrow> u64 \<Rightarrow> contrib_activity" where
  "info_activity code message stream_id bytes datagrams sequence now =
     \<lparr>ac_level = ''info'', ac_code = code, ac_message = message, ac_stream_id_text = Some (to_string stream_id),
      ac_bytes = bytes, ac_datagrams = datagrams, ac_sequence = sequence, ac_seen = now\<rparr>"

definition record_raw_http :: "u64 \<Rightarrow> u64 \<Rightarrow> u64 \<Rightarrow> u64 \<Rightarrow> ingest_telemetry \<Rightarrow> ingest_telemetry" where
  "record_raw_http stream_id chunks bytes datagrams t =
     (case tm_now t of (now, t) \<Rightarrow>
      let c = tm_raw_http t; requests = pc_units c + 1;
          t = t\<lparr>tm_raw_http := \<lparr>pc_units = requests, pc_chunks = pc_chunks c + chunks, pc_bytes = pc_bytes c + bytes,
                 pc_datagrams = pc_datagrams c + datagrams, pc_last = now\<rparr>\<rparr>;
          t = update_stream_runtime stream_id (note_input bytes now) t
      in case tm_now t of (seen, t) \<Rightarrow>
        push_activity (info_activity ''raw_http_ingest''
          (''Raw HTTP ingest request '' @ to_string requests @ '' accepted '' @ to_string chunks
             @ '' chunks for stream '' @ to_string stream_id @ ''.'')
          stream_id (Some bytes) (Some datagrams) None seen) t)"

definition record_media_access_unit :: "u64 \<Rightarrow> u64 \<Rightarrow> u64 \<Rightarrow> ingest_telemetry \<Rightarrow> ingest_telemetry" where
  "record_media_access_unit stream_id payload_bytes datagrams t =
     (case tm_now t of (now, t) \<Rightarrow>
      let c = tm_media t; requests = pc_units c + 1;
          t = t\<lparr>tm_media := c\<lparr>pc_units := requests, pc_bytes := pc_bytes c + payload_bytes,
                 pc_datagrams := pc_datagrams c + datagrams, pc_last := now\<rparr>\<rparr>;
          t = update_stream_runtime stream_id (note_input payload_bytes now) t
      in if should_sample_activity requests 100
         then case tm_now t of (seen, t) \<Rightarrow>
           push_activity (info_activity ''media_access_unit''
             (''Forwarded media access unit '' @ to_string requests @ '' for stream '' @ to_string stream_id @ ''.'')
             stream_id (Some payload_bytes) (Some datagrams) None seen) t
         else t)"

definition record_rtmp_access_unit :: "u64 \<Rightarrow> nat \<Rightarrow> ingest_telemetry \<Rightarrow> ingest_telemetry" where
  "record_rtmp_access_unit stream_id bytes t =
     (case tm_now t of (now, t) \<Rightarrow>
      let c = tm_rtmp t; units = pc_units c + 1;
          t = t\<lparr>tm_rtmp := c\<lparr>pc_units := units, pc_bytes := pc_bytes c + of_nat bytes, pc_last := now\<rparr>\<rparr>;
          t = record_protocol_unit ''rtmp'' (of_nat bytes) t;
          t = update_stream_runtime stream_id (note_input (of_nat bytes) now) t
      in if should_sample_activity units 100
         then case tm_now t of (seen, t) \<Rightarrow>
           push_activity (info_activity ''rtmp_access_unit''
             (''Forwarded RTMP access unit '' @ to_string units @ '' for stream '' @ to_string stream_id @ ''.'')
             stream_id (Some (of_nat bytes)) None (Some units) seen) t
         else t)"

definition record_mpeg_ts_slot :: "string \<Rightarrow> u64 \<Rightarrow> nat \<Rightarrow> ingest_telemetry \<Rightarrow> ingest_telemetry" where
  "record_mpeg_ts_slot protocol stream_id bytes t =
     (case tm_now t of (now, t) \<Rightarrow>
      let c = tm_mpeg_ts t; slots = ts_slots c + 1;
          t = t\<lparr>tm_mpeg_ts := c\<lparr>ts_slots := slots, ts_bytes := ts_bytes c + of_nat bytes, ts_last := now\<rparr>\<rparr>;
          t = record_protocol_unit protocol (of_nat bytes) t;
          t = update_stream_runtime stream_id (note_input (of_nat bytes) now) t
      in if should_sample_activity slots 25
         then case tm_now t of (seen, t) \<Rightarrow>
           push_activity (info_activity ''mpeg_ts_slot''
             (''Read MPEG-TS slot '' @ to_string slots @ '' from '' @ protocol @ '' for stream ''
                @ to_string stream_id @ ''.'')
             stream_id (Some (of_nat bytes)) None (Some slots) seen) t
         else t)"

definition warn_activity :: "string \<Rightarrow> string \<Rightarrow> string option \<Rightarrow> u64 option \<Rightarrow> u64 option \<Rightarrow> u64 \<Rightarrow> contrib_activity" where
  "warn_activity code message stream bytes sequence now =
     \<lparr>ac_level = ''warn'', ac_code = code, ac_message = message, ac_stream_id_text = stream,
      ac_bytes = bytes, ac_datagrams = None, ac_sequence = sequence, ac_seen = now\<rparr>"

definition record_mpeg_ts_continuity_issue :: "string \<Rightarrow> nat \<Rightarrow> ingest_telemetry \<Rightarrow> ingest_telemetry" where
  "record_mpeg_ts_continuity_issue stream_type dropped t =
     (case tm_now t of (now, t) \<Rightarrow>
      let c = tm_mpeg_ts t; errors = ts_continuity_errors c + 1;
          t = t\<lparr>tm_mpeg_ts := c\<lparr>ts_continuity_errors := errors,
                 ts_continuity_dropped_bytes := ts_continuity_dropped_bytes c + of_nat dropped, ts_last_error := now\<rparr>\<rparr>
      in if should_sample_activity errors 25
         then push_activity (warn_activity ''mpeg_ts_continuity_error''
           (''MPEG-TS continuity error '' @ to_string errors @ '' on '' @ stream_type @ '' dropped ''
              @ dec_str dropped @ '' partial payload bytes.'')
           None (Some (of_nat dropped)) (Some errors) now) t
         else t)"

definition record_mpeg_ts_payload_drop :: "string \<Rightarrow> nat \<Rightarrow> ingest_telemetry \<Rightarrow> ingest_telemetry" where
  "record_mpeg_ts_payload_drop stream_type bytes t =
     (case tm_now t of (now, t) \<Rightarrow>
      let c = tm_mpeg_ts t; drops = ts_payload_drops c + 1;
          t = t\<lparr>tm_mpeg_ts := c\<lparr>ts_payload_drops := drops,
                 ts_payload_drop_bytes := ts_payload_drop_bytes c + of_nat bytes, ts_last_error := now\<rparr>\<rparr>
      in if should_sample_activity drops 25
         then push_activity (warn_activity ''mpeg_ts_payload_drop''
           (''Dropped oversized MPEG-TS '' @ stream_type @ '' PES payload of '' @ dec_str bytes @ '' bytes.'')
           None (Some (of_nat bytes)) (Some drops) now) t
         else t)"

section \<open>Mesh and fMP4 output\<close>

definition mesh_lane_of :: "string \<Rightarrow> ingest_telemetry \<Rightarrow> mesh_lane_counters" where
  "mesh_lane_of kind t = (if kind = ''media'' then tm_mesh_media t else tm_mesh_stream t)"

definition set_mesh_lane :: "string \<Rightarrow> mesh_lane_counters \<Rightarrow> ingest_telemetry \<Rightarrow> ingest_telemetry" where
  "set_mesh_lane kind c t = (if kind = ''media'' then t\<lparr>tm_mesh_media := c\<rparr> else t\<lparr>tm_mesh_stream := c\<rparr>)"

definition record_mesh_forward_success ::
    "string \<Rightarrow> u64 \<Rightarrow> string \<Rightarrow> u64 \<Rightarrow> u64 \<Rightarrow> u64 \<Rightarrow> ingest_telemetry \<Rightarrow> ingest_telemetry" where
  "record_mesh_forward_success kind stream_id target payload_bytes datagrams datagram_bytes t =
     (case tm_now t of (now, t) \<Rightarrow>
      let c = mesh_lane_of kind t; payloads = ml_payloads c + 1;
          t = set_mesh_lane kind
            (c\<lparr>ml_payloads := payloads, ml_payload_bytes := ml_payload_bytes c + payload_bytes,
               ml_datagrams := ml_datagrams c + datagrams,
               ml_datagram_bytes := ml_datagram_bytes c + datagram_bytes, ml_last := now\<rparr>) t;
          t = update_stream_runtime stream_id (\<lambda>r. r\<lparr>
            sr_mesh_payloads := sat_add (sr_mesh_payloads r) 1,
            sr_mesh_payload_bytes := sat_add (sr_mesh_payload_bytes r) payload_bytes,
            sr_mesh_datagrams := sat_add (sr_mesh_datagrams r) datagrams,
            sr_mesh_datagram_bytes := sat_add (sr_mesh_datagram_bytes r) datagram_bytes,
            sr_last_mesh_forward := Some now\<rparr>) t
      in if should_sample_activity payloads 100
         then push_activity (info_activity ''mesh_forward''
           (''Forwarded '' @ kind @ '' payload '' @ to_string payloads @ '' for stream '' @ to_string stream_id
              @ '' to mesh target '' @ target @ ''.'')
           stream_id (Some payload_bytes) (Some datagrams) (Some payloads) now) t
         else t)"

definition warn_alert :: "string \<Rightarrow> string \<Rightarrow> u64 \<Rightarrow> u64 \<Rightarrow> u64 \<Rightarrow> contrib_alert" where
  "warn_alert code message n now stream_id =
     \<lparr>al_level = ''warn'', al_code = code, al_message = message, al_count = n, al_last_seen = Some now,
      al_stream_id_text = Some (to_string stream_id), al_protocol = None\<rparr>"

definition record_mesh_forward_error :: "string \<Rightarrow> u64 \<Rightarrow> string \<Rightarrow> string \<Rightarrow> ingest_telemetry \<Rightarrow> ingest_telemetry" where
  "record_mesh_forward_error kind stream_id target error t =
     (case tm_now t of (now, t) \<Rightarrow>
      let c = mesh_lane_of kind t; errors = ml_errors c + 1;
          t = set_mesh_lane kind (c\<lparr>ml_errors := errors\<rparr>) t;
          t = update_stream_runtime stream_id (\<lambda>r. r\<lparr>sr_mesh_errors := sat_add (sr_mesh_errors r) 1,
            sr_last_mesh_forward := Some now\<rparr>) t;
          message = ''Failed to forward '' @ kind @ '' payload for stream '' @ to_string stream_id
            @ '' to mesh target '' @ target @ '': '' @ error;
          t = push_alert (warn_alert ''mesh_forward_error'' message errors now stream_id) t
      in push_activity (warn_activity ''mesh_forward_error'' message (Some (to_string stream_id)) None
           (Some errors) now) t)"

definition record_fmp4_part :: "u64 \<Rightarrow> nat \<Rightarrow> u64 \<Rightarrow> u64 \<Rightarrow> u64 \<Rightarrow> ingest_telemetry \<Rightarrow> ingest_telemetry" where
  "record_fmp4_part stream_id stream_idx sequence bytes init_bytes t =
     (case tm_now t of (now, t) \<Rightarrow>
      let c = tm_fmp4 t; parts = fc_parts c + 1;
          t = t\<lparr>tm_fmp4 := c\<lparr>fc_parts := parts, fc_bytes := fc_bytes c + bytes,
                 fc_init_bytes := fc_init_bytes c + init_bytes, fc_last_publish := now\<rparr>\<rparr>;
          t = update_stream_runtime stream_id (\<lambda>r. r\<lparr>
            sr_fmp4_parts := sat_add (sr_fmp4_parts r) 1, sr_fmp4_bytes := sat_add (sr_fmp4_bytes r) bytes,
            sr_fmp4_init_bytes := sat_add (sr_fmp4_init_bytes r) init_bytes,
            sr_latest_fmp4_sequence := Some sequence, sr_last_fmp4 := Some now\<rparr>) t
      in if should_sample_activity parts 25
         then case tm_now t of (seen, t) \<Rightarrow>
           push_activity (info_activity ''fmp4_part_published''
             (''Published fMP4 part '' @ to_string sequence @ '' for stream '' @ to_string stream_id
                @ '' idx '' @ dec_str stream_idx @ ''.'')
             stream_id (Some bytes) None (Some sequence) seen) t
         else t)"

definition note_tracks :: "u64 \<Rightarrow> u16 option \<Rightarrow> u16 option \<Rightarrow> nat \<Rightarrow> nat \<Rightarrow> stream_runtime \<Rightarrow> stream_runtime" where
  "note_tracks sequence width height video_units audio_units r =
     (let r = (if 0 < video_units then
                 let r = r\<lparr>sr_video_codec := Some ''h264''\<rparr>;
                     r = (case (width, height) of
                            (Some w, Some h) \<Rightarrow> r\<lparr>sr_video_width := Some w, sr_video_height := Some h\<rparr>
                          | _ \<Rightarrow> r)
                 in r\<lparr>sr_video_parts := sat_add (sr_video_parts r) 1,
                      sr_video_access_units := sat_add (sr_video_access_units r) (of_nat video_units)\<rparr>
               else r);
          r = (if 0 < audio_units then
                 r\<lparr>sr_audio_codec := Some ''aac'', sr_audio_parts := sat_add (sr_audio_parts r) 1,
                   sr_audio_access_units := sat_add (sr_audio_access_units r) (of_nat audio_units)\<rparr>
               else r)
      in r\<lparr>sr_latest_fmp4_sequence := Some sequence\<rparr>)"

definition record_fmp4_tracks ::
    "u64 \<Rightarrow> u64 \<Rightarrow> u16 option \<Rightarrow> u16 option \<Rightarrow> nat \<Rightarrow> nat \<Rightarrow> ingest_telemetry \<Rightarrow> ingest_telemetry" where
  "record_fmp4_tracks stream_id sequence width height video_units audio_units t =
     (let c = tm_fmp4 t;
          c = (case (width, height) of
                 (Some w, Some h) \<Rightarrow> c\<lparr>fc_video_width := ucast w, fc_video_height := ucast h\<rparr>
               | _ \<Rightarrow> c);
          c = (if 0 < video_units then c\<lparr>fc_video_parts := fc_video_parts c + 1,
                 fc_video_access_units := fc_video_access_units c + of_nat video_units\<rparr> else c);
          c = (if 0 < audio_units then c\<lparr>fc_audio_parts := fc_audio_parts c + 1,
                 fc_audio_access_units := fc_audio_access_units c + of_nat audio_units\<rparr> else c)
      in update_stream_runtime stream_id (note_tracks sequence width height video_units audio_units)
           (t\<lparr>tm_fmp4 := c\<rparr>))"

definition record_fmp4_publish_error :: "u64 \<Rightarrow> nat \<Rightarrow> u64 \<Rightarrow> string \<Rightarrow> ingest_telemetry \<Rightarrow> ingest_telemetry" where
  "record_fmp4_publish_error stream_id stream_idx sequence error t =
     (case tm_now t of (now, t) \<Rightarrow>
      let c = tm_fmp4 t;
          t = t\<lparr>tm_fmp4 := c\<lparr>fc_publish_errors := fc_publish_errors c + 1\<rparr>\<rparr>;
          t = update_stream_runtime stream_id (\<lambda>r. r\<lparr>
            sr_fmp4_publish_errors := sat_add (sr_fmp4_publish_errors r) 1,
            sr_latest_fmp4_sequence := Some sequence, sr_last_fmp4 := Some now\<rparr>) t;
          message = ''Failed to publish fMP4 part '' @ to_string sequence @ '' for stream '' @ to_string stream_id
            @ '' idx '' @ dec_str stream_idx @ '': '' @ error;
          t = push_alert (warn_alert ''fmp4_publish_error'' message 1 now stream_id) t
      in push_activity (warn_activity ''fmp4_publish_error'' message (Some (to_string stream_id)) None
           (Some sequence) now) t)"

section \<open>Ingest sessions\<close>

definition ingest_session_key :: "string \<Rightarrow> u64 \<Rightarrow> u64 \<Rightarrow> string" where
  "ingest_session_key protocol stream_id session_id =
     protocol @ '':'' @ to_string stream_id @ '':'' @ to_string session_id"

definition is_active_for :: "string \<Rightarrow> u64 \<Rightarrow> ingest_session \<Rightarrow> bool" where
  "is_active_for protocol stream_id s \<longleftrightarrow> is_protocol s = protocol
     \<and> is_stream_id_text s = to_string stream_id \<and> is_state s = ''active''"

text \<open>\<^verbatim>\<open>active_ingest_session_mut\<close>: the key and value of the first active session, if any.\<close>

definition active_ingest_session :: "string \<Rightarrow> u64 \<Rightarrow> (string, ingest_session) assoc \<Rightarrow> (string \<times> ingest_session) option" where
  "active_ingest_session protocol stream_id m = find (\<lambda>(k, s). is_active_for protocol stream_id s) m"

definition prune_ingest_sessions :: "(string, ingest_session) assoc \<Rightarrow> (string, ingest_session) assoc" where
  "prune_ingest_sessions m =
     (if length m \<le> contrib_ingest_session_limit * 2 then m
      else let inactive = sort_key (\<lambda>(k, seen). seen)
                 (map (\<lambda>(k, s). (k, is_last_seen s)) (filter (\<lambda>(k, s). is_state s \<noteq> ''active'') m));
               victims = take (length m - contrib_ingest_session_limit * 2) inactive
           in fold (\<lambda>(k, _). AList.delete k) victims m)"

definition ensure_ingest_session ::
    "string \<Rightarrow> u64 \<Rightarrow> u64 option \<Rightarrow> nat option \<Rightarrow> string option \<Rightarrow> string option \<Rightarrow> ingest_telemetry \<Rightarrow> ingest_telemetry" where
  "ensure_ingest_session protocol stream_id out_id out_idx peer path t =
     (case tm_now t of (now, t) \<Rightarrow>
      case active_ingest_session protocol stream_id (tm_sessions t) of
        Some (k, s) \<Rightarrow>
          let s = s\<lparr>is_last_seen := now,
                is_output_stream_id_text := (case out_id of Some i \<Rightarrow> Some (to_string i) | None \<Rightarrow> is_output_stream_id_text s),
                is_output_stream_idx := (case out_idx of Some i \<Rightarrow> Some i | None \<Rightarrow> is_output_stream_idx s),
                is_peer := (case peer of Some p \<Rightarrow> Some p | None \<Rightarrow> is_peer s),
                is_path := (case path of Some p \<Rightarrow> Some p | None \<Rightarrow> is_path s)\<rparr>
          in t\<lparr>tm_sessions := prune_ingest_sessions (AList.update k s (tm_sessions t))\<rparr>
      | None \<Rightarrow>
          let sequence = tm_sessions_started t + 1;
              s = \<lparr>is_session_id = sequence, is_protocol = protocol, is_stream_id_text = to_string stream_id,
                   is_output_stream_id_text = map_option to_string out_id, is_output_stream_idx = out_idx,
                   is_peer = peer, is_path = path, is_state = ''active'', is_started = now, is_last_seen = now,
                   is_ended = None, is_body_slots = 0, is_bytes = 0, is_access_units = 0, is_end_reason = None\<rparr>;
              t = t\<lparr>tm_sessions := prune_ingest_sessions
                      (AList.update (ingest_session_key protocol stream_id sequence) s (tm_sessions t)),
                    tm_sessions_started := sequence\<rparr>
          in push_activity (info_activity ''ingest_session_started''
               (protocol @ '' ingest session '' @ to_string sequence @ '' started for stream ''
                  @ to_string stream_id @ ''.'')
               stream_id None None (Some sequence) now) t)"

definition touch_session :: "string \<Rightarrow> u64 \<Rightarrow> (u64 \<Rightarrow> ingest_session \<Rightarrow> ingest_session) \<Rightarrow> ingest_telemetry \<Rightarrow> ingest_telemetry" where
  "touch_session protocol stream_id f t =
     (case tm_now (ensure_ingest_session protocol stream_id None None None None t) of (now, t) \<Rightarrow>
      case active_ingest_session protocol stream_id (tm_sessions t) of
        None \<Rightarrow> t
      | Some (k, s) \<Rightarrow> t\<lparr>tm_sessions := AList.update k ((f now s)\<lparr>is_last_seen := now\<rparr>) (tm_sessions t)\<rparr>)"

definition record_ingest_session_body :: "string \<Rightarrow> u64 \<Rightarrow> nat \<Rightarrow> ingest_telemetry \<Rightarrow> ingest_telemetry" where
  "record_ingest_session_body protocol stream_id bytes =
     touch_session protocol stream_id (\<lambda>now s. s\<lparr>is_body_slots := sat_add (is_body_slots s) 1,
       is_bytes := sat_add (is_bytes s) (of_nat bytes)\<rparr>)"

definition record_ingest_session_access_unit :: "string \<Rightarrow> u64 \<Rightarrow> nat \<Rightarrow> ingest_telemetry \<Rightarrow> ingest_telemetry" where
  "record_ingest_session_access_unit protocol stream_id bytes =
     touch_session protocol stream_id (\<lambda>now s. s\<lparr>is_access_units := sat_add (is_access_units s) 1,
       is_bytes := sat_add (is_bytes s) (of_nat bytes)\<rparr>)"

definition end_ingest_session :: "string \<Rightarrow> u64 \<Rightarrow> string \<Rightarrow> ingest_telemetry \<Rightarrow> ingest_telemetry" where
  "end_ingest_session protocol stream_id reason t =
     (case tm_now t of (now, t) \<Rightarrow>
      case active_ingest_session protocol stream_id (tm_sessions t) of
        None \<Rightarrow> t\<lparr>tm_sessions := prune_ingest_sessions (tm_sessions t)\<rparr>
      | Some (k, s) \<Rightarrow>
          let s = s\<lparr>is_state := ''ended'', is_last_seen := now, is_ended := Some now, is_end_reason := Some reason\<rparr>;
              ended_count = tm_sessions_ended t + 1;
              t = t\<lparr>tm_sessions := prune_ingest_sessions (AList.update k s (tm_sessions t)),
                    tm_sessions_ended := ended_count\<rparr>
          in push_activity (info_activity ''ingest_session_ended''
               (protocol @ '' ingest session ended for stream '' @ to_string stream_id @ '': '' @ reason @ ''.'')
               stream_id None None (Some ended_count) now) t)"

section \<open>Readings\<close>

definition nonzero_unix_ms :: "u64 \<Rightarrow> u64 option" where "nonzero_unix_ms v = (if v \<noteq> 0 then Some v else None)"

definition age_from_ms :: "u64 \<Rightarrow> u64 \<Rightarrow> u64 option" where
  "age_from_ms now v = map_option (\<lambda>seen. sat_sub now seen) (nonzero_unix_ms v)"

definition nonzero_u16 :: "u64 \<Rightarrow> u16 option" where
  "nonzero_u16 v = (if v \<noteq> 0 then Some (ucast (min v 65535)) else None)"

definition youngest_age :: "u64 option list \<Rightarrow> u64 option" where
  "youngest_age ages = (case List.map_filter id ages of [] \<Rightarrow> None | a # as \<Rightarrow> Some (fold min as a))"

record protocol_snapshot =
  ps_protocol :: string
  ps_units :: u64
  ps_bytes :: u64
  ps_active_sessions :: nat
  ps_ended_sessions :: nat
  ps_last_seen :: "u64 option"
  ps_last_seen_age :: "u64 option"

definition newest :: "u64 option list \<Rightarrow> u64 option" where
  "newest seen = (case List.map_filter id seen of [] \<Rightarrow> None | a # as \<Rightarrow> Some (fold max as a))"

definition protocol_snapshot_of :: "ingest_session list \<Rightarrow> u64 \<Rightarrow> string \<times> protocol_runtime \<Rightarrow> protocol_snapshot" where
  "protocol_snapshot_of sessions now e =
     (case e of (protocol, r) \<Rightarrow>
      let own = filter (\<lambda>s. is_protocol s = protocol) sessions;
          last = newest (pr_last_seen r # map (\<lambda>s. Some (is_last_seen s)) own)
      in \<lparr>ps_protocol = protocol, ps_units = pr_units r, ps_bytes = pr_bytes r,
          ps_active_sessions = length (filter (\<lambda>s. is_state s = ''active'') own),
          ps_ended_sessions = length (filter (\<lambda>s. is_state s = ''ended'') own),
          ps_last_seen = last, ps_last_seen_age = map_option (\<lambda>seen. sat_sub now seen) last\<rparr>)"

definition with_known_protocols :: "(string, protocol_runtime) assoc \<Rightarrow> (string, protocol_runtime) assoc" where
  "with_known_protocols m = fold (\<lambda>p m. if map_of m p = None then AList.update p default_protocol_runtime m else m)
     [''rist'', ''srt'', ''rtmp''] m"

definition active_ingest_sessions :: "ingest_telemetry \<Rightarrow> nat" where
  "active_ingest_sessions t = length (filter (\<lambda>(k, s). is_state s = ''active'') (tm_sessions t))"

end
