(* ===== verification/Telemetry_Facts.thy ===== *)
theory Telemetry_Facts
  imports Telemetry
begin

text \<open>
  What the telemetry promises: the 95th percentile a histogram reports covers the recorded durations,
  and over every history of telemetry calls the ingest sessions keep one active entry per protocol and
  stream, their counters agree with them, and every list stays bounded.
\<close>

section \<open>Histograms\<close>

lemma length_buckets [simp]: "length duration_histogram_buckets_us = 13"
  by (simp add: duration_histogram_buckets_us_def)

definition samples_within :: "u64 \<Rightarrow> nat list \<Rightarrow> nat" where
  "samples_within bound ds = length (filter (\<lambda>d. clamp_duration_us d \<le> bound) ds)"

lemma recorded_histogram:
  "fold histogram_record ds default_histogram =
     \<lparr>dh_count = of_nat (length ds), dh_sum_us = sum_list (map clamp_duration_us ds),
      dh_max_us = fold max (map clamp_duration_us ds) 0,
      dh_buckets = map (\<lambda>b. of_nat (samples_within b ds)) duration_histogram_buckets_us\<rparr>"
proof (induction ds rule: rev_induct)
  case Nil
  then show ?case by (simp add: default_histogram_def samples_within_def)
next
  case (snoc d ds)
  have more: "samples_within b (ds @ [d]) = samples_within b ds + (if clamp_duration_us d \<le> b then 1 else 0)" for b
    by (simp add: samples_within_def)
  have zip: "map2 f xs (map g xs) = map (\<lambda>x. f x (g x)) xs" for f and g :: "u64 \<Rightarrow> u64" and xs :: "u64 list"
    by (induction xs) simp_all
  have "map2 (\<lambda>bound n. if clamp_duration_us d \<le> bound then n + 1 else n) duration_histogram_buckets_us
      (map (\<lambda>b. of_nat (samples_within b ds)) duration_histogram_buckets_us)
    = map (\<lambda>b. of_nat (samples_within b (ds @ [d])) :: u64) duration_histogram_buckets_us"
    unfolding zip more by (rule map_cong) simp_all
  with snoc show ?case
    by (simp add: histogram_record_def Let_def add.commute max.commute)
qed

lemma le_fold_max: "(m :: u64) \<le> fold max ds m \<and> (d \<in> set ds \<longrightarrow> d \<le> fold max ds m)"
proof (induction ds arbitrary: m)
  case (Cons x ds)
  from Cons [of "max x m"] show ?case by auto
qed simp

lemma percentile_rank:
  assumes "n < 2 ^ 57"
  shows "unat (sat_add (sat_mul (of_nat n :: u64) 95) 99 div 100) = (95 * n + 99) div 100"
proof -
  have n: "unat (of_nat n :: u64) = n" using assms by (simp add: unat_of_nat)
  have "95 * n + 99 < 2 ^ 64" using assms by simp
  then show ?thesis by (simp add: unat_div unat_sat_add unat_sat_mul n mult.commute)
qed

lemma rank_le_iff: "(95 * n + 99) div 100 \<le> (k :: nat) \<longleftrightarrow> 95 * n \<le> 100 * k"
proof -
  have "(95 * n + 99) div 100 \<le> k \<longleftrightarrow> (95 * n + 99) div 100 < Suc k" by (simp only: less_Suc_eq_le)
  also have "\<dots> \<longleftrightarrow> 95 * n + 99 < Suc k * 100" by (rule div_less_iff_less_mult) simp
  finally show ?thesis by linarith
qed

lemma find_zip_map:
  "find (\<lambda>(b, k). P k) (zip xs (map f xs)) = map_option (\<lambda>b. (b, f b)) (find (\<lambda>b. P (f b)) xs)"
  by (induction xs) simp_all

lemma find_sorted:
  "sorted xs \<Longrightarrow> find P xs = Some x \<Longrightarrow> P x \<and> (\<forall>y \<in> set xs. y < x \<longrightarrow> \<not> P y)"
  by (induction xs) (auto split: if_splits)

lemma buckets_sorted: "sorted duration_histogram_buckets_us"
  by (simp add: duration_histogram_buckets_us_def)

text \<open>The reported 95th percentile covers at least 95 percent of the recorded durations, and no smaller
  bucket bound does, for up to 2^57 samples; a histogram without samples reports none.\<close>

theorem p95_covers:
  assumes "ds \<noteq> []" and "length ds < 2 ^ 57"
  shows "\<exists>p. sn_p95_us (histogram_snapshot_of (fold histogram_record ds default_histogram)) = Some p
    \<and> 95 * length ds \<le> 100 * samples_within p ds
    \<and> (\<forall>b \<in> set duration_histogram_buckets_us. b < p \<longrightarrow> 100 * samples_within b ds < 95 * length ds)"
proof -
  let ?n = "length ds" and ?max = "fold max (map clamp_duration_us ds) 0"
  let ?covers = "\<lambda>b. 95 * ?n \<le> 100 * samples_within b ds"
  have pow: "(2 :: nat) ^ 57 \<le> 2 ^ 64" by simp
  have n: "unat (of_nat ?n :: u64) = ?n" using assms(2) pow by (simp add: unat_of_nat)
  then have nz: "(of_nat ?n :: u64) \<noteq> 0" using assms(1) by (metis length_0_conv unat_0)
  have within: "samples_within b ds < 2 ^ 64" for b
    using length_filter_le [of "\<lambda>d. clamp_duration_us d \<le> b" ds] assms(2) pow
    unfolding samples_within_def by linarith
  have rank: "sat_add (sat_mul (of_nat ?n :: u64) 95) 99 div 100 \<le> of_nat (samples_within b ds) \<longleftrightarrow> ?covers b" for b
    unfolding word_le_nat_alt percentile_rank [OF assms(2)] using within [of b]
    by (simp add: unat_of_nat rank_le_iff)
  have p95: "sn_p95_us (histogram_snapshot_of (fold histogram_record ds default_histogram))
      = (case find ?covers duration_histogram_buckets_us of Some b \<Rightarrow> Some b | None \<Rightarrow> Some ?max)"
    using nz by (simp add: histogram_snapshot_of_def recorded_histogram histogram_percentile_upper_bound_us_def
        Let_def find_zip_map rank split: option.split)
  show ?thesis
  proof (cases "find ?covers duration_histogram_buckets_us")
    case (Some b)
    with find_sorted [OF buckets_sorted Some] p95 show ?thesis by (auto simp: not_le)
  next
    case None
    have "samples_within ?max ds = ?n"
      using le_fold_max [of 0 "map clamp_duration_us ds"]
      by (simp add: samples_within_def filter_id_conv)
    moreover have "\<forall>b \<in> set duration_histogram_buckets_us. 100 * samples_within b ds < 95 * ?n"
      using None by (simp add: find_None_iff not_le)
    moreover from p95 have "sn_p95_us (histogram_snapshot_of (fold histogram_record ds default_histogram)) = Some ?max"
      unfolding None by simp
    ultimately show ?thesis by (intro exI [of _ ?max]) simp
  qed
qed

lemma p95_covers_witness:
  "\<exists>p. sn_p95_us (histogram_snapshot_of (fold histogram_record [90, 300, 2000000] default_histogram)) = Some p
    \<and> 95 * length [90, 300, 2000000 :: nat] \<le> 100 * samples_within p [90, 300, 2000000]"
proof -
  have short: "length [90, 300, 2000000 :: nat] < 2 ^ 57" by simp
  from p95_covers [OF _ short] show ?thesis by blast
qed

section \<open>Sessions\<close>

definition active_entry :: "string \<times> ingest_session \<Rightarrow> bool" where
  "active_entry e \<longleftrightarrow> is_state (snd e) = ''active''"

definition active_total :: "(string, ingest_session) assoc \<Rightarrow> nat" where
  "active_total m = length (filter active_entry m)"

lemma count_update:
  assumes "wf_assoc m" and "map_of m k = Some v"
  shows "length (filter P (AList.update k w m)) + (if P (k, v) then 1 else 0)
    = length (filter P m) + (if P (k, w) then 1 else 0)"
  using assms
proof (induction m)
  case (Cons e m)
  then show ?case by (cases e) (auto simp: wf_assoc_def split: if_splits)
qed simp

lemma count_insert:
  "\<not> contains_key k m \<Longrightarrow> length (filter P (AList.update k w m)) = length (filter P m) + (if P (k, w) then 1 else 0)"
  by (induction m) (auto simp: contains_key_def split: if_splits)

lemma delete_filter: "AList.delete k m = filter (\<lambda>e. fst e \<noteq> k) m"
  unfolding AList.delete_eq by (rule filter_cong) auto

lemma delete_all: "fold (\<lambda>(k, _). AList.delete k) vs m = filter (\<lambda>e. fst e \<notin> fst ` set vs) m"
proof (induction vs arbitrary: m)
  case (Cons v vs)
  have "fold (\<lambda>(k, _). AList.delete k) (v # vs) m = fold (\<lambda>(k, _). AList.delete k) vs (AList.delete (fst v) m)"
    by (cases v) simp
  also have "\<dots> = filter (\<lambda>e. fst e \<notin> fst ` set vs) (AList.delete (fst v) m)" by (rule Cons.IH)
  finally show ?case unfolding delete_filter filter_filter by (auto intro: filter_cong)
qed simp

lemma filter_keys_length:
  assumes "wf_assoc m" and "distinct ks" and "set ks \<subseteq> fst ` set m"
  shows "length (filter (\<lambda>e. fst e \<notin> set ks) m) = length m - length ks"
proof -
  have "length (filter (\<lambda>e. fst e \<in> set ks) m) = length (filter (\<lambda>k. k \<in> set ks) (map fst m))"
    by (induction m) simp_all
  also have "\<dots> = card (set (filter (\<lambda>k. k \<in> set ks) (map fst m)))"
    using assms(1) by (intro distinct_card [symmetric] distinct_filter) (simp add: wf_assoc_def)
  also have "set (filter (\<lambda>k. k \<in> set ks) (map fst m)) = set ks" using assms(3) by auto
  finally have "length (filter (\<lambda>e. fst e \<in> set ks) m) = length ks" using assms(2) by (simp add: distinct_card)
  with sum_length_filter_compl [of "\<lambda>e. fst e \<in> set ks" m] show ?thesis by simp
qed

lemma prune_facts:
  assumes wf: "wf_assoc m"
  shows "wf_assoc (prune_ingest_sessions m)" and "set (prune_ingest_sessions m) \<subseteq> set m"
    and "filter active_entry (prune_ingest_sessions m) = filter active_entry m"
    and "length (prune_ingest_sessions m) \<le> max 96 (active_total m)"
proof -
  have *: "wf_assoc (prune_ingest_sessions m) \<and> set (prune_ingest_sessions m) \<subseteq> set m
    \<and> filter active_entry (prune_ingest_sessions m) = filter active_entry m
    \<and> length (prune_ingest_sessions m) \<le> max 96 (active_total m)"
  proof (cases "length m \<le> 96")
    case True
    with wf show ?thesis by (simp add: prune_ingest_sessions_def contrib_ingest_session_limit_def)
  next
    case False
    let ?in = "map (\<lambda>(k, s). (k, is_last_seen s)) (filter (\<lambda>(k, s). is_state s \<noteq> ''active'') m)"
    let ?sorted = "sort_key (\<lambda>(k, seen). seen) ?in"
    let ?vs = "take (length m - 96) ?sorted"
    have prune: "prune_ingest_sessions m = filter (\<lambda>e. fst e \<notin> set (map fst ?vs)) m"
      using False by (simp add: prune_ingest_sessions_def contrib_ingest_session_limit_def delete_all Let_def)
    have keys_in: "map fst ?in = map fst (filter (\<lambda>e. \<not> active_entry e) m)"
      by (induction m) (auto simp: active_entry_def)
    have dis: "distinct (map fst ?in)" unfolding keys_in using wf by (simp add: wf_assoc_def distinct_map_filter)
    have "distinct (map fst ?sorted)"
      using dis unfolding distinct_map set_sort distinct_sort .
    then have dvs: "distinct (map fst ?vs)" unfolding take_map [symmetric] by (rule distinct_take)
    have sub: "set (map fst ?vs) \<subseteq> fst ` set (filter (\<lambda>e. \<not> active_entry e) m)"
    proof -
      have "set (map fst ?vs) \<subseteq> set (map fst ?sorted)" 
        unfolding take_map [symmetric] by (rule set_take_subset)
      also have "\<dots> = set (map fst ?in)" by (simp only: set_map set_sort)
      finally show ?thesis unfolding keys_in by simp
    qed
    have inactive: "fst e \<notin> set (map fst ?vs)" if "e \<in> set m" "active_entry e" for e
    proof
      assume "fst e \<in> set (map fst ?vs)"
      with sub obtain e' where e': "e' \<in> set m" "\<not> active_entry e'" "fst e' = fst e" by auto
      with that wf have "e' = e" by (metis eq_key_imp_eq_value prod.collapse wf_assoc_def)
      with e' that show False by simp
    qed
    have act: "filter active_entry (prune_ingest_sessions m) = filter active_entry m"
      unfolding prune filter_filter using inactive by (intro filter_cong) auto
    have "length (prune_ingest_sessions m) = length m - length (map fst ?vs)"
      unfolding prune using sub by (intro filter_keys_length [OF wf dvs]) auto
    also have "length (map fst ?vs) = min (length m - 96) (length m - active_total m)"
    proof -
      have "length (map fst ?in) = length (filter (\<lambda>e. \<not> active_entry e) m)" unfolding keys_in by simp
      moreover have "length (filter (\<lambda>e. \<not> active_entry e) m) = length m - active_total m"
        using sum_length_filter_compl [of active_entry m] by (simp add: active_total_def)
      ultimately show ?thesis by (simp add: min.commute)
    qed
    finally have "length (prune_ingest_sessions m) \<le> max 96 (active_total m)" using False by linarith
    with act wf show ?thesis unfolding prune by (auto simp: wf_assoc_def distinct_map_filter)
  qed
  then show "wf_assoc (prune_ingest_sessions m)" and "set (prune_ingest_sessions m) \<subseteq> set m"
    and "filter active_entry (prune_ingest_sessions m) = filter active_entry m"
    and "length (prune_ingest_sessions m) \<le> max 96 (active_total m)" by blast+
qed

text \<open>Session keys determine protocol, stream and number.\<close>

lemma to_string_no_colon: "CHR '':'' \<notin> set (to_string w)"
  using all_digits_dec_str [of "unat w"]
  by (auto simp: to_string_def list_all_iff is_ascii_digit_def char_code_def all_digits_def)

lemma first_field:
  "xs @ c # ys = xs' @ c # ys' \<Longrightarrow> c \<notin> set xs \<Longrightarrow> c \<notin> set xs' \<Longrightarrow> xs = xs' \<and> ys = ys'"
proof (induction xs arbitrary: xs')
  case Nil
  then show ?case by (cases xs') auto
next
  case (Cons x xs)
  then show ?case by (cases xs') auto
qed

lemma last_field:
  assumes "a @ c # u = b @ c # v" and "c \<notin> set u" and "c \<notin> set v"
  shows "a = b \<and> u = v"
proof -
  have "rev u @ c # rev a = rev v @ c # rev b" using arg_cong [OF assms(1), of rev] by simp
  from first_field [OF this] assms(2,3) show ?thesis by simp
qed

lemma to_string_inj: "to_string (a :: 'a::len word) = to_string b \<longleftrightarrow> a = b"
  by (metis option.inject parse_uint_to_string)

lemma session_key_inj:
  assumes "ingest_session_key p s n = ingest_session_key p' s' n'"
  shows "p = p' \<and> s = s' \<and> n = n'"
proof -
  from assms have "(p @ CHR '':'' # to_string s) @ CHR '':'' # to_string n
      = (p' @ CHR '':'' # to_string s') @ CHR '':'' # to_string n'"
    by (simp add: ingest_session_key_def)
  from last_field [OF this] to_string_no_colon
  have "p @ CHR '':'' # to_string s = p' @ CHR '':'' # to_string s'" and "n = n'" by (auto simp: to_string_inj)
  with last_field [OF this(1)] to_string_no_colon show ?thesis by (auto simp: to_string_inj)
qed

definition key_matches :: "string \<times> ingest_session \<Rightarrow> bool" where
  "key_matches e \<longleftrightarrow> (\<exists>n sid. is_stream_id_text (snd e) = to_string sid
     \<and> fst e = ingest_session_key (is_protocol (snd e)) sid n)"

definition same_input :: "ingest_session \<Rightarrow> ingest_session \<Rightarrow> bool" where
  "same_input a b \<longleftrightarrow> is_protocol a = is_protocol b \<and> is_stream_id_text a = is_stream_id_text b"

definition one_active :: "(string, ingest_session) assoc \<Rightarrow> bool" where
  "one_active m \<longleftrightarrow> (\<forall>e \<in> set m. \<forall>e' \<in> set m. active_entry e \<and> active_entry e' \<and> same_input (snd e) (snd e') \<longrightarrow> e = e')"

definition table_ok :: "(string, ingest_session) assoc \<Rightarrow> bool" where
  "table_ok m \<longleftrightarrow> wf_assoc m \<and> (\<forall>e \<in> set m. key_matches e) \<and> one_active m"

lemma table_prune: "table_ok m \<Longrightarrow> table_ok (prune_ingest_sessions m)"
  using prune_facts(1,2) [of m] unfolding table_ok_def one_active_def by blast

lemma active_prune: "table_ok m \<Longrightarrow> active_total (prune_ingest_sessions m) = active_total m"
  using prune_facts(3) [of m] by (simp add: table_ok_def active_total_def)

lemma active_session_Some:
  "active_ingest_session p s m = Some (k, v) \<Longrightarrow> (k, v) \<in> set m \<and> is_active_for p s v"
  by (auto simp: active_ingest_session_def find_Some_iff in_set_conv_nth)

lemma active_session_None:
  "active_ingest_session p s m = None \<Longrightarrow> (k, v) \<in> set m \<Longrightarrow> \<not> is_active_for p s v"
  by (auto simp: active_ingest_session_def find_None_iff)

text \<open>Changing the active session of an input, keeping its protocol and stream.\<close>

lemma table_change:
  assumes ok: "table_ok m" and found: "active_ingest_session p s m = Some (k, v)"
    and same: "same_input w v"
  shows "table_ok (AList.update k w m)"
    and "active_total (AList.update k w m) = (if is_state w = ''active'' then active_total m else active_total m - 1)"
    and "0 < active_total m" and "length (AList.update k w m) = length m"
proof -
  from ok have wf: "wf_assoc m" and keys: "\<And>e. e \<in> set m \<Longrightarrow> key_matches e" and one: "one_active m"
    by (auto simp: table_ok_def)
  from active_session_Some [OF found] have mem: "(k, v) \<in> set m" and act: "is_active_for p s v" by auto
  have look: "map_of m k = Some v" using wf mem by (simp add: wf_assoc_def)
  have av: "active_entry (k, v)" using act by (simp add: active_entry_def is_active_for_def)
  note setu = set_update [OF wf, of k w]
  have "key_matches (k, w)" using keys [OF mem] same by (simp add: key_matches_def same_input_def)
  moreover have "e = e'" if "e \<in> set (AList.update k w m)" "e' \<in> set (AList.update k w m)"
    "active_entry e" "active_entry e'" "same_input (snd e) (snd e')" for e e'
  proof -
    have rival: False if "e'' \<in> set m" "fst e'' \<noteq> k" "active_entry e''" "same_input (snd e'') w" for e''
    proof -
      have "same_input (snd e'') v" using that(4) same by (simp add: same_input_def)
      with one mem av that have "e'' = (k, v)" by (force simp: one_active_def)
      with that(2) show False by simp
    qed
    from that(1,2) consider "e = (k, w)" "e' = (k, w)" | "e = (k, w)" "e' \<in> set m" "fst e' \<noteq> k"
      | "e' = (k, w)" "e \<in> set m" "fst e \<noteq> k" | "e \<in> set m" "e' \<in> set m"
      unfolding setu by auto
    then show ?thesis
    proof cases
      case 2
      with rival [of e'] that show ?thesis by (auto simp: same_input_def)
    next
      case 3
      with rival [of e] that show ?thesis by (auto simp: same_input_def)
    next
      case 4
      with one that show ?thesis by (auto simp: one_active_def)
    qed simp
  qed
  ultimately show "table_ok (AList.update k w m)"
    using wf keys wf_assoc_update [OF wf, of k w] unfolding table_ok_def one_active_def setu by blast
  show "active_total (AList.update k w m) = (if is_state w = ''active'' then active_total m else active_total m - 1)"
    using count_update [OF wf look, of active_entry w] av by (auto simp: active_total_def active_entry_def)
  show "0 < active_total m" using mem av by (auto simp: active_total_def filter_empty_conv)
  show "length (AList.update k w m) = length m" using look by (simp add: length_update contains_key_def)
qed

text \<open>Starting a session when none is active.\<close>

lemma table_start:
  assumes ok: "table_ok m" and none: "active_ingest_session p s m = None"
    and w: "is_protocol w = p" "is_stream_id_text w = to_string s" "is_state w = ''active''"
  shows "table_ok (AList.update (ingest_session_key p s n) w m)"
    and "active_total (AList.update (ingest_session_key p s n) w m) = Suc (active_total m)"
proof -
  let ?k = "ingest_session_key p s n"
  from ok have wf: "wf_assoc m" and keys: "\<And>e. e \<in> set m \<Longrightarrow> key_matches e" and one: "one_active m"
    by (auto simp: table_ok_def)
  note setu = set_update [OF wf, of ?k w]
  have key: "key_matches (?k, w)" using w by (auto simp: key_matches_def)
  have fresh: "\<not> active_entry e \<or> \<not> same_input (snd e) w" if "e \<in> set m" for e
    using active_session_None [OF none, of "fst e" "snd e"] that w
    by (auto simp: active_entry_def same_input_def is_active_for_def)
  show "table_ok (AList.update ?k w m)"
    unfolding table_ok_def one_active_def setu
  proof (intro conjI ballI impI)
    show "wf_assoc (AList.update ?k w m)" using wf by (rule wf_assoc_update)
    show "key_matches e" if "e \<in> insert (?k, w) {(k', v'). (k', v') \<in> set m \<and> k' \<noteq> ?k}" for e
      using that key keys by auto
    show "e = e'" if "e \<in> insert (?k, w) {(k', v'). (k', v') \<in> set m \<and> k' \<noteq> ?k}"
      and "e' \<in> insert (?k, w) {(k', v'). (k', v') \<in> set m \<and> k' \<noteq> ?k}"
      and "active_entry e \<and> active_entry e' \<and> same_input (snd e) (snd e')" for e e'
    proof -
      from that(1,2) consider "e = (?k, w)" "e' = (?k, w)" | "e = (?k, w)" "e' \<in> set m"
        | "e' = (?k, w)" "e \<in> set m" | "e \<in> set m" "e' \<in> set m" by auto
      then show ?thesis
      proof cases
        case 2
        with fresh [of e'] that(3) show ?thesis by (simp add: same_input_def)
      next
        case 3
        with fresh [of e] that(3) show ?thesis by (simp add: same_input_def)
      next
        case 4
        with one that(3) show ?thesis unfolding one_active_def by blast
      qed simp
    qed
  qed
  show "active_total (AList.update ?k w m) = Suc (active_total m)"
  proof (cases "map_of m ?k")
    case None
    then show ?thesis using count_insert [of ?k m active_entry w] w
      by (simp add: active_total_def contains_key_def active_entry_def)
  next
    case (Some v)
    then have mem: "(?k, v) \<in> set m" by (rule map_of_SomeD)
    from keys [OF this] obtain n' sid where "is_stream_id_text v = to_string sid"
      and "?k = ingest_session_key (is_protocol v) sid n'" by (auto simp: key_matches_def)
    with session_key_inj [of p s n "is_protocol v" sid n'] w have "same_input v w" by (simp add: same_input_def)
    with fresh [OF mem] have "\<not> active_entry (?k, v)" by simp
    with count_update [OF wf Some, of active_entry w] w show ?thesis
      by (simp add: active_total_def active_entry_def)
  qed
qed

section \<open>Over every history\<close>

definition telemetry_ok :: "ingest_telemetry \<Rightarrow> bool" where
  "telemetry_ok t \<longleftrightarrow> table_ok (tm_sessions t)
     \<and> tm_sessions_started t = tm_sessions_ended t + of_nat (active_total (tm_sessions t))
     \<and> length (tm_sessions t) \<le> max 96 (active_total (tm_sessions t))
     \<and> length (tm_alerts t) \<le> contrib_alert_limit \<and> length (tm_activity t) \<le> contrib_activity_limit"

lemma telemetry_ok_cong:
  assumes "telemetry_ok t" and "tm_sessions t' = tm_sessions t" and "tm_sessions_started t' = tm_sessions_started t"
    and "tm_sessions_ended t' = tm_sessions_ended t"
    and "length (tm_alerts t') \<le> contrib_alert_limit" and "length (tm_activity t') \<le> contrib_activity_limit"
  shows "telemetry_ok t'"
  using assms by (simp add: telemetry_ok_def)

lemma length_merge_alert: "merge_alert a xs = Some ys \<Longrightarrow> length ys = length xs"
  by (induction xs arbitrary: ys) (auto split: if_splits)

named_theorems telemetry_keeps \<open>operations that keep the telemetry invariant\<close>

lemma ok_push_alert [telemetry_keeps]: "telemetry_ok t \<Longrightarrow> telemetry_ok (push_alert a t)"
  by (auto simp: telemetry_ok_def push_alert_def dest: length_merge_alert split: option.splits)

lemma ok_push_activity [telemetry_keeps]: "telemetry_ok t \<Longrightarrow> telemetry_ok (push_activity a t)"
  by (simp add: telemetry_ok_def push_activity_def)

lemma ok_update_stream [telemetry_keeps]: "telemetry_ok t \<Longrightarrow> telemetry_ok (update_stream_runtime s f t)"
  by (simp add: telemetry_ok_def update_stream_runtime_def Let_def)

lemma ok_now: "tm_now t = (n, t') \<Longrightarrow> telemetry_ok t \<Longrightarrow> telemetry_ok t'"
  by (auto simp: telemetry_ok_def tm_now_def split: list.splits)

lemma now_sessions: "tm_now t = (n, t') \<Longrightarrow> tm_sessions t' = tm_sessions t"
  by (auto simp: tm_now_def split: list.splits)

lemma ok_counters [telemetry_keeps]:
  "telemetry_ok t \<Longrightarrow> telemetry_ok (t\<lparr>tm_raw_http := a\<rparr>)" "telemetry_ok t \<Longrightarrow> telemetry_ok (t\<lparr>tm_media := a\<rparr>)"
  "telemetry_ok t \<Longrightarrow> telemetry_ok (t\<lparr>tm_rtmp := a\<rparr>)" "telemetry_ok t \<Longrightarrow> telemetry_ok (t\<lparr>tm_mpeg_ts := b\<rparr>)"
  "telemetry_ok t \<Longrightarrow> telemetry_ok (t\<lparr>tm_fmp4 := c\<rparr>)" "telemetry_ok t \<Longrightarrow> telemetry_ok (t\<lparr>tm_protocols := d\<rparr>)"
  "telemetry_ok t \<Longrightarrow> telemetry_ok (set_mesh_lane kind e t)"
  by (simp_all add: telemetry_ok_def set_mesh_lane_def)

lemma ok_protocol_unit [telemetry_keeps]: "telemetry_ok t \<Longrightarrow> telemetry_ok (record_protocol_unit p b t)"
  by (auto simp: record_protocol_unit_def Let_def intro!: telemetry_keeps dest: ok_now split: prod.splits)

lemma ok_recorders [telemetry_keeps]:
  assumes "telemetry_ok t"
  shows "telemetry_ok (record_raw_http s c b d t)" "telemetry_ok (record_media_access_unit s b d t)"
    "telemetry_ok (record_rtmp_access_unit s n t)" "telemetry_ok (record_mpeg_ts_slot p s n t)"
    "telemetry_ok (record_mpeg_ts_continuity_issue k n t)" "telemetry_ok (record_mpeg_ts_payload_drop k n t)"
    "telemetry_ok (record_mesh_forward_success k s tgt b d e t)" "telemetry_ok (record_mesh_forward_error k s tgt er t)"
    "telemetry_ok (record_fmp4_part s n q b i t)" "telemetry_ok (record_fmp4_tracks s q wd ht vu aun t)"
    "telemetry_ok (record_fmp4_publish_error s n q er t)"
proof -
  obtain now u where now: "tm_now t = (now, u)" by fastforce
  have u: "telemetry_ok u" using ok_now [OF now assms] .
  show "telemetry_ok (record_raw_http s c b d t)"
    by (auto simp: record_raw_http_def now Let_def intro!: telemetry_keeps u dest!: ok_now split: prod.splits)
  show "telemetry_ok (record_media_access_unit s b d t)"
    by (auto simp: record_media_access_unit_def now Let_def intro!: telemetry_keeps u dest!: ok_now split: prod.splits)
  show "telemetry_ok (record_rtmp_access_unit s n t)"
    by (auto simp: record_rtmp_access_unit_def now Let_def intro!: telemetry_keeps u dest!: ok_now split: prod.splits)
  show "telemetry_ok (record_mpeg_ts_slot p s n t)"
    by (auto simp: record_mpeg_ts_slot_def now Let_def intro!: telemetry_keeps u dest!: ok_now split: prod.splits)
  show "telemetry_ok (record_mpeg_ts_continuity_issue k n t)"
    by (auto simp: record_mpeg_ts_continuity_issue_def now Let_def intro!: telemetry_keeps u)
  show "telemetry_ok (record_mpeg_ts_payload_drop k n t)"
    by (auto simp: record_mpeg_ts_payload_drop_def now Let_def intro!: telemetry_keeps u)
  show "telemetry_ok (record_mesh_forward_success k s tgt b d e t)"
    by (auto simp: record_mesh_forward_success_def now Let_def intro!: telemetry_keeps u)
  show "telemetry_ok (record_mesh_forward_error k s tgt er t)"
    by (auto simp: record_mesh_forward_error_def now Let_def intro!: telemetry_keeps u)
  show "telemetry_ok (record_fmp4_part s n q b i t)"
    by (auto simp: record_fmp4_part_def now Let_def intro!: telemetry_keeps u dest!: ok_now split: prod.splits)
  show "telemetry_ok (record_fmp4_tracks s q wd ht vu aun t)"
    by (simp add: record_fmp4_tracks_def Let_def telemetry_keeps assms)
  show "telemetry_ok (record_fmp4_publish_error s n q er t)"
    by (auto simp: record_fmp4_publish_error_def now Let_def intro!: telemetry_keeps u)
qed

lemma ok_sessions:
  assumes "telemetry_ok t" and "table_ok m"
    and "started = ended + of_nat (active_total m)"
  shows "telemetry_ok (t\<lparr>tm_sessions := prune_ingest_sessions m, tm_sessions_started := started, tm_sessions_ended := ended\<rparr>)"
  using assms table_prune [OF assms(2)] active_prune [OF assms(2)] prune_facts(4) [of m]
  by (simp add: telemetry_ok_def table_ok_def)

lemma ok_ensure [telemetry_keeps]: "telemetry_ok t \<Longrightarrow> telemetry_ok (ensure_ingest_session p s oi ox pe pa t)"
proof -
  assume ok: "telemetry_ok t"
  obtain now u where now: "tm_now t = (now, u)" by fastforce
  have u: "telemetry_ok u" using ok_now [OF now ok] .
  then have tab: "table_ok (tm_sessions u)"
    and bal: "tm_sessions_started u = tm_sessions_ended u + of_nat (active_total (tm_sessions u))"
    by (simp_all add: telemetry_ok_def)
  show ?thesis
  proof (cases "active_ingest_session p s (tm_sessions u)")
    case None
    let ?w = "\<lparr>is_session_id = tm_sessions_started u + 1, is_protocol = p, is_stream_id_text = to_string s,
                   is_output_stream_id_text = map_option to_string oi, is_output_stream_idx = ox,
                   is_peer = pe, is_path = pa, is_state = ''active'', is_started = now, is_last_seen = now,
                   is_ended = None, is_body_slots = 0, is_bytes = 0, is_access_units = 0, is_end_reason = None\<rparr>"
    note st = table_start [OF tab None, of ?w "tm_sessions_started u + 1"]
    have "telemetry_ok (u\<lparr>tm_sessions := prune_ingest_sessions
            (AList.update (ingest_session_key p s (tm_sessions_started u + 1)) ?w (tm_sessions u)),
          tm_sessions_started := tm_sessions_started u + 1, tm_sessions_ended := tm_sessions_ended u\<rparr>)"
      using st bal by (intro ok_sessions [OF u]) simp_all
    then show ?thesis
      by (auto simp: ensure_ingest_session_def now None Let_def intro!: ok_push_activity)
  next
    case (Some kv)
    obtain k v where kv: "active_ingest_session p s (tm_sessions u) = Some (k, v)" using Some by (cases kv) simp
    let ?w = "v\<lparr>is_last_seen := now,
        is_output_stream_id_text := (case oi of Some i \<Rightarrow> Some (to_string i) | None \<Rightarrow> is_output_stream_id_text v),
        is_output_stream_idx := (case ox of Some i \<Rightarrow> Some i | None \<Rightarrow> is_output_stream_idx v),
        is_peer := (case pe of Some p \<Rightarrow> Some p | None \<Rightarrow> is_peer v),
        is_path := (case pa of Some p \<Rightarrow> Some p | None \<Rightarrow> is_path v)\<rparr>"
    have w: "same_input ?w v" "is_state ?w = ''active''"
      using active_session_Some [OF kv] by (simp_all add: same_input_def is_active_for_def)
    note ch = table_change [OF tab kv w(1)]
    have "telemetry_ok (u\<lparr>tm_sessions := prune_ingest_sessions (AList.update k ?w (tm_sessions u)),
          tm_sessions_started := tm_sessions_started u, tm_sessions_ended := tm_sessions_ended u\<rparr>)"
      using ch w(2) bal by (intro ok_sessions [OF u]) simp_all
    then show ?thesis by (simp add: ensure_ingest_session_def now kv Let_def)
  qed
qed

lemma ok_touch [telemetry_keeps]:
  assumes "telemetry_ok t" and "\<And>now v. same_input (f now v) v \<and> is_state (f now v) = is_state v"
  shows "telemetry_ok (touch_session p s f t)"
proof -
  obtain now u where now: "tm_now (ensure_ingest_session p s None None None None t) = (now, u)" by fastforce
  have u: "telemetry_ok u" using ok_now [OF now ok_ensure [OF assms(1)]] .
  then have tab: "table_ok (tm_sessions u)" by (simp add: telemetry_ok_def)
  show ?thesis
  proof (cases "active_ingest_session p s (tm_sessions u)")
    case None
    with u show ?thesis by (simp add: touch_session_def now)
  next
    case (Some kv)
    obtain k v where kv: "active_ingest_session p s (tm_sessions u) = Some (k, v)" using Some by (cases kv) simp
    let ?w = "(f now v)\<lparr>is_last_seen := now\<rparr>"
    have w: "same_input ?w v" "is_state ?w = ''active''"
      using active_session_Some [OF kv] assms(2) [of now v] by (simp_all add: same_input_def is_active_for_def)
    from table_change [OF tab kv w(1)] w(2) u show ?thesis
      by (simp add: touch_session_def now kv telemetry_ok_def)
  qed
qed

lemma ok_end [telemetry_keeps]: "telemetry_ok t \<Longrightarrow> telemetry_ok (end_ingest_session p s reason t)"
proof -
  assume ok: "telemetry_ok t"
  obtain now u where now: "tm_now t = (now, u)" by fastforce
  have u: "telemetry_ok u" using ok_now [OF now ok] .
  then have tab: "table_ok (tm_sessions u)"
    and bal: "tm_sessions_started u = tm_sessions_ended u + of_nat (active_total (tm_sessions u))"
    by (simp_all add: telemetry_ok_def)
  show ?thesis
  proof (cases "active_ingest_session p s (tm_sessions u)")
    case None
    have "telemetry_ok (u\<lparr>tm_sessions := prune_ingest_sessions (tm_sessions u),
          tm_sessions_started := tm_sessions_started u, tm_sessions_ended := tm_sessions_ended u\<rparr>)"
      by (rule ok_sessions [OF u tab bal])
    then show ?thesis by (simp add: end_ingest_session_def now None)
  next
    case (Some kv)
    obtain k v where kv: "active_ingest_session p s (tm_sessions u) = Some (k, v)" using Some by (cases kv) simp
    let ?w = "v\<lparr>is_state := ''ended'', is_last_seen := now, is_ended := Some now, is_end_reason := Some reason\<rparr>"
    have w: "same_input ?w v" "is_state ?w \<noteq> ''active''" by (simp_all add: same_input_def)
    note ch = table_change [OF tab kv w(1)]
    have "of_nat (active_total (tm_sessions u)) = (of_nat (active_total (tm_sessions u) - 1) + 1 :: u64)"
      using ch(3) by (cases "active_total (tm_sessions u)") simp_all
    then have "telemetry_ok (u\<lparr>tm_sessions := prune_ingest_sessions (AList.update k ?w (tm_sessions u)),
          tm_sessions_started := tm_sessions_started u, tm_sessions_ended := tm_sessions_ended u + 1\<rparr>)"
      using ch w(2) bal by (intro ok_sessions [OF u]) simp_all
    then show ?thesis
      by (auto simp: end_ingest_session_def now kv Let_def intro!: ok_push_activity)
  qed
qed

datatype telemetry_call =
  RawHttp u64 u64 u64 u64 | MediaUnit u64 u64 u64 | RtmpUnit u64 nat | TsSlot string u64 nat
| TsContinuity string nat | TsDrop string nat | MeshSuccess string u64 string u64 u64 u64
| MeshError string u64 string string | FmpPart u64 nat u64 u64 u64
| FmpTracks u64 u64 "u16 option" "u16 option" nat nat | FmpError u64 nat u64 string
| EnsureSession string u64 "u64 option" "nat option" "string option" "string option"
| SessionBody string u64 nat | SessionUnit string u64 nat | EndSession string u64 string

fun telemetry_step :: "telemetry_call \<Rightarrow> ingest_telemetry \<Rightarrow> ingest_telemetry" where
  "telemetry_step (RawHttp s c b d) = record_raw_http s c b d"
| "telemetry_step (MediaUnit s b d) = record_media_access_unit s b d"
| "telemetry_step (RtmpUnit s n) = record_rtmp_access_unit s n"
| "telemetry_step (TsSlot p s n) = record_mpeg_ts_slot p s n"
| "telemetry_step (TsContinuity k n) = record_mpeg_ts_continuity_issue k n"
| "telemetry_step (TsDrop k n) = record_mpeg_ts_payload_drop k n"
| "telemetry_step (MeshSuccess k s tgt b d e) = record_mesh_forward_success k s tgt b d e"
| "telemetry_step (MeshError k s tgt er) = record_mesh_forward_error k s tgt er"
| "telemetry_step (FmpPart s n q b i) = record_fmp4_part s n q b i"
| "telemetry_step (FmpTracks s q wd ht vu aun) = record_fmp4_tracks s q wd ht vu aun"
| "telemetry_step (FmpError s n q er) = record_fmp4_publish_error s n q er"
| "telemetry_step (EnsureSession p s oi ox pe pa) = ensure_ingest_session p s oi ox pe pa"
| "telemetry_step (SessionBody p s n) = record_ingest_session_body p s n"
| "telemetry_step (SessionUnit p s n) = record_ingest_session_access_unit p s n"
| "telemetry_step (EndSession p s reason) = end_ingest_session p s reason"

lemma ok_step: "telemetry_ok t \<Longrightarrow> telemetry_ok (telemetry_step c t)"
proof (cases c)
  case (SessionBody p s n)
  assume "telemetry_ok t"
  then show ?thesis unfolding SessionBody
    by (simp add: record_ingest_session_body_def ok_touch same_input_def)
next
  case (SessionUnit p s n)
  assume "telemetry_ok t"
  then show ?thesis unfolding SessionUnit
    by (simp add: record_ingest_session_access_unit_def ok_touch same_input_def)
qed (simp_all add: telemetry_keeps)

text \<open>C25: Over every history of telemetry calls, each protocol and stream has at most one active ingest
  session, sessions started are those ended plus those active, pruning never removes an active session
  and keeps the table at 96 entries or the active ones alone, and the alert and activity lists stay
  within 32 and 64 entries.\<close>

theorem telemetry_invariant:
  "(let t = fold telemetry_step calls (default_telemetry clock) in
     wf_assoc (tm_sessions t) \<and> one_active (tm_sessions t)
   \<and> tm_sessions_started t = tm_sessions_ended t + of_nat (active_total (tm_sessions t))
   \<and> length (tm_sessions t) \<le> max 96 (active_total (tm_sessions t))
   \<and> length (tm_alerts t) \<le> 32 \<and> length (tm_activity t) \<le> 64)"
proof -
  have "telemetry_ok (fold telemetry_step calls t)" if "telemetry_ok t" for t
    using that by (induction calls arbitrary: t) (simp_all add: ok_step)
  moreover have "telemetry_ok (default_telemetry clock)"
    by (simp add: telemetry_ok_def default_telemetry_def table_ok_def one_active_def active_total_def)
  ultimately show ?thesis
    by (simp add: telemetry_ok_def table_ok_def Let_def contrib_alert_limit_def contrib_activity_limit_def)
qed

end
