(* ===== verification/Media_Params.thy ===== *)
theory Media_Params
  imports Fmp4_Segmenter
begin

text \<open>
  The query parameters of a media access unit, \<^verbatim>\<open>src/src/lib.rs\<close>: the parser of
  \<^verbatim>\<open>MediaAccessUnitParams\<close>, the frame metadata made from it and the codec names. The query is the
  list of decoded key/value pairs the URL crate yields; the bits of the wire flags, the access-unit
  detectors and the header of the FEC crate are arguments. Error texts are constructors that keep
  the field and the refused value. The platform has 64-bit addresses.
\<close>

datatype media_codec = CodecUnknown | CodecH264 | CodecOpus | CodecAac | CodecData

record media_flags_api =
  fl_default :: u16
  fl_keyframe :: u16
  fl_codec_config :: u16
  fl_discontinuity :: u16
  fl_end_of_stream :: u16
  fl_with :: "u16 \<Rightarrow> u16 \<Rightarrow> u16"

record media_detector =
  md_is_nalu :: "bytes \<Rightarrow> bool"
  md_detect_audio :: "bytes \<Rightarrow> audio_type"

record media_access_unit_params =
  mp_stream_id :: u64
  mp_sequence :: "u64 option"
  mp_pts_ms :: u64
  mp_dts_ms :: "u64 option"
  mp_duration_ms :: u32
  mp_codec :: media_codec
  mp_codec_explicit :: bool
  mp_flags :: u16

record media_frame_metadata =
  mm_stream_id :: u64
  mm_sequence :: u64
  mm_pts_ms :: u64
  mm_dts_ms :: "u64 option"
  mm_duration_ms :: u32
  mm_codec :: media_codec
  mm_flags :: u16

datatype param_error =
  InvalidField string string | UnsupportedField string | UnsupportedCodec string
| DurationTooLong | FlagsTooWide | SequenceTooWide

definition parse_query_uint :: "string \<Rightarrow> string \<Rightarrow> param_error + 'a::len word" where
  "parse_query_uint field value = ok_or (InvalidField field value) (parse_uint value)"

definition parse_query_u64 :: "string \<Rightarrow> string \<Rightarrow> param_error + u64" where "parse_query_u64 = parse_query_uint"
definition parse_query_u32 :: "string \<Rightarrow> string \<Rightarrow> param_error + u32" where "parse_query_u32 = parse_query_uint"
definition parse_query_u16 :: "string \<Rightarrow> string \<Rightarrow> param_error + u16" where "parse_query_u16 = parse_query_uint"

definition parse_query_bool :: "string \<Rightarrow> string \<Rightarrow> param_error + bool" where
  "parse_query_bool field value =
     (let v = to_ascii_lowercase value in
      if v \<in> {''1'', ''true'', ''yes'', ''on''} then Inr True
      else if v \<in> {''0'', ''false'', ''no'', ''off''} then Inr False
      else Inl (InvalidField field value))"

definition parse_media_codec :: "string \<Rightarrow> param_error + media_codec" where
  "parse_media_codec value =
     (let v = to_ascii_lowercase value in
      if v = ''auto'' then Inr CodecData
      else if v = ''unknown'' then Inr CodecUnknown
      else if v \<in> {''h264'', ''avc'', ''video/h264''} then Inr CodecH264
      else if v \<in> {''opus'', ''audio/opus''} then Inr CodecOpus
      else if v \<in> {''aac'', ''audio/aac''} then Inr CodecAac
      else if v \<in> {''data'', ''application/octet-stream''} then Inr CodecData
      else Inl (UnsupportedCodec v))"

fun codec_name :: "media_codec \<Rightarrow> string" where
  "codec_name CodecUnknown = ''unknown''"
| "codec_name CodecH264 = ''h264''"
| "codec_name CodecOpus = ''opus''"
| "codec_name CodecAac = ''aac''"
| "codec_name CodecData = ''data''"

definition infer_media_codec :: "media_detector \<Rightarrow> bytes \<Rightarrow> media_codec" where
  "infer_media_codec md payload =
     (if md_is_nalu md payload then CodecH264
      else case md_detect_audio md payload of
          TypeAac \<Rightarrow> CodecAac | TypeM4a \<Rightarrow> CodecAac
        | TypeOpus \<Rightarrow> CodecOpus | TypeOggOpus \<Rightarrow> CodecOpus
        | _ \<Rightarrow> CodecData)"

section \<open>The parser\<close>

definition default_params :: "media_flags_api \<Rightarrow> u64 \<Rightarrow> u64 \<Rightarrow> media_access_unit_params" where
  "default_params fl default_stream_id default_pts_ms =
     \<lparr>mp_stream_id = default_stream_id, mp_sequence = None, mp_pts_ms = default_pts_ms, mp_dts_ms = None,
      mp_duration_ms = 0, mp_codec = CodecData, mp_codec_explicit = False, mp_flags = fl_default fl\<rparr>"

definition raise_flag :: "media_flags_api \<Rightarrow> string \<Rightarrow> string \<Rightarrow> u16 \<Rightarrow> media_access_unit_params
    \<Rightarrow> param_error + media_access_unit_params" where
  "raise_flag fl field value flag p =
     res_bind (parse_query_bool field value) (\<lambda>on.
       Inr (if on then p\<lparr>mp_flags := fl_with fl (mp_flags p) flag\<rparr> else p))"

definition parse_field :: "media_flags_api \<Rightarrow> string \<Rightarrow> string \<Rightarrow> media_access_unit_params
    \<Rightarrow> param_error + media_access_unit_params" where
  "parse_field fl key value p =
     (if key \<in> {''stream_id'', ''stream''} then
        res_bind (parse_query_u64 ''stream_id'' value) (\<lambda>v. Inr (p\<lparr>mp_stream_id := v\<rparr>))
      else if key \<in> {''sequence'', ''seq''} then
        res_bind (parse_query_u64 ''sequence'' value) (\<lambda>v. Inr (p\<lparr>mp_sequence := Some v\<rparr>))
      else if key \<in> {''pts_ms'', ''pts''} then
        res_bind (parse_query_u64 ''pts_ms'' value) (\<lambda>v. Inr (p\<lparr>mp_pts_ms := v\<rparr>))
      else if key \<in> {''dts_ms'', ''dts''} then
        res_bind (parse_query_u64 ''dts_ms'' value) (\<lambda>v. Inr (p\<lparr>mp_dts_ms := Some v\<rparr>))
      else if key \<in> {''duration_ms'', ''duration''} then
        res_bind (parse_query_u32 ''duration_ms'' value) (\<lambda>v. Inr (p\<lparr>mp_duration_ms := v\<rparr>))
      else if key = ''codec'' then
        (if eq_ignore_ascii_case value ''auto''
         then Inr (p\<lparr>mp_codec := CodecData, mp_codec_explicit := False\<rparr>)
         else res_bind (parse_media_codec value) (\<lambda>c. Inr (p\<lparr>mp_codec := c, mp_codec_explicit := True\<rparr>)))
      else if key = ''flags'' then
        res_bind (parse_query_u16 ''flags'' value) (\<lambda>v. Inr (p\<lparr>mp_flags := v\<rparr>))
      else if key = ''keyframe'' then raise_flag fl ''keyframe'' value (fl_keyframe fl) p
      else if key = ''codec_config'' then raise_flag fl ''codec_config'' value (fl_codec_config fl) p
      else if key = ''discontinuity'' then raise_flag fl ''discontinuity'' value (fl_discontinuity fl) p
      else if key \<in> {''end_of_stream'', ''eos''} then
        raise_flag fl ''end_of_stream'' value (fl_end_of_stream fl) p
      else if key = [] then Inr p
      else Inl (UnsupportedField key))"

fun parse_fields :: "media_flags_api \<Rightarrow> (string \<times> string) list \<Rightarrow> media_access_unit_params
    \<Rightarrow> param_error + media_access_unit_params" where
  "parse_fields fl [] p = Inr p"
| "parse_fields fl ((k, v) # kvs) p = res_bind (parse_field fl k v p) (parse_fields fl kvs)"

definition usize_of_u64 :: "u64 \<Rightarrow> param_error + u64" where
  "usize_of_u64 s = ok_or SequenceTooWide (try_cast s)"

definition params_parse :: "media_flags_api \<Rightarrow> (string \<times> string) list \<Rightarrow> u64 \<Rightarrow> u64
    \<Rightarrow> param_error + media_access_unit_params" where
  "params_parse fl kvs default_stream_id default_pts_ms =
     res_bind (parse_fields fl kvs (default_params fl default_stream_id default_pts_ms)) (\<lambda>p.
       if 65535 < mp_duration_ms p then Inl DurationTooLong
       else if 255 < mp_flags p then Inl FlagsTooWide
       else case mp_sequence p of
           None \<Rightarrow> Inr p
         | Some s \<Rightarrow> res_bind (usize_of_u64 s) (\<lambda>_. Inr p))"

definition metadata_with_codec :: "media_access_unit_params \<Rightarrow> u64 \<Rightarrow> media_codec \<Rightarrow> param_error + media_frame_metadata" where
  "metadata_with_codec p s codec =
     res_bind (usize_of_u64 s) (\<lambda>_.
       Inr \<lparr>mm_stream_id = mp_stream_id p, mm_sequence = s, mm_pts_ms = mp_pts_ms p, mm_dts_ms = mp_dts_ms p,
            mm_duration_ms = mp_duration_ms p, mm_codec = codec, mm_flags = mp_flags p\<rparr>)"

definition params_metadata :: "media_access_unit_params \<Rightarrow> u64 \<Rightarrow> param_error + media_frame_metadata" where
  "params_metadata p s = metadata_with_codec p s (mp_codec p)"

definition metadata_for_payload ::
    "media_detector \<Rightarrow> media_access_unit_params \<Rightarrow> u64 \<Rightarrow> bytes \<Rightarrow> param_error + media_frame_metadata" where
  "metadata_for_payload md p s payload =
     metadata_with_codec p s (if mp_codec_explicit p then mp_codec p else infer_media_codec md payload)"

section \<open>Lemmas\<close>

lemma usize_of_u64 [simp]: "usize_of_u64 s = Inr s"
  using unat_lt2p [of s] by (simp add: usize_of_u64_def try_cast_def)

lemma metadata_ok [simp]:
  "metadata_with_codec p s c = Inr \<lparr>mm_stream_id = mp_stream_id p, mm_sequence = s, mm_pts_ms = mp_pts_ms p,
     mm_dts_ms = mp_dts_ms p, mm_duration_ms = mp_duration_ms p, mm_codec = c, mm_flags = mp_flags p\<rparr>"
  by (simp add: metadata_with_codec_def)

definition codec_settled :: "media_access_unit_params \<Rightarrow> bool" where
  "codec_settled p \<longleftrightarrow> mp_codec_explicit p \<or> mp_codec p = CodecData"

lemma codec_settled_default: "codec_settled (default_params fl d t)"
  by (simp add: codec_settled_def default_params_def)

lemma codec_settled_raise: "raise_flag fl f v b p = Inr q \<Longrightarrow> codec_settled p \<Longrightarrow> codec_settled q"
  by (auto simp: raise_flag_def res_ok codec_settled_def split: if_splits)

lemma settled_if:
  assumes "(if b then r1 else r2) = Inr q" and "r1 = Inr q \<Longrightarrow> P" and "r2 = Inr q \<Longrightarrow> P"
  shows P
  using assms by (cases b) simp_all

lemma codec_settled_field: "parse_field fl k v p = Inr q \<Longrightarrow> codec_settled p \<Longrightarrow> codec_settled q"
  unfolding parse_field_def
  by (elim settled_if) (auto simp: res_ok codec_settled_def dest: codec_settled_raise [unfolded codec_settled_def])

lemma codec_settled_fields: "parse_fields fl kvs p = Inr q \<Longrightarrow> codec_settled p \<Longrightarrow> codec_settled q"
  by (induction fl kvs p rule: parse_fields.induct) (auto simp: res_ok dest: codec_settled_field)

lemma lower_ascii_ident:
  "list_all (\<lambda>c. \<not> (65 \<le> char_code c \<and> char_code c \<le> 90)) s \<Longrightarrow> to_ascii_lowercase s = s"
  by (induction s) (auto simp: to_ascii_lowercase_def ascii_lower_def)

lemma codec_name_lower: "to_ascii_lowercase (codec_name c) = codec_name c"
  by (cases c) (simp_all add: to_ascii_lowercase_def ascii_lower_def char_code_def)

lemma parse_codec_name: "parse_media_codec (codec_name c) = Inr c"
  unfolding parse_media_codec_def codec_name_lower by (cases c) simp_all

lemma codec_name_not_auto: "\<not> eq_ignore_ascii_case (codec_name c) ''auto''"
  unfolding eq_ignore_ascii_case_def codec_name_lower
  by (cases c) (simp_all add: to_ascii_lowercase_def ascii_lower_def char_code_def)

lemma auto_is_auto: "eq_ignore_ascii_case ''auto'' ''auto''"
  by (simp add: eq_ignore_ascii_case_def)

text \<open>A query that spells out every field of a parameter record.\<close>

definition query_of :: "media_access_unit_params \<Rightarrow> (string \<times> string) list" where
  "query_of p = [(''stream_id'', to_string (mp_stream_id p)), (''pts_ms'', to_string (mp_pts_ms p)),
     (''duration_ms'', to_string (mp_duration_ms p)), (''flags'', to_string (mp_flags p)),
     (''codec'', if mp_codec_explicit p then codec_name (mp_codec p) else ''auto'')]
   @ (case mp_sequence p of None \<Rightarrow> [] | Some s \<Rightarrow> [(''sequence'', to_string s)])
   @ (case mp_dts_ms p of None \<Rightarrow> [] | Some s \<Rightarrow> [(''dts_ms'', to_string s)])"

lemma query_value [simp]: "parse_query_uint f (to_string w) = Inr w"
  by (simp add: parse_query_uint_def)

lemmas field_readers = parse_query_u64_def parse_query_u32_def parse_query_u16_def

lemma parse_field_values [simp]:
  "parse_field fl ''stream_id'' (to_string w) p = Inr (p\<lparr>mp_stream_id := w\<rparr>)"
  "parse_field fl ''pts_ms'' (to_string w) p = Inr (p\<lparr>mp_pts_ms := w\<rparr>)"
  "parse_field fl ''duration_ms'' (to_string w') p = Inr (p\<lparr>mp_duration_ms := w'\<rparr>)"
  "parse_field fl ''flags'' (to_string w'') p = Inr (p\<lparr>mp_flags := w''\<rparr>)"
  "parse_field fl ''sequence'' (to_string w) p = Inr (p\<lparr>mp_sequence := Some w\<rparr>)"
  "parse_field fl ''dts_ms'' (to_string w) p = Inr (p\<lparr>mp_dts_ms := Some w\<rparr>)"
  "parse_field fl ''codec'' (codec_name c) p = Inr (p\<lparr>mp_codec := c, mp_codec_explicit := True\<rparr>)"
  "parse_field fl ''codec'' ''auto'' p = Inr (p\<lparr>mp_codec := CodecData, mp_codec_explicit := False\<rparr>)"
  by (simp_all add: parse_field_def field_readers parse_codec_name codec_name_not_auto auto_is_auto)

lemma parse_fields_append:
  "parse_fields fl (xs @ ys) p = res_bind (parse_fields fl xs p) (parse_fields fl ys)"
proof (induction xs arbitrary: p)
  case (Cons x xs)
  then show ?case by (cases x; cases "parse_field fl (fst x) (snd x) p") simp_all
qed simp

lemma query_of_parses:
  assumes "codec_settled p"
  shows "parse_fields fl (query_of p) (default_params fl d t) = Inr p"
  using assms
  by (cases p) (auto simp: query_of_def default_params_def codec_settled_def parse_fields_append
      split: option.splits)

text \<open>C24: The parser accepts exactly the parameter records the frame metadata can carry: every record it
  returns has a duration of 16 bits, flags of 8 bits and an undeclared codec left at \<^verbatim>\<open>Data\<close>, and every
  such record is the result of some query, whatever the defaults are.\<close>

theorem params_range_exact:
  "(\<exists>kvs. params_parse fl kvs default_stream_id default_pts_ms = Inr p) \<longleftrightarrow>
     mp_duration_ms p \<le> 65535 \<and> mp_flags p \<le> 255 \<and> (mp_codec_explicit p \<or> mp_codec p = CodecData)"
proof
  assume "\<exists>kvs. params_parse fl kvs default_stream_id default_pts_ms = Inr p"
  then obtain kvs where kvs: "params_parse fl kvs default_stream_id default_pts_ms = Inr p" ..
  then have fields: "parse_fields fl kvs (default_params fl default_stream_id default_pts_ms) = Inr p"
    and small: "mp_duration_ms p \<le> 65535" "mp_flags p \<le> 255"
    by (auto simp: params_parse_def res_ok not_less split: if_splits option.splits)
  from codec_settled_fields [OF fields codec_settled_default] small
  show "mp_duration_ms p \<le> 65535 \<and> mp_flags p \<le> 255 \<and> (mp_codec_explicit p \<or> mp_codec p = CodecData)"
    by (simp add: codec_settled_def)
next
  assume ok: "mp_duration_ms p \<le> 65535 \<and> mp_flags p \<le> 255 \<and> (mp_codec_explicit p \<or> mp_codec p = CodecData)"
  then have "params_parse fl (query_of p) default_stream_id default_pts_ms = Inr p"
    using query_of_parses [of p fl default_stream_id default_pts_ms]
    by (simp add: params_parse_def codec_settled_def not_less [symmetric] split: option.split)
  then show "\<exists>kvs. params_parse fl kvs default_stream_id default_pts_ms = Inr p" ..
qed

end
