(* ===== verification/Audio_Handoff.thy ===== *)
theory Audio_Handoff
  imports Stream_Fec Media_Params "HOL-Library.Sublist"
begin

text \<open>
  The datagram side of the contributor in \<^verbatim>\<open>src/src/bin/av-contrib.rs\<close>: the bounded handoff queues to
  the LL-HLS worker and to the mesh worker with their counters, the worker that sends audio datagrams
  to every audio target, the media lane to the mesh, and the UDP loop that sorts what arrives. A
  channel is its queue, its capacity and whether its receiver is gone; an \<^verbatim>\<open>Instant\<close> is a natural
  number handed in by the caller. The FEC decoder and encoder and the sockets are arguments; log
  output and the age histogram are left out.
\<close>

definition bstr :: "string \<Rightarrow> bytes" where "bstr s = bytes_of_str s"

definition multichannel_audio_transport_magic :: bytes where "multichannel_audio_transport_magic = bstr ''AEP1''"
definition encrypted_audio_transport_magic :: bytes where "encrypted_audio_transport_magic = bstr ''ACE1''"
definition daw_control_magic :: bytes where "daw_control_magic = bstr ''WAVEY-DAW-''"
definition audio_epoch_mesh_queue_capacity :: nat where "audio_epoch_mesh_queue_capacity = 32768"

definition is_audio_transport_datagram :: "bytes \<Rightarrow> bool" where
  "is_audio_transport_datagram d \<longleftrightarrow>
     starts_with multichannel_audio_transport_magic d \<or> starts_with encrypted_audio_transport_magic d"

section \<open>Handoff queues\<close>

record 'i handoff_queue =
  hq_max_capacity :: nat
  hq_items :: "'i list"
  hq_closed :: bool
  hq_depth :: u64
  hq_max_depth :: u64
  hq_enqueued :: u64
  hq_dropped :: u64

definition new_handoff_queue :: "nat \<Rightarrow> 'i handoff_queue" where
  "new_handoff_queue n = \<lparr>hq_max_capacity = n, hq_items = [], hq_closed = False, hq_depth = 0, hq_max_depth = 0,
     hq_enqueued = 0, hq_dropped = 0\<rparr>"

definition tx_capacity :: "'i handoff_queue \<Rightarrow> nat" where
  "tx_capacity q = hq_max_capacity q - length (hq_items q)"

definition try_send :: "'i \<Rightarrow> 'i handoff_queue \<Rightarrow> 'i handoff_queue option" where
  "try_send item q =
     (if hq_closed q \<or> tx_capacity q = 0 then None else Some (q\<lparr>hq_items := hq_items q @ [item]\<rparr>))"

definition note_depth :: "'i handoff_queue \<Rightarrow> 'i handoff_queue" where
  "note_depth q =
     (let depth = of_nat (hq_max_capacity q - tx_capacity q)
      in q\<lparr>hq_depth := depth, hq_max_depth := max (hq_max_depth q) depth\<rparr>)"

definition count_dropped :: "'i handoff_queue \<Rightarrow> 'i handoff_queue" where
  "count_dropped q = q\<lparr>hq_dropped := hq_dropped q + 1\<rparr>"

definition handoff :: "'i \<Rightarrow> 'i handoff_queue \<Rightarrow> 'i handoff_queue" where
  "handoff item q =
     (let q = note_depth q in
      if tx_capacity q = 0 then count_dropped q
      else case try_send item q of
          None \<Rightarrow> count_dropped (note_depth q)
        | Some q \<Rightarrow> note_depth (q\<lparr>hq_enqueued := hq_enqueued q + 1\<rparr>))"

definition handoff_audio_epoch_hls_datagram ::
    "'p \<Rightarrow> bytes \<Rightarrow> ('p \<times> bytes) handoff_queue option \<Rightarrow> ('p \<times> bytes) handoff_queue option" where
  "handoff_audio_epoch_hls_datagram peer datagram tx = map_option (handoff (peer, datagram)) tx"

definition handoff_audio_epoch_mesh_datagram ::
    "nat \<Rightarrow> bytes \<Rightarrow> (bytes \<times> nat) handoff_queue option \<Rightarrow> (bytes \<times> nat) handoff_queue option" where
  "handoff_audio_epoch_mesh_datagram now datagram tx = map_option (handoff (datagram, now)) tx"

text \<open>Which drops are logged; the queue itself is not touched by it.\<close>

definition is_power_of_two :: "u64 \<Rightarrow> bool" where
  "is_power_of_two x \<longleftrightarrow> x \<noteq> 0 \<and> x AND (x - 1) = 0"

definition should_log_audio_epoch_hls_drop :: "u64 \<Rightarrow> bool" where
  "should_log_audio_epoch_hls_drop dropped_total \<longleftrightarrow>
     dropped_total \<le> 16 \<or> is_power_of_two dropped_total \<or> dropped_total mod 10000 = 0"

definition should_log_audio_epoch_mesh_drop :: "u64 \<Rightarrow> bool" where
  "should_log_audio_epoch_mesh_drop dropped_total \<longleftrightarrow>
     dropped_total \<le> 16 \<or> is_power_of_two dropped_total \<or> dropped_total mod 10000 = 0"

section \<open>The mesh worker\<close>

datatype 't audio_forward_error = PartialSend 't nat nat | SendError 't

type_synonym ('t, 'n) audio_socket = "'t \<Rightarrow> bytes \<Rightarrow> 'n \<Rightarrow> nat option \<times> 'n"

fun forward_to_targets ::
    "('t, 'n) audio_socket \<Rightarrow> bytes \<Rightarrow> 't list \<Rightarrow> 't audio_forward_error option \<Rightarrow> 'n
     \<Rightarrow> 't audio_forward_error option \<times> 'n" where
  "forward_to_targets send d [] first n = (first, n)"
| "forward_to_targets send d (t # ts) first n =
     (case send t d n of (outcome, n) \<Rightarrow>
      forward_to_targets send d ts
        (case outcome of
           Some sent \<Rightarrow> if sent = length d then first
              else (case first of None \<Rightarrow> Some (PartialSend t sent (length d)) | Some e \<Rightarrow> Some e)
         | None \<Rightarrow> (case first of None \<Rightarrow> Some (SendError t) | Some e \<Rightarrow> Some e)) n)"

definition forward_audio_epoch_datagram ::
    "('t, 'n) audio_socket \<Rightarrow> 't list \<Rightarrow> bytes \<Rightarrow> 'n \<Rightarrow> ('t audio_forward_error + unit) \<times> 'n" where
  "forward_audio_epoch_datagram send targets d n =
     (if d = [] then (Inr (), n)
      else case forward_to_targets send d targets None n of
          (None, n) \<Rightarrow> (Inr (), n) | (Some e, n) \<Rightarrow> (Inl e, n))"

record 'n mesh_worker =
  mw_input :: "(bytes \<times> nat) handoff_queue"
  mw_net :: 'n
  mw_forward_errors :: u64

definition forward_taken :: "('t, 'n) audio_socket \<Rightarrow> 't list \<Rightarrow> bytes \<Rightarrow> 'n mesh_worker \<Rightarrow> 'n mesh_worker" where
  "forward_taken send targets d w =
     (case forward_audio_epoch_datagram send targets d (mw_net w) of
        (Inr _, n) \<Rightarrow> w\<lparr>mw_net := n\<rparr>
      | (Inl _, n) \<Rightarrow> w\<lparr>mw_net := n, mw_forward_errors := mw_forward_errors w + 1\<rparr>)"

definition store_depth :: "'n mesh_worker \<Rightarrow> 'n mesh_worker" where
  "store_depth w =
     (let q = mw_input w in w\<lparr>mw_input := q\<lparr>hq_depth := of_nat (hq_max_capacity q - tx_capacity q)\<rparr>\<rparr>)"

text \<open>One turn of the worker: nothing happens while its queue is empty.\<close>

definition mesh_worker_take :: "('t, 'n) audio_socket \<Rightarrow> 't list \<Rightarrow> 'n mesh_worker \<Rightarrow> 'n mesh_worker" where
  "mesh_worker_take send targets w =
     (case hq_items (mw_input w) of
        [] \<Rightarrow> w
      | (d, t) # rest \<Rightarrow>
          store_depth (forward_taken send targets d (w\<lparr>mw_input := (mw_input w)\<lparr>hq_items := rest\<rparr>\<rparr>)))"

text \<open>After shutdown the rest of the queue is sent; \<^verbatim>\<open>try_recv\<close> stops at the empty queue.\<close>

fun mesh_worker_drain :: "('t, 'n) audio_socket \<Rightarrow> 't list \<Rightarrow> nat \<Rightarrow> 'n mesh_worker \<Rightarrow> 'n mesh_worker" where
  "mesh_worker_drain send targets 0 w = w"
| "mesh_worker_drain send targets (Suc fuel) w =
     (if hq_items (mw_input w) = [] then w
      else mesh_worker_drain send targets fuel (mesh_worker_take send targets w))"

datatype mesh_event = Handed bytes nat | WorkerTurn

definition mesh_event_step :: "('t, 'n) audio_socket \<Rightarrow> 't list \<Rightarrow> mesh_event \<Rightarrow> 'n mesh_worker \<Rightarrow> 'n mesh_worker" where
  "mesh_event_step send targets e w =
     (case e of
        Handed d now \<Rightarrow> w\<lparr>mw_input := handoff (d, now) (mw_input w)\<rparr>
      | WorkerTurn \<Rightarrow> mesh_worker_take send targets w)"

text \<open>The producers' handoffs interleaved with the worker, then shutdown: the queue is drained and its
  receiver goes.\<close>

definition run_audio_epoch_mesh_forward_worker ::
    "('t, 'n) audio_socket \<Rightarrow> 't list \<Rightarrow> mesh_event list \<Rightarrow> 'n mesh_worker \<Rightarrow> 'n mesh_worker" where
  "run_audio_epoch_mesh_forward_worker send targets es w =
     (let w = fold (mesh_event_step send targets) es w;
          w = mesh_worker_drain send targets (length (hq_items (mw_input w))) w
      in w\<lparr>mw_input := (mw_input w)\<lparr>hq_closed := True\<rparr>\<rparr>)"

section \<open>The media lane\<close>

datatype media_forward_error = MediaEncodeFailed | MediaDatagramLimit | MediaSendFailed

type_synonym 'e media_encoder = "media_frame_metadata \<Rightarrow> bytes \<Rightarrow> 'e \<Rightarrow> bytes list option \<times> 'e"

definition forward_media_access_unit ::
    "'e media_encoder \<Rightarrow> (bytes \<Rightarrow> 'n \<Rightarrow> bool \<times> 'n) \<Rightarrow> media_frame_metadata \<Rightarrow> bytes \<Rightarrow> u32 option \<Rightarrow> 'e \<times> 'n
     \<Rightarrow> (media_forward_error + nat) \<times> 'e \<times> 'n" where
  "forward_media_access_unit encode_frame send metadata payload limit st =
     (case st of (enc, n) \<Rightarrow>
      case encode_frame metadata payload enc of
        (None, enc) \<Rightarrow> (Inl MediaEncodeFailed, enc, n)
      | (Some datagrams, enc) \<Rightarrow>
          if (case limit of None \<Rightarrow> False | Some maximum \<Rightarrow> list_ex (\<lambda>d. unat maximum < length d) datagrams)
          then (Inl MediaDatagramLimit, enc, n)
          else case send_all send datagrams n of
              (True, n) \<Rightarrow> (Inr (length datagrams), enc, n)
            | (False, n) \<Rightarrow> (Inl MediaSendFailed, enc, n))"

section \<open>The UDP loop\<close>

record ('d, 'e, 'n) daw_api =
  da_decoder_new :: 'd
  da_push_datagram :: "bytes \<Rightarrow> 'd \<Rightarrow> (unit + (media_frame_metadata \<times> bytes) option) \<times> 'd"
  da_encode_frame :: "'e media_encoder"
  da_send_media :: "bytes \<Rightarrow> 'n \<Rightarrow> bool \<times> 'n"

record ('p, 'd, 'e, 'n) daw_ingest =
  dw_hls :: "('p \<times> bytes) handoff_queue option"
  dw_mesh :: "(bytes \<times> nat) handoff_queue option"
  dw_decoders :: "('p, 'd) assoc"
  dw_media :: "'e \<times> 'n"

definition decode_media_datagram ::
    "('d, 'e, 'n) daw_api \<Rightarrow> 'p \<Rightarrow> bytes \<Rightarrow> ('p, 'd, 'e, 'n) daw_ingest \<Rightarrow> ('p, 'd, 'e, 'n) daw_ingest" where
  "decode_media_datagram api peer datagram w =
     (let decoder = (case map_of (dw_decoders w) peer of None \<Rightarrow> da_decoder_new api | Some d \<Rightarrow> d) in
      case da_push_datagram api datagram decoder of (decoded, decoder) \<Rightarrow>
      let w = w\<lparr>dw_decoders := AList.update peer decoder (dw_decoders w)\<rparr> in
      case decoded of
        Inr (Some (metadata, payload)) \<Rightarrow>
          w\<lparr>dw_media := snd (forward_media_access_unit (da_encode_frame api) (da_send_media api)
              metadata payload None (dw_media w))\<rparr>
      | Inr None \<Rightarrow> w
      | Inl _ \<Rightarrow> w)"

definition receive_daw_datagram ::
    "('d, 'e, 'n) daw_api \<Rightarrow> 'p \<times> nat \<times> bytes \<Rightarrow> ('p, 'd, 'e, 'n) daw_ingest \<Rightarrow> ('p, 'd, 'e, 'n) daw_ingest" where
  "receive_daw_datagram api ev w =
     (case ev of (peer, now, datagram) \<Rightarrow>
      if length datagram = 0 then w
      else if starts_with daw_control_magic datagram then w
      else if is_audio_transport_datagram datagram then
        w\<lparr>dw_hls := handoff_audio_epoch_hls_datagram peer datagram (dw_hls w),
          dw_mesh := handoff_audio_epoch_mesh_datagram now datagram (dw_mesh w)\<rparr>
      else decode_media_datagram api peer datagram w)"

text \<open>The loop runs until shutdown; a receive error ends it as well.\<close>

definition run_daw_media_udp_ingest ::
    "('d, 'e, 'n) daw_api \<Rightarrow> ('p \<times> nat \<times> bytes) list \<Rightarrow> ('p, 'd, 'e, 'n) daw_ingest \<Rightarrow> ('p, 'd, 'e, 'n) daw_ingest" where
  "run_daw_media_udp_ingest api received w = fold (receive_daw_datagram api) received w"

section \<open>Lemmas on queues\<close>

definition queue_ok :: "'i handoff_queue \<Rightarrow> bool" where
  "queue_ok q \<longleftrightarrow> length (hq_items q) \<le> hq_max_capacity q"

lemma note_depth_simps [simp]:
  "hq_items (note_depth q) = hq_items q" "hq_max_capacity (note_depth q) = hq_max_capacity q"
  "hq_closed (note_depth q) = hq_closed q" "hq_enqueued (note_depth q) = hq_enqueued q"
  "hq_dropped (note_depth q) = hq_dropped q" "tx_capacity (note_depth q) = tx_capacity q"
  "queue_ok (note_depth q) = queue_ok q"
  by (simp_all add: note_depth_def Let_def tx_capacity_def queue_ok_def)

lemma count_dropped_simps [simp]:
  "hq_items (count_dropped q) = hq_items q" "hq_max_capacity (count_dropped q) = hq_max_capacity q"
  "hq_closed (count_dropped q) = hq_closed q" "hq_enqueued (count_dropped q) = hq_enqueued q"
  "hq_dropped (count_dropped q) = hq_dropped q + 1"
  by (simp_all add: count_dropped_def)

lemma handoff_cases:
  assumes "\<not> hq_closed q" and "queue_ok q"
  obtains (queued) "length (hq_items q) < hq_max_capacity q" and "hq_items (handoff i q) = hq_items q @ [i]"
      and "hq_enqueued (handoff i q) = hq_enqueued q + 1" and "hq_dropped (handoff i q) = hq_dropped q"
      and "hq_max_capacity (handoff i q) = hq_max_capacity q" and "\<not> hq_closed (handoff i q)"
    | (dropped) "length (hq_items q) = hq_max_capacity q" and "hq_items (handoff i q) = hq_items q"
      and "hq_enqueued (handoff i q) = hq_enqueued q" and "hq_dropped (handoff i q) = hq_dropped q + 1"
      and "hq_max_capacity (handoff i q) = hq_max_capacity q" and "\<not> hq_closed (handoff i q)"
proof (cases "length (hq_items q) < hq_max_capacity q")
  case True
  then have "tx_capacity q \<noteq> 0" by (simp add: tx_capacity_def)
  with True assms show ?thesis by (intro queued) (simp_all add: handoff_def try_send_def Let_def)
next
  case False
  then have "tx_capacity q = 0" and "length (hq_items q) = hq_max_capacity q"
    using assms(2) by (simp_all add: tx_capacity_def queue_ok_def)
  with assms show ?thesis by (intro dropped) (simp_all add: handoff_def Let_def)
qed

lemma queue_ok_handoff: "\<not> hq_closed q \<Longrightarrow> queue_ok q \<Longrightarrow> queue_ok (handoff i q)"
  by (rule handoff_cases [of q i]) (auto simp: queue_ok_def)

section \<open>Delivery through the mesh worker\<close>

definition offer :: "('t, 'n) audio_socket \<Rightarrow> 't list \<Rightarrow> bytes \<Rightarrow> 'n \<Rightarrow> 'n" where
  "offer send targets d n = (if d = [] then n else fold (\<lambda>t n. snd (send t d n)) targets n)"

lemma forward_to_targets_net: "snd (forward_to_targets send d ts first n) = fold (\<lambda>t n. snd (send t d n)) ts n"
  by (induction ts arbitrary: first n) (simp_all add: split_beta)

lemma forward_net: "snd (forward_audio_epoch_datagram send targets d n) = offer send targets d n"
proof (cases "forward_to_targets send d targets None n")
  case (Pair e n')
  with forward_to_targets_net [of send d targets None n] show ?thesis
    by (cases e) (simp_all add: forward_audio_epoch_datagram_def offer_def)
qed

lemma forward_taken_simps [simp]:
  "mw_net (forward_taken send targets d w) = offer send targets d (mw_net w)"
  "mw_input (forward_taken send targets d w) = mw_input w"
proof -
  obtain r n where out: "forward_audio_epoch_datagram send targets d (mw_net w) = (r, n)" by fastforce
  with forward_net [of send targets d "mw_net w"]
  show "mw_net (forward_taken send targets d w) = offer send targets d (mw_net w)"
    and "mw_input (forward_taken send targets d w) = mw_input w"
    by (cases r; simp add: forward_taken_def)+
qed

definition handed_of :: "mesh_event list \<Rightarrow> bytes list" where
  "handed_of es = concat (map (\<lambda>e. case e of Handed d _ \<Rightarrow> [d] | WorkerTurn \<Rightarrow> []) es)"

definition in_transit :: "'n mesh_worker \<Rightarrow> bytes list" where
  "in_transit w = map fst (hq_items (mw_input w))"

definition delivering ::
    "('t, 'n) audio_socket \<Rightarrow> 't list \<Rightarrow> nat \<Rightarrow> 'n \<Rightarrow> bytes list \<Rightarrow> 'n mesh_worker \<Rightarrow> bool" where
  "delivering send targets c n0 hs w \<longleftrightarrow>
     queue_ok (mw_input w) \<and> \<not> hq_closed (mw_input w) \<and> hq_max_capacity (mw_input w) = c \<and>
     (\<exists>sent. subseq (sent @ in_transit w) hs \<and> mw_net w = fold (offer send targets) sent n0
        \<and> hq_enqueued (mw_input w) = of_nat (length sent + length (in_transit w))
        \<and> hq_enqueued (mw_input w) + hq_dropped (mw_input w) = of_nat (length hs)
        \<and> min c (length hs) \<le> length sent + length (in_transit w))"

lemma delivering_handed:
  assumes "delivering send targets c n0 hs w"
  shows "delivering send targets c n0 (hs @ [d]) (w\<lparr>mw_input := handoff (d, t) (mw_input w)\<rparr>)"
proof -
  from assms obtain sent where q: "queue_ok (mw_input w)" "\<not> hq_closed (mw_input w)" "hq_max_capacity (mw_input w) = c"
    and sub: "subseq (sent @ in_transit w) hs" and net: "mw_net w = fold (offer send targets) sent n0"
    and enq: "hq_enqueued (mw_input w) = of_nat (length sent + length (in_transit w))"
    and tot: "hq_enqueued (mw_input w) + hq_dropped (mw_input w) = of_nat (length hs)"
    and low: "min c (length hs) \<le> length sent + length (in_transit w)"
    by (auto simp: delivering_def)
  have sub': "subseq ((sent @ in_transit w) @ [d]) (hs @ [d])"
    using list_emb_append_mono [OF sub, of "[d]" "[d]"] by simp
  have sub_old: "subseq (sent @ in_transit w) (hs @ [d])"
    using list_emb_append_mono [OF sub, of "[]" "[d]"] by simp
  show ?thesis
  proof (cases rule: handoff_cases [OF q(2,1), of "(d, t)"])
    case 1
    then show ?thesis
      using queue_ok_handoff [OF q(2,1), of "(d, t)"] sub' net enq tot low q
      by (auto simp: delivering_def in_transit_def algebra_simps intro!: exI [of _ sent])
  next
    case 2
    then have "length (in_transit w) = c" using q(3) by (simp add: in_transit_def)
    with 2 show ?thesis
      using queue_ok_handoff [OF q(2,1), of "(d, t)"] sub_old net enq tot low q
      by (auto simp: delivering_def in_transit_def algebra_simps intro!: exI [of _ sent])
  qed
qed

lemma take_input:
  assumes "hq_items (mw_input w) = (d, t) # rest"
  shows "hq_items (mw_input (mesh_worker_take send targets w)) = rest"
    and "hq_closed (mw_input (mesh_worker_take send targets w)) = hq_closed (mw_input w)"
    and "hq_max_capacity (mw_input (mesh_worker_take send targets w)) = hq_max_capacity (mw_input w)"
    and "hq_enqueued (mw_input (mesh_worker_take send targets w)) = hq_enqueued (mw_input w)"
    and "hq_dropped (mw_input (mesh_worker_take send targets w)) = hq_dropped (mw_input w)"
    and "mw_net (mesh_worker_take send targets w) = offer send targets d (mw_net w)"
  using assms by (simp_all add: mesh_worker_take_def store_depth_def Let_def)

lemma delivering_take:
  assumes "delivering send targets c n0 hs w"
  shows "delivering send targets c n0 hs (mesh_worker_take send targets w)"
proof (cases "hq_items (mw_input w)")
  case Nil
  with assms show ?thesis by (simp add: mesh_worker_take_def)
next
  case (Cons x rest)
  obtain d t where x: "hq_items (mw_input w) = (d, t) # rest" using Cons by (cases x) simp
  note tk = take_input [OF x, of send targets]
  from assms obtain sent where "subseq (sent @ in_transit w) hs" and "mw_net w = fold (offer send targets) sent n0"
    and "hq_enqueued (mw_input w) = of_nat (length sent + length (in_transit w))"
    and "hq_enqueued (mw_input w) + hq_dropped (mw_input w) = of_nat (length hs)"
    and "min c (length hs) \<le> length sent + length (in_transit w)"
    and "queue_ok (mw_input w)" "\<not> hq_closed (mw_input w)" "hq_max_capacity (mw_input w) = c"
    by (auto simp: delivering_def)
  with x tk show ?thesis unfolding delivering_def
    by (auto simp: in_transit_def queue_ok_def intro!: exI [of _ "sent @ [d]"])
qed

lemma delivering_run:
  "delivering send targets c n0 hs w \<Longrightarrow>
    delivering send targets c n0 (hs @ handed_of es) (fold (mesh_event_step send targets) es w)"
proof (induction es arbitrary: hs w)
  case Nil
  then show ?case by (simp add: handed_of_def)
next
  case (Cons e es)
  show ?case
  proof (cases e)
    case (Handed d t)
    with Cons.IH [OF delivering_handed [OF Cons.prems, of d t]] show ?thesis
      by (simp add: mesh_event_step_def handed_of_def)
  next
    case WorkerTurn
    with Cons.IH [OF delivering_take [OF Cons.prems]] show ?thesis
      by (simp add: mesh_event_step_def handed_of_def)
  qed
qed

lemma delivering_drain:
  "delivering send targets c n0 hs w \<Longrightarrow> length (hq_items (mw_input w)) = fuel \<Longrightarrow>
    delivering send targets c n0 hs (mesh_worker_drain send targets fuel w)
    \<and> hq_items (mw_input (mesh_worker_drain send targets fuel w)) = []"
proof (induction fuel arbitrary: w)
  case 0
  then show ?case by simp
next
  case (Suc fuel)
  then obtain d t rest where x: "hq_items (mw_input w) = (d, t) # rest"
    by (cases "hq_items (mw_input w)") auto
  have "length (hq_items (mw_input (mesh_worker_take send targets w))) = fuel"
    using take_input(1) [OF x, of send targets] Suc.prems(2) x by simp
  from Suc.IH [OF delivering_take [OF Suc.prems(1)] this] x show ?case by simp
qed

lemma delivering_new:
  "delivering send targets c n [] \<lparr>mw_input = new_handoff_queue c, mw_net = n, mw_forward_errors = 0\<rparr>"
  by (auto simp: delivering_def new_handoff_queue_def queue_ok_def in_transit_def intro!: exI [of _ "[]"])


section \<open>Sorting what arrives\<close>

definition is_media_datagram :: "bytes \<Rightarrow> bool" where
  "is_media_datagram d \<longleftrightarrow> d \<noteq> [] \<and> \<not> starts_with daw_control_magic d \<and> \<not> is_audio_transport_datagram d"

definition is_lane_datagram :: "bytes \<Rightarrow> bool" where
  "is_lane_datagram d \<longleftrightarrow> is_audio_transport_datagram d"

lemma control_is_not_audio: "starts_with daw_control_magic d \<Longrightarrow> \<not> is_audio_transport_datagram d"
proof (cases d)
  case (Cons b bs)
  show "starts_with daw_control_magic d \<Longrightarrow> \<not> is_audio_transport_datagram d"
    unfolding Cons
    by (auto simp: starts_with_def is_audio_transport_datagram_def daw_control_magic_def bstr_def bytes_of_str_def
        multichannel_audio_transport_magic_def encrypted_audio_transport_magic_def split: if_splits)
qed (simp add: starts_with_def daw_control_magic_def bstr_def bytes_of_str_def)

lemma empty_is_not_audio: "\<not> is_audio_transport_datagram []"
  by (simp add: starts_with_def is_audio_transport_datagram_def bstr_def bytes_of_str_def
      multichannel_audio_transport_magic_def encrypted_audio_transport_magic_def)

lemma decode_lanes [simp]:
  "dw_hls (decode_media_datagram api p d w) = dw_hls w" "dw_mesh (decode_media_datagram api p d w) = dw_mesh w"
  by (simp_all add: decode_media_datagram_def Let_def split_beta split: sum.splits option.splits)

definition lane_step :: "'p \<times> nat \<times> bytes
    \<Rightarrow> ('p \<times> bytes) handoff_queue option \<times> (bytes \<times> nat) handoff_queue option
    \<Rightarrow> ('p \<times> bytes) handoff_queue option \<times> (bytes \<times> nat) handoff_queue option" where
  "lane_step ev lanes = (case ev of (peer, now, d) \<Rightarrow>
     (handoff_audio_epoch_hls_datagram peer d (fst lanes), handoff_audio_epoch_mesh_datagram now d (snd lanes)))"

definition media_step :: "('d, 'e, 'n) daw_api \<Rightarrow> 'p \<times> nat \<times> bytes \<Rightarrow> ('p, 'd) assoc \<times> 'e \<times> 'n
    \<Rightarrow> ('p, 'd) assoc \<times> 'e \<times> 'n" where
  "media_step api ev m = (case ev of (peer, now, d) \<Rightarrow>
     let w = decode_media_datagram api peer d \<lparr>dw_hls = None, dw_mesh = None, dw_decoders = fst m, dw_media = snd m\<rparr>
     in (dw_decoders w, dw_media w))"

lemma decode_media:
  "(dw_decoders (decode_media_datagram api p d w), dw_media (decode_media_datagram api p d w))
     = media_step api (p, t, d) (dw_decoders w, dw_media w)"
  by (simp add: decode_media_datagram_def media_step_def Let_def split_beta split: sum.splits option.splits)

lemma receive_lanes:
  "(dw_hls (receive_daw_datagram api ev w), dw_mesh (receive_daw_datagram api ev w))
     = (if is_lane_datagram (snd (snd ev)) then lane_step ev (dw_hls w, dw_mesh w) else (dw_hls w, dw_mesh w))"
  using control_is_not_audio empty_is_not_audio
  by (auto simp: receive_daw_datagram_def is_lane_datagram_def lane_step_def split: prod.splits)

lemma receive_media:
  "(dw_decoders (receive_daw_datagram api ev w), dw_media (receive_daw_datagram api ev w))
     = (if is_media_datagram (snd (snd ev)) then media_step api ev (dw_decoders w, dw_media w)
        else (dw_decoders w, dw_media w))"
proof -
  obtain p t d where ev: "ev = (p, t, d)" by (cases ev)
  show ?thesis
    using decode_media [of api p d w t]
    by (simp add: ev receive_daw_datagram_def is_media_datagram_def)
qed

text \<open>The UDP loop keeps its lanes apart over every run: the handoff queues see exactly the datagrams
  that carry an audio transport magic, each once and in order, the decoders and the media lane see
  exactly the other non-empty datagrams, and relay control reaches neither.\<close>

theorem daw_lanes_separate:
  "(let w' = run_daw_media_udp_ingest api received w in
     (dw_hls w', dw_mesh w')
       = fold lane_step (filter (\<lambda>ev. is_lane_datagram (snd (snd ev))) received) (dw_hls w, dw_mesh w)
   \<and> (dw_decoders w', dw_media w')
       = fold (media_step api) (filter (\<lambda>ev. is_media_datagram (snd (snd ev))) received) (dw_decoders w, dw_media w))
   \<and> filter (\<lambda>ev. starts_with daw_control_magic (snd (snd ev))
        \<and> (is_lane_datagram (snd (snd ev)) \<or> is_media_datagram (snd (snd ev)))) received = []"
proof -
  have lanes: "(dw_hls (fold (receive_daw_datagram api) received w), dw_mesh (fold (receive_daw_datagram api) received w))
      = fold lane_step (filter (\<lambda>ev. is_lane_datagram (snd (snd ev))) received) (dw_hls w, dw_mesh w)"
  proof (induction received arbitrary: w)
    case (Cons ev evs)
    show ?case using Cons.IH [of "receive_daw_datagram api ev w"] by (simp add: receive_lanes)
  qed simp
  have media: "(dw_decoders (fold (receive_daw_datagram api) received w), dw_media (fold (receive_daw_datagram api) received w))
      = fold (media_step api) (filter (\<lambda>ev. is_media_datagram (snd (snd ev))) received) (dw_decoders w, dw_media w)"
  proof (induction received arbitrary: w)
    case (Cons ev evs)
    show ?case using Cons.IH [of "receive_daw_datagram api ev w"] by (simp add: receive_media)
  qed simp
  have "\<not> (starts_with daw_control_magic d \<and> (is_lane_datagram d \<or> is_media_datagram d))" for d
    using control_is_not_audio by (auto simp: is_lane_datagram_def is_media_datagram_def)
  then show ?thesis using lanes media by (simp add: run_daw_media_udp_ingest_def Let_def)
qed

end
