(* ===== verification/Http_Requests.thy ===== *)
theory Http_Requests
  imports Ingress_Headers Media_Params
begin

text \<open>
  Requests, responses and the decisions the HTTP ingress of \<^verbatim>\<open>src/src/bin/av-contrib.rs\<close> takes on
  headers and query alone: the status of a refused publication, what the gate is asked, the session
  authorizer of the AEP1 route, the acknowledgement metadata of an enforced lease, and the startup
  checks of the enforcing mode. Header names are in lower case, as the HTTP crate keeps them, a
  query is the list of decoded pairs, and a JSON body is the list of its members. The HTTP client, the
  URL parser and the JSON reader are arguments.
\<close>

section \<open>Requests and responses\<close>

datatype http_method = GET | HEAD | POST | PUT | OPTIONS | OtherMethod string

datatype http_status =
  StOk | StAccepted | StNoContent | StBadRequest | StUnauthorized | StForbidden | StNotFound
| StMethodNotAllowed | StConflict | StGone | StPayloadTooLarge | StUnsupportedMediaType
| StBadGateway | StServiceUnavailable

datatype json = JString string | JNumber nat | JBool bool | JNull

datatype body_content = TextBody string | JsonBody "(string \<times> json) list" | RawBody bytes

record http_request =
  hr_method :: http_method
  hr_path :: string
  hr_query :: "(string \<times> string) list"
  hr_headers :: "(string \<times> bytes) list"

record http_response =
  rs_status :: http_status
  rs_body :: "body_content option"
  rs_content_type :: "string option"

definition response :: "http_status \<Rightarrow> body_content option \<Rightarrow> string option \<Rightarrow> http_response" where
  "response status body content_type = \<lparr>rs_status = status, rs_body = body, rs_content_type = content_type\<rparr>"

definition get_all :: "http_request \<Rightarrow> string \<Rightarrow> bytes list" where
  "get_all req name = map snd (filter (\<lambda>h. fst h = name) (hr_headers req))"

definition get_header :: "http_request \<Rightarrow> string \<Rightarrow> bytes option" where
  "get_header req name = (case get_all req name of [] \<Rightarrow> None | v # _ \<Rightarrow> Some v)"

abbreviation authorization_header :: string where "authorization_header \<equiv> ''authorization''"
abbreviation content_length_header :: string where "content_length_header \<equiv> ''content-length''"

definition media_frame_envelope_header :: string where
  "media_frame_envelope_header = ''x-infidelity-media-frame-envelope''"

section \<open>Refused publications\<close>

fun publish_error_status :: "publish_rejection_code \<Rightarrow> http_status" where
  "publish_error_status MissingCapability = StUnauthorized"
| "publish_error_status MalformedAuthorization = StUnauthorized"
| "publish_error_status InvalidSignature = StUnauthorized"
| "publish_error_status CapabilityRejected = StUnauthorized"
| "publish_error_status CapabilityExpired = StGone"
| "publish_error_status RevokedBinding = StGone"
| "publish_error_status CapabilityReplay = StConflict"
| "publish_error_status FrameReplay = StConflict"
| "publish_error_status WrongScope = StForbidden"
| "publish_error_status StreamMismatch = StForbidden"
| "publish_error_status LegacyPath = StForbidden"
| "publish_error_status TalkbackIsolation = StForbidden"
| "publish_error_status EnvelopeTooLarge = StPayloadTooLarge"
| "publish_error_status CapabilityTooLarge = StPayloadTooLarge"
| "publish_error_status DatagramLimit = StPayloadTooLarge"
| "publish_error_status _ = StBadRequest"

definition publish_authorization_response :: "publish_ingress_error \<Rightarrow> http_response" where
  "publish_authorization_response e =
     response (publish_error_status (err_code e))
       (Some (JsonBody [(''error'', JString ''publish_authorization_rejected''),
          (''reason'', JString (code_as_str (err_code e))), (''field'', JString (err_field e))]))
       (Some ''application/json'')"

section \<open>What the gate is asked\<close>

definition extract_publish_ingress_request ::
    "base64_engine \<Rightarrow> control_limits \<Rightarrow> http_request \<Rightarrow> publish_ingress_error + string \<times> bytes \<times> u64" where
  "extract_publish_ingress_request b64 lim req =
     (if 1 < length (get_all req authorization_header)
      then Inl (ingress_error MalformedAuthorization ''authorization'')
      else if 1 < length (get_all req media_frame_envelope_header)
      then Inl (ingress_error MalformedEnvelope ''frame_envelope'')
      else if 1 < length (get_all req content_length_header)
      then Inl (ingress_error InvalidContentLength ''content_length'')
      else res_bind (parse_bearer_header (get_header req authorization_header)) (\<lambda>jws.
        res_bind (decode_envelope_header_bytes b64 lim (get_header req media_frame_envelope_header)) (\<lambda>envelope.
        res_bind (parse_content_length_header (get_header req content_length_header)) (\<lambda>n.
          Inr (jws, envelope, n)))))"

text \<open>\<^verbatim>\<open>HeaderValue::to_str\<close> accepts visible ASCII, blanks and tabs.\<close>

definition header_to_str :: "bytes \<Rightarrow> string option" where
  "header_to_str bs = (if list_all (\<lambda>b. b = 9 \<or> (32 \<le> b \<and> b < 127)) bs then Some (str_of_bytes bs) else None)"

definition content_length_exceeds :: "http_request \<Rightarrow> nat \<Rightarrow> bool" where
  "content_length_exceeds req maximum =
     (case Option.bind (Option.bind (get_header req content_length_header) header_to_str) parse_uint of
        None \<Rightarrow> False
      | Some (n :: u64) \<Rightarrow> maximum < unat n)"

definition payload_too_large_response :: "nat \<Rightarrow> http_response" where
  "payload_too_large_response maximum =
     response StPayloadTooLarge
       (Some (TextBody (''media access unit exceeds '' @ dec_str maximum @ '' bytes'' @ nl)))
       (Some ''text/plain; charset=utf-8'')"

section \<open>Acknowledgement metadata of an enforced lease\<close>

definition codec_of_format :: "payload_format \<Rightarrow> media_codec" where
  "codec_of_format f = (case f of FmtOpus \<Rightarrow> CodecOpus | _ \<Rightarrow> CodecData)"

abbreviation mismatch :: "string \<Rightarrow> publish_ingress_error" where
  "mismatch field \<equiv> ingress_error ConfigurationMismatch field"

definition u128_of_i64 :: "int \<Rightarrow> u128 option" where
  "u128_of_i64 x = (if 0 \<le> x then Some (word_of_int x) else None)"

definition ack_pts_ms :: "u128 \<Rightarrow> u128 \<Rightarrow> u64 option" where
  "ack_pts_ms capture_pts timebase =
     Option.bind (checked_mul capture_pts 1000) (\<lambda>v. try_cast (v div timebase))"

definition ack_duration_ms :: "u32 \<Rightarrow> u128 \<Rightarrow> u32 option" where
  "ack_duration_ms ticks timebase =
     Option.bind (checked_mul (ucast ticks :: u128) 1000) (\<lambda>v.
     Option.bind (try_cast (max (div_ceil v timebase) 1)) (\<lambda>d :: u32.
       if d \<le> 65535 then Some d else None))"

definition legacy_ack_metadata_for_publish_lease ::
    "media_access_unit_params \<Rightarrow> publish_lease \<Rightarrow> publish_ingress_error + media_frame_metadata" where
  "legacy_ack_metadata_for_publish_lease params lease =
     (let env = pl_envelope lease; cfg = b_configuration (pl_binding lease) in
      if (case mp_sequence params of None \<Rightarrow> False | Some s \<Rightarrow> s \<noteq> ev_sequence env)
      then Inl (mismatch ''sequence'')
      else let codec = codec_of_format (cf_payload_format cfg) in
        if mp_codec_explicit params \<and> mp_codec params \<noteq> codec then Inl (mismatch ''payload_format'')
        else res_bind (ok_or (mismatch ''capture_pts'') (u128_of_i64 (ev_capture_pts env))) (\<lambda>capture_pts.
          let timebase = ucast (cf_capture_timebase_hz cfg) :: u128 in
          res_bind (ok_or (mismatch ''capture_pts'') (ack_pts_ms capture_pts timebase)) (\<lambda>pts_ms.
          res_bind (ok_or (mismatch ''duration_ticks'') (ack_duration_ms (ev_duration_ticks env) timebase)) (\<lambda>duration_ms.
            map_err (\<lambda>_. mismatch ''media_metadata'')
              (params_metadata
                (params\<lparr>mp_sequence := Some (ev_sequence env), mp_pts_ms := pts_ms, mp_dts_ms := None,
                   mp_duration_ms := duration_ms, mp_codec := codec, mp_codec_explicit := True\<rparr>)
                (ev_sequence env))))))"

section \<open>The session authorizer of the AEP1 route\<close>

definition ingest_identifier :: "string \<Rightarrow> bool" where
  "ingest_identifier v \<longleftrightarrow> v \<noteq> [] \<and> length v \<le> 128
     \<and> list_all (\<lambda>c. is_ascii_alphanumeric c \<or> c = CHR ''-'' \<or> c = CHR ''_'') v"

fun ingest_query_pairs :: "(string \<times> string) list \<Rightarrow> string option \<Rightarrow> string option
    \<Rightarrow> http_status + string option \<times> string option" where
  "ingest_query_pairs [] session endpoint = Inr (session, endpoint)"
| "ingest_query_pairs ((name, value) # kvs) session endpoint =
     (if name = ''sessionId'' \<and> session = None then ingest_query_pairs kvs (Some value) endpoint
      else if name = ''endpointId'' \<and> endpoint = None then ingest_query_pairs kvs session (Some value)
      else Inl StBadRequest)"

definition needletail_ingest_query :: "(string \<times> string) list \<Rightarrow> http_status + string \<times> string" where
  "needletail_ingest_query kvs =
     res_bind (ingest_query_pairs kvs None None) (\<lambda>(session, endpoint).
       case (session, endpoint) of
         (Some s, Some e) \<Rightarrow> if ingest_identifier s \<and> ingest_identifier e then Inr (s, e) else Inl StBadRequest
       | _ \<Rightarrow> Inl StBadRequest)"

definition needletail_ingest_response :: "http_status \<Rightarrow> http_response" where
  "needletail_ingest_response status =
     response status (Some (JsonBody [(''error'', JString ''needletail_ingest_rejected'')])) (Some ''application/json'')"

record http_reply =
  hp_status :: nat
  hp_content_length :: "u64 option"
  hp_bytes :: "bytes option"

record needletail_bootstrap =
  nb_session_id :: string
  nb_endpoint_id :: string
  nb_route_kind :: string
  nb_route_stream_id :: string

record 'u needletail_authorizer =
  na_join :: "string \<Rightarrow> 'u option"
  na_encode_segment :: "bytes \<Rightarrow> string"
  na_post :: "'u \<Rightarrow> string \<Rightarrow> string \<Rightarrow> http_reply option"
  na_read :: "bytes \<Rightarrow> needletail_bootstrap option"
  na_expected_stream_id :: u64

definition url_encode_path_segment :: "'u needletail_authorizer \<Rightarrow> string \<Rightarrow> string" where
  "url_encode_path_segment na value = na_encode_segment na (bytes_of_str value)"

definition upstream_refusal :: "nat \<Rightarrow> http_status" where
  "upstream_refusal code =
     (if code = 401 then StUnauthorized else if code = 403 \<or> code = 404 then StForbidden
      else if code = 409 then StConflict else StServiceUnavailable)"

definition max_bootstrap_reply_bytes :: nat where "max_bootstrap_reply_bytes = 32 * 1024"

definition authorize_session :: "'u needletail_authorizer \<Rightarrow> string \<Rightarrow> string \<Rightarrow> string \<Rightarrow> http_status + unit" where
  "authorize_session na bearer session_id endpoint_id =
     (if \<not> ingest_identifier session_id \<or> \<not> ingest_identifier endpoint_id then Inl StBadRequest
      else res_bind (ok_or StServiceUnavailable (na_join na
          (''v1/sessions/'' @ url_encode_path_segment na session_id @ ''/media/publication-bootstrap''))) (\<lambda>url.
        res_bind (ok_or StServiceUnavailable (na_post na url bearer endpoint_id)) (\<lambda>reply.
        if \<not> (200 \<le> hp_status reply \<and> hp_status reply < 300) then Inl (upstream_refusal (hp_status reply))
        else if (case hp_content_length reply of None \<Rightarrow> False | Some n \<Rightarrow> max_bootstrap_reply_bytes < unat n)
        then Inl StBadGateway
        else res_bind (ok_or StBadGateway (hp_bytes reply)) (\<lambda>bytes.
          if max_bootstrap_reply_bytes < length bytes then Inl StBadGateway
          else res_bind (ok_or StBadGateway (na_read na bytes)) (\<lambda>boot.
            if nb_session_id boot \<noteq> session_id \<or> nb_endpoint_id boot \<noteq> endpoint_id
               \<or> nb_route_kind boot \<noteq> ''needletail_london''
               \<or> nb_route_stream_id boot \<noteq> to_string (na_expected_stream_id na)
            then Inl StForbidden else Inr ())))))"

text \<open>The service address from the environment, already split by the URL parser.\<close>

record service_url =
  su_host :: "string option"
  su_scheme :: string
  su_username :: string
  su_password :: "string option"
  su_query :: "string option"
  su_fragment :: "string option"

definition authorizer_base_ok :: "service_url \<Rightarrow> bool" where
  "authorizer_base_ok u =
     (let local_development = su_host u \<in> {Some ''localhost'', Some ''127.0.0.1'', Some ''::1''} in
      \<not> (su_host u = None
        \<or> (su_scheme u \<noteq> ''https'' \<and> \<not> (su_scheme u = ''http'' \<and> local_development))
        \<or> su_username u \<noteq> [] \<or> su_password u \<noteq> None \<or> su_query u \<noteq> None \<or> su_fragment u \<noteq> None))"

definition authorizer_from_environment ::
    "(string \<Rightarrow> service_url option) \<Rightarrow> string option \<Rightarrow> string + service_url option" where
  "authorizer_from_environment parse_url value =
     (case value of
        None \<Rightarrow> Inr None
      | Some v \<Rightarrow> res_bind (ok_or ''AV_NEEDLETAIL_SESSION_API_BASE is not a URL'' (parse_url v)) (\<lambda>u.
          if authorizer_base_ok u then Inr (Some u)
          else Inl ''AV_NEEDLETAIL_SESSION_API_BASE must be an HTTPS origin''))"

section \<open>Startup\<close>

datatype startup_error =
  BadMode | EnforceNotCompiled | BundleMissing | BundleInvalid publish_ingress_error
| LegacyAdapters "string list"

definition publish_mode_of :: "string option \<Rightarrow> startup_error + publish_authorization_mode" where
  "publish_mode_of value =
     (let v = to_ascii_lowercase (case value of None \<Rightarrow> ''off'' | Some s \<Rightarrow> s) in
      if v = ''off'' then Inr Off
      else if v \<in> {''observe'', ''dark''} then Inr Observe
      else if v = ''enforce'' then Inr Enforce
      else Inl BadMode)"

definition load_publish_ingress_gate ::
    "bool \<Rightarrow> (string \<Rightarrow> publish_authorization_mode \<Rightarrow> publish_ingress_error + gate \<times> lease_verifier)
     \<Rightarrow> string option \<Rightarrow> string option \<Rightarrow> startup_error + (gate \<times> lease_verifier) option" where
  "load_publish_ingress_gate enforce_compiled from_path mode_value bundle_path =
     res_bind (publish_mode_of mode_value) (\<lambda>mode.
       if mode = Off then Inr None
       else if mode = Enforce \<and> \<not> enforce_compiled then Inl EnforceNotCompiled
       else res_bind (ok_or BundleMissing bundle_path) (\<lambda>path.
         res_bind (map_err BundleInvalid (from_path path mode)) (\<lambda>g. Inr (Some g))))"

record adapter_binds =
  ab_daw_media :: bool
  ab_rist :: bool
  ab_srt :: bool
  ab_rtmp :: bool

definition legacy_adapters :: "adapter_binds \<Rightarrow> string list" where
  "legacy_adapters a = (if ab_daw_media a then [''DAW UDP''] else []) @ (if ab_rist a then [''RIST''] else [])
     @ (if ab_srt a then [''SRT''] else []) @ (if ab_rtmp a then [''RTMP''] else [])"

definition validate_enforced_ingress_adapters :: "adapter_binds \<Rightarrow> gate option \<Rightarrow> startup_error + unit" where
  "validate_enforced_ingress_adapters a g =
     (if \<not> (case g of None \<Rightarrow> False | Some g \<Rightarrow> g_mode g = Enforce) then Inr ()
      else if legacy_adapters a \<noteq> [] then Inl (LegacyAdapters (legacy_adapters a)) else Inr ())"

section \<open>Lemmas\<close>

lemma get_all_Nil: "get_header req name = None \<longleftrightarrow> get_all req name = []"
  by (simp add: get_header_def split: list.split)

lemma response_status [simp]: "rs_status (response s b c) = s" by (simp add: response_def)

lemma ingest_query_spec:
  "ingest_query_pairs kvs s e = Inr (s', e') \<Longrightarrow>
    (case s of Some x \<Rightarrow> s' = s \<and> ''sessionId'' \<notin> fst ` set kvs | None \<Rightarrow> s' = map_of kvs ''sessionId'')
    \<and> (case e of Some x \<Rightarrow> e' = e \<and> ''endpointId'' \<notin> fst ` set kvs | None \<Rightarrow> e' = map_of kvs ''endpointId'')
    \<and> distinct (map fst kvs) \<and> fst ` set kvs \<subseteq> {''sessionId'', ''endpointId''}"
proof (induction kvs s e rule: ingest_query_pairs.induct)
  case (1 s e)
  then show ?case by (auto split: option.splits)
next
  case (2 k v kvs s e)
  show ?case
  proof (cases "k = ''sessionId'' \<and> s = None")
    case True
    with 2 show ?thesis by (auto split: option.splits)
  next
    case False
    with 2 show ?thesis by (auto split: if_splits option.splits)
  qed
qed

end
