(* ===== verification/Aep1_Ingest.thy ===== *)
theory Aep1_Ingest
  imports Audio_Handoff Http_Requests Framing
begin

text \<open>
  The body of \<^verbatim>\<open>POST /v1/ingest/aep1\<close> in \<^verbatim>\<open>src/src/bin/av-contrib.rs\<close>: a stream of chunks that carries
  length-prefixed audio datagrams, cut out of a bounded buffer as they become complete. The sink a
  datagram is handed to is an argument. The framing is the second interpretation of \<open>frame_codec\<close>,
  which gives the reading of a whole body the loop over chunks is compared with.
\<close>

definition needletail_aep1_max_datagram_bytes :: nat where "needletail_aep1_max_datagram_bytes = 16 * 1024"
definition needletail_aep1_max_buffer_bytes :: nat where "needletail_aep1_max_buffer_bytes = 256 * 1024"

datatype cut = NeedMore | BadLength | Frame bytes bytes

definition cut_frame :: "bytes \<Rightarrow> cut" where
  "cut_frame pending =
     (if length pending < 4 then NeedMore
      else let n = be_value (take 4 pending) in
        if n = 0 \<or> needletail_aep1_max_datagram_bytes < n then BadLength
        else if length pending < 4 + n then NeedMore
        else Frame (take n (drop 4 pending)) (drop (4 + n) pending))"

record 's aep1_progress =
  ap_sink :: 's
  ap_datagrams :: u64
  ap_payload_bytes :: u64

definition hand_over :: "(bytes \<Rightarrow> 's \<Rightarrow> 's) \<Rightarrow> bytes \<Rightarrow> 's aep1_progress \<Rightarrow> 's aep1_progress" where
  "hand_over hand d p = p\<lparr>ap_sink := hand d (ap_sink p), ap_datagrams := sat_add (ap_datagrams p) 1,
     ap_payload_bytes := sat_add (ap_payload_bytes p) (of_nat (length d))\<rparr>"

lemma cut_frame_shorter: "cut_frame p = Frame d rest \<Longrightarrow> length rest < length p"
  by (auto simp: cut_frame_def Let_def split: if_splits)

text \<open>The inner loop: cut and hand over until the buffer holds no whole datagram.\<close>

function drain_frames :: "(bytes \<Rightarrow> 's \<Rightarrow> 's) \<Rightarrow> bytes \<Rightarrow> 's aep1_progress
    \<Rightarrow> (http_status + bytes) \<times> 's aep1_progress" where
  "drain_frames hand pending p =
     (case cut_frame pending of
        NeedMore \<Rightarrow> (Inr pending, p)
      | BadLength \<Rightarrow> (Inl StPayloadTooLarge, p)
      | Frame d rest \<Rightarrow>
          if \<not> is_audio_transport_datagram d then (Inl StBadRequest, p)
          else drain_frames hand rest (hand_over hand d p))"
  by pat_completeness auto
termination by (relation "measure (\<lambda>(hand, pending, p). length pending)") (auto dest: cut_frame_shorter)

declare drain_frames.simps [simp del]

datatype 'x aep1_failure = Refused http_status | BodyFailed 'x

fun aep1_chunks :: "(bytes \<Rightarrow> 's \<Rightarrow> 's) \<Rightarrow> ('x + bytes) list \<Rightarrow> bytes \<Rightarrow> 's aep1_progress
    \<Rightarrow> ('x aep1_failure + bytes) \<times> 's aep1_progress" where
  "aep1_chunks hand [] pending p = (Inr pending, p)"
| "aep1_chunks hand (Inl x # _) pending p = (Inl (BodyFailed x), p)"
| "aep1_chunks hand (Inr chunk # rest) pending p =
     (if needletail_aep1_max_buffer_bytes < length pending + length chunk
      then (Inl (Refused StPayloadTooLarge), p)
      else case drain_frames hand (pending @ chunk) p of
          (Inl s, p) \<Rightarrow> (Inl (Refused s), p)
        | (Inr pending, p) \<Rightarrow> aep1_chunks hand rest pending p)"

definition aep1_body :: "(bytes \<Rightarrow> 's \<Rightarrow> 's) \<Rightarrow> ('x + bytes) list \<Rightarrow> 's
    \<Rightarrow> ('x aep1_failure + u64 \<times> u64) \<times> 's" where
  "aep1_body hand chunks sink =
     (case aep1_chunks hand chunks [] \<lparr>ap_sink = sink, ap_datagrams = 0, ap_payload_bytes = 0\<rparr> of
        (Inl e, p) \<Rightarrow> (Inl e, ap_sink p)
      | (Inr pending, p) \<Rightarrow>
          if pending \<noteq> [] then (Inl (Refused StBadRequest), ap_sink p)
          else (Inr (ap_datagrams p, ap_payload_bytes p), ap_sink p))"

section \<open>Framing\<close>

definition aep1_frame :: "bytes \<Rightarrow> bytes" where "aep1_frame d = be_bytes 4 (length d) @ d"

definition aep1_fits :: "bytes \<Rightarrow> bool" where
  "aep1_fits d \<longleftrightarrow> 0 < length d \<and> length d \<le> needletail_aep1_max_datagram_bytes"

lemma length_aep1_frame [simp]: "length (aep1_frame d) = 4 + length d"
  by (simp add: aep1_frame_def be_facts)

lemma cut_frame_enc: "aep1_fits d \<Longrightarrow> cut_frame (aep1_frame d @ rest) = Frame d rest"
proof -
  assume fits: "aep1_fits d"
  have "take 4 (aep1_frame d @ rest) = be_bytes 4 (length d)" and "drop 4 (aep1_frame d @ rest) = d @ rest"
    by (simp_all add: aep1_frame_def be_facts)
  moreover have "drop (4 + length d) (aep1_frame d @ rest) = rest" by simp
  moreover have "be_value (be_bytes 4 (length d)) = length d"
    using fits by (simp add: be_value_be_bytes aep1_fits_def needletail_aep1_max_datagram_bytes_def)
  ultimately show ?thesis using fits by (simp add: cut_frame_def aep1_fits_def Let_def)
qed

lemma cut_frame_sound:
  assumes "cut_frame bs = Frame d rest"
  shows "aep1_fits d" and "bs = aep1_frame d @ rest"
proof -
  let ?n = "be_value (take 4 bs)"
  from assms have len: "4 \<le> length bs" "4 + ?n \<le> length bs" and n: "0 < ?n" "?n \<le> needletail_aep1_max_datagram_bytes"
    and d: "d = take ?n (drop 4 bs)" and rest: "rest = drop (4 + ?n) bs"
    by (auto simp: cut_frame_def Let_def not_less split: if_splits)
  have ln: "length d = ?n" using len by (simp add: d)
  with n show "aep1_fits d" by (simp add: aep1_fits_def)
  have l4: "length (take 4 bs) = 4" using len(1) by simp
  have "be_bytes 4 (length d) = take 4 bs" using be_bytes_be_value [of "take 4 bs"] unfolding l4 ln .
  moreover have "rest = drop ?n (drop 4 bs)" using rest by (simp add: add.commute)
  then have "d @ rest = drop 4 bs" by (simp only: d append_take_drop_id)
  ultimately show "bs = aep1_frame d @ rest" by (simp add: aep1_frame_def)
qed

lemma cut_frame_iff: "cut_frame bs = Frame d rest \<longleftrightarrow> aep1_fits d \<and> bs = aep1_frame d @ rest"
  using cut_frame_sound cut_frame_enc by blast

lemma cut_frame_Nil [simp]: "cut_frame [] = NeedMore" by (simp add: cut_frame_def)

lemma cut_frame_needs: "cut_frame bs = NeedMore \<Longrightarrow> length bs < 4 + needletail_aep1_max_datagram_bytes"
  by (auto simp: cut_frame_def Let_def split: if_splits)

lemma cut_frame_bad: "cut_frame bs = BadLength \<Longrightarrow> cut_frame (bs @ later) = BadLength"
  by (auto simp: cut_frame_def Let_def split: if_splits)

text \<open>The same body read as a whole.\<close>

definition next_datagram :: "bytes \<Rightarrow> http_status + (bytes \<times> bytes) option" where
  "next_datagram bs =
     (if bs = [] then Inr None
      else case cut_frame bs of
          NeedMore \<Rightarrow> Inl StBadRequest
        | BadLength \<Rightarrow> Inl StPayloadTooLarge
        | Frame d rest \<Rightarrow> Inr (Some (d, rest)))"

lemma next_datagram_iff:
  "next_datagram bs = Inr (Some (d, rest)) \<longleftrightarrow> aep1_fits d \<and> bs = aep1_frame d @ rest"
proof (cases "bs = []")
  case True
  then show ?thesis by (auto simp: next_datagram_def aep1_frame_def aep1_fits_def)
next
  case False
  then show ?thesis using cut_frame_iff [of bs d rest]
    by (auto simp: next_datagram_def split: cut.splits)
qed

function datagrams_of :: "bytes \<Rightarrow> http_status + bytes list" where
  "datagrams_of bs =
     (case next_datagram bs of
        Inl e \<Rightarrow> Inl e
      | Inr None \<Rightarrow> Inr []
      | Inr (Some (d, rest)) \<Rightarrow> res_bind (datagrams_of rest) (\<lambda>ds. Inr (d # ds)))"
  by pat_completeness auto
termination by (relation "measure length") (auto simp: next_datagram_iff)

declare datagrams_of.simps [simp del]

interpretation aep1: frame_codec aep1_frame aep1_fits next_datagram datagrams_of
proof unfold_locales
  show "next_datagram (aep1_frame x @ rest) = Inr (Some (x, rest))" if "aep1_fits x" for x rest
    using that by (simp add: next_datagram_iff)
  show "aep1_fits x \<and> bs = aep1_frame x @ rest" if "next_datagram bs = Inr (Some (x, rest))" for bs x rest
    using that by (simp add: next_datagram_iff)
  show "next_datagram bs = Inr None \<longleftrightarrow> bs = []" for bs
    by (auto simp: next_datagram_def split: cut.splits)
  show "aep1_frame x \<noteq> []" for x using length_aep1_frame [of x] by (cases "aep1_frame x") auto
  show "datagrams_of bs = (case next_datagram bs of
        Inl e \<Rightarrow> Inl e
      | Inr None \<Rightarrow> Inr []
      | Inr (Some (x, rest)) \<Rightarrow> res_bind (datagrams_of rest) (\<lambda>xs. Inr (x # xs)))" for bs
    by (rule datagrams_of.simps)
qed

section \<open>The loop over chunks\<close>

abbreviation acceptable :: "bytes \<Rightarrow> bool" where
  "acceptable d \<equiv> aep1_fits d \<and> is_audio_transport_datagram d"

abbreviation layout :: "bytes list \<Rightarrow> bytes" where "layout ds \<equiv> concat (map aep1_frame ds)"

lemma layout_split:
  "list_all acceptable ds \<Longrightarrow> list_all acceptable es \<Longrightarrow> layout ds @ y = layout es
    \<Longrightarrow> \<exists>fs. es = ds @ fs \<and> y = layout fs"
proof (induction ds arbitrary: es)
  case (Cons d ds)
  have cut: "cut_frame (layout es) = Frame d (layout ds @ y)"
    using Cons.prems by (simp add: cut_frame_iff flip: Cons.prems(3))
  then obtain e es' where es: "es = e # es'" by (cases es) auto
  have "cut_frame (layout es) = Frame e (layout es')" using Cons.prems(2) by (simp add: es cut_frame_iff)
  with cut have "e = d" and "layout ds @ y = layout es'" by simp_all
  with Cons.IH [of es'] Cons.prems es show ?case by auto
qed simp

text \<open>Each run of the inner loop hands over a laid-out prefix of the buffer and stops for a reason.\<close>

lemma drain_frames_spec:
  "drain_frames hand pending p = (r, p') \<Longrightarrow>
    \<exists>ds rest. pending = layout ds @ rest \<and> list_all acceptable ds \<and> p' = fold (hand_over hand) ds p
      \<and> (case r of
           Inr rest' \<Rightarrow> rest' = rest \<and> cut_frame rest = NeedMore
         | Inl s \<Rightarrow> cut_frame rest = BadLength \<or> (\<exists>d later. cut_frame rest = Frame d later \<and> \<not> is_audio_transport_datagram d))"
proof (induction hand pending p arbitrary: r p' rule: drain_frames.induct)
  case (1 hand pending p)
  note step = drain_frames.simps [of hand pending p]
  show ?case
  proof (cases "cut_frame pending")
    case NeedMore
    with 1(2) step show ?thesis by (intro exI [of _ "[]"] exI [of _ pending]) auto
  next
    case BadLength
    with 1(2) step show ?thesis by (intro exI [of _ "[]"] exI [of _ pending]) auto
  next
    case (Frame d later)
    show ?thesis
    proof (cases "is_audio_transport_datagram d")
      case False
      with Frame 1(2) step show ?thesis by (intro exI [of _ "[]"] exI [of _ pending]) auto
    next
      case True
      with Frame 1(2) step have "drain_frames hand later (hand_over hand d p) = (r, p')" by simp
      from 1(1) [OF Frame _ this] True obtain ds rest where
        "later = layout ds @ rest" "list_all acceptable ds" "p' = fold (hand_over hand) ds (hand_over hand d p)"
        and r: "case r of
           Inr rest' \<Rightarrow> rest' = rest \<and> cut_frame rest = NeedMore
         | Inl s \<Rightarrow> cut_frame rest = BadLength \<or> (\<exists>d later. cut_frame rest = Frame d later \<and> \<not> is_audio_transport_datagram d)"
        by auto
      with True cut_frame_sound [OF Frame] show ?thesis
        by (intro exI [of _ "d # ds"] exI [of _ rest]) simp
    qed
  qed
qed

text \<open>What has arrived of a body, up to a read error.\<close>

fun arrived :: "('x + bytes) list \<Rightarrow> bytes" where
  "arrived [] = []"
| "arrived (Inl _ # _) = []"
| "arrived (Inr c # cs) = c @ arrived cs"

lemma aep1_chunks_sound:
  "aep1_chunks hand chunks pending p = (r, p') \<Longrightarrow>
    \<exists>ds rest. pending @ arrived chunks = layout ds @ rest \<and> list_all acceptable ds
      \<and> p' = fold (hand_over hand) ds p \<and> (case r of Inr rest' \<Rightarrow> rest' = rest | Inl _ \<Rightarrow> True)"
proof (induction hand chunks pending p arbitrary: r p' rule: aep1_chunks.induct)
  case (1 hand pending p)
  then show ?case by (intro exI [of _ "[]"] exI [of _ pending]) auto
next
  case (2 hand x cs pending p)
  then show ?case by (intro exI [of _ "[]"] exI [of _ pending]) auto
next
  case (3 hand chunk rest pending p)
  show ?case
  proof (cases "needletail_aep1_max_buffer_bytes < length pending + length chunk")
    case True
    with 3(2) show ?thesis by (intro exI [of _ "[]"] exI [of _ "pending @ arrived (Inr chunk # rest)"]) auto
  next
    case small: False
    obtain s q where drain: "drain_frames hand (pending @ chunk) p = (s, q)" by fastforce
    from drain_frames_spec [OF drain] obtain ds left where
      ds: "pending @ chunk = layout ds @ left" "list_all acceptable ds" "q = fold (hand_over hand) ds p"
      and s: "case s of Inr rest' \<Rightarrow> rest' = left \<and> cut_frame left = NeedMore
         | Inl _ \<Rightarrow> cut_frame left = BadLength
            \<or> (\<exists>d later. cut_frame left = Frame d later \<and> \<not> is_audio_transport_datagram d)" by blast
    show ?thesis
    proof (cases s)
      case (Inl e)
      with small drain 3(2) ds show ?thesis
        by (intro exI [of _ ds] exI [of _ "left @ arrived rest"]) (auto simp flip: append_assoc)
    next
      case (Inr l)
      with s have l: "s = Inr left" by simp
      with small drain 3(2) have run: "aep1_chunks hand rest left q = (r, p')" by simp
      obtain es rest' where more: "left @ arrived rest = layout es @ rest'" and es: "list_all acceptable es"
        and p': "p' = fold (hand_over hand) es q"
        and last: "case r of Inr rest'' \<Rightarrow> rest'' = rest' | Inl _ \<Rightarrow> True"
        using 3(1) [OF small drain [symmetric] l run] by blast
      have "pending @ arrived (Inr chunk # rest) = (pending @ chunk) @ arrived rest" by simp
      also have "\<dots> = layout ds @ left @ arrived rest" unfolding ds(1) by simp
      also have "\<dots> = layout (ds @ es) @ rest'" by (simp add: more)
      finally have whole: "pending @ arrived (Inr chunk # rest) = layout (ds @ es) @ rest'" .
      have "list_all acceptable (ds @ es)" using ds(2) es by simp
      moreover have "p' = fold (hand_over hand) (ds @ es) p" by (simp add: p' ds(3))
      ultimately show ?thesis using whole last by blast
    qed
  qed
qed

definition chunk_limit :: nat where
  "chunk_limit = needletail_aep1_max_buffer_bytes - (4 + needletail_aep1_max_datagram_bytes)"

definition small_chunk :: "'x + bytes \<Rightarrow> bool" where
  "small_chunk c \<longleftrightarrow> (case c of Inl _ \<Rightarrow> False | Inr bs \<Rightarrow> length bs \<le> chunk_limit)"

lemma aep1_chunks_complete:
  "list_all small_chunk chunks \<Longrightarrow> cut_frame pending = NeedMore \<Longrightarrow> list_all acceptable ds
    \<Longrightarrow> pending @ arrived chunks = layout ds
    \<Longrightarrow> aep1_chunks hand chunks pending p = (Inr [], fold (hand_over hand) ds p)"
proof (induction hand chunks pending p arbitrary: ds rule: aep1_chunks.induct)
  case (1 hand pending p)
  then show ?case by (cases ds) (auto simp: cut_frame_enc)
next
  case (2 hand x cs pending p)
  then show ?case by (simp add: small_chunk_def)
next
  case (3 hand chunk rest pending p)
  have small: "\<not> needletail_aep1_max_buffer_bytes < length pending + length chunk"
    using cut_frame_needs [OF 3(3)] 3(2)
    by (simp add: small_chunk_def chunk_limit_def needletail_aep1_max_buffer_bytes_def
        needletail_aep1_max_datagram_bytes_def)
  obtain s q where drain: "drain_frames hand (pending @ chunk) p = (s, q)" by fastforce
  from drain_frames_spec [OF drain] obtain es left where
    es: "pending @ chunk = layout es @ left" "list_all acceptable es" "q = fold (hand_over hand) es p"
    and s: "case s of
           Inr rest' \<Rightarrow> rest' = left \<and> cut_frame left = NeedMore
         | Inl _ \<Rightarrow> cut_frame left = BadLength \<or> (\<exists>d later. cut_frame left = Frame d later \<and> \<not> is_audio_transport_datagram d)"
    by blast
  have "(pending @ chunk) @ arrived rest = layout ds" using 3(5) by simp
  then have "layout es @ (left @ arrived rest) = layout ds" unfolding es(1) by simp
  from layout_split [OF es(2) 3(4) this] obtain fs where fs: "ds = es @ fs" "left @ arrived rest = layout fs" by blast
  have ok: "list_all acceptable fs" using 3(4) fs(1) by simp
  have "cut_frame left \<noteq> BadLength"
  proof
    assume "cut_frame left = BadLength"
    from cut_frame_bad [OF this, of "arrived rest"] fs(2) ok show False
      by (cases fs) (auto simp: cut_frame_enc)
  qed
  moreover have "is_audio_transport_datagram d" if "cut_frame left = Frame d later" for d later
  proof -
    from cut_frame_sound [OF that] have "cut_frame (layout fs) = Frame d (later @ arrived rest)"
      by (simp add: cut_frame_iff flip: fs(2))
    with ok show ?thesis by (cases fs) (auto simp: cut_frame_enc)
  qed
  ultimately have "s = Inr left" "cut_frame left = NeedMore" using s by (auto split: sum.splits)
  with 3(1) [OF small drain [symmetric] _ _ _ ok fs(2)] 3(2) small drain fs(1) es(3) show ?case by simp
qed

lemma sink_fold: "ap_sink (fold (hand_over hand) ds p) = fold hand ds (ap_sink p)"
  by (induction ds arbitrary: p) (simp_all add: hand_over_def)

lemma aep1_body_sound:
  assumes "aep1_body hand chunks sink = (r, sink')"
  shows "\<exists>ds rest. arrived chunks = layout ds @ rest \<and> list_all acceptable ds \<and> sink' = fold hand ds sink
    \<and> (is_ok r \<longrightarrow> rest = [])"
proof -
  obtain s p where run: "aep1_chunks hand chunks [] \<lparr>ap_sink = sink, ap_datagrams = 0, ap_payload_bytes = 0\<rparr> = (s, p)"
    by fastforce
  from aep1_chunks_sound [OF run] obtain ds rest where
    ds: "arrived chunks = layout ds @ rest" "list_all acceptable ds"
    and p: "p = fold (hand_over hand) ds \<lparr>ap_sink = sink, ap_datagrams = 0, ap_payload_bytes = 0\<rparr>"
    and s: "case s of Inr rest' \<Rightarrow> rest' = rest | Inl _ \<Rightarrow> True" unfolding append_Nil by blast
  have "sink' = fold hand ds sink" and "is_ok r \<longrightarrow> rest = []"
    using assms run p s by (auto simp: aep1_body_def sink_fold split: sum.splits if_splits)
  with ds show ?thesis by blast
qed



end
