(* ===== verification/Router.thy ===== *)
theory Router
  imports Aep1_Ingest Lease_Objects Telemetry
begin

text \<open>
  The HTTP router of \<^verbatim>\<open>src/src/bin/av-contrib.rs\<close>: the read-only routes, the AEP1 body route, the raw
  byte route and the media access-unit route with its publication gate. A route with a body is split
  where the code awaits the body: what happens before it and what happens after it are two steps, and
  anything other requests do in between is a change of the shared world. The rendering of the status
  and metrics documents is not modelled; the mesh telemetry inside a forward is left out.
\<close>

section \<open>Configuration and shared state\<close>

record ('h, 'u, 'e, 'n, 'm, 'p) router_config =
  ro_default_stream_id :: u64
  ro_media :: media_api
  ro_b64 :: base64_engine
  ro_object :: object_api
  ro_encode_object :: "canonical_object \<Rightarrow> bytes option"
  ro_fec :: "'h fec_api"
  ro_send :: "bytes \<Rightarrow> 'n \<Rightarrow> bool \<times> 'n"
  ro_encode_frame :: "'e media_encoder"
  ro_send_media :: "bytes \<Rightarrow> 'm \<Rightarrow> bool \<times> 'm"
  ro_flags :: media_flags_api
  ro_detector :: media_detector
  ro_authorizer :: "'u needletail_authorizer option"
  ro_local_peer :: 'p

record ('e, 'n, 'm, 'p) router_world =
  wo_gate :: "gate option"
  wo_lane :: "byte_lane \<times> 'n"
  wo_media :: "'e \<times> 'm"
  wo_next_media_sequence :: u64
  wo_hls :: "('p \<times> bytes) handoff_queue option"
  wo_mesh :: "(bytes \<times> nat) handoff_queue option"
  wo_instants :: "nat list"
  wo_ingest_active :: bool
  wo_telemetry :: ingest_telemetry

datatype config_error =
  BadStreamId string | BadParams param_error | SlotFailed slot_error | MediaFailed media_forward_error
| ObjectNotEncoded

datatype 'x handler_error = Config config_error | BodyError 'x | Panicked

type_synonym 'x outcome = "'x handler_error + http_response"

definition gate_enforces :: "('e, 'n, 'm, 'p) router_world \<Rightarrow> bool" where
  "gate_enforces w = (case wo_gate w of None \<Rightarrow> False | Some g \<Rightarrow> g_mode g = Enforce)"

definition set_gate :: "gate \<Rightarrow> ('e, 'n, 'm, 'p) router_world \<Rightarrow> ('e, 'n, 'm, 'p) router_world" where
  "set_gate g w = w\<lparr>wo_gate := Some g\<rparr>"

definition note_integration :: "publish_ingress_error \<Rightarrow> ('e, 'n, 'm, 'p) router_world \<Rightarrow> ('e, 'n, 'm, 'p) router_world" where
  "note_integration e w =
     (case wo_gate w of None \<Rightarrow> w | Some g \<Rightarrow> set_gate (snd (handle_integration_error g e)) w)"

section \<open>Read-only routes\<close>

definition contrib_status_path :: string where "contrib_status_path = ''/api/status''"
definition contrib_status_events_path :: string where "contrib_status_events_path = ''/api/status/events''"
definition contrib_metrics_path :: string where "contrib_metrics_path = ''/metrics''"
definition media_access_unit_path :: string where "media_access_unit_path = ''/media/access-unit''"
definition needletail_aep1_ingest_path :: string where "needletail_aep1_ingest_path = ''/v1/ingest/aep1''"
definition needletail_aep1_content_type :: string where
  "needletail_aep1_content_type = ''application/x-needletail-aep1-stream''"
definition prometheus_content_type :: string where
  "prometheus_content_type = ''text/plain; version=0.0.4; charset=utf-8''"

definition viewer_not_found :: http_response where
  "viewer_not_found = response StNotFound
     (Some (TextBody (''viewer delivery is served by a relay or playback edge'' @ nl)))
     (Some ''text/plain; charset=utf-8'')"

definition service_banner :: string where
  "service_banner = ''av-contrib'' @ nl @ nl
     @ ''POST /ingest?stream_id=... publishes arbitrary stream bytes'' @ nl
     @ ''POST /media/access-unit forwards detected media access units'' @ nl
     @ ''GET /api/status returns service status for Needletail Mission Control'' @ nl
     @ ''GET /api/status/events streams service status as SSE'' @ nl
     @ ''GET /metrics returns Prometheus metrics'' @ nl @ ''GET /up checks health'' @ nl"

text \<open>The status and metrics documents are arguments: their rendering is not modelled.\<close>

definition route_get :: "(string \<times> json) list \<Rightarrow> string \<Rightarrow> http_request \<Rightarrow> ('e, 'n, 'm, 'p) router_world \<Rightarrow> http_response" where
  "route_get status_document metrics_document req w =
     (let path = hr_path req in
      if hr_method req = OPTIONS then response StNoContent None None
      else if hr_method req \<noteq> GET \<and> hr_method req \<noteq> HEAD then response StMethodNotAllowed None None
      else if path = ''/'' then response StOk (Some (TextBody service_banner)) (Some ''text/plain; charset=utf-8'')
      else if path = contrib_status_path then
        response StOk (Some (JsonBody status_document)) (Some ''application/json'')
      else if path = contrib_metrics_path then
        response StOk (Some (TextBody (metrics_document
            @ (case wo_gate w of None \<Rightarrow> [] | Some g \<Rightarrow> prometheus_metrics g)))) (Some prometheus_content_type)
      else if path = ''/up'' then response StOk (Some (TextBody ''OK'')) (Some ''text/plain'')
      else if path = ''/ingest'' then
        response StMethodNotAllowed (Some (TextBody (''use POST or PUT /ingest?stream_id=...'' @ nl))) (Some ''text/plain'')
      else if path = media_access_unit_path then
        response StMethodNotAllowed
          (Some (TextBody (''use POST or PUT /media/access-unit?stream_id=...&codec=auto'' @ nl))) (Some ''text/plain'')
      else viewer_not_found)"

definition has_body_handler :: "string \<Rightarrow> bool" where
  "has_body_handler path \<longleftrightarrow> path = ''/ingest'' \<or> path = media_access_unit_path \<or> path = needletail_aep1_ingest_path"

definition is_streaming :: "string \<Rightarrow> bool" where
  "is_streaming path \<longleftrightarrow> path = contrib_status_events_path"

section \<open>The AEP1 route\<close>

definition aep1_begin ::
    "('h, 'u, 'e, 'n, 'm, 'p) router_config \<Rightarrow> http_request \<Rightarrow> ('e, 'n, 'm, 'p) router_world
     \<Rightarrow> (http_response + u64) \<times> ('e, 'n, 'm, 'p) router_world" where
  "aep1_begin cfg req w =
     (let refuse = (\<lambda>s. (Inl (needletail_ingest_response s), w)) in
      if hr_method req \<noteq> POST then (Inl (response StMethodNotAllowed None None), w)
      else case ro_authorizer cfg of
          None \<Rightarrow> refuse StServiceUnavailable
        | Some na \<Rightarrow>
        if wo_hls w = None then refuse StServiceUnavailable
        else if wo_mesh w = None then refuse StServiceUnavailable
        else if length (get_all req authorization_header) \<noteq> 1 then refuse StUnauthorized
        else case parse_bearer_header (get_header req authorization_header) of
          Inl _ \<Rightarrow> refuse StUnauthorized
        | Inr bearer \<Rightarrow>
        (case needletail_ingest_query (hr_query req) of
          Inl s \<Rightarrow> refuse s
        | Inr (session_id, endpoint_id) \<Rightarrow>
        (case authorize_session na bearer session_id endpoint_id of
          Inl s \<Rightarrow> refuse s
        | Inr _ \<Rightarrow>
        if get_header req ''x-needletail-ingest-preflight'' = Some (bytes_of_str ''1'')
        then (Inl (response StNoContent None None), w)
        else if get_header req ''content-type'' \<noteq> Some (bytes_of_str needletail_aep1_content_type)
        then refuse StUnsupportedMediaType
        else if wo_ingest_active w then refuse StConflict
        else (Inr (na_expected_stream_id na), w\<lparr>wo_ingest_active := True\<rparr>))))"

definition next_instant :: "nat list \<Rightarrow> nat \<times> nat list" where
  "next_instant ts = (case ts of [] \<Rightarrow> (0, []) | t # ts \<Rightarrow> (t, ts))"

definition aep1_hand ::
    "('h, 'u, 'e, 'n, 'm, 'p) router_config \<Rightarrow> bytes \<Rightarrow> ('e, 'n, 'm, 'p) router_world \<Rightarrow> ('e, 'n, 'm, 'p) router_world" where
  "aep1_hand cfg d w =
     (case next_instant (wo_instants w) of (now, ts) \<Rightarrow>
      w\<lparr>wo_hls := handoff_audio_epoch_hls_datagram (ro_local_peer cfg) d (wo_hls w),
        wo_mesh := handoff_audio_epoch_mesh_datagram now d (wo_mesh w), wo_instants := ts\<rparr>)"

text \<open>The guard releases the session flag on every exit.\<close>

definition aep1_finish ::
    "('h, 'u, 'e, 'n, 'm, 'p) router_config \<Rightarrow> u64 \<Rightarrow> ('x + bytes) list \<Rightarrow> ('e, 'n, 'm, 'p) router_world
     \<Rightarrow> 'x outcome \<times> ('e, 'n, 'm, 'p) router_world" where
  "aep1_finish cfg expected_stream_id chunks w =
     (case aep1_body (aep1_hand cfg) chunks w of
        (result, w) \<Rightarrow>
          ((case result of
              Inl (Refused s) \<Rightarrow> Inr (needletail_ingest_response s)
            | Inl (BodyFailed x) \<Rightarrow> Inl (BodyError x)
            | Inr (datagrams, payload_bytes) \<Rightarrow>
                Inr (response StAccepted
                  (Some (JsonBody [(''accepted'', JBool True), (''streamId'', JString (to_string expected_stream_id)),
                     (''datagrams'', JNumber (unat datagrams)), (''bytes'', JNumber (unat payload_bytes))]))
                  (Some ''application/json''))),
           w\<lparr>wo_ingest_active := False\<rparr>))"

section \<open>The raw byte route\<close>

fun parse_stream_id_query :: "(string \<times> string) list \<Rightarrow> u64 \<Rightarrow> string + u64" where
  "parse_stream_id_query [] stream_id = Inr stream_id"
| "parse_stream_id_query ((k, v) # kvs) stream_id =
     (if k = ''stream_id'' \<or> k = ''stream''
      then res_bind (ok_or v (parse_uint v)) (parse_stream_id_query kvs)
      else parse_stream_id_query kvs stream_id)"

record raw_counts =
  rx_chunks :: u64
  rx_bytes :: u64
  rx_datagrams :: u64

fun raw_chunks ::
    "('h, 'u, 'e, 'n, 'm, 'p) router_config \<Rightarrow> u64 \<Rightarrow> ('x + bytes) list \<Rightarrow> raw_counts \<Rightarrow> ('e, 'n, 'm, 'p) router_world
     \<Rightarrow> ('x handler_error + raw_counts) \<times> ('e, 'n, 'm, 'p) router_world" where
  "raw_chunks cfg stream_id [] c w = (Inr c, w)"
| "raw_chunks cfg stream_id (Inl x # _) c w = (Inl (BodyError x), w)"
| "raw_chunks cfg stream_id (Inr chunk # rest) c w =
     (if chunk = [] then raw_chunks cfg stream_id rest c w
      else case forward_stream_slot (ro_fec cfg) (ro_send cfg) stream_id chunk (wo_lane w) of
          (Inl e, lane) \<Rightarrow> (Inl (Config (SlotFailed e)), w\<lparr>wo_lane := lane\<rparr>)
        | (Inr sent, lane) \<Rightarrow>
            raw_chunks cfg stream_id rest
              \<lparr>rx_chunks = sat_add (rx_chunks c) 1, rx_bytes = sat_add (rx_bytes c) (of_nat (length chunk)),
               rx_datagrams = sat_add (rx_datagrams c) (of_nat sent)\<rparr> (w\<lparr>wo_lane := lane\<rparr>))"

definition raw_ingest ::
    "('h, 'u, 'e, 'n, 'm, 'p) router_config \<Rightarrow> http_request \<Rightarrow> ('x + bytes) list \<Rightarrow> ('e, 'n, 'm, 'p) router_world
     \<Rightarrow> 'x outcome \<times> ('e, 'n, 'm, 'p) router_world" where
  "raw_ingest cfg req chunks w =
     (if hr_method req \<noteq> POST \<and> hr_method req \<noteq> PUT
      then (Inr (response StMethodNotAllowed (Some (TextBody (''use POST or PUT /ingest'' @ nl))) (Some ''text/plain'')), w)
      else case (case wo_gate w of
            None \<Rightarrow> (Inr (), w)
          | Some g \<Rightarrow> (case authorize_legacy_path g of (r, g) \<Rightarrow> (r, set_gate g w))) of
          (Inl e, w) \<Rightarrow> (Inr (publish_authorization_response e), w)
        | (Inr _, w) \<Rightarrow>
        (case parse_stream_id_query (hr_query req) (ro_default_stream_id cfg) of
          Inl bad \<Rightarrow> (Inl (Config (BadStreamId bad)), w)
        | Inr stream_id \<Rightarrow>
        (case raw_chunks cfg stream_id chunks \<lparr>rx_chunks = 0, rx_bytes = 0, rx_datagrams = 0\<rparr> w of
          (Inl e, w) \<Rightarrow> (Inl e, w)
        | (Inr c, w) \<Rightarrow>
            (Inr (response StAccepted
               (Some (JsonBody [(''stream_id'', JNumber (unat stream_id)), (''stream_id_text'', JString (to_string stream_id)),
                  (''chunks'', JNumber (unat (rx_chunks c))), (''bytes'', JNumber (unat (rx_bytes c))),
                  (''datagrams'', JNumber (unat (rx_datagrams c)))]))
               (Some ''application/json'')),
             w\<lparr>wo_telemetry := record_raw_http stream_id (rx_chunks c) (rx_bytes c) (rx_datagrams c) (wo_telemetry w)\<rparr>))))"

section \<open>The media access-unit route, up to the body\<close>

definition max_media_access_unit_bytes :: nat where "max_media_access_unit_bytes = 8 * 1024 * 1024"

record pending_media =
  pm_params :: media_access_unit_params
  pm_admission :: "publish_admission option"
  pm_ack :: "media_frame_metadata option"

definition admitted_lease :: "publish_admission option \<Rightarrow> publish_lease option" where
  "admitted_lease admission = Option.bind admission pa_lease"

definition ingress_request_of :: "string \<times> bytes \<times> u64 \<Rightarrow> u64 \<Rightarrow> int \<Rightarrow> publish_ingress_request" where
  "ingress_request_of extracted stream_id now =
     (case extracted of (compact_jws, envelope_json, content_length) \<Rightarrow>
      \<lparr>rq_compact_jws = compact_jws, rq_envelope_json = envelope_json, rq_content_length = content_length,
       rq_legacy_stream_id = stream_id, rq_now = now\<rparr>)"

definition media_authorize ::
    "('h, 'u, 'e, 'n, 'm, 'p) router_config \<Rightarrow> int \<Rightarrow> http_request \<Rightarrow> media_access_unit_params
     \<Rightarrow> ('e, 'n, 'm, 'p) router_world \<Rightarrow> (http_response + publish_admission option) \<times> ('e, 'n, 'm, 'p) router_world" where
  "media_authorize cfg now req params w =
     (case wo_gate w of
        None \<Rightarrow> (Inr None, w)
      | Some g \<Rightarrow>
          if g_mode g = Off then (Inr None, w)
          else case extract_publish_ingress_request (ro_b64 cfg) (api_limits (ro_media cfg)) req of
              Inr extracted \<Rightarrow>
                (case authorize (ro_media cfg) g (ingress_request_of extracted (mp_stream_id params) now) of
                   (Inr admission, g) \<Rightarrow> (Inr (Some admission), set_gate g w)
                 | (Inl e, g) \<Rightarrow> (Inl (publish_authorization_response e), set_gate g w))
            | Inl e \<Rightarrow>
                (case handle_integration_error g e of
                   (Inl e, g) \<Rightarrow> (Inl (publish_authorization_response e), set_gate g w)
                 | (Inr _, g) \<Rightarrow> (Inr None, set_gate g w)))"

definition media_ack ::
    "media_access_unit_params \<Rightarrow> publish_admission option \<Rightarrow> ('e, 'n, 'm, 'p) router_world
     \<Rightarrow> ('x outcome + media_frame_metadata option) \<times> ('e, 'n, 'm, 'p) router_world" where
  "media_ack params admission w =
     (if \<not> gate_enforces w then (Inr None, w)
      else case admitted_lease admission of
          None \<Rightarrow> (Inl (Inl Panicked), w)
        | Some lease \<Rightarrow>
            (case legacy_ack_metadata_for_publish_lease params lease of
               Inr metadata \<Rightarrow> (Inr (Some metadata), w)
             | Inl e \<Rightarrow> (Inl (Inr (publish_authorization_response e)), note_integration e w)))"

definition media_begin ::
    "('h, 'u, 'e, 'n, 'm, 'p) router_config \<Rightarrow> u64 \<Rightarrow> int \<Rightarrow> http_request \<Rightarrow> ('e, 'n, 'm, 'p) router_world
     \<Rightarrow> ('x outcome + pending_media) \<times> ('e, 'n, 'm, 'p) router_world" where
  "media_begin cfg now_ms now req w =
     (if hr_method req \<noteq> POST \<and> hr_method req \<noteq> PUT
      then (Inl (Inr (response StMethodNotAllowed
        (Some (TextBody (''use POST or PUT /media/access-unit?stream_id=...&codec=auto'' @ nl))) (Some ''text/plain''))), w)
      else if content_length_exceeds req max_media_access_unit_bytes
      then (Inl (Inr (payload_too_large_response max_media_access_unit_bytes)), w)
      else case params_parse (ro_flags cfg) (hr_query req) (ro_default_stream_id cfg) now_ms of
          Inl e \<Rightarrow> (Inl (Inl (Config (BadParams e))), w)
        | Inr params \<Rightarrow>
            (case media_authorize cfg now req params w of
               (Inl r, w) \<Rightarrow> (Inl (Inr r), w)
             | (Inr admission, w) \<Rightarrow>
                 (case media_ack params admission w of
                    (Inl out, w) \<Rightarrow> (Inl out, w)
                  | (Inr ack, w) \<Rightarrow>
                      (Inr \<lparr>pm_params = params, pm_admission = admission, pm_ack = ack\<rparr>, w))))"

section \<open>The media access-unit route, from the body on\<close>

fun read_body_bytes_limited :: "('x + bytes) list \<Rightarrow> nat \<Rightarrow> bytes \<Rightarrow> 'x + bytes option" where
  "read_body_bytes_limited [] maximum acc = Inr (Some acc)"
| "read_body_bytes_limited (Inl x # _) maximum acc = Inl x"
| "read_body_bytes_limited (Inr chunk # rest) maximum acc =
     (if maximum < length acc + length chunk then Inr None
      else read_body_bytes_limited rest maximum (acc @ chunk))"

definition enforced_lease :: "pending_media \<Rightarrow> ('e, 'n, 'm, 'p) router_world \<Rightarrow> publish_lease option" where
  "enforced_lease p w = (if gate_enforces w then admitted_lease (pm_admission p) else None)"

definition body_limit :: "pending_media \<Rightarrow> ('e, 'n, 'm, 'p) router_world \<Rightarrow> nat" where
  "body_limit p w =
     (case enforced_lease p w of
        None \<Rightarrow> max_media_access_unit_bytes
      | Some lease \<Rightarrow> min (unat (ev_payload_bytes (pl_envelope lease))) max_media_access_unit_bytes)"

definition media_revalidate ::
    "pending_media \<Rightarrow> bytes \<Rightarrow> int \<Rightarrow> ('e, 'n, 'm, 'p) router_world \<Rightarrow> (http_response + unit) \<times> ('e, 'n, 'm, 'p) router_world" where
  "media_revalidate p payload now w =
     (case (wo_gate w, admitted_lease (pm_admission p)) of
        (Some g, Some lease) \<Rightarrow>
          (case revalidate_before_forward g lease (length payload) now of
             (Inl e, g) \<Rightarrow> (Inl (publish_authorization_response e), set_gate g w)
           | (Inr _, g) \<Rightarrow> (Inr (), set_gate g w))
      | _ \<Rightarrow> (Inr (), w))"

definition media_metadata ::
    "('h, 'u, 'e, 'n, 'm, 'p) router_config \<Rightarrow> pending_media \<Rightarrow> bytes \<Rightarrow> ('e, 'n, 'm, 'p) router_world
     \<Rightarrow> (param_error + media_frame_metadata) \<times> ('e, 'n, 'm, 'p) router_world" where
  "media_metadata cfg p payload w =
     (case pm_ack p of
        Some metadata \<Rightarrow> (Inr metadata, w)
      | None \<Rightarrow>
          (case mp_sequence (pm_params p) of
             Some s \<Rightarrow> (metadata_for_payload (ro_detector cfg) (pm_params p) s payload, w)
           | None \<Rightarrow>
               (metadata_for_payload (ro_detector cfg) (pm_params p) (wo_next_media_sequence w) payload,
                w\<lparr>wo_next_media_sequence := wo_next_media_sequence w + 1\<rparr>)))"

definition carrier_stream_id :: "publish_lease \<Rightarrow> u64" where
  "carrier_stream_id lease = b_legacy_stream_id (pl_binding lease)"

definition refuse_and_count ::
    "publish_ingress_error \<Rightarrow> ('e, 'n, 'm, 'p) router_world \<Rightarrow> ('x outcome + nat) \<times> ('e, 'n, 'm, 'p) router_world" where
  "refuse_and_count e w = (Inl (Inr (publish_authorization_response e)), note_integration e w)"

definition datagram_limit_rejection :: publish_ingress_error where
  "datagram_limit_rejection = ingress_error DatagramLimit ''max_datagram_bytes''"

definition forward_canonical ::
    "('h, 'u, 'e, 'n, 'm, 'p) router_config \<Rightarrow> publish_lease \<Rightarrow> bytes \<Rightarrow> ('e, 'n, 'm, 'p) router_world
     \<Rightarrow> ('x outcome + nat) \<times> ('e, 'n, 'm, 'p) router_world" where
  "forward_canonical cfg lease payload w =
     (case canonical_media_object (ro_object cfg) lease payload of
        Inl e \<Rightarrow> refuse_and_count e w
      | Inr object \<Rightarrow>
          (case ro_encode_object cfg object of
             None \<Rightarrow> (Inl (Inl (Config ObjectNotEncoded)), w)
           | Some encoded \<Rightarrow>
               if length encoded \<le> max_stream_fec_object_bytes
               then (case forward_stream_slot_with_limit (ro_fec cfg) (ro_send cfg) (carrier_stream_id lease) encoded
                        (Some (pl_max_datagram_bytes lease)) (wo_lane w) of
                   (Inr k, lane) \<Rightarrow> (Inr k, w\<lparr>wo_lane := lane\<rparr>)
                 | (Inl e, lane) \<Rightarrow>
                     if e = DatagramLimitExceeded then refuse_and_count datagram_limit_rejection (w\<lparr>wo_lane := lane\<rparr>)
                     else (Inl (Inl (Config (SlotFailed e))), w\<lparr>wo_lane := lane\<rparr>))
               else refuse_and_count (ingress_error EnvelopeTooLarge ''canonical_media_object'') w))"

definition forward_reduced ::
    "('h, 'u, 'e, 'n, 'm, 'p) router_config \<Rightarrow> media_frame_metadata \<Rightarrow> bytes \<Rightarrow> ('e, 'n, 'm, 'p) router_world
     \<Rightarrow> ('x outcome + nat) \<times> ('e, 'n, 'm, 'p) router_world" where
  "forward_reduced cfg metadata payload w =
     (case forward_media_access_unit (ro_encode_frame cfg) (ro_send_media cfg) metadata payload None (wo_media w) of
        (Inr k, m) \<Rightarrow> (Inr k, w\<lparr>wo_media := m\<rparr>)
      | (Inl e, m) \<Rightarrow>
          if e = MediaDatagramLimit then refuse_and_count datagram_limit_rejection (w\<lparr>wo_media := m\<rparr>)
          else (Inl (Inl (Config (MediaFailed e))), w\<lparr>wo_media := m\<rparr>))"

definition media_ack_response :: "media_frame_metadata \<Rightarrow> bytes \<Rightarrow> nat \<Rightarrow> http_response" where
  "media_ack_response m payload datagrams =
     response StAccepted
       (Some (JsonBody [(''stream_id'', JNumber (unat (mm_stream_id m))), (''stream_id_text'', JString (to_string (mm_stream_id m))),
          (''sequence'', JNumber (unat (mm_sequence m))), (''pts_ms'', JNumber (unat (mm_pts_ms m))),
          (''dts_ms'', case mm_dts_ms m of None \<Rightarrow> JNull | Some d \<Rightarrow> JNumber (unat d)),
          (''duration_ms'', JNumber (unat (mm_duration_ms m))), (''codec'', JString (codec_name (mm_codec m))),
          (''flags'', JNumber (unat (mm_flags m))), (''payload_bytes'', JNumber (length payload)),
          (''datagrams'', JNumber datagrams)]))
       (Some ''application/json'')"

definition media_finish ::
    "('h, 'u, 'e, 'n, 'm, 'p) router_config \<Rightarrow> pending_media \<Rightarrow> ('x + bytes) list \<Rightarrow> int \<Rightarrow> ('e, 'n, 'm, 'p) router_world
     \<Rightarrow> 'x outcome \<times> ('e, 'n, 'm, 'p) router_world" where
  "media_finish cfg p chunks now w =
     (case read_body_bytes_limited chunks (body_limit p w) [] of
        Inl x \<Rightarrow> (Inl (BodyError x), w)
      | Inr None \<Rightarrow> (Inr (payload_too_large_response (body_limit p w)), w)
      | Inr (Some payload) \<Rightarrow>
          (case media_revalidate p payload now w of
             (Inl r, w) \<Rightarrow> (Inr r, w)
           | (Inr _, w) \<Rightarrow>
          (case media_metadata cfg p payload w of
             (Inl e, w) \<Rightarrow> (Inl (Config (BadParams e)), w)
           | (Inr metadata, w) \<Rightarrow>
          (case (case enforced_lease p w of
                   Some lease \<Rightarrow> forward_canonical cfg lease payload w
                 | None \<Rightarrow> forward_reduced cfg metadata payload w) of
             (Inl out, w) \<Rightarrow> (out, w)
           | (Inr datagrams, w) \<Rightarrow>
               (Inr (media_ack_response metadata payload datagrams),
                w\<lparr>wo_telemetry := record_media_access_unit (mm_stream_id metadata) (of_nat (length payload))
                    (of_nat datagrams) (wo_telemetry w)\<rparr>)))))"

section \<open>Routing a request with a body\<close>

record ('e, 'n, 'm, 'p) surroundings =
  sd_now_ms :: u64
  sd_now_before :: int
  sd_now_after :: int
  sd_meanwhile :: "('e, 'n, 'm, 'p) router_world \<Rightarrow> ('e, 'n, 'm, 'p) router_world"

definition route_body ::
    "('h, 'u, 'e, 'n, 'm, 'p) router_config \<Rightarrow> ('e, 'n, 'm, 'p) surroundings \<Rightarrow> http_request \<Rightarrow> ('x + bytes) list
     \<Rightarrow> ('e, 'n, 'm, 'p) router_world \<Rightarrow> 'x outcome \<times> ('e, 'n, 'm, 'p) router_world" where
  "route_body cfg sd req chunks w =
     (if hr_path req = needletail_aep1_ingest_path then
        (case aep1_begin cfg req w of
           (Inl r, w) \<Rightarrow> (Inr r, w)
         | (Inr expected, w) \<Rightarrow> aep1_finish cfg expected chunks (sd_meanwhile sd w))
      else if hr_path req = ''/ingest'' then raw_ingest cfg req chunks w
      else if hr_path req = media_access_unit_path then
        (case media_begin cfg (sd_now_ms sd) (sd_now_before sd) req w of
           (Inl out, w) \<Rightarrow> (out, w)
         | (Inr p, w) \<Rightarrow> media_finish cfg p chunks (sd_now_after sd) (sd_meanwhile sd w))
      else (Inr viewer_not_found, w))"

end
