(* ===== verification/Router_Claims.thy ===== *)
theory Router_Claims
  imports Router Gate_Claims Ingress_Claims
begin

text \<open>
  The router under an enforcing gate: what may reach the mesh and under which lease, that no route
  goes around the gate, that refusals are answered and counted alike, and that AEP1 bodies are taken
  one session at a time.
\<close>

section \<open>Refusals\<close>

definition is_refusal :: "'x outcome \<Rightarrow> bool" where
  "is_refusal out = (case out of
     Inl _ \<Rightarrow> False
   | Inr r \<Rightarrow> (case rs_body r of
         Some (JsonBody ((k, v) # _)) \<Rightarrow> k = ''error'' \<and> v = JString ''publish_authorization_rejected''
       | _ \<Rightarrow> False))"

definition is_accepted :: "'x outcome \<Rightarrow> bool" where
  "is_accepted out = (case out of Inl _ \<Rightarrow> False | Inr r \<Rightarrow> rs_status r = StAccepted)"

lemma publish_status_error: "publish_error_status c \<noteq> StAccepted"
  by (cases c) simp_all

lemma refusal_simps [simp]:
  "is_refusal (Inl x) = False" "is_refusal (Inr (publish_authorization_response e))"
  "is_refusal (Inr (payload_too_large_response n)) = False"
  "is_refusal (Inr (needletail_ingest_response s)) = False"
  "is_refusal (Inr (media_ack_response m p d)) = False"
  "is_refusal (Inr viewer_not_found) = False"
  "is_refusal (Inr (response s None c)) = False" "is_refusal (Inr (response s (Some (TextBody t)) c)) = False"
  by (simp_all add: is_refusal_def publish_authorization_response_def payload_too_large_response_def
      needletail_ingest_response_def media_ack_response_def viewer_not_found_def response_def)

lemma accepted_simps [simp]:
  "is_accepted (Inl x) = False" "is_accepted (Inr (publish_authorization_response e)) = False"
  "is_accepted (Inr (payload_too_large_response n)) = False" "is_accepted (Inr (media_ack_response m p d))"
  by (simp_all add: is_accepted_def publish_authorization_response_def payload_too_large_response_def
      media_ack_response_def publish_status_error)

definition enforcing :: "('e, 'n, 'm, 'p) router_world \<Rightarrow> gate \<Rightarrow> bool" where
  "enforcing w g \<longleftrightarrow> wo_gate w = Some g \<and> g_mode g = Enforce"

definition rejections :: "('e, 'n, 'm, 'p) router_world \<Rightarrow> u64" where
  "rejections w = (case wo_gate w of None \<Rightarrow> 0 | Some g \<Rightarrow> gm_enforced_rejections (g_metrics g))"

lemma enforcing_simps: "enforcing w g \<Longrightarrow> gate_enforces w \<and> wo_gate w = Some g \<and> g_mode g = Enforce"
  by (simp add: enforcing_def gate_enforces_def)

lemma record_rejection_count [simp]:
  "gm_enforced_rejections (g_metrics (record_rejection g e True)) = gm_enforced_rejections (g_metrics g) + 1"
  "gm_enforced_rejections (g_metrics (record_admitted g)) = gm_enforced_rejections (g_metrics g)"
  by (simp_all add: record_rejection_def record_admitted_def Let_def)

lemma apply_enforced:
  "g_mode g = Enforce \<Longrightarrow> apply_mode g e = (Inl e, record_rejection g e True)"
  by (simp add: apply_mode_def)

lemma note_enforced:
  assumes "enforcing w g"
  shows "note_integration e w = set_gate (record_rejection g e True) w"
    and "enforcing (note_integration e w) (record_rejection g e True)"
    and "rejections (note_integration e w) = rejections w + 1"
  using assms
  by (simp_all add: note_integration_def handle_integration_error_def apply_enforced enforcing_def set_gate_def
      rejections_def)

lemma set_gate_simps [simp]:
  "wo_lane (set_gate g w) = wo_lane w" "wo_media (set_gate g w) = wo_media w" "wo_gate (set_gate g w) = Some g"
  "wo_ingest_active (set_gate g w) = wo_ingest_active w"
  by (simp_all add: set_gate_def)

lemma note_lanes [simp]:
  "wo_lane (note_integration e w) = wo_lane w" "wo_media (note_integration e w) = wo_media w"
  by (simp_all add: note_integration_def split: option.split)

section \<open>Before the body\<close>

text \<open>How authorization under an enforcing gate ends.\<close>

lemma authorize_enforced_cases:
  assumes "g_mode g = Enforce"
  obtains (admitted) l h where "authorize_strict api g q = (Inr l, h)"
      and "authorize api g q = (Inr \<lparr>pa_lease = Some l, pa_observed_rejection = None\<rparr>, record_admitted h)"
      and "g_mode h = Enforce" and "g_metrics h = g_metrics g"
    | (refused) e h where "authorize api g q = (Inl e, record_rejection h e True)"
      and "g_mode h = Enforce" and "g_metrics h = g_metrics g"
proof (cases "authorize_strict api g q")
  case (Pair r h)
  show ?thesis
  proof (cases r)
    case (Inl e)
    with Pair have "authorize_verified api g q = (Inl e, h)" by (simp add: authorize_strict_Inl)
    from authorize_verified_frame [OF this] Pair Inl assms show ?thesis
      by (intro refused [of e h]) (simp_all add: authorize_def)
  next
    case (Inr l)
    with Pair obtain v where "authorize_verified api g q = (Inr (v, l), h)" by (auto simp: authorize_strict_Inr)
    from authorize_verified_frame [OF this] Pair Inr assms show ?thesis
      by (intro admitted [of l h]) (simp_all add: authorize_def)
  qed
qed

definition grants ::
    "('h, 'u, 'e, 'n, 'm, 'p) router_config \<Rightarrow> int \<Rightarrow> http_request \<Rightarrow> gate \<Rightarrow> pending_media \<Rightarrow> publish_lease \<Rightarrow> bool" where
  "grants cfg now req g p lease \<longleftrightarrow> (\<exists>extracted h.
     extract_publish_ingress_request (ro_b64 cfg) (api_limits (ro_media cfg)) req = Inr extracted
     \<and> authorize_strict (ro_media cfg) g (ingress_request_of extracted (mp_stream_id (pm_params p)) now) = (Inr lease, h)
     \<and> pm_admission p = Some \<lparr>pa_lease = Some lease, pa_observed_rejection = None\<rparr>
     \<and> (\<exists>m. legacy_ack_metadata_for_publish_lease (pm_params p) lease = Inr m \<and> pm_ack p = Some m))"

lemma authorize_cases:
  assumes en: "enforcing w g"
  obtains (admitted) x l h where
      "extract_publish_ingress_request (ro_b64 cfg) (api_limits (ro_media cfg)) req = Inr x"
      and "authorize_strict (ro_media cfg) g (ingress_request_of x (mp_stream_id params) now) = (Inr l, h)"
      and "media_authorize cfg now req params w
        = (Inr (Some \<lparr>pa_lease = Some l, pa_observed_rejection = None\<rparr>), set_gate (record_admitted h) w)"
      and "g_mode h = Enforce" and "g_metrics h = g_metrics g"
    | (refused) e h where "media_authorize cfg now req params w
        = (Inl (publish_authorization_response e), set_gate (record_rejection h e True) w)"
      and "g_mode h = Enforce" and "g_metrics h = g_metrics g"
proof (cases "extract_publish_ingress_request (ro_b64 cfg) (api_limits (ro_media cfg)) req")
  case (Inl e)
  with en show ?thesis
    by (intro refused [of e g]) (simp_all add: media_authorize_def enforcing_def handle_integration_error_def apply_enforced)
next
  case (Inr x)
  let ?q = "ingress_request_of x (mp_stream_id params) now"
  from en have mode: "g_mode g = Enforce" by (simp add: enforcing_def)
  show ?thesis
  proof (cases rule: authorize_enforced_cases [OF mode, of "ro_media cfg" ?q])
    case (1 l h)
    with Inr en show ?thesis by (intro admitted [of x l h]) (simp_all add: media_authorize_def enforcing_def)
  next
    case (2 e h)
    with Inr en show ?thesis by (intro refused [of e h]) (simp_all add: media_authorize_def enforcing_def)
  qed
qed

text \<open>Every way the first half ends, with the gate it leaves.\<close>

lemma media_begin_cases:
  assumes en: "enforcing w g" and run: "media_begin cfg ms now req w = (r, w')"
  obtains (early) out where "r = Inl out" and "w' = w"
      and "\<not> is_refusal out" and "\<not> is_accepted out" and "out \<noteq> Inl Panicked"
    | (refused) e h where "r = Inl (Inr (publish_authorization_response e))" and "w' = set_gate h w"
      and "g_mode h = Enforce"
      and "gm_enforced_rejections (g_metrics h) = gm_enforced_rejections (g_metrics g) + 1"
    | (pending) p lease h where "r = Inr p" and "w' = set_gate h w"
      and "grants cfg now req g p lease" and "g_mode h = Enforce"
      and "gm_enforced_rejections (g_metrics h) = gm_enforced_rejections (g_metrics g)"
proof (cases "(hr_method req \<noteq> POST \<and> hr_method req \<noteq> PUT) \<or> content_length_exceeds req max_media_access_unit_bytes")
  case True
  have "r = Inl (Inr (payload_too_large_response max_media_access_unit_bytes))
      \<or> r = Inl (Inr (response StMethodNotAllowed
        (Some (TextBody (''use POST or PUT /media/access-unit?stream_id=...&codec=auto'' @ nl))) (Some ''text/plain'')))"
    and "w' = w"
    using True run by (auto simp: media_begin_def split: if_splits)
  then show ?thesis
    by (elim disjE) (auto simp: is_accepted_def payload_too_large_response_def is_refusal_def response_def intro: early)
next
  case go: False
  show ?thesis
  proof (cases "params_parse (ro_flags cfg) (hr_query req) (ro_default_stream_id cfg) ms")
    case (Inl e)
    with go run show ?thesis by (intro early [of "Inl (Config (BadParams e))"]) (auto simp: media_begin_def)
  next
    case par: (Inr params)
    show ?thesis
    proof (cases rule: authorize_cases [OF en, of cfg req params now])
      case (2 e h)
      with go par run show ?thesis
        by (intro refused [of e "record_rejection h e True"]) (auto simp: media_begin_def)
    next
      case (1 x l h)
      let ?a = "\<lparr>pa_lease = Some l, pa_observed_rejection = None\<rparr>" and ?w = "set_gate (record_admitted h) w"
      have en': "enforcing ?w (record_admitted h)" using 1 by (simp add: enforcing_def)
      show ?thesis
      proof (cases "legacy_ack_metadata_for_publish_lease params l")
        case (Inl e)
        with en' go par 1 run show ?thesis
          using note_enforced(1) [OF en', of e] enforcing_simps [OF en']
          by (intro refused [of e "record_rejection (record_admitted h) e True"])
            (auto simp: media_begin_def media_ack_def admitted_lease_def set_gate_def)
      next
        case (Inr m)
        with en' go par 1 run show ?thesis
          using enforcing_simps [OF en']
          by (intro pending [of "\<lparr>pm_params = params, pm_admission = Some ?a, pm_ack = Some m\<rparr>"
                "record_admitted h" l])
            (auto simp: media_begin_def media_ack_def admitted_lease_def grants_def)
      qed
    qed
  qed
qed

section \<open>After the body\<close>

definition forwards ::
    "('h, 'u, 'e, 'n, 'm, 'p) router_config \<Rightarrow> publish_lease \<Rightarrow> bytes \<Rightarrow> byte_lane \<times> 'n \<Rightarrow> byte_lane \<times> 'n \<Rightarrow> bool \<Rightarrow> bool" where
  "forwards cfg lease payload lane lane' sent \<longleftrightarrow> (\<exists>object encoded result.
     canonical_media_object (ro_object cfg) lease payload = Inr object
     \<and> ro_encode_object cfg object = Some encoded \<and> length encoded \<le> max_stream_fec_object_bytes
     \<and> forward_stream_slot_with_limit (ro_fec cfg) (ro_send cfg) (b_legacy_stream_id (pl_binding lease)) encoded
         (Some (pl_max_datagram_bytes lease)) lane = (result, lane') \<and> is_ok result = sent)"

text \<open>Forwarding the canonical object: the outcome, the lanes and the count of refusals.\<close>

lemma forward_canonical_cases:
  assumes en: "enforcing w g" and run: "forward_canonical cfg lease payload w = (r, w')"
  obtains (stopped) out h where "r = Inl out"
      and "enforcing w' h" and "wo_media w' = wo_media w" and "wo_lane w' = wo_lane w"
      and "\<not> is_accepted out" and "out \<noteq> Inl Panicked"
      and "rejections w' = rejections w + (if is_refusal out then 1 else 0)"
    | (failed) out h where "r = Inl out"
      and "enforcing w' h" and "wo_media w' = wo_media w"
      and "forwards cfg lease payload (wo_lane w) (wo_lane w') False" and "\<not> is_accepted out" and "out \<noteq> Inl Panicked"
      and "rejections w' = rejections w + (if is_refusal out then 1 else 0)"
    | (sent) k where "r = Inr k"
      and "enforcing w' g" and "wo_media w' = wo_media w" and "rejections w' = rejections w"
      and "forwards cfg lease payload (wo_lane w) (wo_lane w') True"
proof (cases "canonical_media_object (ro_object cfg) lease payload")
  case (Inl e)
  with note_enforced [OF en, of e] run show ?thesis
    by (intro stopped [of "Inr (publish_authorization_response e)" "record_rejection g e True"])
      (auto simp: forward_canonical_def refuse_and_count_def)
next
  case obj: (Inr object)
  show ?thesis
  proof (cases "ro_encode_object cfg object")
    case None
    with obj en run show ?thesis
      by (intro stopped [of "Inl (Config ObjectNotEncoded)" g]) (auto simp: forward_canonical_def)
  next
    case enc: (Some encoded)
    show ?thesis
    proof (cases "length encoded \<le> max_stream_fec_object_bytes")
      case False
      let ?e = "ingress_error EnvelopeTooLarge ''canonical_media_object''"
      from False obj enc note_enforced [OF en, of ?e] run show ?thesis
        by (intro stopped [of "Inr (publish_authorization_response ?e)" "record_rejection g ?e True"])
          (auto simp: forward_canonical_def refuse_and_count_def)
    next
      case small: True
      obtain s lane where fwd: "forward_stream_slot_with_limit (ro_fec cfg) (ro_send cfg) (carrier_stream_id lease)
          encoded (Some (pl_max_datagram_bytes lease)) (wo_lane w) = (s, lane)"
        by (metis surj_pair)
      let ?w = "w\<lparr>wo_lane := lane\<rparr>"
      have en': "enforcing ?w g" and same: "rejections ?w = rejections w"
        using en by (simp_all add: enforcing_def rejections_def)
      have fw: "forwards cfg lease payload (wo_lane w) lane (is_ok s)"
        using obj enc small fwd by (auto simp: forwards_def carrier_stream_id_def)
      show ?thesis
      proof (cases s)
        case (Inr k)
        with obj enc small fwd fw en' same run show ?thesis
          by (intro sent [of k]) (auto simp: forward_canonical_def)
      next
        case (Inl e)
        show ?thesis
        proof (cases "e = DatagramLimitExceeded")
          case True
          from True Inl obj enc small fwd fw same run note_enforced [OF en', of datagram_limit_rejection] show ?thesis
            by (intro failed [of "Inr (publish_authorization_response datagram_limit_rejection)"
                  "record_rejection g datagram_limit_rejection True"])
              (auto simp: forward_canonical_def refuse_and_count_def)
        next
          case False
          with Inl obj enc small fwd fw same en' run show ?thesis
            by (intro failed [of "Inl (Config (SlotFailed e))" g]) (auto simp: forward_canonical_def)
        qed
      qed
    qed
  qed
qed

lemma media_finish_cases:
  fixes chunks :: "('x + bytes) list"
  assumes en: "enforcing w g" and lease: "admitted_lease (pm_admission p) = Some lease" and ack: "pm_ack p = Some m"
  obtains (stopped) out w' h where "media_finish cfg p chunks now w = (out, w')"
      and "enforcing w' h" and "wo_media w' = wo_media w" and "wo_lane w' = wo_lane w"
      and "\<not> is_accepted out" and "out \<noteq> Inl Panicked"
      and "rejections w' = rejections w + (if is_refusal out then 1 else 0)"
    | (forwarded) out w' h payload where "media_finish cfg p chunks now w = (out, w')"
      and "enforcing w' h" and "wo_media w' = wo_media w"
      and "read_body_bytes_limited chunks (body_limit p w) [] = Inr (Some payload)"
      and "revalidate_strict g lease (length payload) now = Inr ()"
      and "forwards cfg lease payload (wo_lane w) (wo_lane w') (is_accepted out)" and "out \<noteq> Inl Panicked"
      and "rejections w' = rejections w + (if is_refusal out then 1 else 0)"
proof -
  note ens = enforcing_simps [OF en]
  have own: "enforced_lease p w = Some lease" using ens lease by (simp add: enforced_lease_def)
  show ?thesis
  proof (cases "read_body_bytes_limited chunks (body_limit p w) []")
    case (Inl x)
    with en show ?thesis by (intro stopped [of "Inl (BodyError x)" w g]) (simp_all add: media_finish_def)
  next
    case read: (Inr body)
    show ?thesis
    proof (cases body)
      case None
      with read en show ?thesis
        by (intro stopped [of "Inr (payload_too_large_response (body_limit p w))" w g]) (simp_all add: media_finish_def)
    next
      case payload: (Some payload)
      show ?thesis
      proof (cases "revalidate_strict g lease (length payload) now")
        case (Inl e)
        let ?w = "set_gate (record_rejection g e True) w"
        have "media_finish cfg p chunks now w = (Inr (publish_authorization_response e), ?w)"
          using Inl read payload ens lease
          by (simp add: media_finish_def media_revalidate_def revalidate_before_forward_def apply_enforced)
        moreover have "enforcing ?w (record_rejection g e True)" using ens by (simp add: enforcing_def)
        moreover have "rejections ?w = rejections w + 1" using ens by (simp add: rejections_def)
        ultimately show ?thesis
          by (intro stopped [of "Inr (publish_authorization_response e)" ?w "record_rejection g e True"]) simp_all
      next
        case ok: (Inr u)
        have same: "set_gate g w = w" using ens by (simp add: set_gate_def)
        have go: "media_finish cfg p chunks now w = (case forward_canonical cfg lease payload w of
             (Inl out, w) \<Rightarrow> (out, w)
           | (Inr datagrams, w) \<Rightarrow>
               (Inr (media_ack_response m payload datagrams),
                w\<lparr>wo_telemetry := record_media_access_unit (mm_stream_id m) (of_nat (length payload))
                    (of_nat datagrams) (wo_telemetry w)\<rparr>))"
          using ok read payload ens lease ack own
          by (simp add: media_finish_def media_revalidate_def revalidate_before_forward_def same media_metadata_def)
        obtain r w' where fwd: "forward_canonical cfg lease payload w = ((r :: 'x outcome + nat), w')" by (metis surj_pair)
        show ?thesis
        proof (cases rule: forward_canonical_cases [OF en fwd])
          case (1 out h)
          then show ?thesis by (intro stopped [of out w' h]) (simp_all add: go fwd)
        next
          case (2 out h)
          then show ?thesis using read payload ok by (intro forwarded [of out w' h payload]) (simp_all add: go fwd)
        next
          case (3 k)
          let ?w = "w'\<lparr>wo_telemetry := record_media_access_unit (mm_stream_id m) (of_nat (length payload))
                    (of_nat k) (wo_telemetry w')\<rparr>"
          have "enforcing ?w g" and "rejections ?w = rejections w"
            using 3 by (simp_all add: enforcing_def rejections_def)
          with 3 read payload ok show ?thesis
            by (intro forwarded [of "Inr (media_ack_response m payload k)" ?w g payload]) (simp_all add: go fwd)
        qed
      qed
    qed
  qed
qed

lemma grants_pending:
  "grants cfg now req g p lease \<Longrightarrow> admitted_lease (pm_admission p) = Some lease \<and> (\<exists>m. pm_ack p = Some m)"
  by (auto simp: grants_def admitted_lease_def)

text \<open>C10: Under an enforcing gate nothing reaches the mesh on the media route but the canonical object of the
  lease the request was granted: the capability, envelope and length in the request's own headers
  were admitted strictly by the gate before the body was read, the lease was revalidated against the
  gate as it was after the body had arrived, whatever happened in between, and the encoded object
  of at most 8 MiB went to the lease's carrier stream under the lease's datagram limit; the request
  is accepted exactly when that succeeded, and the unauthenticated media lane is never touched.\<close>

theorem enforced_publication_sound:
  fixes out :: "'x outcome"
  assumes "enforcing w g" and "media_begin cfg ms before req w = ((Inr p :: 'x outcome + pending_media), w1)"
    and "enforcing w2 g2" and "media_finish cfg p chunks after w2 = (out, w3)"
  shows "\<exists>lease. grants cfg before req g p lease \<and> wo_media w3 = wo_media w2
    \<and> (wo_lane w3 = wo_lane w2 \<and> \<not> is_accepted out
       \<or> (\<exists>payload. read_body_bytes_limited chunks (body_limit p w2) [] = Inr (Some payload)
            \<and> revalidate_strict g2 lease (length payload) after = Inr ()
            \<and> forwards cfg lease payload (wo_lane w2) (wo_lane w3) (is_accepted out)))"
proof -
  from assms(2) obtain lease where g: "grants cfg before req g p lease"
    by (cases rule: media_begin_cases [OF assms(1,2)]) auto
  from grants_pending [OF g] obtain m where p: "admitted_lease (pm_admission p) = Some lease" "pm_ack p = Some m" by blast
  show ?thesis using g assms(4)
    by (cases rule: media_finish_cases [OF assms(3) p, of cfg chunks after]) auto
qed

section \<open>Whole requests\<close>

lemma begin_refusals:
  "aep1_begin cfg req w = (Inl r, w') \<Longrightarrow> w' = w \<and> \<not> is_refusal (Inr r :: 'x outcome)"
  by (auto simp: aep1_begin_def Let_def split: if_splits option.splits sum.splits)

lemma begin_session:
  "aep1_begin cfg req w = (Inr n, w') \<Longrightarrow> w' = w\<lparr>wo_ingest_active := True\<rparr> \<and> \<not> wo_ingest_active w"
  by (auto simp: aep1_begin_def Let_def split: if_splits option.splits sum.splits)

lemma hand_frame:
  "wo_gate (fold (aep1_hand cfg) ds w) = wo_gate w \<and> wo_lane (fold (aep1_hand cfg) ds w) = wo_lane w
   \<and> wo_media (fold (aep1_hand cfg) ds w) = wo_media w
   \<and> wo_ingest_active (fold (aep1_hand cfg) ds w) = wo_ingest_active w"
  by (induction ds arbitrary: w) (simp_all add: aep1_hand_def split_beta)

lemma finish_frame:
  fixes out :: "'x outcome"
  assumes "aep1_finish cfg n chunks w = (out, w')"
  shows "wo_gate w' = wo_gate w" and "wo_lane w' = wo_lane w" and "wo_media w' = wo_media w"
    and "\<not> wo_ingest_active w'" and "\<not> is_refusal out" and "out \<noteq> Inl Panicked"
proof -
  obtain r v where body: "aep1_body (aep1_hand cfg) chunks w = (r, v)" by fastforce
  from aep1_body_sound [OF body] obtain ds where "v = fold (aep1_hand cfg) ds w" by blast
  with hand_frame [of cfg ds w] have v: "wo_gate v = wo_gate w" "wo_lane v = wo_lane w" "wo_media v = wo_media w"
    by simp_all
  show "wo_gate w' = wo_gate w" and "wo_lane w' = wo_lane w" and "wo_media w' = wo_media w"
    and "\<not> wo_ingest_active w'"
    using assms v by (auto simp: aep1_finish_def body)
  show "\<not> is_refusal out" and "out \<noteq> Inl Panicked"
    using assms by (auto simp: aep1_finish_def body is_refusal_def response_def needletail_ingest_response_def
        split: sum.splits aep1_failure.splits prod.splits)
qed

lemma raw_ingest_enforced:
  fixes out :: "'x outcome"
  assumes en: "enforcing w g" and run: "raw_ingest cfg req chunks w = (out, w')"
  shows "\<exists>h. enforcing w' h \<and> wo_media w' = wo_media w \<and> wo_lane w' = wo_lane w \<and> out \<noteq> Inl Panicked
    \<and> rejections w' = rejections w + (if is_refusal out then 1 else 0)"
proof (cases "hr_method req \<noteq> POST \<and> hr_method req \<noteq> PUT")
  case True
  with run en show ?thesis by (auto simp: raw_ingest_def)
next
  case False
  let ?e = "ingress_error LegacyPath ''ingress_path''"
  let ?g = "record_rejection g ?e True"
  have "out = Inr (publish_authorization_response ?e)" and "w' = set_gate ?g w"
    using False run en by (auto simp: raw_ingest_def enforcing_def authorize_legacy_path_def apply_enforced)
  with en show ?thesis by (intro exI [of _ ?g]) (simp add: enforcing_def rejections_def)
qed

lemma route_body_enforced:
  fixes out :: "'x outcome"
  assumes en: "enforcing w g" and run: "route_body cfg sd req chunks w = (out, w')"
    and quiet: "sd_meanwhile sd = id"
  shows "\<exists>h. enforcing w' h \<and> wo_media w' = wo_media w \<and> out \<noteq> Inl Panicked
    \<and> rejections w' = rejections w + (if is_refusal out then 1 else 0)
    \<and> (hr_path req \<noteq> media_access_unit_path \<longrightarrow> wo_lane w' = wo_lane w)"
proof -
  consider "hr_path req = needletail_aep1_ingest_path" | "hr_path req = ''/ingest''"
    | "hr_path req = media_access_unit_path"
    | "hr_path req \<noteq> needletail_aep1_ingest_path" "hr_path req \<noteq> ''/ingest''" "hr_path req \<noteq> media_access_unit_path"
    by blast
  then show ?thesis
  proof cases
    case 1
    obtain r v where beg: "aep1_begin cfg req w = (r, v)" by fastforce
    show ?thesis
    proof (cases r)
      case (Inl a)
      with begin_refusals [of cfg req w a v, where ?'x = 'x] beg run 1 en show ?thesis
        by (auto simp: route_body_def)
    next
      case (Inr n)
      with begin_session [of cfg req w n v] beg have v: "v = w\<lparr>wo_ingest_active := True\<rparr>" by simp
      from Inr beg run 1 quiet have fin: "aep1_finish cfg n chunks v = (out, w')" by (simp add: route_body_def)
      from finish_frame [OF fin] en v show ?thesis
        by (intro exI [of _ g]) (simp add: enforcing_def rejections_def)
    qed
  next
    case 2
    then have "raw_ingest cfg req chunks w = (out, w')"
      using run by (simp add: route_body_def needletail_aep1_ingest_path_def)
    from raw_ingest_enforced [OF en this] show ?thesis by blast
  next
    case 3
    obtain r v where beg: "media_begin cfg (sd_now_ms sd) (sd_now_before sd) req w = ((r :: 'x outcome + pending_media), v)"
      by (metis surj_pair)
    have route: "(out, w') = (case r of Inl out \<Rightarrow> (out, v) | Inr p \<Rightarrow> media_finish cfg p chunks (sd_now_after sd) v)"
      using run 3 quiet beg
      by (simp add: route_body_def needletail_aep1_ingest_path_def media_access_unit_path_def split: sum.splits)
    show ?thesis
    proof (cases rule: media_begin_cases [OF en beg])
      case (1 o1)
      with route en 3 show ?thesis by auto
    next
      case (2 e h)
      with route en 3 show ?thesis by (intro exI [of _ h]) (auto simp: enforcing_def rejections_def)
    next
      case (3 p lease h)
      from 3 en have en2: "enforcing v h" and same: "rejections v = rejections w" and md: "wo_media v = wo_media w"
        by (simp_all add: enforcing_def rejections_def)
      from grants_pending [OF 3(3)] obtain m where p: "admitted_lease (pm_admission p) = Some lease" "pm_ack p = Some m"
        by blast
      from 3 route have fin: "media_finish cfg p chunks (sd_now_after sd) v = (out, w')" by simp
      show ?thesis
        using fin same md \<open>hr_path req = media_access_unit_path\<close>
        by (cases rule: media_finish_cases [OF en2 p, of cfg chunks "sd_now_after sd"]) auto
    qed
  next
    case 4
    with run en show ?thesis by (auto simp: route_body_def)
  qed
qed

fun route_all ::
    "('h, 'u, 'e, 'n, 'm, 'p) router_config
     \<Rightarrow> (('e, 'n, 'm, 'p) surroundings \<times> http_request \<times> ('x + bytes) list) list
     \<Rightarrow> ('e, 'n, 'm, 'p) router_world \<Rightarrow> 'x outcome list \<times> ('e, 'n, 'm, 'p) router_world" where
  "route_all cfg [] w = ([], w)"
| "route_all cfg ((sd, req, chunks) # rest) w =
     (case route_body cfg sd req chunks w of (out, w) \<Rightarrow>
      case route_all cfg rest w of (outs, w) \<Rightarrow> (out # outs, w))"

text \<open>A request during which no other one touches the shared state.\<close>

definition undisturbed ::
    "('e, 'n, 'm, 'p) surroundings \<times> http_request \<times> ('x + bytes) list \<Rightarrow> bool" where
  "undisturbed r \<longleftrightarrow> sd_meanwhile (fst r) = id"


section \<open>One AEP1 session at a time\<close>

text \<open>The number of AEP1 bodies being read, beside the shared state.\<close>

inductive aep1_system ::
    "('h, 'u, 'e, 'n, 'm, 'p) router_config \<Rightarrow> nat \<Rightarrow> ('e, 'n, 'm, 'p) router_world \<Rightarrow> bool" for cfg where
  aep1_idle: "\<not> wo_ingest_active w \<Longrightarrow> aep1_system cfg 0 w"
| aep1_opened: "aep1_system cfg k w \<Longrightarrow> aep1_begin cfg req w = (Inr n, w') \<Longrightarrow> aep1_system cfg (Suc k) w'"
| aep1_turned_away: "aep1_system cfg k w \<Longrightarrow> aep1_begin cfg req w = (Inl r, w') \<Longrightarrow> aep1_system cfg k w'"
| aep1_closed: "aep1_system cfg (Suc k) w
    \<Longrightarrow> aep1_finish cfg n (chunks :: (string + bytes) list) w = (out, w') \<Longrightarrow> aep1_system cfg k w'"

lemma aep1_system_flag: "aep1_system cfg k w \<Longrightarrow> k = (if wo_ingest_active w then 1 else 0)"
proof (induction rule: aep1_system.induct)
  case (aep1_idle w)
  then show ?case by simp
next
  case (aep1_opened k w req n w')
  from begin_session [OF aep1_opened(2)] aep1_opened(3) show ?case by auto
next
  case (aep1_turned_away k w req r w')
  from begin_refusals [OF aep1_turned_away(2)] aep1_turned_away(3) show ?case by auto
next
  case (aep1_closed k w n chunks out w')
  from finish_frame(4) [OF aep1_closed(2)] aep1_closed(3) show ?case by (auto split: if_splits)
qed

text \<open>At most one AEP1 body is read at any time, over every interleaving of opening and ending
  requests: the flag is set exactly while one is, a second request is turned away without touching
  the state, and every end of a body, read errors and refusals included, lets the next one in.\<close>

theorem aep1_single_session:
  assumes "aep1_system cfg k w"
  shows "k \<le> 1 \<and> (k = 1 \<longleftrightarrow> wo_ingest_active w)
    \<and> (k = 1 \<longrightarrow> (\<exists>r. aep1_begin cfg req w = (Inl r, w)))"
proof -
  have flag: "k = (if wo_ingest_active w then 1 else 0)" by (rule aep1_system_flag [OF assms])
  obtain r v where beg: "aep1_begin cfg req w = (r, v)" by fastforce
  have "\<exists>r. aep1_begin cfg req w = (Inl r, w)" if "wo_ingest_active w"
  proof (cases r)
    case (Inl a)
    with beg begin_refusals [of cfg req w a v] show ?thesis by auto
  next
    case (Inr n)
    with beg begin_session [of cfg req w n v] that show ?thesis by simp
  qed
  with flag show ?thesis by simp
qed

section \<open>A concrete router\<close>

definition demo_router :: "(u32, unit, unit, bytes list, unit, unit) router_config" where
  "demo_router = \<lparr>ro_default_stream_id = 1, ro_media = demo_api,
     ro_b64 = \<lparr>b64_decode = (\<lambda>_. Some [7]), b64_encode = (\<lambda>_. ''Bw'')\<rparr>,
     ro_object = \<lparr>oa_key_for_payload = (\<lambda>k _. Some k), oa_clock_timestamp = Some, oa_configuration_json = (\<lambda>_. Inr []),
       oa_envelope_json = (\<lambda>_. Inr []), oa_build = Some\<rparr>,
     ro_encode_object = (\<lambda>_. Some [1, 2, 3]), ro_fec = demo_fec, ro_send = demo_send,
     ro_encode_frame = (\<lambda>_ _ e. (None, e)), ro_send_media = (\<lambda>_ n. (True, n)),
     ro_flags = \<lparr>fl_default = 0, fl_keyframe = 1, fl_codec_config = 2, fl_discontinuity = 4, fl_end_of_stream = 8,
       fl_with = (OR)\<rparr>,
     ro_detector = \<lparr>md_is_nalu = (\<lambda>_. False), md_detect_audio = (\<lambda>_. TypeOther)\<rparr>,
     ro_authorizer = None, ro_local_peer = ()\<rparr>"

definition demo_router_world :: "(unit, bytes list, unit, unit) router_world" where
  "demo_router_world = \<lparr>wo_gate = Some (demo_gate Enforce), wo_lane = (demo_lane, []), wo_media = ((), ()),
     wo_next_media_sequence = 0, wo_hls = None, wo_mesh = None, wo_instants = [], wo_ingest_active = False,
     wo_telemetry = default_telemetry []\<rparr>"

definition demo_post :: http_request where
  "demo_post = \<lparr>hr_method = POST, hr_path = media_access_unit_path, hr_query = [(''stream_id'', to_string (77 :: u64))],
     hr_headers = [(''authorization'', bytes_of_str ''Bearer jws''),
       (''x-infidelity-media-frame-envelope'', bytes_of_str ''Bw''), (''content-length'', bytes_of_str ''100'')]\<rparr>"

lemma demo_enforcing: "enforcing demo_router_world (demo_gate Enforce)"
  by (simp add: enforcing_def demo_router_world_def demo_gate_def new_gate_def)

lemma demo_length: "parse_uint ''100'' = Some (100 :: u64)"
  by (simp add: parse_uint_def all_digits_def is_ascii_digit_def char_code_def dec_value_def digit_val_def
      word_of_nat_checked_def)

lemma demo_headers:
  "get_all demo_post ''authorization'' = [bytes_of_str ''Bearer jws'']"
  "get_all demo_post media_frame_envelope_header = [bytes_of_str ''Bw'']"
  "get_all demo_post ''content-length'' = [bytes_of_str ''100'']"
  by (simp_all add: get_all_def demo_post_def media_frame_envelope_header_def)

lemma demo_extract:
  "extract_publish_ingress_request (ro_b64 demo_router) (api_limits (ro_media demo_router)) demo_post
     = Inr (''jws'', [7], 100)"
proof -
  have utf: "from_utf8 (bytes_of_str ''Bearer jws'') = Some ''Bearer jws''" "from_utf8 (bytes_of_str ''Bw'') = Some ''Bw''"
    "from_utf8 (bytes_of_str ''100'') = Some ''100''"
    unfolding from_utf8_def str_of_bytes_of_str by (simp_all add: bytes_of_str_def)
  have bearer: "parse_bearer_header (Some (bytes_of_str ''Bearer jws'')) = Inr ''jws''"
    by (simp add: parse_bearer_header_def utf is_ascii_whitespace_def char_code_def)
  have env: "decode_envelope_header_bytes (ro_b64 demo_router) (api_limits (ro_media demo_router))
      (Some (bytes_of_str ''Bw'')) = Inr [7]"
    by (simp add: decode_envelope_header_bytes_def decode_envelope_header_def utf demo_router_def demo_api_def demo_limits_def div_ceil_nat_def)
  have len: "parse_content_length_header (Some (bytes_of_str ''100'')) = Inr 100"
    by (simp add: parse_content_length_header_def utf starts_with_def
        is_ascii_digit_def char_code_def demo_length)
  show ?thesis
    by (simp add: extract_publish_ingress_request_def demo_headers get_header_def bearer env len)
qed

lemma demo_begins:
  "\<exists>p w1. media_begin demo_router 5 10 demo_post demo_router_world = ((Inr p :: unit outcome + pending_media), w1)"
proof -
  have "length (get_all demo_post content_length_header) = 1" by (simp add: demo_headers)
  have str: "header_to_str (bytes_of_str ''100'') = Some ''100''"
    unfolding header_to_str_def str_of_bytes_of_str by (simp add: bytes_of_str_def)
  have short: "\<not> content_length_exceeds demo_post max_media_access_unit_bytes"
    by (simp add: content_length_exceeds_def get_header_def demo_headers str demo_length
        max_media_access_unit_bytes_def)
  obtain params where par: "params_parse (ro_flags demo_router) (hr_query demo_post) (ro_default_stream_id demo_router) 5
      = Inr params" and stream: "mp_stream_id params = 77" and seq: "mp_sequence params = None"
    and ex: "\<not> mp_codec_explicit params"
    by (simp add: params_parse_def demo_post_def demo_router_def default_params_def)
  have q: "ingress_request_of (''jws'', [7], 100) (mp_stream_id params) 10 = demo_request 7"
    by (simp add: ingress_request_of_def demo_request_def stream)
  obtain l h where adm: "authorize_strict demo_api (demo_gate Enforce) (demo_request 7) = (Inr l, h)"
    and env: "pl_envelope l = demo_envelope 7" and bind: "pl_binding l = demo_binding"
    by (simp add: authorize_strict_def gate_eval)
  have "legacy_ack_metadata_for_publish_lease params l \<noteq> Inl e" for e
    by (simp add: legacy_ack_metadata_for_publish_lease_def env bind demo_envelope_def demo_binding_def
        demo_configuration_def seq ex u128_of_i64_def ack_pts_ms_def ack_duration_ms_def checked_mul_def
        try_cast_def div_ceil_def params_metadata_def Let_def max_def)
  then obtain m where ack: "legacy_ack_metadata_for_publish_lease params l = Inr m"
    by (metis sumE)
  have mode: "g_mode h = Enforce"
    using adm authorize_verified_frame(2) demo_enforcing by (auto simp: authorize_strict_Inr enforcing_def)
  have post: "hr_method demo_post = POST" and api: "ro_media demo_router = demo_api"
    by (simp_all add: demo_post_def demo_router_def)
  show ?thesis
    using demo_enforcing adm ack short par mode
    by (simp add: media_begin_def media_authorize_def demo_extract [unfolded api] q enforcing_def authorize_def
        media_ack_def gate_enforces_def post api admitted_lease_def)
qed

lemma enforced_publication_sound_witness:
  "\<exists>p w1 out w3. media_begin demo_router 5 10 demo_post demo_router_world = ((Inr p :: unit outcome + pending_media), w1)
    \<and> media_finish demo_router p [(Inr (replicate 100 0) :: unit + bytes)] 20 w1 = (out, w3) \<and> wo_media w3 = wo_media w1"
proof -
  obtain p w1 where beg: "media_begin demo_router 5 10 demo_post demo_router_world
      = ((Inr p :: unit outcome + pending_media), w1)" using demo_begins by blast
  obtain out w3 where fin: "media_finish demo_router p [(Inr (replicate 100 0) :: unit + bytes)] 20 w1 = (out, w3)"
    by fastforce
  obtain h where "enforcing w1 h"
    by (cases rule: media_begin_cases [OF demo_enforcing beg]) (auto simp: enforcing_def)
  from enforced_publication_sound [OF demo_enforcing beg this fin] beg fin show ?thesis by blast
qed

definition demo_raw_post :: http_request where
  "demo_raw_post = demo_post\<lparr>hr_path := ''/ingest''\<rparr>"

definition demo_calm :: "(unit, bytes list, unit, unit) surroundings" where
  "demo_calm = \<lparr>sd_now_ms = 5, sd_now_before = 10, sd_now_after = 20, sd_meanwhile = id\<rparr>"


definition demo_authorizer :: "unit needletail_authorizer" where
  "demo_authorizer = \<lparr>na_join = (\<lambda>_. Some ()), na_encode_segment = str_of_bytes,
     na_post = (\<lambda>_ _ _. Some \<lparr>hp_status = 200, hp_content_length = None, hp_bytes = Some []\<rparr>),
     na_read = (\<lambda>_. Some \<lparr>nb_session_id = ''s'', nb_endpoint_id = ''e'', nb_route_kind = ''needletail_london'',
       nb_route_stream_id = to_string (7 :: u64)\<rparr>), na_expected_stream_id = 7\<rparr>"

definition demo_aep1_post :: http_request where
  "demo_aep1_post = \<lparr>hr_method = POST, hr_path = needletail_aep1_ingest_path,
     hr_query = [(''sessionId'', ''s''), (''endpointId'', ''e'')],
     hr_headers = [(''authorization'', bytes_of_str ''Bearer jws''),
       (''content-type'', bytes_of_str needletail_aep1_content_type)]\<rparr>"

definition demo_aep1_router :: "(u32, unit, unit, bytes list, unit, unit) router_config" where
  "demo_aep1_router = demo_router\<lparr>ro_authorizer := Some demo_authorizer\<rparr>"

definition demo_aep1_world :: "(unit, bytes list, unit, unit) router_world" where
  "demo_aep1_world = demo_router_world\<lparr>wo_hls := Some (new_handoff_queue 4), wo_mesh := Some (new_handoff_queue 4)\<rparr>"

lemma demo_aep1_begins:
  "aep1_begin demo_aep1_router demo_aep1_post demo_aep1_world = (Inr 7, demo_aep1_world\<lparr>wo_ingest_active := True\<rparr>)"
proof -
  have utf: "from_utf8 (bytes_of_str ''Bearer jws'') = Some ''Bearer jws''"
    unfolding from_utf8_def str_of_bytes_of_str by (simp_all add: bytes_of_str_def)
  have bearer: "parse_bearer_header (Some (bytes_of_str ''Bearer jws'')) = Inr ''jws''"
    by (simp add: parse_bearer_header_def utf is_ascii_whitespace_def char_code_def)
  have query: "needletail_ingest_query (hr_query demo_aep1_post) = Inr (''s'', ''e'')"
    by (simp add: needletail_ingest_query_def demo_aep1_post_def ingest_identifier_def is_ascii_alphanumeric_def
        char_code_def)
  have session: "authorize_session demo_authorizer ''jws'' ''s'' ''e'' = Inr ()"
    by (simp add: authorize_session_def demo_authorizer_def ingest_identifier_def is_ascii_alphanumeric_def
        char_code_def max_bootstrap_reply_bytes_def)
  have router: "ro_authorizer demo_aep1_router = Some demo_authorizer" "na_expected_stream_id demo_authorizer = 7"
    by (simp_all add: demo_aep1_router_def demo_authorizer_def)
  have post: "hr_method demo_aep1_post = POST"
    "get_all demo_aep1_post ''authorization'' = [bytes_of_str ''Bearer jws'']"
    "get_header demo_aep1_post ''x-needletail-ingest-preflight'' = None"
    "get_header demo_aep1_post ''content-type'' = Some (bytes_of_str needletail_aep1_content_type)"
    by (simp_all add: demo_aep1_post_def get_header_def get_all_def)
  have auth: "get_header demo_aep1_post ''authorization'' = Some (bytes_of_str ''Bearer jws'')"
    by (simp add: get_header_def post)
  have world: "wo_hls demo_aep1_world \<noteq> None" "wo_mesh demo_aep1_world \<noteq> None" "\<not> wo_ingest_active demo_aep1_world"
    by (simp_all add: demo_aep1_world_def demo_router_world_def)
  show ?thesis using world by (simp add: aep1_begin_def router post auth bearer query session Let_def)
qed

lemma aep1_single_session_witness:
  "\<exists>w. aep1_system demo_aep1_router 1 w \<and> wo_ingest_active w \<and> (\<exists>r. aep1_begin demo_aep1_router demo_aep1_post w = (Inl r, w))"
proof -
  have "aep1_system demo_aep1_router 0 demo_aep1_world"
    by (rule aep1_idle) (simp add: demo_aep1_world_def demo_router_world_def)
  from aep1_opened [OF this demo_aep1_begins]
  have one: "aep1_system demo_aep1_router 1 (demo_aep1_world\<lparr>wo_ingest_active := True\<rparr>)" by simp
  from aep1_single_session [OF one, of demo_aep1_post] one show ?thesis by blast
qed

end
