(* ===== verification/Ts_Demux.thy ===== *)
theory Ts_Demux
  imports Fmp4_Facts
begin

text \<open>
  The MPEG-TS side of \<^verbatim>\<open>src/src/fmp4_bridge.rs\<close>: the elementary-stream consumers that collect the
  payload of a PES packet and cut it into access units, the filters the demultiplexer asks for,
  and \<open>TsFmp4Bridge\<close>, which hands every access unit to a processing sink and to the segmenter. The
  transport-stream reader belongs to another crate: it is a parameter that turns bytes into the
  callbacks it makes, as is the ADTS splitter. A panic of the code is the left value.
\<close>

section \<open>External interfaces\<close>

record adts_info =
  ad_samples :: u32
  ad_sample_rate :: u32

record ts_api =
  tt_pat_pid :: u16
  tt_stuffing_pid :: u16
  tt_h264 :: u8
  tt_adts :: u8
  tt_private_data :: u8
  tt_raw_audio :: u8
  ts_split_adts :: "bytes \<Rightarrow> bytes list option"
  ts_parse_adts :: "bytes \<Rightarrow> adts_info option"

text \<open>The observer is the publisher: it counts what the demultiplexer loses.\<close>

record 'w ts_observer =
  to_continuity :: "string \<Rightarrow> nat \<Rightarrow> 'w \<Rightarrow> 'w"
  to_drop :: "string \<Rightarrow> nat \<Rightarrow> 'w \<Rightarrow> 'w"

datatype filter_request =
  ByPid u16
| ByStream u8
| PmtRequest u16 u16
| NitRequest

text \<open>A time stamp of a PES header is missing when its marker bits are wrong.\<close>

datatype pts_dts = PtsOnly "u64 option" | PtsAndDts "u64 option" "u64 option" | NoPtsDts

datatype pes_contents =
  ParsedHeader "pts_dts option" bytes
| UnparsedHeader
| BarePayload bytes

datatype ts_event =
  Construct u16 filter_request
| StartStream u16
| BeginPacket u16 pes_contents
| ContinuePacket u16 bytes
| EndPacket u16
| ContinuityLost u16

datatype demux_panic = FrameDoesNotParse | ZeroSampleRate

section \<open>The elementary-stream consumer\<close>

definition max_pes_payload_bytes :: nat where "max_pes_payload_bytes = 8388608"

definition stream_type_label :: "ts_api \<Rightarrow> u8 \<Rightarrow> string" where
  "stream_type_label ta t =
     (if t = tt_h264 ta then ''h264''
      else if t = tt_adts ta then ''adts''
      else if t = tt_private_data ta then ''private_data''
      else if t = tt_raw_audio ta then ''audio''
      else ''other'')"

record es_consumer =
  es_stream_type :: u8
  es_label :: string
  es_payload :: bytes
  es_pts :: u64
  es_dts :: u64

definition construct_consumer :: "ts_api \<Rightarrow> u8 \<Rightarrow> es_consumer" where
  "construct_consumer ta t =
     \<lparr>es_stream_type = t, es_label = stream_type_label ta t, es_payload = [], es_pts = 0, es_dts = 0\<rparr>"

definition report_drop :: "'w ts_observer option \<Rightarrow> string \<Rightarrow> nat \<Rightarrow> 'w \<Rightarrow> 'w" where
  "report_drop ob label n w = (case ob of None \<Rightarrow> w | Some ob \<Rightarrow> to_drop ob label n w)"

definition append_payload :: "'w ts_observer option \<Rightarrow> bytes \<Rightarrow> es_consumer \<times> 'w \<Rightarrow> es_consumer \<times> 'w" where
  "append_payload ob data st =
     (case st of (c, w) \<Rightarrow>
      let new_len = length (es_payload c) + length data
      in if max_pes_payload_bytes < new_len
         then (c\<lparr>es_payload := []\<rparr>, report_drop ob (es_label c) new_len w)
         else (c\<lparr>es_payload := es_payload c @ data\<rparr>, w))"

definition take_timestamps :: "pts_dts option \<Rightarrow> es_consumer \<Rightarrow> es_consumer" where
  "take_timestamps ts c =
     (case ts of
        Some (PtsOnly (Some pts)) \<Rightarrow> c\<lparr>es_pts := pts, es_dts := pts\<rparr>
      | Some (PtsAndDts (Some pts) (Some dts)) \<Rightarrow> c\<lparr>es_pts := pts, es_dts := dts\<rparr>
      | _ \<Rightarrow> c)"

definition begin_packet :: "'w ts_observer option \<Rightarrow> pes_contents \<Rightarrow> es_consumer \<times> 'w \<Rightarrow> es_consumer \<times> 'w" where
  "begin_packet ob contents st =
     (case st of (c, w) \<Rightarrow>
      case contents of
        ParsedHeader ts payload \<Rightarrow> append_payload ob payload (take_timestamps ts c, w)
      | UnparsedHeader \<Rightarrow> (c, w)
      | BarePayload payload \<Rightarrow> append_payload ob payload (c, w))"

definition ts_unit :: "u8 \<Rightarrow> bool \<Rightarrow> u64 \<Rightarrow> u64 \<Rightarrow> bytes \<Rightarrow> access_unit" where
  "ts_unit t key pts dts data =
     \<lparr>au_key = key, au_pts = pts, au_dts = dts, au_data = data, au_stream_type = t, au_id = 0\<rparr>"

definition adts_ticks :: "adts_info \<Rightarrow> u64" where
  "adts_ticks info = div_ceil (sat_mul (ucast (ad_samples info)) ticks_per_second) (ucast (ad_sample_rate info))"

fun adts_units :: "ts_api \<Rightarrow> u8 \<Rightarrow> bytes list \<Rightarrow> u64 \<Rightarrow> u64 \<Rightarrow> demux_panic + access_unit list" where
  "adts_units ta t [] pts dts = Inr []"
| "adts_units ta t (frame # frames) pts dts =
     (case ts_parse_adts ta frame of
        None \<Rightarrow> Inl FrameDoesNotParse
      | Some info \<Rightarrow>
          if ad_sample_rate info = 0 then Inl ZeroSampleRate
          else res_bind (adts_units ta t frames (sat_add pts (adts_ticks info)) (sat_add dts (adts_ticks info)))
            (\<lambda>units. Inr (ts_unit t False pts dts frame # units)))"

text \<open>The end of a packet: the access units it completes, and the consumer emptied.\<close>

definition end_packet :: "ts_api \<Rightarrow> h264_api \<Rightarrow> 'w ts_observer option \<Rightarrow> es_consumer \<times> 'w
    \<Rightarrow> demux_panic + access_unit list \<times> es_consumer \<times> 'w" where
  "end_packet ta ha ob st =
     (case st of (c, w) \<Rightarrow>
      let t = es_stream_type c; payload = es_payload c; emptied = c\<lparr>es_payload := []\<rparr>
      in if t = tt_h264 ta then
           (case packetize_annex_b ha (h264_annex_b ha payload) [] False of
              (sample, key) \<Rightarrow>
                Inr (if sample = [] then [] else [ts_unit t key (es_pts c) (es_dts c) sample], emptied, w))
         else if t = tt_adts ta \<and> payload \<noteq> [] then
           (case ts_split_adts ta payload of
              None \<Rightarrow> Inr ([], emptied, report_drop ob (es_label c) (length payload) w)
            | Some frames \<Rightarrow>
                res_bind (adts_units ta t frames (es_pts c) (es_dts c)) (\<lambda>units. Inr (units, emptied, w)))
         else if (t = tt_private_data ta \<or> t = tt_raw_audio ta) \<and> payload \<noteq> [] then
           Inr ([ts_unit t False (es_pts c) (es_dts c) payload], emptied, w)
         else Inr ([], emptied, w))"

definition continuity_error :: "'w ts_observer option \<Rightarrow> es_consumer \<times> 'w \<Rightarrow> es_consumer \<times> 'w" where
  "continuity_error ob st =
     (case st of (c, w) \<Rightarrow>
      (c\<lparr>es_payload := []\<rparr>,
       case ob of None \<Rightarrow> w | Some ob \<Rightarrow> to_continuity ob (es_label c) (length (es_payload c)) w))"

section \<open>Filters\<close>

datatype ts_filter = PesFilter es_consumer | PatFilter | PmtFilter u16 u16 | NullFilter

definition construct_filter :: "ts_api \<Rightarrow> filter_request \<Rightarrow> ts_filter" where
  "construct_filter ta request =
     (case request of
        ByPid pid \<Rightarrow> if pid = tt_pat_pid ta then PatFilter else NullFilter
      | ByStream t \<Rightarrow>
          if t = tt_h264 ta then PesFilter (construct_consumer ta t)
          else if t \<in> {tt_adts ta, tt_private_data ta, tt_raw_audio ta} then PesFilter (construct_consumer ta t)
          else NullFilter
      | PmtRequest pid program \<Rightarrow> PmtFilter pid program
      | NitRequest \<Rightarrow> NullFilter)"

text \<open>The context, with the filters the reader keeps by packet identifier.\<close>

record 'w demux_context =
  dx_filters :: "(u16, ts_filter) assoc"
  dx_access_units :: "access_unit list"
  dx_world :: 'w

definition on_consumer :: "u16 \<Rightarrow> (es_consumer \<times> 'w \<Rightarrow> demux_panic + access_unit list \<times> es_consumer \<times> 'w)
    \<Rightarrow> 'w demux_context \<Rightarrow> demux_panic + 'w demux_context" where
  "on_consumer pid f cx =
     (case map_of (dx_filters cx) pid of
        Some (PesFilter c) \<Rightarrow>
          res_bind (f (c, dx_world cx)) (\<lambda>(units, c, w). Inr (cx\<lparr>
            dx_filters := AList.update pid (PesFilter c) (dx_filters cx),
            dx_access_units := dx_access_units cx @ units, dx_world := w\<rparr>))
      | _ \<Rightarrow> Inr cx)"

definition ts_event_step :: "ts_api \<Rightarrow> h264_api \<Rightarrow> 'w ts_observer option \<Rightarrow> ts_event
    \<Rightarrow> 'w demux_context \<Rightarrow> demux_panic + 'w demux_context" where
  "ts_event_step ta ha ob e cx =
     (case e of
        Construct pid request \<Rightarrow>
          Inr (cx\<lparr>dx_filters := AList.update pid (construct_filter ta request) (dx_filters cx)\<rparr>)
      | StartStream pid \<Rightarrow> Inr cx
      | BeginPacket pid contents \<Rightarrow> on_consumer pid (\<lambda>st. Inr ([], begin_packet ob contents st)) cx
      | ContinuePacket pid data \<Rightarrow> on_consumer pid (\<lambda>st. Inr ([], append_payload ob data st)) cx
      | EndPacket pid \<Rightarrow> on_consumer pid (end_packet ta ha ob) cx
      | ContinuityLost pid \<Rightarrow> on_consumer pid (\<lambda>st. Inr ([], continuity_error ob st)) cx)"

fun ts_run :: "ts_api \<Rightarrow> h264_api \<Rightarrow> 'w ts_observer option \<Rightarrow> ts_event list
    \<Rightarrow> 'w demux_context \<Rightarrow> demux_panic + 'w demux_context" where
  "ts_run ta ha ob [] cx = Inr cx"
| "ts_run ta ha ob (e # es) cx = res_bind (ts_event_step ta ha ob e cx) (ts_run ta ha ob es)"

end
