(* ===== verification/Ts_Bridge.thy ===== *)
theory Ts_Bridge
  imports Ts_Demux
begin

text \<open>
  \<open>TsFmp4Bridge\<close> of \<^verbatim>\<open>src/src/fmp4_bridge.rs\<close>: transport-stream bytes in, access units out to the
  processing sink and to the segmenter.
\<close>

section \<open>The bridge\<close>

text \<open>The reader: its initial filter requests, and the callbacks it makes for bytes and at the end.\<close>

record 'd ts_reader =
  rd_new :: "(u16 \<times> filter_request) list \<times> 'd"
  rd_push :: "bytes \<Rightarrow> 'd \<Rightarrow> ts_event list \<times> 'd"
  rd_flush :: "'d \<Rightarrow> ts_event list \<times> 'd"

record ('x, 'w) unit_sink =
  us_push :: "access_unit \<Rightarrow> 'w \<Rightarrow> ('x + unit) \<times> 'w"
  us_finish :: "'w \<Rightarrow> ('x + unit) \<times> 'w"

record ('d, 'e, 'x, 'w) bridge_env =
  be_ts :: ts_api
  be_fmp4 :: fmp4_api
  be_reader :: "'d ts_reader"
  be_env :: "('e, 'w) fmp4_env"
  be_observer :: "'w ts_observer"
  be_sink :: "('x, 'w) unit_sink"

record 'd ts_fmp4_bridge =
  br_filters :: "(u16, ts_filter) assoc"
  br_access_units :: "access_unit list"
  br_reader :: 'd
  br_segmenter :: fmp4_segmenter
  br_drained :: "access_unit list"
  br_has_sink :: bool
  br_publish_source :: bool

definition observer_of :: "('d, 'e, 'x, 'w) bridge_env \<Rightarrow> fmp4_segmenter \<Rightarrow> 'w ts_observer option" where
  "observer_of be sg = (if sg_has_publisher sg then Some (be_observer be) else None)"

definition new_filters :: "('d, 'e, 'x, 'w) bridge_env \<Rightarrow> (u16, ts_filter) assoc" where
  "new_filters be =
     fold (\<lambda>(pid, request). AList.update pid (construct_filter (be_ts be) request)) (fst (rd_new (be_reader be))) []"

definition bridge_with_options ::
    "('d, 'e, 'x, 'w) bridge_env \<Rightarrow> u64 \<Rightarrow> nat \<Rightarrow> u32 \<Rightarrow> bool \<Rightarrow> bool \<Rightarrow> bool \<Rightarrow> bool \<Rightarrow> 'd ts_fmp4_bridge" where
  "bridge_with_options be output_stream_id output_stream_idx min_part_ms publisher retain_local_cache sink publish_source =
     \<lparr>br_filters = new_filters be, br_access_units = [], br_reader = snd (rd_new (be_reader be)),
      br_segmenter = new_segmenter output_stream_id output_stream_idx Ticks90Khz min_part_ms publisher retain_local_cache,
      br_drained = [], br_has_sink = sink, br_publish_source = publish_source\<rparr>"

definition bridge_new :: "('d, 'e, 'x, 'w) bridge_env \<Rightarrow> u64 \<Rightarrow> nat \<Rightarrow> 'd ts_fmp4_bridge" where
  "bridge_new be i idx = bridge_with_options be i idx default_min_part_ms False True False True"

definition bridge_new_with_publisher :: "('d, 'e, 'x, 'w) bridge_env \<Rightarrow> u64 \<Rightarrow> nat \<Rightarrow> u32 \<Rightarrow> bool \<Rightarrow> 'd ts_fmp4_bridge" where
  "bridge_new_with_publisher be i idx min_part_ms publisher =
     bridge_with_options be i idx min_part_ms publisher True False True"

definition bridge_new_publish_only :: "('d, 'e, 'x, 'w) bridge_env \<Rightarrow> u64 \<Rightarrow> nat \<Rightarrow> u32 \<Rightarrow> 'd ts_fmp4_bridge" where
  "bridge_new_publish_only be i idx min_part_ms = bridge_with_options be i idx min_part_ms True False False True"

definition bridge_new_publish_and_sink :: "('d, 'e, 'x, 'w) bridge_env \<Rightarrow> u64 \<Rightarrow> nat \<Rightarrow> u32 \<Rightarrow> 'd ts_fmp4_bridge" where
  "bridge_new_publish_and_sink be i idx min_part_ms = bridge_with_options be i idx min_part_ms True False True True"

definition bridge_new_sink_only :: "('d, 'e, 'x, 'w) bridge_env \<Rightarrow> u64 \<Rightarrow> nat \<Rightarrow> u32 \<Rightarrow> 'd ts_fmp4_bridge" where
  "bridge_new_sink_only be i idx min_part_ms = bridge_with_options be i idx min_part_ms False False True False"

text \<open>A unit goes to the sink, whose refusal is only logged, and then to the segmenter.\<close>

definition dispatch_access_unit ::
    "('d, 'e, 'x, 'w) bridge_env \<Rightarrow> access_unit \<Rightarrow> 'd ts_fmp4_bridge \<times> 'w \<Rightarrow> 'd ts_fmp4_bridge \<times> 'w" where
  "dispatch_access_unit be u st =
     (case st of (b, w) \<Rightarrow>
      case (if br_has_sink b then snd (us_push (be_sink be) u w) else w) of w \<Rightarrow>
        if br_publish_source b
        then (case push_access_unit (be_fmp4 be) (be_env be) u (br_segmenter b, w) of
                (sg, w) \<Rightarrow> (b\<lparr>br_segmenter := sg\<rparr>, w))
        else (b, w))"

text \<open>The reader's callbacks run on the context; its units are drained and dispatched.\<close>

definition demux_and_dispatch ::
    "('d, 'e, 'x, 'w) bridge_env \<Rightarrow> ts_event list \<times> 'd \<Rightarrow> 'd ts_fmp4_bridge \<times> 'w \<Rightarrow> demux_panic + 'd ts_fmp4_bridge \<times> 'w" where
  "demux_and_dispatch be read st =
     (case st of (b, w) \<Rightarrow>
      case read of (events, reader) \<Rightarrow>
      res_bind (ts_run (be_ts be) (fm_h264 (be_fmp4 be)) (observer_of be (br_segmenter b)) events
          \<lparr>dx_filters = br_filters b, dx_access_units = br_access_units b, dx_world = w\<rparr>) (\<lambda>cx.
        Inr (fold (dispatch_access_unit be) (br_drained b @ dx_access_units cx)
          (b\<lparr>br_filters := dx_filters cx, br_access_units := [], br_reader := reader, br_drained := []\<rparr>, dx_world cx))))"

definition push_ts :: "('d, 'e, 'x, 'w) bridge_env \<Rightarrow> bytes \<Rightarrow> 'd ts_fmp4_bridge \<times> 'w \<Rightarrow> demux_panic + 'd ts_fmp4_bridge \<times> 'w" where
  "push_ts be bytes st = demux_and_dispatch be (rd_push (be_reader be) bytes (br_reader (fst st))) st"

definition finish_ts :: "('d, 'e, 'x, 'w) bridge_env \<Rightarrow> 'd ts_fmp4_bridge \<times> 'w \<Rightarrow> demux_panic + 'd ts_fmp4_bridge \<times> 'w" where
  "finish_ts be st =
     res_bind (demux_and_dispatch be (rd_flush (be_reader be) (br_reader (fst st))) st) (\<lambda>(b, w).
       case (if br_publish_source b
             then (case finish_segmenter (be_fmp4 be) (be_env be) (br_segmenter b, w) of
                     (sg, w) \<Rightarrow> (b\<lparr>br_segmenter := sg\<rparr>, w))
             else (b, w)) of
         (b, w) \<Rightarrow> Inr (b, if br_has_sink b then snd (us_finish (be_sink be) w) else w))"

definition reset_ts :: "('d, 'e, 'x, 'w) bridge_env \<Rightarrow> 'd ts_fmp4_bridge \<Rightarrow> 'd ts_fmp4_bridge" where
  "reset_ts be b = b\<lparr>br_filters := new_filters be, br_access_units := [], br_reader := snd (rd_new (be_reader be)),
     br_drained := [], br_segmenter := reset_segmenter (br_segmenter b)\<rparr>"

datatype bridge_op = PushTs bytes | FinishTs | ResetTs

definition bridge_step :: "('d, 'e, 'x, 'w) bridge_env \<Rightarrow> bridge_op \<Rightarrow> 'd ts_fmp4_bridge \<times> 'w
    \<Rightarrow> demux_panic + 'd ts_fmp4_bridge \<times> 'w" where
  "bridge_step be op st =
     (case op of
        PushTs bytes \<Rightarrow> push_ts be bytes st
      | FinishTs \<Rightarrow> finish_ts be st
      | ResetTs \<Rightarrow> Inr (reset_ts be (fst st), snd st))"

fun bridge_run :: "('d, 'e, 'x, 'w) bridge_env \<Rightarrow> bridge_op list \<Rightarrow> 'd ts_fmp4_bridge \<times> 'w
    \<Rightarrow> demux_panic + 'd ts_fmp4_bridge \<times> 'w" where
  "bridge_run be [] st = Inr st"
| "bridge_run be (op # ops) st = res_bind (bridge_step be op st) (bridge_run be ops)"

section \<open>What a PES packet is cut into\<close>

text \<open>
  The specification: the units of a whole payload. A video payload is one unit of its accepted NAL
  units; an ADTS payload one unit per frame, each later than the one before by its duration; a
  private or raw audio payload one unit as it is.
\<close>

definition units_of_pes :: "ts_api \<Rightarrow> h264_api \<Rightarrow> u8 \<Rightarrow> u64 \<Rightarrow> u64 \<Rightarrow> bytes \<Rightarrow> access_unit list" where
  "units_of_pes ta ha t pts dts payload =
     (if t = tt_h264 ta then
        (let nalus = filter (accepts_nalu ha) (h264_annex_b ha payload)
         in if nalus = [] then []
            else [ts_unit t (\<exists>n \<in> set nalus. nal_unit_type n = nal_idr) pts dts (concat (map avcc_nalu nalus))])
      else if payload = [] then []
      else if t = tt_adts ta then
        (case ts_split_adts ta payload of
           None \<Rightarrow> []
         | Some frames \<Rightarrow>
             let ticks = map (\<lambda>f. case ts_parse_adts ta f of None \<Rightarrow> 0 | Some info \<Rightarrow> adts_ticks info) frames
             in map (\<lambda>k. ts_unit t False (foldl sat_add pts (take k ticks)) (foldl sat_add dts (take k ticks)) (frames ! k))
                  [0..<length frames])
      else if t = tt_private_data ta \<or> t = tt_raw_audio ta then [ts_unit t False pts dts payload]
      else [])"

text \<open>What the code relies on of the splitter: its frames parse and have a sample rate.\<close>

definition splitter_ok :: "ts_api \<Rightarrow> bool" where
  "splitter_ok ta \<longleftrightarrow> (\<forall>payload frames. ts_split_adts ta payload = Some frames
     \<longrightarrow> list_all (\<lambda>f. case ts_parse_adts ta f of None \<Rightarrow> False | Some info \<Rightarrow> ad_sample_rate info \<noteq> 0) frames)"

end
