(* ===== verification/Ts_Facts.thy ===== *)
theory Ts_Facts
  imports Ts_Bridge
begin

text \<open>
  What the transport-stream side guarantees: a packet is cut into the units of its payload however
  it is split over transport packets, a consumer never holds more than its bound, and the bridge
  panics only when the splitter breaks its contract.
\<close>

section \<open>One packet\<close>

lemma adts_units_eq:
  assumes "list_all (\<lambda>f. case ts_parse_adts ta f of None \<Rightarrow> False | Some info \<Rightarrow> ad_sample_rate info \<noteq> 0) frames"
  shows "adts_units ta t frames pts dts = Inr
    (let ticks = map (\<lambda>f. case ts_parse_adts ta f of None \<Rightarrow> 0 | Some info \<Rightarrow> adts_ticks info) frames
     in map (\<lambda>k. ts_unit t False (foldl sat_add pts (take k ticks)) (foldl sat_add dts (take k ticks)) (frames ! k))
          [0..<length frames])"
  using assms
proof (induction frames arbitrary: pts dts)
  case Nil
  then show ?case by simp
next
  case (Cons f fs)
  from Cons.prems obtain info where info: "ts_parse_adts ta f = Some info" "ad_sample_rate info \<noteq> 0"
    by (auto split: option.splits)
  have "adts_units ta t fs p d = Inr
      (let ticks = map (\<lambda>f. case ts_parse_adts ta f of None \<Rightarrow> 0 | Some info \<Rightarrow> adts_ticks info) fs
       in map (\<lambda>k. ts_unit t False (foldl sat_add p (take k ticks)) (foldl sat_add d (take k ticks)) (fs ! k))
            [0..<length fs])" for p d
    using Cons by simp
  then show ?case
    by (simp add: info Let_def upt_conv_Cons map_Suc_upt [symmetric] del: upt_Suc)
qed

lemma end_packet_units:
  assumes "splitter_ok ta"
  shows "end_packet ta ha ob (c, w) = Inr (units_of_pes ta ha (es_stream_type c) (es_pts c) (es_dts c) (es_payload c),
    c\<lparr>es_payload := []\<rparr>,
    if es_stream_type c \<noteq> tt_h264 ta \<and> es_stream_type c = tt_adts ta \<and> es_payload c \<noteq> []
      \<and> ts_split_adts ta (es_payload c) = None
    then report_drop ob (es_label c) (length (es_payload c)) w else w)"
proof -
  have sample: "concat (map avcc_nalu ns) = [] \<longleftrightarrow> ns = []" for ns by (cases ns) simp_all
  have frames: "list_all (\<lambda>f. case ts_parse_adts ta f of None \<Rightarrow> False | Some info \<Rightarrow> ad_sample_rate info \<noteq> 0) fs"
    if "ts_split_adts ta p = Some fs" for p fs
    using assms that unfolding splitter_ok_def by blast
  consider (video) "es_stream_type c = tt_h264 ta"
    | (adts) "es_stream_type c \<noteq> tt_h264 ta" "es_stream_type c = tt_adts ta" "es_payload c \<noteq> []"
    | (other) "es_stream_type c \<noteq> tt_h264 ta" "es_stream_type c \<noteq> tt_adts ta \<or> es_payload c = []"
    by blast
  then show ?thesis
  proof cases
    case video
    then show ?thesis
      by (auto simp: end_packet_def units_of_pes_def packetize_eq Let_def sample list_ex_iff filter_empty_conv)
  next
    case adts
    then show ?thesis
      by (cases "ts_split_adts ta (es_payload c)")
        (simp_all add: end_packet_def units_of_pes_def adts_units_eq [OF frames])
  next
    case other
    then show ?thesis by (auto simp: end_packet_def units_of_pes_def Let_def)
  qed
qed

lemma ts_run_append: "ts_run ta ha ob (es @ fs) cx = res_bind (ts_run ta ha ob es cx) (ts_run ta ha ob fs)"
  by (induction es arbitrary: cx) (auto simp: res_bind_def split: sum.split)

lemma append_payload_fits:
  "length (es_payload c) + length data \<le> max_pes_payload_bytes
   \<Longrightarrow> append_payload ob data (c, w) = (c\<lparr>es_payload := es_payload c @ data\<rparr>, w)"
  by (simp add: append_payload_def Let_def)

lemma continue_run:
  assumes "map_of (dx_filters cx) pid = Some (PesFilter c)"
    and "length (es_payload c @ concat ps) \<le> max_pes_payload_bytes"
  shows "\<exists>fs. ts_run ta ha ob (map (ContinuePacket pid) ps) cx = Inr (cx\<lparr>dx_filters := fs\<rparr>)
    \<and> map_of fs = (map_of (dx_filters cx))(pid \<mapsto> PesFilter (c\<lparr>es_payload := es_payload c @ concat ps\<rparr>))"
  using assms
proof (induction ps arbitrary: cx c)
  case Nil
  then show ?case by (intro exI [of _ "dx_filters cx"]) (auto simp: fun_upd_idem)
next
  case (Cons p ps)
  let ?c = "c\<lparr>es_payload := es_payload c @ p\<rparr>"
  let ?cx = "cx\<lparr>dx_filters := AList.update pid (PesFilter ?c) (dx_filters cx)\<rparr>"
  have step: "ts_event_step ta ha ob (ContinuePacket pid p) cx = Inr ?cx"
    using Cons.prems by (simp add: ts_event_step_def on_consumer_def append_payload_fits)
  have "map_of (dx_filters ?cx) pid = Some (PesFilter ?c)" "length (es_payload ?c @ concat ps) \<le> max_pes_payload_bytes"
    using Cons.prems(2) by (simp_all add: map_of_update)
  from Cons.IH [OF this] obtain fs where
    "ts_run ta ha ob (map (ContinuePacket pid) ps) ?cx = Inr (?cx\<lparr>dx_filters := fs\<rparr>)"
    "map_of fs = (map_of (dx_filters ?cx))(pid \<mapsto> PesFilter (?c\<lparr>es_payload := es_payload ?c @ concat ps\<rparr>))"
    by blast
  then show ?case by (intro exI [of _ fs]) (simp add: step map_of_update)
qed

lemma end_run:
  assumes "splitter_ok ta" and "map_of (dx_filters cx) pid = Some (PesFilter c)"
  shows "\<exists>cx'. ts_run ta ha ob [EndPacket pid] cx = Inr cx'
    \<and> dx_access_units cx' = dx_access_units cx
        @ units_of_pes ta ha (es_stream_type c) (es_pts c) (es_dts c) (es_payload c)
    \<and> map_of (dx_filters cx') = (map_of (dx_filters cx))(pid \<mapsto> PesFilter (c\<lparr>es_payload := []\<rparr>))"
  using assms by (simp add: ts_event_step_def on_consumer_def end_packet_units map_of_update)


text \<open>A continuity error drops what the packet collected so far.\<close>

lemma continuity_drops:
  assumes "map_of (dx_filters cx) pid = Some (PesFilter c)"
  shows "\<exists>cx'. ts_event_step ta ha ob (ContinuityLost pid) cx = Inr cx'
    \<and> dx_access_units cx' = dx_access_units cx
    \<and> map_of (dx_filters cx') pid = Some (PesFilter (c\<lparr>es_payload := []\<rparr>))"
  using assms by (simp add: ts_event_step_def on_consumer_def continuity_error_def map_of_update)

text \<open>An oversized packet is not dropped as a whole: what follows the overflow is emitted as a unit.\<close>

lemma oversized_remainder_emitted:
  assumes "map_of (dx_filters cx) pid = Some (PesFilter c)" and "es_payload c = []"
    and "max_pes_payload_bytes < length payload" and "rest \<noteq> []" and "length rest \<le> max_pes_payload_bytes"
    and "es_stream_type c = tt_private_data ta" and "tt_private_data ta \<noteq> tt_h264 ta" and "tt_private_data ta \<noteq> tt_adts ta"
  shows "\<exists>cx'. ts_run ta ha ob
      [BeginPacket pid (ParsedHeader (Some (PtsOnly (Some pts))) payload), ContinuePacket pid rest, EndPacket pid] cx = Inr cx'
    \<and> dx_access_units cx' = dx_access_units cx @ [ts_unit (tt_private_data ta) False pts pts rest]"
  using assms
  by (simp add: ts_event_step_def on_consumer_def begin_packet_def take_timestamps_def append_payload_def
      end_packet_def map_of_update)

definition demo_ts :: ts_api where
  "demo_ts = \<lparr>tt_pat_pid = 0, tt_stuffing_pid = 0x1FFF, tt_h264 = 0x1B, tt_adts = 0x0F, tt_private_data = 0x06,
     tt_raw_audio = 0x1C,
     ts_split_adts = (\<lambda>p. if length p mod 2 = 0 then Some [take (length p div 2) p, drop (length p div 2) p] else None),
     ts_parse_adts = (\<lambda>_. Some \<lparr>ad_samples = 1024, ad_sample_rate = 48000\<rparr>)\<rparr>"

definition demo_demux :: "unit demux_context" where
  "demo_demux = \<lparr>dx_filters = [(0x101, PesFilter (construct_consumer demo_ts 0x0F))], dx_access_units = [], dx_world = ()\<rparr>"

lemma demo_splitter_ok: "splitter_ok demo_ts"
  by (auto simp: splitter_ok_def demo_ts_def split: if_splits)

lemma demo_units:
  "units_of_pes demo_ts demo_h264 0x0F 9000 8000 [1, 2, 3, 4] =
     [ts_unit 0x0F False 9000 8000 [1, 2], ts_unit 0x0F False 10920 9920 [3, 4]]"
  by (simp add: units_of_pes_def demo_ts_def adts_ticks_def Let_def div_ceil_def sat_mul_def sat_add_def
      ticks_per_second_def upt_rec)


section \<open>Any stream of callbacks\<close>

definition consumer_ok :: "ts_api \<Rightarrow> es_consumer \<Rightarrow> bool" where
  "consumer_ok ta c \<longleftrightarrow> length (es_payload c) \<le> max_pes_payload_bytes \<and> es_label c = stream_type_label ta (es_stream_type c)
     \<and> es_stream_type c \<in> {tt_h264 ta, tt_adts ta, tt_private_data ta, tt_raw_audio ta}"

fun filter_ok :: "ts_api \<Rightarrow> ts_filter \<Rightarrow> bool" where
  "filter_ok ta (PesFilter c) = consumer_ok ta c"
| "filter_ok ta _ = True"

definition filters_ok :: "ts_api \<Rightarrow> (u16, ts_filter) assoc \<Rightarrow> bool" where
  "filters_ok ta fs \<longleftrightarrow> (\<forall>pid f. map_of fs pid = Some f \<longrightarrow> filter_ok ta f)"

lemma filters_ok_update: "filters_ok ta fs \<Longrightarrow> filter_ok ta f \<Longrightarrow> filters_ok ta (AList.update pid f fs)"
  by (auto simp: filters_ok_def map_of_update)

lemma construct_filter_ok: "filter_ok ta (construct_filter ta request)"
  by (auto simp: construct_filter_def construct_consumer_def consumer_ok_def split: filter_request.split)

lemma append_payload_ok: "consumer_ok ta (fst st) \<Longrightarrow> consumer_ok ta (fst (append_payload ob data st))"
  by (auto simp: append_payload_def consumer_ok_def Let_def split: prod.splits)

lemma take_timestamps_ok: "consumer_ok ta (take_timestamps ts c) = consumer_ok ta c"
  by (auto simp: take_timestamps_def consumer_ok_def split: option.splits pts_dts.splits)

lemma begin_packet_ok: "consumer_ok ta (fst st) \<Longrightarrow> consumer_ok ta (fst (begin_packet ob contents st))"
  by (auto simp: begin_packet_def append_payload_ok take_timestamps_ok split: prod.split pes_contents.split)

lemma end_packet_consumer:
  "end_packet ta ha ob (c, w) = Inr (units, c', w') \<Longrightarrow> c' = c\<lparr>es_payload := []\<rparr>"
  by (auto simp: end_packet_def Let_def res_bind_eq_Inr split: if_splits prod.splits option.splits)

lemma emptied_ok: "consumer_ok ta c \<Longrightarrow> consumer_ok ta (c\<lparr>es_payload := []\<rparr>)"
  by (simp add: consumer_ok_def)

lemma on_consumer_ok:
  assumes "on_consumer pid f cx = Inr cx'" and "filters_ok ta (dx_filters cx)"
    and "\<And>c w units c' w'. f (c, w) = Inr (units, c', w') \<Longrightarrow> consumer_ok ta c \<Longrightarrow> consumer_ok ta c'"
  shows "filters_ok ta (dx_filters cx')"
proof (cases "map_of (dx_filters cx) pid")
  case None
  with assms show ?thesis by (simp add: on_consumer_def)
next
  case (Some ft)
  show ?thesis
  proof (cases ft)
    case (PesFilter c)
    with Some assms(2) have "filter_ok ta (PesFilter c)" by (simp only: filters_ok_def)
    then have "consumer_ok ta c" by simp
    then show ?thesis using assms Some PesFilter
      by (auto simp: on_consumer_def res_bind_eq_Inr intro!: filters_ok_update)
  qed (use assms Some in \<open>simp_all add: on_consumer_def\<close>)
qed

lemma ts_event_step_ok:
  assumes "ts_event_step ta ha ob e cx = Inr cx'" and "filters_ok ta (dx_filters cx)"
  shows "filters_ok ta (dx_filters cx')"
proof (cases e)
  case (Construct pid request)
  with assms show ?thesis by (auto simp: ts_event_step_def intro!: filters_ok_update construct_filter_ok)
next
  case (StartStream pid)
  with assms show ?thesis by (simp add: ts_event_step_def)
next
  case (BeginPacket pid contents)
  with assms(1) have "on_consumer pid (\<lambda>st. Inr ([], begin_packet ob contents st)) cx = Inr cx'"
    by (simp add: ts_event_step_def)
  then show ?thesis using assms(2)
    by (rule on_consumer_ok) (metis begin_packet_ok fst_conv Pair_inject sum.inject(2))
next
  case (ContinuePacket pid data)
  with assms(1) have "on_consumer pid (\<lambda>st. Inr ([], append_payload ob data st)) cx = Inr cx'"
    by (simp add: ts_event_step_def)
  then show ?thesis using assms(2)
    by (rule on_consumer_ok) (metis append_payload_ok fst_conv Pair_inject sum.inject(2))
next
  case (EndPacket pid)
  with assms(1) have "on_consumer pid (end_packet ta ha ob) cx = Inr cx'" by (simp add: ts_event_step_def)
  then show ?thesis using assms(2)
    by (rule on_consumer_ok) (auto dest!: end_packet_consumer intro: emptied_ok)
next
  case (ContinuityLost pid)
  with assms(1) have "on_consumer pid (\<lambda>st. Inr ([], continuity_error ob st)) cx = Inr cx'"
    by (simp add: ts_event_step_def)
  then show ?thesis using assms(2)
    by (rule on_consumer_ok) (auto simp: continuity_error_def intro: emptied_ok)
qed

lemma ts_run_ok:
  "ts_run ta ha ob es cx = Inr cx' \<Longrightarrow> filters_ok ta (dx_filters cx) \<Longrightarrow> filters_ok ta (dx_filters cx')"
  by (induction es arbitrary: cx) (auto simp: res_bind_eq_Inr dest: ts_event_step_ok)

lemma on_consumer_total: "(\<And>st. is_ok (f st)) \<Longrightarrow> is_ok (on_consumer pid f cx)"
  by (fastforce simp: on_consumer_def is_ok_iff res_bind_eq_Inr split: option.split ts_filter.split)

lemma ts_run_total:
  assumes "splitter_ok ta"
  shows "is_ok (ts_run ta ha ob es cx)"
proof (induction es arbitrary: cx)
  case (Cons e es)
  have "is_ok (end_packet ta ha ob st)" for st :: "es_consumer \<times> 'a"
    by (cases st) (simp add: end_packet_units [OF assms])
  then have "is_ok (ts_event_step ta ha ob e cx)"
    by (auto simp: ts_event_step_def intro!: on_consumer_total split: ts_event.split)
  with Cons.IH show ?case by (auto simp: is_ok_iff res_bind_eq_Inr)
qed simp

section \<open>The bridge\<close>

lemma res_bind_ok: "is_ok (res_bind r f) \<longleftrightarrow> (\<exists>a. r = Inr a \<and> is_ok (f a))"
  by (auto simp: is_ok_iff res_bind_eq_Inr)

definition bridge_ok :: "('d, 'e, 'x, 'w) bridge_env \<Rightarrow> fmp4_segmenter \<Rightarrow> 'd ts_fmp4_bridge \<Rightarrow> bool" where
  "bridge_ok be fresh b \<longleftrightarrow> filters_ok (be_ts be) (br_filters b) \<and> br_access_units b = [] \<and> br_drained b = []
     \<and> seg_ok (br_segmenter b) \<and> (br_publish_source b \<or> br_segmenter b = fresh)"

lemma seg_ok_steps: "seg_steps api env st st' \<Longrightarrow> seg_ok (fst st) \<Longrightarrow> seg_ok (fst st')"
  by (erule seg_steps_invariant) (auto dest: seg_ok_step)

lemma seg_ok_push: "seg_ok sg \<Longrightarrow> seg_ok (fst (push_access_unit api env u (sg, w)))"
  using seg_ok_steps [OF steps_push_access_unit] by fastforce

lemma seg_ok_finish: "seg_ok sg \<Longrightarrow> seg_ok (fst (finish_segmenter api env (sg, w)))"
  unfolding finish_segmenter_def using seg_ok_steps [OF steps_flush_current] by fastforce

lemma seg_ok_reset: "seg_ok sg \<Longrightarrow> seg_ok (reset_segmenter sg)"
  by (auto simp: seg_ok_def reset_segmenter_def empty_video_config_def split: option.splits)

lemma reset_new: "reset_segmenter (new_segmenter i idx ti ms pub ret) = new_segmenter i idx ti ms pub ret"
  by (simp add: reset_segmenter_def new_segmenter_def)

lemma dispatch_ok: "bridge_ok be fresh (fst st) \<Longrightarrow> bridge_ok be fresh (fst (dispatch_access_unit be u st))"
  by (auto simp: dispatch_access_unit_def bridge_ok_def Let_def dest: seg_ok_push [where api = "be_fmp4 be" and env = "be_env be" and u = u]
      split: prod.split)
    (metis fst_conv seg_ok_push)+

lemma dispatch_all_ok:
  "bridge_ok be fresh (fst st) \<Longrightarrow> bridge_ok be fresh (fst (fold (dispatch_access_unit be) us st))"
  by (induction us arbitrary: st) (simp_all add: dispatch_ok)

lemma demux_and_dispatch_ok:
  assumes "demux_and_dispatch be read st = Inr st'" and "bridge_ok be fresh (fst st)"
  shows "bridge_ok be fresh (fst st')"
proof -
  obtain b w events reader where st: "st = (b, w)" "read = (events, reader)" by (metis surj_pair)
  from assms(1) obtain cx where run: "ts_run (be_ts be) (fm_h264 (be_fmp4 be)) (observer_of be (br_segmenter b)) events
        \<lparr>dx_filters = br_filters b, dx_access_units = br_access_units b, dx_world = w\<rparr> = Inr cx"
    and st': "st' = fold (dispatch_access_unit be) (br_drained b @ dx_access_units cx)
        (b\<lparr>br_filters := dx_filters cx, br_access_units := [], br_reader := reader, br_drained := []\<rparr>, dx_world cx)"
    by (auto simp: demux_and_dispatch_def st res_bind_eq_Inr)
  have "filters_ok (be_ts be) (dx_filters cx)"
    using ts_run_ok [OF run] assms(2) by (simp add: st bridge_ok_def)
  then show ?thesis
    unfolding st' by (intro dispatch_all_ok) (use assms(2) in \<open>simp add: st bridge_ok_def\<close>)
qed

lemma new_filters_ok: "filters_ok (be_ts be) (new_filters be)"
proof -
  have "filters_ok (be_ts be) (fold (\<lambda>(pid, request). AList.update pid (construct_filter (be_ts be) request)) rs fs)"
    if "filters_ok (be_ts be) fs" for rs fs
    using that by (induction rs arbitrary: fs) (auto intro!: filters_ok_update construct_filter_ok)
  moreover have "filters_ok (be_ts be) []" by (simp add: filters_ok_def)
  ultimately show ?thesis by (simp add: new_filters_def)
qed

lemma bridge_step_ok:
  assumes "bridge_step be op st = Inr st'" and "bridge_ok be (new_segmenter i idx ti ms pub ret) (fst st)"
  shows "bridge_ok be (new_segmenter i idx ti ms pub ret) (fst st')"
proof (cases op)
  case (PushTs bytes)
  with assms show ?thesis by (simp add: bridge_step_def push_ts_def demux_and_dispatch_ok)
next
  case FinishTs
  with assms(1) obtain b w where mid: "demux_and_dispatch be (rd_flush (be_reader be) (br_reader (fst st))) st = Inr (b, w)"
    and st': "fst st' = (if br_publish_source b
      then b\<lparr>br_segmenter := fst (finish_segmenter (be_fmp4 be) (be_env be) (br_segmenter b, w))\<rparr> else b)"
    by (auto simp: bridge_step_def finish_ts_def res_bind_eq_Inr split: prod.splits if_splits)
  from demux_and_dispatch_ok [OF mid assms(2)] show ?thesis
    by (auto simp: st' bridge_ok_def seg_ok_finish)
next
  case ResetTs
  with assms show ?thesis
    by (auto simp: bridge_step_def reset_ts_def bridge_ok_def new_filters_ok seg_ok_reset reset_new)
qed

lemma bridge_step_total: "splitter_ok (be_ts be) \<Longrightarrow> is_ok (bridge_step be op st)"
proof -
  assume ok: "splitter_ok (be_ts be)"
  have "is_ok (demux_and_dispatch be read st)" for read
    using ts_run_total [OF ok, unfolded is_ok_iff]
    by (auto simp: demux_and_dispatch_def res_bind_ok split: prod.split)
  then show ?thesis
    by (auto simp: bridge_step_def push_ts_def finish_ts_def res_bind_ok split: bridge_op.split prod.split)
      (metis is_ok_iff surj_pair)
qed

lemma bridge_run_ok:
  "bridge_ok be (new_segmenter i idx ti ms pub ret) (fst st) \<Longrightarrow>
   (case bridge_run be ops st of
      Inl _ \<Rightarrow> \<not> splitter_ok (be_ts be)
    | Inr (b, w) \<Rightarrow> bridge_ok be (new_segmenter i idx ti ms pub ret) b)"
proof (induction ops arbitrary: st)
  case Nil
  then show ?case by (cases st) simp
next
  case (Cons op ops)
  show ?case
  proof (cases "bridge_step be op st")
    case (Inl p)
    then show ?thesis using bridge_step_total [of be op st] by auto
  next
    case (Inr st1)
    with Cons.IH [OF bridge_step_ok [OF Inr Cons.prems]] show ?thesis by simp
  qed
qed


end
