(* ===== verification/Text_Split.thy ===== *)
theory Text_Split
  imports Codec
begin

text \<open>
  Splitting text as the Rust standard library does: \<^verbatim>\<open>str::split\<close> at a character, and
  \<^verbatim>\<open>str::split_once\<close>.
\<close>

fun split_on :: "char \<Rightarrow> string \<Rightarrow> string list" where
  "split_on c [] = [[]]"
| "split_on c (x # xs) = (if x = c then [] # split_on c xs
     else (case split_on c xs of [] \<Rightarrow> [[x]] | f # fs \<Rightarrow> (x # f) # fs))"

definition split_once :: "char \<Rightarrow> string \<Rightarrow> (string \<times> string) option" where
  "split_once c s = (case dropWhile (\<lambda>x. x \<noteq> c) s of [] \<Rightarrow> None | _ # rest \<Rightarrow> Some (takeWhile (\<lambda>x. x \<noteq> c) s, rest))"

lemma split_on_no_sep: "c \<notin> set s \<Longrightarrow> split_on c s = [s]"
  by (induction s) auto

lemma split_on_not_Nil [simp]: "split_on c s \<noteq> []"
  by (cases s) (auto split: list.split)

lemma split_on_append:
  "c \<notin> set f \<Longrightarrow> split_on c (f @ c # rest) = f # split_on c rest"
  by (induction f) auto

lemma split_once_append: "c \<notin> set f \<Longrightarrow> split_once c (f @ c # rest) = Some (f, rest)"
proof (induction f)
  case (Cons x f)
  then show ?case by (simp add: split_once_def split: list.splits)
qed (simp add: split_once_def)

text \<open>The pieces joined again are the text.\<close>

fun join_with :: "char \<Rightarrow> string list \<Rightarrow> string" where
  "join_with c [] = []"
| "join_with c [f] = f"
| "join_with c (f # g # fs) = f @ c # join_with c (g # fs)"

lemma join_with_Cons: "join_with c (f # fs) = (if fs = [] then f else f @ c # join_with c fs)"
  by (cases fs) simp_all

lemma join_split_on: "join_with c (split_on c s) = s"
proof (induction s)
  case (Cons x xs)
  obtain f fs where fs: "split_on c xs = f # fs" by (cases "split_on c xs") simp_all
  with Cons show ?case by (simp add: join_with_Cons split: if_splits)
qed simp

lemma split_on_pieces: "f \<in> set (split_on c s) \<Longrightarrow> c \<notin> set f"
proof (induction s arbitrary: f)
  case (Cons x xs)
  then show ?case by (cases "split_on c xs") (auto split: if_splits)
qed simp

lemma all_digits_not: "all_digits s \<Longrightarrow> \<not> is_ascii_digit c \<Longrightarrow> c \<notin> set s"
  by (auto simp: all_digits_def list_all_iff)

end
