(* ===== verification/Quadra.thy ===== *)
theory Quadra
  imports Text_Split Ts_Bridge
begin

text \<open>
  The hardware rendition ladder of \<^verbatim>\<open>src/src/quadra_renditions.rs\<close>: the textual form of a rendition,
  the validation of a ladder, and the pipeline that decodes the source, encodes each rendition and
  releases the audio that belongs to the frames that came out. The decoder, the scalers and the
  encoders are parameters; the packaging side feeds the segmenters of \<^verbatim>\<open>fmp4_bridge.rs\<close>.
\<close>

section \<open>Rendition arguments\<close>

datatype quadra_spec_error =
  SpecShape
| SpecResolution
| SpecInvalid string string
| SpecNotPositive string
| SpecBandwidths

record quadra_rendition_spec =
  qs_stream_id :: u64
  qs_width :: u16
  qs_height :: u16
  qs_average_bps :: u32
  qs_peak_bps :: u32

definition parse_positive :: "string \<Rightarrow> string \<Rightarrow> quadra_spec_error + 'a::len word" where
  "parse_positive label v =
     res_bind (ok_or (SpecInvalid label v) (parse_uint v)) (\<lambda>n.
       if 0 < n then Inr n else Inl (SpecNotPositive label))"

definition quadra_spec_from_str :: "string \<Rightarrow> quadra_spec_error + quadra_rendition_spec" where
  "quadra_spec_from_str s =
     (case split_on CHR '':'' s of
        [f0, f1, f2, f3] \<Rightarrow>
          res_bind (parse_positive ''stream ID'' f0) (\<lambda>stream_id.
          res_bind (ok_or SpecResolution (split_once CHR ''x'' f1)) (\<lambda>(width, height).
          res_bind (parse_positive ''average bandwidth'' f2) (\<lambda>average.
          res_bind (parse_positive ''peak bandwidth'' f3) (\<lambda>peak.
            if peak < average then Inl SpecBandwidths
            else res_bind (parse_positive ''width'' width) (\<lambda>width.
              res_bind (parse_positive ''height'' height) (\<lambda>height.
                Inr \<lparr>qs_stream_id = stream_id, qs_width = width, qs_height = height,
                  qs_average_bps = average, qs_peak_bps = peak\<rparr>))))))
      | _ \<Rightarrow> Inl SpecShape)"

definition hls_rendition_argument :: "quadra_rendition_spec \<Rightarrow> u64 \<Rightarrow> u32 \<Rightarrow> string" where
  "hls_rendition_argument s master_stream_id frame_rate =
     to_string master_stream_id @ '':'' @ to_string (qs_stream_id s) @ '':'' @ to_string (qs_peak_bps s) @ '':''
     @ to_string (qs_average_bps s) @ '':'' @ to_string (qs_width s) @ ''x'' @ to_string (qs_height s) @ '':''
     @ to_string frame_rate"

section \<open>The ladder\<close>

record quadra_rendition_config =
  qc_source_stream_id :: u64
  qc_source_width :: u16
  qc_source_height :: u16
  qc_frame_rate_millihertz :: u32
  qc_hardware_id :: "int option"
  qc_queue_capacity :: nat
  qc_renditions :: "quadra_rendition_spec list"

datatype quadra_config_error =
  SourceStreamZero | SourceDimensionsZero | SourceDimensionsOdd | FrameRateZero | QueueCapacityZero
| NoRenditions
| ConflictsWithSource u64
| DuplicateStream u64
| DuplicateResolution u16 u16
| DimensionsOdd u64
| Upscales u64

text \<open>The loop over the renditions, with the stream ids and the resolutions seen so far.\<close>

fun validate_renditions :: "quadra_rendition_config \<Rightarrow> u64 list \<Rightarrow> (u16 \<times> u16) list \<Rightarrow> quadra_rendition_spec list
    \<Rightarrow> quadra_config_error + unit" where
  "validate_renditions c ids sizes [] = Inr ()"
| "validate_renditions c ids sizes (r # rs) =
     (if qs_stream_id r = qc_source_stream_id c then Inl (ConflictsWithSource (qs_stream_id r))
      else if qs_stream_id r \<in> set ids then Inl (DuplicateStream (qs_stream_id r))
      else if (qs_width r, qs_height r) \<in> set sizes then Inl (DuplicateResolution (qs_width r) (qs_height r))
      else if qs_width r mod 2 \<noteq> 0 \<or> qs_height r mod 2 \<noteq> 0 then Inl (DimensionsOdd (qs_stream_id r))
      else if qc_source_width c < qs_width r \<or> qc_source_height c < qs_height r then Inl (Upscales (qs_stream_id r))
      else validate_renditions c (qs_stream_id r # ids) ((qs_width r, qs_height r) # sizes) rs)"

definition quadra_validate :: "quadra_rendition_config \<Rightarrow> quadra_config_error + unit" where
  "quadra_validate c =
     (if qc_source_stream_id c = 0 then Inl SourceStreamZero
      else if qc_source_width c = 0 \<or> qc_source_height c = 0 then Inl SourceDimensionsZero
      else if qc_source_width c mod 2 \<noteq> 0 \<or> qc_source_height c mod 2 \<noteq> 0 then Inl SourceDimensionsOdd
      else if qc_frame_rate_millihertz c = 0 then Inl FrameRateZero
      else if qc_queue_capacity c = 0 then Inl QueueCapacityZero
      else if qc_renditions c = [] then Inl NoRenditions
      else validate_renditions c [] [] (qc_renditions c))"

section \<open>The hardware side of the pipeline\<close>

record quadra_rendition_target =
  qt_spec :: quadra_rendition_spec
  qt_stream_idx :: nat

record frame_timing =
  ft_key :: bool
  ft_pts :: u64
  ft_dts :: u64
  ft_id :: u64

datatype rendition_event = VideoOut nat access_unit | AudioOut access_unit

datatype quadra_error =
  BadLadder quadra_config_error
| TargetsMismatch
| HardwareOpen string
| DecoderInputClosed
| DecodeFailed string
| UntrackedFrame
| ScaleFailed string
| EncodeFailed string
| PackagingStopped
| WorkerStopped

text \<open>
  The device: the decoder's input and its next frame, and per rendition the scaler and the encoder,
  which returns an encoded frame (whether it is a key frame, its bytes) with the timing it belongs
  to. \<open>qh_send\<close> is the channel to the packaging task.
\<close>

record ('f, 'g, 'd) quadra_hardware =
  qh_input :: "bytes \<Rightarrow> u64 \<Rightarrow> u64 \<Rightarrow> 'd \<Rightarrow> bool \<times> 'd"
  qh_decoded :: "'d \<Rightarrow> (string + 'f option) \<times> 'd"
  qh_scale :: "nat \<Rightarrow> 'f \<Rightarrow> 'd \<Rightarrow> (string + 'g) \<times> 'd"
  qh_encode :: "nat \<Rightarrow> frame_timing \<Rightarrow> 'g \<Rightarrow> bool \<Rightarrow> 'd \<Rightarrow> (string + (frame_timing \<times> (bool \<times> bytes) option) option) \<times> 'd"
  qh_send :: "rendition_event \<Rightarrow> 'd \<Rightarrow> bool \<times> 'd"

record 'd quadra_state =
  qp_pending_video :: "frame_timing list"
  qp_pending_audio :: "access_unit list"
  qp_events :: "rendition_event list"
  qp_device :: 'd

type_synonym ('a, 'd) quadra_step = "(quadra_error, 'a, 'd quadra_state) fallible"

definition device_call :: "('d \<Rightarrow> (string + 'a) \<times> 'd) \<Rightarrow> (string \<Rightarrow> quadra_error) \<Rightarrow> ('a, 'd) quadra_step" where
  "device_call f wrap st = (case f (qp_device st) of (r, d) \<Rightarrow> (map_err wrap r, st\<lparr>qp_device := d\<rparr>))"

text \<open>An event is delivered when the channel takes it.\<close>

definition send_event :: "('f, 'g, 'd) quadra_hardware \<Rightarrow> rendition_event \<Rightarrow> (unit, 'd) quadra_step" where
  "send_event hw e st =
     (case qh_send hw e (qp_device st) of
        (True, d) \<Rightarrow> (Inr (), st\<lparr>qp_device := d, qp_events := qp_events st @ [e]\<rparr>)
      | (False, d) \<Rightarrow> (Inl PackagingStopped, st\<lparr>qp_device := d\<rparr>))"

definition queue_audio :: "nat \<Rightarrow> access_unit \<Rightarrow> 'd quadra_state \<Rightarrow> 'd quadra_state" where
  "queue_audio capacity u st =
     (let pending = qp_pending_audio st;
          pending = (if capacity \<le> length pending then tl pending else pending)
      in st\<lparr>qp_pending_audio := pending @ [u]\<rparr>)"

definition timing_of :: "access_unit \<Rightarrow> frame_timing" where
  "timing_of u = \<lparr>ft_key = au_key u, ft_pts = au_pts u, ft_dts = au_dts u, ft_id = au_id u\<rparr>"

definition send_to_decoder :: "('f, 'g, 'd) quadra_hardware \<Rightarrow> access_unit \<Rightarrow> (unit, 'd) quadra_step" where
  "send_to_decoder hw u st =
     (case qh_input hw (au_data u) (au_dts u) (au_pts u) (qp_device st) of
        (ok, d) \<Rightarrow> (if ok then Inr () else Inl DecoderInputClosed, st\<lparr>qp_device := d\<rparr>))"

definition pop_timing :: "(frame_timing, 'd) quadra_step" where
  "pop_timing st =
     (case qp_pending_video st of
        [] \<Rightarrow> (Inl UntrackedFrame, st)
      | t # ts \<Rightarrow> (Inr t, st\<lparr>qp_pending_video := ts\<rparr>))"

definition encoded_unit :: "u8 \<Rightarrow> frame_timing \<Rightarrow> bool \<Rightarrow> bytes \<Rightarrow> access_unit" where
  "encoded_unit h264 t key data =
     \<lparr>au_key = key, au_pts = ft_pts t, au_dts = ft_dts t, au_data = data, au_stream_type = h264, au_id = ft_id t\<rparr>"

text \<open>One rendition of a decoded frame; the result is the time stamp of the frame that came out.\<close>

definition encode_rendition :: "('f, 'g, 'd) quadra_hardware \<Rightarrow> u8 \<Rightarrow> frame_timing \<Rightarrow> 'f \<Rightarrow> nat \<Rightarrow> (u64 list, 'd) quadra_step" where
  "encode_rendition hw h264 timing frame i =
     sbind (device_call (qh_scale hw i frame) ScaleFailed) (\<lambda>scaled.
     sbind (device_call (qh_encode hw i timing scaled (ft_key timing)) EncodeFailed) (\<lambda>out.
       case out of
         Some (t, Some (key, data)) \<Rightarrow>
           sbind (send_event hw (VideoOut i (encoded_unit h264 t key data))) (\<lambda>_. slift (Inr [ft_pts t]))
       | _ \<Rightarrow> slift (Inr [])))"

fun encode_renditions :: "('f, 'g, 'd) quadra_hardware \<Rightarrow> u8 \<Rightarrow> frame_timing \<Rightarrow> 'f \<Rightarrow> nat list \<Rightarrow> (u64 list, 'd) quadra_step" where
  "encode_renditions hw h264 timing frame [] = slift (Inr [])"
| "encode_renditions hw h264 timing frame (i # is) =
     sbind (encode_rendition hw h264 timing frame i) (\<lambda>emitted.
     sbind (encode_renditions hw h264 timing frame is) (\<lambda>later. slift (Inr (emitted @ later))))"

text \<open>The audio queue is drained from the front up to the cutoff.\<close>

fun release_audio_loop :: "('f, 'g, 'd) quadra_hardware \<Rightarrow> u64 \<Rightarrow> access_unit list \<Rightarrow> (unit, 'd) quadra_step" where
  "release_audio_loop hw cutoff [] = slift (Inr ())"
| "release_audio_loop hw cutoff (u # us) =
     (if au_pts u \<le> cutoff
      then sbind (supdate (\<lambda>st. st\<lparr>qp_pending_audio := us\<rparr>)) (\<lambda>_.
           sbind (send_event hw (AudioOut u)) (\<lambda>_. release_audio_loop hw cutoff us))
      else slift (Inr ()))"

definition release_audio :: "('f, 'g, 'd) quadra_hardware \<Rightarrow> u64 \<Rightarrow> (unit, 'd) quadra_step" where
  "release_audio hw cutoff st = release_audio_loop hw cutoff (qp_pending_audio st) st"

definition audio_cutoff :: "u64 list \<Rightarrow> frame_timing \<Rightarrow> u64" where
  "audio_cutoff emitted timing = (case emitted of [] \<Rightarrow> ft_pts timing | p # ps \<Rightarrow> fold min ps p)"

definition quadra_video :: "('f, 'g, 'd) quadra_hardware \<Rightarrow> u8 \<Rightarrow> nat \<Rightarrow> access_unit \<Rightarrow> (unit, 'd) quadra_step" where
  "quadra_video hw h264 renditions u =
     sbind (send_to_decoder hw u) (\<lambda>_.
     sbind (supdate (\<lambda>st. st\<lparr>qp_pending_video := qp_pending_video st @ [timing_of u]\<rparr>)) (\<lambda>_.
     sbind (device_call (qh_decoded hw) DecodeFailed) (\<lambda>decoded.
       case decoded of
         None \<Rightarrow> slift (Inr ())
       | Some frame \<Rightarrow>
           sbind pop_timing (\<lambda>timing.
           sbind (encode_renditions hw h264 timing frame [0..<renditions]) (\<lambda>emitted.
             if length emitted = renditions then release_audio hw (audio_cutoff emitted timing)
             else slift (Inr ()))))))"

definition quadra_unit :: "('f, 'g, 'd) quadra_hardware \<Rightarrow> u8 \<Rightarrow> nat \<Rightarrow> nat \<Rightarrow> access_unit \<Rightarrow> (unit, 'd) quadra_step" where
  "quadra_unit hw h264 capacity renditions u =
     (if au_stream_type u \<noteq> h264 then supdate (queue_audio capacity u)
      else quadra_video hw h264 renditions u)"

text \<open>The worker: the units of the input channel until it is closed or a step fails.\<close>

fun quadra_worker :: "('f, 'g, 'd) quadra_hardware \<Rightarrow> u8 \<Rightarrow> nat \<Rightarrow> nat \<Rightarrow> access_unit list \<Rightarrow> (unit, 'd) quadra_step" where
  "quadra_worker hw h264 capacity renditions [] = slift (Inr ())"
| "quadra_worker hw h264 capacity renditions (u # us) =
     sbind (quadra_unit hw h264 capacity renditions u) (\<lambda>_. quadra_worker hw h264 capacity renditions us)"

section \<open>Start-up and packaging\<close>

text \<open>What is opened: the decoder for the source, then a scaler and an encoder for each target.\<close>

record quadra_decoder_config =
  qd_width :: int
  qd_height :: int
  qd_frame_rate_millihertz :: u32
  qd_hardware_id :: "int option"

record quadra_encoder_config =
  qe_width :: u16
  qe_height :: u16
  qe_frame_rate_millihertz :: u32
  qe_bitrate :: u32

record 'd quadra_opener =
  qo_init :: "'d \<Rightarrow> (string + unit) \<times> 'd"
  qo_decoder :: "quadra_decoder_config \<Rightarrow> 'd \<Rightarrow> (string + unit) \<times> 'd"
  qo_scaler :: "int \<Rightarrow> int \<Rightarrow> 'd \<Rightarrow> (string + unit) \<times> 'd"
  qo_encoder :: "quadra_encoder_config \<Rightarrow> 'd \<Rightarrow> (string + unit) \<times> 'd"

definition open_target :: "'d quadra_opener \<Rightarrow> u32 \<Rightarrow> quadra_rendition_target \<Rightarrow> (string, unit, 'd) fallible" where
  "open_target op fps t =
     sbind (qo_scaler op (uint (qs_width (qt_spec t))) (uint (qs_height (qt_spec t)))) (\<lambda>_.
       qo_encoder op \<lparr>qe_width = qs_width (qt_spec t), qe_height = qs_height (qt_spec t),
         qe_frame_rate_millihertz = fps, qe_bitrate = qs_average_bps (qt_spec t)\<rparr>)"

fun open_targets :: "'d quadra_opener \<Rightarrow> u32 \<Rightarrow> quadra_rendition_target list \<Rightarrow> (string, unit, 'd) fallible" where
  "open_targets op fps [] = slift (Inr ())"
| "open_targets op fps (t # ts) = sbind (open_target op fps t) (\<lambda>_. open_targets op fps ts)"

definition open_hardware :: "'d quadra_opener \<Rightarrow> quadra_rendition_config \<Rightarrow> quadra_rendition_target list \<Rightarrow> (string, unit, 'd) fallible" where
  "open_hardware op c targets =
     sbind (qo_init op) (\<lambda>_.
     sbind (qo_decoder op \<lparr>qd_width = uint (qc_source_width c), qd_height = uint (qc_source_height c),
        qd_frame_rate_millihertz = qc_frame_rate_millihertz c, qd_hardware_id = qc_hardware_id c\<rparr>) (\<lambda>_.
       open_targets op (qc_frame_rate_millihertz c) targets))"

definition rendition_segmenters :: "quadra_rendition_target list \<Rightarrow> u32 \<Rightarrow> fmp4_segmenter list" where
  "rendition_segmenters targets min_part_ms =
     map (\<lambda>t. new_segmenter (qs_stream_id (qt_spec t)) (qt_stream_idx t) Ticks90Khz min_part_ms True False) targets"

text \<open>The worker starts only when the ladder is valid, the targets are its renditions and the hardware opened.\<close>

definition start_quadra_rendition_pipeline ::
    "'d quadra_opener \<Rightarrow> quadra_rendition_config \<Rightarrow> quadra_rendition_target list \<Rightarrow> u32
     \<Rightarrow> (quadra_error, 'd quadra_state \<times> fmp4_segmenter list, 'd) fallible" where
  "start_quadra_rendition_pipeline op c targets min_part_ms d =
     (case quadra_validate c of
        Inl e \<Rightarrow> (Inl (BadLadder e), d)
      | Inr _ \<Rightarrow>
          if map qt_spec targets \<noteq> qc_renditions c then (Inl TargetsMismatch, d)
          else case open_hardware op c targets d of
              (Inl e, d) \<Rightarrow> (Inl (HardwareOpen e), d)
            | (Inr _, d) \<Rightarrow> (Inr (\<lparr>qp_pending_video = [], qp_pending_audio = [], qp_events = [], qp_device = d\<rparr>,
                rendition_segmenters targets min_part_ms), d))"

definition package_event ::
    "fmp4_api \<Rightarrow> ('e, 'w) fmp4_env \<Rightarrow> rendition_event \<Rightarrow> fmp4_segmenter list \<times> 'w \<Rightarrow> fmp4_segmenter list \<times> 'w" where
  "package_event api env e st =
     (case st of (sgs, w) \<Rightarrow>
      case e of
        VideoOut i u \<Rightarrow>
          if i < length sgs
          then (case push_access_unit api env u (sgs ! i, w) of (sg, w) \<Rightarrow> (sgs[i := sg], w))
          else (sgs, w)
      | AudioOut u \<Rightarrow>
          fold (\<lambda>sg (done, w). case push_access_unit api env u (sg, w) of (sg, w) \<Rightarrow> (done @ [sg], w)) sgs ([], w))"

definition package_events ::
    "fmp4_api \<Rightarrow> ('e, 'w) fmp4_env \<Rightarrow> rendition_event list \<Rightarrow> fmp4_segmenter list \<times> 'w \<Rightarrow> fmp4_segmenter list \<times> 'w" where
  "package_events api env es st =
     (case fold (package_event api env) es st of (sgs, w) \<Rightarrow>
        fold (\<lambda>sg (done, w). case finish_segmenter api env (sg, w) of (sg, w) \<Rightarrow> (done @ [sg], w)) sgs ([], w))"

definition quadra_sink_push :: "bool \<Rightarrow> access_unit \<Rightarrow> access_unit list \<Rightarrow> (quadra_error + unit) \<times> access_unit list" where
  "quadra_sink_push worker_alive u queue =
     (if worker_alive then (Inr (), queue @ [u]) else (Inl WorkerStopped, queue))"

end
