(* ===== verification/Quadra_Facts.thy ===== *)
theory Quadra_Facts
  imports Quadra "HOL-Library.Sublist"
begin

text \<open>
  What the rendition ladder guarantees: the validation is exact, every rendition publishes on a
  stream of its own, and audio is passed on in order and never ahead of the video of any rendition.
\<close>

section \<open>The ladder\<close>

lemma validate_renditions_ok:
  "validate_renditions c ids sizes rs = Inr () \<longleftrightarrow>
     distinct (map qs_stream_id rs) \<and> distinct (map (\<lambda>r. (qs_width r, qs_height r)) rs)
     \<and> list_all (\<lambda>r. qs_stream_id r \<notin> set ids \<and> (qs_width r, qs_height r) \<notin> set sizes
          \<and> qs_stream_id r \<noteq> qc_source_stream_id c \<and> qs_width r mod 2 = 0 \<and> qs_height r mod 2 = 0
          \<and> qs_width r \<le> qc_source_width c \<and> qs_height r \<le> qc_source_height c) rs"
  by (induction rs arbitrary: ids sizes) (auto simp: list_all_iff not_less intro: rev_image_eqI)

definition ladder_ok :: "quadra_rendition_config \<Rightarrow> bool" where
  "ladder_ok c \<longleftrightarrow> 0 < qc_source_stream_id c
     \<and> 0 < qc_source_width c \<and> 0 < qc_source_height c \<and> even (qc_source_width c) \<and> even (qc_source_height c)
     \<and> 0 < qc_frame_rate_millihertz c \<and> 0 < qc_queue_capacity c \<and> qc_renditions c \<noteq> []
     \<and> distinct (qc_source_stream_id c # map qs_stream_id (qc_renditions c))
     \<and> distinct (map (\<lambda>r. (qs_width r, qs_height r)) (qc_renditions c))
     \<and> list_all (\<lambda>r. even (qs_width r) \<and> even (qs_height r)
          \<and> qs_width r \<le> qc_source_width c \<and> qs_height r \<le> qc_source_height c) (qc_renditions c)"

lemma quadra_validate_exact_core: "quadra_validate c = Inr () \<longleftrightarrow> ladder_ok c"
  by (auto simp: quadra_validate_def validate_renditions_ok ladder_ok_def word_gt_0 list_all_iff not_less even_iff_mod_2_eq_zero [symmetric]
      simp del: not_mod_2_eq_0_eq_1 intro: rev_image_eqI)

text \<open>A ladder is accepted exactly when its source is a positive even-sized stream with a frame rate
  and a queue, and its renditions, of which there is at least one, have distinct streams other than
  the source, distinct even resolutions and none larger than the source.\<close>

theorem quadra_validate_exact: "quadra_validate c = Inr () \<longleftrightarrow> ladder_ok c"
  by (rule quadra_validate_exact_core)

section \<open>Audio follows the video\<close>

fun audio_of :: "rendition_event \<Rightarrow> access_unit list" where
  "audio_of (AudioOut u) = [u]"
| "audio_of (VideoOut i u) = []"

definition audio_events :: "rendition_event list \<Rightarrow> access_unit list" where
  "audio_events es = concat (map audio_of es)"

text \<open>Every audio unit comes after a frame of each rendition that is at least as late.\<close>

fun audio_held_back :: "nat \<Rightarrow> rendition_event list \<Rightarrow> rendition_event list \<Rightarrow> bool" where
  "audio_held_back n before [] = True"
| "audio_held_back n before (e # es) =
     ((case e of
         VideoOut i u \<Rightarrow> True
       | AudioOut u \<Rightarrow> \<forall>i < n. \<exists>v. VideoOut i v \<in> set before \<and> au_pts u \<le> au_pts v)
      \<and> audio_held_back n (before @ [e]) es)"

lemma held_back_snoc:
  "audio_held_back n before (es @ [e]) \<longleftrightarrow> audio_held_back n before es
     \<and> (case e of
          VideoOut i u \<Rightarrow> True
        | AudioOut u \<Rightarrow> \<forall>i < n. \<exists>v. VideoOut i v \<in> set (before @ es) \<and> au_pts u \<le> au_pts v)"
  by (induction es arbitrary: before; cases e) simp_all

definition quadra_ok :: "nat \<Rightarrow> nat \<Rightarrow> access_unit list \<Rightarrow> 'd quadra_state \<Rightarrow> bool" where
  "quadra_ok capacity n audio st \<longleftrightarrow> length (qp_pending_audio st) \<le> max capacity 1
     \<and> subseq (audio_events (qp_events st) @ qp_pending_audio st) audio
     \<and> audio_held_back n [] (qp_events st)"

lemma quadra_ok_device [simp]:
  "quadra_ok capacity n audio (st\<lparr>qp_device := d\<rparr>) = quadra_ok capacity n audio st"
  "quadra_ok capacity n audio (st\<lparr>qp_pending_video := v\<rparr>) = quadra_ok capacity n audio st"
  by (simp_all add: quadra_ok_def)

lemma subseq_snocI: "subseq xs ys \<Longrightarrow> subseq (xs @ [u]) (ys @ [u])"
  by (simp add: list_emb_append_mono)

lemma subseq_drop_one: "subseq (xs @ x # ys) zs \<Longrightarrow> subseq (xs @ ys) zs"
  by (meson list_emb_append_mono subseq_Cons' subseq_order.order_refl subseq_order.trans)

lemma queue_audio_ok:
  assumes "quadra_ok capacity n audio st"
  shows "quadra_ok capacity n (audio @ [u]) (queue_audio capacity u st)"
proof -
  let ?p = "qp_pending_audio st" and ?e = "audio_events (qp_events st)"
  have len: "length ?p \<le> max capacity 1" and sub: "subseq (?e @ ?p) audio" and held: "audio_held_back n [] (qp_events st)"
    using assms by (simp_all add: quadra_ok_def)
  have "subseq (?e @ tl ?p) audio"
    using sub subseq_drop_one [of ?e "hd ?p" "tl ?p" audio] by (cases ?p) simp_all
  with len sub held show ?thesis
    using subseq_snocI [of "?e @ ?p" audio u] subseq_snocI [of "?e @ tl ?p" audio u]
    by (auto simp: quadra_ok_def queue_audio_def Let_def)
qed

lemma send_video_ok: "keeps (quadra_ok capacity n audio) (send_event hw (VideoOut i v))"
  by (auto simp: keeps_def send_event_def quadra_ok_def audio_events_def held_back_snoc split: prod.split bool.split)

lemma device_call_ok: "keeps (quadra_ok capacity n audio) (device_call f wrap)"
  by (auto simp: keeps_def device_call_def split: prod.split)

lemma encode_rendition_ok: "keeps (quadra_ok capacity n audio) (encode_rendition hw h264 timing frame i)"
  unfolding encode_rendition_def
  by (intro keeps_sbind device_call_ok)
    (auto split: option.split intro!: keeps_sbind keeps_slift send_video_ok)

lemma encode_renditions_ok: "keeps (quadra_ok capacity n audio) (encode_renditions hw h264 timing frame is)"
  by (induction "is") (auto intro!: keeps_sbind keeps_slift encode_rendition_ok)

text \<open>What a successful encoding leaves among the events.\<close>

lemma device_call_events: "device_call f wrap st = (r, st') \<Longrightarrow> qp_events st' = qp_events st"
  by (auto simp: device_call_def split: prod.splits)

lemma send_event_Inr: "send_event hw e st = (Inr u, st') \<Longrightarrow> qp_events st' = qp_events st @ [e]"
  by (auto simp: send_event_def split: prod.splits bool.splits)

lemma encode_rendition_Inr:
  assumes "encode_rendition hw h264 timing frame i st = (Inr emitted, st')"
  shows "set (qp_events st) \<subseteq> set (qp_events st')" and "length emitted \<le> 1"
    and "emitted = [] \<or> (\<exists>v. VideoOut i v \<in> set (qp_events st') \<and> emitted = [au_pts v])"
proof -
  from assms obtain scaled sa out sb where
    a: "device_call (qh_scale hw i frame) ScaleFailed st = (Inr scaled, sa)" and
    b: "device_call (qh_encode hw i timing scaled (ft_key timing)) EncodeFailed sa = (Inr out, sb)" and
    rest: "(case out of
         Some (t, Some (key, data)) \<Rightarrow>
           sbind (send_event hw (VideoOut i (encoded_unit h264 t key data))) (\<lambda>_. slift (Inr [ft_pts t]))
       | _ \<Rightarrow> slift (Inr [])) sb = (Inr emitted, st')"
    unfolding encode_rendition_def by (auto simp only: sbind_eq_Inr)
  note events = device_call_events [OF a] device_call_events [OF b]
  consider (none) "st' = sb" "emitted = []"
    | (out) t key data where "qp_events st' = qp_events sb @ [VideoOut i (encoded_unit h264 t key data)]" "emitted = [ft_pts t]"
    using rest
    by (cases out) (auto simp: state_ok dest!: send_event_Inr split: option.splits)
  note shape = this
  show "set (qp_events st) \<subseteq> set (qp_events st')" by (cases rule: shape) (auto simp: events)
  show "length emitted \<le> 1" by (cases rule: shape) simp_all
  show "emitted = [] \<or> (\<exists>v. VideoOut i v \<in> set (qp_events st') \<and> emitted = [au_pts v])"
    by (cases rule: shape) (auto simp: encoded_unit_def intro!: exI)
qed

lemma encode_renditions_Inr:
  "encode_renditions hw h264 timing frame is st = (Inr emitted, st') \<Longrightarrow>
   set (qp_events st) \<subseteq> set (qp_events st') \<and> length emitted \<le> length is
   \<and> (length emitted = length is
        \<longrightarrow> (\<forall>i \<in> set is. \<exists>v. VideoOut i v \<in> set (qp_events st') \<and> au_pts v \<in> set emitted))"
proof (induction "is" arbitrary: st emitted)
  case Nil
  then show ?case by (simp add: state_ok)
next
  case (Cons i "is")
  from Cons.prems obtain first later st1 where
    one: "encode_rendition hw h264 timing frame i st = (Inr first, st1)" and
    rest: "encode_renditions hw h264 timing frame is st1 = (Inr later, st')" and emitted: "emitted = first @ later"
    by (auto simp: state_ok)
  note one = encode_rendition_Inr [OF one] and rest = Cons.IH [OF rest]
  show ?case
  proof (intro conjI impI ballI)
    show "set (qp_events st) \<subseteq> set (qp_events st')" using one(1) rest by blast
    show "length emitted \<le> length (i # is)" using one(2) rest by (simp add: emitted)
    fix j
    assume len: "length emitted = length (i # is)" and j: "j \<in> set (i # is)"
    from len one(2) rest have "first \<noteq> []" and "length later = length is" by (auto simp: emitted)
    with one(1,3) rest j show "\<exists>v. VideoOut j v \<in> set (qp_events st') \<and> au_pts v \<in> set emitted"
      by (auto simp: emitted)
  qed
qed

lemma cutoff_le: "p \<in> set emitted \<Longrightarrow> audio_cutoff emitted timing \<le> p"
proof -
  have "fold min ps q \<le> q \<and> (\<forall>p \<in> set ps. fold min ps q \<le> p)" for ps and q :: u64
    by (induction ps arbitrary: q) (auto intro: order_trans [OF _ min.cobounded1] order_trans [OF _ min.cobounded2])
  then show "p \<in> set emitted \<Longrightarrow> audio_cutoff emitted timing \<le> p"
    by (cases emitted) (auto simp: audio_cutoff_def)
qed

lemma release_loop_ok:
  assumes "quadra_ok capacity n audio st" and "qp_pending_audio st = us"
    and "\<forall>i < n. \<exists>v. VideoOut i v \<in> set (qp_events st) \<and> cutoff \<le> au_pts v"
  shows "quadra_ok capacity n audio (snd (release_audio_loop hw cutoff us st))"
  using assms
proof (induction us arbitrary: st)
  case Nil
  then show ?case by (simp add: slift_def)
next
  case (Cons u us)
  show ?case
  proof (cases "au_pts u \<le> cutoff")
    case False
    with Cons.prems show ?thesis by (simp add: slift_def)
  next
    case True
    let ?st = "st\<lparr>qp_pending_audio := us\<rparr>"
    have drop: "quadra_ok capacity n audio ?st"
      using Cons.prems(1,2) subseq_drop_one [of "audio_events (qp_events st)" u us audio]
      by (simp add: quadra_ok_def)
    show ?thesis
    proof (cases "qh_send hw (AudioOut u) (qp_device st)")
      case (Pair ok d)
      let ?st1 = "?st\<lparr>qp_device := d, qp_events := qp_events st @ [AudioOut u]\<rparr>"
      have "audio_held_back n [] (qp_events st @ [AudioOut u])"
        using Cons.prems(1,3) True by (fastforce simp: held_back_snoc quadra_ok_def intro: order_trans)
      then have "quadra_ok capacity n audio ?st1"
        using Cons.prems(1,2) by (simp add: quadra_ok_def audio_events_def)
      moreover have "\<forall>i < n. \<exists>v. VideoOut i v \<in> set (qp_events ?st1) \<and> cutoff \<le> au_pts v"
        using Cons.prems(3) by auto
      ultimately have "quadra_ok capacity n audio (snd (release_audio_loop hw cutoff us ?st1))"
        by (intro Cons.IH) simp_all
      with drop True Pair show ?thesis
        by (cases ok) (simp_all add: sbind_def supdate_def send_event_def)
    qed
  qed
qed

lemma quadra_video_ok:
  fixes hw :: "('f, 'g, 'd) quadra_hardware"
  shows "keeps (quadra_ok capacity n audio) (quadra_video hw h264 n u)"
proof -
  have release: "quadra_ok capacity n audio (snd (release_audio hw (audio_cutoff emitted timing) st))"
    if "encode_renditions hw h264 timing frame [0..<n] st0 = (Inr emitted, st)" and "length emitted = n"
      and "quadra_ok capacity n audio st" for emitted timing frame st0 st
    unfolding release_audio_def
    by (rule release_loop_ok)
      (use that encode_renditions_Inr [OF that(1)] cutoff_le [of _ emitted timing] in fastforce)+
  have encode: "keeps (quadra_ok capacity n audio) (sbind (encode_renditions hw h264 timing frame [0..<n]) (\<lambda>emitted.
      if length emitted = n then release_audio hw (audio_cutoff emitted timing) else slift (Inr ())))" for timing frame
  proof (unfold keeps_def, intro allI impI)
    fix st :: "'d quadra_state"
    assume ok: "quadra_ok capacity n audio st"
    obtain r st1 where run: "encode_renditions hw h264 timing frame [0..<n] st = (r, st1)" by fastforce
    have "quadra_ok capacity n audio st1" using encode_renditions_ok run ok by (rule keepsD)
    then show "quadra_ok capacity n audio (snd (sbind (encode_renditions hw h264 timing frame [0..<n]) (\<lambda>emitted.
        if length emitted = n then release_audio hw (audio_cutoff emitted timing) else slift (Inr ())) st))"
      using run release by (auto simp: sbind_def slift_def split: sum.split)
  qed
  have "keeps (quadra_ok capacity n audio) (send_to_decoder hw u)"
    by (auto simp: keeps_def send_to_decoder_def split: prod.split)
  moreover have "keeps (quadra_ok capacity n audio) pop_timing"
    by (auto simp: keeps_def pop_timing_def split: list.split)
  ultimately show ?thesis
    unfolding quadra_video_def
    by (intro keeps_sbind device_call_ok keeps_supdate)
      (auto split: option.split intro!: keeps_sbind keeps_slift encode)
qed

lemma quadra_ok_more: "quadra_ok capacity n audio st \<Longrightarrow> quadra_ok capacity n (audio @ later) st"
  by (auto simp: quadra_ok_def intro: list_emb_append2)

lemma quadra_worker_ok:
  "quadra_ok capacity n audio st \<Longrightarrow>
   quadra_ok capacity n (audio @ filter (\<lambda>u. au_stream_type u \<noteq> h264) us) (snd (quadra_worker hw h264 capacity n us st))"
proof (induction us arbitrary: st audio)
  case Nil
  then show ?case by (simp add: slift_def)
next
  case (Cons u us)
  show ?case
  proof (cases "au_stream_type u = h264")
    case False
    from Cons.IH [OF queue_audio_ok [OF Cons.prems], of u] False show ?thesis
      by (simp add: quadra_unit_def sbind_def supdate_def)
  next
    case True
    obtain r st1 where run: "quadra_video hw h264 n u st = (r, st1)" by fastforce
    have ok: "quadra_ok capacity n audio st1" using quadra_video_ok run Cons.prems by (rule keepsD)
    with Cons.IH [OF ok] True run quadra_ok_more [OF ok] show ?thesis
      by (cases r) (simp_all add: quadra_unit_def sbind_def)
  qed
qed

text \<open>C23: However the decoder and the encoders delay, drop or fail, the audio passed on is, with what is
  still queued, a subsequence of the audio received, the queue stays within its bound, and an audio
  unit is only passed on after every rendition has put out a frame at least as late.\<close>

theorem quadra_audio_follows_video:
  "case quadra_worker hw h264 capacity n us \<lparr>qp_pending_video = [], qp_pending_audio = [], qp_events = [], qp_device = d\<rparr> of
     (_, st) \<Rightarrow> length (qp_pending_audio st) \<le> max capacity 1
       \<and> subseq (audio_events (qp_events st) @ qp_pending_audio st) (filter (\<lambda>u. au_stream_type u \<noteq> h264) us)
       \<and> audio_held_back n [] (qp_events st)"
proof -
  let ?st = "\<lparr>qp_pending_video = [], qp_pending_audio = [], qp_events = [], qp_device = d\<rparr>"
  have "quadra_ok capacity n ([] @ filter (\<lambda>u. au_stream_type u \<noteq> h264) us)
      (snd (quadra_worker hw h264 capacity n us ?st))"
    by (rule quadra_worker_ok) (simp add: quadra_ok_def audio_events_def)
  then show ?thesis by (simp add: quadra_ok_def case_prod_beta)
qed

section \<open>Streams\<close>

lemma step_stream_id: "seg_step api env st st' \<Longrightarrow> sg_stream_id (fst st) = i \<Longrightarrow> sg_stream_id (fst st') = i"
proof (induction rule: seg_step.induct)
  case (step_flush st d)
  then show ?case
    by (cases st) (auto simp: flush_with_next_dts_def clear_pending_media_def after_publish_def Let_def split: prod.split bool.split)
qed (auto simp: install_h264_config_def clear_pending_media_def drop_pending_without_config_if_needed_def append_video_def
    append_audio_def reset_segmenter_def set_audio_track_config_def)

lemma steps_stream_id: "seg_steps api env st st' \<Longrightarrow> sg_stream_id (fst st') = sg_stream_id (fst st)"
  by (erule seg_steps_invariant) (auto dest: step_stream_id)

lemma push_stream_id: "push_access_unit api env u (sg, w) = (sg', w') \<Longrightarrow> sg_stream_id sg' = sg_stream_id sg"
  using steps_stream_id [OF steps_push_access_unit, of api env u "(sg, w)"] by simp

lemma finish_stream_id: "finish_segmenter api env (sg, w) = (sg', w') \<Longrightarrow> sg_stream_id sg' = sg_stream_id sg"
  using steps_stream_id [OF steps_flush_current, of api env "(sg, w)"] by (simp add: finish_segmenter_def)

lemma fold_stream_ids:
  assumes "\<And>sg w sg' w'. f (sg, w) = (sg', w') \<Longrightarrow> sg_stream_id sg' = sg_stream_id sg"
  shows "map sg_stream_id (fst (fold (\<lambda>sg (before, w). case f (sg, w) of (sg, w) \<Rightarrow> (before @ [sg], w)) sgs (before, w)))
    = map sg_stream_id before @ map sg_stream_id sgs"
proof (induction sgs arbitrary: before w)
  case (Cons sg sgs)
  obtain sg' w' where f: "f (sg, w) = (sg', w')" by fastforce
  show ?case by (simp add: f Cons.IH assms [OF f])
qed simp

lemma package_event_ids: "map sg_stream_id (fst (package_event api env e st)) = map sg_stream_id (fst st)"
proof (cases st)
  case (Pair sgs w)
  show ?thesis
  proof (cases e)
    case (VideoOut i u)
    obtain sg' w' where push: "push_access_unit api env u (sgs ! i, w) = (sg', w')" by fastforce
    then show ?thesis using push_stream_id [OF push]
      by (auto simp: package_event_def Pair VideoOut map_update intro: nth_equalityI)
        (metis list_update_id map_update)
  next
    case (AudioOut u)
    then show ?thesis
      by (simp add: package_event_def Pair fold_stream_ids [OF push_stream_id])
  qed
qed

lemma package_events_ids: "map sg_stream_id (fst (package_events api env es st)) = map sg_stream_id (fst st)"
proof -
  have "map sg_stream_id (fst (fold (package_event api env) es st)) = map sg_stream_id (fst st)"
    by (induction es arbitrary: st) (simp_all add: package_event_ids)
  then show ?thesis
    by (auto simp: package_events_def fold_stream_ids [OF finish_stream_id] split: prod.split)
qed

text \<open>A pipeline that started publishes each rendition on a stream of its own, none of them the
  source's, whatever it is given to package.\<close>

theorem quadra_streams_separate:
  assumes "start_quadra_rendition_pipeline op c targets min_part_ms d = (Inr (st, sgs), d')"
  shows "map sg_stream_id (fst (package_events api env es (sgs, w))) = map qs_stream_id (qc_renditions c)
    \<and> distinct (qc_source_stream_id c # map sg_stream_id (fst (package_events api env es (sgs, w))))"
proof -
  from assms have "quadra_validate c = Inr ()" and specs: "map qt_spec targets = qc_renditions c"
    and sgs: "sgs = rendition_segmenters targets min_part_ms"
    by (auto simp: start_quadra_rendition_pipeline_def split: sum.splits if_splits prod.splits)
  then have "ladder_ok c" by (simp add: quadra_validate_exact_core)
  moreover have "map sg_stream_id sgs = map qs_stream_id (qc_renditions c)"
    by (simp add: sgs rendition_segmenters_def new_segmenter_def specs [symmetric])
  ultimately show ?thesis by (simp add: package_events_ids ladder_ok_def)
qed

definition demo_ladder :: quadra_rendition_config where
  "demo_ladder = \<lparr>qc_source_stream_id = 7, qc_source_width = 1920, qc_source_height = 1080,
     qc_frame_rate_millihertz = 30000, qc_hardware_id = None, qc_queue_capacity = 8,
     qc_renditions = [\<lparr>qs_stream_id = 8, qs_width = 1280, qs_height = 720, qs_average_bps = 3000000, qs_peak_bps = 4000000\<rparr>,
       \<lparr>qs_stream_id = 9, qs_width = 640, qs_height = 360, qs_average_bps = 800000, qs_peak_bps = 1000000\<rparr>]\<rparr>"

definition demo_opener :: "unit quadra_opener" where
  "demo_opener = \<lparr>qo_init = Pair (Inr ()), qo_decoder = (\<lambda>_. Pair (Inr ())), qo_scaler = (\<lambda>_ _. Pair (Inr ())),
     qo_encoder = (\<lambda>_. Pair (Inr ()))\<rparr>"

definition demo_targets :: "quadra_rendition_target list" where
  "demo_targets = map (\<lambda>r. \<lparr>qt_spec = r, qt_stream_idx = 0\<rparr>) (qc_renditions demo_ladder)"

lemma demo_start: "start_quadra_rendition_pipeline demo_opener demo_ladder demo_targets 50 () =
  (Inr (\<lparr>qp_pending_video = [], qp_pending_audio = [], qp_events = [], qp_device = ()\<rparr>,
     rendition_segmenters demo_targets 50), ())"
proof -
  have "quadra_validate demo_ladder = Inr ()"
    by (simp add: quadra_validate_def demo_ladder_def)
  then show ?thesis
    by (simp add: start_quadra_rendition_pipeline_def open_hardware_def open_target_def demo_opener_def demo_targets_def
        demo_ladder_def sbind_def slift_def)
qed

theorem quadra_streams_separate_witness:
  "\<forall>api env es w. map sg_stream_id (fst (package_events api env es (rendition_segmenters demo_targets 50, w))) = [8, 9]"
  by (intro allI) (simp add: quadra_streams_separate [OF demo_start] demo_ladder_def)

end
