(* ===== verification/Upload_Bridge.thy ===== *)
theory Upload_Bridge
  imports Ts_Facts Telemetry_Facts
begin

text \<open>
  The transport-stream ingest loop of \<^verbatim>\<open>src/src/bin/av-contrib.rs\<close> behind the RIST and SRT frontends:
  the requests of the upload service are polled, each gets a bridge after its first body slot, its
  slots are read once and in order, and an output is finalized when its last request is over; and
  the RTMP loop, which keeps one segmenter for each stream. The upload service, the playlists and
  the media world are parameters. The requests are visited in the order of an association list,
  where the code takes the order of a hash map. A panic of the demultiplexer ends the task.
\<close>

section \<open>State\<close>

datatype upload_ts_output_policy = FixedConfigured | ConcurrentFallback

datatype tail_slot =
  HeadersSlot bytes "(bytes \<times> bytes) list"
| BodySlot bytes
| EndSlot
| ControlSlot

record 'd upload_ts_bridge_state =
  ub_output_stream_id :: "u64 option"
  ub_output_stream_idx :: "nat option"
  ub_last_seen :: nat
  ub_reader_registered :: bool
  ub_body_slots :: u64
  ub_ended :: bool
  ub_bridge :: "'d ts_fmp4_bridge option"

definition new_upload_state :: "'d upload_ts_bridge_state" where
  "new_upload_state = \<lparr>ub_output_stream_id = None, ub_output_stream_idx = None, ub_last_seen = 0,
     ub_reader_registered = False, ub_body_slots = 0, ub_ended = False, ub_bridge = None\<rparr>"

text \<open>What the loop does to the outside, in order.\<close>

datatype upload_call =
  RequestTracked u64
| SlotRead u64 nat
| BridgeOpened u64 u64
| RequestEnded u64
| Finalized u64

record ('d, 'w, 'v) upload_state =
  us_bridges :: "(u64, 'd upload_ts_bridge_state) assoc"
  us_telemetry :: ingest_telemetry
  us_service :: 'v
  us_media :: 'w
  us_calls :: "upload_call list"

record ('d, 'e, 'x, 'w, 'v) upload_env =
  ue_bridge :: "('d, 'e, 'x, 'w) bridge_env"
  ue_protocol :: string
  ue_policy :: upload_ts_output_policy
  ue_output_stream_id :: u64
  ue_output_stream_idx :: nat
  ue_min_part_ms :: u32
  ue_has_sink :: bool
  ue_publish_source :: bool
  ue_lossy :: "bytes \<Rightarrow> string"
  ue_num_playlists :: u64
  ue_stream_idx :: "u64 \<Rightarrow> 'w \<Rightarrow> nat \<times> 'w"
  ue_active_streams :: "'v \<Rightarrow> (u64 \<times> nat) list \<times> 'v"
  ue_register :: "u64 \<Rightarrow> 'v \<Rightarrow> 'v"
  ue_tail :: "u64 \<Rightarrow> nat \<Rightarrow> 'v \<Rightarrow> tail_slot option \<times> 'v"
  ue_mark :: "u64 \<Rightarrow> nat \<Rightarrow> 'v \<Rightarrow> bool \<times> 'v"
  ue_complete :: "u64 \<Rightarrow> 'v \<Rightarrow> 'v"

type_synonym ('a, 'd, 'w, 'v) upload_step = "(demux_panic, 'a, ('d, 'w, 'v) upload_state) fallible"

section \<open>Outputs\<close>

definition select_upload_ts_output_stream_id :: "upload_ts_output_policy \<Rightarrow> u64 \<Rightarrow> u64 \<Rightarrow> bool \<Rightarrow> u64" where
  "select_upload_ts_output_stream_id policy configured request has_active_bridge =
     (case policy of
        FixedConfigured \<Rightarrow> configured
      | ConcurrentFallback \<Rightarrow> if has_active_bridge then request else configured)"

definition upload_output_has_active_successor ::
    "(u64, 'd upload_ts_bridge_state) assoc \<Rightarrow> u64 \<Rightarrow> u64 \<Rightarrow> bool" where
  "upload_output_has_active_successor bridges request output \<longleftrightarrow>
     list_ex (\<lambda>(other, s). other \<noteq> request \<and> \<not> ub_ended s \<and> ub_output_stream_id s = Some output) bridges"

definition has_active_bridge :: "(u64, 'd upload_ts_bridge_state) assoc \<Rightarrow> u64 \<Rightarrow> bool" where
  "has_active_bridge bridges request \<longleftrightarrow>
     list_ex (\<lambda>(other, s). other \<noteq> request \<and> ub_bridge s \<noteq> None \<and> \<not> ub_ended s) bridges"

definition resolve_output_stream_idx :: "u64 \<Rightarrow> (u64 \<Rightarrow> 'w \<Rightarrow> nat \<times> 'w) \<Rightarrow> u64 \<Rightarrow> 'w \<Rightarrow> nat \<times> 'w" where
  "resolve_output_stream_idx num_playlists get_or_create output w =
     (if output < num_playlists then (unat output, w) else get_or_create output w)"

definition log_call :: "upload_call \<Rightarrow> ('d, 'w, 'v) upload_state \<Rightarrow> ('d, 'w, 'v) upload_state" where
  "log_call c st = st\<lparr>us_calls := us_calls st @ [c]\<rparr>"

definition on_telemetry :: "(ingest_telemetry \<Rightarrow> ingest_telemetry) \<Rightarrow> (unit, 'd, 'w, 'v) upload_step" where
  "on_telemetry f = supdate (\<lambda>st. st\<lparr>us_telemetry := f (us_telemetry st)\<rparr>)"

definition set_request :: "u64 \<Rightarrow> 'd upload_ts_bridge_state \<Rightarrow> ('d, 'w, 'v) upload_state \<Rightarrow> ('d, 'w, 'v) upload_state" where
  "set_request request s st = st\<lparr>us_bridges := AList.update request s (us_bridges st)\<rparr>"

definition request_of :: "('d, 'w, 'v) upload_state \<Rightarrow> u64 \<Rightarrow> 'd upload_ts_bridge_state" where
  "request_of st request = (case map_of (us_bridges st) request of Some s \<Rightarrow> s | None \<Rightarrow> new_upload_state)"

definition finalize_output :: "u64 \<Rightarrow> u64 \<Rightarrow> (unit, 'd, 'w, 'v) upload_step" where
  "finalize_output request output =
     supdate (\<lambda>st. if upload_output_has_active_successor (us_bridges st) request output then st
       else log_call (Finalized output) st)"

section \<open>Slots\<close>

definition finish_bridge ::
    "('d, 'e, 'x, 'w, 'v) upload_env \<Rightarrow> 'd ts_fmp4_bridge \<Rightarrow> ('d ts_fmp4_bridge, 'd, 'w, 'v) upload_step" where
  "finish_bridge env b st =
     (case finish_ts (ue_bridge env) (b, us_media st) of
        Inl p \<Rightarrow> (Inl p, st)
      | Inr (b, w) \<Rightarrow> (Inr b, st\<lparr>us_media := w\<rparr>))"

definition push_bridge ::
    "('d, 'e, 'x, 'w, 'v) upload_env \<Rightarrow> bytes \<Rightarrow> 'd ts_fmp4_bridge \<Rightarrow> ('d ts_fmp4_bridge, 'd, 'w, 'v) upload_step" where
  "push_bridge env data b st =
     (case push_ts (ue_bridge env) data (b, us_media st) of
        Inl p \<Rightarrow> (Inl p, st)
      | Inr (b, w) \<Rightarrow> (Inr b, st\<lparr>us_media := w\<rparr>))"

text \<open>The peer is the first header with one of the two names.\<close>

definition peer_of :: "(bytes \<Rightarrow> string) \<Rightarrow> (bytes \<times> bytes) list \<Rightarrow> string option" where
  "peer_of lossy headers =
     map_option (\<lambda>(name, v). lossy v)
       (find (\<lambda>(name, v). eq_ignore_ascii_case (lossy name) ''x-peer-addr''
          \<or> eq_ignore_ascii_case (lossy name) ''x-rist-peer-addr'') headers)"

definition headers_slot ::
    "('d, 'e, 'x, 'w, 'v) upload_env \<Rightarrow> u64 \<Rightarrow> bytes \<Rightarrow> (bytes \<times> bytes) list \<Rightarrow> (unit, 'd, 'w, 'v) upload_step" where
  "headers_slot env request path headers =
     sbind (sget (\<lambda>st. request_of st request)) (\<lambda>s.
       on_telemetry (ensure_ingest_session (ue_protocol env) request (ub_output_stream_id s) (ub_output_stream_idx s)
         (peer_of (ue_lossy env) headers) (Some (ue_lossy env path))))"

definition new_bridge :: "('d, 'e, 'x, 'w, 'v) upload_env \<Rightarrow> u64 \<Rightarrow> nat \<Rightarrow> 'd ts_fmp4_bridge" where
  "new_bridge env public_id public_idx =
     (let be = ue_bridge env; ms = ue_min_part_ms env in
      if public_id = ue_output_stream_id env then
        (if ue_has_sink env then
           (if ue_publish_source env then bridge_new_publish_and_sink be public_id public_idx ms
            else bridge_new_sink_only be public_id public_idx ms)
         else bridge_new_publish_only be public_id public_idx ms)
      else bridge_new_publish_only be public_id public_idx ms)"

definition public_stream_idx :: "('d, 'e, 'x, 'w, 'v) upload_env \<Rightarrow> u64 \<Rightarrow> (nat, 'd, 'w, 'v) upload_step" where
  "public_stream_idx env public_id st =
     (if public_id = ue_output_stream_id env then (Inr (ue_output_stream_idx env), st)
      else case resolve_output_stream_idx (ue_num_playlists env) (ue_stream_idx env) public_id (us_media st) of
          (idx, w) \<Rightarrow> (Inr idx, st\<lparr>us_media := w\<rparr>))"

definition open_bridge :: "('d, 'e, 'x, 'w, 'v) upload_env \<Rightarrow> u64 \<Rightarrow> bool \<Rightarrow> (unit, 'd, 'w, 'v) upload_step" where
  "open_bridge env request has_active =
     (let public_id = select_upload_ts_output_stream_id (ue_policy env) (ue_output_stream_id env) request has_active
      in sbind (public_stream_idx env public_id) (\<lambda>public_idx.
         sbind (supdate (\<lambda>st. log_call (BridgeOpened request public_id) (set_request request
           ((request_of st request)\<lparr>ub_output_stream_id := Some public_id, ub_output_stream_idx := Some public_idx,
              ub_bridge := Some (new_bridge env public_id public_idx)\<rparr>) st))) (\<lambda>_.
         on_telemetry (ensure_ingest_session (ue_protocol env) request (Some public_id) (Some public_idx) None None))))"

definition store_bridge :: "u64 \<Rightarrow> 'd ts_fmp4_bridge \<Rightarrow> (unit, 'd, 'w, 'v) upload_step" where
  "store_bridge request b =
     supdate (\<lambda>st. set_request request ((request_of st request)\<lparr>ub_bridge := Some b\<rparr>) st)"

definition body_slot ::
    "('d, 'e, 'x, 'w, 'v) upload_env \<Rightarrow> u64 \<Rightarrow> bool \<Rightarrow> bytes \<Rightarrow> (unit, 'd, 'w, 'v) upload_step" where
  "body_slot env request has_active data =
     sbind (sget (\<lambda>st. request_of st request)) (\<lambda>s.
     sbind (swhen (ub_bridge s = None) (open_bridge env request has_active)) (\<lambda>_.
     sbind (supdate (\<lambda>st. set_request request
       ((request_of st request)\<lparr>ub_body_slots := sat_add (ub_body_slots (request_of st request)) 1\<rparr>) st)) (\<lambda>_.
     sbind (on_telemetry (record_ingest_session_body (ue_protocol env) request (length data))) (\<lambda>_.
     sbind (on_telemetry (record_mpeg_ts_slot (ue_protocol env) request (length data))) (\<lambda>_.
     sbind (sget (\<lambda>st. ub_bridge (request_of st request))) (\<lambda>bridge.
       case bridge of
         None \<Rightarrow> slift (Inr ())
       | Some b \<Rightarrow> sbind (push_bridge env data b) (store_bridge request)))))))"

text \<open>The end of a request; the result is the output that may be finalized.\<close>

definition end_slot :: "('d, 'e, 'x, 'w, 'v) upload_env \<Rightarrow> u64 \<Rightarrow> u64 option \<Rightarrow> (u64 option, 'd, 'w, 'v) upload_step" where
  "end_slot env request finished =
     sbind (sget (\<lambda>st. request_of st request)) (\<lambda>s.
     sbind (case ub_bridge s of
         None \<Rightarrow> slift (Inr finished)
       | Some b \<Rightarrow> sbind (finish_bridge env b) (\<lambda>b. sbind (store_bridge request b) (\<lambda>_.
           slift (Inr (ub_output_stream_id s))))) (\<lambda>finished.
     sbind (on_telemetry (end_ingest_session (ue_protocol env) request ''ended'')) (\<lambda>_.
     sbind (supdate (\<lambda>st. log_call (RequestEnded request)
       (set_request request ((request_of st request)\<lparr>ub_ended := True\<rparr>) st))) (\<lambda>_. slift (Inr finished)))))"

definition advance_upload_request_reader ::
    "('d, 'e, 'x, 'w, 'v) upload_env \<Rightarrow> u64 \<Rightarrow> nat \<Rightarrow> bool \<Rightarrow> (bool, 'd, 'w, 'v) upload_step" where
  "advance_upload_request_reader env request slot end_of_request st =
     (case ue_mark env request slot (us_service st) of
        (advanced, v) \<Rightarrow>
          (Inr advanced, st\<lparr>us_service := (if end_of_request \<and> advanced then ue_complete env request v else v)\<rparr>))"

definition read_slot :: "('d, 'e, 'x, 'w, 'v) upload_env \<Rightarrow> u64 \<Rightarrow> nat \<Rightarrow> (tail_slot option, 'd, 'w, 'v) upload_step" where
  "read_slot env request slot st =
     (case ue_tail env request slot (us_service st) of
        (content, v) \<Rightarrow> (Inr content, log_call (SlotRead request slot) (st\<lparr>us_service := v\<rparr>)))"

definition upload_slot ::
    "('d, 'e, 'x, 'w, 'v) upload_env \<Rightarrow> u64 \<Rightarrow> bool \<Rightarrow> nat \<Rightarrow> u64 option \<Rightarrow> (u64 option, 'd, 'w, 'v) upload_step" where
  "upload_slot env request has_active slot finished =
     sbind (read_slot env request slot) (\<lambda>content.
     sbind (case content of
         Some (HeadersSlot path headers) \<Rightarrow> sbind (headers_slot env request path headers) (\<lambda>_. slift (Inr (finished, False)))
       | Some (BodySlot data) \<Rightarrow> sbind (body_slot env request has_active data) (\<lambda>_. slift (Inr (finished, False)))
       | Some EndSlot \<Rightarrow> sbind (end_slot env request finished) (\<lambda>finished. slift (Inr (finished, True)))
       | Some ControlSlot \<Rightarrow> slift (Inr (finished, False))
       | None \<Rightarrow> slift (Inr (finished, False))) (\<lambda>(finished, slot_ended).
     sbind (advance_upload_request_reader env request slot slot_ended) (\<lambda>_. slift (Inr finished))))"

fun upload_slots ::
    "('d, 'e, 'x, 'w, 'v) upload_env \<Rightarrow> u64 \<Rightarrow> bool \<Rightarrow> nat list \<Rightarrow> u64 option \<Rightarrow> (u64 option, 'd, 'w, 'v) upload_step" where
  "upload_slots env request has_active [] finished = slift (Inr finished)"
| "upload_slots env request has_active (slot # slots) finished =
     sbind (upload_slot env request has_active slot finished) (upload_slots env request has_active slots)"

section \<open>Polling\<close>

definition track_request :: "('d, 'e, 'x, 'w, 'v) upload_env \<Rightarrow> u64 \<Rightarrow> (unit, 'd, 'w, 'v) upload_step" where
  "track_request env request =
     sbind (sget (\<lambda>st. contains_key request (us_bridges st))) (\<lambda>known.
       swhen (\<not> known)
         (sbind (supdate (\<lambda>st. log_call (RequestTracked request) (set_request request new_upload_state st))) (\<lambda>_.
            on_telemetry (ensure_ingest_session (ue_protocol env) request None None None None))))"

definition register_reader :: "('d, 'e, 'x, 'w, 'v) upload_env \<Rightarrow> u64 \<Rightarrow> (unit, 'd, 'w, 'v) upload_step" where
  "register_reader env request =
     sbind (sget (\<lambda>st. ub_reader_registered (request_of st request))) (\<lambda>registered.
       swhen (\<not> registered)
         (supdate (\<lambda>st. set_request request ((request_of st request)\<lparr>ub_reader_registered := True\<rparr>)
            (st\<lparr>us_service := ue_register env request (us_service st)\<rparr>))))"

definition upload_stream ::
    "('d, 'e, 'x, 'w, 'v) upload_env \<Rightarrow> u64 \<Rightarrow> nat \<Rightarrow> (unit, 'd, 'w, 'v) upload_step" where
  "upload_stream env request request_last =
     sbind (track_request env request) (\<lambda>_.
     sbind (sget (\<lambda>st. (has_active_bridge (us_bridges st) request, ub_ended (request_of st request)))) (\<lambda>(has_active, ended).
     swhen (\<not> ended)
       (sbind (register_reader env request) (\<lambda>_.
        sbind (sget (\<lambda>st. ub_last_seen (request_of st request))) (\<lambda>last_seen.
        swhen (last_seen < request_last)
          (sbind (upload_slots env request has_active [last_seen + 1..<request_last + 1] None) (\<lambda>finished.
           sbind (supdate (\<lambda>st. set_request request ((request_of st request)\<lparr>ub_last_seen := request_last\<rparr>) st)) (\<lambda>_.
             case finished of
               None \<Rightarrow> slift (Inr ())
             | Some output \<Rightarrow> finalize_output request output))))))))"

fun upload_streams :: "('d, 'e, 'x, 'w, 'v) upload_env \<Rightarrow> (u64 \<times> nat) list \<Rightarrow> (unit, 'd, 'w, 'v) upload_step" where
  "upload_streams env [] = slift (Inr ())"
| "upload_streams env ((request, request_last) # streams) =
     sbind (upload_stream env request request_last) (\<lambda>_. upload_streams env streams)"

text \<open>A request that is no longer active is dropped before its bridge is finished.\<close>

definition retire_request :: "('d, 'e, 'x, 'w, 'v) upload_env \<Rightarrow> u64 \<Rightarrow> (unit, 'd, 'w, 'v) upload_step" where
  "retire_request env request =
     sbind (sget (\<lambda>st. map_of (us_bridges st) request)) (\<lambda>found.
       case found of
         None \<Rightarrow> slift (Inr ())
       | Some s \<Rightarrow>
           sbind (supdate (\<lambda>st. log_call (RequestEnded request)
             (st\<lparr>us_bridges := AList.delete request (us_bridges st)\<rparr>))) (\<lambda>_.
           sbind (case ub_bridge s of
               None \<Rightarrow> slift (Inr ())
             | Some b \<Rightarrow> sbind (finish_bridge env b) (\<lambda>_. slift (Inr ()))) (\<lambda>_.
           sbind (case ub_output_stream_id s of
               None \<Rightarrow> slift (Inr ())
             | Some output \<Rightarrow> finalize_output request output) (\<lambda>_.
           on_telemetry (end_ingest_session (ue_protocol env) request ''inactive'')))))"

fun retire_requests :: "('d, 'e, 'x, 'w, 'v) upload_env \<Rightarrow> u64 list \<Rightarrow> (unit, 'd, 'w, 'v) upload_step" where
  "retire_requests env [] = slift (Inr ())"
| "retire_requests env (request # requests) =
     sbind (retire_request env request) (\<lambda>_. retire_requests env requests)"

definition active_requests :: "('d, 'e, 'x, 'w, 'v) upload_env \<Rightarrow> ((u64 \<times> nat) list, 'd, 'w, 'v) upload_step" where
  "active_requests env st =
     (case ue_active_streams env (us_service st) of (streams, v) \<Rightarrow> (Inr streams, st\<lparr>us_service := v\<rparr>))"

definition upload_poll :: "('d, 'e, 'x, 'w, 'v) upload_env \<Rightarrow> (unit, 'd, 'w, 'v) upload_step" where
  "upload_poll env =
     sbind (active_requests env) (\<lambda>streams.
     sbind (sget (\<lambda>st. filter (\<lambda>request. request \<notin> set (map fst streams)) (map fst (us_bridges st)))) (\<lambda>stale.
     sbind (retire_requests env stale) (\<lambda>_. upload_streams env streams)))"

fun shutdown_requests ::
    "('d, 'e, 'x, 'w, 'v) upload_env \<Rightarrow> (u64 \<times> 'd upload_ts_bridge_state) list \<Rightarrow> (unit, 'd, 'w, 'v) upload_step" where
  "shutdown_requests env [] = slift (Inr ())"
| "shutdown_requests env ((request, s) # rest) =
     sbind (case ub_bridge s of
         None \<Rightarrow> slift (Inr ())
       | Some b \<Rightarrow> sbind (finish_bridge env b) (\<lambda>_. slift (Inr ()))) (\<lambda>_.
     sbind (supdate (log_call (RequestEnded request))) (\<lambda>_.
     sbind (on_telemetry (end_ingest_session (ue_protocol env) request ''shutdown'')) (\<lambda>_.
       shutdown_requests env rest)))"

definition upload_shutdown :: "('d, 'e, 'x, 'w, 'v) upload_env \<Rightarrow> (unit, 'd, 'w, 'v) upload_step" where
  "upload_shutdown env =
     sbind (sget us_bridges) (\<lambda>all.
     sbind (supdate (\<lambda>st. st\<lparr>us_bridges := []\<rparr>)) (\<lambda>_. shutdown_requests env all))"

text \<open>The loop for some number of ticks, then the shutdown.\<close>

fun run_upload_response_ts_bridge :: "('d, 'e, 'x, 'w, 'v) upload_env \<Rightarrow> nat \<Rightarrow> bool \<Rightarrow> (unit, 'd, 'w, 'v) upload_step" where
  "run_upload_response_ts_bridge env 0 shutdown = swhen shutdown (upload_shutdown env)"
| "run_upload_response_ts_bridge env (Suc ticks) shutdown =
     sbind (upload_poll env) (\<lambda>_. run_upload_response_ts_bridge env ticks shutdown)"

definition upload_start :: "'v \<Rightarrow> 'w \<Rightarrow> ingest_telemetry \<Rightarrow> ('d, 'w, 'v) upload_state" where
  "upload_start v w t = \<lparr>us_bridges = [], us_telemetry = t, us_service = v, us_media = w, us_calls = []\<rparr>"

end
