(* ===== verification/Upload_Facts.thy ===== *)
theory Upload_Facts
  imports Upload_Bridge
begin

text \<open>
  What the ingest loop guarantees whatever the upload service returns: an output is finalized only
  when no other running request is on it, every request's slots are read in order and once, and
  concurrent requests do not share an output.
\<close>

section \<open>Finalizing outputs\<close>

text \<open>Which requests are running, and the output each running request has a bridge on.\<close>

type_synonym live_requests = "(u64 \<Rightarrow> bool) \<times> (u64 \<Rightarrow> u64 option)"

fun after_call :: "live_requests \<Rightarrow> upload_call \<Rightarrow> live_requests" where
  "after_call (running, outputs) (RequestTracked r) = (running(r := True), outputs(r := None))"
| "after_call (running, outputs) (BridgeOpened r out) =
     (running, if running r then outputs(r := Some out) else outputs)"
| "after_call (running, outputs) (RequestEnded r) = (running(r := False), outputs(r := None))"
| "after_call live (SlotRead r slot) = live"
| "after_call live (Finalized out) = live"

definition live_requests :: "upload_call list \<Rightarrow> live_requests" where
  "live_requests calls = foldl after_call (\<lambda>_. False, \<lambda>_. None) calls"

fun finalized_safely :: "live_requests \<Rightarrow> upload_call list \<Rightarrow> bool" where
  "finalized_safely live [] = True"
| "finalized_safely live (c # cs) =
     ((case c of Finalized out \<Rightarrow> out \<notin> ran (snd live) | _ \<Rightarrow> True) \<and> finalized_safely (after_call live c) cs)"

lemma finalized_safely_snoc:
  "finalized_safely live (cs @ [c]) \<longleftrightarrow> finalized_safely live cs
     \<and> (case c of Finalized out \<Rightarrow> out \<notin> ran (snd (foldl after_call live cs)) | _ \<Rightarrow> True)"
  by (induction cs arbitrary: live; cases c) simp_all

definition running_in :: "(u64, 'd upload_ts_bridge_state) assoc \<Rightarrow> u64 \<Rightarrow> bool" where
  "running_in m r = (case map_of m r of None \<Rightarrow> False | Some s \<Rightarrow> \<not> ub_ended s)"

definition output_in :: "(u64, 'd upload_ts_bridge_state) assoc \<Rightarrow> u64 \<Rightarrow> u64 option" where
  "output_in m r = (case map_of m r of None \<Rightarrow> None | Some s \<Rightarrow> if ub_ended s then None else ub_output_stream_id s)"

definition upload_ok :: "('d, 'w, 'v) upload_state \<Rightarrow> bool" where
  "upload_ok st \<longleftrightarrow> wf_assoc (us_bridges st) \<and> telemetry_ok (us_telemetry st)
     \<and> live_requests (us_calls st) = (running_in (us_bridges st), output_in (us_bridges st))
     \<and> finalized_safely (\<lambda>_. False, \<lambda>_. None) (us_calls st)"

definition known :: "u64 \<Rightarrow> ('d, 'w, 'v) upload_state \<Rightarrow> bool" where
  "known r st \<longleftrightarrow> upload_ok st \<and> map_of (us_bridges st) r \<noteq> None"

lemma known_ok: "known r st \<Longrightarrow> upload_ok st"
  by (simp add: known_def)

lemma live_snoc: "live_requests (cs @ [c]) = after_call (live_requests cs) c"
  by (simp add: live_requests_def)

lemma upload_ok_log:
  assumes "upload_ok st" and "case c of SlotRead r slot \<Rightarrow> True | _ \<Rightarrow> False"
  shows "upload_ok (log_call c st)"
  using assms by (cases c) (auto simp: upload_ok_def log_call_def live_snoc finalized_safely_snoc)

lemma upload_ok_fields [simp]:
  "upload_ok (st\<lparr>us_service := v\<rparr>) = upload_ok st" "upload_ok (st\<lparr>us_media := w\<rparr>) = upload_ok st"
  by (simp_all add: upload_ok_def)

lemma known_fields [simp]:
  "known r (st\<lparr>us_service := v\<rparr>) = known r st" "known r (st\<lparr>us_media := w\<rparr>) = known r st"
  by (simp_all add: known_def)

lemma request_of_known: "map_of (us_bridges st) r = Some s \<Longrightarrow> request_of st r = s"
  by (simp add: request_of_def)

text \<open>Changing what neither the run nor the output of a request depends on.\<close>

lemma known_set:
  assumes "known r st" and "ub_ended s' = ub_ended (request_of st r)"
    and "ub_output_stream_id s' = ub_output_stream_id (request_of st r)"
  shows "known r (set_request r s' st)"
proof -
  from assms(1) obtain s where s: "map_of (us_bridges st) r = Some s" by (auto simp: known_def)
  have "running_in (AList.update r s' (us_bridges st)) = running_in (us_bridges st)"
    "output_in (AList.update r s' (us_bridges st)) = output_in (us_bridges st)"
    using assms(2,3) s by (auto simp: running_in_def output_in_def map_of_update request_of_def fun_eq_iff)
  then show ?thesis using assms(1)
    by (auto simp: known_def upload_ok_def set_request_def map_of_update)
qed

lemma known_open:
  assumes "known r st" and "ub_ended s' = ub_ended (request_of st r)" and "ub_output_stream_id s' = Some out"
  shows "known r (log_call (BridgeOpened r out) (set_request r s' st))"
proof -
  from assms(1) obtain s where s: "map_of (us_bridges st) r = Some s" by (auto simp: known_def)
  have "running_in (AList.update r s' (us_bridges st)) = running_in (us_bridges st)"
    "output_in (AList.update r s' (us_bridges st)) =
       (if running_in (us_bridges st) r then (output_in (us_bridges st))(r := Some out) else output_in (us_bridges st))"
    using assms(2,3) s by (auto simp: running_in_def output_in_def map_of_update request_of_def fun_eq_iff)
  then show ?thesis using assms(1)
    by (auto simp: known_def upload_ok_def set_request_def log_call_def map_of_update live_snoc finalized_safely_snoc)
qed

lemma known_end:
  assumes "known r st" and "ub_ended s'"
  shows "known r (log_call (RequestEnded r) (set_request r s' st))"
proof -
  have "running_in (AList.update r s' (us_bridges st)) = (running_in (us_bridges st))(r := False)"
    "output_in (AList.update r s' (us_bridges st)) = (output_in (us_bridges st))(r := None)"
    using assms(2) by (auto simp: running_in_def output_in_def map_of_update fun_eq_iff)
  then show ?thesis using assms(1)
    by (auto simp: known_def upload_ok_def set_request_def log_call_def map_of_update live_snoc finalized_safely_snoc)
qed

lemma ok_track:
  assumes "upload_ok st" and "\<not> contains_key r (us_bridges st)"
  shows "known r (log_call (RequestTracked r) (set_request r new_upload_state st))"
proof -
  have "running_in (AList.update r new_upload_state (us_bridges st)) = (running_in (us_bridges st))(r := True)"
    "output_in (AList.update r new_upload_state (us_bridges st)) = (output_in (us_bridges st))(r := None)"
    by (auto simp: running_in_def output_in_def map_of_update fun_eq_iff new_upload_state_def)
  then show ?thesis using assms(1)
    by (auto simp: known_def upload_ok_def set_request_def log_call_def map_of_update live_snoc finalized_safely_snoc)
qed

lemma ok_drop:
  assumes "upload_ok st"
  shows "upload_ok (log_call (RequestEnded r) (st\<lparr>us_bridges := AList.delete r (us_bridges st)\<rparr>))"
proof -
  have "running_in (AList.delete r (us_bridges st)) = (running_in (us_bridges st))(r := False)"
    "output_in (AList.delete r (us_bridges st)) = (output_in (us_bridges st))(r := None)"
    by (auto simp: running_in_def output_in_def map_of_delete fun_eq_iff)
  then show ?thesis using assms
    by (auto simp: upload_ok_def log_call_def live_snoc finalized_safely_snoc)
qed

lemma ok_finalize:
  assumes "upload_ok st" and "output_in (us_bridges st) r = None"
  shows "upload_ok (snd (finalize_output r out st))"
proof (cases "upload_output_has_active_successor (us_bridges st) r out")
  case True
  with assms show ?thesis by (simp add: finalize_output_def supdate_def)
next
  case False
  have "out \<notin> ran (output_in (us_bridges st))"
  proof
    assume "out \<in> ran (output_in (us_bridges st))"
    then obtain other where other: "output_in (us_bridges st) other = Some out" by (auto simp: ran_def)
    then obtain s where s: "map_of (us_bridges st) other = Some s" "\<not> ub_ended s" "ub_output_stream_id s = Some out"
      by (auto simp: output_in_def split: option.splits if_splits)
    moreover have "other \<noteq> r" using other assms(2) by auto
    ultimately have "upload_output_has_active_successor (us_bridges st) r out"
      by (force simp: upload_output_has_active_successor_def list_ex_iff dest: map_of_SomeD)
    with False show False ..
  qed
  with assms(1) False show ?thesis
    by (auto simp: finalize_output_def supdate_def upload_ok_def log_call_def live_snoc finalized_safely_snoc
        live_requests_def)
qed

section \<open>The operations\<close>

lemma ok_session_records [telemetry_keeps]:
  "telemetry_ok t \<Longrightarrow> telemetry_ok (record_ingest_session_body p s n t)"
  "telemetry_ok t \<Longrightarrow> telemetry_ok (record_ingest_session_access_unit p s n t)"
  by (simp_all add: record_ingest_session_body_def record_ingest_session_access_unit_def ok_touch same_input_def)

lemma keeps_case_option [keeps_intros]:
  "keeps P m \<Longrightarrow> (\<And>a. keeps P (f a)) \<Longrightarrow> keeps P (case x of None \<Rightarrow> m | Some a \<Rightarrow> f a)"
  by (cases x) simp_all

lemma keeps_fold_prod [keeps_intros]: "(\<And>a b. keeps P (f a b)) \<Longrightarrow> keeps P (case x of (a, b) \<Rightarrow> f a b)"
  by (cases x) simp

lemma keeps_telemetry [keeps_intros]:
  "(\<And>t. telemetry_ok t \<Longrightarrow> telemetry_ok (f t)) \<Longrightarrow> keeps upload_ok (on_telemetry f)"
  "(\<And>t. telemetry_ok t \<Longrightarrow> telemetry_ok (f t)) \<Longrightarrow> keeps (known r) (on_telemetry f)"
  by (auto simp: keeps_def on_telemetry_def supdate_def known_def upload_ok_def)

lemma keeps_bridge [keeps_intros]:
  "keeps upload_ok (finish_bridge env b)" "keeps (known r) (finish_bridge env b)" "keeps (known r) (push_bridge env d b)"
  by (auto simp: keeps_def finish_bridge_def push_bridge_def split: sum.split prod.split)

lemma keeps_store [keeps_intros]: "keeps (known r) (store_bridge r b)"
  by (auto simp: store_bridge_def intro!: keeps_supdate known_set)

lemma keeps_read [keeps_intros]: "keeps (known r) (read_slot env r slot)"
proof -
  have "known r (log_call (SlotRead r slot) st)" if "known r st" for st :: "('a, 'b, 'c) upload_state"
    using that upload_ok_log [of st "SlotRead r slot"] by (simp add: known_def log_call_def)
  then show ?thesis by (auto simp: keeps_def read_slot_def split: prod.split)
qed

lemma keeps_mark [keeps_intros]: "keeps (known r) (advance_upload_request_reader env r slot e)"
  by (auto simp: keeps_def advance_upload_request_reader_def split: prod.split)

lemma keeps_public_idx [keeps_intros]: "keeps (known r) (public_stream_idx env i)"
  by (auto simp: keeps_def public_stream_idx_def split: prod.split)

lemma keeps_open [keeps_intros]: "keeps (known r) (open_bridge env r active)"
  unfolding open_bridge_def Let_def
  by (auto intro!: keeps_intros keeps_supdate known_open telemetry_keeps)

lemma keeps_body [keeps_intros]: "keeps (known r) (body_slot env r active d)"
  unfolding body_slot_def
  by (auto intro!: keeps_intros keeps_supdate known_set telemetry_keeps)

lemma keeps_headers [keeps_intros]: "keeps (known r) (headers_slot env r path hs)"
  unfolding headers_slot_def by (auto intro!: keeps_intros telemetry_keeps)

lemma keeps_end [keeps_intros]: "keeps (known r) (end_slot env r finished)"
  unfolding end_slot_def
  by (auto intro!: keeps_intros keeps_supdate known_end telemetry_keeps)

lemma keeps_tail_slot [keeps_intros]:
  "(\<And>path hs. c = Some (HeadersSlot path hs) \<Longrightarrow> keeps P (f path hs)) \<Longrightarrow> (\<And>d. c = Some (BodySlot d) \<Longrightarrow> keeps P (g d)) \<Longrightarrow>
   keeps P h \<Longrightarrow> keeps P i \<Longrightarrow> keeps P j \<Longrightarrow>
   keeps P (case c of Some (HeadersSlot path hs) \<Rightarrow> f path hs | Some (BodySlot d) \<Rightarrow> g d | Some EndSlot \<Rightarrow> h
     | Some ControlSlot \<Rightarrow> i | None \<Rightarrow> j)"
  by (auto split: option.split tail_slot.split)

lemma keeps_slot [keeps_intros]: "keeps (known r) (upload_slot env r active slot finished)"
  unfolding upload_slot_def by (intro keeps_intros)

lemma keeps_slots [keeps_intros]: "keeps (known r) (upload_slots env r active slots finished)"
  by (induction slots arbitrary: finished) (auto intro!: keeps_intros)

lemma keeps_register [keeps_intros]: "keeps (known r) (register_reader env r)"
  unfolding register_reader_def
  by (auto intro!: keeps_intros keeps_supdate known_set simp: request_of_def)

text \<open>The output that an end slot returns belongs to a request that has ended, and it stays ended.\<close>

definition over :: "u64 \<Rightarrow> ('d, 'w, 'v) upload_state \<Rightarrow> bool" where
  "over r st \<longleftrightarrow> ub_ended (request_of st r)"

lemma over_fields [simp]:
  "over r (st\<lparr>us_service := v\<rparr>) = over r st" "over r (st\<lparr>us_media := w\<rparr>) = over r st"
  "over r (st\<lparr>us_telemetry := t\<rparr>) = over r st" "over r (log_call c st) = over r st"
  by (simp_all add: over_def request_of_def log_call_def)

lemma over_set [simp]: "over r (set_request r s st) = ub_ended s"
  by (simp add: over_def request_of_def set_request_def map_of_update)

lemma request_of_set [simp]: "request_of (set_request r s st) r = s"
  by (simp add: request_of_def set_request_def map_of_update)

lemma request_of_log [simp]: "request_of (log_call c st) r = request_of st r"
  by (simp add: request_of_def log_call_def)

lemma over_telemetry: "keeps (over r) (on_telemetry f)"
  by (simp add: on_telemetry_def keeps_supdate)

lemma over_bridge: "keeps (over r) (finish_bridge env b)" "keeps (over r) (push_bridge env d b)"
  by (auto simp: keeps_def finish_bridge_def push_bridge_def split: sum.split prod.split)

lemma over_store: "keeps (over r) (store_bridge r b)"
  by (auto simp: store_bridge_def over_def intro!: keeps_supdate)

lemma over_service: "keeps (over r) (read_slot env r slot)" "keeps (over r) (advance_upload_request_reader env r slot e)"
  "keeps (over r) (public_stream_idx env i)"
  by (auto simp: keeps_def read_slot_def advance_upload_request_reader_def public_stream_idx_def split: prod.split)

lemma over_open: "keeps (over r) (open_bridge env r active)"
  unfolding open_bridge_def Let_def
  by (auto intro!: keeps_intros keeps_supdate over_telemetry over_service simp: over_def)

lemma over_body: "keeps (over r) (body_slot env r active d)"
  unfolding body_slot_def
  by (auto intro!: keeps_intros keeps_supdate over_telemetry over_open over_bridge over_store simp: over_def)

lemma over_headers: "keeps (over r) (headers_slot env r path hs)"
  unfolding headers_slot_def by (auto intro!: keeps_intros over_telemetry)

lemma over_end: "keeps (over r) (end_slot env r finished)"
  unfolding end_slot_def
  by (auto intro!: keeps_intros keeps_supdate over_telemetry over_bridge over_store simp: over_def)

lemma over_slot: "keeps (over r) (upload_slot env r active slot finished)"
  unfolding upload_slot_def
  by (intro keeps_intros over_service over_headers over_body over_end)

lemma over_slots: "keeps (over r) (upload_slots env r active slots finished)"
  by (induction slots arbitrary: finished) (auto intro!: keeps_sbind keeps_slift over_slot)

lemma end_slot_over: "end_slot env r finished st = (Inr f, st') \<Longrightarrow> over r st'"
  by (auto simp: end_slot_def state_ok)

lemma slot_over:
  assumes "upload_slot env r active slot finished st = (Inr f, st')"
  shows "f = finished \<or> over r st'"
proof -
  from assms obtain content sa g ended sb u where
    act: "(case content of
         Some (HeadersSlot path headers) \<Rightarrow> sbind (headers_slot env r path headers) (\<lambda>_. slift (Inr (finished, False)))
       | Some (BodySlot data) \<Rightarrow> sbind (body_slot env r active data) (\<lambda>_. slift (Inr (finished, False)))
       | Some EndSlot \<Rightarrow> sbind (end_slot env r finished) (\<lambda>finished. slift (Inr (finished, True)))
       | Some ControlSlot \<Rightarrow> slift (Inr (finished, False))
       | None \<Rightarrow> slift (Inr (finished, False))) sa = (Inr (g, ended), sb)" and
    mark: "advance_upload_request_reader env r slot ended sb = (Inr u, st')" and f: "f = g"
    unfolding upload_slot_def by (auto simp: state_ok)
  have "g = finished \<or> over r sb"
    using act by (auto simp: state_ok dest: end_slot_over split: option.splits tail_slot.splits)
  moreover have "over r sb \<Longrightarrow> over r st'" using over_service(2) mark by (rule keepsD)
  ultimately show ?thesis by (auto simp: f)
qed

lemma slots_over:
  "upload_slots env r active slots finished st = (Inr f, st') \<Longrightarrow> f = finished \<or> over r st'"
proof (induction slots arbitrary: finished st)
  case Nil
  then show ?case by (simp add: state_ok)
next
  case (Cons slot slots)
  from Cons.prems obtain g st1 where
    one: "upload_slot env r active slot finished st = (Inr g, st1)" and
    rest: "upload_slots env r active slots g st1 = (Inr f, st')" by (auto simp: state_ok)
  show ?case
    using slot_over [OF one] Cons.IH [OF rest] keepsD [OF over_slots rest] by auto
qed

section \<open>The loop\<close>

lemma keeps_finalize: "upload_ok st \<Longrightarrow> output_in (us_bridges st) r = None \<Longrightarrow> upload_ok (snd (finalize_output r out st))"
  by (rule ok_finalize)

lemma keeps_track:
  assumes "upload_ok st" and "track_request env r st = (x, st')"
  shows "known r st'"
proof (cases "contains_key r (us_bridges st)")
  case True
  then have "map_of (us_bridges st) r \<noteq> None" by (simp add: contains_key_def)
  with assms True show ?thesis by (simp add: track_request_def sbind_def sget_def swhen_def slift_def known_def)
next
  case False
  have "keeps (known r) (on_telemetry (ensure_ingest_session (ue_protocol env) r None None None None))"
    by (auto intro!: keeps_intros telemetry_keeps)
  moreover have "known r (log_call (RequestTracked r) (set_request r new_upload_state st))"
    using assms(1) False by (rule ok_track)
  ultimately show ?thesis using assms(2) False
    by (auto simp: track_request_def sbind_def sget_def swhen_def supdate_def keeps_def split: prod.splits)
qed

lemma over_no_output: "over r st \<Longrightarrow> output_in (us_bridges st) r = None"
  by (auto simp: over_def request_of_def output_in_def split: option.splits)

lemma keeps_finish_slots:
  assumes "known r st" and "upload_slots env r active slots None st = (Inr finished, st1)"
  shows "upload_ok (snd (sbind (supdate (\<lambda>st. set_request r ((request_of st r)\<lparr>ub_last_seen := n\<rparr>) st)) (\<lambda>_.
    case finished of None \<Rightarrow> slift (Inr ()) | Some output \<Rightarrow> finalize_output r output) st1))"
proof -
  let ?st = "set_request r ((request_of st1 r)\<lparr>ub_last_seen := n\<rparr>) st1"
  have "known r st1" using keeps_slots assms(2,1) by (rule keepsD)
  then have ok: "known r ?st" by (rule known_set) simp_all
  show ?thesis
  proof (cases finished)
    case None
    with ok show ?thesis by (simp add: sbind_def supdate_def slift_def known_ok)
  next
    case (Some out)
    then have "over r st1" using slots_over [OF assms(2)] by simp
    then have "over r ?st" by (simp add: over_def)
    then have "output_in (us_bridges ?st) r = None" by (rule over_no_output)
    with ok Some show ?thesis by (simp add: sbind_def supdate_def keeps_finalize known_ok)
  qed
qed

lemma keeps_stream [keeps_intros]: "keeps upload_ok (upload_stream env r n)"
proof (unfold keeps_def, intro allI impI)
  fix st :: "('a, 'b, 'c) upload_state"
  assume ok: "upload_ok st"
  obtain x st1 where track: "track_request env r st = (x, st1)" by fastforce
  have known: "known r st1" using ok track by (rule keeps_track)
  show "upload_ok (snd (upload_stream env r n st))"
  proof (cases x)
    case (Inl p)
    with track known show ?thesis by (simp add: upload_stream_def sbind_def known_ok)
  next
    case (Inr u)
    obtain y st2 where register: "register_reader env r st1 = (y, st2)" by fastforce
    have known2: "known r st2" using keeps_register register known by (rule keepsD)
    show ?thesis
    proof (cases "ub_ended (request_of st1 r)")
      case True
      with track Inr known show ?thesis
        by (simp add: upload_stream_def sbind_def sget_def swhen_def slift_def known_ok)
    next
      case False
      let ?active = "has_active_bridge (us_bridges st1) r"
      let ?slots = "[ub_last_seen (request_of st2 r) + 1..<n + 1]"
      obtain z st3 where slots: "upload_slots env r ?active ?slots None st2 = (z, st3)" by fastforce
      have known3: "known r st3" using keeps_slots slots known2 by (rule keepsD)
      show ?thesis
      proof (cases y)
        case (Inl p)
        with track Inr False register known2 show ?thesis
          by (simp add: upload_stream_def sbind_def sget_def swhen_def known_ok)
      next
        case y: (Inr u2)
        show ?thesis
        proof (cases z)
          case (Inl p)
          with track Inr False register y slots known2 known3 show ?thesis
            by (auto simp: upload_stream_def sbind_def sget_def swhen_def slift_def known_ok simp del: upt_Suc)
        next
          case z: (Inr finished)
          have "upload_ok (snd (sbind (supdate (\<lambda>st. set_request r ((request_of st r)\<lparr>ub_last_seen := n\<rparr>) st)) (\<lambda>_.
              case finished of None \<Rightarrow> slift (Inr ()) | Some output \<Rightarrow> finalize_output r output) st3))"
            using known2 slots [unfolded z] by (rule keeps_finish_slots)
          with track Inr False register y slots z known2 show ?thesis
            by (auto simp: upload_stream_def sbind_def [of "track_request env r"] sbind_def [of "register_reader env r"]
                sbind_def [of "sget f" for f] sbind_def [of "upload_slots env r a s f" for a s f]
                sget_def swhen_def slift_def known_ok simp del: upt_Suc)
        qed
      qed
    qed
  qed
qed

lemma keeps_streams [keeps_intros]: "keeps upload_ok (upload_streams env streams)"
  by (induction env streams rule: upload_streams.induct) (auto intro!: keeps_intros)

lemma keeps_retire [keeps_intros]: "keeps upload_ok (retire_request env r)"
proof (unfold keeps_def, intro allI impI)
  fix st :: "('a, 'b, 'c) upload_state"
  assume ok: "upload_ok st"
  show "upload_ok (snd (retire_request env r st))"
  proof (cases "map_of (us_bridges st) r")
    case None
    with ok show ?thesis by (simp add: retire_request_def sbind_def sget_def slift_def)
  next
    case (Some s)
    let ?gone = "\<lambda>st :: ('a, 'b, 'c) upload_state. upload_ok st \<and> output_in (us_bridges st) r = None"
    let ?st = "log_call (RequestEnded r) (st\<lparr>us_bridges := AList.delete r (us_bridges st)\<rparr>)"
    have start: "?gone ?st"
      using ok_drop [OF ok] by (simp add: log_call_def output_in_def map_of_delete)
    have bridge: "keeps ?gone (finish_bridge env b)" for b
      by (auto simp: keeps_def finish_bridge_def split: sum.split prod.split)
    have telemetry: "keeps upload_ok (on_telemetry (end_ingest_session (ue_protocol env) r ''inactive''))"
      by (auto intro!: keeps_intros telemetry_keeps)
    obtain x st1 where fin: "(case ub_bridge s of None \<Rightarrow> slift (Inr ())
        | Some b \<Rightarrow> sbind (finish_bridge env b) (\<lambda>_. slift (Inr ()))) ?st = (x, st1)" by fastforce
    have "keeps ?gone (case ub_bridge s of None \<Rightarrow> slift (Inr ())
        | Some b \<Rightarrow> sbind (finish_bridge env b) (\<lambda>_. slift (Inr ())))"
      by (intro keeps_intros bridge)
    from keepsD [OF this fin start] have gone: "?gone st1" .
    have "upload_ok (snd ((case ub_output_stream_id s of None \<Rightarrow> slift (Inr ()) | Some out \<Rightarrow> finalize_output r out) st1))"
      using gone by (auto simp: slift_def ok_finalize split: option.split)
    then have "upload_ok (snd (sbind (case ub_output_stream_id s of None \<Rightarrow> slift (Inr ()) | Some out \<Rightarrow> finalize_output r out)
        (\<lambda>_. on_telemetry (end_ingest_session (ue_protocol env) r ''inactive'')) st1))"
      using telemetry by (auto simp: sbind_def keeps_def split: sum.split prod.split)
    with fin gone show ?thesis
      by (cases x) (simp_all add: retire_request_def Some sbind_def [of "sget f" for f] sbind_def [of "supdate f" for f]
          sget_def supdate_def sbind_def [of "case ub_bridge s of None \<Rightarrow> m | Some b \<Rightarrow> g b" for m g])
  qed
qed

lemma keeps_retires [keeps_intros]: "keeps upload_ok (retire_requests env rs)"
  by (induction rs) (auto intro!: keeps_intros)

lemma keeps_poll [keeps_intros]: "keeps upload_ok (upload_poll env)"
proof -
  have "keeps upload_ok (active_requests env)"
    by (auto simp: keeps_def active_requests_def split: prod.split)
  then show ?thesis unfolding upload_poll_def by (intro keeps_intros)
qed

text \<open>The shutdown finalizes nothing.\<close>

definition calls_ok :: "('d, 'w, 'v) upload_state \<Rightarrow> bool" where
  "calls_ok st \<longleftrightarrow> finalized_safely (\<lambda>_. False, \<lambda>_. None) (us_calls st) \<and> telemetry_ok (us_telemetry st)"

lemma keeps_shutdown_requests: "keeps calls_ok (shutdown_requests env rs)"
proof (induction env rs rule: shutdown_requests.induct)
  case (2 env r s rest)
  have "keeps calls_ok (finish_bridge env b)" for b
    by (auto simp: keeps_def calls_ok_def finish_bridge_def split: sum.split prod.split)
  moreover have "keeps calls_ok (supdate (log_call (RequestEnded r)))"
    by (rule keeps_supdate) (simp add: calls_ok_def log_call_def finalized_safely_snoc)
  moreover have "keeps calls_ok (on_telemetry (end_ingest_session (ue_protocol env) r ''shutdown''))"
    by (simp add: on_telemetry_def keeps_def supdate_def calls_ok_def ok_end)
  ultimately show ?case using 2 by (auto intro!: keeps_intros)
qed (simp add: keeps_slift)

lemma shutdown_calls_ok: "upload_ok st \<Longrightarrow> calls_ok (snd (upload_shutdown env st))"
  using keeps_shutdown_requests [of env "us_bridges st"]
  by (auto simp: upload_shutdown_def sbind_def sget_def supdate_def keeps_def calls_ok_def upload_ok_def)

lemma run_calls_ok: "upload_ok st \<Longrightarrow> calls_ok (snd (run_upload_response_ts_bridge env ticks shutdown st))"
proof (induction ticks arbitrary: st)
  case 0
  then show ?case using shutdown_calls_ok [OF 0]
    by (cases shutdown) (simp_all add: swhen_def slift_def calls_ok_def upload_ok_def)
next
  case (Suc ticks)
  obtain x st1 where poll: "upload_poll env st = (x, st1)" by fastforce
  have ok: "upload_ok st1" using keeps_poll poll Suc.prems by (rule keepsD)
  show ?case using poll Suc.IH [OF ok] ok
    by (cases x) (simp_all add: sbind_def calls_ok_def upload_ok_def)
qed

lemma upload_ok_start: "telemetry_ok t \<Longrightarrow> upload_ok (upload_start v w t)"
  by (simp add: upload_ok_def upload_start_def live_requests_def running_in_def output_in_def fun_eq_iff)

section \<open>Reading the slots\<close>

text \<open>The slots read of a request since it was last tracked.\<close>

fun slots_read :: "u64 \<Rightarrow> upload_call list \<Rightarrow> nat list \<Rightarrow> nat list" where
  "slots_read r [] acc = acc"
| "slots_read r (RequestTracked r' # cs) acc = slots_read r cs (if r' = r then [] else acc)"
| "slots_read r (SlotRead r' slot # cs) acc = slots_read r cs (if r' = r then acc @ [slot] else acc)"
| "slots_read r (c # cs) acc = slots_read r cs acc"

lemma slots_read_snoc:
  "slots_read r (cs @ [c]) acc =
     (case c of
        RequestTracked r' \<Rightarrow> if r' = r then [] else slots_read r cs acc
      | SlotRead r' slot \<Rightarrow> if r' = r then slots_read r cs acc @ [slot] else slots_read r cs acc
      | _ \<Rightarrow> slots_read r cs acc)"
  by (induction r cs acc rule: slots_read.induct; cases c) simp_all

text \<open>The position of every request, of which \<open>r\<close> may have read further than it has noted.\<close>

definition in_step :: "u64 \<Rightarrow> nat \<Rightarrow> ('d, 'w, 'v) upload_state \<Rightarrow> bool" where
  "in_step r k st \<longleftrightarrow> map_of (us_bridges st) r \<noteq> None \<and> slots_read r (us_calls st) [] = [1..<Suc k]
     \<and> (\<forall>r' s. r' \<noteq> r \<longrightarrow> map_of (us_bridges st) r' = Some s
          \<longrightarrow> slots_read r' (us_calls st) [] = [1..<Suc (ub_last_seen s)])
     \<and> (\<forall>r'. \<exists>n. slots_read r' (us_calls st) [] = [1..<Suc n])"

definition all_in_step :: "('d, 'w, 'v) upload_state \<Rightarrow> bool" where
  "all_in_step st \<longleftrightarrow>
     (\<forall>r s. map_of (us_bridges st) r = Some s \<longrightarrow> slots_read r (us_calls st) [] = [1..<Suc (ub_last_seen s)])
     \<and> (\<forall>r. \<exists>n. slots_read r (us_calls st) [] = [1..<Suc n])"

lemma in_step_fields [simp]:
  "in_step r k (st\<lparr>us_service := v\<rparr>) = in_step r k st" "in_step r k (st\<lparr>us_media := w\<rparr>) = in_step r k st"
  "in_step r k (st\<lparr>us_telemetry := t\<rparr>) = in_step r k st"
  by (simp_all add: in_step_def)

lemma all_in_step_fields [simp]:
  "all_in_step (st\<lparr>us_service := v\<rparr>) = all_in_step st" "all_in_step (st\<lparr>us_media := w\<rparr>) = all_in_step st"
  "all_in_step (st\<lparr>us_telemetry := t\<rparr>) = all_in_step st"
  by (simp_all add: all_in_step_def)

lemma in_step_set [simp]: "in_step r k st \<Longrightarrow> in_step r k (set_request r s st)"
  by (simp add: in_step_def set_request_def map_of_update)

lemma in_step_log [simp]:
  "(case c of BridgeOpened r out \<Rightarrow> True | RequestEnded r \<Rightarrow> True | Finalized out \<Rightarrow> True | _ \<Rightarrow> False)
   \<Longrightarrow> in_step r k (log_call c st) = in_step r k st"
  "(case c of BridgeOpened r out \<Rightarrow> True | RequestEnded r \<Rightarrow> True | Finalized out \<Rightarrow> True | _ \<Rightarrow> False)
   \<Longrightarrow> all_in_step (log_call c st) = all_in_step st"
  by (cases c; simp add: in_step_def all_in_step_def log_call_def slots_read_snoc)+

lemma in_step_read:
  assumes "in_step r k st" shows "in_step r (Suc k) (log_call (SlotRead r (Suc k)) st)"
proof -
  have "[Suc 0..<Suc k] @ [Suc k] = [Suc 0..<Suc (Suc k)]" by simp
  then show ?thesis using assms
    by (auto simp: in_step_def log_call_def slots_read_snoc simp del: upt_Suc)
qed

lemma step_telemetry: "keeps (in_step r k) (on_telemetry f)" "keeps all_in_step (on_telemetry f)"
  by (simp_all add: on_telemetry_def keeps_supdate)

lemma step_bridge:
  "keeps (in_step r k) (finish_bridge env b)" "keeps (in_step r k) (push_bridge env d b)" "keeps all_in_step (finish_bridge env b)"
  by (auto simp: keeps_def finish_bridge_def push_bridge_def split: sum.split prod.split)

lemma step_store: "keeps (in_step r k) (store_bridge r b)"
  by (auto simp: store_bridge_def intro!: keeps_supdate)

lemma step_service: "keeps (in_step r k) (advance_upload_request_reader env r slot e)" "keeps (in_step r k) (public_stream_idx env i)"
  by (auto simp: keeps_def advance_upload_request_reader_def public_stream_idx_def split: prod.split)

lemma step_open: "keeps (in_step r k) (open_bridge env r active)"
  unfolding open_bridge_def Let_def
  by (auto intro!: keeps_intros keeps_supdate step_telemetry step_service)

lemma step_body: "keeps (in_step r k) (body_slot env r active d)"
  unfolding body_slot_def
  by (auto intro!: keeps_intros keeps_supdate step_telemetry step_open step_bridge step_store)

lemma step_headers: "keeps (in_step r k) (headers_slot env r path hs)"
  unfolding headers_slot_def by (auto intro!: keeps_intros step_telemetry)

lemma step_end: "keeps (in_step r k) (end_slot env r finished)"
  unfolding end_slot_def
  by (auto intro!: keeps_intros keeps_supdate step_telemetry step_bridge step_store)

lemma step_slot: "in_step r k st \<Longrightarrow> in_step r (Suc k) (snd (upload_slot env r active (Suc k) finished st))"
proof -
  assume ok: "in_step r k st"
  obtain content v where tail: "ue_tail env r (Suc k) (us_service st) = (content, v)" by fastforce
  let ?st = "log_call (SlotRead r (Suc k)) (st\<lparr>us_service := v\<rparr>)"
  have read: "read_slot env r (Suc k) st = (Inr content, ?st)" by (simp add: read_slot_def tail)
  have "in_step r (Suc k) ?st" using ok by (intro in_step_read) simp
  moreover have "keeps (in_step r (Suc k)) (sbind (case content of
         Some (HeadersSlot path headers) \<Rightarrow> sbind (headers_slot env r path headers) (\<lambda>_. slift (Inr (finished, False)))
       | Some (BodySlot data) \<Rightarrow> sbind (body_slot env r active data) (\<lambda>_. slift (Inr (finished, False)))
       | Some EndSlot \<Rightarrow> sbind (end_slot env r finished) (\<lambda>finished. slift (Inr (finished, True)))
       | Some ControlSlot \<Rightarrow> slift (Inr (finished, False))
       | None \<Rightarrow> slift (Inr (finished, False))) (\<lambda>(finished, slot_ended).
     sbind (advance_upload_request_reader env r (Suc k) slot_ended) (\<lambda>_. slift (Inr finished))))"
    by (intro keeps_intros step_service step_headers step_body step_end)
  ultimately show ?thesis
    by (simp add: upload_slot_def sbind_def [of "read_slot env r (Suc k)"] read keeps_def)
qed

lemma step_slots:
  "in_step r k st \<Longrightarrow> (case upload_slots env r active [Suc k..<Suc n] finished st of
     (Inr f, st') \<Rightarrow> in_step r (max k n) st' | (Inl p, st') \<Rightarrow> \<exists>m. in_step r m st')"
proof (induction "n - k" arbitrary: k st finished)
  case 0
  then show ?case by (simp add: slift_def)
next
  case (Suc d)
  then have range: "[Suc k..<Suc n] = Suc k # [Suc (Suc k)..<Suc n]" by (simp add: upt_rec)
  obtain x st1 where slot: "upload_slot env r active (Suc k) finished st = (x, st1)" by fastforce
  have ok: "in_step r (Suc k) st1" using step_slot [OF Suc.prems, of env active finished] slot by simp
  show ?case
  proof (cases x)
    case (Inl p)
    with slot ok show ?thesis unfolding range by (auto simp: sbind_def simp del: upt_Suc)
  next
    case (Inr f)
    from Suc.hyps(2) have d: "d = n - Suc k" and k: "k < n" by linarith+
    from Suc.hyps(1) [OF d ok, of f] slot Inr k show ?thesis
      unfolding range by (auto simp: sbind_def max_def simp del: upt_Suc split: sum.splits prod.splits)
  qed
qed

lemma in_step_of_all:
  "all_in_step st \<Longrightarrow> map_of (us_bridges st) r \<noteq> None \<Longrightarrow> in_step r (ub_last_seen (request_of st r)) st"
  by (auto simp: all_in_step_def in_step_def request_of_def)

lemma all_of_in_step:
  "in_step r k st \<Longrightarrow> all_in_step (set_request r ((request_of st r)\<lparr>ub_last_seen := k\<rparr>) st)"
  by (auto simp: all_in_step_def in_step_def set_request_def map_of_update)

lemma track_in_step:
  assumes "all_in_step st" and "track_request env r st = (x, st')"
  shows "in_step r (ub_last_seen (request_of st' r)) st'" and "all_in_step st'"
proof -
  have "all_in_step st' \<and> map_of (us_bridges st') r \<noteq> None"
  proof (cases "contains_key r (us_bridges st)")
    case True
    then have "map_of (us_bridges st) r \<noteq> None" by (simp add: contains_key_def)
    with assms True show ?thesis by (simp add: track_request_def sbind_def sget_def swhen_def slift_def)
  next
    case False
    let ?st = "log_call (RequestTracked r) (set_request r new_upload_state st)"
    have reads: "slots_read r' (us_calls ?st) [] = (if r' = r then [] else slots_read r' (us_calls st) [])" for r'
      by (simp add: log_call_def slots_read_snoc set_request_def)
    have none: "[1..<Suc 0] = []" by simp
    have "all_in_step ?st"
      unfolding all_in_step_def reads
    proof (intro conjI allI impI)
      fix r' s
      assume "map_of (us_bridges ?st) r' = Some s"
      then show "(if r' = r then [] else slots_read r' (us_calls st) []) = [1..<Suc (ub_last_seen s)]"
        using assms(1)
        by (cases "r' = r")
          (auto simp: all_in_step_def log_call_def set_request_def map_of_update new_upload_state_def simp del: upt_Suc)
    next
      fix r'
      show "\<exists>n. (if r' = r then [] else slots_read r' (us_calls st) []) = [1..<Suc n]"
        using assms(1) none by (cases "r' = r") (metis, simp add: all_in_step_def del: upt_Suc)
    qed
    with assms(2) False show ?thesis
      by (auto simp: track_request_def sbind_def sget_def swhen_def supdate_def on_telemetry_def log_call_def
          set_request_def map_of_update)
  qed
  then show "in_step r (ub_last_seen (request_of st' r)) st'" and "all_in_step st'"
    by (auto intro: in_step_of_all)
qed

definition slots_in_order :: "('d, 'w, 'v) upload_state \<Rightarrow> bool" where
  "slots_in_order st \<longleftrightarrow> (\<forall>r. \<exists>n. slots_read r (us_calls st) [] = [1..<Suc n])"

lemma in_order: "all_in_step st \<Longrightarrow> slots_in_order st" "in_step r k st \<Longrightarrow> slots_in_order st"
  by (simp_all add: all_in_step_def in_step_def slots_in_order_def)

text \<open>A step that succeeds leaves every request in step; a panic leaves the slots read in order.\<close>

definition stays_in_step :: "(demux_panic + 'a) \<times> ('d, 'w, 'v) upload_state \<Rightarrow> bool" where
  "stays_in_step result = (case result of (Inr a, st) \<Rightarrow> all_in_step st | (Inl p, st) \<Rightarrow> slots_in_order st)"

lemma stays_sbind:
  assumes "stays_in_step (m st)" and "\<And>a st'. all_in_step st' \<Longrightarrow> stays_in_step (f a st')"
  shows "stays_in_step (sbind m f st)"
proof -
  obtain x st1 where m: "m st = (x, st1)" by fastforce
  with assms show ?thesis by (cases x) (simp_all add: sbind_def stays_in_step_def)
qed

lemma stays_keeps: "keeps all_in_step m \<Longrightarrow> all_in_step st \<Longrightarrow> stays_in_step (m st)"
  by (auto simp: stays_in_step_def dest!: keepsD intro: in_order split: prod.split sum.split)

lemma finalize_step: "keeps all_in_step (finalize_output r out)"
  by (auto simp: finalize_output_def intro!: keeps_supdate)

lemma stream_in_step:
  assumes "all_in_step st" shows "stays_in_step (upload_stream env r n st)"
proof -
  obtain x st1 where track: "track_request env r st = (x, st1)" by fastforce
  note one = track_in_step [OF assms track]
  show ?thesis
  proof (cases x)
    case (Inl p)
    with track one(2) show ?thesis by (simp add: upload_stream_def sbind_def stays_in_step_def in_order)
  next
    case (Inr u)
    let ?k = "ub_last_seen (request_of st1 r)"
    obtain st2 where register: "register_reader env r st1 = (Inr (), st2)" "in_step r ?k st2"
        "ub_last_seen (request_of st2 r) = ?k" "all_in_step st2"
    proof (cases "ub_reader_registered (request_of st1 r)")
      case True
      then show thesis using one that [of st1]
        by (simp add: register_reader_def sbind_def sget_def swhen_def slift_def)
    next
      case False
      let ?st2 = "set_request r ((request_of st1 r)\<lparr>ub_reader_registered := True\<rparr>)
        (st1\<lparr>us_service := ue_register env r (us_service st1)\<rparr>)"
      have "in_step r ?k ?st2" using one(1) by simp
      moreover have "all_in_step ?st2" using one
        by (auto simp: all_in_step_def set_request_def map_of_update in_step_def)
      ultimately show thesis using False that [of ?st2]
        by (simp add: register_reader_def sbind_def sget_def swhen_def supdate_def)
    qed
    show ?thesis
    proof (cases "ub_ended (request_of st1 r) \<or> \<not> ?k < n")
      case True
      then show ?thesis using track Inr register one(2)
        by (auto simp: upload_stream_def sbind_def sget_def swhen_def slift_def stays_in_step_def)
    next
      case False
      let ?active = "has_active_bridge (us_bridges st1) r"
      obtain z st3 where slots: "upload_slots env r ?active [Suc ?k..<Suc n] None st2 = (z, st3)" by fastforce
      have z: "case z of Inr f \<Rightarrow> in_step r n st3 | Inl p \<Rightarrow> \<exists>m. in_step r m st3"
        using step_slots [OF register(2), where env = env and active = ?active and n = n and finished = None] slots False
        by (simp add: max_def del: upt_Suc split: sum.splits)
      have run: "upload_stream env r n st = (case z of
          Inl p \<Rightarrow> (Inl p, st3)
        | Inr finished \<Rightarrow> (case finished of None \<Rightarrow> slift (Inr ()) | Some out \<Rightarrow> finalize_output r out)
            (set_request r ((request_of st3 r)\<lparr>ub_last_seen := n\<rparr>) st3))"
        using track Inr register slots False
        by (cases z) (simp_all add: upload_stream_def sbind_def sget_def swhen_def supdate_def del: upt_Suc)
      show ?thesis
      proof (cases z)
        case (Inl p)
        with z run show ?thesis by (auto simp: stays_in_step_def in_order)
      next
        case z': (Inr finished)
        have "all_in_step (set_request r ((request_of st3 r)\<lparr>ub_last_seen := n\<rparr>) st3)"
          using z z' by (simp add: all_of_in_step)
        moreover have "keeps all_in_step (case finished of None \<Rightarrow> slift (Inr ()) | Some out \<Rightarrow> finalize_output r out)"
          by (intro keeps_intros finalize_step)
        ultimately show ?thesis using run z' stays_keeps by simp
      qed
    qed
  qed
qed

lemma streams_in_step: "all_in_step st \<Longrightarrow> stays_in_step (upload_streams env streams st)"
proof (induction env streams arbitrary: st rule: upload_streams.induct)
  case (2 env request request_last streams)
  show ?case unfolding upload_streams.simps by (rule stays_sbind) (auto intro: stream_in_step "2.prems" "2.IH")
qed (simp add: stays_in_step_def slift_def)

lemma drop_in_step: "all_in_step st \<Longrightarrow> all_in_step (st\<lparr>us_bridges := AList.delete r (us_bridges st)\<rparr>)"
  by (auto simp: all_in_step_def map_of_delete)

lemma retire_step: "keeps all_in_step (retire_request env r)"
  unfolding retire_request_def
  by (auto intro!: keeps_intros keeps_supdate step_bridge step_telemetry finalize_step drop_in_step)

lemma retires_step: "keeps all_in_step (retire_requests env rs)"
  by (induction rs) (auto intro!: keeps_intros retire_step)

lemma poll_in_step:
  assumes "all_in_step st" shows "stays_in_step (upload_poll env st)"
proof -
  have "keeps all_in_step (active_requests env)"
    by (auto simp: keeps_def active_requests_def split: prod.split)
  then show ?thesis unfolding upload_poll_def
    by (intro stays_sbind stays_keeps streams_in_step retires_step keeps_sget assms)
qed

lemma shutdown_in_order: "keeps slots_in_order (shutdown_requests env rs)"
proof (induction env rs rule: shutdown_requests.induct)
  case (2 env r s rest)
  have "keeps slots_in_order (finish_bridge env b)" for b
    by (auto simp: keeps_def slots_in_order_def finish_bridge_def split: sum.split prod.split)
  moreover have "keeps slots_in_order (supdate (log_call (RequestEnded r)))"
    by (rule keeps_supdate) (simp add: slots_in_order_def log_call_def slots_read_snoc)
  moreover have "keeps slots_in_order (on_telemetry f)" for f
    by (simp add: on_telemetry_def keeps_def supdate_def slots_in_order_def)
  ultimately show ?case using 2 by (auto intro!: keeps_intros)
qed (simp add: keeps_slift)

lemma run_in_order: "all_in_step st \<Longrightarrow> slots_in_order (snd (run_upload_response_ts_bridge env ticks shutdown st))"
proof (induction ticks arbitrary: st)
  case 0
  have "slots_in_order (st\<lparr>us_bridges := []\<rparr>)" using in_order(1) [OF 0] by (simp add: slots_in_order_def)
  then have "slots_in_order (snd (shutdown_requests env (us_bridges st) (st\<lparr>us_bridges := []\<rparr>)))"
    using shutdown_in_order [of env "us_bridges st"] by (simp add: keeps_def)
  with in_order(1) [OF 0] show ?case
    by (cases shutdown) (simp_all add: swhen_def slift_def upload_shutdown_def sbind_def sget_def supdate_def)
next
  case (Suc ticks)
  obtain x st1 where poll: "upload_poll env st = (x, st1)" by fastforce
  from poll_in_step [OF Suc.prems, of env] poll
  have "case x of Inr u \<Rightarrow> all_in_step st1 | Inl p \<Rightarrow> slots_in_order st1" by (simp add: stays_in_step_def)
  with Suc.IH [of st1] poll show ?case by (cases x) (simp_all add: sbind_def)
qed

section \<open>Concurrent outputs\<close>

lemma has_active_iff:
  "wf_assoc m \<Longrightarrow> has_active_bridge m r \<longleftrightarrow>
     (\<exists>other s. other \<noteq> r \<and> map_of m other = Some s \<and> ub_bridge s \<noteq> None \<and> \<not> ub_ended s)"
  by (force simp: has_active_bridge_def list_ex_iff wf_assoc_def)

text \<open>The fallback output is used by one running request at most, every other uses its own number.\<close>

definition apart :: "u64 \<Rightarrow> ('d, 'w, 'v) upload_state \<Rightarrow> bool" where
  "apart configured st \<longleftrightarrow> wf_assoc (us_bridges st)
     \<and> (\<forall>r s. map_of (us_bridges st) r = Some s \<longrightarrow> r \<noteq> configured
          \<and> (ub_bridge s = None \<longleftrightarrow> ub_output_stream_id s = None)
          \<and> (\<forall>out. ub_output_stream_id s = Some out \<longrightarrow> out = configured \<or> out = r))
     \<and> (\<forall>r r'. output_in (us_bridges st) r = Some configured \<longrightarrow> output_in (us_bridges st) r' = Some configured \<longrightarrow> r = r')"

definition apart_at :: "u64 \<Rightarrow> u64 \<Rightarrow> bool \<Rightarrow> ('d, 'w, 'v) upload_state \<Rightarrow> bool" where
  "apart_at configured r active st \<longleftrightarrow> apart configured st \<and> map_of (us_bridges st) r \<noteq> None
     \<and> active = has_active_bridge (us_bridges st) r"

lemma apart_fields [simp]:
  "apart c (st\<lparr>us_service := v\<rparr>) = apart c st" "apart c (st\<lparr>us_media := w\<rparr>) = apart c st"
  "apart c (st\<lparr>us_telemetry := t\<rparr>) = apart c st" "apart c (log_call x st) = apart c st"
  "apart_at c r a (st\<lparr>us_service := v\<rparr>) = apart_at c r a st" "apart_at c r a (st\<lparr>us_media := w\<rparr>) = apart_at c r a st"
  "apart_at c r a (st\<lparr>us_telemetry := t\<rparr>) = apart_at c r a st" "apart_at c r a (log_call x st) = apart_at c r a st"
  by (simp_all add: apart_def apart_at_def log_call_def)

lemma has_active_set:
  "wf_assoc m \<Longrightarrow> has_active_bridge (AList.update r s m) r = has_active_bridge m r"
  by (auto simp: has_active_iff wf_assoc_update map_of_update)

lemma apart_set:
  assumes "apart_at c r a st" and "ub_output_stream_id s' = ub_output_stream_id (request_of st r)"
    and "ub_bridge s' = None \<longleftrightarrow> ub_bridge (request_of st r) = None" and "ub_ended (request_of st r) \<longrightarrow> ub_ended s'"
  shows "apart_at c r a (set_request r s' st)"
proof -
  from assms(1) obtain s where s: "map_of (us_bridges st) r = Some s" and wf: "wf_assoc (us_bridges st)"
    by (auto simp: apart_at_def apart_def)
  have out: "output_in (AList.update r s' (us_bridges st)) q = Some x \<Longrightarrow> output_in (us_bridges st) q = Some x" for q x
    using assms(2,4) s by (auto simp: output_in_def map_of_update request_of_def split: if_splits)
  have all: "map_of (AList.update r s' (us_bridges st)) q = Some t \<Longrightarrow> q \<noteq> c
      \<and> (ub_bridge t = None \<longleftrightarrow> ub_output_stream_id t = None)
      \<and> (\<forall>x. ub_output_stream_id t = Some x \<longrightarrow> x = c \<or> x = q)" for q t
    using assms s by (auto simp: apart_at_def apart_def map_of_update request_of_def split: if_splits)
  have "\<forall>q q'. output_in (us_bridges st) q = Some c \<longrightarrow> output_in (us_bridges st) q' = Some c \<longrightarrow> q = q'"
    using assms(1) by (simp add: apart_at_def apart_def)
  with out have "\<forall>q q'. output_in (AList.update r s' (us_bridges st)) q = Some c
      \<longrightarrow> output_in (AList.update r s' (us_bridges st)) q' = Some c \<longrightarrow> q = q'" by blast
  with all wf assms(1) show ?thesis
    by (simp add: apart_at_def apart_def set_request_def has_active_set wf_assoc_update map_of_update)
qed

lemma apart_open:
  assumes "apart_at c r a st" and "ub_output_stream_id s' = Some (if a then r else c)"
    and "ub_bridge s' \<noteq> None" and "ub_bridge (request_of st r) = None"
  shows "apart_at c r a (set_request r s' st)"
proof -
  from assms(1) obtain s where s: "map_of (us_bridges st) r = Some s" and wf: "wf_assoc (us_bridges st)"
    and rc: "r \<noteq> c" by (auto simp: apart_at_def apart_def)
  have all: "map_of (AList.update r s' (us_bridges st)) q = Some t \<Longrightarrow> q \<noteq> c
      \<and> (ub_bridge t = None \<longleftrightarrow> ub_output_stream_id t = None)
      \<and> (\<forall>x. ub_output_stream_id t = Some x \<longrightarrow> x = c \<or> x = q)" for q t
    using assms s by (auto simp: apart_at_def apart_def map_of_update split: if_splits)
  have other: "a" if "q \<noteq> r" "output_in (us_bridges st) q = Some x" for q x
  proof -
    from that obtain t where "map_of (us_bridges st) q = Some t" "\<not> ub_ended t" "ub_output_stream_id t = Some x"
      by (auto simp: output_in_def split: option.splits if_splits)
    with assms(1) that(1) show a by (fastforce simp: apart_at_def apart_def has_active_iff)
  qed
  have one: "\<forall>q q'. output_in (us_bridges st) q = Some c \<longrightarrow> output_in (us_bridges st) q' = Some c \<longrightarrow> q = q'"
    using assms(1) by (simp add: apart_at_def apart_def)
  have new: "output_in (AList.update r s' (us_bridges st)) q = Some c \<Longrightarrow>
      (q = r \<and> \<not> a) \<or> (q \<noteq> r \<and> output_in (us_bridges st) q = Some c)" for q
    using assms(2) rc by (auto simp: output_in_def map_of_update split: if_splits)
  have "\<forall>q q'. output_in (AList.update r s' (us_bridges st)) q = Some c
      \<longrightarrow> output_in (AList.update r s' (us_bridges st)) q' = Some c \<longrightarrow> q = q'"
    using new other one by blast
  with all wf assms(1) show ?thesis
    by (simp add: apart_at_def apart_def set_request_def has_active_set wf_assoc_update map_of_update)
qed

lemma apart_telemetry: "keeps (apart c) (on_telemetry f)" "keeps (apart_at c r a) (on_telemetry f)"
  by (simp_all add: on_telemetry_def keeps_supdate)

lemma apart_bridge:
  "keeps (apart c) (finish_bridge env b)" "keeps (apart_at c r a) (finish_bridge env b)"
  "keeps (apart_at c r a) (push_bridge env d b)"
  by (auto simp: keeps_def finish_bridge_def push_bridge_def split: sum.split prod.split)

lemma apart_service:
  "keeps (apart_at c r a) (advance_upload_request_reader env r slot e)" "keeps (apart_at c r a) (public_stream_idx env i)"
  "keeps (apart_at c r a) (read_slot env r slot)"
  by (auto simp: keeps_def advance_upload_request_reader_def public_stream_idx_def read_slot_def split: prod.split)

lemma apart_store:
  "apart_at c r a st \<Longrightarrow> ub_bridge (request_of st r) \<noteq> None \<Longrightarrow> apart_at c r a (snd (store_bridge r b st))"
  by (simp add: store_bridge_def supdate_def apart_set)

lemma request_of_fields [simp]:
  "request_of (st\<lparr>us_service := v\<rparr>) r = request_of st r" "request_of (st\<lparr>us_media := w\<rparr>) r = request_of st r"
  "request_of (st\<lparr>us_telemetry := t\<rparr>) r = request_of st r"
  by (simp_all add: request_of_def)

lemma finish_then_store:
  assumes "apart_at c r a st" and "ub_bridge (request_of st r) \<noteq> None"
  shows "apart_at c r a (snd (sbind (finish_bridge env b) (\<lambda>b. sbind (store_bridge r b) (\<lambda>_. slift (Inr x))) st))"
    and "apart_at c r a (snd (sbind (push_bridge env d b) (store_bridge r) st))"
  using assms
  by (auto simp: sbind_def finish_bridge_def push_bridge_def store_bridge_def supdate_def slift_def
      intro!: apart_set split: sum.split prod.split)

lemma public_stream_idx_Inr:
  "\<exists>idx st1. public_stream_idx env i st = (Inr idx, st1) \<and> request_of st1 r = request_of st r"
  by (cases "resolve_output_stream_idx (ue_num_playlists env) (ue_stream_idx env) i (us_media st)")
    (simp add: public_stream_idx_def)

lemma bridges_simps [simp]:
  "us_bridges (log_call c st) = us_bridges st" "us_bridges (set_request r s st) = AList.update r s (us_bridges st)"
  by (simp_all add: log_call_def set_request_def)

lemma apart_open_bridge:
  assumes "ue_policy env = ConcurrentFallback" and "apart_at (ue_output_stream_id env) r a st"
    and "ub_bridge (request_of st r) = None"
  shows "apart_at (ue_output_stream_id env) r a (snd (open_bridge env r a st))"
proof -
  let ?public = "if a then r else ue_output_stream_id env"
  have public: "select_upload_ts_output_stream_id (ue_policy env) (ue_output_stream_id env) r a = ?public"
    by (simp add: select_upload_ts_output_stream_id_def assms(1))
  obtain idx st1 where idx: "public_stream_idx env ?public st = (Inr idx, st1)"
    and same: "request_of st1 r = request_of st r"
    using public_stream_idx_Inr [of env ?public st r] by blast
  have "apart_at (ue_output_stream_id env) r a st1" using apart_service(2) idx assms(2) by (rule keepsD)
  then have "apart_at (ue_output_stream_id env) r a (set_request r ((request_of st1 r)\<lparr>ub_output_stream_id := Some ?public,
      ub_output_stream_idx := Some idx, ub_bridge := Some (new_bridge env ?public idx)\<rparr>) st1)"
    by (rule apart_open) (simp_all add: same assms(3))
  then show ?thesis
    unfolding open_bridge_def Let_def public
    by (simp add: sbind_def [of "public_stream_idx env i" for i] idx sbind_def supdate_def on_telemetry_def)
qed

lemma apart_body:
  assumes "ue_policy env = ConcurrentFallback" and "apart_at (ue_output_stream_id env) r a st"
  shows "apart_at (ue_output_stream_id env) r a (snd (body_slot env r a d st))"
proof -
  let ?c = "ue_output_stream_id env"
  obtain x st1 where opened: "swhen (ub_bridge (request_of st r) = None) (open_bridge env r a) st = (x, st1)" by fastforce
  have ok1: "apart_at ?c r a st1"
    using opened assms apart_open_bridge [OF assms]
    by (cases "ub_bridge (request_of st r) = None") (auto simp: swhen_def slift_def)
  let ?st2 = "set_request r ((request_of st1 r)\<lparr>ub_body_slots := sat_add (ub_body_slots (request_of st1 r)) 1\<rparr>) st1"
  have ok2: "apart_at ?c r a ?st2" using ok1 by (rule apart_set) simp_all
  let ?f = "\<lambda>t. record_mpeg_ts_slot (ue_protocol env) r (length d) (record_ingest_session_body (ue_protocol env) r (length d) t)"
  let ?st3 = "?st2\<lparr>us_telemetry := ?f (us_telemetry ?st2)\<rparr>"
  have ok3: "apart_at ?c r a ?st3" using ok2 by simp
  have body: "body_slot env r a d st = (case x of
      Inl p \<Rightarrow> (Inl p, st1)
    | Inr u \<Rightarrow> (case ub_bridge (request_of st1 r) of None \<Rightarrow> slift (Inr ())
        | Some b \<Rightarrow> sbind (push_bridge env d b) (store_bridge r)) ?st3)"
    unfolding body_slot_def
    by (cases x) (simp_all add: sbind_def [of "sget f" for f] sbind_def [of "swhen b m" for b m] opened sget_def
        sbind_def [of "supdate f" for f] sbind_def [of "on_telemetry f" for f] supdate_def on_telemetry_def)
  show ?thesis
  proof (cases x)
    case (Inl p)
    with body ok1 show ?thesis by simp
  next
    case (Inr u)
    show ?thesis
    proof (cases "ub_bridge (request_of st1 r)")
      case None
      with body Inr ok3 show ?thesis by (simp add: slift_def)
    next
      case (Some b)
      then have "ub_bridge (request_of ?st3 r) \<noteq> None" by simp
      from finish_then_store(2) [OF ok3 this] body Inr Some show ?thesis by simp
    qed
  qed
qed

lemma apart_headers: "keeps (apart_at c r a) (headers_slot env r path hs)"
  unfolding headers_slot_def by (auto intro!: keeps_intros apart_telemetry)

lemma apart_end: "apart_at c r a st \<Longrightarrow> apart_at c r a (snd (end_slot env r finished st))"
proof -
  assume ok: "apart_at c r a st"
  let ?m = "case ub_bridge (request_of st r) of None \<Rightarrow> slift (Inr finished)
    | Some b \<Rightarrow> sbind (finish_bridge env b) (\<lambda>b. sbind (store_bridge r b) (\<lambda>_.
        slift (Inr (ub_output_stream_id (request_of st r)))))"
  obtain x st1 where m: "?m st = (x, st1)" by fastforce
  have ok1: "apart_at c r a st1"
  proof (cases "ub_bridge (request_of st r)")
    case None
    with m ok show ?thesis by (simp add: slift_def)
  next
    case (Some b)
    then have "ub_bridge (request_of st r) \<noteq> None" by simp
    from finish_then_store(1) [OF ok this, of env b "ub_output_stream_id (request_of st r)"] m Some show ?thesis by simp
  qed
  let ?st2 = "st1\<lparr>us_telemetry := end_ingest_session (ue_protocol env) r ''ended'' (us_telemetry st1)\<rparr>"
  have "apart_at c r a (set_request r ((request_of ?st2 r)\<lparr>ub_ended := True\<rparr>) ?st2)"
    by (rule apart_set) (use ok1 in simp_all)
  then show ?thesis using ok1 m
    by (cases x) (simp_all add: end_slot_def sbind_def [of "sget f" for f] sget_def sbind_def [of ?m] sbind_def [of "on_telemetry f" for f]
        on_telemetry_def supdate_def sbind_def slift_def)
qed

lemma apart_slot:
  assumes "ue_policy env = ConcurrentFallback" and "apart_at (ue_output_stream_id env) r a st"
  shows "apart_at (ue_output_stream_id env) r a (snd (upload_slot env r a slot finished st))"
proof -
  let ?P = "apart_at (ue_output_stream_id env) r a"
  have "keeps ?P (body_slot env r a d)" "keeps ?P (end_slot env r finished)" for d
    using apart_body [OF assms(1)] apart_end by (auto simp: keeps_def)
  then have "keeps ?P (upload_slot env r a slot finished)"
    unfolding upload_slot_def by (intro keeps_intros apart_service apart_headers)
  with assms(2) show ?thesis by (simp add: keeps_def)
qed

lemma apart_slots:
  assumes "ue_policy env = ConcurrentFallback"
  shows "keeps (apart_at (ue_output_stream_id env) r a) (upload_slots env r a slots finished)"
proof (induction slots arbitrary: finished)
  case (Cons slot slots)
  have "keeps (apart_at (ue_output_stream_id env) r a) (upload_slot env r a slot finished)"
    using apart_slot [OF assms] by (simp add: keeps_def)
  with Cons show ?case by (auto intro!: keeps_intros)
qed (simp add: keeps_slift)

lemma apart_finalize: "keeps (apart c) (finalize_output r out)"
  by (auto simp: finalize_output_def intro!: keeps_supdate)

lemma apart_track:
  assumes "apart c st" and "r \<noteq> c" and "track_request env r st = (x, st')"
  shows "apart_at c r (has_active_bridge (us_bridges st') r) st'"
proof (cases "contains_key r (us_bridges st)")
  case True
  then have "map_of (us_bridges st) r \<noteq> None" by (simp add: contains_key_def)
  with assms True show ?thesis by (simp add: track_request_def sbind_def sget_def swhen_def slift_def apart_at_def)
next
  case False
  let ?m = "AList.update r new_upload_state (us_bridges st)"
  have out: "output_in ?m q = Some y \<Longrightarrow> output_in (us_bridges st) q = Some y" for q y
    by (auto simp: output_in_def map_of_update new_upload_state_def split: if_splits)
  have all: "map_of ?m q = Some t \<Longrightarrow> q \<noteq> c \<and> (ub_bridge t = None \<longleftrightarrow> ub_output_stream_id t = None)
      \<and> (\<forall>y. ub_output_stream_id t = Some y \<longrightarrow> y = c \<or> y = q)" for q t
    using assms(1,2) by (auto simp: apart_def map_of_update new_upload_state_def split: if_splits)
  have "\<forall>q q'. output_in (us_bridges st) q = Some c \<longrightarrow> output_in (us_bridges st) q' = Some c \<longrightarrow> q = q'"
    using assms(1) by (simp add: apart_def)
  with out have "\<forall>q q'. output_in ?m q = Some c \<longrightarrow> output_in ?m q' = Some c \<longrightarrow> q = q'" by blast
  with all have "apart c (set_request r new_upload_state st)"
    using assms(1) by (simp add: apart_def set_request_def wf_assoc_update)
  moreover have "map_of ?m r \<noteq> None" by (simp add: map_of_update)
  ultimately show ?thesis using assms(3) False
    by (auto simp: track_request_def sbind_def sget_def swhen_def supdate_def on_telemetry_def apart_at_def)
qed

lemma apart_at_apart: "apart_at c r a st \<Longrightarrow> apart c st"
  by (simp add: apart_at_def)

lemma apart_register: "keeps (apart_at c r a) (register_reader env r)"
  unfolding register_reader_def
  by (auto intro!: keeps_intros keeps_supdate apart_set)

lemma apart_stream:
  assumes "ue_policy env = ConcurrentFallback" and "r \<noteq> ue_output_stream_id env"
  shows "keeps (apart (ue_output_stream_id env)) (upload_stream env r n)"
proof (unfold keeps_def, intro allI impI)
  fix st :: "('a, 'd, 'e) upload_state"
  let ?c = "ue_output_stream_id env"
  assume ok: "apart ?c st"
  obtain x st1 where track: "track_request env r st = (x, st1)" by fastforce
  let ?a = "has_active_bridge (us_bridges st1) r"
  have ok1: "apart_at ?c r ?a st1" using ok assms(2) track by (rule apart_track)
  let ?tail = "\<lambda>finished. sbind (supdate (\<lambda>st. set_request r ((request_of st r)\<lparr>ub_last_seen := n\<rparr>) st)) (\<lambda>_.
    case finished of None \<Rightarrow> slift (Inr ()) | Some out \<Rightarrow> finalize_output r out)"
  let ?rest = "sbind (register_reader env r) (\<lambda>_. sbind (sget (\<lambda>st. ub_last_seen (request_of st r))) (\<lambda>last_seen.
    swhen (last_seen < n) (sbind (upload_slots env r ?a [last_seen + 1..<n + 1] None) ?tail)))"
  have tail: "apart ?c (snd (?tail finished st3))" if "apart_at ?c r ?a st3" for finished and st3 :: "('a, 'd, 'e) upload_state"
  proof -
    have "apart_at ?c r ?a (set_request r ((request_of st3 r)\<lparr>ub_last_seen := n\<rparr>) st3)"
      using that by (rule apart_set) simp_all
    then have "apart ?c (set_request r ((request_of st3 r)\<lparr>ub_last_seen := n\<rparr>) st3)" by (rule apart_at_apart)
    then show ?thesis
      by (cases finished) (simp_all add: sbind_def supdate_def slift_def apart_finalize [unfolded keeps_def])
  qed
  have "apart ?c (snd (?rest st1))"
  proof -
    obtain y st2 where register: "register_reader env r st1 = (y, st2)" by fastforce
    have ok2: "apart_at ?c r ?a st2" using apart_register register ok1 by (rule keepsD)
    let ?slots = "[ub_last_seen (request_of st2 r) + 1..<n + 1]"
    obtain z st3 where slots: "upload_slots env r ?a ?slots None st2 = (z, st3)" by fastforce
    have ok3: "apart_at ?c r ?a st3" using apart_slots [OF assms(1)] slots ok2 by (rule keepsD)
    show ?thesis
      using register slots ok2 ok3 tail [OF ok3]
      by (cases y; cases z)
        (auto simp: sbind_def [of "register_reader env r"] sbind_def [of "sget f" for f] sget_def swhen_def slift_def
          sbind_def [of "upload_slots env r a s f" for a s f] apart_at_apart simp del: upt_Suc)
  qed
  then show "apart ?c (snd (upload_stream env r n st))"
    using track ok1 unfolding upload_stream_def
    by (cases x) (simp_all add: sbind_def [of "track_request env r"] sbind_def [of "sget (\<lambda>st. (f st, g st))" for f g]
        sget_def swhen_def slift_def apart_at_apart)
qed

lemma apart_streams:
  assumes "ue_policy env = ConcurrentFallback"
  shows "ue_output_stream_id env \<notin> fst ` set streams \<Longrightarrow> keeps (apart (ue_output_stream_id env)) (upload_streams env streams)"
proof (induction streams)
  case (Cons s streams)
  obtain r n where s: "s = (r, n)" by fastforce
  from Cons.prems have "r \<noteq> ue_output_stream_id env" by (auto simp: s)
  with Cons show ?case by (auto simp: s intro!: keeps_sbind apart_stream [OF assms])
qed (simp add: keeps_slift)

lemma apart_delete: "apart c st \<Longrightarrow> apart c (st\<lparr>us_bridges := AList.delete r (us_bridges st)\<rparr>)"
  by (auto simp: apart_def output_in_def map_of_delete wf_assoc_delete split: if_splits)

lemma apart_retire: "keeps (apart c) (retire_request env r)"
  unfolding retire_request_def
  by (auto intro!: keeps_intros keeps_supdate apart_bridge apart_telemetry apart_finalize apart_delete)

lemma apart_retires: "keeps (apart c) (retire_requests env rs)"
  by (induction rs) (auto intro!: keeps_intros apart_retire)

definition service_avoids :: "('d, 'e, 'x, 'w, 'v) upload_env \<Rightarrow> bool" where
  "service_avoids env \<longleftrightarrow> (\<forall>v. ue_output_stream_id env \<notin> fst ` set (fst (ue_active_streams env v)))"

lemma apart_poll:
  assumes "ue_policy env = ConcurrentFallback" and "service_avoids env"
  shows "keeps (apart (ue_output_stream_id env)) (upload_poll env)"
proof (unfold keeps_def, intro allI impI)
  fix st :: "('a, 'd, 'e) upload_state"
  let ?c = "ue_output_stream_id env"
  assume ok: "apart ?c st"
  obtain streams v where active: "ue_active_streams env (us_service st) = (streams, v)" by fastforce
  then have avoid: "?c \<notin> fst ` set streams" using assms(2) by (metis fst_conv service_avoids_def)
  let ?st = "st\<lparr>us_service := v\<rparr>"
  let ?stale = "filter (\<lambda>request. request \<notin> set (map fst streams)) (map fst (us_bridges ?st))"
  have "keeps (apart ?c) (sbind (retire_requests env ?stale) (\<lambda>_. upload_streams env streams))"
    by (intro keeps_sbind apart_retires apart_streams [OF assms(1) avoid])
  then have "apart ?c (snd (sbind (retire_requests env ?stale) (\<lambda>_. upload_streams env streams) ?st))"
    using ok by (simp add: keeps_def)
  then show "apart ?c (snd (upload_poll env st))"
    by (simp add: upload_poll_def sbind_def [of "active_requests env"] active_requests_def active
        sbind_def [of "sget f" for f] sget_def)
qed

lemma run_apart:
  assumes "ue_policy env = ConcurrentFallback" and "service_avoids env"
  shows "upload_ok st \<Longrightarrow> apart (ue_output_stream_id env) st \<Longrightarrow>
    upload_ok (snd (run_upload_response_ts_bridge env ticks False st))
    \<and> apart (ue_output_stream_id env) (snd (run_upload_response_ts_bridge env ticks False st))"
proof (induction ticks arbitrary: st)
  case 0
  then show ?case by (simp add: swhen_def slift_def)
next
  case (Suc ticks)
  obtain x st1 where poll: "upload_poll env st = (x, st1)" by fastforce
  have ok: "upload_ok st1" using keeps_poll poll Suc.prems(1) by (rule keepsD)
  have "apart (ue_output_stream_id env) st1" using apart_poll [OF assms] poll Suc.prems(2) by (rule keepsD)
  with poll Suc.IH [OF ok] ok show ?case by (cases x) (simp_all add: sbind_def)
qed

lemma apart_outputs:
  assumes "apart c st" and "output_in (us_bridges st) r = Some out" and "output_in (us_bridges st) r' = Some out"
  shows "r = r'"
proof (cases "out = c")
  case True
  with assms show ?thesis unfolding apart_def by blast
next
  case False
  have "out = q" if "output_in (us_bridges st) q = Some out" for q
    using that assms(1) False unfolding apart_def output_in_def by (auto split: option.splits if_splits)
  with assms(2,3) show ?thesis by metis
qed

section \<open>The claims\<close>

lemma telemetry_ok_default: "telemetry_ok (default_telemetry clock)"
  by (simp add: telemetry_ok_def default_telemetry_def table_ok_def one_active_def active_total_def)

lemma start_in_step: "all_in_step (upload_start v w t)"
  by (auto simp: all_in_step_def upload_start_def intro!: exI [of _ 0])

text \<open>C26: Whatever the upload service returns, through any number of polls and the shutdown, an output is
  finalized only at a moment when no request still running has a bridge on it, every request's slots
  are read from the first on, in order and once, and the telemetry invariant holds.\<close>

theorem upload_loop_sound:
  "case run_upload_response_ts_bridge env ticks shutdown (upload_start v w (default_telemetry clock)) of
     (_, st) \<Rightarrow> finalized_safely (\<lambda>_. False, \<lambda>_. None) (us_calls st) \<and> slots_in_order st \<and> telemetry_ok (us_telemetry st)"
  using run_calls_ok [OF upload_ok_start [OF telemetry_ok_default], of env ticks shutdown v w clock]
    run_in_order [OF start_in_step, of env ticks shutdown v w "default_telemetry clock"]
  by (auto simp: calls_ok_def split: prod.split)


definition demo_reader :: "unit ts_reader" where
  "demo_reader = \<lparr>rd_new = ([], ()), rd_push = (\<lambda>_ _. ([], ())), rd_flush = (\<lambda>_. ([], ()))\<rparr>"

definition demo_bridge_env :: "(unit, unit, unit, unit) bridge_env" where
  "demo_bridge_env = \<lparr>be_ts = demo_ts,
     be_fmp4 = \<lparr>fm_h264 = demo_h264,
       fm_streams = \<lparr>psi_h264 = 0x1B, psi_aac = 0x0F, psi_mpeg4_aac = 0x11, psi_private_data = 0x06, psi_audio_opus = 0x9C\<rparr>,
       fm_adts = (\<lambda>_. None), fm_flac = (\<lambda>_. None), fm_detect_audio = (\<lambda>_. TypeOther), fm_opus_duration = (\<lambda>_. None),
       fm_box = (\<lambda>_ _ _ _ _ _ _. \<lparr>bx_init = None, bx_data = [], bx_duration = 0, bx_key = False\<rparr>)\<rparr>,
     be_reader = demo_reader,
     be_env = \<lparr>fe_now = Pair 0, fe_publish = (\<lambda>_. Pair (Inr ())), fe_append = (\<lambda>_ _. Pair True), fe_playlist_add = (\<lambda>_ _. Pair True)\<rparr>,
     be_observer = \<lparr>to_continuity = (\<lambda>_ _ w. w), to_drop = (\<lambda>_ _ w. w)\<rparr>,
     be_sink = \<lparr>us_push = (\<lambda>_. Pair (Inr ())), us_finish = Pair (Inr ())\<rparr>\<rparr>"

definition demo_upload :: "(unit, unit, unit, unit, unit) upload_env" where
  "demo_upload = \<lparr>ue_bridge = demo_bridge_env, ue_protocol = ''srt'', ue_policy = ConcurrentFallback,
     ue_output_stream_id = 1, ue_output_stream_idx = 1, ue_min_part_ms = 50, ue_has_sink = False, ue_publish_source = True,
     ue_lossy = (\<lambda>_. []), ue_num_playlists = 8, ue_stream_idx = (\<lambda>_. Pair 3),
     ue_active_streams = (\<lambda>_. ([(7, 1), (8, 1)], ())), ue_register = (\<lambda>_ v. v),
     ue_tail = (\<lambda>_ _. Pair (Some (BodySlot [1, 2, 3]))), ue_mark = (\<lambda>_ _. Pair True), ue_complete = (\<lambda>_ v. v)\<rparr>"

lemma demo_calls:
  "us_calls (snd (run_upload_response_ts_bridge demo_upload 2 False (upload_start () () (default_telemetry [])))) =
     [RequestTracked 7, SlotRead 7 1, BridgeOpened 7 1, RequestTracked 8, SlotRead 8 1, BridgeOpened 8 8]"
proof -
  have push: "push_ts demo_bridge_env d (b, ()) = Inr (b\<lparr>br_access_units := [], br_drained := []\<rparr>, ())"
    if "br_access_units b = []" "br_drained b = []" for d and b :: "unit ts_fmp4_bridge"
    using that by (simp add: push_ts_def demux_and_dispatch_def demo_bridge_env_def demo_reader_def)
  have new: "br_access_units (new_bridge demo_upload i n) = []" "br_drained (new_bridge demo_upload i n) = []" for i n
    by (simp_all add: new_bridge_def Let_def bridge_new_publish_only_def bridge_new_publish_and_sink_def
        bridge_new_sink_only_def bridge_with_options_def)
  have fields: "ue_bridge demo_upload = demo_bridge_env" "ue_policy demo_upload = ConcurrentFallback"
    "ue_output_stream_id demo_upload = 1" "ue_output_stream_idx demo_upload = 1" "ue_num_playlists demo_upload = 8"
    "ue_stream_idx demo_upload = (\<lambda>_. Pair 3)" "ue_active_streams demo_upload = (\<lambda>_. ([(7, 1), (8, 1)], ()))"
    "ue_register demo_upload = (\<lambda>_ v. v)" "ue_tail demo_upload = (\<lambda>_ _. Pair (Some (BodySlot [1, 2, 3])))"
    "ue_mark demo_upload = (\<lambda>_ _. Pair True)" "ue_complete demo_upload = (\<lambda>_ v. v)"
    by (simp_all add: demo_upload_def)
  show ?thesis
    by (simp add: numeral_2_eq_2 upload_poll_def active_requests_def retire_requests.simps upload_stream_def track_request_def
        register_reader_def upload_slot_def read_slot_def body_slot_def open_bridge_def public_stream_idx_def
        resolve_output_stream_idx_def select_upload_ts_output_stream_id_def store_bridge_def push_bridge_def
        advance_upload_request_reader_def on_telemetry_def upload_start_def set_request_def log_call_def request_of_def
        new_upload_state_def has_active_bridge_def contains_key_def sbind_def sget_def slift_def supdate_def swhen_def
        fields push new)
qed


text \<open>A request whose number is the configured stream takes the same output as the request that fell back to it.\<close>

lemma fallback_output_collides:
  "select_upload_ts_output_stream_id ConcurrentFallback 1 7 False = select_upload_ts_output_stream_id ConcurrentFallback 1 1 True"
  by (simp add: select_upload_ts_output_stream_id_def)

end
