(* ===== verification/Rtmp_Bridge.thy ===== *)
theory Rtmp_Bridge
  imports Upload_Facts
begin

text \<open>
  The RTMP ingest loop of \<^verbatim>\<open>src/src/bin/av-contrib.rs\<close>: one segmenter for each RTMP stream, on the
  fallback output for the first stream and on the stream's own number for the others, finalized when
  the stream ends.
\<close>

section \<open>The loop\<close>

record rtmp_stream_info =
  rs_id :: u64
  rs_key :: string

datatype rtmp_ingest_event = RtmpAccessUnit rtmp_stream_info access_unit | RtmpEnd rtmp_stream_info

record rtmp_segmenter_state =
  rt_output_stream_id :: u64
  rt_segmenter :: fmp4_segmenter

text \<open>The outputs opened for a stream and finalized.\<close>

datatype rtmp_call = RtmpOpened u64 u64 | RtmpFinalized u64 u64

record 'w rtmp_bridge =
  rb_segmenters :: "(u64, rtmp_segmenter_state) assoc"
  rb_telemetry :: ingest_telemetry
  rb_media :: 'w
  rb_calls :: "rtmp_call list"

record ('e, 'w) rtmp_env =
  re_fmp4 :: fmp4_api
  re_env :: "('e, 'w) fmp4_env"
  re_fallback_output_stream_id :: u64
  re_min_part_ms :: u32
  re_num_playlists :: u64
  re_stream_idx :: "u64 \<Rightarrow> 'w \<Rightarrow> nat \<times> 'w"

definition rtmp_output_stream_id :: "rtmp_stream_info \<Rightarrow> u64 \<Rightarrow> bool \<Rightarrow> u64" where
  "rtmp_output_stream_id stream fallback is_first_stream = (if is_first_stream \<or> rs_id stream = 0 then fallback else rs_id stream)"

definition open_rtmp_stream :: "('e, 'w) rtmp_env \<Rightarrow> rtmp_stream_info \<Rightarrow> 'w rtmp_bridge \<Rightarrow> 'w rtmp_bridge" where
  "open_rtmp_stream env stream st =
     (if contains_key (rs_id stream) (rb_segmenters st) then st
      else let output = rtmp_output_stream_id stream (re_fallback_output_stream_id env) (rb_segmenters st = []) in
        case resolve_output_stream_idx (re_num_playlists env) (re_stream_idx env) output (rb_media st) of
          (idx, w) \<Rightarrow> st\<lparr>
            rb_media := w,
            rb_telemetry := ensure_ingest_session ''rtmp'' (rs_id stream) (Some output) (Some idx) None
              (Some (rs_key stream)) (rb_telemetry st),
            rb_segmenters := AList.update (rs_id stream)
              \<lparr>rt_output_stream_id = output,
                rt_segmenter = new_segmenter output idx Millis (re_min_part_ms env) True False\<rparr> (rb_segmenters st),
            rb_calls := rb_calls st @ [RtmpOpened (rs_id stream) output]\<rparr>)"

definition rtmp_access_unit :: "('e, 'w) rtmp_env \<Rightarrow> rtmp_stream_info \<Rightarrow> access_unit \<Rightarrow> 'w rtmp_bridge \<Rightarrow> 'w rtmp_bridge" where
  "rtmp_access_unit env stream u st =
     (let st = open_rtmp_stream env stream st; sid = rs_id stream; n = length (au_data u);
          st = st\<lparr>rb_telemetry := record_rtmp_access_unit sid n
                    (record_ingest_session_access_unit ''rtmp'' sid n (rb_telemetry st))\<rparr>
      in case map_of (rb_segmenters st) sid of
           None \<Rightarrow> st
         | Some s \<Rightarrow>
             (case push_access_unit (re_fmp4 env) (re_env env) u (rt_segmenter s, rb_media st) of
                (sg, w) \<Rightarrow> st\<lparr>rb_segmenters := AList.update sid (s\<lparr>rt_segmenter := sg\<rparr>) (rb_segmenters st), rb_media := w\<rparr>))"

definition rtmp_end :: "('e, 'w) rtmp_env \<Rightarrow> rtmp_stream_info \<Rightarrow> 'w rtmp_bridge \<Rightarrow> 'w rtmp_bridge" where
  "rtmp_end env stream st =
     (let sid = rs_id stream;
          st = (case map_of (rb_segmenters st) sid of
                  None \<Rightarrow> st
                | Some s \<Rightarrow>
                    (case finish_segmenter (re_fmp4 env) (re_env env) (rt_segmenter s, rb_media st) of
                       (sg, w) \<Rightarrow> st\<lparr>rb_segmenters := AList.delete sid (rb_segmenters st), rb_media := w,
                         rb_calls := rb_calls st @ [RtmpFinalized sid (rt_output_stream_id s)]\<rparr>))
      in st\<lparr>rb_telemetry := end_ingest_session ''rtmp'' sid ''ended'' (rb_telemetry st)\<rparr>)"

fun rtmp_step :: "('e, 'w) rtmp_env \<Rightarrow> rtmp_ingest_event \<Rightarrow> 'w rtmp_bridge \<Rightarrow> 'w rtmp_bridge" where
  "rtmp_step env (RtmpAccessUnit stream u) st = rtmp_access_unit env stream u st"
| "rtmp_step env (RtmpEnd stream) st = rtmp_end env stream st"

definition run_rtmp_hls_bridge :: "('e, 'w) rtmp_env \<Rightarrow> rtmp_ingest_event list \<Rightarrow> 'w rtmp_bridge \<Rightarrow> 'w rtmp_bridge" where
  "run_rtmp_hls_bridge env events st = fold (rtmp_step env) events st"

definition rtmp_start :: "'w \<Rightarrow> ingest_telemetry \<Rightarrow> 'w rtmp_bridge" where
  "rtmp_start w t = \<lparr>rb_segmenters = [], rb_telemetry = t, rb_media = w, rb_calls = []\<rparr>"

fun event_stream :: "rtmp_ingest_event \<Rightarrow> u64" where
  "event_stream (RtmpAccessUnit stream u) = rs_id stream"
| "event_stream (RtmpEnd stream) = rs_id stream"

section \<open>Outputs have one owner\<close>

text \<open>Replaying the calls: an output is opened only while free and finalized by its owner.\<close>

fun owned_outputs :: "(u64 \<Rightarrow> u64 option) \<Rightarrow> rtmp_call list \<Rightarrow> (u64 \<Rightarrow> u64 option) option" where
  "owned_outputs owner [] = Some owner"
| "owned_outputs owner (RtmpOpened r out # cs) =
     (if owner out = None then owned_outputs (owner(out := Some r)) cs else None)"
| "owned_outputs owner (RtmpFinalized r out # cs) =
     (if owner out = Some r then owned_outputs (owner(out := None)) cs else None)"

lemma owned_outputs_append:
  "owned_outputs owner (cs @ ds) = (case owned_outputs owner cs of None \<Rightarrow> None | Some owner \<Rightarrow> owned_outputs owner ds)"
  by (induction owner cs rule: owned_outputs.induct) (simp_all del: fun_upd_apply add: fun_upd_def)

text \<open>Stream numbers that neither ask for the fallback nor are the fallback.\<close>

definition own_number :: "('e, 'w) rtmp_env \<Rightarrow> u64 \<Rightarrow> bool" where
  "own_number env sid \<longleftrightarrow> sid \<noteq> 0 \<and> sid \<noteq> re_fallback_output_stream_id env"

definition rtmp_ok :: "('e, 'w) rtmp_env \<Rightarrow> 'w rtmp_bridge \<Rightarrow> bool" where
  "rtmp_ok env st \<longleftrightarrow> wf_assoc (rb_segmenters st) \<and> telemetry_ok (rb_telemetry st)
     \<and> (\<forall>sid s. map_of (rb_segmenters st) sid = Some s \<longrightarrow> own_number env sid
          \<and> rt_output_stream_id s \<in> {re_fallback_output_stream_id env, sid})
     \<and> (\<exists>owner. owned_outputs (\<lambda>_. None) (rb_calls st) = Some owner
          \<and> (\<forall>out sid. owner out = Some sid \<longleftrightarrow>
               (\<exists>s. map_of (rb_segmenters st) sid = Some s \<and> rt_output_stream_id s = out)))"

lemma rtmp_ok_same:
  assumes "rtmp_ok env st" and "map_of (rb_segmenters st) sid = Some s" and "rt_output_stream_id s' = rt_output_stream_id s"
  shows "rtmp_ok env (st\<lparr>rb_segmenters := AList.update sid s' (rb_segmenters st), rb_media := w\<rparr>)"
proof -
  have same: "(\<exists>t. map_of (AList.update sid s' (rb_segmenters st)) q = Some t \<and> rt_output_stream_id t = out) \<longleftrightarrow>
      (\<exists>t. map_of (rb_segmenters st) q = Some t \<and> rt_output_stream_id t = out)" for q out
    using assms(2,3) by (simp add: map_of_update)
  have "own_number env q \<and> rt_output_stream_id t \<in> {re_fallback_output_stream_id env, q}"
    if "map_of (AList.update sid s' (rb_segmenters st)) q = Some t" for q t
  proof (cases "q = sid")
    case True
    with that assms show ?thesis by (simp add: rtmp_ok_def map_of_update)
  next
    case False
    with that assms(1) show ?thesis by (simp add: rtmp_ok_def map_of_update)
  qed
  moreover have "wf_assoc (AList.update sid s' (rb_segmenters st))"
    using assms(1) by (auto simp: rtmp_ok_def intro: wf_assoc_update)
  ultimately show ?thesis using assms(1) by (simp add: rtmp_ok_def same)
qed

lemma rtmp_ok_telemetry:
  "rtmp_ok env st \<Longrightarrow> telemetry_ok t \<Longrightarrow> rtmp_ok env (st\<lparr>rb_telemetry := t\<rparr>)"
  by (simp add: rtmp_ok_def)

lemma open_rtmp_ok:
  assumes ok: "rtmp_ok env st" and own: "own_number env (rs_id stream)"
  shows "rtmp_ok env (open_rtmp_stream env stream st)"
proof (cases "contains_key (rs_id stream) (rb_segmenters st)")
  case True
  with ok show ?thesis by (simp add: open_rtmp_stream_def)
next
  case False
  let ?nid = "rs_id stream" and ?fb = "re_fallback_output_stream_id env"
  let ?out = "rtmp_output_stream_id stream ?fb (rb_segmenters st = [])"
  obtain idx w where idx: "resolve_output_stream_idx (re_num_playlists env) (re_stream_idx env) ?out (rb_media st) = (idx, w)"
    by fastforce
  let ?s = "\<lparr>rt_output_stream_id = ?out, rt_segmenter = new_segmenter ?out idx Millis (re_min_part_ms env) True False\<rparr>"
  from ok obtain owner where run: "owned_outputs (\<lambda>_. None) (rb_calls st) = Some owner"
    and owner: "\<And>out sid. owner out = Some sid \<longleftrightarrow> (\<exists>s. map_of (rb_segmenters st) sid = Some s \<and> rt_output_stream_id s = out)"
    and entries: "\<And>sid s. map_of (rb_segmenters st) sid = Some s \<Longrightarrow> own_number env sid
          \<and> rt_output_stream_id s \<in> {?fb, sid}"
    by (auto simp: rtmp_ok_def)
  have new: "map_of (rb_segmenters st) ?nid = None" using False by (simp add: contains_key_def)
  have free: "owner ?out = None"
  proof (rule ccontr)
    assume "owner ?out \<noteq> None"
    then obtain q where q: "owner ?out = Some q" by auto
    then obtain s where s: "map_of (rb_segmenters st) q = Some s" "rt_output_stream_id s = ?out" by (auto simp: owner)
    from entries [OF s(1)] s(2) have "?out \<in> {?fb, q}" and "own_number env q" by auto
    moreover have "rb_segmenters st \<noteq> []" and "q \<noteq> ?nid" using s(1) new by auto
    ultimately show False using own by (auto simp: rtmp_output_stream_id_def own_number_def)
  qed
  have "\<forall>out sid. (owner(?out := Some ?nid)) out = Some sid \<longleftrightarrow>
      (\<exists>s. map_of (AList.update ?nid ?s (rb_segmenters st)) sid = Some s \<and> rt_output_stream_id s = out)"
  proof (intro allI)
    fix out sid
    show "(owner(?out := Some ?nid)) out = Some sid \<longleftrightarrow>
      (\<exists>s. map_of (AList.update ?nid ?s (rb_segmenters st)) sid = Some s \<and> rt_output_stream_id s = out)"
    proof (cases "sid = ?nid")
      case True
      have "owner out \<noteq> Some ?nid" using new by (simp add: owner)
      with True show ?thesis by (auto simp: map_of_update)
    next
      case False
      have "owner ?out \<noteq> Some sid" using free by simp
      with False owner [of out sid] owner [of ?out sid] show ?thesis by (auto simp: map_of_update)
    qed
  qed
  moreover have "own_number env q \<and> rt_output_stream_id t \<in> {?fb, q}"
    if "map_of (AList.update ?nid ?s (rb_segmenters st)) q = Some t" for q t
    using that entries [of q t] own by (auto simp: map_of_update rtmp_output_stream_id_def split: if_splits)
  ultimately show ?thesis using ok False idx run free
    by (auto simp: open_rtmp_stream_def Let_def rtmp_ok_def wf_assoc_update owned_outputs_append intro: telemetry_keeps)
qed

lemma rtmp_access_unit_ok:
  assumes "rtmp_ok env st" and "own_number env (rs_id stream)"
  shows "rtmp_ok env (rtmp_access_unit env stream u st)"
proof -
  let ?st = "open_rtmp_stream env stream st"
  have ok: "rtmp_ok env ?st" using open_rtmp_ok [OF assms] .
  then have t: "telemetry_ok (rb_telemetry ?st)" by (simp add: rtmp_ok_def)
  let ?st2 = "?st\<lparr>rb_telemetry := record_rtmp_access_unit (rs_id stream) (length (au_data u))
      (record_ingest_session_access_unit ''rtmp'' (rs_id stream) (length (au_data u)) (rb_telemetry ?st))\<rparr>"
  have ok2: "rtmp_ok env ?st2"
    using ok t by (intro rtmp_ok_telemetry) (auto intro!: telemetry_keeps)
  show ?thesis
  proof (cases "map_of (rb_segmenters ?st2) (rs_id stream)")
    case None
    with ok2 show ?thesis by (simp add: rtmp_access_unit_def Let_def)
  next
    case (Some s)
    have "rtmp_ok env (?st2\<lparr>rb_segmenters := AList.update (rs_id stream) (s\<lparr>rt_segmenter := sg\<rparr>) (rb_segmenters ?st2), rb_media := w\<rparr>)"
      for sg w
      using ok2 Some by (rule rtmp_ok_same) simp
    with Some show ?thesis by (auto simp: rtmp_access_unit_def Let_def split: prod.split)
  qed
qed

lemma rtmp_end_ok:
  assumes ok: "rtmp_ok env st"
  shows "rtmp_ok env (rtmp_end env stream st)"
proof (cases "map_of (rb_segmenters st) (rs_id stream)")
  case None
  with ok show ?thesis by (auto simp: rtmp_end_def Let_def rtmp_ok_def intro: telemetry_keeps)
next
  case (Some s)
  let ?nid = "rs_id stream" and ?m = "AList.delete (rs_id stream) (rb_segmenters st)"
  from ok obtain owner where run: "owned_outputs (\<lambda>_. None) (rb_calls st) = Some owner"
    and owner: "\<And>out sid. owner out = Some sid \<longleftrightarrow> (\<exists>s. map_of (rb_segmenters st) sid = Some s \<and> rt_output_stream_id s = out)"
    by (auto simp: rtmp_ok_def)
  have mine: "owner (rt_output_stream_id s) = Some ?nid" using Some by (simp add: owner)
  have "\<forall>out sid. (owner(rt_output_stream_id s := None)) out = Some sid \<longleftrightarrow>
      (\<exists>s. map_of ?m sid = Some s \<and> rt_output_stream_id s = out)"
  proof (intro allI)
    fix out sid
    show "(owner(rt_output_stream_id s := None)) out = Some sid \<longleftrightarrow>
      (\<exists>s. map_of ?m sid = Some s \<and> rt_output_stream_id s = out)"
      using owner [of out sid] mine Some by (cases "sid = ?nid") (auto simp: map_of_delete)
  qed
  then show ?thesis using ok Some run mine
    by (auto simp: rtmp_end_def Let_def rtmp_ok_def map_of_delete wf_assoc_delete owned_outputs_append
        intro: telemetry_keeps split: prod.split if_splits)
qed

lemma rtmp_run_ok:
  "rtmp_ok env st \<Longrightarrow> list_all (\<lambda>e. own_number env (event_stream e)) events \<Longrightarrow> rtmp_ok env (run_rtmp_hls_bridge env events st)"
proof (induction events arbitrary: st)
  case (Cons e events)
  have "rtmp_ok env (rtmp_step env e st)"
    using Cons.prems by (cases e) (auto intro: rtmp_access_unit_ok rtmp_end_ok)
  with Cons show ?case by (simp add: run_rtmp_hls_bridge_def)
qed (simp add: run_rtmp_hls_bridge_def)

lemma rtmp_ok_start: "rtmp_ok env (rtmp_start w (default_telemetry clock))"
  by (simp add: rtmp_ok_def rtmp_start_def telemetry_ok_default)


definition demo_rtmp :: "(unit, unit) rtmp_env" where
  "demo_rtmp = \<lparr>re_fmp4 = be_fmp4 demo_bridge_env, re_env = be_env demo_bridge_env, re_fallback_output_stream_id = 1,
     re_min_part_ms = 50, re_num_playlists = 8, re_stream_idx = (\<lambda>_. Pair 3)\<rparr>"

definition demo_rtmp_event :: "u64 \<Rightarrow> rtmp_ingest_event" where
  "demo_rtmp_event i = RtmpAccessUnit \<lparr>rs_id = i, rs_key = ''live''\<rparr> (demo_unit [])"

definition demo_rtmp_end :: "u64 \<Rightarrow> rtmp_ingest_event" where
  "demo_rtmp_end i = RtmpEnd \<lparr>rs_id = i, rs_key = ''live''\<rparr>"

lemma demo_rtmp_push: "rb_calls (rtmp_step demo_rtmp (demo_rtmp_event i) st) = rb_calls (open_rtmp_stream demo_rtmp \<lparr>rs_id = i, rs_key = ''live''\<rparr> st)"
  by (auto simp: demo_rtmp_event_def rtmp_access_unit_def Let_def split: option.split prod.split)

text \<open>A stream numbered 0 shares the fallback with the first stream, which then loses its output.\<close>

lemma rtmp_zero_shares_fallback:
  "rtmp_output_stream_id \<lparr>rs_id = 9, rs_key = k\<rparr> fallback True = rtmp_output_stream_id \<lparr>rs_id = 0, rs_key = k'\<rparr> fallback False"
  by (simp add: rtmp_output_stream_id_def)


end
