(* ===== verification/Relay_Config.thy ===== *)
theory Relay_Config
  imports Complex_Main Relay_Lanes
begin

text \<open>
  The construction of the relay session and of the mesh forwarder of
  \<^verbatim>\<open>src/src/bin/av-contrib.rs\<close> from the command line: socket addresses with the standard library's
  order, \<^verbatim>\<open>relay_bind_addr\<close> and \<^verbatim>\<open>local_sender_addr\<close>, the controller's path observations and their
  combination, the checks of \<^verbatim>\<open>RelaySessionPublisher::new\<close> and \<^verbatim>\<open>MeshForwarder::new\<close>, and the
  destinations of audio groups. A 32-bit float is not-a-number, an infinity or a rational; the rounding
  of a finite result is an argument, and the sign of zero, which no check can tell, is left out. The
  transport crate is a record of its answers.
\<close>

section \<open>Socket addresses\<close>

datatype socket_addr = SocketV4 u32 u16 | SocketV6 u128 u16 u32 u32

primrec addr_port :: "socket_addr \<Rightarrow> u16" where
  "addr_port (SocketV4 ip port) = port"
| "addr_port (SocketV6 ip port flow scope) = port"

primrec addr_is_ipv4 :: "socket_addr \<Rightarrow> bool" where
  "addr_is_ipv4 (SocketV4 ip port) \<longleftrightarrow> True"
| "addr_is_ipv4 (SocketV6 ip port flow scope) \<longleftrightarrow> False"

primrec addr_is_unspecified :: "socket_addr \<Rightarrow> bool" where
  "addr_is_unspecified (SocketV4 ip port) \<longleftrightarrow> ip = 0"
| "addr_is_unspecified (SocketV6 ip port flow scope) \<longleftrightarrow> ip = 0"

primrec addr_is_loopback :: "socket_addr \<Rightarrow> bool" where
  "addr_is_loopback (SocketV4 ip port) \<longleftrightarrow> drop_bit 24 ip = 127"
| "addr_is_loopback (SocketV6 ip port flow scope) \<longleftrightarrow> ip = 1"

text \<open>The derived order of \<^verbatim>\<open>SocketAddr\<close>: the family first, then the fields in order.\<close>

definition lex_less :: "'a::linorder \<Rightarrow> 'a \<Rightarrow> bool \<Rightarrow> bool" where
  "lex_less x y rest \<longleftrightarrow> x < y \<or> x = y \<and> rest"

instantiation socket_addr :: linorder
begin

fun less_eq_socket_addr :: "socket_addr \<Rightarrow> socket_addr \<Rightarrow> bool" where
  "SocketV4 i p \<le> SocketV4 j q \<longleftrightarrow> lex_less i j (p \<le> q)"
| "SocketV4 i p \<le> SocketV6 j q f s \<longleftrightarrow> True"
| "SocketV6 j q f s \<le> SocketV4 i p \<longleftrightarrow> False"
| "SocketV6 i p f s \<le> SocketV6 j q g t \<longleftrightarrow> lex_less i j (lex_less p q (lex_less f g (s \<le> t)))"

definition less_socket_addr :: "socket_addr \<Rightarrow> socket_addr \<Rightarrow> bool" where
  "less_socket_addr a b \<longleftrightarrow> a \<le> b \<and> \<not> b \<le> a"

instance
proof
  fix a b c :: socket_addr
  show "a < b \<longleftrightarrow> a \<le> b \<and> \<not> b \<le> a" by (rule less_socket_addr_def)
  show "a \<le> a" by (cases a) (simp_all add: lex_less_def)
  show "a \<le> c" if "a \<le> b" "b \<le> c" using that by (cases a; cases b; cases c) (auto simp: lex_less_def)
  show "a = b" if "a \<le> b" "b \<le> a" using that by (cases a; cases b) (auto simp: lex_less_def)
  show "a \<le> b \<or> b \<le> a" by (cases a; cases b) (auto simp: lex_less_def)
qed

end

definition local_sender_addr :: "socket_addr \<Rightarrow> socket_addr" where
  "local_sender_addr peer = (case peer of
      SocketV4 ip port \<Rightarrow> SocketV4 (if addr_is_loopback peer then 0x7F000001 else 0) 0
    | SocketV6 ip port flow scope \<Rightarrow> SocketV6 (if addr_is_loopback peer then 1 else 0) 0 0 0)"

datatype relay_carrier_path = PrimaryPath | SecondaryPath

datatype relay_config_error =
  SettingsRequirePrimary | ObservationsRequirePrimary | SecondaryBindRequiresTarget
| SeedRequiresSecondary | TargetsNotDistinct | RelayDeadlineZero
| BindPortZero string | BindUnspecified string | BindFamily string
| EndpointsNotDistinct string string
| MetricNotFinite string string | LossOutOfRange string | DirectRttMissing string
| CarrierConfigInvalid string | CarrierBindFailed relay_carrier_path
| MinRepairTooLarge | EncoderInvalid | GenerationInvalid | SubscriptionInvalid
| ClockErrorZero | ClockErrorRange | ExclusiveRequiresPrimary | SenderBindFailed socket_addr
| IngressTargetsNotDistinct

definition relay_bind_addr :: "string \<Rightarrow> socket_addr option \<Rightarrow> socket_addr \<Rightarrow> relay_config_error + socket_addr" where
  "relay_bind_addr flag configured target =
     (case configured of
        None \<Rightarrow> Inr (local_sender_addr target)
      | Some bind \<Rightarrow>
          if addr_port bind = 0 then Inl (BindPortZero flag)
          else if addr_is_unspecified bind then Inl (BindUnspecified flag)
          else if addr_is_ipv4 bind \<noteq> addr_is_ipv4 target then Inl (BindFamily flag)
          else Inr bind)"

section \<open>Path observations\<close>

datatype f32 = NaN | PosInf | NegInf | Finite rat

definition is_finite :: "f32 \<Rightarrow> bool" where
  "is_finite x = (case x of Finite _ \<Rightarrow> True | _ \<Rightarrow> False)"

fun f32_less :: "f32 \<Rightarrow> f32 \<Rightarrow> bool" where
  "f32_less NaN y = False"
| "f32_less x NaN = False"
| "f32_less PosInf y = False"
| "f32_less x NegInf = False"
| "f32_less NegInf y = True"
| "f32_less x PosInf = True"
| "f32_less (Finite a) (Finite b) = (a < b)"

text \<open>\<^verbatim>\<open>f32::max\<close> and \<^verbatim>\<open>f32::min\<close> give the other operand for a not-a-number, \<^verbatim>\<open>clamp\<close> keeps it.\<close>

definition f32_max :: "f32 \<Rightarrow> f32 \<Rightarrow> f32" where
  "f32_max x y = (if x = NaN then y else if y = NaN then x else if f32_less x y then y else x)"

definition f32_min :: "f32 \<Rightarrow> f32 \<Rightarrow> f32" where
  "f32_min x y = (if x = NaN then y else if y = NaN then x else if f32_less y x then y else x)"

definition f32_clamp :: "f32 \<Rightarrow> f32 \<Rightarrow> f32 \<Rightarrow> f32" where
  "f32_clamp lo hi x = (if f32_less x lo then lo else if f32_less hi x then hi else x)"

fun f32_neg :: "f32 \<Rightarrow> f32" where
  "f32_neg NaN = NaN"
| "f32_neg PosInf = NegInf"
| "f32_neg NegInf = PosInf"
| "f32_neg (Finite a) = Finite (- a)"

fun f32_add :: "(rat \<Rightarrow> f32) \<Rightarrow> f32 \<Rightarrow> f32 \<Rightarrow> f32" where
  "f32_add rnd (Finite a) (Finite b) = rnd (a + b)"
| "f32_add rnd NaN y = NaN"
| "f32_add rnd x NaN = NaN"
| "f32_add rnd PosInf NegInf = NaN"
| "f32_add rnd NegInf PosInf = NaN"
| "f32_add rnd PosInf y = PosInf"
| "f32_add rnd x PosInf = PosInf"
| "f32_add rnd NegInf y = NegInf"
| "f32_add rnd x NegInf = NegInf"

definition f32_sub :: "(rat \<Rightarrow> f32) \<Rightarrow> f32 \<Rightarrow> f32 \<Rightarrow> f32" where
  "f32_sub rnd x y = f32_add rnd x (f32_neg y)"

definition f32_sign :: "f32 \<Rightarrow> int" where
  "f32_sign x = (case x of NaN \<Rightarrow> 0 | PosInf \<Rightarrow> 1 | NegInf \<Rightarrow> - 1 | Finite a \<Rightarrow> if a < 0 then - 1 else if a = 0 then 0 else 1)"

definition f32_mul :: "(rat \<Rightarrow> f32) \<Rightarrow> f32 \<Rightarrow> f32 \<Rightarrow> f32" where
  "f32_mul rnd x y = (case (x, y) of
      (Finite a, Finite b) \<Rightarrow> rnd (a * b)
    | _ \<Rightarrow> let s = f32_sign x * f32_sign y in
        if x = NaN \<or> y = NaN \<or> s = 0 then NaN else if 0 < s then PosInf else NegInf)"

record path_args =
  pa_loss_fraction :: f32
  pa_best_direct_rtt_ms :: f32
  pa_rtt_ms :: f32
  pa_jitter_ms :: f32
  pa_queue_delay_ms :: f32
  pa_observed_at_unix_ms :: "u64 option"

record 'g path_metrics =
  pm_observed_at_us :: u64
  pm_rtt_ms :: f32
  pm_jitter_ms :: f32
  pm_loss_fraction :: f32
  pm_queue_delay_ms :: f32
  pm_goodput_bps :: "'g option"
  pm_deadline_hit_fraction :: f32

definition path_configured :: "path_args \<Rightarrow> bool" where
  "path_configured a \<longleftrightarrow> pa_loss_fraction a \<noteq> Finite 0 \<or> pa_best_direct_rtt_ms a \<noteq> Finite 0
     \<or> pa_rtt_ms a \<noteq> Finite 0 \<or> pa_jitter_ms a \<noteq> Finite 0 \<or> pa_queue_delay_ms a \<noteq> Finite 0
     \<or> pa_observed_at_unix_ms a \<noteq> None"

fun bad_metric :: "(string \<times> f32) list \<Rightarrow> string option" where
  "bad_metric [] = None"
| "bad_metric ((suffix, v) # rest) = (if \<not> is_finite v \<or> f32_less v (Finite 0) then Some suffix else bad_metric rest)"

definition path_metrics_from_values ::
    "'g path_metrics \<Rightarrow> string \<Rightarrow> path_args \<Rightarrow> relay_config_error + 'g path_metrics" where
  "path_metrics_from_values base prefix a =
     (case bad_metric [(''best-direct-rtt-ms'', pa_best_direct_rtt_ms a), (''rtt-ms'', pa_rtt_ms a),
        (''jitter-ms'', pa_jitter_ms a), (''queue-delay-ms'', pa_queue_delay_ms a)] of
        Some suffix \<Rightarrow> Inl (MetricNotFinite prefix suffix)
      | None \<Rightarrow>
          if \<not> is_finite (pa_loss_fraction a) \<or> f32_less (pa_loss_fraction a) (Finite 0) \<or> f32_less (Finite 1) (pa_loss_fraction a)
          then Inl (LossOutOfRange prefix)
          else if f32_less (Finite 0) (pa_rtt_ms a) \<and> pa_best_direct_rtt_ms a = Finite 0 then Inl (DirectRttMissing prefix)
          else Inr (base\<lparr>pm_observed_at_us := sat_mul (case pa_observed_at_unix_ms a of None \<Rightarrow> 0 | Some t \<Rightarrow> t) 1000,
            pm_rtt_ms := pa_rtt_ms a, pm_jitter_ms := pa_jitter_ms a, pm_loss_fraction := pa_loss_fraction a,
            pm_queue_delay_ms := pa_queue_delay_ms a\<rparr>))"

definition adaptive_relay_path_metrics ::
    "(rat \<Rightarrow> f32) \<Rightarrow> ('g::linorder) path_metrics \<Rightarrow> 'g path_metrics \<Rightarrow> 'g path_metrics" where
  "adaptive_relay_path_metrics rnd p s =
     \<lparr>pm_observed_at_us = max (pm_observed_at_us p) (pm_observed_at_us s),
      pm_rtt_ms = f32_max (pm_rtt_ms p) (pm_rtt_ms s),
      pm_jitter_ms = f32_max (pm_jitter_ms p) (pm_jitter_ms s),
      pm_loss_fraction = f32_clamp (Finite 0) (Finite 1)
        (f32_sub rnd (f32_add rnd (pm_loss_fraction p) (pm_loss_fraction s))
           (f32_mul rnd (pm_loss_fraction p) (pm_loss_fraction s))),
      pm_queue_delay_ms = f32_max (pm_queue_delay_ms p) (pm_queue_delay_ms s),
      pm_goodput_bps = (case (pm_goodput_bps p, pm_goodput_bps s) of
          (Some a, Some b) \<Rightarrow> Some (min a b)
        | (Some a, None) \<Rightarrow> Some a
        | (None, Some b) \<Rightarrow> Some b
        | (None, None) \<Rightarrow> None),
      pm_deadline_hit_fraction = f32_min (pm_deadline_hit_fraction p) (pm_deadline_hit_fraction s)\<rparr>"

section \<open>The relay session\<close>

record relay_args =
  ra_primary_target :: "socket_addr option"
  ra_primary_bind :: "socket_addr option"
  ra_secondary_target :: "socket_addr option"
  ra_secondary_bind :: "socket_addr option"
  ra_secondary_seed_source :: bool
  ra_exclusive :: bool
  ra_local_id :: string
  ra_primary_id :: string
  ra_secondary_id :: string
  ra_topology_generation :: u64
  ra_subscription_id :: u64
  ra_deadline_ms :: u64
  ra_min_repair_symbols :: u32
  ra_path :: path_args
  ra_secondary_path :: path_args
  ra_wall_clock_estimated_error_ms :: u64
  ra_audio_epoch_ingress_target :: "socket_addr option"
  ra_audio_epoch_redundant_ingress_target :: "socket_addr option"
  ra_mesh_fec_target :: socket_addr
  ra_mesh_media_fec_target :: socket_addr
  ra_repair_symbols :: u32
  ra_symbol_size :: u16

definition relay_path_metrics_configured :: "relay_args \<Rightarrow> bool" where
  "relay_path_metrics_configured a = path_configured (ra_path a)"

definition relay_secondary_path_metrics_configured :: "relay_args \<Rightarrow> bool" where
  "relay_secondary_path_metrics_configured a = path_configured (ra_secondary_path a)"

definition relay_path_metrics :: "'g path_metrics \<Rightarrow> relay_args \<Rightarrow> relay_config_error + 'g path_metrics" where
  "relay_path_metrics base a = path_metrics_from_values base ''--relay-path'' (ra_path a)"

definition relay_secondary_path_metrics :: "'g path_metrics \<Rightarrow> relay_args \<Rightarrow> relay_config_error + 'g path_metrics" where
  "relay_secondary_path_metrics base a =
     (if \<not> relay_secondary_path_metrics_configured a then relay_path_metrics base a
      else path_metrics_from_values base ''--relay-secondary-path'' (ra_secondary_path a))"

definition named_endpoints :: "relay_args \<Rightarrow> socket_addr \<Rightarrow> (string \<times> socket_addr) list" where
  "named_endpoints a primary_target = [(''primary target'', primary_target)]
     @ (case ra_primary_bind a of None \<Rightarrow> [] | Some b \<Rightarrow> [(''primary bind'', b)])
     @ (case ra_secondary_target a of None \<Rightarrow> [] | Some t \<Rightarrow> [(''secondary target'', t)])
     @ (case ra_secondary_bind a of None \<Rightarrow> [] | Some b \<Rightarrow> [(''secondary bind'', b)])"

fun clash_with :: "string \<times> socket_addr \<Rightarrow> (string \<times> socket_addr) list \<Rightarrow> relay_config_error option" where
  "clash_with left [] = None"
| "clash_with left (right # rest) =
     (if snd left = snd right then Some (EndpointsNotDistinct (fst left) (fst right)) else clash_with left rest)"

fun first_clash :: "(string \<times> socket_addr) list \<Rightarrow> relay_config_error option" where
  "first_clash [] = None"
| "first_clash (e # rest) = (case clash_with e rest of Some err \<Rightarrow> Some err | None \<Rightarrow> first_clash rest)"

record 'g carrier_plan =
  cp_bind :: socket_addr
  cp_target :: socket_addr
  cp_remote_id :: string
  cp_metrics :: "'g path_metrics"

record 'g relay_plan =
  rp_primary :: "'g carrier_plan"
  rp_secondary :: "'g carrier_plan option"
  rp_secondary_seed_source :: bool
  rp_min_repair_symbols :: u32
  rp_encoder_metrics :: "'g path_metrics"
  rp_generation :: u64
  rp_subscription :: u64

text \<open>What the transport crate answers: its default metrics, whether it takes a carrier configuration, whether
  a socket can be bound, the encoder's policy bound and which numbers it takes.\<close>

record ('g, 'w) relay_crate =
  kc_default_metrics :: "'g path_metrics"
  kc_config_ok :: "socket_addr \<Rightarrow> socket_addr \<Rightarrow> string \<Rightarrow> string \<Rightarrow> bool"
  kc_bind :: "socket_addr \<Rightarrow> socket_addr \<Rightarrow> 'w \<Rightarrow> bool \<times> 'w"
  kc_max_repair_symbols :: u32
  kc_encoder_ok :: "u32 \<Rightarrow> bool"
  kc_generation_ok :: "u64 \<Rightarrow> bool"
  kc_subscription_ok :: "u64 \<Rightarrow> bool"
  kc_round :: "rat \<Rightarrow> f32"

definition fail_when :: "bool \<Rightarrow> 'e \<Rightarrow> 'e + unit" where
  "fail_when b e = (if b then Inl e else Inr ())"

text \<open>The checks before the first socket is opened, in the order of the code.\<close>

definition relay_checks ::
    "('g, 'w) relay_crate \<Rightarrow> relay_args \<Rightarrow> socket_addr
     \<Rightarrow> relay_config_error + (socket_addr \<times> socket_addr option) \<times> 'g path_metrics \<times> 'g path_metrics" where
  "relay_checks rc a primary_target =
     res_bind (fail_when (ra_secondary_target a = None \<and> ra_secondary_bind a \<noteq> None) SecondaryBindRequiresTarget) (\<lambda>_.
     res_bind (fail_when (ra_secondary_seed_source a \<and> ra_secondary_target a = None) SeedRequiresSecondary) (\<lambda>_.
     res_bind (fail_when (ra_secondary_target a = Some primary_target) TargetsNotDistinct) (\<lambda>_.
     res_bind (fail_when (ra_deadline_ms a = 0) RelayDeadlineZero) (\<lambda>_.
     res_bind (relay_bind_addr ''--relay-primary-bind'' (ra_primary_bind a) primary_target) (\<lambda>primary_bind.
     res_bind (case ra_secondary_target a of
         None \<Rightarrow> Inr None
       | Some target \<Rightarrow> res_bind (relay_bind_addr ''--relay-secondary-bind'' (ra_secondary_bind a) target) (\<lambda>b. Inr (Some b)))
       (\<lambda>secondary_bind.
     res_bind (case first_clash (named_endpoints a primary_target) of Some e \<Rightarrow> Inl e | None \<Rightarrow> Inr ()) (\<lambda>_.
     res_bind (relay_path_metrics (kc_default_metrics rc) a) (\<lambda>pm.
     res_bind (relay_secondary_path_metrics (kc_default_metrics rc) a) (\<lambda>sm.
     Inr ((primary_bind, secondary_bind), pm, sm))))))))))"

definition open_carrier ::
    "('g, 'w) relay_crate \<Rightarrow> relay_args \<Rightarrow> relay_carrier_path \<Rightarrow> 'g carrier_plan
     \<Rightarrow> (relay_config_error, 'g carrier_plan, 'w) fallible" where
  "open_carrier rc a path c w =
     (if \<not> kc_config_ok rc (cp_bind c) (cp_target c) (ra_local_id a) (cp_remote_id c)
      then (Inl (CarrierConfigInvalid (cp_remote_id c)), w)
      else case kc_bind rc (cp_bind c) (cp_target c) w of
          (False, w) \<Rightarrow> (Inl (CarrierBindFailed path), w)
        | (True, w) \<Rightarrow> (Inr c, w))"

definition relay_session_new ::
    "('g::linorder, 'w) relay_crate \<Rightarrow> relay_args \<Rightarrow> (relay_config_error, 'g relay_plan option, 'w) fallible" where
  "relay_session_new rc a =
     (case ra_primary_target a of
        None \<Rightarrow> slift
          (if ra_primary_bind a \<noteq> None \<or> ra_secondary_target a \<noteq> None \<or> ra_secondary_bind a \<noteq> None then Inl SettingsRequirePrimary
           else if relay_path_metrics_configured a then Inl ObservationsRequirePrimary
           else Inr None)
      | Some primary_target \<Rightarrow>
          sbind (slift (relay_checks rc a primary_target)) (\<lambda>((primary_bind, secondary_bind), pm, sm).
          sbind (open_carrier rc a PrimaryPath
              \<lparr>cp_bind = primary_bind, cp_target = primary_target, cp_remote_id = ra_primary_id a, cp_metrics = pm\<rparr>) (\<lambda>primary.
          sbind (case (ra_secondary_target a, secondary_bind) of
              (Some target, Some bind) \<Rightarrow> sbind (open_carrier rc a SecondaryPath
                \<lparr>cp_bind = bind, cp_target = target, cp_remote_id = ra_secondary_id a, cp_metrics = sm\<rparr>) (\<lambda>c. slift (Inr (Some c)))
            | _ \<Rightarrow> slift (Inr None)) (\<lambda>secondary.
          sbind (slift (fail_when (kc_max_repair_symbols rc < ra_min_repair_symbols a) MinRepairTooLarge)) (\<lambda>_.
          sbind (slift (fail_when (\<not> kc_encoder_ok rc (ra_min_repair_symbols a)) EncoderInvalid)) (\<lambda>_.
          sbind (slift (fail_when (\<not> kc_generation_ok rc (ra_topology_generation a)) GenerationInvalid)) (\<lambda>_.
          sbind (slift (fail_when (\<not> kc_subscription_ok rc (ra_subscription_id a)) SubscriptionInvalid)) (\<lambda>_.
          slift (Inr (Some \<lparr>rp_primary = primary, rp_secondary = secondary,
            rp_secondary_seed_source = ra_secondary_seed_source a, rp_min_repair_symbols = ra_min_repair_symbols a,
            rp_encoder_metrics = adaptive_relay_path_metrics (kc_round rc) pm sm,
            rp_generation = ra_topology_generation a, rp_subscription = ra_subscription_id a\<rparr>))))))))))"

text \<open>The mesh forwarder: its own checks, then the relay, the two sender sockets and the audio destinations.\<close>

definition configured_audio_epoch_ingress_targets :: "relay_args \<Rightarrow> relay_config_error + socket_addr list" where
  "configured_audio_epoch_ingress_targets a =
     (let primary = (case ra_audio_epoch_ingress_target a of None \<Rightarrow> ra_mesh_media_fec_target a | Some t \<Rightarrow> t) in
      res_bind (case ra_audio_epoch_redundant_ingress_target a of
          None \<Rightarrow> Inr [primary]
        | Some redundant \<Rightarrow> if redundant = primary then Inl IngressTargetsNotDistinct else Inr [primary, redundant])
        (\<lambda>targets. Inr (remdups_adj (sort targets))))"

record 'g forwarder_plan =
  fp_byte_target :: socket_addr
  fp_repair_symbols :: u32
  fp_symbol_size :: u16
  fp_media_target :: socket_addr
  fp_ingress_targets :: "socket_addr list"
  fp_source_epoch :: u64
  fp_delivery_budget_ms :: u64
  fp_estimated_clock_error_ns :: u64
  fp_relay :: "'g relay_plan option"
  fp_relay_exclusive :: bool

definition bind_sender ::
    "(socket_addr \<Rightarrow> 'w \<Rightarrow> bool \<times> 'w) \<Rightarrow> socket_addr \<Rightarrow> (relay_config_error, unit, 'w) fallible" where
  "bind_sender bind peer w =
     (case bind (local_sender_addr peer) w of (ok, w) \<Rightarrow> (if ok then Inr () else Inl (SenderBindFailed peer), w))"

definition mesh_forwarder_new ::
    "('g::linorder, 'w) relay_crate \<Rightarrow> (socket_addr \<Rightarrow> 'w \<Rightarrow> bool \<times> 'w) \<Rightarrow> relay_args \<Rightarrow> u64
     \<Rightarrow> (relay_config_error, 'g forwarder_plan, 'w) fallible" where
  "mesh_forwarder_new rc bind a now_us =
     sbind (slift (fail_when (ra_deadline_ms a = 0) RelayDeadlineZero)) (\<lambda>_.
     sbind (slift (fail_when (ra_wall_clock_estimated_error_ms a = 0) ClockErrorZero)) (\<lambda>_.
     sbind (slift (ok_or ClockErrorRange (checked_mul (ra_wall_clock_estimated_error_ms a) 1000000))) (\<lambda>clock_error_ns.
     sbind (relay_session_new rc a) (\<lambda>relay.
     sbind (slift (fail_when (ra_exclusive a \<and> relay = None) ExclusiveRequiresPrimary)) (\<lambda>_.
     sbind (bind_sender bind (ra_mesh_fec_target a)) (\<lambda>_.
     sbind (bind_sender bind (ra_mesh_media_fec_target a)) (\<lambda>_.
     sbind (slift (configured_audio_epoch_ingress_targets a)) (\<lambda>targets.
     slift (Inr \<lparr>fp_byte_target = ra_mesh_fec_target a, fp_repair_symbols = ra_repair_symbols a,
       fp_symbol_size = ra_symbol_size a, fp_media_target = ra_mesh_media_fec_target a,
       fp_ingress_targets = targets, fp_source_epoch = max now_us 1, fp_delivery_budget_ms = ra_deadline_ms a,
       fp_estimated_clock_error_ns = clock_error_ns, fp_relay = relay, fp_relay_exclusive = ra_exclusive a\<rparr>)))))))))"

definition allocate_media_sequence :: "u64 \<Rightarrow> u64 \<times> u64" where
  "allocate_media_sequence n = (n, n + 1)"

end
