(* ===== verification/Relay_Config_Facts.thy ===== *)
theory Relay_Config_Facts
  imports Relay_Config
begin

text \<open>
  What the construction of the relay session accepts: the conditions of the command line in declarative
  form, the plan that is opened for an accepted one, and the bounds of the metrics the encoder is seeded
  with.
\<close>

lemma fail_when_eq_Inr [simp]: "fail_when b e = Inr u \<longleftrightarrow> \<not> b"
  by (simp add: fail_when_def)

section \<open>The conditions\<close>

definition local_addr_ok :: "socket_addr option \<Rightarrow> socket_addr \<Rightarrow> bool" where
  "local_addr_ok configured target =
     (case configured of
        None \<Rightarrow> True
      | Some b \<Rightarrow> addr_port b \<noteq> 0 \<and> \<not> addr_is_unspecified b \<and> (addr_is_ipv4 b \<longleftrightarrow> addr_is_ipv4 target))"

definition bound_addr :: "socket_addr option \<Rightarrow> socket_addr \<Rightarrow> socket_addr" where
  "bound_addr configured target = (case configured of None \<Rightarrow> local_sender_addr target | Some b \<Rightarrow> b)"

lemma relay_bind_addr_eq_Inr:
  "relay_bind_addr flag configured target = Inr b \<longleftrightarrow> local_addr_ok configured target \<and> b = bound_addr configured target"
  by (auto simp: relay_bind_addr_def local_addr_ok_def bound_addr_def split: option.split)

fun in_range :: "f32 \<Rightarrow> rat \<Rightarrow> rat option \<Rightarrow> bool" where
  "in_range (Finite q) lo None \<longleftrightarrow> lo \<le> q"
| "in_range (Finite q) lo (Some hi) \<longleftrightarrow> lo \<le> q \<and> q \<le> hi"
| "in_range _ lo hi \<longleftrightarrow> False"

definition path_ok :: "path_args \<Rightarrow> bool" where
  "path_ok p \<longleftrightarrow> in_range (pa_best_direct_rtt_ms p) 0 None \<and> in_range (pa_rtt_ms p) 0 None
     \<and> in_range (pa_jitter_ms p) 0 None \<and> in_range (pa_queue_delay_ms p) 0 None
     \<and> in_range (pa_loss_fraction p) 0 (Some 1)
     \<and> (pa_best_direct_rtt_ms p = Finite 0 \<longrightarrow> pa_rtt_ms p = Finite 0)"

definition observed :: "'g path_metrics \<Rightarrow> path_args \<Rightarrow> 'g path_metrics" where
  "observed base p = base\<lparr>pm_observed_at_us := sat_mul (case pa_observed_at_unix_ms p of None \<Rightarrow> 0 | Some t \<Rightarrow> t) 1000,
     pm_rtt_ms := pa_rtt_ms p, pm_jitter_ms := pa_jitter_ms p, pm_loss_fraction := pa_loss_fraction p,
     pm_queue_delay_ms := pa_queue_delay_ms p\<rparr>"

lemma not_bad_metric:
  "bad_metric ms = None \<longleftrightarrow> (\<forall>m \<in> set ms. in_range (snd m) 0 None)"
proof (induction ms rule: bad_metric.induct)
  case (2 suffix v rest)
  then show ?case by (cases v) (auto simp: is_finite_def)
qed simp

lemma loss_in_range:
  "\<not> is_finite l \<or> f32_less l (Finite 0) \<or> f32_less (Finite 1) l \<longleftrightarrow> \<not> in_range l 0 (Some 1)"
  by (cases l) (auto simp: is_finite_def)

lemma positive_in_range: "in_range r 0 None \<Longrightarrow> f32_less (Finite 0) r \<longleftrightarrow> r \<noteq> Finite 0"
  by (cases r) auto

lemma path_metrics_eq_Inr:
  "path_metrics_from_values base prefix p = Inr m \<longleftrightarrow> path_ok p \<and> m = observed base p"
proof (cases "bad_metric [(''best-direct-rtt-ms'', pa_best_direct_rtt_ms p), (''rtt-ms'', pa_rtt_ms p),
    (''jitter-ms'', pa_jitter_ms p), (''queue-delay-ms'', pa_queue_delay_ms p)]")
  case None
  then have ok: "in_range (pa_best_direct_rtt_ms p) 0 None" "in_range (pa_rtt_ms p) 0 None"
    "in_range (pa_jitter_ms p) 0 None" "in_range (pa_queue_delay_ms p) 0 None"
    by (simp_all add: not_bad_metric del: bad_metric.simps)
  show ?thesis
    unfolding path_metrics_from_values_def None path_ok_def observed_def option.case loss_in_range
      positive_in_range [OF ok(2)]
    using ok by auto
next
  case (Some suffix)
  then have "bad_metric [(''best-direct-rtt-ms'', pa_best_direct_rtt_ms p), (''rtt-ms'', pa_rtt_ms p),
    (''jitter-ms'', pa_jitter_ms p), (''queue-delay-ms'', pa_queue_delay_ms p)] \<noteq> None" by simp
  then have "\<not> path_ok p" unfolding not_bad_metric path_ok_def by auto
  then show ?thesis unfolding path_metrics_from_values_def Some option.case by simp
qed

definition relay_args_ok :: "relay_args \<Rightarrow> socket_addr \<Rightarrow> bool" where
  "relay_args_ok a t \<longleftrightarrow> (ra_secondary_target a = None \<longrightarrow> ra_secondary_bind a = None \<and> \<not> ra_secondary_seed_source a)
     \<and> ra_deadline_ms a \<noteq> 0 \<and> distinct (map snd (named_endpoints a t))
     \<and> local_addr_ok (ra_primary_bind a) t
     \<and> (case ra_secondary_target a of None \<Rightarrow> True | Some s \<Rightarrow> local_addr_ok (ra_secondary_bind a) s)
     \<and> path_ok (ra_path a) \<and> (path_configured (ra_secondary_path a) \<longrightarrow> path_ok (ra_secondary_path a))"

definition secondary_observed :: "'g path_metrics \<Rightarrow> relay_args \<Rightarrow> 'g path_metrics" where
  "secondary_observed base a =
     observed base (if path_configured (ra_secondary_path a) then ra_secondary_path a else ra_path a)"

lemma no_clash_with: "clash_with e rest = None \<longleftrightarrow> snd e \<notin> snd ` set rest"
  by (induction e rest rule: clash_with.induct) auto

lemma no_clash: "first_clash es = None \<longleftrightarrow> distinct (map snd es)"
proof (induction es)
  case (Cons e es)
  then show ?case using no_clash_with [of e es] by (cases "clash_with e es") auto
qed simp

lemma targets_distinct:
  "distinct (map snd (named_endpoints a t)) \<Longrightarrow> ra_secondary_target a \<noteq> Some t"
  by (auto simp: named_endpoints_def)

lemma relay_checks_eq_Inr:
  "relay_checks k a t = Inr r \<longleftrightarrow> relay_args_ok a t
     \<and> r = ((bound_addr (ra_primary_bind a) t,
              map_option (bound_addr (ra_secondary_bind a)) (ra_secondary_target a)),
            observed (kc_default_metrics k) (ra_path a), secondary_observed (kc_default_metrics k) a)"
  using targets_distinct [of a t]
  by (cases r) (auto simp: relay_checks_def relay_args_ok_def res_ok relay_bind_addr_eq_Inr relay_path_metrics_def
      relay_secondary_path_metrics_def relay_secondary_path_metrics_configured_def path_metrics_eq_Inr
      secondary_observed_def no_clash [symmetric] split: option.splits)

section \<open>The session\<close>

definition carrier_to :: "('g, 'w) relay_crate \<Rightarrow> socket_addr option \<Rightarrow> socket_addr \<Rightarrow> string \<Rightarrow> 'g path_metrics \<Rightarrow> 'g carrier_plan" where
  "carrier_to k configured target remote_id m =
     \<lparr>cp_bind = bound_addr configured target, cp_target = target, cp_remote_id = remote_id, cp_metrics = m\<rparr>"

definition planned_session :: "('g::linorder, 'w) relay_crate \<Rightarrow> relay_args \<Rightarrow> socket_addr \<Rightarrow> 'g relay_plan" where
  "planned_session k a t =
     (let pm = observed (kc_default_metrics k) (ra_path a); sm = secondary_observed (kc_default_metrics k) a in
      \<lparr>rp_primary = carrier_to k (ra_primary_bind a) t (ra_primary_id a) pm,
       rp_secondary = map_option (\<lambda>s. carrier_to k (ra_secondary_bind a) s (ra_secondary_id a) sm) (ra_secondary_target a),
       rp_secondary_seed_source = ra_secondary_seed_source a, rp_min_repair_symbols = ra_min_repair_symbols a,
       rp_encoder_metrics = adaptive_relay_path_metrics (kc_round k) pm sm,
       rp_generation = ra_topology_generation a, rp_subscription = ra_subscription_id a\<rparr>)"

text \<open>The transport crate takes a plan: both carriers open, one after the other, and the numbers are valid.\<close>

definition crate_takes :: "('g, 'w) relay_crate \<Rightarrow> relay_args \<Rightarrow> 'g relay_plan \<Rightarrow> 'w \<Rightarrow> bool" where
  "crate_takes k a p w \<longleftrightarrow>
     (let opens = (\<lambda>c w. kc_config_ok k (cp_bind c) (cp_target c) (ra_local_id a) (cp_remote_id c)
            \<and> fst (kc_bind k (cp_bind c) (cp_target c) w));
          w' = snd (kc_bind k (cp_bind (rp_primary p)) (cp_target (rp_primary p)) w)
      in opens (rp_primary p) w \<and> (case rp_secondary p of None \<Rightarrow> True | Some c \<Rightarrow> opens c w')
         \<and> rp_min_repair_symbols p \<le> kc_max_repair_symbols k \<and> kc_encoder_ok k (rp_min_repair_symbols p)
         \<and> kc_generation_ok k (rp_generation p) \<and> kc_subscription_ok k (rp_subscription p))"

lemma open_carrier_eq_Inr:
  "open_carrier k a path c w = (Inr c', w') \<longleftrightarrow> c' = c \<and> kc_config_ok k (cp_bind c) (cp_target c) (ra_local_id a) (cp_remote_id c)
     \<and> fst (kc_bind k (cp_bind c) (cp_target c) w) \<and> w' = snd (kc_bind k (cp_bind c) (cp_target c) w)"
  by (auto simp: open_carrier_def split: prod.splits bool.splits)

lemma fst_eq_Inr: "fst (m :: ('e + 'a) \<times> 's) = Inr a \<longleftrightarrow> (\<exists>s. m = (Inr a, s))"
  by (cases m) auto

lemma relay_session_none:
  "fst (relay_session_new k a w) = Inr None \<longleftrightarrow> ra_primary_target a = None \<and> ra_primary_bind a = None
     \<and> ra_secondary_target a = None \<and> ra_secondary_bind a = None \<and> \<not> path_configured (ra_path a)"
  by (auto simp: relay_session_new_def slift_def relay_path_metrics_configured_def fst_eq_Inr state_ok
      split: option.split)

text \<open>C29: A relay session is opened exactly when a primary is configured, its addresses are all different and
  each fixed source address has a port, an address and the family of its peer, the settings of the second
  lane come with its target, the deadline is positive, the observations are in range and the transport
  crate takes the plan; and what is opened is the plan the command line describes.\<close>

theorem relay_session_exact:
  "fst (relay_session_new k a w) = Inr (Some p) \<longleftrightarrow>
     (\<exists>t. ra_primary_target a = Some t \<and> relay_args_ok a t \<and> p = planned_session k a t \<and> crate_takes k a p w)"
proof (cases "ra_primary_target a")
  case None
  then show ?thesis by (auto simp: relay_session_new_def slift_def)
next
  case (Some t)
  then show ?thesis
    by (cases "ra_secondary_target a")
      (auto simp: relay_session_new_def fst_eq_Inr state_ok relay_checks_eq_Inr open_carrier_eq_Inr planned_session_def
        carrier_to_def crate_takes_def Let_def not_less)
qed

section \<open>Bounds of what is planned\<close>

lemma f32_clamp_in_range: "x \<noteq> NaN \<Longrightarrow> in_range (f32_clamp (Finite 0) (Finite 1) x) 0 (Some 1)"
  by (cases x) (auto simp: f32_clamp_def)

lemma f32_max_in_range:
  "in_range x 0 None \<Longrightarrow> in_range y 0 None \<Longrightarrow> in_range (f32_max x y) 0 None"
  by (cases x; cases y) (auto simp: f32_max_def)

text \<open>While rounding stays finite, the encoder is seeded with a loss between zero and one and with the worse of
  the two lanes' times.\<close>

lemma encoder_metrics_bounded:
  fixes base :: "('g::linorder) path_metrics"
  assumes "rnd = Finite \<circ> r" and "path_ok p" and "path_ok s"
  defines "m \<equiv> adaptive_relay_path_metrics rnd (observed base p) (observed base s)"
  shows "in_range (pm_loss_fraction m) 0 (Some 1) \<and> in_range (pm_rtt_ms m) 0 None
     \<and> in_range (pm_jitter_ms m) 0 None \<and> in_range (pm_queue_delay_ms m) 0 None"
proof (intro conjI)
  show "in_range (pm_loss_fraction m) 0 (Some 1)"
    using assms(2,3) unfolding m_def path_ok_def observed_def adaptive_relay_path_metrics_def
    by (cases "pa_loss_fraction p"; cases "pa_loss_fraction s")
      (auto simp: assms(1) f32_sub_def f32_mul_def intro!: f32_clamp_in_range)
qed (use assms(2,3) in \<open>simp_all add: m_def path_ok_def observed_def adaptive_relay_path_metrics_def f32_max_in_range\<close>)

text \<open>Without a second lane the combination takes the loss of the only one twice: a tenth becomes nineteen
  hundredths.\<close>

definition demo_path :: path_args where
  "demo_path = \<lparr>pa_loss_fraction = Finite (1/10), pa_best_direct_rtt_ms = Finite 0, pa_rtt_ms = Finite 0,
     pa_jitter_ms = Finite 0, pa_queue_delay_ms = Finite 0, pa_observed_at_unix_ms = None\<rparr>"

definition no_path :: path_args where
  "no_path = demo_path\<lparr>pa_loss_fraction := Finite 0\<rparr>"

definition demo_relay_args :: relay_args where
  "demo_relay_args = \<lparr>ra_primary_target = Some (SocketV4 0x7F000001 7000), ra_primary_bind = None,
     ra_secondary_target = None, ra_secondary_bind = None, ra_secondary_seed_source = False, ra_exclusive = True,
     ra_local_id = ''av-contrib'', ra_primary_id = ''p'', ra_secondary_id = ''s'', ra_topology_generation = 1,
     ra_subscription_id = 1, ra_deadline_ms = 500, ra_min_repair_symbols = 0, ra_path = demo_path,
     ra_secondary_path = no_path, ra_wall_clock_estimated_error_ms = 5, ra_audio_epoch_ingress_target = None,
     ra_audio_epoch_redundant_ingress_target = None, ra_mesh_fec_target = SocketV4 0x7F000001 12001,
     ra_mesh_media_fec_target = SocketV4 0x7F000001 12101, ra_repair_symbols = 1, ra_symbol_size = 1200\<rparr>"

definition demo_crate :: "(u64, unit) relay_crate" where
  "demo_crate = \<lparr>kc_default_metrics = \<lparr>pm_observed_at_us = 0, pm_rtt_ms = Finite 0, pm_jitter_ms = Finite 0,
       pm_loss_fraction = Finite 0, pm_queue_delay_ms = Finite 0, pm_goodput_bps = None, pm_deadline_hit_fraction = Finite 1\<rparr>,
     kc_config_ok = (\<lambda>_ _ _ _. True), kc_bind = (\<lambda>_ _. Pair True), kc_max_repair_symbols = 16,
     kc_encoder_ok = (\<lambda>_. True), kc_generation_ok = (\<lambda>_. True), kc_subscription_ok = (\<lambda>_. True), kc_round = Finite\<rparr>"

lemma single_lane_loss_counted_twice:
  "\<exists>p. fst (relay_session_new demo_crate demo_relay_args ()) = Inr (Some p) \<and> rp_secondary p = None
     \<and> pm_loss_fraction (cp_metrics (rp_primary p)) = Finite (1/10)
     \<and> pm_loss_fraction (rp_encoder_metrics p) = Finite (19/100)"
  unfolding relay_session_exact
  by (simp add: demo_relay_args_def demo_crate_def demo_path_def no_path_def relay_args_ok_def named_endpoints_def
      local_addr_ok_def path_ok_def path_configured_def planned_session_def crate_takes_def carrier_to_def
      observed_def secondary_observed_def adaptive_relay_path_metrics_def f32_clamp_def f32_sub_def f32_mul_def)

section \<open>The forwarder\<close>

lemma ingress_targets_eq_Inr:
  "configured_audio_epoch_ingress_targets a = Inr ts \<Longrightarrow> sorted ts \<and> distinct ts \<and> ts \<noteq> [] \<and> length ts \<le> 2
     \<and> set ts = {case ra_audio_epoch_ingress_target a of None \<Rightarrow> ra_mesh_media_fec_target a | Some t \<Rightarrow> t}
         \<union> set_option (ra_audio_epoch_redundant_ingress_target a)"
  by (auto simp: configured_audio_epoch_ingress_targets_def Let_def less_imp_not_eq2
      split: option.splits if_splits)

lemma bind_sender_eq_Inr:
  "bind_sender bind peer w = (Inr u, w') \<longleftrightarrow> bind (local_sender_addr peer) w = (True, w')"
  by (auto simp: bind_sender_def split: prod.splits)

lemma mesh_forwarder_ok:
  assumes "mesh_forwarder_new k bind a now w = (Inr f, w')"
  shows "fp_delivery_budget_ms f = ra_deadline_ms a \<and> 0 < fp_delivery_budget_ms f
     \<and> unat (fp_estimated_clock_error_ns f) = 1000000 * unat (ra_wall_clock_estimated_error_ms a)
     \<and> 0 < fp_estimated_clock_error_ns f \<and> 0 < fp_source_epoch f
     \<and> (fp_relay_exclusive f \<longrightarrow> fp_relay f \<noteq> None)
     \<and> sorted (fp_ingress_targets f) \<and> distinct (fp_ingress_targets f) \<and> fp_ingress_targets f \<noteq> []"
proof -
  from assms have "unat (fp_estimated_clock_error_ns f) = 1000000 * unat (ra_wall_clock_estimated_error_ms a)"
    and nz: "ra_wall_clock_estimated_error_ms a \<noteq> 0"
    by (auto simp: mesh_forwarder_new_def state_ok res_ok checked_mul_eq_Some)
  moreover from this have "0 < fp_estimated_clock_error_ns f"
    by (simp add: word_less_nat_alt unat_gt_0)
  moreover have "0 < max now 1" by (simp add: less_max_iff_disj)
  then have "0 < fp_source_epoch f" and "fp_delivery_budget_ms f = ra_deadline_ms a \<and> 0 < fp_delivery_budget_ms f"
    and "fp_relay_exclusive f \<longrightarrow> fp_relay f \<noteq> None"
    using assms by (auto simp: mesh_forwarder_new_def state_ok word_gt_0)
  moreover have "configured_audio_epoch_ingress_targets a = Inr (fp_ingress_targets f)"
    using assms by (auto simp: mesh_forwarder_new_def state_ok)
  ultimately show ?thesis by (blast dest: ingress_targets_eq_Inr)
qed

end
