(* ===== verification/Text_Scan.thy ===== *)
theory Text_Scan
  imports Text_Split
begin

text \<open>
  More of the standard library's text and slice searches, on texts kept as their UTF-8 bytes:
  \<^verbatim>\<open>windows(n).position\<close>, \<^verbatim>\<open>split\<close> at a string, \<^verbatim>\<open>lines\<close>, \<^verbatim>\<open>trim\<close> and \<^verbatim>\<open>split_whitespace\<close> with every white
  space character of Unicode, and \<^verbatim>\<open>from_str_radix\<close> at sixteen.
\<close>

section \<open>Searching\<close>

fun find_sub :: "'a list \<Rightarrow> 'a list \<Rightarrow> nat option" where
  "find_sub pat [] = (if pat = [] then Some 0 else None)"
| "find_sub pat (x # xs) = (if starts_with pat (x # xs) then Some 0 else map_option Suc (find_sub pat xs))"

lemma find_sub_Some:
  "find_sub pat xs = Some i \<Longrightarrow> i + length pat \<le> length xs \<and> take (length pat) (drop i xs) = pat"
proof (induction pat xs arbitrary: i rule: find_sub.induct)
  case (2 pat x xs)
  have "length pat \<le> Suc (length xs)" if "x # xs = pat @ zs" for zs using arg_cong [OF that, of length] by simp
  with 2 show ?case by (cases i) (auto simp: starts_with_iff split: if_splits)
qed (simp split: if_splits)

lemma find_sub_first:
  "find_sub pat xs = Some i \<Longrightarrow> j < i \<Longrightarrow> \<not> starts_with pat (drop j xs)"
proof (induction pat xs arbitrary: i j rule: find_sub.induct)
  case (2 pat x xs)
  then show ?case by (cases j) (auto split: if_splits)
qed (simp split: if_splits)

lemma find_sub_None: "find_sub pat xs = None \<Longrightarrow> \<not> starts_with pat (drop j xs)"
proof (induction pat xs arbitrary: j rule: find_sub.induct)
  case (1 pat)
  then show ?case by (auto simp: starts_with_iff split: if_splits)
next
  case (2 pat x xs)
  then show ?case by (cases j) (auto split: if_splits)
qed

text \<open>A two element pattern whose second element is not in the text before it is found where it stands.\<close>

lemma find_sub_pair:
  assumes "list_all (\<lambda>x. x \<noteq> b) xs" and "a \<noteq> b"
  shows "find_sub [a, b] (xs @ a # b # rest) = Some (length xs)"
  using assms
proof (induction xs)
  case (Cons x xs)
  then have "\<not> starts_with [a, b] (x # xs @ a # b # rest)"
    by (cases xs) (auto simp: starts_with_iff)
  with Cons show ?case by simp
qed (simp add: starts_with_iff)

function split_str :: "'a list \<Rightarrow> 'a list \<Rightarrow> 'a list list" where
  "split_str sep s = (case (if sep = [] then None else find_sub sep s) of
      None \<Rightarrow> [s]
    | Some i \<Rightarrow> take i s # split_str sep (drop (i + length sep) s))"
  by pat_completeness auto
termination
proof (relation "measure (length \<circ> snd)")
  fix sep s :: "'a list" and i
  assume "(if sep = [] then None else find_sub sep s) = Some i"
  then have "sep \<noteq> []" and "i + length sep \<le> length s" by (auto dest: find_sub_Some split: if_splits)
  then show "((sep, drop (i + length sep) s), sep, s) \<in> measure (length \<circ> snd)" by (cases sep) auto
qed simp

declare split_str.simps [simp del]

section \<open>White space\<close>

definition byte_char :: "nat \<Rightarrow> char" where "byte_char n = char_of n"

definition wide_spaces :: "string list" where
  "wide_spaces = map (map byte_char)
     ([[0xC2, 0x85], [0xC2, 0xA0], [0xE1, 0x9A, 0x80], [0xE2, 0x80, 0xA8], [0xE2, 0x80, 0xA9], [0xE2, 0x80, 0xAF],
       [0xE2, 0x81, 0x9F], [0xE3, 0x80, 0x80]] @ map (\<lambda>n. [0xE2, 0x80, 0x80 + n]) [0..<11])"

text \<open>The length of the white space character a text begins with, zero when it begins with none.\<close>

definition space_at :: "string list \<Rightarrow> string \<Rightarrow> nat" where
  "space_at wide s = (case s of
      [] \<Rightarrow> 0
    | c # _ \<Rightarrow> if char_code c \<in> {9, 10, 11, 12, 13, 32} then 1
        else (case find (\<lambda>w. starts_with w s) wide of None \<Rightarrow> 0 | Some w \<Rightarrow> length w))"

lemma space_at_pos: "0 < space_at wide s \<Longrightarrow> s \<noteq> []"
  by (cases s) (simp_all add: space_at_def)

function trim_front :: "string list \<Rightarrow> string \<Rightarrow> string" where
  "trim_front wide s = (if space_at wide s = 0 then s else trim_front wide (drop (space_at wide s) s))"
  by pat_completeness auto
termination
proof (relation "measure (length \<circ> snd)")
  fix wide s
  assume "space_at wide s \<noteq> 0"
  moreover from this have "s \<noteq> []" by (auto dest: space_at_pos)
  ultimately show "((wide, drop (space_at wide s) s), wide, s) \<in> measure (length \<circ> snd)" by (cases s) auto
qed simp

declare trim_front.simps [simp del]

definition trim :: "string \<Rightarrow> string" where
  "trim s = rev (trim_front (map rev wide_spaces) (rev (trim_front wide_spaces s)))"

function words_from :: "string \<Rightarrow> string \<Rightarrow> string list" where
  "words_from word s = (let flush = (if word = [] then [] else [word]) in
     case s of
       [] \<Rightarrow> flush
     | c # cs \<Rightarrow> (let n = space_at wide_spaces s in
         if n = 0 then words_from (word @ [c]) cs else flush @ words_from [] (drop n s)))"
  by pat_completeness auto
termination
  by (relation "measure (length \<circ> snd)") auto

declare words_from.simps [simp del]

definition split_whitespace :: "string \<Rightarrow> string list" where
  "split_whitespace s = words_from [] s"

section \<open>Lines\<close>

text \<open>\<^verbatim>\<open>str::lines\<close>: a final line end opens no further line and a carriage return before one goes.\<close>

definition strip_cr :: "string \<Rightarrow> string" where
  "strip_cr l = (if l \<noteq> [] \<and> last l = byte_char 13 then butlast l else l)"

definition text_lines :: "string \<Rightarrow> string list" where
  "text_lines s = (let ls = split_on (byte_char 10) s in
     map strip_cr (butlast ls) @ (if last ls = [] then [] else [last ls]))"

section \<open>Hexadecimal\<close>

definition hex_val :: "char \<Rightarrow> nat option" where
  "hex_val c = (let n = char_code c in
     if 48 \<le> n \<and> n \<le> 57 then Some (n - 48)
     else if 97 \<le> n \<and> n \<le> 102 then Some (n - 87)
     else if 65 \<le> n \<and> n \<le> 70 then Some (n - 55)
     else None)"

fun hex_digits :: "nat \<Rightarrow> string \<Rightarrow> nat option" where
  "hex_digits acc [] = Some acc"
| "hex_digits acc (c # cs) = (case hex_val c of None \<Rightarrow> None | Some d \<Rightarrow> hex_digits (16 * acc + d) cs)"

text \<open>\<^verbatim>\<open>usize::from_str_radix(s, 16)\<close> at 64 bits.\<close>

definition parse_hex :: "string \<Rightarrow> nat option" where
  "parse_hex s =
     (let digits = (case s of c # cs \<Rightarrow> if c = CHR ''+'' then cs else s | [] \<Rightarrow> []) in
      if digits = [] then None
      else case hex_digits 0 digits of None \<Rightarrow> None | Some n \<Rightarrow> if n < 2 ^ 64 then Some n else None)"

fun hex_str :: "nat \<Rightarrow> string" where
  "hex_str n = (let d = byte_char (if n mod 16 < 10 then 48 + n mod 16 else 87 + n mod 16) in
     if n < 16 then [d] else hex_str (n div 16) @ [d])"

declare hex_str.simps [simp del]

lemma hex_digits_append:
  "hex_digits acc (s @ t) = (case hex_digits acc s of None \<Rightarrow> None | Some n \<Rightarrow> hex_digits n t)"
  by (induction acc s rule: hex_digits.induct) (auto split: option.split)

lemma char_code_byte [simp]: "n < 256 \<Longrightarrow> char_code (byte_char n) = n"
  by (simp add: char_code_def byte_char_def)

lemma hex_digits_hex_str: "hex_digits 0 (hex_str n) = Some n"
proof (induction n rule: hex_str.induct)
  case (1 n)
  have digit: "hex_val (byte_char (if n mod 16 < 10 then 48 + n mod 16 else 87 + n mod 16)) = Some (n mod 16)"
    using mod_less_divisor [of 16 n] by (auto simp: hex_val_def Let_def)
  show ?case
  proof (cases "n < 16")
    case True
    then show ?thesis using digit by (subst hex_str.simps) (simp add: Let_def)
  next
    case False
    then have "hex_digits 0 (hex_str (n div 16)) = Some (n div 16)" using 1 by (simp add: Let_def)
    then show ?thesis using digit False by (subst hex_str.simps) (simp add: Let_def hex_digits_append)
  qed
qed

end
