(* ===== verification/Startup.thy ===== *)
theory Startup
  imports Relay_Config_Facts Http_Requests Audio_Epoch Quadra Text_Scan
begin

text \<open>
  \<^verbatim>\<open>main\<close> of \<^verbatim>\<open>src/src/bin/av-contrib.rs\<close>: what the command line turns into, in which order the listeners and
  workers are started, where a refused setting stops the start, and the order of the shutdown. Everything
  that reaches outside (sockets, listeners, certificate files, the hardware pipeline, the server) is an
  action on a world that answers whether it worked; the state keeps the actions done. Log lines and the
  banner are left out. The counters of the UDP socket in the kernel's table are here too.
\<close>

section \<open>Settings\<close>

datatype rist_profile = RistSimple | RistMain

primrec rist_profile_as_str :: "rist_profile \<Rightarrow> string" where
  "rist_profile_as_str RistSimple = ''simple''"
| "rist_profile_as_str RistMain = ''main''"

datatype daw_hls_packaging = DawOpaque | DawFmp4
datatype daw_hls_format = DawOpus | DawFlac | DawPcm

primrec payload_kind_of_daw :: "daw_hls_format \<Rightarrow> audio_payload_kind" where
  "payload_kind_of_daw DawOpus = KindOpus"
| "payload_kind_of_daw DawFlac = KindFlac"
| "payload_kind_of_daw DawPcm = KindPcm"

primrec packaging_of_daw :: "daw_hls_packaging \<Rightarrow> hls_packaging" where
  "packaging_of_daw DawOpaque = PackOpaque"
| "packaging_of_daw DawFmp4 = PackFmp4"

record quadra_cli_args =
  qa_renditions :: "quadra_rendition_spec list"
  qa_source_width :: u16
  qa_source_height :: u16
  qa_frame_rate_millihertz :: u32
  qa_hardware_id :: "int option"
  qa_queue_capacity :: nat
  qa_derived_only :: bool

record contrib_args =
  ca_http_port :: u16
  ca_cert :: "string option"
  ca_key :: "string option"
  ca_relay :: relay_args
  ca_daw_media_bind :: "socket_addr option"
  ca_daw_hls_queue_capacity :: nat
  ca_daw_hls_packaging :: daw_hls_packaging
  ca_daw_hls_formats :: "daw_hls_format list"
  ca_stream_id :: u64
  ca_rist_stream_id :: u64
  ca_srt_stream_id :: u64
  ca_rtmp_stream_id :: u64
  ca_rist_bind :: "socket_addr option"
  ca_rist_profile :: rist_profile
  ca_srt_bind :: "socket_addr option"
  ca_rtmp_bind :: "socket_addr option"
  ca_fmp4_part_ms :: u32
  ca_fmp4_segment_ms :: u32
  ca_hls_target_duration_ms :: u32
  ca_playlist_count :: nat
  ca_playlist_buffer_kb :: nat
  ca_quadra :: quadra_cli_args

definition playlist_part_capacity :: "u32 \<Rightarrow> u32 \<Rightarrow> nat" where
  "playlist_part_capacity segment_ms part_ms =
     (let part_ms = ucast (max part_ms 1) :: u64;
          target_parts = div_ceil (ucast (max segment_ms 1)) part_ms
      in unat (min (max (sat_add target_parts 8) 128) 4096))"

record playlist_options =
  po_max_segments :: nat
  po_num_playlists :: nat
  po_max_parts_per_segment :: nat
  po_max_parted_segments :: nat
  po_segment_min_ms :: u32
  po_target_duration_ms :: u32
  po_part_target_ms :: u32
  po_buffer_size_kb :: nat
  po_init_size_kb :: nat

definition playlist_options_of :: "contrib_args \<Rightarrow> playlist_options" where
  "playlist_options_of a =
     \<lparr>po_max_segments = 32, po_num_playlists = max (ca_playlist_count a) 1,
      po_max_parts_per_segment = playlist_part_capacity (ca_fmp4_segment_ms a) (ca_fmp4_part_ms a),
      po_max_parted_segments = 32,
      po_segment_min_ms = max (max (ca_fmp4_segment_ms a) (ca_fmp4_part_ms a)) 1,
      po_target_duration_ms = max (ca_hls_target_duration_ms a) 1000,
      po_part_target_ms = max (ca_fmp4_part_ms a) 1,
      po_buffer_size_kb = max (ca_playlist_buffer_kb a) 1, po_init_size_kb = 5\<rparr>"

record upload_response_limits =
  ul_num_streams :: nat
  ul_slot_size_kb :: nat
  ul_slots_per_stream :: nat
  ul_response_timeout_ms :: u64

definition upload_response_config :: upload_response_limits where
  "upload_response_config = \<lparr>ul_num_streams = 8, ul_slot_size_kb = 47, ul_slots_per_stream = 32768,
     ul_response_timeout_ms = 60000\<rparr>"

definition advertised_hls_stream_id :: "contrib_args \<Rightarrow> u64" where
  "advertised_hls_stream_id a =
     (if ca_rist_bind a \<noteq> None then ca_rist_stream_id a
      else if ca_srt_bind a \<noteq> None then ca_srt_stream_id a
      else if ca_rtmp_bind a \<noteq> None then ca_rtmp_stream_id a
      else ca_stream_id a)"

definition adapters_of :: "contrib_args \<Rightarrow> adapter_binds" where
  "adapters_of a = \<lparr>ab_daw_media = ca_daw_media_bind a \<noteq> None, ab_rist = ca_rist_bind a \<noteq> None,
     ab_srt = ca_srt_bind a \<noteq> None, ab_rtmp = ca_rtmp_bind a \<noteq> None\<rparr>"

text \<open>The clock readings: a clock before the epoch reads zero, and the counts are cut to their width.\<close>

definition now_unix_ms :: "nat option \<Rightarrow> u64" where
  "now_unix_ms since_epoch_us = (case since_epoch_us of None \<Rightarrow> 0 | Some us \<Rightarrow> of_nat (us div 1000))"

definition now_unix_seconds :: "nat option \<Rightarrow> int" where
  "now_unix_seconds since_epoch_us =
     (case since_epoch_us of None \<Rightarrow> 0 | Some us \<Rightarrow> (let s = int (us div 1000000) in if s \<le> i64_max then s else i64_max))"

definition now_unix_us :: "nat option \<Rightarrow> u64" where
  "now_unix_us since_epoch_us = (case since_epoch_us of None \<Rightarrow> 0 | Some us \<Rightarrow> of_nat us)"

section \<open>The socket's drop counter\<close>

definition linux_socket_inode :: "string \<Rightarrow> u64 option" where
  "linux_socket_inode link =
     (case strip_prefix ''socket:['' link of
        None \<Rightarrow> None
      | Some rest \<Rightarrow> (case rev rest of c # r \<Rightarrow> if c = CHR '']'' then parse_uint (rev r) else None | [] \<Rightarrow> None))"

text \<open>\<^verbatim>\<open>str::lines\<close>: a final line end opens no further line and a carriage return before one goes.\<close>

fun split_ascii_whitespace :: "string \<Rightarrow> string \<Rightarrow> string list" where
  "split_ascii_whitespace word [] = (if word = [] then [] else [word])"
| "split_ascii_whitespace word (c # cs) =
     (if is_ascii_whitespace c then (if word = [] then [] else [word]) @ split_ascii_whitespace [] cs
      else split_ascii_whitespace (word @ [c]) cs)"

definition drops_of_line :: "u64 \<Rightarrow> string \<Rightarrow> u64 option" where
  "drops_of_line socket_inode line =
     (let fields = split_ascii_whitespace [] line in
      if length fields \<le> 9 then None
      else case parse_uint (fields ! 9) of
          None \<Rightarrow> None
        | Some inode \<Rightarrow> if inode = socket_inode then parse_uint (last fields) else None)"

fun find_map :: "('a \<Rightarrow> 'b option) \<Rightarrow> 'a list \<Rightarrow> 'b option" where
  "find_map f [] = None"
| "find_map f (x # xs) = (case f x of Some b \<Rightarrow> Some b | None \<Rightarrow> find_map f xs)"

definition linux_udp_socket_drops_from_table :: "string \<Rightarrow> u64 \<Rightarrow> u64 option" where
  "linux_udp_socket_drops_from_table table socket_inode =
     find_map (drops_of_line socket_inode) (drop 1 (text_lines table))"

definition daw_media_udp_socket_drops :: "u64 \<Rightarrow> (string \<Rightarrow> string option) \<Rightarrow> u64 option" where
  "daw_media_udp_socket_drops inode read =
     (if inode = 0 then None
      else find_map (\<lambda>t. linux_udp_socket_drops_from_table t inode)
             (List.map_filter read [''/proc/net/udp'', ''/proc/net/udp6'']))"

section \<open>Starting\<close>

record rist_ingest_config =
  ri_bind :: socket_addr
  ri_profile :: rist_profile
  ri_output_stream_id :: u64
  ri_output_stream_idx :: nat
  ri_min_part_ms :: u32

datatype startup_action =
  LoadTls "(string \<times> string) option"
| StartQuadra quadra_rendition_config "quadra_rendition_target list" u32
| StartRist rist_ingest_config bool bool
| StartSrt socket_addr u64 u32
| StartRtmp socket_addr u64 u32
| BindDaw socket_addr
| StartHlsWorker hls_config nat
| StartMeshWorker nat
| StartDaw
| StartServer u16

datatype main_error =
  SrtNotCompiled | StartupRefused startup_error | TlsPair | ActionFailed startup_action
| RelayRefused relay_config_error | DerivedOnlyWithoutRendition | QuadraRequiresRist
| QuadraInvalid quadra_config_error | AuthorizerInvalid string

record 'w start_state =
  st_world :: 'w
  st_actions :: "startup_action list"

record ('g, 'w) start_env =
  se_srt_compiled :: bool
  se_quadra_compiled :: bool
  se_enforce_compiled :: bool
  se_gate_from_path :: "string \<Rightarrow> publish_authorization_mode \<Rightarrow> publish_ingress_error + gate \<times> lease_verifier"
  se_mode_value :: "string option"
  se_bundle_path :: "string option"
  se_session_api :: "string option"
  se_parse_url :: "string \<Rightarrow> service_url option"
  se_relay :: "('g, 'w) relay_crate"
  se_bind_sender :: "socket_addr \<Rightarrow> 'w \<Rightarrow> bool \<times> 'w"
  se_now_us :: u64
  se_stream_idx :: "u64 \<Rightarrow> 'w \<Rightarrow> nat \<times> 'w"
  se_act :: "startup_action \<Rightarrow> 'w \<Rightarrow> bool \<times> 'w"

type_synonym ('a, 'w) starting = "(main_error, 'a, 'w start_state) fallible"

definition attempt :: "('g, 'w) start_env \<Rightarrow> startup_action \<Rightarrow> (unit, 'w) starting" where
  "attempt env act st =
     (case se_act env act (st_world st) of
        (False, w) \<Rightarrow> (Inl (ActionFailed act), st\<lparr>st_world := w\<rparr>)
      | (True, w) \<Rightarrow> (Inr (), st\<lparr>st_world := w, st_actions := st_actions st @ [act]\<rparr>))"

definition on_world :: "('e \<Rightarrow> main_error) \<Rightarrow> ('e, 'a, 'w) fallible \<Rightarrow> ('a, 'w) starting" where
  "on_world err m st = (case m (st_world st) of (r, w) \<Rightarrow> (map_err err r, st\<lparr>st_world := w\<rparr>))"

text \<open>\<^verbatim>\<open>resolve_output_stream_idx\<close> with the playlists just made: a number below their count is its own index.\<close>

definition stream_idx_of :: "('g, 'w) start_env \<Rightarrow> contrib_args \<Rightarrow> u64 \<Rightarrow> (nat, 'w) starting" where
  "stream_idx_of env a stream_id st =
     (if unat stream_id < po_num_playlists (playlist_options_of a) then (Inr (unat stream_id), st)
      else case se_stream_idx env stream_id (st_world st) of (i, w) \<Rightarrow> (Inr i, st\<lparr>st_world := w\<rparr>))"

definition validate_compiled_ingress_features :: "('g, 'w) start_env \<Rightarrow> contrib_args \<Rightarrow> main_error + unit" where
  "validate_compiled_ingress_features env a = fail_when (\<not> se_srt_compiled env \<and> ca_srt_bind a \<noteq> None) SrtNotCompiled"

definition load_tls :: "('g, 'w) start_env \<Rightarrow> contrib_args \<Rightarrow> (unit, 'w) starting" where
  "load_tls env a =
     (case (ca_cert a, ca_key a) of
        (Some cert, Some key) \<Rightarrow> attempt env (LoadTls (Some (cert, key)))
      | (None, None) \<Rightarrow> attempt env (LoadTls None)
      | _ \<Rightarrow> slift (Inl TlsPair))"

fun quadra_targets ::
    "('g, 'w) start_env \<Rightarrow> contrib_args \<Rightarrow> quadra_rendition_spec list \<Rightarrow> (quadra_rendition_target list, 'w) starting" where
  "quadra_targets env a [] = slift (Inr [])"
| "quadra_targets env a (spec # specs) =
     sbind (stream_idx_of env a (qs_stream_id spec)) (\<lambda>i.
     sbind (quadra_targets env a specs) (\<lambda>ts.
     slift (Inr (\<lparr>qt_spec = spec, qt_stream_idx = i\<rparr> # ts))))"

definition quadra_config_of :: "contrib_args \<Rightarrow> quadra_rendition_config" where
  "quadra_config_of a = (let q = ca_quadra a in
     \<lparr>qc_source_stream_id = ca_rist_stream_id a, qc_source_width = qa_source_width q,
      qc_source_height = qa_source_height q, qc_frame_rate_millihertz = qa_frame_rate_millihertz q,
      qc_hardware_id = qa_hardware_id q, qc_queue_capacity = qa_queue_capacity q, qc_renditions = qa_renditions q\<rparr>)"

definition start_ladder :: "('g, 'w) start_env \<Rightarrow> contrib_args \<Rightarrow> (bool, 'w) starting" where
  "start_ladder env a =
     (if \<not> se_quadra_compiled env then slift (Inr False)
      else if qa_derived_only (ca_quadra a) \<and> qa_renditions (ca_quadra a) = [] then slift (Inl DerivedOnlyWithoutRendition)
      else if qa_renditions (ca_quadra a) = [] then slift (Inr False)
      else if ca_rist_bind a = None then slift (Inl QuadraRequiresRist)
      else let config = quadra_config_of a in
        sbind (slift (map_err QuadraInvalid (quadra_validate config))) (\<lambda>_.
        sbind (quadra_targets env a (qc_renditions config)) (\<lambda>targets.
        sbind (attempt env (StartQuadra config targets (ca_fmp4_part_ms a))) (\<lambda>_.
        slift (Inr True)))))"

definition start_rist :: "('g, 'w) start_env \<Rightarrow> contrib_args \<Rightarrow> bool \<Rightarrow> (unit, 'w) starting" where
  "start_rist env a has_sink =
     (case ca_rist_bind a of
        None \<Rightarrow> slift (Inr ())
      | Some bind \<Rightarrow>
          sbind (stream_idx_of env a (ca_rist_stream_id a)) (\<lambda>i.
          attempt env (StartRist
            \<lparr>ri_bind = bind, ri_profile = ca_rist_profile a, ri_output_stream_id = ca_rist_stream_id a,
             ri_output_stream_idx = i, ri_min_part_ms = ca_fmp4_part_ms a\<rparr>
            has_sink (\<not> (se_quadra_compiled env \<and> qa_derived_only (ca_quadra a))))))"

definition start_srt :: "('g, 'w) start_env \<Rightarrow> contrib_args \<Rightarrow> (unit, 'w) starting" where
  "start_srt env a =
     (if \<not> se_srt_compiled env then slift (Inr ())
      else case ca_srt_bind a of
          None \<Rightarrow> slift (Inr ())
        | Some bind \<Rightarrow>
            sbind (attempt env (StartSrt bind (ca_srt_stream_id a) (ca_fmp4_part_ms a))) (\<lambda>_.
            sbind (stream_idx_of env a (ca_srt_stream_id a)) (\<lambda>_. slift (Inr ()))))"

definition start_rtmp :: "('g, 'w) start_env \<Rightarrow> contrib_args \<Rightarrow> (unit, 'w) starting" where
  "start_rtmp env a =
     (case ca_rtmp_bind a of
        None \<Rightarrow> slift (Inr ())
      | Some bind \<Rightarrow> attempt env (StartRtmp bind (ca_rtmp_stream_id a) (ca_fmp4_part_ms a)))"

definition hls_config_of :: "contrib_args \<Rightarrow> hls_config" where
  "hls_config_of a = new_hls_config (ca_stream_id a) (ca_fmp4_part_ms a) (packaging_of_daw (ca_daw_hls_packaging a))
     (map payload_kind_of_daw (ca_daw_hls_formats a))"

definition start_daw :: "('g, 'w) start_env \<Rightarrow> contrib_args \<Rightarrow> (bool, 'w) starting" where
  "start_daw env a =
     (case ca_daw_media_bind a of
        None \<Rightarrow> slift (Inr False)
      | Some bind \<Rightarrow>
          sbind (attempt env (BindDaw bind)) (\<lambda>_.
          sbind (attempt env (StartHlsWorker (hls_config_of a) (max (ca_daw_hls_queue_capacity a) 1))) (\<lambda>_.
          sbind (attempt env (StartMeshWorker 32768)) (\<lambda>_.
          sbind (attempt env StartDaw) (\<lambda>_.
          slift (Inr True))))))"

record 'g contrib_router =
  cr_forwarder :: "'g forwarder_plan"
  cr_default_stream_id :: u64
  cr_gate :: "(gate \<times> lease_verifier) option"
  cr_authorizer :: "service_url option"
  cr_audio_queues :: bool

definition contrib_main :: "('g::linorder, 'w) start_env \<Rightarrow> contrib_args \<Rightarrow> ('g contrib_router, 'w) starting" where
  "contrib_main env a =
     sbind (slift (validate_compiled_ingress_features env a)) (\<lambda>_.
     sbind (slift (map_err StartupRefused (load_publish_ingress_gate (se_enforce_compiled env) (se_gate_from_path env)
       (se_mode_value env) (se_bundle_path env)))) (\<lambda>gate.
     sbind (slift (map_err StartupRefused (validate_enforced_ingress_adapters (adapters_of a) (map_option fst gate)))) (\<lambda>_.
     sbind (load_tls env a) (\<lambda>_.
     sbind (on_world RelayRefused (mesh_forwarder_new (se_relay env) (se_bind_sender env) (ca_relay a) (se_now_us env))) (\<lambda>forwarder.
     sbind (start_ladder env a) (\<lambda>has_sink.
     sbind (start_rist env a has_sink) (\<lambda>_.
     sbind (start_srt env a) (\<lambda>_.
     sbind (start_rtmp env a) (\<lambda>_.
     sbind (start_daw env a) (\<lambda>audio.
     sbind (slift (map_err AuthorizerInvalid (authorizer_from_environment (se_parse_url env) (se_session_api env)))) (\<lambda>authorizer.
     sbind (attempt env (StartServer (ca_http_port a))) (\<lambda>_.
     slift (Inr \<lparr>cr_forwarder = forwarder, cr_default_stream_id = ca_stream_id a, cr_gate = gate,
       cr_authorizer = authorizer, cr_audio_queues = audio\<rparr>)))))))))))))"

section \<open>Stopping\<close>

datatype stop_step =
  TellServer | TellTasks | TellRist | TellSrt | TellRtmp
| AwaitServer | AwaitRtmpListener | AwaitRtmpTask | AwaitDawTask | AwaitHlsTask | AwaitMeshTask

definition contrib_shutdown :: "bool \<Rightarrow> contrib_args \<Rightarrow> stop_step list" where
  "contrib_shutdown srt_compiled a =
     [TellServer, TellTasks]
     @ (if ca_rist_bind a \<noteq> None then [TellRist] else [])
     @ (if srt_compiled \<and> ca_srt_bind a \<noteq> None then [TellSrt] else [])
     @ (if ca_rtmp_bind a \<noteq> None then [TellRtmp] else [])
     @ [AwaitServer]
     @ (if ca_rtmp_bind a \<noteq> None then [AwaitRtmpListener, AwaitRtmpTask] else [])
     @ (if ca_daw_media_bind a \<noteq> None then [AwaitDawTask, AwaitHlsTask, AwaitMeshTask] else [])"

end
