(* ===== verification/Startup_Facts.thy ===== *)
theory Startup_Facts
  imports Startup "HOL-Library.Sublist"
begin

text \<open>
  The order of the start as a function of the settings, proved with a small calculus of the actions a
  fallible step does; the conditions under which anything is started at all; the shutdown.
\<close>

text \<open>Actions without the playlist indices, which the playlists choose.\<close>

fun unindexed :: "startup_action \<Rightarrow> startup_action" where
  "unindexed (StartRist c sink source) = StartRist (c\<lparr>ri_output_stream_idx := 0\<rparr>) sink source"
| "unindexed (StartQuadra c targets part) = StartQuadra c (map (\<lambda>t. t\<lparr>qt_stream_idx := 0\<rparr>) targets) part"
| "unindexed a = a"

section \<open>What a step does\<close>

definition does :: "('a, 'w) starting \<Rightarrow> startup_action list \<Rightarrow> bool" where
  "does m ks \<longleftrightarrow> (\<forall>s. \<exists>acts. st_actions (snd (m s)) = st_actions s @ acts \<and>
     (case fst (m s) of Inl _ \<Rightarrow> prefix (map unindexed acts) ks | Inr _ \<Rightarrow> map unindexed acts = ks))"

definition ends_with :: "('a, 'w) starting \<Rightarrow> startup_action list \<Rightarrow> bool" where
  "ends_with m ks \<longleftrightarrow> ks \<noteq> [] \<and> (\<forall>s. \<exists>acts. st_actions (snd (m s)) = st_actions s @ acts \<and>
     (case fst (m s) of Inl _ \<Rightarrow> strict_prefix (map unindexed acts) ks | Inr _ \<Rightarrow> map unindexed acts = ks))"

named_theorems does_intros \<open>what a step of the start does\<close>

lemma does_slift [does_intros]: "does (slift r) []"
  by (auto simp: does_def slift_def split: sum.split)

lemma does_attempt [does_intros]: "does (attempt env act) [unindexed act]"
  by (auto simp: does_def attempt_def split: prod.splits bool.splits)

lemma does_on_world [does_intros]: "does (on_world err m) []"
  by (auto simp: does_def on_world_def split: prod.splits sum.split)

lemma does_stream_idx [does_intros]: "does (stream_idx_of env a i) []"
  by (auto simp: does_def stream_idx_of_def split: prod.splits)

lemma does_sbind:
  assumes "does m ks" and "\<And>s a s'. m s = (Inr a, s') \<Longrightarrow> does (f a) ls"
  shows "does (sbind m f) (ks @ ls)"
  unfolding does_def
proof
  fix s
  obtain acts where m: "st_actions (snd (m s)) = st_actions s @ acts"
    "case fst (m s) of Inl _ \<Rightarrow> prefix (map unindexed acts) ks | Inr _ \<Rightarrow> map unindexed acts = ks"
    using assms(1) unfolding does_def by blast
  show "\<exists>acts. st_actions (snd (sbind m f s)) = st_actions s @ acts \<and>
      (case fst (sbind m f s) of Inl _ \<Rightarrow> prefix (map unindexed acts) (ks @ ls) | Inr _ \<Rightarrow> map unindexed acts = ks @ ls)"
  proof (cases "m s")
    case (Pair r t)
    show ?thesis
    proof (cases r)
      case (Inl e)
      with m Pair show ?thesis by (auto simp: sbind_def intro: prefix_prefix)
    next
      case (Inr x)
      obtain more where "st_actions (snd (f x t)) = st_actions t @ more"
        "case fst (f x t) of Inl _ \<Rightarrow> prefix (map unindexed more) ls | Inr _ \<Rightarrow> map unindexed more = ls"
        using assms(2) Pair Inr unfolding does_def by blast
      with m Pair Inr show ?thesis
        by (intro exI [of _ "acts @ more"]) (auto simp: sbind_def split: sum.splits)
    qed
  qed
qed

lemma ends_with_sbind:
  assumes "does m ks" and "\<And>s a s'. m s = (Inr a, s') \<Longrightarrow> ends_with (f a) ls" and ls: "ls \<noteq> []"
  shows "ends_with (sbind m f) (ks @ ls)"
  unfolding ends_with_def
proof (intro conjI allI)
  from ls show "ks @ ls \<noteq> []" by simp
  fix s
  obtain acts where m: "st_actions (snd (m s)) = st_actions s @ acts"
    "case fst (m s) of Inl _ \<Rightarrow> prefix (map unindexed acts) ks | Inr _ \<Rightarrow> map unindexed acts = ks"
    using assms(1) unfolding does_def by blast
  show "\<exists>acts. st_actions (snd (sbind m f s)) = st_actions s @ acts \<and>
      (case fst (sbind m f s) of Inl _ \<Rightarrow> strict_prefix (map unindexed acts) (ks @ ls) | Inr _ \<Rightarrow> map unindexed acts = ks @ ls)"
  proof (cases "m s")
    case (Pair r t)
    show ?thesis
    proof (cases r)
      case (Inl e)
      with m Pair have "prefix (map unindexed acts) ks" by simp
      with ls show ?thesis using m Pair Inl by (auto simp: sbind_def strict_prefix_def prefix_def)
    next
      case (Inr x)
      obtain more where "st_actions (snd (f x t)) = st_actions t @ more"
        "case fst (f x t) of Inl _ \<Rightarrow> strict_prefix (map unindexed more) ls | Inr _ \<Rightarrow> map unindexed more = ls"
        using assms(2) Pair Inr unfolding ends_with_def by blast
      with m Pair Inr show ?thesis
        by (intro exI [of _ "acts @ more"]) (auto simp: sbind_def strict_prefix_def split: sum.splits)
    qed
  qed
qed

lemma does_then:
  "does m [] \<Longrightarrow> (\<And>s a s'. m s = (Inr a, s') \<Longrightarrow> does (f a) ls) \<Longrightarrow> does (sbind m f) ls"
  using does_sbind [of m "[]" f ls] by simp

lemma does_first: "does m ks \<Longrightarrow> (\<And>s a s'. m s = (Inr a, s') \<Longrightarrow> does (f a) []) \<Longrightarrow> does (sbind m f) ks"
  using does_sbind [of m ks f "[]"] by simp

lemma ends_with_attempt: "ends_with (sbind (attempt env act) (\<lambda>_. slift (Inr x))) [unindexed act]"
  by (auto simp: ends_with_def sbind_def slift_def attempt_def strict_prefix_def split: prod.splits bool.splits)

lemma does_quadra_targets [does_intros]: "does (quadra_targets env a specs) []"
proof (induction specs)
  case (Cons spec specs)
  have "does (quadra_targets env a (spec # specs)) ([] @ [] @ [])"
    unfolding quadra_targets.simps by (intro does_sbind does_intros Cons.IH)
  then show ?case by simp
qed (simp add: does_intros)

section \<open>The order\<close>

definition ladder_order :: "('g, 'w) start_env \<Rightarrow> contrib_args \<Rightarrow> startup_action list" where
  "ladder_order env a =
     (if se_quadra_compiled env \<and> qa_renditions (ca_quadra a) \<noteq> []
      then [StartQuadra (quadra_config_of a) (map (\<lambda>r. \<lparr>qt_spec = r, qt_stream_idx = 0\<rparr>) (qa_renditions (ca_quadra a)))
              (ca_fmp4_part_ms a)]
      else [])"

definition rist_order :: "('g, 'w) start_env \<Rightarrow> contrib_args \<Rightarrow> startup_action list" where
  "rist_order env a =
     (case ca_rist_bind a of
        None \<Rightarrow> []
      | Some b \<Rightarrow> [StartRist \<lparr>ri_bind = b, ri_profile = ca_rist_profile a, ri_output_stream_id = ca_rist_stream_id a,
            ri_output_stream_idx = 0, ri_min_part_ms = ca_fmp4_part_ms a\<rparr>
          (se_quadra_compiled env \<and> qa_renditions (ca_quadra a) \<noteq> [])
          (\<not> (se_quadra_compiled env \<and> qa_derived_only (ca_quadra a)))])"

definition srt_order :: "('g, 'w) start_env \<Rightarrow> contrib_args \<Rightarrow> startup_action list" where
  "srt_order env a = (case ca_srt_bind a of None \<Rightarrow> []
     | Some b \<Rightarrow> if se_srt_compiled env then [StartSrt b (ca_srt_stream_id a) (ca_fmp4_part_ms a)] else [])"

definition rtmp_order :: "contrib_args \<Rightarrow> startup_action list" where
  "rtmp_order a = (case ca_rtmp_bind a of None \<Rightarrow> []
     | Some b \<Rightarrow> [StartRtmp b (ca_rtmp_stream_id a) (ca_fmp4_part_ms a)])"

definition daw_order :: "contrib_args \<Rightarrow> startup_action list" where
  "daw_order a = (case ca_daw_media_bind a of None \<Rightarrow> []
     | Some b \<Rightarrow> [BindDaw b, StartHlsWorker (hls_config_of a) (max (ca_daw_hls_queue_capacity a) 1), StartMeshWorker 32768, StartDaw])"

definition start_order :: "('g, 'w) start_env \<Rightarrow> contrib_args \<Rightarrow> startup_action list" where
  "start_order env a =
     [LoadTls (case ca_cert a of None \<Rightarrow> None | Some c \<Rightarrow> map_option (Pair c) (ca_key a))]
     @ ladder_order env a @ rist_order env a @ srt_order env a @ rtmp_order a @ daw_order a
     @ [StartServer (ca_http_port a)]"

lemma quadra_targets_result:
  "quadra_targets env a specs s = (Inr ts, s') \<Longrightarrow>
     map (\<lambda>t. t\<lparr>qt_stream_idx := 0\<rparr>) ts = map (\<lambda>r. \<lparr>qt_spec = r, qt_stream_idx = 0\<rparr>) specs"
  by (induction specs arbitrary: ts s s') (auto simp: state_ok)

lemma start_ladder_result:
  "start_ladder env a s = (Inr b, s') \<Longrightarrow> b \<longleftrightarrow> se_quadra_compiled env \<and> qa_renditions (ca_quadra a) \<noteq> []"
  by (auto simp: start_ladder_def state_ok Let_def split: if_splits)

lemma does_start_ladder [does_intros]: "does (start_ladder env a) (ladder_order env a)"
proof (cases "se_quadra_compiled env \<and> qa_renditions (ca_quadra a) \<noteq> [] \<and> ca_rist_bind a \<noteq> None")
  case True
  let ?c = "quadra_config_of a"
  have start: "does (sbind (attempt env (StartQuadra ?c ts (ca_fmp4_part_ms a))) (\<lambda>_. slift (Inr True))) (ladder_order env a)"
    if "quadra_targets env a (qc_renditions ?c) s = (Inr ts, s')" for ts s s'
    using does_attempt [of env "StartQuadra ?c ts (ca_fmp4_part_ms a)"] quadra_targets_result [OF that] True
    by (intro does_first does_slift) (simp add: ladder_order_def quadra_config_of_def Let_def)
  have "start_ladder env a = sbind (slift (map_err QuadraInvalid (quadra_validate ?c))) (\<lambda>_.
        sbind (quadra_targets env a (qc_renditions ?c)) (\<lambda>ts.
        sbind (attempt env (StartQuadra ?c ts (ca_fmp4_part_ms a))) (\<lambda>_. slift (Inr True))))"
    using True by (auto simp: start_ladder_def Let_def)
  then show ?thesis using does_then [OF does_slift does_then [OF does_quadra_targets start]] by simp
next
  case False
  then show ?thesis
    by (auto simp: start_ladder_def ladder_order_def does_def slift_def)
qed

lemma does_load_tls [does_intros]:
  "does (load_tls env a) [LoadTls (case ca_cert a of None \<Rightarrow> None | Some c \<Rightarrow> map_option (Pair c) (ca_key a))]"
  by (auto simp: load_tls_def does_def slift_def attempt_def split: option.split prod.splits bool.splits)

lemma does_start_rist:
  assumes "has_sink \<longleftrightarrow> se_quadra_compiled env \<and> qa_renditions (ca_quadra a) \<noteq> []"
  shows "does (start_rist env a has_sink) (rist_order env a)"
proof (cases "ca_rist_bind a")
  case (Some b)
  have "does (attempt env (StartRist (c i) has_sink src)) [StartRist ((c i)\<lparr>ri_output_stream_idx := 0\<rparr>) has_sink src]" for c i src
    using does_attempt [of env "StartRist (c i) has_sink src"] by simp
  from this [of "\<lambda>i. \<lparr>ri_bind = b, ri_profile = ca_rist_profile a, ri_output_stream_id = ca_rist_stream_id a,
      ri_output_stream_idx = i, ri_min_part_ms = ca_fmp4_part_ms a\<rparr>"] Some assms
  show ?thesis by (auto simp: start_rist_def rist_order_def intro!: does_then does_stream_idx)
qed (simp add: start_rist_def rist_order_def does_slift)

lemma does_start_srt [does_intros]: "does (start_srt env a) (srt_order env a)"
proof (cases "ca_srt_bind a")
  case (Some b)
  have "does (sbind (attempt env (StartSrt b i p)) (\<lambda>_. sbind (stream_idx_of env a i) (\<lambda>_. slift (Inr ())))) [StartSrt b i p]" for i p
    using does_attempt [of env "StartSrt b i p"]
    by (auto intro!: does_first [OF _ does_then] does_slift does_stream_idx)
  then show ?thesis using Some by (auto simp: start_srt_def srt_order_def does_slift)
qed (simp add: start_srt_def srt_order_def does_slift)

lemma does_start_rtmp [does_intros]: "does (start_rtmp env a) (rtmp_order a)"
  using does_attempt [of env "StartRtmp _ _ _"]
  by (auto simp: start_rtmp_def rtmp_order_def does_slift split: option.split)

lemma does_start_daw [does_intros]: "does (start_daw env a) (daw_order a)"
proof (cases "ca_daw_media_bind a")
  case (Some b)
  have "does (start_daw env a) ([unindexed (BindDaw b)]
      @ [unindexed (StartHlsWorker (hls_config_of a) (max (ca_daw_hls_queue_capacity a) 1))]
      @ [unindexed (StartMeshWorker 32768)] @ [unindexed StartDaw] @ [])"
    unfolding start_daw_def Some option.case by (intro does_sbind does_intros)
  then show ?thesis using Some by (simp add: daw_order_def)
qed (simp add: start_daw_def daw_order_def does_slift)

section \<open>The start\<close>

text \<open>What must hold of the settings before the first action.\<close>

definition settings_ok :: "('g, 'w) start_env \<Rightarrow> contrib_args \<Rightarrow> bool" where
  "settings_ok env a \<longleftrightarrow> (se_srt_compiled env \<or> ca_srt_bind a = None) \<and>
     (case load_publish_ingress_gate (se_enforce_compiled env) (se_gate_from_path env) (se_mode_value env) (se_bundle_path env) of
        Inl _ \<Rightarrow> False
      | Inr None \<Rightarrow> True
      | Inr (Some (g, _)) \<Rightarrow> g_mode g \<noteq> Enforce \<or> legacy_adapters (adapters_of a) = [])"

definition not_started :: "'w \<Rightarrow> 'w start_state" where
  "not_started w = \<lparr>st_world = w, st_actions = []\<rparr>"

lemma sbind_slift: "sbind (slift r) f s = (case r of Inl e \<Rightarrow> (Inl e, s) | Inr a \<Rightarrow> f a s)"
  by (cases r) (simp_all add: sbind_def slift_def)

lemma refused_settings:
  assumes "\<not> settings_ok env a"
  shows "st_actions (snd (contrib_main env a (not_started w))) = []"
proof (cases "\<not> se_srt_compiled env \<and> ca_srt_bind a \<noteq> None")
  case False
  show ?thesis
  proof (cases "load_publish_ingress_gate (se_enforce_compiled env) (se_gate_from_path env) (se_mode_value env) (se_bundle_path env)")
    case (Inr gate)
    with assms False have "\<exists>e. validate_enforced_ingress_adapters (adapters_of a) (map_option fst gate) = Inl e"
      by (cases gate) (auto simp: settings_ok_def validate_enforced_ingress_adapters_def)
    with False Inr show ?thesis
      by (auto simp: contrib_main_def sbind_slift validate_compiled_ingress_features_def fail_when_def map_err_def
          not_started_def simp del: not_None_eq)
  qed (use False in \<open>simp add: contrib_main_def sbind_slift validate_compiled_ingress_features_def fail_when_def map_err_def
          not_started_def del: not_None_eq\<close>)
qed (simp add: contrib_main_def sbind_slift validate_compiled_ingress_features_def fail_when_def not_started_def)

lemma main_order: "ends_with (contrib_main env a) (start_order env a)"
proof -
  have "ends_with (contrib_main env a)
      ([] @ [] @ [] @ [LoadTls (case ca_cert a of None \<Rightarrow> None | Some c \<Rightarrow> map_option (Pair c) (ca_key a))]
       @ [] @ ladder_order env a @ rist_order env a @ srt_order env a @ rtmp_order a @ daw_order a @ []
       @ [unindexed (StartServer (ca_http_port a))])"
    unfolding contrib_main_def
    by (intro ends_with_sbind ends_with_attempt does_intros does_start_rist) (auto dest: start_ladder_result)
  then show ?thesis by (simp add: start_order_def)
qed

text \<open>C30: The start does exactly the actions the settings ask for, in one order, with the server last; a failure
  anywhere leaves a proper part of them, so the server is not up; and nothing at all is started, not
  even the certificate read, with an enforcing gate next to an adapter that bypasses it.\<close>

theorem startup_exact:
  "case contrib_main env a (not_started w) of (r, st) \<Rightarrow>
     (case r of
        Inr _ \<Rightarrow> map unindexed (st_actions st) = start_order env a
      | Inl _ \<Rightarrow> strict_prefix (map unindexed (st_actions st)) (start_order env a))
     \<and> (settings_ok env a \<or> st_actions st = [])"
proof -
  obtain acts where "st_actions (snd (contrib_main env a (not_started w))) = st_actions (not_started w) @ acts"
    "case fst (contrib_main env a (not_started w)) of
       Inl _ \<Rightarrow> strict_prefix (map unindexed acts) (start_order env a) | Inr _ \<Rightarrow> map unindexed acts = start_order env a"
    using main_order [of env a] unfolding ends_with_def by blast
  then show ?thesis
    using refused_settings [of env a w]
    by (cases "contrib_main env a (not_started w)") (simp add: not_started_def, blast)
qed

section \<open>The stop\<close>

text \<open>Every task awaited at the end was told to stop before.\<close>

lemma shutdown_tells_first:
  "contrib_shutdown c a = takeWhile (\<lambda>s. s \<noteq> AwaitServer) (contrib_shutdown c a) @ AwaitServer
     # filter (\<lambda>s. s \<in> {AwaitRtmpListener, AwaitRtmpTask, AwaitDawTask, AwaitHlsTask, AwaitMeshTask}) (contrib_shutdown c a)"
  "AwaitRtmpListener \<in> set (contrib_shutdown c a) \<Longrightarrow> TellRtmp \<in> set (takeWhile (\<lambda>s. s \<noteq> AwaitServer) (contrib_shutdown c a))"
  by (auto simp: contrib_shutdown_def)

section \<open>Playlists and the drop counter\<close>

lemma playlist_part_capacity_bounds: "128 \<le> playlist_part_capacity s p \<and> playlist_part_capacity s p \<le> 4096"
proof -
  have "unat (min (max x 128) (4096 :: u64)) = min (max (unat x) 128) 4096" for x
    by (auto simp: min_def max_def word_le_nat_alt)
  then show ?thesis by (simp add: playlist_part_capacity_def Let_def)
qed

lemma linux_socket_inode_link: "linux_socket_inode (''socket:['' @ to_string n @ '']'') = Some n"
  by (simp add: linux_socket_inode_def)

end
