(* ===== verification/Status_Runtime.thy ===== *)
theory Status_Runtime
  imports Telemetry_Facts Relay_Config "HOL-Library.Product_Lexorder" "HOL-Library.List_Lexorder" "HOL-Library.Char_ord"
begin

text \<open>
  The rest of the telemetry of \<^verbatim>\<open>src/src/bin/av-contrib.rs\<close>, the relay session's counters and the stage
  timings, and \<^verbatim>\<open>IngestTelemetry::snapshot\<close>: the records the status page and the metrics page are made
  from. Ages are taken against one reading of the clock; the order of a hash map is the order of a list.
\<close>

section \<open>Relay session counters and timings\<close>

datatype relay_pipeline_stage =
  StageTotal | StageEncodeWait | StageEncode | StageSchedule
| StagePrimarySourceSend | StageSecondarySourceSend | StagePrimaryRepairSend | StageSecondaryRepairSend

fun relay_send_stage :: "relay_carrier_path \<Rightarrow> datagram_role \<Rightarrow> relay_pipeline_stage" where
  "relay_send_stage PrimaryPath SourceRole = StagePrimarySourceSend"
| "relay_send_stage SecondaryPath SourceRole = StageSecondarySourceSend"
| "relay_send_stage PrimaryPath RepairRole = StagePrimaryRepairSend"
| "relay_send_stage SecondaryPath RepairRole = StageSecondaryRepairSend"

record relay_telemetry =
  rt_source_datagrams :: u64
  rt_source_datagram_bytes :: u64
  rt_source_errors :: u64
  rt_repair_datagrams :: u64
  rt_repair_datagram_bytes :: u64
  rt_repair_errors :: u64
  rt_counters :: relay_counters
  rt_expired_symbols :: u64
  rt_primary_last_success :: u64
  rt_primary_last_failure :: u64
  rt_secondary_last_success :: u64
  rt_secondary_last_failure :: u64
  rt_durations :: "relay_pipeline_stage \<Rightarrow> duration_histogram"

definition record_relay_session_send_success :: "datagram_role \<Rightarrow> u64 \<Rightarrow> relay_telemetry \<Rightarrow> relay_telemetry" where
  "record_relay_session_send_success role wire_bytes t = (case role of
      SourceRole \<Rightarrow> t\<lparr>rt_source_datagrams := rt_source_datagrams t + 1,
        rt_source_datagram_bytes := rt_source_datagram_bytes t + wire_bytes\<rparr>
    | RepairRole \<Rightarrow> t\<lparr>rt_repair_datagrams := rt_repair_datagrams t + 1,
        rt_repair_datagram_bytes := rt_repair_datagram_bytes t + wire_bytes\<rparr>)"

definition record_relay_session_send_error :: "datagram_role \<Rightarrow> relay_telemetry \<Rightarrow> relay_telemetry" where
  "record_relay_session_send_error role t = (case role of
      SourceRole \<Rightarrow> t\<lparr>rt_source_errors := rt_source_errors t + 1\<rparr>
    | RepairRole \<Rightarrow> t\<lparr>rt_repair_errors := rt_repair_errors t + 1\<rparr>)"

fun record_relay_session_lane_object :: "relay_carrier_path \<Rightarrow> bool \<Rightarrow> u64 \<Rightarrow> relay_telemetry \<Rightarrow> relay_telemetry" where
  "record_relay_session_lane_object PrimaryPath True now t =
     t\<lparr>rt_counters := (rt_counters t)\<lparr>rl_primary_ok := rl_primary_ok (rt_counters t) + 1\<rparr>, rt_primary_last_success := now\<rparr>"
| "record_relay_session_lane_object PrimaryPath False now t =
     t\<lparr>rt_counters := (rt_counters t)\<lparr>rl_primary_failed := rl_primary_failed (rt_counters t) + 1\<rparr>, rt_primary_last_failure := now\<rparr>"
| "record_relay_session_lane_object SecondaryPath True now t =
     t\<lparr>rt_counters := (rt_counters t)\<lparr>rl_secondary_ok := rl_secondary_ok (rt_counters t) + 1\<rparr>, rt_secondary_last_success := now\<rparr>"
| "record_relay_session_lane_object SecondaryPath False now t =
     t\<lparr>rt_counters := (rt_counters t)\<lparr>rl_secondary_failed := rl_secondary_failed (rt_counters t) + 1\<rparr>, rt_secondary_last_failure := now\<rparr>"

definition record_relay_session_stage_duration :: "relay_pipeline_stage \<Rightarrow> nat \<Rightarrow> relay_telemetry \<Rightarrow> relay_telemetry" where
  "record_relay_session_stage_duration stage us t =
     t\<lparr>rt_durations := (rt_durations t)(stage := histogram_record us (rt_durations t stage))\<rparr>"

record mesh_timings =
  mt_total :: duration_histogram
  mt_encode_wait :: duration_histogram
  mt_encode :: duration_histogram
  mt_send :: duration_histogram
  mt_telemetry :: duration_histogram

record contrib_telemetry =
  ct_ingest :: ingest_telemetry
  ct_relay :: relay_telemetry
  ct_stream_timings :: mesh_timings
  ct_media_timings :: mesh_timings
  ct_media_object_source_epoch :: u64

definition record_mesh_forward_duration :: "string \<Rightarrow> nat \<Rightarrow> contrib_telemetry \<Rightarrow> contrib_telemetry" where
  "record_mesh_forward_duration kind us t =
     (if kind = ''media'' then t\<lparr>ct_media_timings := (ct_media_timings t)\<lparr>mt_total := histogram_record us (mt_total (ct_media_timings t))\<rparr>\<rparr>
      else t\<lparr>ct_stream_timings := (ct_stream_timings t)\<lparr>mt_total := histogram_record us (mt_total (ct_stream_timings t))\<rparr>\<rparr>)"

definition record_stage :: "string \<Rightarrow> nat \<Rightarrow> mesh_timings \<Rightarrow> mesh_timings" where
  "record_stage stage us m =
     (if stage = ''encode_wait'' then m\<lparr>mt_encode_wait := histogram_record us (mt_encode_wait m)\<rparr>
      else if stage = ''encode'' then m\<lparr>mt_encode := histogram_record us (mt_encode m)\<rparr>
      else if stage = ''send'' then m\<lparr>mt_send := histogram_record us (mt_send m)\<rparr>
      else if stage = ''telemetry'' then m\<lparr>mt_telemetry := histogram_record us (mt_telemetry m)\<rparr>
      else m)"

definition record_mesh_forward_stage_duration :: "string \<Rightarrow> string \<Rightarrow> nat \<Rightarrow> contrib_telemetry \<Rightarrow> contrib_telemetry" where
  "record_mesh_forward_stage_duration kind stage us t =
     (if kind = ''media'' then t\<lparr>ct_media_timings := record_stage stage us (ct_media_timings t)\<rparr>
      else t\<lparr>ct_stream_timings := record_stage stage us (ct_stream_timings t)\<rparr>)"

section \<open>Snapshot records\<close>

record raw_http_snapshot =
  rh_requests :: u64
  rh_chunks :: u64
  rh_bytes :: u64
  rh_datagrams :: u64
  rh_last_seen :: "u64 option"
  rh_last_seen_age :: "u64 option"

record media_snapshot =
  ms_requests :: u64
  ms_payload_bytes :: u64
  ms_datagrams :: u64
  ms_last_seen :: "u64 option"
  ms_last_seen_age :: "u64 option"

record stage_snapshot =
  ss_encode_wait :: histogram_snapshot
  ss_encode :: histogram_snapshot
  ss_send :: histogram_snapshot
  ss_telemetry :: histogram_snapshot

record mesh_lane_snapshot =
  mn_payloads :: u64
  mn_payload_bytes :: u64
  mn_datagrams :: u64
  mn_datagram_bytes :: u64
  mn_errors :: u64
  mn_last :: "u64 option"
  mn_last_age :: "u64 option"
  mn_duration :: histogram_snapshot
  mn_stages :: stage_snapshot

record relay_session_snapshot =
  rn_objects_sent :: u64
  rn_encode_errors :: u64
  rn_source_datagrams :: u64
  rn_source_datagram_bytes :: u64
  rn_source_errors :: u64
  rn_repair_datagrams :: u64
  rn_repair_datagram_bytes :: u64
  rn_repair_errors :: u64
  rn_repair_primary_fallback_objects :: u64
  rn_primary_lane_objects_succeeded :: u64
  rn_primary_lane_objects_failed :: u64
  rn_primary_lane_state :: string
  rn_secondary_lane_objects_succeeded :: u64
  rn_secondary_lane_objects_failed :: u64
  rn_secondary_lane_state :: string
  rn_surviving_lane_objects :: u64
  rn_all_lanes_failed_objects :: u64
  rn_expired_objects :: u64
  rn_expired_symbols :: u64
  rn_deadline_hits :: u64
  rn_deadline_misses :: u64
  rn_last_deadline_unix_us :: "u64 option"
  rn_last_deadline_headroom_us :: "u64 option"
  rn_stages :: "relay_pipeline_stage \<Rightarrow> histogram_snapshot"

definition impaired_lane_count :: "relay_session_snapshot \<Rightarrow> u64" where
  "impaired_lane_count r = (if rn_primary_lane_state r = ''impaired'' then 1 else 0)
     + (if rn_secondary_lane_state r = ''impaired'' then 1 else 0)"

record mpeg_ts_snapshot =
  tn_slots :: u64
  tn_bytes :: u64
  tn_last_seen :: "u64 option"
  tn_last_seen_age :: "u64 option"
  tn_continuity_errors :: u64
  tn_continuity_dropped_bytes :: u64
  tn_payload_drops :: u64
  tn_payload_drop_bytes :: u64
  tn_last_error :: "u64 option"
  tn_last_error_age :: "u64 option"

record rtmp_snapshot =
  pn_access_units :: u64
  pn_bytes :: u64
  pn_last_seen :: "u64 option"
  pn_last_seen_age :: "u64 option"

record fmp4_snapshot =
  fn_parts :: u64
  fn_bytes :: u64
  fn_init_bytes :: u64
  fn_publish_errors :: u64
  fn_last_publish :: "u64 option"
  fn_last_publish_age :: "u64 option"
  fn_video_codec :: "string option"
  fn_video_width :: "u16 option"
  fn_video_height :: "u16 option"
  fn_video_parts :: u64
  fn_video_access_units :: u64
  fn_audio_codec :: "string option"
  fn_audio_parts :: u64
  fn_audio_access_units :: u64

record session_snapshot =
  zn_session_id :: u64
  zn_protocol :: string
  zn_stream_id_text :: string
  zn_output_stream_id_text :: "string option"
  zn_output_stream_idx :: "nat option"
  zn_peer :: "string option"
  zn_path :: "string option"
  zn_state :: string
  zn_started :: u64
  zn_last_seen :: u64
  zn_ended :: "u64 option"
  zn_age_ms :: u64
  zn_body_slots :: u64
  zn_bytes :: u64
  zn_access_units :: u64
  zn_end_reason :: "string option"

record sessions_snapshot =
  zs_active :: nat
  zs_started :: u64
  zs_ended :: u64
  zs_recent :: "session_snapshot list"

text \<open>A stream's snapshot is its record with a state and three ages.\<close>

record stream_snapshot =
  sm_record :: stream_runtime
  sm_state :: string
  sm_last_input_age :: "u64 option"
  sm_last_mesh_forward_age :: "u64 option"
  sm_last_fmp4_age :: "u64 option"

record runtime_snapshot =
  rx_raw_http :: raw_http_snapshot
  rx_media :: media_snapshot
  rx_mesh_stream :: mesh_lane_snapshot
  rx_mesh_media :: mesh_lane_snapshot
  rx_relay_session :: relay_session_snapshot
  rx_mpeg_ts :: mpeg_ts_snapshot
  rx_rtmp :: rtmp_snapshot
  rx_fmp4 :: fmp4_snapshot
  rx_ingest_sessions :: sessions_snapshot
  rx_streams :: "stream_snapshot list"
  rx_protocols :: "protocol_snapshot list"

section \<open>The snapshot\<close>

definition age_of :: "u64 \<Rightarrow> u64 option \<Rightarrow> u64 option" where
  "age_of now seen = map_option (sat_sub now) seen"

definition stream_state :: "stream_runtime \<Rightarrow> string" where
  "stream_state r =
     (if 0 < sr_mesh_errors r \<or> 0 < sr_fmp4_publish_errors r then ''degraded''
      else if 0 < sr_fmp4_parts r then ''publishing''
      else if 0 < sr_mesh_payloads r then ''forwarding''
      else if 0 < sr_input_units r then ''ingesting''
      else ''waiting'')"

definition stream_snapshot_of :: "u64 \<Rightarrow> stream_runtime \<Rightarrow> stream_snapshot" where
  "stream_snapshot_of now r = \<lparr>sm_record = r, sm_state = stream_state r,
     sm_last_input_age = age_of now (sr_last_input r),
     sm_last_mesh_forward_age = age_of now (sr_last_mesh_forward r),
     sm_last_fmp4_age = age_of now (sr_last_fmp4 r)\<rparr>"

definition stream_last_seen :: "stream_snapshot \<Rightarrow> u64 option" where
  "stream_last_seen s = newest [sr_last_input (sm_record s), sr_last_mesh_forward (sm_record s), sr_last_fmp4 (sm_record s)]"

text \<open>Newest first: the complement of a 64-bit number reverses the order, and nothing comes after any number.\<close>

definition newest_first :: "u64 option \<Rightarrow> bool \<times> u64" where
  "newest_first v = (case v of None \<Rightarrow> (True, 0) | Some x \<Rightarrow> (False, NOT x))"

definition stream_snapshots :: "u64 \<Rightarrow> ingest_telemetry \<Rightarrow> stream_snapshot list" where
  "stream_snapshots now t =
     take contrib_ingest_session_limit
       (sort_key (\<lambda>s. (newest_first (stream_last_seen s), sr_stream_id_text (sm_record s)))
          (map (stream_snapshot_of now \<circ> snd) (tm_streams t)))"

definition protocol_snapshots :: "ingest_session list \<Rightarrow> u64 \<Rightarrow> ingest_telemetry \<Rightarrow> protocol_snapshot list" where
  "protocol_snapshots sessions now t =
     sort_key ps_protocol (map (protocol_snapshot_of sessions now) (with_known_protocols (tm_protocols t)))"

definition session_snapshot_of :: "u64 \<Rightarrow> ingest_session \<Rightarrow> session_snapshot" where
  "session_snapshot_of now s =
     \<lparr>zn_session_id = is_session_id s, zn_protocol = is_protocol s, zn_stream_id_text = is_stream_id_text s,
      zn_output_stream_id_text = is_output_stream_id_text s, zn_output_stream_idx = is_output_stream_idx s,
      zn_peer = is_peer s, zn_path = is_path s, zn_state = is_state s, zn_started = is_started s,
      zn_last_seen = is_last_seen s, zn_ended = is_ended s, zn_age_ms = sat_sub now (is_last_seen s),
      zn_body_slots = is_body_slots s, zn_bytes = is_bytes s, zn_access_units = is_access_units s,
      zn_end_reason = is_end_reason s\<rparr>"

definition session_key :: "session_snapshot \<Rightarrow> u64 \<times> string \<times> string" where
  "session_key s = (NOT (zn_last_seen s), zn_protocol s, zn_stream_id_text s)"

definition sessions_snapshot_of :: "u64 \<Rightarrow> ingest_telemetry \<Rightarrow> sessions_snapshot" where
  "sessions_snapshot_of now t =
     \<lparr>zs_active = active_ingest_sessions t, zs_started = tm_sessions_started t, zs_ended = tm_sessions_ended t,
      zs_recent = take contrib_ingest_session_limit
        (sort_key session_key (map (session_snapshot_of now \<circ> snd) (tm_sessions t)))\<rparr>"

definition stage_snapshot_of :: "mesh_timings \<Rightarrow> stage_snapshot" where
  "stage_snapshot_of m = \<lparr>ss_encode_wait = histogram_snapshot_of (mt_encode_wait m),
     ss_encode = histogram_snapshot_of (mt_encode m), ss_send = histogram_snapshot_of (mt_send m),
     ss_telemetry = histogram_snapshot_of (mt_telemetry m)\<rparr>"

definition mesh_lane_snapshot_of :: "u64 \<Rightarrow> mesh_lane_counters \<Rightarrow> mesh_timings \<Rightarrow> mesh_lane_snapshot" where
  "mesh_lane_snapshot_of now c m =
     \<lparr>mn_payloads = ml_payloads c, mn_payload_bytes = ml_payload_bytes c, mn_datagrams = ml_datagrams c,
      mn_datagram_bytes = ml_datagram_bytes c, mn_errors = ml_errors c, mn_last = nonzero_unix_ms (ml_last c),
      mn_last_age = age_from_ms now (ml_last c), mn_duration = histogram_snapshot_of (mt_total m),
      mn_stages = stage_snapshot_of m\<rparr>"

definition relay_session_snapshot_of :: "u64 \<Rightarrow> relay_telemetry \<Rightarrow> relay_session_snapshot" where
  "relay_session_snapshot_of now t = (let c = rt_counters t in
     \<lparr>rn_objects_sent = rl_objects_sent c, rn_encode_errors = rl_encode_errors c,
      rn_source_datagrams = rt_source_datagrams t, rn_source_datagram_bytes = rt_source_datagram_bytes t,
      rn_source_errors = rt_source_errors t, rn_repair_datagrams = rt_repair_datagrams t,
      rn_repair_datagram_bytes = rt_repair_datagram_bytes t, rn_repair_errors = rt_repair_errors t,
      rn_repair_primary_fallback_objects = rl_repair_primary_fallback c,
      rn_primary_lane_objects_succeeded = rl_primary_ok c, rn_primary_lane_objects_failed = rl_primary_failed c,
      rn_primary_lane_state = lane_state_as_str (relay_lane_state_of now (rt_primary_last_success t) (rt_primary_last_failure t)),
      rn_secondary_lane_objects_succeeded = rl_secondary_ok c, rn_secondary_lane_objects_failed = rl_secondary_failed c,
      rn_secondary_lane_state = lane_state_as_str (relay_lane_state_of now (rt_secondary_last_success t) (rt_secondary_last_failure t)),
      rn_surviving_lane_objects = rl_surviving_lane c, rn_all_lanes_failed_objects = rl_all_lanes_failed c,
      rn_expired_objects = rl_expired_objects c, rn_expired_symbols = rt_expired_symbols t,
      rn_deadline_hits = rl_deadline_hits c, rn_deadline_misses = rl_deadline_misses c,
      rn_last_deadline_unix_us = nonzero_unix_ms (rl_last_deadline_us c),
      rn_last_deadline_headroom_us =
        map_option (\<lambda>deadline. sat_sub deadline (sat_mul now 1000)) (nonzero_unix_ms (rl_last_deadline_us c)),
      rn_stages = histogram_snapshot_of \<circ> rt_durations t\<rparr>)"

definition mpeg_ts_snapshot_of :: "u64 \<Rightarrow> ts_counters \<Rightarrow> mpeg_ts_snapshot" where
  "mpeg_ts_snapshot_of now c =
     \<lparr>tn_slots = ts_slots c, tn_bytes = ts_bytes c, tn_last_seen = nonzero_unix_ms (ts_last c),
      tn_last_seen_age = age_from_ms now (ts_last c), tn_continuity_errors = ts_continuity_errors c,
      tn_continuity_dropped_bytes = ts_continuity_dropped_bytes c, tn_payload_drops = ts_payload_drops c,
      tn_payload_drop_bytes = ts_payload_drop_bytes c, tn_last_error = nonzero_unix_ms (ts_last_error c),
      tn_last_error_age = age_from_ms now (ts_last_error c)\<rparr>"

definition fmp4_snapshot_of :: "u64 \<Rightarrow> fmp4_counters \<Rightarrow> fmp4_snapshot" where
  "fmp4_snapshot_of now c =
     \<lparr>fn_parts = fc_parts c, fn_bytes = fc_bytes c, fn_init_bytes = fc_init_bytes c,
      fn_publish_errors = fc_publish_errors c, fn_last_publish = nonzero_unix_ms (fc_last_publish c),
      fn_last_publish_age = age_from_ms now (fc_last_publish c),
      fn_video_codec = (if 0 < fc_video_width c then Some ''h264'' else None),
      fn_video_width = nonzero_u16 (fc_video_width c), fn_video_height = nonzero_u16 (fc_video_height c),
      fn_video_parts = fc_video_parts c, fn_video_access_units = fc_video_access_units c,
      fn_audio_codec = (if 0 < fc_audio_parts c then Some ''aac'' else None),
      fn_audio_parts = fc_audio_parts c, fn_audio_access_units = fc_audio_access_units c\<rparr>"

definition telemetry_snapshot :: "u64 \<Rightarrow> contrib_telemetry \<Rightarrow> runtime_snapshot" where
  "telemetry_snapshot now ct = (let t = ct_ingest ct; raw = tm_raw_http t; media = tm_media t; rtmp = tm_rtmp t in
     \<lparr>rx_raw_http = \<lparr>rh_requests = pc_units raw, rh_chunks = pc_chunks raw, rh_bytes = pc_bytes raw,
        rh_datagrams = pc_datagrams raw, rh_last_seen = nonzero_unix_ms (pc_last raw), rh_last_seen_age = age_from_ms now (pc_last raw)\<rparr>,
      rx_media = \<lparr>ms_requests = pc_units media, ms_payload_bytes = pc_bytes media, ms_datagrams = pc_datagrams media,
        ms_last_seen = nonzero_unix_ms (pc_last media), ms_last_seen_age = age_from_ms now (pc_last media)\<rparr>,
      rx_mesh_stream = mesh_lane_snapshot_of now (tm_mesh_stream t) (ct_stream_timings ct),
      rx_mesh_media = mesh_lane_snapshot_of now (tm_mesh_media t) (ct_media_timings ct),
      rx_relay_session = relay_session_snapshot_of now (ct_relay ct),
      rx_mpeg_ts = mpeg_ts_snapshot_of now (tm_mpeg_ts t),
      rx_rtmp = \<lparr>pn_access_units = pc_units rtmp, pn_bytes = pc_bytes rtmp, pn_last_seen = nonzero_unix_ms (pc_last rtmp),
        pn_last_seen_age = age_from_ms now (pc_last rtmp)\<rparr>,
      rx_fmp4 = fmp4_snapshot_of now (tm_fmp4 t),
      rx_ingest_sessions = sessions_snapshot_of now t,
      rx_streams = stream_snapshots now t,
      rx_protocols = protocol_snapshots (map snd (tm_sessions t)) now t\<rparr>)"

end
