(* ===== verification/Status.thy ===== *)
theory Status
  imports Status_Runtime Startup
begin

text \<open>
  The status page of \<^verbatim>\<open>src/src/bin/av-contrib.rs\<close>: what it says of the settings
  (\<^verbatim>\<open>ContribStatusConfig::from_args\<close>, the listeners), the health state derived from the runtime snapshot, the
  alerts derived from both, and the event of the event stream. The JSON writer and the text of a socket
  address are arguments.
\<close>

section \<open>Settings on the page\<close>

record mesh_target_status =
  mx_byte_fec_target :: string
  mx_media_fec_target :: string
  mx_relay_primary_configured :: bool
  mx_relay_secondary_configured :: bool
  mx_relay_carrier :: "string option"
  mx_relay_trust :: "string option"
  mx_relay_primary_id :: "string option"
  mx_relay_primary_target :: "string option"
  mx_relay_primary_bind :: "string option"
  mx_relay_secondary_id :: "string option"
  mx_relay_secondary_target :: "string option"
  mx_relay_secondary_bind :: "string option"
  mx_relay_secondary_source_seeded :: bool
  mx_relay_exclusive :: bool
  mx_relay_topology_generation :: u64
  mx_relay_subscription_id :: u64
  mx_relay_deadline_ms :: u64
  mx_relay_path_observation_source :: string
  mx_relay_path :: path_args
  mx_relay_secondary_path_observation_source :: string
  mx_relay_secondary_path :: path_args
  mx_media_object_clock_id :: string
  mx_media_object_clock_confidence :: string
  mx_media_object_clock_estimated_error_ms :: u64
  mx_media_object_source_epoch :: u64

record hls_status =
  hx_part_target_ms :: u32
  hx_segment_target_ms :: u32
  hx_playlist_target_duration_ms :: u32
  hx_playlist_count :: nat
  hx_playlist_buffer_kb :: nat
  hx_local_playback_cache_enabled :: bool

record fec_status =
  ex_repair_symbols :: u32
  ex_symbol_size :: u16

record listener_status =
  lx_protocol :: string
  lx_enabled :: bool
  lx_bind :: "string option"
  lx_output_stream_id :: string
  lx_output_hls_path :: string
  lx_backend :: "string option"
  lx_profile :: "string option"
  lx_flow_id :: "string option"

definition hls_path :: "u64 \<Rightarrow> string" where
  "hls_path stream_id = ''/'' @ to_string stream_id @ ''/stream.m3u8''"

definition listener_rist :: "(socket_addr \<Rightarrow> string) \<Rightarrow> contrib_args \<Rightarrow> listener_status" where
  "listener_rist show_addr a = \<lparr>lx_protocol = ''rist'', lx_enabled = ca_rist_bind a \<noteq> None,
     lx_bind = map_option show_addr (ca_rist_bind a), lx_output_stream_id = to_string (ca_rist_stream_id a),
     lx_output_hls_path = hls_path (ca_rist_stream_id a), lx_backend = Some ''pure-rust'',
     lx_profile = Some (rist_profile_as_str (ca_rist_profile a)), lx_flow_id = None\<rparr>"

definition listener_srt :: "(socket_addr \<Rightarrow> string) \<Rightarrow> contrib_args \<Rightarrow> listener_status" where
  "listener_srt show_addr a = \<lparr>lx_protocol = ''srt'', lx_enabled = ca_srt_bind a \<noteq> None,
     lx_bind = map_option show_addr (ca_srt_bind a), lx_output_stream_id = to_string (ca_srt_stream_id a),
     lx_output_hls_path = hls_path (ca_srt_stream_id a), lx_backend = None, lx_profile = None, lx_flow_id = None\<rparr>"

definition listener_rtmp :: "(socket_addr \<Rightarrow> string) \<Rightarrow> contrib_args \<Rightarrow> listener_status" where
  "listener_rtmp show_addr a = \<lparr>lx_protocol = ''rtmp'', lx_enabled = ca_rtmp_bind a \<noteq> None,
     lx_bind = map_option show_addr (ca_rtmp_bind a), lx_output_stream_id = to_string (ca_rtmp_stream_id a),
     lx_output_hls_path = hls_path (ca_rtmp_stream_id a), lx_backend = None, lx_profile = None, lx_flow_id = None\<rparr>"

definition mesh_status_of :: "(socket_addr \<Rightarrow> string) \<Rightarrow> relay_args \<Rightarrow> u64 \<Rightarrow> mesh_target_status" where
  "mesh_status_of show_addr a source_epoch =
     (let primary = ra_primary_target a; secondary = ra_secondary_target a; own = relay_secondary_path_metrics_configured a in
      \<lparr>mx_byte_fec_target = show_addr (ra_mesh_fec_target a), mx_media_fec_target = show_addr (ra_mesh_media_fec_target a),
       mx_relay_primary_configured = primary \<noteq> None, mx_relay_secondary_configured = secondary \<noteq> None,
       mx_relay_carrier = map_option (\<lambda>_. ''private-udp'') primary,
       mx_relay_trust = map_option (\<lambda>_. ''controlled-qualification'') primary,
       mx_relay_primary_id = map_option (\<lambda>_. ra_primary_id a) primary,
       mx_relay_primary_target = map_option show_addr primary,
       mx_relay_primary_bind = map_option show_addr (ra_primary_bind a),
       mx_relay_secondary_id = map_option (\<lambda>_. ra_secondary_id a) secondary,
       mx_relay_secondary_target = map_option show_addr secondary,
       mx_relay_secondary_bind = map_option show_addr (ra_secondary_bind a),
       mx_relay_secondary_source_seeded = ra_secondary_seed_source a, mx_relay_exclusive = ra_exclusive a,
       mx_relay_topology_generation = ra_topology_generation a, mx_relay_subscription_id = ra_subscription_id a,
       mx_relay_deadline_ms = ra_deadline_ms a,
       mx_relay_path_observation_source =
         (if relay_path_metrics_configured a then ''controller-seeded'' else ''default-policy''),
       mx_relay_path = ra_path a,
       mx_relay_secondary_path_observation_source = (if own then ''controller-seeded'' else ''primary-policy-fallback''),
       mx_relay_secondary_path = (if own then ra_secondary_path a else ra_path a)
         \<lparr>pa_observed_at_unix_ms := (case pa_observed_at_unix_ms (ra_secondary_path a) of
            Some t \<Rightarrow> Some t | None \<Rightarrow> pa_observed_at_unix_ms (ra_path a))\<rparr>,
       mx_media_object_clock_id = ''system:realtime:av-contrib'', mx_media_object_clock_confidence = ''estimated'',
       mx_media_object_clock_estimated_error_ms = ra_wall_clock_estimated_error_ms a,
       mx_media_object_source_epoch = source_epoch\<rparr>)"

definition hls_status_of :: "contrib_args \<Rightarrow> hls_status" where
  "hls_status_of a = \<lparr>hx_part_target_ms = ca_fmp4_part_ms a, hx_segment_target_ms = ca_fmp4_segment_ms a,
     hx_playlist_target_duration_ms = ca_hls_target_duration_ms a, hx_playlist_count = ca_playlist_count a,
     hx_playlist_buffer_kb = ca_playlist_buffer_kb a, hx_local_playback_cache_enabled = False\<rparr>"

record status_config =
  sc_default_stream_id :: string
  sc_advertised_hls_stream_id :: string
  sc_advertised_hls_path :: string
  sc_mesh :: mesh_target_status
  sc_hls :: hls_status
  sc_fec :: fec_status
  sc_listeners :: "listener_status list"
  sc_alerts :: "contrib_alert list"

definition status_config_from_args :: "(socket_addr \<Rightarrow> string) \<Rightarrow> contrib_args \<Rightarrow> u64 \<Rightarrow> status_config" where
  "status_config_from_args show_addr a source_epoch =
     (let listeners = [listener_rist show_addr a, listener_srt show_addr a, listener_rtmp show_addr a] in
      \<lparr>sc_default_stream_id = to_string (ca_stream_id a),
       sc_advertised_hls_stream_id = to_string (advertised_hls_stream_id a),
       sc_advertised_hls_path = hls_path (advertised_hls_stream_id a),
       sc_mesh = mesh_status_of show_addr (ca_relay a) source_epoch,
       sc_hls = hls_status_of a,
       sc_fec = \<lparr>ex_repair_symbols = ra_repair_symbols (ca_relay a), ex_symbol_size = ra_symbol_size (ca_relay a)\<rparr>,
       sc_listeners = listeners,
       sc_alerts = (if list_all (\<lambda>l. \<not> lx_enabled l) listeners
         then [\<lparr>al_level = ''info'', al_code = ''raw_ingest_only'',
           al_message = ''No RIST, SRT, or RTMP listener is enabled; raw HTTP byte ingest remains available.'',
           al_count = 1, al_last_seen = None, al_stream_id_text = None, al_protocol = None\<rparr>]
         else [])\<rparr>)"

section \<open>Health\<close>

definition contrib_min_stale_output_ms :: u64 where "contrib_min_stale_output_ms = 5000"

record health_status =
  hs_state :: string
  hs_stale_threshold_ms :: u64
  hs_input_seen :: bool
  hs_fmp4_input_seen :: bool
  hs_output_seen :: bool
  hs_last_input_age :: "u64 option"
  hs_last_fmp4_input_age :: "u64 option"
  hs_last_output_age :: "u64 option"

definition older_than :: "u64 \<Rightarrow> u64 option \<Rightarrow> bool" where
  "older_than threshold age = (case age of None \<Rightarrow> False | Some a \<Rightarrow> threshold < a)"

text \<open>The two mesh error counts are added without a check; the sum wraps in a release build.\<close>

definition derive_contrib_health :: "runtime_snapshot \<Rightarrow> hls_status \<Rightarrow> health_status" where
  "derive_contrib_health r hls =
     (let stale_threshold = max (sat_mul (ucast (hx_segment_target_ms hls)) 3) contrib_min_stale_output_ms;
          input_seen = (0 < rh_requests (rx_raw_http r) \<or> 0 < ms_requests (rx_media r)
            \<or> 0 < tn_slots (rx_mpeg_ts r) \<or> 0 < pn_access_units (rx_rtmp r));
          fmp4_input_seen = (0 < tn_slots (rx_mpeg_ts r) \<or> 0 < pn_access_units (rx_rtmp r));
          output_seen = (0 < fn_parts (rx_fmp4 r));
          last_input_age = youngest_age [rh_last_seen_age (rx_raw_http r), ms_last_seen_age (rx_media r),
            tn_last_seen_age (rx_mpeg_ts r), pn_last_seen_age (rx_rtmp r)];
          last_fmp4_input_age = youngest_age [tn_last_seen_age (rx_mpeg_ts r), pn_last_seen_age (rx_rtmp r)];
          output_is_stale = older_than stale_threshold (fn_last_publish_age (rx_fmp4 r));
          fmp4_input_is_stale = older_than stale_threshold last_fmp4_input_age;
          mesh_forward_errors = mn_errors (rx_mesh_stream r) + mn_errors (rx_mesh_media r);
          relay_lane_impaired = (0 < impaired_lane_count (rx_relay_session r))
      in \<lparr>hs_state =
           (if 0 < fn_publish_errors (rx_fmp4 r) \<or> 0 < mesh_forward_errors \<or> relay_lane_impaired then ''degraded''
            else if output_seen \<and> output_is_stale then ''stale''
            else if fmp4_input_seen \<and> \<not> output_seen \<and> fmp4_input_is_stale then ''stalled''
            else if output_seen then ''active''
            else if input_seen then ''ingesting''
            else ''waiting''),
          hs_stale_threshold_ms = stale_threshold, hs_input_seen = input_seen, hs_fmp4_input_seen = fmp4_input_seen,
          hs_output_seen = output_seen, hs_last_input_age = last_input_age, hs_last_fmp4_input_age = last_fmp4_input_age,
          hs_last_output_age = fn_last_publish_age (rx_fmp4 r)\<rparr>)"

section \<open>Alerts\<close>

definition seen_or_now :: "u64 \<Rightarrow> u64 option \<Rightarrow> u64 option" where
  "seen_or_now now age = (case Option.bind age (checked_sub now) of Some t \<Rightarrow> Some t | None \<Rightarrow> Some now)"

definition stream_alert :: "string \<Rightarrow> string \<Rightarrow> string \<Rightarrow> u64 option \<Rightarrow> string \<Rightarrow> contrib_alert" where
  "stream_alert level code message seen stream_id =
     \<lparr>al_level = level, al_code = code, al_message = message, al_count = 1, al_last_seen = seen,
      al_stream_id_text = Some stream_id, al_protocol = None\<rparr>"

definition waiting_alert :: "health_status \<Rightarrow> u64 \<Rightarrow> string \<Rightarrow> contrib_alert list" where
  "waiting_alert h now stream_id =
     (if \<not> hs_input_seen h then [stream_alert ''info'' ''waiting_for_input''
        ''No contributor input has been observed yet.'' (Some now) stream_id] else [])"

definition stale_alert :: "health_status \<Rightarrow> u64 \<Rightarrow> string \<Rightarrow> contrib_alert list" where
  "stale_alert h now stream_id =
     (if hs_state h = ''stale'' then [stream_alert ''warn'' ''fmp4_output_stale''
        (''fMP4 output has not published for more than '' @ to_string (hs_stale_threshold_ms h) @ '' ms.'')
        (seen_or_now now (hs_last_output_age h)) stream_id] else [])"

definition stalled_alert :: "health_status \<Rightarrow> u64 \<Rightarrow> string \<Rightarrow> contrib_alert list" where
  "stalled_alert h now stream_id =
     (if hs_state h = ''stalled'' then [stream_alert ''warn'' ''fmp4_input_without_output''
        (''MPEG-TS/RTMP input was observed, but no fMP4 output published within ''
          @ to_string (hs_stale_threshold_ms h) @ '' ms.'')
        (seen_or_now now (hs_last_fmp4_input_age h)) stream_id] else [])"

definition impaired_lanes :: "relay_session_snapshot \<Rightarrow> string list" where
  "impaired_lanes r = map fst (filter (\<lambda>(path, state). state = ''impaired'')
     [(''primary'', rn_primary_lane_state r), (''secondary'', rn_secondary_lane_state r)])"

fun join_comma :: "string list \<Rightarrow> string" where
  "join_comma [] = []"
| "join_comma [s] = s"
| "join_comma (s # t # ss) = s @ '', '' @ join_comma (t # ss)"

definition lane_alert :: "relay_session_snapshot \<Rightarrow> u64 \<Rightarrow> string \<Rightarrow> contrib_alert list" where
  "lane_alert r now stream_id =
     (let lanes = impaired_lanes r in
      if lanes = [] then []
      else [\<lparr>al_level = ''warn'', al_code = ''relay_lane_impaired'',
        al_message = ''Relay parent lane currently impaired: '' @ join_comma lanes
          @ ''. Delivery continues through each healthy complete lane.'',
        al_count = of_nat (length lanes), al_last_seen = Some now, al_stream_id_text = Some stream_id,
        al_protocol = Some ''relay-session''\<rparr>])"

definition damage_alert :: "mpeg_ts_snapshot \<Rightarrow> contrib_alert list" where
  "damage_alert m =
     (let errors = sat_add (tn_continuity_errors m) (tn_payload_drops m) in
      if 0 < errors then [\<lparr>al_level = ''warn'', al_code = ''mpeg_ts_input_damage'',
        al_message = ''MPEG-TS input reported '' @ to_string (tn_continuity_errors m) @ '' continuity error(s) and ''
          @ to_string (tn_payload_drops m) @ '' oversized payload drop(s), dropping ''
          @ to_string (sat_add (tn_continuity_dropped_bytes m) (tn_payload_drop_bytes m)) @ '' bytes total.'',
        al_count = errors, al_last_seen = tn_last_error m, al_stream_id_text = None, al_protocol = Some ''mpeg-ts''\<rparr>]
      else [])"

definition derive_contrib_alerts :: "health_status \<Rightarrow> runtime_snapshot \<Rightarrow> string \<Rightarrow> u64 \<Rightarrow> contrib_alert list" where
  "derive_contrib_alerts h r stream_id now =
     waiting_alert h now stream_id @ stale_alert h now stream_id @ stalled_alert h now stream_id
     @ lane_alert (rx_relay_session r) now stream_id @ damage_alert (rx_mpeg_ts r)"

section \<open>The page\<close>

record status_snapshot =
  px_service :: string
  px_status :: string
  px_updated_unix_ms :: u64
  px_default_stream_id :: string
  px_advertised_hls_stream_id :: string
  px_advertised_hls_path :: string
  px_mesh :: mesh_target_status
  px_hls :: hls_status
  px_fec :: fec_status
  px_listeners :: "listener_status list"
  px_runtime :: runtime_snapshot
  px_alerts :: "contrib_alert list"
  px_health :: health_status
  px_activity :: "contrib_activity list"

text \<open>The clock is read for the runtime, for the alerts and for the page itself.\<close>

definition contrib_snapshot :: "status_config \<Rightarrow> contrib_telemetry \<Rightarrow> u64 \<Rightarrow> u64 \<Rightarrow> u64 \<Rightarrow> status_snapshot" where
  "contrib_snapshot c t now_runtime now_alerts now_page =
     (let runtime = telemetry_snapshot now_runtime t;
          health = derive_contrib_health runtime (sc_hls c);
          alerts = sc_alerts c @ derive_contrib_alerts health runtime (sc_advertised_hls_stream_id c) now_alerts
            @ tm_alerts (ct_ingest t)
      in \<lparr>px_service = ''av-contrib'', px_status = hs_state health, px_updated_unix_ms = now_page,
          px_default_stream_id = sc_default_stream_id c,
          px_advertised_hls_stream_id = sc_advertised_hls_stream_id c,
          px_advertised_hls_path = sc_advertised_hls_path c, px_mesh = sc_mesh c, px_hls = sc_hls c, px_fec = sc_fec c,
          px_listeners = sc_listeners c, px_runtime = runtime, px_alerts = alerts, px_health = health,
          px_activity = tm_activity (ct_ingest t)\<rparr>)"

definition sse_event :: "('e + string) \<Rightarrow> 'e + string" where
  "sse_event json = res_bind json (\<lambda>j. Inr (''event: contrib'' @ [char_of (10 :: nat)] @ ''data: '' @ j
     @ [char_of (10 :: nat), char_of (10 :: nat)]))"

end
