(* ===== verification/Status_Facts.thy ===== *)
theory Status_Facts
  imports Status "HOL-Library.Multiset"
begin

text \<open>
  What a reader of the status page can rely on: the page stays bounded whatever has happened, the session
  counts add up, the newest sessions come first and none is left out of a short table; an event of the
  stream is one frame.
\<close>

section \<open>Derived alerts\<close>

text \<open>Every derived alert comes at most once, under a code of its own.\<close>

lemma derived_alert_codes:
  "map al_code (waiting_alert h now s) = (if hs_input_seen h then [] else [''waiting_for_input''])"
  "map al_code (stale_alert h now s) = (if hs_state h = ''stale'' then [''fmp4_output_stale''] else [])"
  "map al_code (stalled_alert h now s) = (if hs_state h = ''stalled'' then [''fmp4_input_without_output''] else [])"
  "map al_code (lane_alert r now s) = (if impaired_lanes r = [] then [] else [''relay_lane_impaired''])"
  "map al_code (damage_alert m) = (if 0 < sat_add (tn_continuity_errors m) (tn_payload_drops m) then [''mpeg_ts_input_damage''] else [])"
  by (simp_all add: waiting_alert_def stale_alert_def stalled_alert_def lane_alert_def damage_alert_def stream_alert_def Let_def)

lemma derived_alerts_at_most:
  "length (derive_contrib_alerts h r stream_id now) \<le> 4"
proof -
  have "length (map al_code (derive_contrib_alerts h r stream_id now)) \<le> 4"
    unfolding derive_contrib_alerts_def map_append derived_alert_codes by simp
  then show ?thesis by simp
qed

lemma derived_alert_codes_distinct:
  "distinct (map al_code (derive_contrib_alerts h r stream_id now))"
  unfolding derive_contrib_alerts_def map_append derived_alert_codes by simp

text \<open>An impaired relay lane degrades the service and is named by the alert, and only then.\<close>

lemma impaired_lane_count_pos: "0 < impaired_lane_count r \<longleftrightarrow> impaired_lanes r \<noteq> []"
  by (auto simp: impaired_lane_count_def impaired_lanes_def)

lemma lane_alert_degrades:
  "lane_alert (rx_relay_session r) now s \<noteq> [] \<Longrightarrow> hs_state (derive_contrib_health r hls) = ''degraded''"
  by (auto simp: derive_contrib_health_def Let_def impaired_lane_count_pos lane_alert_def split: if_splits)

section \<open>The lists of the page\<close>

lemma not_le_iff: "NOT a \<le> NOT b \<longleftrightarrow> b \<le> (a :: 'a::len word)"
proof -
  have "unat (NOT w) = unat (- 1 :: 'a word) - unat w" for w :: "'a word"
  proof -
    have "NOT w = - 1 - w" by (simp add: not_eq_complement)
    then show ?thesis using unat_sub [of w "- 1 :: 'a word"] by simp
  qed
  moreover have "unat w \<le> unat (- 1 :: 'a word)" for w :: "'a word"
    by (simp add: word_le_nat_alt [symmetric])
  ultimately show ?thesis by (simp add: word_le_nat_alt le_diff_iff')
qed

lemma newest_key: "session_key a \<le> session_key b \<Longrightarrow> zn_last_seen b \<le> zn_last_seen a"
  using not_le_iff [of "zn_last_seen a" "zn_last_seen b"]
  by (auto simp: session_key_def less_eq_prod_def simp del: bit_not_iff)

definition newest_sessions_first :: "session_snapshot list \<Rightarrow> bool" where
  "newest_sessions_first ss \<longleftrightarrow> sorted_wrt (\<lambda>a b. zn_last_seen b \<le> zn_last_seen a) ss"

lemma recent_sorted: "newest_sessions_first (zs_recent (sessions_snapshot_of now t))"
proof -
  have "sorted (map session_key (zs_recent (sessions_snapshot_of now t)))"
    unfolding sessions_snapshot_of_def by (simp add: take_map [symmetric] sorted_wrt_take)
  then show ?thesis
    unfolding newest_sessions_first_def sorted_map by (rule sorted_wrt_mono_rel [rotated]) (rule newest_key)
qed

lemma recent_all:
  "length (tm_sessions t) \<le> 48 \<Longrightarrow> mset (zs_recent (sessions_snapshot_of now t)) = mset (map (session_snapshot_of now \<circ> snd) (tm_sessions t))"
  by (simp add: sessions_snapshot_of_def contrib_ingest_session_limit_def)

section \<open>Protocols\<close>

definition protocols_ok :: "ingest_telemetry \<Rightarrow> bool" where
  "protocols_ok t \<longleftrightarrow> wf_assoc (tm_protocols t)"

lemma protocols_helpers [simp]:
  "protocols_ok (snd (tm_now t)) = protocols_ok t"
  "protocols_ok (push_alert al t) = protocols_ok t"
  "protocols_ok (push_activity ac t) = protocols_ok t"
  "protocols_ok (update_stream_runtime s f t) = protocols_ok t"
  "protocols_ok (set_mesh_lane k c t) = protocols_ok t"
  by (auto simp: protocols_ok_def tm_now_def push_alert_def push_activity_def update_stream_runtime_def set_mesh_lane_def
      Let_def split: list.splits option.splits)

lemma protocols_fields [simp]:
  "protocols_ok (t\<lparr>tm_raw_http := a\<rparr>) = protocols_ok t" "protocols_ok (t\<lparr>tm_media := a\<rparr>) = protocols_ok t"
  "protocols_ok (t\<lparr>tm_rtmp := a\<rparr>) = protocols_ok t" "protocols_ok (t\<lparr>tm_mpeg_ts := c\<rparr>) = protocols_ok t"
  "protocols_ok (t\<lparr>tm_fmp4 := d\<rparr>) = protocols_ok t" "protocols_ok (t\<lparr>tm_sessions := e\<rparr>) = protocols_ok t"
  "protocols_ok (t\<lparr>tm_sessions_started := n\<rparr>) = protocols_ok t" "protocols_ok (t\<lparr>tm_sessions_ended := n\<rparr>) = protocols_ok t"
  "protocols_ok (t\<lparr>tm_sessions := e, tm_sessions_started := n\<rparr>) = protocols_ok t"
  "protocols_ok (t\<lparr>tm_sessions := e, tm_sessions_ended := n\<rparr>) = protocols_ok t"
  by (simp_all add: protocols_ok_def)

lemma protocols_ok_unit: "protocols_ok t \<Longrightarrow> protocols_ok (record_protocol_unit p b t)"
  using protocols_helpers(1) [of t]
  by (simp add: protocols_ok_def record_protocol_unit_def Let_def wf_assoc_update case_prod_beta)

lemmas protocol_ops = Let_def case_prod_beta protocols_ok_unit

lemma protocols_ok_input:
  "protocols_ok t \<Longrightarrow> protocols_ok (record_raw_http s n b d t)"
  "protocols_ok t \<Longrightarrow> protocols_ok (record_media_access_unit s b d t)"
  "protocols_ok t \<Longrightarrow> protocols_ok (record_rtmp_access_unit s m t)"
  "protocols_ok t \<Longrightarrow> protocols_ok (record_mpeg_ts_slot p s m t)"
  "protocols_ok t \<Longrightarrow> protocols_ok (record_mpeg_ts_continuity_issue p m t)"
  "protocols_ok t \<Longrightarrow> protocols_ok (record_mpeg_ts_payload_drop p m t)"
  by (simp_all add: record_raw_http_def record_media_access_unit_def record_rtmp_access_unit_def record_mpeg_ts_slot_def
      record_mpeg_ts_continuity_issue_def record_mpeg_ts_payload_drop_def protocol_ops)

lemma protocols_ok_output:
  "protocols_ok t \<Longrightarrow> protocols_ok (record_mesh_forward_success k s tgt b d e t)"
  "protocols_ok t \<Longrightarrow> protocols_ok (record_mesh_forward_error k s tgt er t)"
  "protocols_ok t \<Longrightarrow> protocols_ok (record_fmp4_part s n q b i t)"
  "protocols_ok t \<Longrightarrow> protocols_ok (record_fmp4_tracks s q wd ht vu aun t)"
  "protocols_ok t \<Longrightarrow> protocols_ok (record_fmp4_publish_error s n q er t)"
  by (simp_all add: record_mesh_forward_success_def record_mesh_forward_error_def record_fmp4_part_def
      record_fmp4_tracks_def record_fmp4_publish_error_def protocol_ops)

lemma protocols_ok_sessions:
  "protocols_ok t \<Longrightarrow> protocols_ok (ensure_ingest_session p s oi ox pe pa t)"
  "protocols_ok t \<Longrightarrow> protocols_ok (record_ingest_session_body p s n t)"
  "protocols_ok t \<Longrightarrow> protocols_ok (record_ingest_session_access_unit p s n t)"
  "protocols_ok t \<Longrightarrow> protocols_ok (end_ingest_session p s reason t)"
  by (simp_all add: ensure_ingest_session_def record_ingest_session_body_def record_ingest_session_access_unit_def
      end_ingest_session_def touch_session_def protocol_ops split: option.split)

lemma protocols_ok_step: "protocols_ok t \<Longrightarrow> protocols_ok (telemetry_step c t)"
  by (cases c) (simp_all add: protocols_ok_input protocols_ok_output protocols_ok_sessions)

lemma known_protocols:
  "wf_assoc m \<Longrightarrow> wf_assoc (with_known_protocols m) \<and> {''rist'', ''srt'', ''rtmp''} \<subseteq> fst ` set (with_known_protocols m)"
proof -
  define add where "add = (\<lambda>(p :: string) m. if map_of m p = None then AList.update p default_protocol_runtime m else m)"
  have "fst ` set (add p m) = insert p (fst ` set m)" for p m
    by (cases "map_of m p") (auto simp: add_def dom_update intro: image_eqI [of _ fst, OF _ map_of_SomeD])
  moreover have "wf_assoc (add p m)" if "wf_assoc m" for p m
    using that by (auto simp: add_def wf_assoc_update)
  moreover have "with_known_protocols m = add ''rtmp'' (add ''srt'' (add ''rist'' m))"
    by (simp add: with_known_protocols_def add_def)
  ultimately show "wf_assoc m \<Longrightarrow> ?thesis" by simp
qed

lemma protocols_listed:
  assumes "protocols_ok t"
  shows "sorted_wrt (<) (map ps_protocol (protocol_snapshots sessions now t))
    \<and> {''rist'', ''srt'', ''rtmp''} \<subseteq> set (map ps_protocol (protocol_snapshots sessions now t))"
proof -
  let ?ps = "map (protocol_snapshot_of sessions now) (with_known_protocols (tm_protocols t))"
  have names: "map ps_protocol ?ps = map fst (with_known_protocols (tm_protocols t))"
    by (auto simp: protocol_snapshot_of_def Let_def)
  have "sorted (map ps_protocol (sort_key ps_protocol ?ps))" by simp
  moreover have "distinct (map ps_protocol (sort_key ps_protocol ?ps))"
  proof -
    have "mset (map ps_protocol (sort_key ps_protocol ?ps)) = mset (map ps_protocol ?ps)" by (simp only: mset_map mset_sort)
    moreover have "distinct (map ps_protocol ?ps)"
      using known_protocols [of "tm_protocols t"] assms unfolding names by (simp add: protocols_ok_def wf_assoc_def)
    ultimately show ?thesis by (metis mset_eq_imp_distinct_iff)
  qed
  ultimately show ?thesis
    using known_protocols [of "tm_protocols t"] assms arg_cong [OF names, of set]
    by (simp add: protocol_snapshots_def strict_sorted_iff protocols_ok_def image_image)
qed

section \<open>The page\<close>

lemma reachable_telemetry:
  "telemetry_ok (fold telemetry_step calls (default_telemetry clock))
    \<and> protocols_ok (fold telemetry_step calls (default_telemetry clock))"
proof -
  have "telemetry_ok (fold telemetry_step calls t) \<and> protocols_ok (fold telemetry_step calls t)"
    if "telemetry_ok t" "protocols_ok t" for t
    using that by (induction calls arbitrary: t) (simp_all add: ok_step protocols_ok_step)
  moreover have "telemetry_ok (default_telemetry clock)"
    by (simp add: telemetry_ok_def default_telemetry_def table_ok_def one_active_def active_total_def)
  moreover have "protocols_ok (default_telemetry clock)"
    by (simp add: protocols_ok_def default_telemetry_def)
  ultimately show ?thesis by blast
qed

lemma active_sessions_total: "active_ingest_sessions t = active_total (tm_sessions t)"
  by (simp add: active_ingest_sessions_def active_total_def active_entry_def [abs_def] case_prod_beta')


section \<open>The event stream\<close>

text \<open>A text with no line end in it is one event: the name, the data, and the empty line that ends it.\<close>

lemma sse_event_is_one_frame:
  assumes "char_of (10 :: nat) \<notin> set j"
  shows "\<exists>e. sse_event (Inr j) = Inr e \<and> split_on (char_of (10 :: nat)) e = [''event: contrib'', ''data: '' @ j, [], []]"
proof -
  have nl: "char_of (10 :: nat) \<notin> set ''event: contrib''" "char_of (10 :: nat) \<notin> set (''data: '' @ j)"
    using assms by (simp_all add: char_of_def)
  have "split_on (char_of (10 :: nat)) (''event: contrib'' @ char_of (10 :: nat) # (''data: '' @ j) @ char_of (10 :: nat) # [char_of (10 :: nat)])
      = [''event: contrib'', ''data: '' @ j, [], []]"
    unfolding split_on_append [OF nl(1)] split_on_append [OF nl(2)] by simp
  then show ?thesis by (simp add: sse_event_def)
qed

text \<open>The page can show an observation time for the second lane that the session does not use: the time of the
  first lane stands in for a missing one, while the metrics take zero.\<close>

lemma observation_time_differs:
  fixes base :: "'g path_metrics" and show_addr :: "socket_addr \<Rightarrow> string"
  defines "a \<equiv> demo_relay_args\<lparr>ra_path := demo_path\<lparr>pa_observed_at_unix_ms := Some 7\<rparr>, ra_secondary_path := demo_path\<rparr>"
  shows "pa_observed_at_unix_ms (mx_relay_secondary_path (mesh_status_of show_addr a epoch)) = Some 7
    \<and> pm_observed_at_us (secondary_observed base a) = 0"
  by (simp add: a_def mesh_status_of_def relay_secondary_path_metrics_configured_def path_configured_def demo_path_def
      secondary_observed_def observed_def Let_def sat_mul_def)

end
