(* ===== verification/Probe_Wire.thy ===== *)
theory Probe_Wire
  imports Text_Scan
begin

text \<open>
  The wire formats \<^verbatim>\<open>src/src/bin/aep1-48k-probe.rs\<close> reads and writes by hand: an HTTP/1.1 response with its
  chunked body, the variable-length integers and frames of HTTP/3, the header block of the WebTransport
  request, and the context prefix of a datagram. A reader is the list of the bytes to come, \<^const>\<open>None\<close> its end;
  slices that panic and sums of \<^verbatim>\<open>usize\<close> that wrap are written out.
\<close>

section \<open>HTTP/1.1\<close>

datatype http_reply_error =
  NoHeaderEnd | HeadNotText | NoStatus | BadStatus
| NoSizeEnd | SizeNotText | BadSize | ChunkTruncated | SlicePanic

definition crlf :: bytes where "crlf = [13, 10]"

partial_function (option) decode_chunks :: "bytes \<Rightarrow> bytes \<Rightarrow> (http_reply_error + bytes) option" where
  "decode_chunks body wire =
     (case find_sub crlf wire of
        None \<Rightarrow> Some (Inl NoSizeEnd)
      | Some line_end \<Rightarrow> case from_utf8 (take line_end wire) of
          None \<Rightarrow> Some (Inl SizeNotText)
        | Some text \<Rightarrow> case parse_hex (trim (takeWhile (\<lambda>c. c \<noteq> CHR '';'') text)) of
            None \<Rightarrow> Some (Inl BadSize)
          | Some n \<Rightarrow>
              let wire = drop (line_end + 2) wire; after = (n + 2) mod 2 ^ 64 in
              if n = 0 then Some (Inr body)
              else if length wire < after then Some (Inl ChunkTruncated)
              else if after < n then Some (Inl SlicePanic)
              else if take 2 (drop n wire) \<noteq> crlf then Some (Inl ChunkTruncated)
              else decode_chunks (body @ take n wire) (drop after wire))"

definition decode_chunked_body :: "bytes \<Rightarrow> (http_reply_error + bytes) option" where
  "decode_chunked_body wire = decode_chunks [] wire"

record http_reply =
  hp_status :: u16
  hp_headers :: "(string, string) assoc"
  hp_body :: bytes
  hp_wire_bytes :: nat

fun reply_headers :: "string list \<Rightarrow> (string, string) assoc \<Rightarrow> (string, string) assoc" where
  "reply_headers [] headers = headers"
| "reply_headers (line # lines) headers =
     reply_headers lines (case split_once CHR '':'' line of
         None \<Rightarrow> headers
       | Some (name, v) \<Rightarrow> AList.update (to_ascii_lowercase (trim name)) (trim v) headers)"

definition parse_http_response :: "bytes \<Rightarrow> (http_reply_error + http_reply) option" where
  "parse_http_response wire =
     (case find_sub (crlf @ crlf) wire of
        None \<Rightarrow> Some (Inl NoHeaderEnd)
      | Some header_end \<Rightarrow> case from_utf8 (take header_end wire) of
          None \<Rightarrow> Some (Inl HeadNotText)
        | Some head \<Rightarrow>
            let lines = split_str [byte_char 13, byte_char 10] head;
                parts = split_whitespace (hd lines) in
            if length parts < 2 then Some (Inl NoStatus)
            else case parse_uint (parts ! 1) of
                None \<Rightarrow> Some (Inl BadStatus)
              | Some status \<Rightarrow>
                  let headers = reply_headers (tl lines) [];
                      encoded = drop (header_end + 4) wire;
                      reply = (\<lambda>body. Inr \<lparr>hp_status = status, hp_headers = headers, hp_body = body,
                        hp_wire_bytes = length wire\<rparr>) in
                  if (case map_of headers ''transfer-encoding'' of None \<Rightarrow> False | Some v \<Rightarrow> eq_ignore_ascii_case v ''chunked'')
                  then map_option (\<lambda>r. res_bind r reply) (decode_chunked_body encoded)
                  else Some (reply encoded))"

definition split_cache_latency_ns :: "(string, string) assoc \<Rightarrow> u64 \<Rightarrow> u64 \<Rightarrow> (u64 \<times> u64) option" where
  "split_cache_latency_ns headers published_ns received_ns =
     (case map_of headers ''x-needletail-cache-available-unix-us'' of None \<Rightarrow> None | Some v \<Rightarrow>
      case parse_uint v of None \<Rightarrow> None | Some available_us \<Rightarrow>
      case checked_mul available_us 1000 of None \<Rightarrow> None | Some available_ns \<Rightarrow>
        if available_ns < published_ns \<or> received_ns < available_ns then None
        else Some (available_ns - published_ns, received_ns - available_ns))"

section \<open>HTTP/3\<close>

definition encode_varint :: "u64 \<Rightarrow> bytes" where
  "encode_varint v =
     (if v < 64 then [ucast v]
      else if v < 16384 then be_bytes 2 (unat (ucast (v OR 0x4000) :: u16))
      else if v < 1073741824 then be_bytes 4 (unat (ucast (v OR 0x80000000) :: u32))
      else u64_be (v OR 0xC000000000000000))"

fun read_more :: "nat \<Rightarrow> u64 \<Rightarrow> bytes \<Rightarrow> (u64 \<times> bytes) option" where
  "read_more 0 v bs = Some (v, bs)"
| "read_more (Suc n) v [] = None"
| "read_more (Suc n) v (b # bs) = read_more n (push_bit 8 v OR ucast b) bs"

fun read_varint :: "bytes \<Rightarrow> (u64 \<times> bytes) option" where
  "read_varint [] = None"
| "read_varint (first # bs) = read_more (2 ^ unat (drop_bit 6 first) - 1) (ucast (first AND 0x3F)) bs"

definition read_h3_frame :: "bytes \<Rightarrow> ((u64 \<times> bytes) \<times> bytes) option" where
  "read_h3_frame bs =
     (case read_varint bs of None \<Rightarrow> None | Some (frame_type, bs) \<Rightarrow>
      case read_varint bs of None \<Rightarrow> None | Some (frame_len, bs) \<Rightarrow>
        if length bs < unat frame_len then None
        else Some ((frame_type, take (unat frame_len) bs), drop (unat frame_len) bs))"

definition strip_h3_datagram_context :: "bytes \<Rightarrow> string + bytes" where
  "strip_h3_datagram_context wire =
     (case wire of
        [] \<Rightarrow> Inl ''empty HTTP/3 datagram''
      | first # _ \<Rightarrow> let encoded_len = 2 ^ unat (drop_bit 6 first) in
          if length wire < encoded_len then Inl ''truncated HTTP/3 datagram context'' else Inr (drop encoded_len wire))"

section \<open>Header block of the WebTransport request\<close>

fun qpack_rest :: "nat \<Rightarrow> bytes" where
  "qpack_rest remaining =
     (if 128 \<le> remaining then (of_nat (remaining mod 128) OR 0x80) # qpack_rest (remaining div 128)
      else [of_nat remaining])"

declare qpack_rest.simps [simp del]

text \<open>The prefix is at most 7 bits wide in every call, so the shift of the flags does not overflow.\<close>

definition encode_qpack_prefixed_int :: "nat \<Rightarrow> u8 \<Rightarrow> u64 \<Rightarrow> bytes" where
  "encode_qpack_prefixed_int prefix_bits flags v =
     (let mask = 2 ^ prefix_bits - 1; flags = push_bit prefix_bits flags in
      if unat v < mask then [flags OR of_nat (unat v)]
      else (flags OR of_nat mask) # qpack_rest (unat v - mask))"

definition encode_qpack_string :: "nat \<Rightarrow> u8 \<Rightarrow> bytes \<Rightarrow> bytes" where
  "encode_qpack_string prefix_bits flags v =
     encode_qpack_prefixed_int (prefix_bits - 1) (push_bit 1 flags) (of_nat (length v)) @ v"

definition encode_qpack_indexed_static :: "u64 \<Rightarrow> bytes" where
  "encode_qpack_indexed_static index = encode_qpack_prefixed_int 6 3 index"

definition encode_qpack_literal_static_name :: "u64 \<Rightarrow> bytes \<Rightarrow> bytes" where
  "encode_qpack_literal_static_name index v = encode_qpack_prefixed_int 4 5 index @ encode_qpack_string 8 0 v"

definition encode_qpack_literal :: "bytes \<Rightarrow> bytes \<Rightarrow> bytes" where
  "encode_qpack_literal name v = encode_qpack_string 4 2 name @ encode_qpack_string 8 0 v"

definition encode_webtransport_connect_headers :: "bytes \<Rightarrow> bytes" where
  "encode_webtransport_connect_headers authority =
     [0, 0] @ encode_qpack_indexed_static 15 @ encode_qpack_indexed_static 23
     @ encode_qpack_literal_static_name 0 authority
     @ encode_qpack_literal_static_name 1 (bytes_of_str ''/wt'')
     @ encode_qpack_literal (bytes_of_str '':protocol'') (bytes_of_str ''webtransport'')"

definition qpack_block_has_static_status_200 :: "bytes \<Rightarrow> bool" where
  "qpack_block_has_static_status_200 block \<longleftrightarrow>
     3 \<le> length block \<and> block ! 0 = 0 \<and> block ! 1 = 0 \<and> 0xD9 \<in> set (drop 2 block)"

end
