(* ===== verification/Probe_Wire_Facts.thy ===== *)
theory Probe_Wire_Facts
  imports Probe_Wire
begin

text \<open>
  The readers of the probe end on every input, a chunked body is the chunks it was made of, and the
  integers, frames and header fields of HTTP/3 are read back as they were written, up to the two bits the
  format takes for the length.
\<close>

section \<open>Trimming\<close>

lemma space_at_ascii:
  assumes "char_code c < 128" and "char_code c \<notin> {9, 10, 11, 12, 13, 32}"
    and "list_all (\<lambda>w. w \<noteq> [] \<and> 128 \<le> char_code (hd w)) wide"
  shows "space_at wide (c # s) = 0"
proof -
  have "find (\<lambda>w. starts_with w (c # s)) wide = None"
    using assms(1,3) by (fastforce simp: find_None_iff list_all_iff starts_with_iff neq_Nil_conv)
  then show ?thesis using assms(2) by (auto simp: space_at_def)
qed

lemma wide_spaces_high: "list_all (\<lambda>w. w \<noteq> [] \<and> 128 \<le> char_code (hd w)) wide_spaces"
  by (simp add: wide_spaces_def upt_rec [of 0 11] numeral_eq_Suc upt_rec)

lemma wide_spaces_rev_high: "list_all (\<lambda>w. w \<noteq> [] \<and> 128 \<le> char_code (hd w)) (map rev wide_spaces)"
  by (simp add: wide_spaces_def upt_rec [of 0 11] numeral_eq_Suc upt_rec)

definition plain :: "char \<Rightarrow> bool" where
  "plain c \<longleftrightarrow> char_code c < 128 \<and> char_code c \<notin> {9, 10, 11, 12, 13, 32}"

lemma trim_front_plain:
  "plain (hd s) \<Longrightarrow> list_all (\<lambda>w. w \<noteq> [] \<and> 128 \<le> char_code (hd w)) wide \<Longrightarrow> trim_front wide s = s"
  by (cases s; subst trim_front.simps) (auto simp: space_at_ascii plain_def, simp add: space_at_def)

lemma trim_plain: "s \<noteq> [] \<Longrightarrow> plain (hd s) \<Longrightarrow> plain (last s) \<Longrightarrow> trim s = s"
  by (simp add: trim_def trim_front_plain wide_spaces_high wide_spaces_rev_high hd_rev)

section \<open>The chunked body\<close>

lemma chunks_step:
  "decode_chunks body wire \<noteq> None"
proof (induction "length wire" arbitrary: body wire rule: less_induct)
  case less
  show ?case
  proof (cases "find_sub crlf wire")
    case (Some i)
    have i: "i + 2 \<le> length wire" using find_sub_Some [OF Some] by (simp add: crlf_def)
    have "decode_chunks body' (drop n (drop (i + 2) wire)) \<noteq> None" for body' n
      using less [of "drop n (drop (i + 2) wire)"] i by simp
    then show ?thesis
      using Some by (subst decode_chunks.simps) (auto simp: Let_def split: option.split)
  qed (subst decode_chunks.simps, simp)
qed

text \<open>Reading a response comes to an end on every sequence of bytes a peer can send, chunked or not.\<close>

theorem http_response_returns: "\<exists>r. parse_http_response wire = Some r"
  using chunks_step by (auto simp: parse_http_response_def decode_chunked_body_def Let_def split: option.split)

text \<open>A step over one well-formed size line.\<close>

lemma plain_hex: "n < 16 \<Longrightarrow> plain (byte_char (if n < 10 then 48 + n else 87 + n))"
  by (auto simp: plain_def)

lemma hex_str_chars: "c \<in> set (hex_str n) \<Longrightarrow> plain c \<and> char_code c \<noteq> 59 \<and> char_code c \<noteq> 43"
proof (induction n rule: hex_str.induct)
  case (1 n)
  let ?c = "byte_char (if n mod 16 < 10 then 48 + n mod 16 else 87 + n mod 16)"
  have "char_code ?c = (if n mod 16 < 10 then 48 + n mod 16 else 87 + n mod 16)"
    using mod_less_divisor [of 16 n] by auto
  then have "plain ?c \<and> char_code ?c \<noteq> 59 \<and> char_code ?c \<noteq> 43"
    using mod_less_divisor [of 16 n] by (auto simp: plain_def split: if_splits)
  with 1 show ?case by (subst (asm) hex_str.simps) (auto simp: Let_def split: if_splits)
qed

lemma hex_str_not_Nil: "hex_str n \<noteq> []"
  by (subst hex_str.simps) (simp add: Let_def)

lemma parse_hex_str: "n < 2 ^ 64 \<Longrightarrow> parse_hex (hex_str n) = Some n"
proof -
  assume n: "n < 2 ^ 64"
  obtain c cs where s: "hex_str n = c # cs" using hex_str_not_Nil by (cases "hex_str n") blast+
  have "c \<noteq> CHR ''+''" using hex_str_chars [of c n] s by (auto simp: char_code_def)
  then show ?thesis using n hex_digits_hex_str [of n] by (simp add: parse_hex_def s Let_def)
qed

definition size_line :: "nat \<Rightarrow> bytes" where "size_line n = bytes_of_str (hex_str n) @ crlf"

lemma size_line_text:
  assumes "n < 2 ^ 64"
  shows "find_sub crlf (size_line n @ rest) = Some (length (hex_str n))"
    and "from_utf8 (take (length (hex_str n)) (size_line n @ rest)) = Some (hex_str n)"
    and "parse_hex (trim (takeWhile (\<lambda>c. c \<noteq> CHR '';'') (hex_str n))) = Some n"
    and "drop (length (hex_str n) + 2) (size_line n @ rest) = rest"
proof -
  have low: "unat b < 128 \<and> b \<noteq> 10" if b: "b \<in> set (bytes_of_str (hex_str n))" for b
  proof -
    obtain c where c: "b = of_nat (char_code c)" "c \<in> set (hex_str n)"
      using b by (auto simp: bytes_of_str_def char_code_def)
    then have "unat b = char_code c" using hex_str_chars [of c n] by (simp add: unat_byte plain_def)
    then show ?thesis using hex_str_chars [OF c(2)] by (auto simp: plain_def)
  qed
  show "find_sub crlf (size_line n @ rest) = Some (length (hex_str n))"
    using find_sub_pair [of 10 "bytes_of_str (hex_str n)" 13 rest] low
    by (simp add: size_line_def crlf_def list_all_iff)
  show "from_utf8 (take (length (hex_str n)) (size_line n @ rest)) = Some (hex_str n)"
  proof -
    have "\<forall>b \<in> set (bytes_of_str (hex_str n)). b \<le> 0x7F"
    proof
      fix b assume "b \<in> set (bytes_of_str (hex_str n))"
      from low [OF this] show "b \<le> 0x7F" by (simp add: word_le_nat_alt)
    qed
    then show ?thesis by (simp add: size_line_def from_utf8_def utf8_ok_ascii)
  qed
  have "takeWhile (\<lambda>c. c \<noteq> CHR '';'') (hex_str n) = hex_str n"
    using hex_str_chars [of _ n] by (fastforce simp: takeWhile_eq_all_conv char_code_def)
  moreover have "trim (hex_str n) = hex_str n"
    using hex_str_not_Nil [of n] hex_str_chars [of _ n] by (intro trim_plain) simp_all
  ultimately show "parse_hex (trim (takeWhile (\<lambda>c. c \<noteq> CHR '';'') (hex_str n))) = Some n"
    by (simp only: parse_hex_str [OF assms])
  show "drop (length (hex_str n) + 2) (size_line n @ rest) = rest"
    by (simp add: size_line_def crlf_def)
qed

lemma decode_size_line:
  assumes "n < 2 ^ 64"
  shows "decode_chunks body (size_line n @ rest) =
     (let after = (n + 2) mod 2 ^ 64 in
      if n = 0 then Some (Inr body)
      else if length rest < after then Some (Inl ChunkTruncated)
      else if after < n then Some (Inl SlicePanic)
      else if take 2 (drop n rest) \<noteq> crlf then Some (Inl ChunkTruncated)
      else decode_chunks (body @ take n rest) (drop after rest))"
  by (subst decode_chunks.simps) (simp only: size_line_text [OF assms] option.case Let_def)

fun encode_chunks :: "bytes list \<Rightarrow> bytes" where
  "encode_chunks [] = size_line 0 @ crlf"
| "encode_chunks (c # cs) = size_line (length c) @ c @ crlf @ encode_chunks cs"

text \<open>A body sent in chunks, each not empty and shorter than the address space, is read back as the chunks
  one after the other.\<close>

theorem chunked_body_roundtrip:
  assumes "list_all (\<lambda>c. c \<noteq> [] \<and> length c < 2 ^ 64 - 2) chunks"
  shows "decode_chunked_body (encode_chunks chunks) = Some (Inr (concat chunks))"
proof -
  have "decode_chunks body (encode_chunks chunks) = Some (Inr (body @ concat chunks))" for body
    using assms
  proof (induction chunks arbitrary: body)
    case Nil
    then show ?case by (simp add: decode_size_line)
  next
    case (Cons c cs)
    then have c: "length c < 2 ^ 64" "(length c + 2) mod 2 ^ 64 = length c + 2" "c \<noteq> []" by auto
    show ?case
      unfolding encode_chunks.simps decode_size_line [OF c(1)] c(2) Let_def using Cons c(3) by (simp add: crlf_def)
  qed
  from this [of "[]"] show ?thesis by (simp add: decode_chunked_body_def)
qed

theorem chunked_body_roundtrip_witness:
  "decode_chunked_body (encode_chunks [[1, 2, 3], [4]]) = Some (Inr [1, 2, 3, 4])"
  using chunked_body_roundtrip [of "[[1, 2, 3], [4]]"] by simp

text \<open>A size two below the address space makes the sum wrap: the slice that follows panics.\<close>

lemma chunk_size_panics: "decode_chunked_body (size_line (2 ^ 64 - 2) @ rest) = Some (Inl SlicePanic)"
  by (simp add: decode_chunked_body_def decode_size_line)

section \<open>Integers of HTTP/3\<close>

lemma or_disjoint: "a AND b = 0 \<Longrightarrow> unat a + unat b < 2 ^ LENGTH('a) \<Longrightarrow> unat (a OR b) = unat a + unat (b :: 'a::len word)"
  by (simp add: disjunctive_add_eq_or [symmetric] unat_word_ariths)

lemma high_bits_disjoint:
  fixes v t :: "'a::len word"
  assumes "unat v < 2 ^ n"
  shows "v AND push_bit n t = 0"
proof (rule bit_eqI)
  fix i
  have "\<not> bit v i" if "n \<le> i"
  proof -
    have "(2 :: nat) ^ n \<le> 2 ^ i" using that by (rule power_increasing) simp
    with assms have "unat v < 2 ^ i" by linarith
    then have "\<not> bit (unat v) i" by (simp add: bit_iff_odd)
    then show ?thesis by (auto simp: bit_unsigned_iff dest: bit_imp_le_length)
  qed
  then show "bit (v AND push_bit n t) i = bit (0 :: 'a word) i" by (auto simp: bit_simps)
qed

text \<open>A number below the flag bits and the flags shifted above it.\<close>

lemma or_tag:
  fixes v t :: "'a::len word"
  assumes "unat v < 2 ^ n" and "(unat t + 1) * 2 ^ n \<le> 2 ^ LENGTH('a)"
  shows "unat (v OR push_bit n t) = unat v + unat t * 2 ^ n"
proof -
  have sum: "unat v + unat t * 2 ^ n < 2 ^ LENGTH('a)" using assms by (simp add: add_mult_distrib)
  have "unat (push_bit n t) = take_bit LENGTH('a) (push_bit n (unat t))" by (simp only: unsigned_push_bit_eq)
  also have "\<dots> = unat t * 2 ^ n" using sum by (simp add: push_bit_eq_mult take_bit_nat_eq_self)
  finally show ?thesis using or_disjoint [OF high_bits_disjoint [OF assms(1)], of t] sum by simp
qed

lemma shift_in:
  assumes "unat (v :: u64) < 2 ^ 56"
  shows "unat (push_bit 8 v OR ucast (b :: u8)) = 256 * unat v + unat b"
proof -
  have shifted: "unat (push_bit 8 v) = 256 * unat v"
    using assms by (simp add: push_bit_eq_mult unat_word_ariths)
  have "push_bit 8 v AND ucast b = 0"
    by (rule bit_eqI) (auto simp: bit_simps dest: bit_imp_le_length)
  then show ?thesis
    using assms unat_lt2p [of b] or_disjoint [of "push_bit 8 v" "ucast b"] by (simp add: shifted unat_ucast_widen)
qed

lemma read_more_be:
  "unat v * 256 ^ length bs + be_value bs < 2 ^ 64 \<Longrightarrow>
     read_more (length bs) v (bs @ rest) = Some (of_nat (unat v * 256 ^ length bs + be_value bs), rest)"
proof (induction bs arbitrary: v)
  case (Cons b bs)
  have "unat v * 256 < 2 ^ 64"
  proof -
    have "unat v * 256 \<le> unat v * 256 ^ length (b # bs)" by simp
    then show ?thesis using Cons.prems by linarith
  qed
  then have v: "unat (push_bit 8 v OR ucast b) = 256 * unat v + unat b" by (intro shift_in) simp
  then have "unat (push_bit 8 v OR ucast b) * 256 ^ length bs + be_value bs = unat v * 256 ^ length (b # bs) + be_value (b # bs)"
    by (simp add: algebra_simps)
  then show ?case using Cons.IH [of "push_bit 8 v OR ucast b"] Cons.prems by simp
qed simp

lemma tag_byte:
  assumes "hi < 64" and "k < 4"
  shows "unat (drop_bit 6 (of_nat (hi + k * 64) :: u8)) = k" and "unat (of_nat (hi + k * 64) AND 0x3F :: u8) = hi"
proof -
  have byte: "unat (of_nat (hi + k * 64) :: u8) = hi + k * 64" using assms by (simp add: unat_byte del: of_nat_add of_nat_mult)
  then show "unat (drop_bit 6 (of_nat (hi + k * 64) :: u8)) = k"
    using assms by (simp add: drop_bit_eq_div unat_div_distrib del: of_nat_add of_nat_mult)
  have "(of_nat (hi + k * 64) AND 0x3F :: u8) = take_bit 6 (of_nat (hi + k * 64))"
    by (simp add: take_bit_eq_mask mask_eq_exp_minus_1)
  then show "unat (of_nat (hi + k * 64) AND 0x3F :: u8) = hi"
    using assms byte by (simp add: take_bit_eq_mod unat_mod_distrib del: of_nat_add of_nat_mult)
qed

lemma be_bytes_tagged:
  "be_bytes (Suc m) (x + k * 64 * 256 ^ m) = of_nat (x div 256 ^ m + k * 64) # be_bytes m x"
proof -
  have "(x + k * 64 * 256 ^ m) div 256 ^ m = x div 256 ^ m + k * 64" by simp
  moreover have "be_bytes m (x + k * 64 * 256 ^ m) = be_bytes m x"
    by (subst (1 2) be_bytes_mod [symmetric]) simp
  ultimately show ?thesis by simp
qed

lemma read_tagged:
  assumes "k < 4" and "2 ^ k = Suc m" and "x < 64 * 256 ^ m"
  shows "read_varint (be_bytes (2 ^ k) (x + k * 64 * 256 ^ m) @ rest) = Some (of_nat x, rest)"
proof -
  let ?hi = "x div 256 ^ m"
  have hi: "?hi < 64" using assms(3) by (simp add: less_mult_imp_div_less)
  have small: "64 * 256 ^ m \<le> (2 :: nat) ^ 64"
  proof -
    have "m \<le> 7" using assms(1,2) by (auto simp: less_Suc_eq numeral_eq_Suc)
    then have "(256 :: nat) ^ m \<le> 256 ^ 7" by (intro power_increasing) simp_all
    then show ?thesis by simp
  qed
  have v: "unat (ucast (of_nat (?hi + k * 64) AND 0x3F :: u8) :: u64) = ?hi"
    using tag_byte(2) [OF hi assms(1)] by (simp add: unat_ucast_widen del: of_nat_add of_nat_mult)
  have "?hi * 256 ^ m + x mod 256 ^ m = x" by (simp add: div_mult_mod_eq)
  then have "read_more m (ucast (of_nat (?hi + k * 64) AND 0x3F :: u8)) (be_bytes m x @ rest) = Some (of_nat x, rest)"
    using read_more_be [of "ucast (of_nat (?hi + k * 64) AND 0x3F :: u8)" "be_bytes m x" rest] assms(3) small
    by (simp only: v be_value_be_bytes length_be_bytes)
  then show ?thesis
    using tag_byte(1) [OF hi assms(1)] by (simp add: assms(2) be_bytes_tagged del: of_nat_add of_nat_mult be_bytes.simps)
qed

lemma encode_varint_tagged:
  assumes "v < 2 ^ 62"
  shows "\<exists>k m. k < 4 \<and> 2 ^ k = Suc m \<and> unat v < 64 * 256 ^ m \<and> encode_varint v = be_bytes (2 ^ k) (unat v + k * 64 * 256 ^ m)"
proof -
  have tag: "unat (v OR push_bit n t) = unat v + unat t * 2 ^ n" if "unat v < 2 ^ n" "unat t < 4" "n \<le> 62" for n and t :: u64
  proof (rule or_tag [OF that(1)])
    have "(unat t + 1) * 2 ^ n \<le> 4 * 2 ^ 62" using that(2,3) by (intro mult_le_mono power_increasing) simp_all
    then show "(unat t + 1) * 2 ^ n \<le> 2 ^ LENGTH(64)" by simp
  qed
  consider "v < 64" | "64 \<le> v" "v < 16384" | "16384 \<le> v" "v < 1073741824" | "1073741824 \<le> v" by fastforce
  then show ?thesis
  proof cases
    case 1
    then show ?thesis
      by - (rule exI [of _ 0], rule exI [of _ 0], simp add: encode_varint_def word_less_nat_alt word_unat_eq_iff unsigned_ucast_eq unsigned_of_nat)
  next
    case 2
    then have "unat v < 16384" by (simp add: word_less_nat_alt)
    moreover from this have "unat (v OR 0x4000) = unat v + 16384" using tag [of 14 1] by simp
    ultimately show ?thesis using 2
      by - (rule exI [of _ 1], rule exI [of _ 1], simp add: encode_varint_def leD unsigned_ucast_eq take_bit_nat_eq_self del: be_bytes.simps)
  next
    case 3
    then have "unat v < 1073741824" by (simp add: word_less_nat_alt)
    moreover from this have "unat (v OR 0x80000000) = unat v + 2147483648" using tag [of 30 2] by simp
    moreover have "64 \<le> v" "16384 \<le> v" using 3 by (auto simp: word_less_nat_alt word_le_nat_alt)
    ultimately show ?thesis using 3
      by - (rule exI [of _ 2], rule exI [of _ 3], simp add: encode_varint_def leD unsigned_ucast_eq take_bit_nat_eq_self del: be_bytes.simps)
  next
    case 4
    have "unat v < 2 ^ 62" using assms by (simp add: word_less_nat_alt)
    moreover from this have "unat (v OR 0xC000000000000000) = unat v + 13835058055282163712" using tag [of 62 3] by simp
    moreover have "64 \<le> v" "16384 \<le> v" "1073741824 \<le> v" using 4 by (auto simp: word_less_nat_alt word_le_nat_alt)
    ultimately show ?thesis
      by - (rule exI [of _ 3], rule exI [of _ 7], simp add: encode_varint_def leD u64_be_def del: be_bytes.simps)
  qed
qed

lemma varint_read_back: "v < 2 ^ 62 \<Longrightarrow> read_varint (encode_varint v @ rest) = Some (v, rest)"
  using encode_varint_tagged [of v] read_tagged [of _ _ "unat v" rest] by auto

text \<open>A frame written as its type, its length and its payload is read back as it was, whatever follows, for
  types and lengths below \<open>2 ^ 62\<close>.\<close>

theorem h3_frame_roundtrip:
  assumes "frame_type < 2 ^ 62" and "length payload < 2 ^ 62"
  shows "read_h3_frame (encode_varint frame_type @ encode_varint (of_nat (length payload)) @ payload @ rest)
    = Some ((frame_type, payload), rest)"
proof -
  have len: "unat (of_nat (length payload) :: u64) = length payload"
    using assms(2) by (simp add: unat_of_nat)
  then have "(of_nat (length payload) :: u64) < 2 ^ 62" using assms(2) by (simp add: word_less_nat_alt)
  then show ?thesis
    using varint_read_back [OF assms(1)] len by (simp add: read_h3_frame_def varint_read_back)
qed

theorem h3_frame_roundtrip_witness:
  "read_h3_frame (encode_varint 1 @ encode_varint 2 @ [7, 8] @ [9]) = Some ((1, [7, 8]), [9])"
  using h3_frame_roundtrip [of 1 "[7, 8]" "[9]"] by simp

text \<open>A context prefix goes as the reader of integers would take it.\<close>

lemma context_stripped:
  assumes "v < 2 ^ 62"
  shows "strip_h3_datagram_context (encode_varint v @ rest) = Inr rest"
proof -
  obtain k m where km: "k < 4" "2 ^ k = Suc m" "unat v < 64 * 256 ^ m"
    "encode_varint v = be_bytes (2 ^ k) (unat v + k * 64 * 256 ^ m)"
    using encode_varint_tagged [OF assms] by blast
  have hi: "unat v div 256 ^ m < 64" using km(3) by (simp add: less_mult_imp_div_less)
  have "encode_varint v = of_nat (unat v div 256 ^ m + k * 64) # be_bytes m (unat v)"
    using km by (simp only: be_bytes_tagged)
  then show ?thesis
    using tag_byte(1) [OF hi km(1)] km(2)
    by (simp add: strip_h3_datagram_context_def Let_def del: of_nat_add of_nat_mult)
qed

section \<open>Integers of header fields\<close>

text \<open>The reader of RFC 7541: the prefix, and while it is full the continuation bytes, low groups first.\<close>

fun qpack_read_rest :: "bytes \<Rightarrow> (nat \<times> bytes) option" where
  "qpack_read_rest [] = None"
| "qpack_read_rest (b # bs) =
     (if unat b < 128 then Some (unat b, bs)
      else map_option (\<lambda>(n, rest). (unat b - 128 + 128 * n, rest)) (qpack_read_rest bs))"

definition qpack_read_int :: "nat \<Rightarrow> bytes \<Rightarrow> (nat \<times> bytes) option" where
  "qpack_read_int prefix_bits bs =
     (case bs of
        [] \<Rightarrow> None
      | b # bs \<Rightarrow> let n = unat b mod 2 ^ prefix_bits in
          if n < 2 ^ prefix_bits - 1 then Some (n, bs)
          else map_option (\<lambda>(m, rest). (n + m, rest)) (qpack_read_rest bs))"

lemma continuation_byte: "r < 128 \<Longrightarrow> unat (of_nat r OR 0x80 :: u8) = r + 128"
  using or_tag [of "of_nat r :: u8" 7 1] by (simp add: unat_byte)

lemma qpack_rest_read: "qpack_read_rest (qpack_rest n @ rest) = Some (n, rest)"
proof (induction n rule: qpack_rest.induct)
  case (1 n)
  show ?case
  proof (cases "128 \<le> n")
    case True
    then have "qpack_rest n = (of_nat (n mod 128) OR 0x80) # qpack_rest (n div 128)" by (subst qpack_rest.simps) simp
    with 1 True continuation_byte [of "n mod 128"] show ?thesis by (simp del: of_nat_mod)
  next
    case False
    then have "qpack_rest n = [of_nat n]" by (subst qpack_rest.simps) simp
    with False show ?thesis by (simp add: unat_byte)
  qed
qed

lemma prefix_byte:
  assumes "p < 8" and "unat (flags :: u8) < 2 ^ (8 - p)" and "n < 2 ^ p"
  shows "unat (push_bit p flags OR of_nat n) mod 2 ^ p = n" and "drop_bit p (push_bit p flags OR of_nat n) = flags"
proof -
  have "(unat flags + 1) * 2 ^ p \<le> 2 ^ (8 - p) * 2 ^ p" using assms(2) by (intro mult_le_mono1) simp
  also have "\<dots> = 2 ^ 8" using assms(1) by (simp flip: power_add)
  finally have top: "(unat flags + 1) * 2 ^ p \<le> 2 ^ 8" .
  have "(2 :: nat) ^ p \<le> 2 ^ 7" using assms(1) by (intro power_increasing) simp_all
  then have "unat (of_nat n :: u8) = n" using assms(3) by (simp add: unat_byte)
  then have v: "unat (push_bit p flags OR of_nat n) = n + unat flags * 2 ^ p"
    using or_tag [of "of_nat n :: u8" p flags] top assms(3) by (simp add: or.commute)
  then show "unat (push_bit p flags OR of_nat n) mod 2 ^ p = n" using assms(3) by simp
  have "unat (drop_bit p (push_bit p flags OR of_nat n)) = unat flags"
    by (simp only: unat_drop_bit_eq v) (simp add: drop_bit_eq_div assms(3))
  then show "drop_bit p (push_bit p flags OR of_nat n) = flags" by (simp add: word_unat_eq_iff)
qed

text \<open>An integer of a header field is read back by the format's own rule, at every prefix width up to seven bits,
  and the flag bits stay above the prefix.\<close>

theorem qpack_int_roundtrip:
  assumes "p < 8" and "unat flags < 2 ^ (8 - p)"
  shows "qpack_read_int p (encode_qpack_prefixed_int p flags v @ rest) = Some (unat v, rest)
    \<and> drop_bit p (hd (encode_qpack_prefixed_int p flags v)) = flags"
proof (cases "unat v < 2 ^ p - 1")
  case True
  then have "unat v < 2 ^ p" by simp
  from True prefix_byte [OF assms this] show ?thesis
    by (simp add: encode_qpack_prefixed_int_def qpack_read_int_def Let_def del: of_nat_unat)
next
  case False
  have "2 ^ p - 1 < (2 :: nat) ^ p" by simp
  from False prefix_byte [OF assms this] qpack_rest_read [of "unat v - (2 ^ p - 1)" rest] show ?thesis
    by (simp add: encode_qpack_prefixed_int_def qpack_read_int_def Let_def)
qed

theorem qpack_int_roundtrip_witness:
  "qpack_read_int 5 (encode_qpack_prefixed_int 5 1 1337 @ [9]) = Some (1337, [9])"
  using qpack_int_roundtrip [of 5 1 1337 "[9]"] by simp

end
