(* ===== verification/Probe_Plan.thy ===== *)
theory Probe_Plan
  imports Text_Scan Audio_Epoch
begin

text \<open>
  What \<^verbatim>\<open>src/src/bin/aep1-48k-probe.rs\<close> decides before and while it sends: the audio it generates or loops, the
  groups a publication is cut into, the epochs handed to the sender, and the window and timeouts of a reader.
  The codec, the FEC sender and the socket are parameters; the two tonal test signals are floating point and
  a parameter as well. A slice outside its list is a panic. Sleeping and the elapsed time are left out.
\<close>

section \<open>Names and formats\<close>

definition sample_rate_48k :: u32 where "sample_rate_48k = 48000"
definition frame_count_240 :: nat where "frame_count_240 = 240"
definition flac_max_channels :: u16 where "flac_max_channels = 8"
definition logical_max_channels :: u16 where "logical_max_channels = 128"

datatype probe_payload = PayloadFlac | PayloadPcm
datatype receive_audio_format = ReceiveOpus | ReceiveFlac | ReceivePcm
datatype hls_transport = H3 | Http1
datatype hls_audio_codec = HlsFlac | HlsOpaqueFlac | HlsOpus | HlsSoundkitOpus | HlsIpcm | HlsFpcm
datatype probe_signal = Decorrelated | Noise | Sine

fun receive_format_of_kind :: "audio_payload_kind \<Rightarrow> receive_audio_format" where
  "receive_format_of_kind KindOpus = ReceiveOpus"
| "receive_format_of_kind KindFlac = ReceiveFlac"
| "receive_format_of_kind KindPcm = ReceivePcm"

fun hls_codec_name :: "hls_audio_codec \<Rightarrow> string" where
  "hls_codec_name HlsFlac = ''flac''"
| "hls_codec_name HlsOpaqueFlac = ''opaque_flac''"
| "hls_codec_name HlsOpus = ''opus''"
| "hls_codec_name HlsSoundkitOpus = ''soundkit_opus''"
| "hls_codec_name HlsIpcm = ''ipcm_s24le''"
| "hls_codec_name HlsFpcm = ''fpcm_f32le''"

fun media_extension :: "hls_audio_codec \<Rightarrow> string" where
  "media_extension HlsOpaqueFlac = ''bin''"
| "media_extension HlsSoundkitOpus = ''bin''"
| "media_extension _ = ''mp4''"

fun init_marker :: "hls_audio_codec \<Rightarrow> bytes option" where
  "init_marker HlsOpaqueFlac = None"
| "init_marker HlsSoundkitOpus = None"
| "init_marker HlsFlac = Some (bytes_of_str ''fLaC'')"
| "init_marker HlsOpus = Some (bytes_of_str ''Opus'')"
| "init_marker HlsIpcm = Some (bytes_of_str ''ipcm'')"
| "init_marker HlsFpcm = Some (bytes_of_str ''fpcm'')"

fun transport_name :: "hls_transport \<Rightarrow> string" where
  "transport_name H3 = ''h3''"
| "transport_name Http1 = ''http/1.1''"

fun probe_payload_name :: "probe_payload \<Rightarrow> string" where
  "probe_payload_name PayloadFlac = ''flac''"
| "probe_payload_name PayloadPcm = ''pcm_s24le''"

fun probe_signal_name :: "probe_signal \<Rightarrow> string" where
  "probe_signal_name Decorrelated = ''decorrelated''"
| "probe_signal_name Noise = ''noise''"
| "probe_signal_name Sine = ''sine''"

text \<open>The duration since the epoch in nanoseconds, \<^const>\<open>None\<close> when the clock stands before it.\<close>

definition now_unix_ns :: "nat option \<Rightarrow> string + u64" where
  "now_unix_ns clock = (case clock of
      None \<Rightarrow> Inl ''system clock is before Unix epoch''
    | Some ns \<Rightarrow> Inr (of_nat (min ns (2 ^ 64 - 1))))"

section \<open>Audio source\<close>

text \<open>A noise sample is the top 24 bits of a mixed 64-bit number, shifted to a signed range.\<close>

definition xor_shift :: "nat \<Rightarrow> u64 \<Rightarrow> u64" where
  "xor_shift n v = v XOR drop_bit n v"

definition deterministic_noise_sample :: "u64 \<Rightarrow> u16 \<Rightarrow> int" where
  "deterministic_noise_sample sample_index channel =
     (let v = sample_index * 0x9E3779B97F4A7C15 + ucast channel * 0xBF58476D1CE4E5B9;
          v = xor_shift 30 v * 0xBF58476D1CE4E5B9;
          v = xor_shift 27 v * 0x94D049BB133111EB;
          v = xor_shift 31 v in
      uint (drop_bit 40 v) - 8388608)"

definition s24le :: "int \<Rightarrow> bytes" where
  "s24le sample = [word_of_int sample, word_of_int (sample div 256), word_of_int (sample div 65536)]"

definition signal_s24le ::
  "(probe_signal \<Rightarrow> u64 \<Rightarrow> u16 \<Rightarrow> int) \<Rightarrow> u64 \<Rightarrow> u16 \<Rightarrow> u16 \<Rightarrow> probe_signal \<Rightarrow> bytes" where
  "signal_s24le tone first_sample channel_start channels signal =
     concat (map (\<lambda>frame. concat (map (\<lambda>local_channel.
         let sample_index = sat_add first_sample (of_nat frame);
             channel = sat_add channel_start (of_nat local_channel) in
         s24le (case signal of
             Noise \<Rightarrow> deterministic_noise_sample sample_index channel
           | _ \<Rightarrow> tone signal sample_index channel)) [0..<unat channels])) [0..<frame_count_240])"

record looping_pcm =
  lp_bytes :: bytes
  lp_channels :: nat
  lp_frames :: nat

definition looping_pcm_new :: "bytes \<Rightarrow> u16 \<Rightarrow> string + looping_pcm" where
  "looping_pcm_new bs channels =
     (let channels = unat channels; frame_bytes = channels * 3 in
      if bs = [] then Inl ''raw PCM input must contain at least one frame''
      else if frame_bytes = 0 \<or> length bs mod frame_bytes \<noteq> 0 then Inl ''raw PCM input has incomplete frames''
      else Inr \<lparr>lp_bytes = bs, lp_channels = channels, lp_frames = length bs div frame_bytes\<rparr>)"

fun loop_frames :: "looping_pcm \<Rightarrow> nat \<Rightarrow> nat \<Rightarrow> nat \<Rightarrow> nat \<Rightarrow> bytes option" where
  "loop_frames lp channel_offset group_bytes source_frame 0 = Some []"
| "loop_frames lp channel_offset group_bytes source_frame (Suc n) =
     (let start = source_frame * (lp_channels lp * 3) + channel_offset in
      if length (lp_bytes lp) < start + group_bytes then None
      else map_option (\<lambda>rest. take group_bytes (drop start (lp_bytes lp)) @ rest)
        (loop_frames lp channel_offset group_bytes
           (if source_frame + 1 = lp_frames lp then 0 else source_frame + 1) n))"

definition looping_group_s24le :: "looping_pcm \<Rightarrow> u64 \<Rightarrow> u16 \<Rightarrow> u16 \<Rightarrow> bytes option" where
  "looping_group_s24le lp first_sample channel_start channels =
     loop_frames lp (unat channel_start * 3) (unat channels * 3) (unat first_sample mod lp_frames lp) frame_count_240"

datatype pcm_source = Generated probe_signal | FileLoop looping_pcm

definition pcm_source_new ::
  "(string \<Rightarrow> bytes option) \<Rightarrow> probe_signal \<Rightarrow> string option \<Rightarrow> u16 \<Rightarrow> string + pcm_source" where
  "pcm_source_new read_file signal path channels = (case path of
      None \<Rightarrow> Inr (Generated signal)
    | Some path \<Rightarrow> res_bind (ok_or ''failed to read raw PCM input'' (read_file path))
        (\<lambda>bs. res_bind (looping_pcm_new bs channels) (\<lambda>lp. Inr (FileLoop lp))))"

fun source_label :: "pcm_source \<Rightarrow> string" where
  "source_label (Generated signal) = probe_signal_name signal"
| "source_label (FileLoop lp) = ''file_loop''"

fun source_input_frames :: "pcm_source \<Rightarrow> u64 option" where
  "source_input_frames (Generated signal) = None"
| "source_input_frames (FileLoop lp) = Some (of_nat (lp_frames lp))"

fun source_group_s24le ::
  "(probe_signal \<Rightarrow> u64 \<Rightarrow> u16 \<Rightarrow> int) \<Rightarrow> pcm_source \<Rightarrow> u64 \<Rightarrow> u16 \<Rightarrow> u16 \<Rightarrow> bytes option" where
  "source_group_s24le tone (Generated signal) first_sample channel_start channels =
     Some (signal_s24le tone first_sample channel_start channels signal)"
| "source_group_s24le tone (FileLoop lp) first_sample channel_start channels =
     looping_group_s24le lp first_sample channel_start channels"

section \<open>Groups\<close>

record group_plan =
  gp_id :: u16
  gp_channel_start :: u16
  gp_channel_count :: u16

fun plan_groups :: "u16 \<Rightarrow> u16 \<Rightarrow> nat \<Rightarrow> u16 \<Rightarrow> u16 \<Rightarrow> u16 \<Rightarrow> group_plan list" where
  "plan_groups base group_channels 0 index channel_start remaining = []"
| "plan_groups base group_channels (Suc n) index channel_start remaining =
     (let channel_count = min remaining group_channels in
      \<lparr>gp_id = base + index, gp_channel_start = channel_start, gp_channel_count = channel_count\<rparr>
      # plan_groups base group_channels n (index + 1) (sat_add channel_start channel_count) (remaining - channel_count))"

definition source_group_plan :: "u16 \<Rightarrow> u16 \<Rightarrow> u16 \<Rightarrow> string + group_plan list" where
  "source_group_plan base channels group_channels =
     (if channels = 0 then Inl ''--channels must be positive''
      else if logical_max_channels < channels then Inl ''--channels may not exceed 128''
      else if group_channels = 0 then Inl ''--group-channels must be positive''
      else if flac_max_channels < group_channels then Inl ''--group-channels may not exceed 8''
      else let group_count = div_ceil channels group_channels in
      if 65536 < (ucast base + ucast group_count :: u32)
      then Inl ''--group-id plus derived group count exceeds u16 range''
      else Inr (plan_groups base group_channels (unat group_count) 0 0 channels))"

definition receive_group_ids :: "u16 \<Rightarrow> u16 \<Rightarrow> string + u16 list" where
  "receive_group_ids base group_count =
     (if group_count = 0 then Inl ''--group-count must be positive''
      else if 65536 < (ucast base + ucast group_count :: u32)
      then Inl ''--group-id plus --group-count exceeds the u16 group-id range''
      else Inr (map (\<lambda>index. base + of_nat index) [0..<unat group_count]))"

section \<open>Sending\<close>

record epoch_group =
  eg_group_id :: u16
  eg_channel_start :: u16
  eg_channel_count :: u16
  eg_payload_kind :: audio_payload_kind
  eg_sample_format :: audio_sample_format
  eg_flags :: u8
  eg_payload :: bytes

record audio_epoch =
  ae_session_id :: u64
  ae_config_generation :: u32
  ae_epoch_id :: u64
  ae_pts_samples :: u64
  ae_sample_rate :: u32
  ae_frame_count :: u32
  ae_groups :: "epoch_group list"

datatype epoch_role = EpochSource | EpochRepair

record ('enc, 'snd) send_api =
  sa_fragment_payload :: "string + nat"
  sa_sender :: "u32 \<Rightarrow> 'snd"
  sa_flac_new :: "u16 \<Rightarrow> string + 'enc"
  sa_flac_encode :: "'enc \<Rightarrow> bytes \<Rightarrow> string + bytes \<times> 'enc"
  sa_encode_epoch :: "'snd \<Rightarrow> audio_epoch \<Rightarrow> string + (epoch_role \<times> bytes) list \<times> 'snd"
  sa_bind :: "string + unit"
  sa_send_to :: "bytes list \<Rightarrow> bytes \<Rightarrow> string + nat"

record ('enc, 'snd) send_state =
  ss_encoders :: "'enc list"
  ss_sender :: 'snd
  ss_source_datagrams :: u64
  ss_repair_datagrams :: u64
  ss_wire_bytes :: u64
  ss_payload_bytes :: u64
  ss_sent :: "bytes list"

definition repair_symbols_for :: "group_plan list \<Rightarrow> nat \<Rightarrow> u32 \<Rightarrow> u32 \<Rightarrow> u32" where
  "repair_symbols_for plan budget repair_percent min_repair_symbols =
     (let max_pcm = foldr max (map (\<lambda>g. unat (gp_channel_count g) * frame_count_240 * 3) plan) 0;
          source_symbols = max (div_ceil_nat max_pcm budget) 1;
          proportional = ucast (div_ceil (sat_mul (of_nat source_symbols) (ucast (min repair_percent 100))) (100 :: u64)) in
      max proportional (max min_repair_symbols 1))"

text \<open>The payload of one group: the PCM itself, or what the group's own encoder makes of it.\<close>

definition group_payload ::
  "('enc, 'snd, 'z) send_api_scheme \<Rightarrow> (probe_signal \<Rightarrow> u64 \<Rightarrow> u16 \<Rightarrow> int) \<Rightarrow> probe_payload \<Rightarrow> pcm_source \<Rightarrow> u64
   \<Rightarrow> nat \<Rightarrow> group_plan \<Rightarrow> (string, bytes, ('enc, 'snd) send_state) fallible" where
  "group_payload api tone payload_kind source first_sample index g =
     sbind (slift (ok_or ''panic'' (source_group_s24le tone source first_sample (gp_channel_start g) (gp_channel_count g))))
       (\<lambda>pcm. sbind (case payload_kind of
            PayloadPcm \<Rightarrow> slift (Inr pcm)
          | PayloadFlac \<Rightarrow> sbind (sget (\<lambda>s. ss_encoders s ! index))
              (\<lambda>enc. sbind (slift (sa_flac_encode api enc pcm))
                (\<lambda>(payload, enc). sbind (supdate (\<lambda>s. s\<lparr>ss_encoders := (ss_encoders s)[index := enc]\<rparr>))
                  (\<lambda>_. slift (Inr payload)))))
         (\<lambda>payload. sbind (supdate (\<lambda>s. s\<lparr>ss_payload_bytes := sat_add (ss_payload_bytes s) (of_nat (length payload))\<rparr>))
           (\<lambda>_. slift (Inr payload))))"

fun group_payloads ::
  "('enc, 'snd, 'z) send_api_scheme \<Rightarrow> (probe_signal \<Rightarrow> u64 \<Rightarrow> u16 \<Rightarrow> int) \<Rightarrow> probe_payload \<Rightarrow> pcm_source \<Rightarrow> u64
   \<Rightarrow> nat \<Rightarrow> group_plan list \<Rightarrow> (string, bytes list, ('enc, 'snd) send_state) fallible" where
  "group_payloads api tone payload_kind source first_sample index [] = slift (Inr [])"
| "group_payloads api tone payload_kind source first_sample index (g # gs) =
     sbind (group_payload api tone payload_kind source first_sample index g)
       (\<lambda>p. sbind (group_payloads api tone payload_kind source first_sample (Suc index) gs)
         (\<lambda>ps. slift (Inr (p # ps))))"

definition epoch_group_of :: "probe_payload \<Rightarrow> group_plan \<Rightarrow> bytes \<Rightarrow> epoch_group" where
  "epoch_group_of payload_kind g payload =
     \<lparr>eg_group_id = gp_id g, eg_channel_start = gp_channel_start g, eg_channel_count = gp_channel_count g,
      eg_payload_kind = (case payload_kind of PayloadFlac \<Rightarrow> KindFlac | PayloadPcm \<Rightarrow> KindPcm),
      eg_sample_format = S24Le, eg_flags = 0, eg_payload = payload\<rparr>"

definition probe_epoch :: "u64 \<Rightarrow> u64 \<Rightarrow> probe_payload \<Rightarrow> group_plan list \<Rightarrow> bytes list \<Rightarrow> audio_epoch" where
  "probe_epoch session_id epoch_id payload_kind plan payloads =
     \<lparr>ae_session_id = session_id, ae_config_generation = 1, ae_epoch_id = epoch_id,
      ae_pts_samples = sat_mul epoch_id (of_nat frame_count_240), ae_sample_rate = sample_rate_48k,
      ae_frame_count = of_nat frame_count_240,
      ae_groups = map2 (epoch_group_of payload_kind) plan payloads\<rparr>"

definition count_datagram :: "epoch_role \<Rightarrow> nat \<Rightarrow> ('enc, 'snd) send_state \<Rightarrow> ('enc, 'snd) send_state" where
  "count_datagram role sent s =
     (let s = s\<lparr>ss_wire_bytes := sat_add (ss_wire_bytes s) (of_nat sent)\<rparr> in
      case role of
        EpochSource \<Rightarrow> s\<lparr>ss_source_datagrams := sat_add (ss_source_datagrams s) 1\<rparr>
      | EpochRepair \<Rightarrow> s\<lparr>ss_repair_datagrams := sat_add (ss_repair_datagrams s) 1\<rparr>)"

fun send_datagrams ::
  "('enc, 'snd, 'z) send_api_scheme \<Rightarrow> (epoch_role \<times> bytes) list \<Rightarrow> (string, unit, ('enc, 'snd) send_state) fallible" where
  "send_datagrams api [] = slift (Inr ())"
| "send_datagrams api ((role, payload) # ds) =
     sbind (sget (\<lambda>s. sa_send_to api (ss_sent s) payload))
       (\<lambda>r. sbind (supdate (\<lambda>s. s\<lparr>ss_sent := ss_sent s @ [payload]\<rparr>))
         (\<lambda>_. sbind (slift r)
           (\<lambda>sent. sbind (slift (guard_err (sent \<noteq> length payload) ''partial AEP1 datagram send''))
             (\<lambda>_. sbind (supdate (count_datagram role sent)) (\<lambda>_. send_datagrams api ds)))))"

definition send_one_epoch ::
  "('enc, 'snd, 'z) send_api_scheme \<Rightarrow> (probe_signal \<Rightarrow> u64 \<Rightarrow> u16 \<Rightarrow> int) \<Rightarrow> u64 \<Rightarrow> probe_payload \<Rightarrow> pcm_source
   \<Rightarrow> group_plan list \<Rightarrow> u64 \<Rightarrow> (string, unit, ('enc, 'snd) send_state) fallible" where
  "send_one_epoch api tone session_id payload_kind source plan epoch_id =
     sbind (group_payloads api tone payload_kind source (sat_mul epoch_id (of_nat frame_count_240)) 0 plan)
       (\<lambda>payloads. sbind (sget (\<lambda>s. sa_encode_epoch api (ss_sender s) (probe_epoch session_id epoch_id payload_kind plan payloads)))
         (\<lambda>r. sbind (slift r)
           (\<lambda>(datagrams, sender). sbind (supdate (\<lambda>s. s\<lparr>ss_sender := sender\<rparr>))
             (\<lambda>_. send_datagrams api datagrams))))"

fun send_epochs ::
  "('enc, 'snd, 'z) send_api_scheme \<Rightarrow> (probe_signal \<Rightarrow> u64 \<Rightarrow> u16 \<Rightarrow> int) \<Rightarrow> u64 \<Rightarrow> probe_payload \<Rightarrow> pcm_source
   \<Rightarrow> group_plan list \<Rightarrow> u64 \<Rightarrow> nat \<Rightarrow> (string, unit, ('enc, 'snd) send_state) fallible" where
  "send_epochs api tone session_id payload_kind source plan epoch_id 0 = slift (Inr ())"
| "send_epochs api tone session_id payload_kind source plan epoch_id (Suc n) =
     sbind (send_one_epoch api tone session_id payload_kind source plan epoch_id)
       (\<lambda>_. send_epochs api tone session_id payload_kind source plan (epoch_id + 1) n)"

record send_options =
  so_duration_seconds :: u64
  so_session_id :: "u64 option"
  so_payload :: probe_payload
  so_channels :: u16
  so_group_channels :: u16
  so_signal :: probe_signal
  so_pcm_file :: "string option"
  so_group_id :: u16
  so_repair_percent :: u32
  so_min_repair_symbols :: u32

record send_report =
  sr_payload :: string
  sr_signal :: string
  sr_input_pcm_frames :: "u64 option"
  sr_session_id :: u64
  sr_group_id :: u16
  sr_group_count :: u16
  sr_group_channels :: u16
  sr_group_ids :: "u16 list"
  sr_channels :: u16
  sr_duration_seconds :: u64
  sr_epochs :: u64
  sr_source_datagrams :: u64
  sr_repair_datagrams :: u64
  sr_wire_bytes :: u64
  sr_payload_bytes :: u64
  sr_pcm_reference_bytes :: u64

text \<open>What the options make of the publication before the first epoch: the session, the groups, the source and
  the number of epochs.\<close>

definition flac_encoders ::
  "('enc, 'snd, 'z) send_api_scheme \<Rightarrow> probe_payload \<Rightarrow> group_plan list \<Rightarrow> string + 'enc list" where
  "flac_encoders api payload_kind plan = (case payload_kind of
      PayloadPcm \<Rightarrow> Inr []
    | PayloadFlac \<Rightarrow> foldr (\<lambda>g r. res_bind (sa_flac_new api (gp_channel_count g)) (\<lambda>e. res_bind r (\<lambda>es. Inr (e # es)))) plan (Inr []))"

definition send_epoch_count :: "u64 \<Rightarrow> u64" where
  "send_epoch_count duration_seconds = sat_mul duration_seconds 1000 div 5"

definition send_setup ::
  "('enc, 'snd, 'z) send_api_scheme \<Rightarrow> (string \<Rightarrow> bytes option) \<Rightarrow> nat option \<Rightarrow> nat option \<Rightarrow> send_options
   \<Rightarrow> string + group_plan list \<times> pcm_source \<times> u64 \<times> ('enc, 'snd) send_state" where
  "send_setup api read_file clock1 clock2 opts =
     (if so_duration_seconds opts = 0 then Inl ''--duration-seconds must be positive''
      else res_bind (source_group_plan (so_group_id opts) (so_channels opts) (so_group_channels opts)) (\<lambda>plan.
        res_bind (pcm_source_new read_file (so_signal opts) (so_pcm_file opts) (so_channels opts)) (\<lambda>source.
        res_bind (now_unix_ns clock1) (\<lambda>now1.
        res_bind (now_unix_ns clock2) (\<lambda>now2.
        let session_id = (case so_session_id opts of Some s \<Rightarrow> s | None \<Rightarrow> sat_add now1 1000000000) in
        if sat_add session_id 60000000000 < now2 then Inl ''--session-id is too far in the past to be an origin clock''
        else res_bind (sa_fragment_payload api) (\<lambda>budget.
          if budget = 0 then Inl ''panic'' else
          res_bind (sa_bind api) (\<lambda>_.
          res_bind (flac_encoders api (so_payload opts) plan) (\<lambda>encoders.
          Inr (plan, source, session_id,
            \<lparr>ss_encoders = encoders,
             ss_sender = sa_sender api (repair_symbols_for plan budget (so_repair_percent opts) (so_min_repair_symbols opts)),
             ss_source_datagrams = 0, ss_repair_datagrams = 0, ss_wire_bytes = 0, ss_payload_bytes = 0, ss_sent = []\<rparr>)))))))))"

definition send_report_of ::
  "send_options \<Rightarrow> group_plan list \<Rightarrow> pcm_source \<Rightarrow> u64 \<Rightarrow> ('enc, 'snd) send_state \<Rightarrow> send_report" where
  "send_report_of opts plan source session_id s =
     (let epochs = send_epoch_count (so_duration_seconds opts) in
      \<lparr>sr_payload = probe_payload_name (so_payload opts), sr_signal = source_label source,
       sr_input_pcm_frames = source_input_frames source, sr_session_id = session_id, sr_group_id = so_group_id opts,
       sr_group_count = of_nat (length plan), sr_group_channels = min (so_group_channels opts) flac_max_channels,
       sr_group_ids = map gp_id plan, sr_channels = so_channels opts, sr_duration_seconds = so_duration_seconds opts,
       sr_epochs = epochs, sr_source_datagrams = ss_source_datagrams s, sr_repair_datagrams = ss_repair_datagrams s,
       sr_wire_bytes = ss_wire_bytes s, sr_payload_bytes = ss_payload_bytes s,
       sr_pcm_reference_bytes = sat_mul (sat_mul (sat_mul epochs (of_nat frame_count_240)) (ucast (so_channels opts))) 3\<rparr>)"

definition probe_send ::
  "('enc, 'snd, 'z) send_api_scheme \<Rightarrow> (probe_signal \<Rightarrow> u64 \<Rightarrow> u16 \<Rightarrow> int) \<Rightarrow> (string \<Rightarrow> bytes option)
   \<Rightarrow> nat option \<Rightarrow> nat option \<Rightarrow> send_options \<Rightarrow> string + send_report \<times> ('enc, 'snd) send_state" where
  "probe_send api tone read_file clock1 clock2 opts =
     res_bind (send_setup api read_file clock1 clock2 opts) (\<lambda>(plan, source, session_id, s).
       case send_epochs api tone session_id (so_payload opts) source plan 0
              (unat (send_epoch_count (so_duration_seconds opts))) s of
         (Inl e, s) \<Rightarrow> Inl e
       | (Inr _, s) \<Rightarrow> Inr (send_report_of opts plan source session_id s, s))"

section \<open>Reader windows\<close>

definition hls_window_end_ms :: "u64 \<Rightarrow> u64 \<Rightarrow> u64 option \<Rightarrow> u64 \<Rightarrow> string + u64" where
  "hls_window_end_ms duration_seconds start_offset_ms window_seconds part_ms =
     (if part_ms = 0 then Inl ''--part-ms must be positive''
      else res_bind (ok_or ''media duration exceeds the supported range'' (checked_mul duration_seconds 1000)) (\<lambda>media_duration_ms.
        if media_duration_ms \<le> start_offset_ms then Inl ''--start-offset-ms must be smaller than the media duration''
        else if start_offset_ms mod part_ms \<noteq> 0 then Inl ''--start-offset-ms must align to the configured part duration''
        else res_bind (case window_seconds of
            None \<Rightarrow> Inr media_duration_ms
          | Some w \<Rightarrow> if w = 0 then Inl ''--window-seconds must be positive''
              else res_bind (ok_or ''reader window exceeds the supported range'' (checked_mul w 1000)) (\<lambda>window_ms.
                ok_or ''reader window exceeds the supported range'' (checked_add start_offset_ms window_ms))) (\<lambda>end_offset_ms.
          if media_duration_ms < end_offset_ms then Inl ''reader window must end within the media duration''
          else if end_offset_ms mod part_ms \<noteq> 0 then Inl ''reader window end must align to the configured part duration''
          else Inr end_offset_ms)))"

definition receive_command_timeout_ms :: "nat option \<Rightarrow> u64 \<Rightarrow> u64 \<Rightarrow> u64 \<Rightarrow> string + nat" where
  "receive_command_timeout_ms clock session_id end_offset_ms tail_seconds =
     (let stop_ns = sat_add (sat_add session_id (sat_mul end_offset_ms 1000000)) (sat_mul tail_seconds 1000000000) in
      res_bind (now_unix_ns clock) (\<lambda>now. Inr (unat (sat_sub stop_ns now) + 5 * 1000000000)))"

definition receive_command_timeout :: "nat option \<Rightarrow> u64 \<Rightarrow> u64 \<Rightarrow> u64 \<Rightarrow> string + nat" where
  "receive_command_timeout clock session_id duration_seconds tail_seconds =
     receive_command_timeout_ms clock session_id (sat_mul duration_seconds 1000) tail_seconds"

definition h3_preload_at_ns :: "u64 \<Rightarrow> u64 \<Rightarrow> u64" where
  "h3_preload_at_ns session_id start_offset_ms =
     sat_sub (sat_add session_id (sat_mul start_offset_ms 1000000)) 100000000"

definition deterministic_sample_index :: "u64 \<Rightarrow> u64" where
  "deterministic_sample_index v =
     (let v = v + 0x9E3779B97F4A7C15;
          v = xor_shift 30 v * 0xBF58476D1CE4E5B9;
          v = xor_shift 27 v * 0x94D049BB133111EB in
      xor_shift 31 v)"

text \<open>With a window of the largest number of slots, \<^verbatim>\<open>slots.saturating_add(1)\<close> stays at its maximum; it is never zero.\<close>

definition randomized_reader_start_offset_ms :: "u64 \<Rightarrow> u64 \<Rightarrow> u64 \<Rightarrow> u64 \<Rightarrow> u64 \<Rightarrow> u64" where
  "randomized_reader_start_offset_ms base_offset_ms part_ms arrival_window_ms reader_id seed =
     (if part_ms = 0 \<or> arrival_window_ms < part_ms then base_offset_ms
      else let slots = arrival_window_ms div part_ms;
               slot = deterministic_sample_index (seed XOR reader_id) mod sat_add slots 1 in
      sat_add base_offset_ms (sat_mul slot part_ms))"

end
