(* ===== verification/Probe_Coverage.thy ===== *)
theory Probe_Coverage
  imports Probe_Plan
begin

text \<open>
  What a reader of \<^verbatim>\<open>src/src/bin/aep1-48k-probe.rs\<close> remembers of a long run: a bit set of the parts it has seen, the
  media timeline of the objects, a bounded reservoir of latencies, and the counters per second of media. A
  latency stays in nanoseconds; the division that turns it into milliseconds for the report is left out. An
  index outside a list, a division by zero and an allocation that does not succeed are written out.
\<close>

section \<open>Parts seen\<close>

record part_coverage =
  pc_start_sequence :: u64
  pc_part_ms :: u64
  pc_expected_parts :: u64
  pc_words :: "u64 list"
  pc_received_parts :: u64

definition part_coverage_new :: "(nat \<Rightarrow> bool) \<Rightarrow> u64 \<Rightarrow> u64 \<Rightarrow> u64 \<Rightarrow> string + part_coverage" where
  "part_coverage_new can_reserve start_sequence expected_parts part_ms =
     (let word_count = unat (sat_add expected_parts 63 div 64) in
      if \<not> can_reserve word_count then Inl ''could not allocate LL-HLS continuity bitset''
      else Inr \<lparr>pc_start_sequence = start_sequence, pc_part_ms = part_ms, pc_expected_parts = expected_parts,
                pc_words = replicate word_count 0, pc_received_parts = 0\<rparr>)"

text \<open>\<^const>\<open>None\<close> is a panic: a part duration of zero, or an index outside the words.\<close>

definition insert_pts :: "u64 \<Rightarrow> part_coverage \<Rightarrow> (bool \<times> part_coverage) option" where
  "insert_pts pts_ms pc =
     (if pc_part_ms pc = 0 then (if pts_ms = 0 then None else Some (False, pc))
      else if pts_ms mod pc_part_ms pc \<noteq> 0 then Some (False, pc)
      else case checked_sub (pts_ms div pc_part_ms pc) (pc_start_sequence pc) of
        None \<Rightarrow> Some (False, pc)
      | Some relative \<Rightarrow>
          if pc_expected_parts pc \<le> relative then Some (False, pc)
          else let word = unat (relative div 64); mask = push_bit (unat (relative mod 64)) 1 in
            if length (pc_words pc) \<le> word then None
            else if pc_words pc ! word AND mask \<noteq> 0 then Some (False, pc)
            else Some (True, pc\<lparr>pc_words := (pc_words pc)[word := pc_words pc ! word OR mask],
                               pc_received_parts := sat_add (pc_received_parts pc) 1\<rparr>))"

definition contains_relative :: "part_coverage \<Rightarrow> u64 \<Rightarrow> bool" where
  "contains_relative pc relative =
     (let word = unat (relative div 64) in
      word < length (pc_words pc) \<and> pc_words pc ! word AND push_bit (unat (relative mod 64)) 1 \<noteq> 0)"

definition all_relative :: "part_coverage \<Rightarrow> u64 list" where
  "all_relative pc = map of_nat [0..<unat (pc_expected_parts pc)]"

definition first_missing_relative :: "part_coverage \<Rightarrow> u64 option" where
  "first_missing_relative pc = find (\<lambda>r. \<not> contains_relative pc r) (all_relative pc)"

definition relative_pts_ms :: "part_coverage \<Rightarrow> u64 \<Rightarrow> u64" where
  "relative_pts_ms pc relative = sat_mul (sat_add (pc_start_sequence pc) relative) (pc_part_ms pc)"

definition first_pts_ms :: "part_coverage \<Rightarrow> u64 option" where
  "first_pts_ms pc = map_option (relative_pts_ms pc) (find (contains_relative pc) (all_relative pc))"

definition last_pts_ms :: "part_coverage \<Rightarrow> u64 option" where
  "last_pts_ms pc = map_option (relative_pts_ms pc) (find (contains_relative pc) (rev (all_relative pc)))"

fun count_gaps :: "part_coverage \<Rightarrow> u64 option \<Rightarrow> u64 \<Rightarrow> u64 list \<Rightarrow> u64" where
  "count_gaps pc previous gaps [] = gaps"
| "count_gaps pc previous gaps (relative # rs) =
     (if \<not> contains_relative pc relative then count_gaps pc previous gaps rs
      else count_gaps pc (Some relative)
        (case previous of None \<Rightarrow> gaps | Some p \<Rightarrow> if relative \<noteq> p + 1 then sat_add gaps 1 else gaps) rs)"

definition non_contiguous_pts :: "part_coverage \<Rightarrow> u64" where
  "non_contiguous_pts pc = count_gaps pc None 0 (all_relative pc)"

section \<open>Media timeline\<close>

text \<open>A \<^verbatim>\<open>BTreeMap\<close> is an association list in the order of its keys.\<close>

type_synonym 'v btree = "(u64 \<times> 'v) list"

fun or_insert :: "u64 \<Rightarrow> 'v \<Rightarrow> 'v btree \<Rightarrow> 'v btree" where
  "or_insert k v [] = [(k, v)]"
| "or_insert k v ((j, w) # m) =
     (if k < j then (k, v) # (j, w) # m else if k = j then (j, w) # m else (j, w) # or_insert k v m)"

record media_timeline =
  mt_start_sequence :: u64
  mt_expected_parts :: u64
  mt_start_offset_ms :: u64
  mt_end_offset_ms :: u64
  mt_parts :: "(u64 \<times> u64) btree"

definition media_timeline_new :: "u64 \<Rightarrow> u64 \<Rightarrow> u64 \<Rightarrow> u64 \<Rightarrow> media_timeline" where
  "media_timeline_new start_sequence expected_parts start_offset_ms end_offset_ms =
     \<lparr>mt_start_sequence = start_sequence, mt_expected_parts = expected_parts,
      mt_start_offset_ms = start_offset_ms, mt_end_offset_ms = end_offset_ms, mt_parts = []\<rparr>"

definition timeline_insert :: "u64 \<Rightarrow> u64 \<Rightarrow> u64 \<Rightarrow> media_timeline \<Rightarrow> media_timeline" where
  "timeline_insert sequence pts_ms duration_ms mt =
     mt\<lparr>mt_parts := or_insert sequence (pts_ms, duration_ms) (mt_parts mt)\<rparr>"

fun count_jumps :: "(u64 \<times> u64 \<times> u64) option \<Rightarrow> u64 \<Rightarrow> (u64 \<times> u64) btree \<Rightarrow> u64" where
  "count_jumps previous n [] = n"
| "count_jumps previous n ((s, pts_ms, duration_ms) # m) =
     count_jumps (Some (s, pts_ms, duration_ms))
       (case previous of
          None \<Rightarrow> n
        | Some (ps, pp, pd) \<Rightarrow> if s = ps + 1 \<and> pts_ms \<noteq> sat_add pp pd then sat_add n 1 else n) m"

definition discontinuities :: "media_timeline \<Rightarrow> u64" where
  "discontinuities mt =
     (let n = count_jumps None 0 (mt_parts mt) in
      if of_nat (length (mt_parts mt)) \<noteq> mt_expected_parts mt then n
      else
        let n = (if (case map_of (mt_parts mt) (mt_start_sequence mt) of
                       None \<Rightarrow> True | Some (pts_ms, _) \<Rightarrow> 5 < abs_diff pts_ms (mt_start_offset_ms mt))
                 then sat_add n 1 else n);
            last_sequence = sat_add (mt_start_sequence mt) (sat_sub (mt_expected_parts mt) 1) in
        if (case map_of (mt_parts mt) last_sequence of
              None \<Rightarrow> True | Some (pts_ms, duration_ms) \<Rightarrow> 5 < abs_diff (sat_add pts_ms duration_ms) (mt_end_offset_ms mt))
        then sat_add n 1 else n)"

section \<open>Latencies\<close>

text \<open>The rank of a percentile is computed in floating point; it is the exact one for every list of up to three million
  values.\<close>

record percentiles =
  pl_count :: nat
  pl_sample_count :: nat
  pl_min :: u64
  pl_p50 :: u64
  pl_p95 :: u64
  pl_p99 :: u64
  pl_max :: u64

definition percentile_at :: "u64 list \<Rightarrow> nat \<Rightarrow> u64" where
  "percentile_at vs percent =
     vs ! (max 1 (min (div_ceil_nat (length vs * percent) 100) (length vs)) - 1)"

definition percentiles_with_count :: "u64 list \<Rightarrow> nat \<Rightarrow> percentiles" where
  "percentiles_with_count values_ns count =
     (if values_ns = [] then
        \<lparr>pl_count = count, pl_sample_count = 0, pl_min = 0, pl_p50 = 0, pl_p95 = 0, pl_p99 = 0, pl_max = 0\<rparr>
      else let vs = sort values_ns in
        \<lparr>pl_count = count, pl_sample_count = length vs, pl_min = vs ! 0, pl_p50 = percentile_at vs 50,
         pl_p95 = percentile_at vs 95, pl_p99 = percentile_at vs 99, pl_max = last vs\<rparr>)"

definition percentiles_of :: "u64 list \<Rightarrow> percentiles" where
  "percentiles_of values_ns = percentiles_with_count values_ns (length values_ns)"

definition max_latency_samples :: nat where "max_latency_samples = 65536"

record latency_samples =
  ls_observations :: u64
  ls_values_ns :: "u64 list"

definition latency_samples_new :: latency_samples where
  "latency_samples_new = \<lparr>ls_observations = 0, ls_values_ns = []\<rparr>"

definition record_latency :: "u64 \<Rightarrow> latency_samples \<Rightarrow> latency_samples" where
  "record_latency value_ns ls =
     (let ls = ls\<lparr>ls_observations := sat_add (ls_observations ls) 1\<rparr> in
      if length (ls_values_ns ls) < max_latency_samples then ls\<lparr>ls_values_ns := ls_values_ns ls @ [value_ns]\<rparr>
      else let slot = deterministic_sample_index (ls_observations ls) mod ls_observations ls in
        if slot < of_nat max_latency_samples then ls\<lparr>ls_values_ns := (ls_values_ns ls)[unat slot := value_ns]\<rparr>
        else ls)"

definition latency_summary :: "latency_samples \<Rightarrow> percentiles" where
  "latency_summary ls = percentiles_with_count (ls_values_ns ls) (unat (ls_observations ls))"

section \<open>Per second of media\<close>

definition sat_count :: "bool \<Rightarrow> u64 \<Rightarrow> u64" where
  "sat_count b n = sat_add n (if b then 1 else 0)"

record udp_bucket_samples =
  ub_latencies_ns :: "u64 list"
  ub_erasure_epochs :: u64
  ub_discontinuity_epochs :: u64
  ub_deadline_misses :: u64

definition udp_bucket_default :: udp_bucket_samples where
  "udp_bucket_default = \<lparr>ub_latencies_ns = [], ub_erasure_epochs = 0, ub_discontinuity_epochs = 0, ub_deadline_misses = 0\<rparr>"

definition udp_bucket_record :: "u64 \<Rightarrow> bool \<Rightarrow> bool \<Rightarrow> bool \<Rightarrow> udp_bucket_samples \<Rightarrow> udp_bucket_samples" where
  "udp_bucket_record latency_ns deadline_missed erasure discontinuity b =
     b\<lparr>ub_latencies_ns := ub_latencies_ns b @ [latency_ns],
       ub_deadline_misses := sat_count deadline_missed (ub_deadline_misses b),
       ub_erasure_epochs := sat_count erasure (ub_erasure_epochs b),
       ub_discontinuity_epochs := sat_count discontinuity (ub_discontinuity_epochs b)\<rparr>"

record hls_bucket_samples =
  hb_availability_ns :: "u64 list"
  hb_publication_to_cache_ns :: "u64 list"
  hb_cache_to_client_ns :: "u64 list"
  hb_render_ns :: "u64 list"
  hb_deadline_misses :: u64

definition hls_bucket_default :: hls_bucket_samples where
  "hls_bucket_default = \<lparr>hb_availability_ns = [], hb_publication_to_cache_ns = [], hb_cache_to_client_ns = [],
     hb_render_ns = [], hb_deadline_misses = 0\<rparr>"

type_synonym hls_time_series = "(u64, hls_bucket_samples) assoc"

text \<open>\<^verbatim>\<open>entry(k).or_default()\<close> followed by a change of the entry.\<close>

definition with_entry :: "'k \<Rightarrow> 'v \<Rightarrow> ('v \<Rightarrow> 'v) \<Rightarrow> ('k, 'v) assoc \<Rightarrow> ('k, 'v) assoc" where
  "with_entry k d f m = AList.update k (f (case map_of m k of None \<Rightarrow> d | Some v \<Rightarrow> v)) m"

definition series_record_part :: "u64 \<Rightarrow> u64 \<Rightarrow> u64 \<Rightarrow> bool \<Rightarrow> hls_time_series \<Rightarrow> hls_time_series" where
  "series_record_part pts_ms availability_ns render_ns deadline_missed =
     with_entry (pts_ms div 1000) hls_bucket_default
       (\<lambda>b. b\<lparr>hb_availability_ns := hb_availability_ns b @ [availability_ns], hb_render_ns := hb_render_ns b @ [render_ns],
              hb_deadline_misses := sat_count deadline_missed (hb_deadline_misses b)\<rparr>)"

definition series_record_cache :: "u64 \<Rightarrow> u64 \<Rightarrow> u64 \<Rightarrow> hls_time_series \<Rightarrow> hls_time_series" where
  "series_record_cache pts_ms publication_to_cache_ns cache_to_client_ns =
     with_entry (pts_ms div 1000) hls_bucket_default
       (\<lambda>b. b\<lparr>hb_publication_to_cache_ns := hb_publication_to_cache_ns b @ [publication_to_cache_ns],
              hb_cache_to_client_ns := hb_cache_to_client_ns b @ [cache_to_client_ns]\<rparr>)"

record hls_latency_bucket =
  hl_start_offset_ms :: u64
  hl_start_unix_ns :: u64
  hl_expected_parts :: u64
  hl_received_parts :: u64
  hl_missing_parts :: u64
  hl_deadline_misses :: u64
  hl_availability :: percentiles
  hl_publication_to_cache :: percentiles
  hl_cache_to_client :: percentiles
  hl_render :: percentiles

definition hls_latency_bucket_of :: "u64 \<Rightarrow> u64 \<Rightarrow> u64 \<Rightarrow> u64 \<Rightarrow> u64 \<Rightarrow> hls_bucket_samples \<Rightarrow> hls_latency_bucket" where
  "hls_latency_bucket_of session_id start_offset_ms end_offset_ms part_ms bucket_start_ms samples =
     (let range_start_ms = max bucket_start_ms start_offset_ms;
          range_end_ms = min (sat_add bucket_start_ms 1000) end_offset_ms;
          expected_parts = sat_sub range_end_ms range_start_ms div part_ms;
          received_parts = of_nat (length (hb_availability_ns samples)) in
      \<lparr>hl_start_offset_ms = bucket_start_ms,
       hl_start_unix_ns = sat_add session_id (sat_mul bucket_start_ms 1000000),
       hl_expected_parts = expected_parts, hl_received_parts = received_parts,
       hl_missing_parts = sat_sub expected_parts received_parts, hl_deadline_misses = hb_deadline_misses samples,
       hl_availability = percentiles_of (hb_availability_ns samples),
       hl_publication_to_cache = percentiles_of (hb_publication_to_cache_ns samples),
       hl_cache_to_client = percentiles_of (hb_cache_to_client_ns samples),
       hl_render = percentiles_of (hb_render_ns samples)\<rparr>)"

text \<open>The start of the next second is larger, or stays at the largest number, which ends the loop.\<close>

lemma sat_add_1000_less: "(b :: u64) < e \<Longrightarrow> unat e - unat (sat_add b 1000) < unat e - unat b"
  using unat_lt2p [of e] by (simp add: unat_sat_add word_less_nat_alt min_def) arith

function finish_series :: "u64 \<Rightarrow> u64 \<Rightarrow> u64 \<Rightarrow> u64 \<Rightarrow> u64 \<Rightarrow> hls_time_series \<Rightarrow> hls_latency_bucket list" where
  "finish_series session_id start_offset_ms end_offset_ms part_ms bucket_start_ms buckets =
     (if bucket_start_ms < end_offset_ms then
        let key = bucket_start_ms div 1000;
            samples = (case map_of buckets key of None \<Rightarrow> hls_bucket_default | Some b \<Rightarrow> b) in
        hls_latency_bucket_of session_id start_offset_ms end_offset_ms part_ms bucket_start_ms samples
        # finish_series session_id start_offset_ms end_offset_ms part_ms (sat_add bucket_start_ms 1000) (AList.delete key buckets)
      else [])"
  by pat_completeness auto
termination
  by (relation "measure (\<lambda>(session_id, start_offset_ms, end_offset_ms, part_ms, b, buckets). unat end_offset_ms - unat b)")
    (auto simp: sat_add_1000_less)

declare finish_series.simps [simp del]

text \<open>A part duration of zero divides by zero in the first second.\<close>

definition series_finish :: "u64 \<Rightarrow> u64 \<Rightarrow> u64 \<Rightarrow> u64 \<Rightarrow> hls_time_series \<Rightarrow> hls_latency_bucket list option" where
  "series_finish session_id start_offset_ms end_offset_ms part_ms buckets =
     (let first = start_offset_ms div 1000 * 1000 in
      if part_ms = 0 \<and> first < end_offset_ms then None
      else Some (finish_series session_id start_offset_ms end_offset_ms part_ms first buckets))"

section \<open>Epochs of one group\<close>

record audio_group =
  ag_session_id :: u64
  ag_group_id :: u16
  ag_epoch_id :: u64
  ag_pts_samples :: u64
  ag_sample_rate :: u32
  ag_frame_count :: u32
  ag_flags :: u8
  ag_payload_kind :: audio_payload_kind
  ag_recovered_fragments :: u32

definition is_erasure :: "audio_group \<Rightarrow> bool" where "is_erasure g \<longleftrightarrow> ag_flags g AND 2 \<noteq> 0"
definition is_discontinuity :: "audio_group \<Rightarrow> bool" where "is_discontinuity g \<longleftrightarrow> ag_flags g AND 1 \<noteq> 0"

fun format_order :: "receive_audio_format \<Rightarrow> u8" where
  "format_order ReceiveOpus = 0"
| "format_order ReceiveFlac = 1"
| "format_order ReceivePcm = 2"

record receive_format_state =
  rf_formats :: "receive_audio_format list"
  rf_selected :: "(receive_audio_format \<times> u64) list"
  rf_opus_epochs :: "u64 list"
  rf_flac_epochs :: "u64 list"
  rf_pcm_epochs :: "u64 list"
  rf_deadline_misses :: u64
  rf_erasure_epochs :: u64
  rf_discontinuity_epochs :: u64
  rf_duplicate_or_late :: u64
  rf_recovered_fragments :: u64
  rf_received_pcm_frames :: u64
  rf_latencies_ns :: "u64 list"
  rf_buckets :: "(u8 \<times> u64, udp_bucket_samples) assoc"

fun dedup_formats :: "receive_audio_format list \<Rightarrow> receive_audio_format list \<Rightarrow> receive_audio_format list" where
  "dedup_formats unique [] = unique"
| "dedup_formats unique (f # fs) = dedup_formats (if f \<in> set unique then unique else unique @ [f]) fs"

definition receive_format_state_new :: "receive_audio_format list \<Rightarrow> string + receive_format_state" where
  "receive_format_state_new formats =
     (let formats = dedup_formats [] formats in
      if formats = [] then Inl ''--formats must contain at least one audio representation''
      else Inr \<lparr>rf_formats = formats, rf_selected = [], rf_opus_epochs = [], rf_flac_epochs = [], rf_pcm_epochs = [],
        rf_deadline_misses = 0, rf_erasure_epochs = 0, rf_discontinuity_epochs = 0, rf_duplicate_or_late = 0,
        rf_recovered_fragments = 0, rf_received_pcm_frames = 0, rf_latencies_ns = [], rf_buckets = []\<rparr>)"

text \<open>A \<^verbatim>\<open>HashSet\<close> is a list without repetitions, its order without meaning.\<close>

definition note_epoch :: "audio_group \<Rightarrow> receive_format_state \<Rightarrow> receive_format_state" where
  "note_epoch g st =
     (if is_erasure g then st
      else case receive_format_of_kind (ag_payload_kind g) of
        ReceiveOpus \<Rightarrow> st\<lparr>rf_opus_epochs := List.insert (ag_epoch_id g) (rf_opus_epochs st)\<rparr>
      | ReceiveFlac \<Rightarrow> st\<lparr>rf_flac_epochs := List.insert (ag_epoch_id g) (rf_flac_epochs st)\<rparr>
      | ReceivePcm \<Rightarrow> st\<lparr>rf_pcm_epochs := List.insert (ag_epoch_id g) (rf_pcm_epochs st)\<rparr>)"

definition group_latency_ns :: "audio_group \<Rightarrow> u64 \<Rightarrow> u64" where
  "group_latency_ns g arrival_ns =
     sat_sub arrival_ns (sat_add (ag_session_id g) (sat_mul (ag_pts_samples g) 1000000000 div ucast (ag_sample_rate g)))"

text \<open>\<^const>\<open>None\<close> is the division by a sample rate of zero.\<close>

definition observe_group :: "u64 \<Rightarrow> u64 \<Rightarrow> audio_group \<Rightarrow> receive_format_state \<Rightarrow> receive_format_state option" where
  "observe_group arrival_ns deadline_ms g st =
     (let format = receive_format_of_kind (ag_payload_kind g); st = note_epoch g st in
      if format \<notin> set (rf_formats st) then Some st
      else if (format, ag_epoch_id g) \<in> set (rf_selected st)
      then Some (st\<lparr>rf_duplicate_or_late := sat_add (rf_duplicate_or_late st) 1\<rparr>)
      else if ag_sample_rate g = 0 then None
      else
        let latency_ns = group_latency_ns g arrival_ns;
            missed = sat_mul deadline_ms 1000000 < latency_ns;
            pts_ms = sat_mul (ag_pts_samples g) 1000 div ucast (ag_sample_rate g) in
        Some (st\<lparr>rf_selected := (format, ag_epoch_id g) # rf_selected st,
          rf_deadline_misses := sat_count missed (rf_deadline_misses st),
          rf_discontinuity_epochs := sat_count (is_discontinuity g) (rf_discontinuity_epochs st),
          rf_erasure_epochs := sat_count (is_erasure g) (rf_erasure_epochs st),
          rf_received_pcm_frames := (if is_erasure g then rf_received_pcm_frames st
            else sat_add (rf_received_pcm_frames st) (ucast (ag_frame_count g))),
          rf_recovered_fragments := sat_add (rf_recovered_fragments st) (ucast (ag_recovered_fragments g)),
          rf_latencies_ns := rf_latencies_ns st @ [latency_ns],
          rf_buckets := with_entry (format_order format, pts_ms div 1000) udp_bucket_default
            (udp_bucket_record latency_ns missed (is_erasure g) (is_discontinuity g)) (rf_buckets st)\<rparr>))"

definition selected_epoch_count :: "receive_format_state \<Rightarrow> u64" where
  "selected_epoch_count st = of_nat (length (rf_selected st))"

record udp_latency_bucket =
  ul_format :: receive_audio_format
  ul_start_offset_ms :: u64
  ul_start_unix_ns :: u64
  ul_received_epochs :: u64
  ul_missing_epochs :: u64
  ul_erasure_epochs :: u64
  ul_discontinuity_epochs :: u64
  ul_deadline_misses :: u64
  ul_render_ready :: percentiles

definition udp_latency_bucket_of :: "u64 \<Rightarrow> u64 \<Rightarrow> receive_audio_format \<Rightarrow> udp_bucket_samples \<Rightarrow> udp_latency_bucket" where
  "udp_latency_bucket_of session_id second format b =
     (let received = of_nat (length (ub_latencies_ns b)) in
      \<lparr>ul_format = format, ul_start_offset_ms = sat_mul second 1000,
       ul_start_unix_ns = sat_add session_id (sat_mul second 1000000000),
       ul_received_epochs = received, ul_missing_epochs = sat_sub 200 received,
       ul_erasure_epochs = ub_erasure_epochs b, ul_discontinuity_epochs = ub_discontinuity_epochs b,
       ul_deadline_misses = ub_deadline_misses b, ul_render_ready = percentiles_of (ub_latencies_ns b)\<rparr>)"

fun take_buckets ::
  "u64 \<Rightarrow> (u64 \<times> receive_audio_format) list \<Rightarrow> (u8 \<times> u64, udp_bucket_samples) assoc
   \<Rightarrow> udp_latency_bucket list \<times> (u8 \<times> u64, udp_bucket_samples) assoc" where
  "take_buckets session_id [] m = ([], m)"
| "take_buckets session_id ((second, format) # ks) m =
     (let key = (format_order format, second);
          (bs, m') = take_buckets session_id ks (AList.delete key m) in
      (udp_latency_bucket_of session_id second format (case map_of m key of None \<Rightarrow> udp_bucket_default | Some b \<Rightarrow> b) # bs, m'))"

definition finish_latency_time_series ::
  "u64 \<Rightarrow> u64 \<Rightarrow> receive_format_state \<Rightarrow> udp_latency_bucket list \<times> receive_format_state" where
  "finish_latency_time_series session_id duration_seconds st =
     (let (bs, m) = take_buckets session_id
            (concat (map (\<lambda>second. map (\<lambda>f. (of_nat second, f)) (rf_formats st)) [0..<unat duration_seconds])) (rf_buckets st) in
      (bs, st\<lparr>rf_buckets := m\<rparr>))"

end
