(* ===== verification/Probe_Plan_Facts.thy ===== *)
theory Probe_Plan_Facts
  imports Probe_Plan
begin

text \<open>
  The groups of a publication cut its channels without a gap or an overlap, the slices of a looped file put
  together are the file's frames, the sender is given every epoch once and in order with the reported
  counters its own, and a reader's window is whole parts inside the media.
\<close>

section \<open>Groups partition the channels\<close>

definition channels_of :: "group_plan \<Rightarrow> nat list" where
  "channels_of g = [unat (gp_channel_start g)..<unat (gp_channel_start g) + unat (gp_channel_count g)]"

lemma channels_of_group [simp]:
  "channels_of \<lparr>gp_id = i, gp_channel_start = s, gp_channel_count = c\<rparr> = [unat s..<unat s + unat c]"
  by (simp add: channels_of_def)

lemma unat_sum_bounded: "unat a + unat b < 2 ^ LENGTH('a) \<Longrightarrow> unat (a + b) = unat a + unat (b :: 'a::len word)"
  by (simp add: unat_add_lem)

lemma div_ceil_nat_le: "0 < b \<Longrightarrow> div_ceil_nat a b \<le> n \<longleftrightarrow> a \<le> n * b"
  using div_ceil_nat_le_iff [of b a n] by (simp add: mult.commute)

lemma div_ceil_nat_step: "0 < b \<Longrightarrow> div_ceil_nat (a - min a b) b = div_ceil_nat a b - 1"
proof (rule antisym)
  assume "0 < b"
  then show "div_ceil_nat (a - min a b) b \<le> div_ceil_nat a b - 1"
    using div_ceil_nat_le [of b a "div_ceil_nat a b"] by (auto simp: div_ceil_nat_le min_def diff_mult_distrib intro: diff_le_mono)
  have "div_ceil_nat a b \<le> Suc (div_ceil_nat (a - min a b) b)"
    using \<open>0 < b\<close> div_ceil_nat_le [of b "a - min a b" "div_ceil_nat (a - min a b) b"]
    by (auto simp: div_ceil_nat_le min_def split: if_splits)
  then show "div_ceil_nat a b - 1 \<le> div_ceil_nat (a - min a b) b" by simp
qed

lemma unat_div_ceil: "0 < b \<Longrightarrow> unat (div_ceil a b) = div_ceil_nat (unat a) (unat (b :: 'a::len word))"
proof -
  assume "0 < b"
  then have b: "0 < unat b" by (simp add: unat_gt_0 word_gt_0)
  show ?thesis
  proof (cases "unat a mod unat b = 0")
    case True
    then have "a mod b = 0" by (simp add: word_unat_eq_iff unat_mod_distrib)
    with True show ?thesis by (simp add: div_ceil_def div_ceil_nat_def unat_div_distrib)
  next
    case False
    then have m: "a mod b \<noteq> 0" by (auto simp: word_unat_eq_iff unat_mod_distrib)
    have "unat a div unat b < unat a" if "unat b \<noteq> 1"
      using False b that by (intro div_less_dividend) (auto intro: Nat.gr0I)
    moreover have "unat b \<noteq> 1" using False by auto
    ultimately have "Suc (unat (a div b)) < 2 ^ LENGTH('a)"
      using unat_lt2p [of a] unfolding unat_div_distrib by linarith
    then have "unat (a div b + 1) = unat (a div b) + 1" by (simp add: unat_sum_bounded)
    with m False show ?thesis by (simp add: div_ceil_def div_ceil_nat_def unat_div_distrib)
  qed
qed

lemma plan_groups_spec:
  assumes "0 < group_channels" and "n = div_ceil_nat (unat remaining) (unat group_channels)"
    and "unat channel_start + unat remaining < 65536" and "unat base + unat index + n \<le> 65536"
  shows "map (\<lambda>g. unat (gp_id g)) (plan_groups base group_channels n index channel_start remaining)
      = [unat base + unat index..<unat base + unat index + n]
    \<and> concat (map channels_of (plan_groups base group_channels n index channel_start remaining))
      = [unat channel_start..<unat channel_start + unat remaining]
    \<and> list_all (\<lambda>g. 0 < gp_channel_count g \<and> gp_channel_count g \<le> group_channels)
        (plan_groups base group_channels n index channel_start remaining)"
  using assms
proof (induction n arbitrary: index channel_start remaining)
  case 0
  have "0 < unat group_channels" using 0 by (simp add: word_less_nat_alt)
  from div_ceil_nat_le [OF this, of "unat remaining" 0] 0 show ?case by simp
next
  case (Suc n)
  have gc: "0 < unat group_channels" using Suc.prems by (simp add: word_less_nat_alt)
  let ?c = "min remaining group_channels"
  have c: "unat ?c = min (unat remaining) (unat group_channels)" by (simp add: min_def word_le_nat_alt)
  have pos: "0 < unat remaining"
    using div_ceil_nat_le [OF gc, of "unat remaining" 0] Suc.prems(2) by (cases "unat remaining") auto
  have le: "?c \<le> remaining" by simp
  have r: "unat (remaining - ?c) = unat remaining - unat ?c" using unat_sub [OF le] .
  have s: "unat (sat_add channel_start ?c) = unat channel_start + unat ?c"
    using Suc.prems(3) c by (simp add: unat_sat_add)
  have st: "n = div_ceil_nat (unat (remaining - ?c)) (unat group_channels)"
    using Suc.prems(2) div_ceil_nat_step [OF gc, of "unat remaining"] by (simp add: r c)
  have idx: "n = 0 \<or> unat (index + 1) = unat index + 1"
    using Suc.prems(4) by (cases n) (auto simp: unat_sum_bounded)
  have hd_id: "unat (base + index) = unat base + unat index"
    using Suc.prems(4) by (simp add: unat_sum_bounded)
  have ranges: "[unat channel_start..<unat channel_start + unat remaining]
      = [unat channel_start..<unat channel_start + unat ?c]
        @ [unat channel_start + unat ?c..<unat channel_start + unat remaining]"
    using c upt_add_eq_append [of "unat channel_start" "unat channel_start + unat ?c" "unat remaining - unat ?c"] by simp
  have cpos: "0 < ?c" "?c \<le> group_channels"
    using pos Suc.prems(1) by (auto simp: min_def word_less_nat_alt)
  show ?case
  proof (cases "n = 0")
    case True
    then have "unat remaining - unat ?c = 0" using div_ceil_nat_le [OF gc, of "unat (remaining - ?c)" 0] st r by simp
    then have "unat ?c = unat remaining" using c by simp
    with True cpos show ?thesis by (simp add: Let_def hd_id)
  next
    case False
    then have i: "unat (index + 1) = unat index + 1" using idx by simp
    have "unat (sat_add channel_start ?c) + unat (remaining - ?c) < 65536"
      using Suc.prems(3) c by (simp add: s r)
    from Suc.IH [OF Suc.prems(1) st this, of "index + 1"] Suc.prems(4) i
    have IH: "map (\<lambda>g. unat (gp_id g)) (plan_groups base group_channels n (index + 1) (sat_add channel_start ?c) (remaining - ?c))
        = [unat base + unat index + 1..<unat base + unat index + 1 + n]"
      "concat (map channels_of (plan_groups base group_channels n (index + 1) (sat_add channel_start ?c) (remaining - ?c)))
        = [unat channel_start + unat ?c..<unat channel_start + unat remaining]"
      "list_all (\<lambda>g. 0 < gp_channel_count g \<and> gp_channel_count g \<le> group_channels)
        (plan_groups base group_channels n (index + 1) (sat_add channel_start ?c) (remaining - ?c))"
      using c by (simp_all add: s r add.assoc del: upt_Suc)
    have "[unat base + unat index..<unat base + unat index + Suc n]
        = (unat base + unat index) # [unat base + unat index + 1..<unat base + unat index + 1 + n]"
      by (simp add: upt_conv_Cons del: upt_Suc)
    then show ?thesis using IH cpos by (simp add: Let_def hd_id ranges del: upt_Suc)
  qed
qed

lemma source_group_plan_eq_Inr:
  "source_group_plan base channels group_channels = Inr plan \<longleftrightarrow>
     0 < channels \<and> channels \<le> 128 \<and> 0 < group_channels \<and> group_channels \<le> 8
     \<and> unat base + div_ceil_nat (unat channels) (unat group_channels) \<le> 65536
     \<and> plan = plan_groups base group_channels (div_ceil_nat (unat channels) (unat group_channels)) 0 0 channels"
proof -
  have "unat (ucast base + ucast (div_ceil channels group_channels) :: u32)
      = unat base + div_ceil_nat (unat channels) (unat group_channels)" if "0 < group_channels"
    using unat_lt2p [of base] unat_lt2p [of "div_ceil channels group_channels"]
    by (subst unat_sum_bounded) (simp_all add: unat_ucast_widen unat_div_ceil that)
  then show ?thesis
    by (auto simp: source_group_plan_def logical_max_channels_def flac_max_channels_def Let_def unat_div_ceil
        word_less_nat_alt word_le_nat_alt word_unat_eq_iff not_less)
qed

section \<open>Slices of a looped file\<close>

definition frame_at :: "nat \<Rightarrow> nat \<Rightarrow> 'a list \<Rightarrow> 'a list" where
  "frame_at width k xs = take width (drop (k * width) xs)"

lemma frame_at_concat:
  assumes "list_all (\<lambda>x. length x = width) xs" and "k < length xs"
  shows "frame_at width k (concat xs) = xs ! k"
  using assms
proof (induction xs arbitrary: k)
  case (Cons x xs)
  then show ?case by (cases k) (simp_all add: frame_at_def)
qed simp

lemma length_frame_at: "(k + 1) * width \<le> length xs \<Longrightarrow> length (frame_at width k xs) = width"
  by (simp add: frame_at_def)

definition wf_loop :: "looping_pcm \<Rightarrow> bool" where
  "wf_loop lp \<longleftrightarrow> 0 < lp_frames lp \<and> length (lp_bytes lp) = lp_frames lp * (lp_channels lp * 3)"

lemma looping_pcm_new_eq_Inr:
  "looping_pcm_new bs channels = Inr lp \<longleftrightarrow>
     bs \<noteq> [] \<and> 0 < unat channels \<and> length bs mod (3 * unat channels) = 0
     \<and> lp = \<lparr>lp_bytes = bs, lp_channels = unat channels, lp_frames = length bs div (3 * unat channels)\<rparr>"
  by (auto simp: looping_pcm_new_def Let_def mult.commute)

lemma looping_pcm_new_wf: "looping_pcm_new bs channels = Inr lp \<Longrightarrow> wf_loop lp"
  by (auto simp: looping_pcm_new_eq_Inr wf_loop_def mult.commute div_greater_zero_iff mod_eq_0_iff_dvd dvd_imp_le)

lemma loop_frames_exact:
  assumes "wf_loop lp" and "off + width \<le> lp_channels lp * 3" and "f < lp_frames lp"
  shows "loop_frames lp off width f n
    = Some (concat (map (\<lambda>k. take width (drop off (frame_at (lp_channels lp * 3) ((f + k) mod lp_frames lp) (lp_bytes lp)))) [0..<n]))"
  using assms(3)
proof (induction n arbitrary: f)
  case (Suc n)
  let ?fb = "lp_channels lp * 3" and ?f' = "if f + 1 = lp_frames lp then 0 else f + 1"
  have "(f + 1) * ?fb \<le> lp_frames lp * ?fb" using Suc.prems by (intro mult_le_mono1) simp
  then have "(f + 1) * ?fb \<le> length (lp_bytes lp)" using assms(1) by (simp add: wf_loop_def)
  then have fits: "\<not> length (lp_bytes lp) < f * ?fb + off + width" using assms(2) by (simp add: algebra_simps)
  have here: "take width (drop (f * ?fb + off) (lp_bytes lp)) = take width (drop off (frame_at ?fb f (lp_bytes lp)))"
    using assms(2) by (simp add: frame_at_def drop_take add.commute min_def)
  have f': "?f' < lp_frames lp" using Suc.prems by auto
  have "(?f' + k) mod lp_frames lp = (f + Suc k) mod lp_frames lp" for k
  proof (cases "f + 1 = lp_frames lp")
    case True
    then have "f + Suc k = lp_frames lp + k" by simp
    then have "(f + Suc k) mod lp_frames lp = k mod lp_frames lp" by (simp only: mod_add_self1)
    with True show ?thesis by simp
  qed simp
  moreover have "[0..<Suc n] = 0 # map Suc [0..<n]" by (simp add: upt_conv_Cons map_Suc_upt del: upt_Suc)
  ultimately show ?case
    using fits here Suc.prems Suc.IH [OF f'] by (simp add: Let_def add.assoc comp_def del: upt_Suc)
qed simp

lemma looping_group_exact:
  assumes "wf_loop lp" and "unat start + unat count \<le> lp_channels lp"
  shows "looping_group_s24le lp first start count
    = Some (concat (map (\<lambda>k. take (3 * unat count) (drop (3 * unat start)
        (frame_at (3 * lp_channels lp) ((unat first + k) mod lp_frames lp) (lp_bytes lp)))) [0..<frame_count_240]))"
proof -
  have "unat start * 3 + unat count * 3 \<le> lp_channels lp * 3" using assms(2) by simp
  moreover have "unat first mod lp_frames lp < lp_frames lp" using assms(1) by (simp add: wf_loop_def)
  ultimately show ?thesis
    using loop_frames_exact [OF assms(1)] by (simp add: looping_group_s24le_def mult.commute mod_simps)
qed

text \<open>Consecutive ranges of a frame put together are the frame.\<close>

lemma concat_ranges:
  "concat (map channels_of gs) = [a..<a + n] \<Longrightarrow>
     concat (map (\<lambda>g. take (3 * unat (gp_channel_count g)) (drop (3 * unat (gp_channel_start g)) xs)) gs)
       = take (3 * n) (drop (3 * a) xs)"
proof (induction gs arbitrary: a n)
  case (Cons g gs)
  let ?c = "unat (gp_channel_count g)" and ?s = "unat (gp_channel_start g)"
  have eq: "[?s..<?s + ?c] @ concat (map channels_of gs) = [a..<a + n]"
    using Cons.prems by (simp add: channels_of_def [of g])
  show ?case
  proof (cases "?c = 0")
    case True
    with eq Cons.IH [of a n] show ?thesis by simp
  next
    case False
    from arg_cong [OF eq, of length] have c: "?c \<le> n" by simp
    with False have "n \<noteq> 0" by simp
    with arg_cong [OF eq, of hd] False have s: "?s = a" by (simp add: hd_append)
    have "[a..<a + n] = [a..<a + ?c] @ [a + ?c..<a + ?c + (n - ?c)]"
      using c upt_add_eq_append [of a "a + ?c" "n - ?c"] by simp
    with eq s have "concat (map channels_of gs) = [a + ?c..<a + ?c + (n - ?c)]" by simp
    from Cons.IH [OF this] s
    have "concat (map (\<lambda>g. take (3 * unat (gp_channel_count g)) (drop (3 * unat (gp_channel_start g)) xs)) (g # gs))
        = take (3 * ?c) (drop (3 * a) xs) @ take (3 * n - 3 * ?c) (drop (3 * ?c) (drop (3 * a) xs))"
      by (simp add: add.commute diff_mult_distrib2)
    also have "\<dots> = take (3 * ?c + (3 * n - 3 * ?c)) (drop (3 * a) xs)" by (simp add: take_add)
    also have "3 * ?c + (3 * n - 3 * ?c) = 3 * n" using c by simp
    finally show ?thesis .
  qed
next
  case (Nil a n)
  from arg_cong [OF Nil, of length] show ?case by simp
qed

text \<open>The slices of a plan over \<^verbatim>\<open>channels\<close> channels, in the order of the plan.\<close>

definition loop_slices :: "looping_pcm \<Rightarrow> u64 \<Rightarrow> group_plan list \<Rightarrow> bytes list option" where
  "loop_slices lp first plan = those (map (\<lambda>g. looping_group_s24le lp first (gp_channel_start g) (gp_channel_count g)) plan)"

definition joined_frame :: "nat \<Rightarrow> group_plan list \<Rightarrow> bytes list \<Rightarrow> bytes" where
  "joined_frame k plan slices = concat (map2 (\<lambda>g s. frame_at (3 * unat (gp_channel_count g)) k s) plan slices)"

lemma those_map_Some: "(\<And>x. x \<in> set xs \<Longrightarrow> f x = Some (g x)) \<Longrightarrow> those (map f xs) = Some (map g xs)"
  by (induction xs) simp_all

lemma range_within:
  "concat (map channels_of gs) = [0..<n] \<Longrightarrow> g \<in> set gs \<Longrightarrow> 0 < unat (gp_channel_count g)
    \<Longrightarrow> unat (gp_channel_start g) + unat (gp_channel_count g) \<le> n"
proof -
  assume a: "concat (map channels_of gs) = [0..<n]" and g: "g \<in> set gs" and c: "0 < unat (gp_channel_count g)"
  have "unat (gp_channel_start g) + unat (gp_channel_count g) - 1 \<in> set (channels_of g)"
    using c by (simp add: channels_of_def)
  with g have "unat (gp_channel_start g) + unat (gp_channel_count g) - 1 \<in> set (concat (map channels_of gs))" by auto
  with a c show ?thesis by simp
qed

lemma loop_slices_join:
  assumes "wf_loop lp" and "concat (map channels_of plan) = [0..<lp_channels lp]"
    and "list_all (\<lambda>g. 0 < unat (gp_channel_count g)) plan"
  shows "\<exists>slices. loop_slices lp first plan = Some slices
    \<and> map (\<lambda>k. joined_frame k plan slices) [0..<frame_count_240]
      = map (\<lambda>k. frame_at (3 * lp_channels lp) ((unat first + k) mod lp_frames lp) (lp_bytes lp)) [0..<frame_count_240]"
proof -
  let ?frame = "\<lambda>k. frame_at (3 * lp_channels lp) ((unat first + k) mod lp_frames lp) (lp_bytes lp)"
  let ?part = "\<lambda>g xs. take (3 * unat (gp_channel_count g)) (drop (3 * unat (gp_channel_start g)) xs)"
  let ?slice = "\<lambda>g. concat (map (\<lambda>k. ?part g (?frame k)) [0..<frame_count_240])"
  have within: "unat (gp_channel_start g) + unat (gp_channel_count g) \<le> lp_channels lp" if "g \<in> set plan" for g
    using range_within [OF assms(2) that] assms(3) that by (simp add: list_all_iff)
  have slices: "loop_slices lp first plan = Some (map ?slice plan)"
    unfolding loop_slices_def by (intro those_map_Some looping_group_exact assms(1) within)
  have len: "length (?frame k) = 3 * lp_channels lp" for k
  proof (rule length_frame_at)
    have "(unat first + k) mod lp_frames lp + 1 \<le> lp_frames lp" using assms(1) by (simp add: wf_loop_def Suc_leI)
    then have "((unat first + k) mod lp_frames lp + 1) * (3 * lp_channels lp) \<le> lp_frames lp * (3 * lp_channels lp)"
      by (rule mult_le_mono1)
    then show "((unat first + k) mod lp_frames lp + 1) * (3 * lp_channels lp) \<le> length (lp_bytes lp)"
      using assms(1) by (simp add: wf_loop_def mult.commute)
  qed
  have cut: "frame_at (3 * unat (gp_channel_count g)) k (?slice g) = ?part g (?frame k)"
    if "g \<in> set plan" and "k < frame_count_240" for g k
  proof -
    have "length (?part g (?frame j)) = 3 * unat (gp_channel_count g)" for j
      using within [OF that(1)] by (simp add: len)
    then have "list_all (\<lambda>x. length x = 3 * unat (gp_channel_count g)) (map (\<lambda>k. ?part g (?frame k)) [0..<frame_count_240])"
      by (simp add: list_all_iff)
    from frame_at_concat [OF this, of k] that(2) show ?thesis by simp
  qed
  have "joined_frame k plan (map ?slice plan) = ?frame k" if "k < frame_count_240" for k
  proof -
    have "joined_frame k plan (map ?slice plan) = concat (map (\<lambda>g. frame_at (3 * unat (gp_channel_count g)) k (?slice g)) plan)"
      by (simp add: joined_frame_def map2_map_map [of _ id, simplified])
    also have "\<dots> = concat (map (\<lambda>g. ?part g (?frame k)) plan)"
      using cut that by (intro arg_cong [of _ _ concat] map_cong refl) simp
    also have "\<dots> = take (3 * lp_channels lp) (drop (3 * 0) (?frame k))"
      using concat_ranges [of plan 0 "lp_channels lp"] assms(2) by simp
    finally show ?thesis by (simp add: len)
  qed
  then show ?thesis using slices by (intro exI [of _ "map ?slice plan"]) simp
qed

text \<open>C32: The groups of a publication are refused exactly outside the documented bounds; otherwise their numbers are
  consecutive 16-bit numbers, each carries between one and the requested number of channels, and their
  channel ranges are the channels once each in order. The slices of a looped file cut for the groups never
  leave the file, and put together frame by frame they are the file's frames, wrapped around its end.\<close>

theorem groups_reassemble_source:
  "case source_group_plan base channels group_channels of
     Inl _ \<Rightarrow> channels = 0 \<or> 128 < channels \<or> group_channels = 0 \<or> 8 < group_channels
       \<or> 65536 < unat base + div_ceil_nat (unat channels) (unat group_channels)
   | Inr plan \<Rightarrow>
       0 < channels \<and> channels \<le> 128 \<and> 0 < group_channels \<and> group_channels \<le> 8
       \<and> map (\<lambda>g. unat (gp_id g)) plan = [unat base..<unat base + div_ceil_nat (unat channels) (unat group_channels)]
       \<and> list_all (\<lambda>g. 0 < gp_channel_count g \<and> gp_channel_count g \<le> group_channels) plan
       \<and> concat (map channels_of plan) = [0..<unat channels]
       \<and> (case looping_pcm_new input channels of
            Inl _ \<Rightarrow> input = [] \<or> 0 < length input mod (3 * unat channels)
          | Inr lp \<Rightarrow> case loop_slices lp first plan of
              None \<Rightarrow> False
            | Some slices \<Rightarrow>
                map (\<lambda>k. joined_frame k plan slices) [0..<240]
                  = map (\<lambda>k. frame_at (3 * unat channels) ((unat first + k) mod lp_frames lp) input) [0..<240])"
proof (cases "source_group_plan base channels group_channels")
  case (Inl e)
  have "unat base + div_ceil_nat (unat channels) (unat group_channels) \<le> 65536 \<or> 65536 < unat base + div_ceil_nat (unat channels) (unat group_channels)"
    by linarith
  with Inl source_group_plan_eq_Inr [of base channels group_channels] show ?thesis
    by (auto simp: not_le not_less word_gt_0)
next
  case (Inr plan)
  then have ok: "0 < channels" "channels \<le> 128" "0 < group_channels" "group_channels \<le> 8"
      "unat base + div_ceil_nat (unat channels) (unat group_channels) \<le> 65536"
      "plan = plan_groups base group_channels (div_ceil_nat (unat channels) (unat group_channels)) 0 0 channels"
    by (simp_all add: source_group_plan_eq_Inr)
  have "unat channels < 65536" using ok(2) by (simp add: word_le_nat_alt)
  with plan_groups_spec [OF ok(3) refl, where remaining = channels and channel_start = 0 and base = base and index = 0] ok
  have spec: "map (\<lambda>g. unat (gp_id g)) plan = [unat base..<unat base + div_ceil_nat (unat channels) (unat group_channels)]"
      "concat (map channels_of plan) = [0..<unat channels]"
      "list_all (\<lambda>g. 0 < gp_channel_count g \<and> gp_channel_count g \<le> group_channels) plan"
    by (simp_all del: upt_Suc)
  have pos: "list_all (\<lambda>g. 0 < unat (gp_channel_count g)) plan"
    using spec(3) by (auto simp: list_all_iff word_less_nat_alt)
  show ?thesis
  proof (cases "looping_pcm_new input channels")
    case (Inl e)
    then have "input = [] \<or> 0 < length input mod (3 * unat channels)"
      using ok(1) by (auto simp: looping_pcm_new_def Let_def mult.commute word_less_nat_alt split: if_splits)
    with Inl Inr ok(1-4) spec show ?thesis by simp
  next
    case lp: (Inr lp)
    then have new: "lp_bytes lp = input" "lp_channels lp = unat channels" by (auto simp: looping_pcm_new_eq_Inr)
    from loop_slices_join [OF looping_pcm_new_wf [OF lp], of plan first] spec(2) pos new
    obtain slices where "loop_slices lp first plan = Some slices"
      "map (\<lambda>k. joined_frame k plan slices) [0..<frame_count_240]
        = map (\<lambda>k. frame_at (3 * unat channels) ((unat first + k) mod lp_frames lp) input) [0..<frame_count_240]"
      by auto
    with Inr lp ok(1-4) spec show ?thesis by (simp add: frame_count_240_def del: upt_Suc upt_rec_numeral)
  qed
qed

section \<open>Sending every epoch once\<close>

text \<open>Every deterministic sender is a function of the epochs it was given, so the property is stated over a sender
  that keeps them: \<open>enc\<close> answers for the repair setting, the epochs before and the new one.\<close>

definition recording ::
  "('enc, u32 \<times> audio_epoch list) send_api \<Rightarrow> (u32 \<Rightarrow> audio_epoch list \<Rightarrow> audio_epoch \<Rightarrow> string + (epoch_role \<times> bytes) list)
   \<Rightarrow> ('enc, u32 \<times> audio_epoch list) send_api" where
  "recording api enc = api\<lparr>sa_sender := (\<lambda>r. (r, [])),
     sa_encode_epoch := (\<lambda>(r, h) e. res_bind (enc r h e) (\<lambda>ds. Inr (ds, (r, h @ [e]))))\<rparr>"

lemma recording_simps [simp]:
  "sa_encode_epoch (recording api enc) (r, h) e = res_bind (enc r h e) (\<lambda>ds. Inr (ds, (r, h @ [e])))"
  "sa_sender (recording api enc) r = (r, [])"
  by (simp_all add: recording_def)

definition given_epochs :: "('enc, u32 \<times> audio_epoch list) send_state \<Rightarrow> audio_epoch list" where
  "given_epochs s = snd (ss_sender s)"

definition saturated :: "nat \<Rightarrow> nat" where
  "saturated n = min n (2 ^ 64 - 1)"

lemma saturated_count: "saturated (unat a + k) = saturated n \<Longrightarrow> saturated (unat (sat_add (a :: u64) 1) + k) = saturated (Suc n)"
  using unat_lt2p [of a] by (auto simp: saturated_def unat_sat_add min_def split: if_splits)

definition add_bytes :: "u64 \<Rightarrow> bytes list \<Rightarrow> u64" where
  "add_bytes = foldl (\<lambda>n b. sat_add n (of_nat (length b)))"

lemma add_bytes_simps [simp]:
  "add_bytes n [] = n" "add_bytes n (b # bs) = add_bytes (sat_add n (of_nat (length b))) bs"
  "add_bytes n (bs @ cs) = add_bytes (add_bytes n bs) cs"
  by (simp_all add: add_bytes_def)

text \<open>The datagrams handed to the socket are the ones counted.\<close>

definition counters_ok :: "('enc, 'snd) send_state \<Rightarrow> bool" where
  "counters_ok s \<longleftrightarrow> ss_wire_bytes s = add_bytes 0 (ss_sent s)
     \<and> saturated (unat (ss_source_datagrams s) + unat (ss_repair_datagrams s)) = saturated (length (ss_sent s))"

lemma counters_ok_count:
  assumes "counters_ok s"
  shows "counters_ok (count_datagram role (length d) (s\<lparr>ss_sent := ss_sent s @ [d]\<rparr>))"
  using assms saturated_count [of "ss_source_datagrams s" "unat (ss_repair_datagrams s)" "length (ss_sent s)"]
    saturated_count [of "ss_repair_datagrams s" "unat (ss_source_datagrams s)" "length (ss_sent s)"]
  by (cases role) (simp_all add: counters_ok_def count_datagram_def add.commute)

lemma count_datagram_same [simp]:
  "ss_sender (count_datagram role n s) = ss_sender s" "ss_payload_bytes (count_datagram role n s) = ss_payload_bytes s"
  "ss_sent (count_datagram role n s) = ss_sent s"
  by (cases role; simp add: count_datagram_def)+

lemma send_datagrams_ok:
  "send_datagrams api ds s = (Inr u, s') \<Longrightarrow> counters_ok s \<Longrightarrow>
     counters_ok s' \<and> ss_sender s' = ss_sender s \<and> ss_payload_bytes s' = ss_payload_bytes s"
proof (induction ds arbitrary: s)
  case (Cons d ds)
  obtain role p where d: "d = (role, p)" by fastforce
  from Cons.prems(1) have "send_datagrams api ds (count_datagram role (length p) (s\<lparr>ss_sent := ss_sent s @ [p]\<rparr>)) = (Inr u, s')"
    by (auto simp: d state_ok res_ok)
  from Cons.IH [OF this counters_ok_count [OF Cons.prems(2)]] show ?case by simp
qed (simp add: state_ok)

lemma group_payload_ok:
  assumes "group_payload api tone kind source first index g s = (Inr p, s')"
  shows "s' = s\<lparr>ss_encoders := ss_encoders s', ss_payload_bytes := add_bytes (ss_payload_bytes s) [p]\<rparr>
    \<and> (kind = PayloadFlac \<or> source_group_s24le tone source first (gp_channel_start g) (gp_channel_count g) = Some p)"
  using assms by (cases kind) (auto simp: group_payload_def state_ok res_ok split: prod.splits)

lemma group_payloads_ok:
  "group_payloads api tone kind source first index gs s = (Inr ps, s') \<Longrightarrow>
     s' = s\<lparr>ss_encoders := ss_encoders s', ss_payload_bytes := add_bytes (ss_payload_bytes s) ps\<rparr>
     \<and> length ps = length gs
     \<and> (kind = PayloadFlac
        \<or> map Some ps = map (\<lambda>g. source_group_s24le tone source first (gp_channel_start g) (gp_channel_count g)) gs)"
proof (induction gs arbitrary: index s ps)
  case (Cons g gs)
  then obtain p qs t where steps: "group_payload api tone kind source first index g s = (Inr p, t)"
      "group_payloads api tone kind source first (Suc index) gs t = (Inr qs, s')" "ps = p # qs"
    by (auto simp: state_ok)
  from group_payload_ok [OF steps(1)] Cons.IH [OF steps(2)] steps(3) show ?case
    by (cases s; cases t; cases s') auto
qed (simp add: state_ok)

section \<open>Every epoch once\<close>

definition epoch_as_planned ::
  "(probe_signal \<Rightarrow> u64 \<Rightarrow> u16 \<Rightarrow> int) \<Rightarrow> pcm_source \<Rightarrow> probe_payload \<Rightarrow> u64 \<Rightarrow> group_plan list \<Rightarrow> u64 \<Rightarrow> audio_epoch \<Rightarrow> bool" where
  "epoch_as_planned tone source kind session plan k e \<longleftrightarrow>
     length (ae_groups e) = length plan
     \<and> e = probe_epoch session k kind plan (map eg_payload (ae_groups e))
     \<and> (kind = PayloadFlac
        \<or> map (\<lambda>g. Some (eg_payload g)) (ae_groups e)
          = map (\<lambda>g. source_group_s24le tone source (sat_mul k (of_nat frame_count_240)) (gp_channel_start g) (gp_channel_count g)) plan)"

lemma probe_epoch_payloads [simp]:
  "length ps = length plan \<Longrightarrow> map eg_payload (ae_groups (probe_epoch session k kind plan ps)) = ps"
  by (intro nth_equalityI) (simp_all add: probe_epoch_def epoch_group_of_def)

lemma probe_epoch_groups [simp]:
  "length ps = length plan \<Longrightarrow> length (ae_groups (probe_epoch session k kind plan ps)) = length plan"
  by (simp add: probe_epoch_def)

definition given_payloads :: "audio_epoch list \<Rightarrow> bytes list" where
  "given_payloads es = concat (map (\<lambda>e. map eg_payload (ae_groups e)) es)"

lemma send_one_epoch_ok:
  assumes "send_one_epoch (recording api enc) tone session kind source plan k s = (Inr u, s')" and "counters_ok s"
  shows "counters_ok s' \<and> (\<exists>e. epoch_as_planned tone source kind session plan k e
    \<and> given_epochs s' = given_epochs s @ [e]
    \<and> ss_payload_bytes s' = add_bytes (ss_payload_bytes s) (given_payloads [e]))"
proof -
  from assms(1) obtain ps t r ds where
    pay: "group_payloads (recording api enc) tone kind source (sat_mul k (of_nat frame_count_240)) 0 plan s = (Inr ps, t)"
    and send: "send_datagrams (recording api enc) ds
        (t\<lparr>ss_sender := (r, given_epochs t @ [probe_epoch session k kind plan ps])\<rparr>) = (Inr u, s')"
    by (cases "ss_sender (snd (group_payloads (recording api enc) tone kind source (sat_mul k (of_nat frame_count_240)) 0 plan s))")
      (auto simp: send_one_epoch_def state_ok res_ok given_epochs_def)
  from group_payloads_ok [OF pay] have t: "t = s\<lparr>ss_encoders := ss_encoders t, ss_payload_bytes := add_bytes (ss_payload_bytes s) ps\<rparr>"
      "length ps = length plan"
      "kind = PayloadFlac \<or> map Some ps
        = map (\<lambda>g. source_group_s24le tone source (sat_mul k (of_nat frame_count_240)) (gp_channel_start g) (gp_channel_count g)) plan"
    by auto
  have same: "given_epochs t = given_epochs s" "ss_payload_bytes t = add_bytes (ss_payload_bytes s) ps"
      "counters_ok (t\<lparr>ss_sender := (r, given_epochs t @ [probe_epoch session k kind plan ps])\<rparr>)"
    using assms(2) t(1) by (cases s, cases t, simp add: given_epochs_def counters_ok_def)+
  have planned: "epoch_as_planned tone source kind session plan k (probe_epoch session k kind plan ps)"
    using t(2,3) by (simp add: epoch_as_planned_def flip: map_map [unfolded comp_def, of Some eg_payload])
  from send_datagrams_ok [OF send same(3)] same(1,2) planned t(2) show ?thesis
    by (auto simp: given_epochs_def given_payloads_def)
qed

lemma send_epochs_ok:
  "send_epochs (recording api enc) tone session kind source plan k n s = (Inr u, s') \<Longrightarrow> counters_ok s \<Longrightarrow>
     counters_ok s' \<and> (\<exists>es. list_all2 (\<lambda>i. epoch_as_planned tone source kind session plan (k + of_nat i)) [0..<n] es
       \<and> given_epochs s' = given_epochs s @ es
       \<and> ss_payload_bytes s' = add_bytes (ss_payload_bytes s) (given_payloads es))"
proof (induction n arbitrary: k s)
  case (Suc n)
  from Suc.prems(1) obtain t w where steps:
      "send_one_epoch (recording api enc) tone session kind source plan k s = (Inr w, t)"
      "send_epochs (recording api enc) tone session kind source plan (k + 1) n t = (Inr u, s')"
    by (auto simp: state_ok)
  from send_one_epoch_ok [OF steps(1) Suc.prems(2)] obtain e where e: "counters_ok t"
      "epoch_as_planned tone source kind session plan k e" "given_epochs t = given_epochs s @ [e]"
      "ss_payload_bytes t = add_bytes (ss_payload_bytes s) (given_payloads [e])" by auto
  from Suc.IH [OF steps(2) e(1)] obtain es where es: "counters_ok s'"
      "list_all2 (\<lambda>i. epoch_as_planned tone source kind session plan (k + 1 + of_nat i)) [0..<n] es"
      "given_epochs s' = given_epochs t @ es"
      "ss_payload_bytes s' = add_bytes (ss_payload_bytes t) (given_payloads es)" by auto
  have "[0..<Suc n] = 0 # map Suc [0..<n]" by (simp add: upt_conv_Cons map_Suc_upt del: upt_Suc)
  then have "list_all2 (\<lambda>i. epoch_as_planned tone source kind session plan (k + of_nat i)) [0..<Suc n] (e # es)"
    using e(2) es(2) by (simp add: list_all2_map1 add.assoc del: upt_Suc)
  with e es show ?case by (intro conjI exI [of _ "e # es"]) (simp_all add: given_payloads_def)
qed (simp add: state_ok given_payloads_def)


section \<open>Reader windows\<close>

lemma hls_window_whole_parts:
  assumes "hls_window_end_ms duration start window part = Inr e"
  shows "0 < part" and "start < e" and "unat e \<le> unat duration * 1000" and "start mod part = 0" and "e mod part = 0"
proof -
  from assms obtain m where m: "0 < part" "checked_mul duration 1000 = Some m" "start < m" "start mod part = 0"
      "e \<le> m" "e mod part = 0" "window = None \<and> e = m \<or> (\<exists>w x. window = Some w \<and> w \<noteq> 0 \<and> checked_mul w 1000 = Some x
        \<and> checked_add start x = Some e)"
    by (auto simp: hls_window_end_ms_def res_ok word_gt_0 not_le not_less split: if_splits option.splits del: mod_0_imp_dvd)
  show "0 < part" by fact
  show "start mod part = 0" "e mod part = 0" using m(4,6) by simp_all
  show "unat e \<le> unat duration * 1000" using m(2,5) by (auto simp: checked_mul_eq_Some word_le_nat_alt)
  from m(7) show "start < e"
    using m(3) by (auto simp: checked_mul_eq_Some checked_add_eq_Some word_less_nat_alt word_gt_0 unat_gt_0)
qed

lemma late_join_aligned:
  assumes "unat base + unat window < 2 ^ 64"
  shows "\<exists>k. unat (randomized_reader_start_offset_ms base part window reader seed) = unat base + k * unat part
    \<and> k * unat part \<le> unat window"
proof (cases "part = 0 \<or> window < part")
  case True
  then show ?thesis by (intro exI [of _ 0]) (auto simp: randomized_reader_start_offset_ms_def)
next
  case False
  define slot where "slot = deterministic_sample_index (seed XOR reader) mod sat_add (window div part) 1"
  have "unat slot < unat (sat_add (window div part) 1)"
    by (simp add: slot_def unat_mod_distrib unat_gt_0 word_unat_eq_iff unat_sat_add)
  also have "\<dots> \<le> unat (window div part) + 1" by (simp add: unat_sat_add)
  finally have "unat slot \<le> unat window div unat part" by (simp add: unat_div_distrib)
  then have "unat slot * unat part \<le> unat window div unat part * unat part" by simp
  also have "\<dots> \<le> unat window" by simp
  finally have k: "unat slot * unat part \<le> unat window" .
  then have "unat (sat_add base (sat_mul slot part)) = unat base + unat slot * unat part"
    using assms unat_lt2p [of window] by (simp add: unat_sat_add unat_sat_mul min_def)
  with k False show ?thesis
    by (intro exI [of _ "unat slot"]) (simp add: randomized_reader_start_offset_ms_def slot_def Let_def)
qed

end
