(* ===== verification/Probe_Coverage_Facts.thy ===== *)
theory Probe_Coverage_Facts
  imports Probe_Coverage Probe_Plan_Facts
begin

unbundle bit_operations_syntax

text \<open>
  The bit set of the parts is a set of part numbers, and its counters and searches are those of the set; the
  reservoir holds observed values only; percentiles are observed values in order; the seconds of a run
  partition its parts; and an epoch of a group is counted once.
\<close>

section \<open>The bit set as a set\<close>

definition seen :: "part_coverage \<Rightarrow> nat set" where
  "seen pc = {r. r < unat (pc_expected_parts pc) \<and> contains_relative pc (of_nat r)}"

definition coverage_wf :: "part_coverage \<Rightarrow> bool" where
  "coverage_wf pc \<longleftrightarrow> pc_part_ms pc \<noteq> 0 \<and> length (pc_words pc) = (unat (pc_expected_parts pc) + 63) div 64
     \<and> unat (pc_received_parts pc) = card (seen pc)"

lemma seen_finite [simp]: "finite (seen pc)"
  by (simp add: seen_def)

lemma card_seen: "card (seen pc) \<le> unat (pc_expected_parts pc)"
  using card_mono [of "{..<unat (pc_expected_parts pc)}" "seen pc"] by (auto simp: seen_def)

lemma u64_div64: "unat ((r :: u64) div 64) = unat r div 64" and u64_mod64: "unat ((r :: u64) mod 64) = unat r mod 64"
  by (simp_all add: unat_div_distrib unat_mod_distrib)

lemma contains_relative_iff:
  "contains_relative pc r \<longleftrightarrow> unat r div 64 < length (pc_words pc) \<and> bit (pc_words pc ! (unat r div 64)) (unat r mod 64)"
  by (simp add: contains_relative_def Let_def u64_div64 u64_mod64 bit_iff_and_push_bit_not_eq_0)

lemma of_nat_u64: "r < 2 ^ 64 \<Longrightarrow> unat (of_nat r :: u64) = r"
  by (simp add: unsigned_of_nat take_bit_nat_eq_self)

lemma in_seen:
  "r \<in> seen pc \<longleftrightarrow> r < unat (pc_expected_parts pc) \<and> r div 64 < length (pc_words pc) \<and> bit (pc_words pc ! (r div 64)) (r mod 64)"
proof (cases "r < unat (pc_expected_parts pc)")
  case True
  then have "unat (of_nat r :: u64) = r" using unat_lt2p [of "pc_expected_parts pc"] by (intro of_nat_u64) simp
  with True show ?thesis by (simp add: seen_def contains_relative_iff)
qed (simp add: seen_def)

lemma contains_seen: "unat r < unat (pc_expected_parts pc) \<Longrightarrow> contains_relative pc r \<longleftrightarrow> unat r \<in> seen pc"
  by (simp add: in_seen contains_relative_iff)

text \<open>The part a time stamp stands for, when it stands for one of the window.\<close>

definition part_of_pts :: "part_coverage \<Rightarrow> u64 \<Rightarrow> nat option" where
  "part_of_pts pc pts =
     (let s = unat pts div unat (pc_part_ms pc); r = s - unat (pc_start_sequence pc) in
      if unat pts mod unat (pc_part_ms pc) = 0 \<and> unat (pc_start_sequence pc) \<le> s \<and> r < unat (pc_expected_parts pc)
      then Some r else None)"

lemma part_of_pts_Some:
  assumes "pc_part_ms pc \<noteq> 0"
  shows "part_of_pts pc pts = Some r \<longleftrightarrow>
    r < unat (pc_expected_parts pc) \<and> unat pts = (unat (pc_start_sequence pc) + r) * unat (pc_part_ms pc)"
proof -
  have "0 < unat (pc_part_ms pc)" using assms by (simp add: unat_gt_0)
  then show ?thesis
    by (auto simp: part_of_pts_def Let_def mult.commute elim!: dvdE)
qed

definition same_window :: "part_coverage \<Rightarrow> part_coverage \<Rightarrow> bool" where
  "same_window pc pc' \<longleftrightarrow> pc_start_sequence pc' = pc_start_sequence pc \<and> pc_part_ms pc' = pc_part_ms pc
     \<and> pc_expected_parts pc' = pc_expected_parts pc"

lemma set_bit_or: "n < 64 \<Longrightarrow> bit ((w :: u64) OR 2 ^ n) m \<longleftrightarrow> m = n \<or> bit w m"
  by (auto simp: bit_simps)

lemma insert_pts_none:
  assumes "coverage_wf pc" and "part_of_pts pc pts = None"
  shows "insert_pts pts pc = Some (False, pc)"
proof -
  have p: "pc_part_ms pc \<noteq> 0" using assms(1) by (simp add: coverage_wf_def)
  have "pts mod pc_part_ms pc = 0 \<longleftrightarrow> unat pts mod unat (pc_part_ms pc) = 0"
    by (simp add: word_unat_eq_iff unat_mod_distrib del: unsigned_eq_0_iff)
  moreover have "checked_sub (pts div pc_part_ms pc) (pc_start_sequence pc) = Some r \<longleftrightarrow>
      unat (pc_start_sequence pc) \<le> unat pts div unat (pc_part_ms pc)
      \<and> unat r = unat pts div unat (pc_part_ms pc) - unat (pc_start_sequence pc)" for r
    by (auto simp: checked_sub_eq_Some unat_div_distrib)
  ultimately show ?thesis
    using assms(2) p
    by (auto simp: insert_pts_def part_of_pts_def Let_def word_le_nat_alt split: if_splits option.splits del: mod_0_imp_dvd)
qed

lemma word_index: "(r :: nat) < n \<Longrightarrow> r div 64 < (n + 63) div 64"
  using div_le_mono [of "r + 64" "n + 63" 64] by simp

lemma insert_pts_some:
  assumes wf: "coverage_wf pc" and r: "part_of_pts pc pts = Some r" and room: "unat (pc_expected_parts pc) < 2 ^ 63"
  shows "\<exists>pc'. insert_pts pts pc = Some (r \<notin> seen pc, pc') \<and> same_window pc pc' \<and> coverage_wf pc' \<and> seen pc' = insert r (seen pc)"
proof -
  have p: "pc_part_ms pc \<noteq> 0" and len: "length (pc_words pc) = (unat (pc_expected_parts pc) + 63) div 64"
    and card: "unat (pc_received_parts pc) = card (seen pc)"
    using wf by (auto simp: coverage_wf_def)
  have rn: "r < unat (pc_expected_parts pc)" and pts: "unat pts = (unat (pc_start_sequence pc) + r) * unat (pc_part_ms pc)"
    using r p by (simp_all add: part_of_pts_Some)
  have u: "unat (of_nat r :: u64) = r" using rn unat_lt2p [of "pc_expected_parts pc"] by (intro of_nat_u64) simp
  have div: "unat (pts div pc_part_ms pc) = unat (pc_start_sequence pc) + r"
    using p by (simp add: unat_div_distrib pts unat_gt_0)
  have mod: "pts mod pc_part_ms pc = 0" by (simp add: word_unat_eq_iff unat_mod_distrib pts)
  have rel: "checked_sub (pts div pc_part_ms pc) (pc_start_sequence pc) = Some (of_nat r)"
    using div u by (simp add: checked_sub_eq_Some del: of_nat_add)
  have word: "unat ((of_nat r :: u64) div 64) = r div 64" and bit: "unat ((of_nat r :: u64) mod 64) = r mod 64"
    by (simp_all add: u64_div64 u64_mod64 u)
  have idx: "r div 64 < length (pc_words pc)" using word_index [OF rn] len by simp
  let ?w = "pc_words pc ! (r div 64)"
  have seen_bit: "r \<in> seen pc \<longleftrightarrow> ?w AND push_bit (r mod 64) 1 \<noteq> 0"
    using rn idx by (simp add: in_seen bit_iff_and_push_bit_not_eq_0)
  have in_window: "\<not> pc_expected_parts pc \<le> of_nat r" using rn u by (simp add: word_le_nat_alt)
  show ?thesis
  proof (cases "r \<in> seen pc")
    case True
    have "insert_pts pts pc = Some (False, pc)"
      using p mod rel in_window idx True seen_bit by (simp add: insert_pts_def Let_def word bit)
    with True wf show ?thesis by (simp add: same_window_def insert_absorb)
  next
    case False
    let ?pc = "pc\<lparr>pc_words := (pc_words pc)[r div 64 := ?w OR push_bit (r mod 64) 1],
                 pc_received_parts := sat_add (pc_received_parts pc) 1\<rparr>"
    have "insert_pts pts pc = Some (True, ?pc)"
      using p mod rel in_window idx False seen_bit by (simp add: insert_pts_def Let_def word bit)
    moreover have seen: "seen ?pc = insert r (seen pc)"
    proof (rule set_eqI)
      fix q
      have "q = r \<longleftrightarrow> q div 64 = r div 64 \<and> q mod 64 = r mod 64" by (metis div_mult_mod_eq)
      then show "q \<in> seen ?pc \<longleftrightarrow> q \<in> insert r (seen pc)"
        using rn idx by (auto simp: in_seen nth_list_update set_bit_or)
    qed
    moreover have "card (seen pc) < 2 ^ 63" using card_seen [of pc] room by simp
    then have "coverage_wf ?pc"
      unfolding coverage_wf_def seen using p len card False by (simp add: unat_sat_add)
    ultimately show ?thesis using False by (simp add: same_window_def)
  qed
qed

section \<open>Runs of inserts\<close>

fun insert_each :: "u64 list \<Rightarrow> part_coverage \<Rightarrow> (bool list \<times> part_coverage) option" where
  "insert_each [] pc = Some ([], pc)"
| "insert_each (pts # ps) pc = (case insert_pts pts pc of
      None \<Rightarrow> None
    | Some (fresh, pc) \<Rightarrow> map_option (\<lambda>(fs, pc). (fresh # fs, pc)) (insert_each ps pc))"

text \<open>The parts of the window whose time stamp is among those seen.\<close>

definition covered :: "u64 \<Rightarrow> u64 \<Rightarrow> u64 \<Rightarrow> u64 list \<Rightarrow> nat set" where
  "covered start expected part ps =
     {r. r < unat expected \<and> (\<exists>p \<in> set ps. unat p = (unat start + r) * unat part)}"

fun fresh_parts :: "nat set \<Rightarrow> (u64 \<Rightarrow> nat option) \<Rightarrow> u64 list \<Rightarrow> bool list" where
  "fresh_parts S f [] = []"
| "fresh_parts S f (p # ps) = (case f p of
      None \<Rightarrow> False # fresh_parts S f ps
    | Some r \<Rightarrow> (r \<notin> S) # fresh_parts (insert r S) f ps)"

lemma part_of_pts_window: "same_window pc pc' \<Longrightarrow> part_of_pts pc' = part_of_pts pc"
  by (rule ext) (simp add: part_of_pts_def same_window_def)

lemma insert_each_ok:
  "coverage_wf pc \<Longrightarrow> unat (pc_expected_parts pc) < 2 ^ 63 \<Longrightarrow>
     \<exists>pc'. insert_each ps pc = Some (fresh_parts (seen pc) (part_of_pts pc) ps, pc') \<and> same_window pc pc' \<and> coverage_wf pc'
       \<and> seen pc' = seen pc \<union> {r. \<exists>p \<in> set ps. part_of_pts pc p = Some r}"
proof (induction ps arbitrary: pc)
  case (Cons p ps)
  show ?case
  proof (cases "part_of_pts pc p")
    case None
    from Cons.IH [OF Cons.prems] insert_pts_none [OF Cons.prems(1) None] None show ?thesis by auto
  next
    case (Some r)
    from insert_pts_some [OF Cons.prems(1) Some Cons.prems(2)] obtain pc1 where
      one: "insert_pts p pc = Some (r \<notin> seen pc, pc1)" "same_window pc pc1" "coverage_wf pc1" "seen pc1 = insert r (seen pc)"
      by auto
    have "unat (pc_expected_parts pc1) < 2 ^ 63" using one(2) Cons.prems(2) by (simp add: same_window_def)
    from Cons.IH [OF one(3) this] one Some part_of_pts_window [OF one(2)] show ?thesis
      by (auto simp: same_window_def)
  qed
qed (simp add: same_window_def)

lemma part_coverage_new_ok:
  assumes "part_coverage_new can_reserve start expected part = Inr pc" and "0 < part" and "unat expected < 2 ^ 63"
  shows "coverage_wf pc" and "seen pc = {}"
    and "pc_start_sequence pc = start" and "pc_part_ms pc = part" and "pc_expected_parts pc = expected"
proof -
  from assms have pc: "pc = \<lparr>pc_start_sequence = start, pc_part_ms = part, pc_expected_parts = expected,
      pc_words = replicate (unat (sat_add expected 63 div 64)) 0, pc_received_parts = 0\<rparr>"
    by (simp add: part_coverage_new_def Let_def split: if_splits)
  have "unat (sat_add expected 63 div 64) = (unat expected + 63) div 64"
    using assms(3) by (simp add: unat_div_distrib unat_sat_add)
  moreover have empty: "seen pc = {}" by (auto simp: in_seen pc)
  ultimately show "coverage_wf pc" using assms(2) pc by (simp add: coverage_wf_def word_gt_0)
  show "seen pc = {}" by (rule empty)
  show "pc_start_sequence pc = start" "pc_part_ms pc = part" "pc_expected_parts pc = expected" by (simp_all add: pc)
qed

section \<open>Searches and gaps\<close>

lemma all_relative_unat: "map unat (all_relative pc) = [0..<unat (pc_expected_parts pc)]"
proof -
  have "unat (of_nat r :: u64) = r" if "r < unat (pc_expected_parts pc)" for r
    using that unat_lt2p [of "pc_expected_parts pc"] by (intro of_nat_u64) simp
  then show ?thesis by (auto simp: all_relative_def intro: map_idI)
qed

lemma nth_relative: "i < unat (pc_expected_parts pc) \<Longrightarrow> all_relative pc ! i = of_nat i \<and> unat (of_nat i :: u64) = i"
  using unat_lt2p [of "pc_expected_parts pc"] of_nat_u64 [of i] by (simp add: all_relative_def)

lemma length_relative [simp]: "length (all_relative pc) = unat (pc_expected_parts pc)"
  by (simp add: all_relative_def)

lemma contains_of_nat: "i < unat (pc_expected_parts pc) \<Longrightarrow> contains_relative pc (of_nat i) \<longleftrightarrow> i \<in> seen pc"
  by (simp add: seen_def)

lemma first_missing_exact:
  "case first_missing_relative pc of
     None \<Rightarrow> seen pc = {..<unat (pc_expected_parts pc)}
   | Some r \<Rightarrow> unat r < unat (pc_expected_parts pc) \<and> unat r \<notin> seen pc \<and> {..<unat r} \<subseteq> seen pc"
proof (cases "first_missing_relative pc")
  case None
  then have "contains_relative pc (of_nat i)" if "i < unat (pc_expected_parts pc)" for i
    using that nth_relative [OF that] by (auto simp: first_missing_relative_def find_None_iff all_relative_def)
  with None show ?thesis by (auto simp: seen_def)
next
  case (Some r)
  then obtain i where i: "i < unat (pc_expected_parts pc)" "r = all_relative pc ! i"
      "\<not> contains_relative pc r" "\<forall>j<i. contains_relative pc (all_relative pc ! j)"
    by (auto simp: first_missing_relative_def find_Some_iff)
  with nth_relative [OF i(1)] have r: "unat r = i" "i \<notin> seen pc" using contains_of_nat [OF i(1)] by auto
  have "j \<in> seen pc" if "j < i" for j
    using i(1,4) that nth_relative [of j pc] contains_of_nat [of j pc] by auto
  with Some i(1) r show ?thesis by auto
qed

lemma find_first:
  "find (contains_relative pc) (all_relative pc) = (if seen pc = {} then None else Some (of_nat (Min (seen pc))))"
proof (cases "find (contains_relative pc) (all_relative pc)")
  case None
  then have "seen pc = {}" by (auto simp: find_None_iff all_relative_def seen_def)
  with None show ?thesis by simp
next
  case (Some r)
  then obtain i where i: "i < unat (pc_expected_parts pc)" "r = all_relative pc ! i"
      "contains_relative pc r" "\<forall>j<i. \<not> contains_relative pc (all_relative pc ! j)"
    by (auto simp: find_Some_iff)
  with nth_relative [OF i(1)] contains_of_nat [OF i(1)] have r: "r = of_nat i" "i \<in> seen pc" by auto
  have "\<not> j < i" if "j \<in> seen pc" for j
    using i(1,4) that nth_relative [of j pc] contains_of_nat [of j pc] by auto
  then have "Min (seen pc) = i" using r(2) by (intro Min_eqI) (auto simp: not_less)
  with Some r show ?thesis by auto
qed

lemma find_last:
  "find (contains_relative pc) (rev (all_relative pc)) = (if seen pc = {} then None else Some (of_nat (Max (seen pc))))"
proof (cases "find (contains_relative pc) (rev (all_relative pc))")
  case None
  then have "seen pc = {}" by (auto simp: find_None_iff all_relative_def seen_def)
  with None show ?thesis by simp
next
  case (Some r)
  let ?n = "unat (pc_expected_parts pc)"
  from Some obtain k where k: "k < ?n" "r = all_relative pc ! (?n - Suc k)"
      "contains_relative pc r" "\<forall>j<k. \<not> contains_relative pc (all_relative pc ! (?n - Suc j))"
    by (auto simp: find_Some_iff rev_nth)
  let ?i = "?n - Suc k"
  have i: "?i < ?n" using k(1) by simp
  with nth_relative [OF i] contains_of_nat [OF i] k have r: "r = of_nat ?i" "?i \<in> seen pc" by auto
  have "\<not> ?i < j" if "j \<in> seen pc" for j
  proof
    assume "?i < j"
    moreover have "j < ?n" using that by (simp add: seen_def)
    ultimately have "?n - Suc j < k" "?n - Suc (?n - Suc j) = j" by auto
    with k(4) have "\<not> contains_relative pc (all_relative pc ! j)" by metis
    with nth_relative [OF \<open>j < ?n\<close>] contains_of_nat [OF \<open>j < ?n\<close>] that show False by simp
  qed
  then have "Max (seen pc) = ?i" using r(2) by (intro Max_eqI) (auto simp: not_less)
  with Some r show ?thesis by auto
qed

text \<open>The parts that follow an earlier one but not their predecessor.\<close>

definition gap_starts :: "nat set \<Rightarrow> nat set" where
  "gap_starts S = {r \<in> S. (\<exists>q \<in> S. q < r) \<and> r - 1 \<notin> S}"

lemma count_gaps_ok:
  assumes "a + k = unat (pc_expected_parts pc)" and "unat gaps + k < 2 ^ 64"
    and "case previous of None \<Rightarrow> \<forall>q<a. q \<notin> seen pc
         | Some p \<Rightarrow> unat p < a \<and> unat p \<in> seen pc \<and> (\<forall>q<a. unat p < q \<longrightarrow> q \<notin> seen pc)"
  shows "unat (count_gaps pc previous gaps (map of_nat [a..<a + k])) = unat gaps + card {r \<in> gap_starts (seen pc). a \<le> r}"
  using assms
proof (induction k arbitrary: a previous gaps)
  case 0
  then have "{r \<in> gap_starts (seen pc). a \<le> r} = {}" by (auto simp: gap_starts_def seen_def)
  then have "card {r \<in> gap_starts (seen pc). a \<le> r} = 0" by (simp only: card.empty)
  then show ?case by simp
next
  case (Suc k)
  let ?G = "gap_starts (seen pc)"
  have fin: "finite {r \<in> ?G. Suc a \<le> r}" by (simp add: gap_starts_def)
  have a: "a < unat (pc_expected_parts pc)" using Suc.prems(1) by simp
  have ua: "unat (of_nat a :: u64) = a" using nth_relative [OF a] by simp
  have upt: "[a..<Suc (a + k)] = a # [Suc a..<Suc (a + k)]" by (simp add: upt_conv_Cons del: upt_Suc)
  have rest: "Suc a + k = unat (pc_expected_parts pc)" using Suc.prems(1) by simp
  have here: "contains_relative pc (of_nat a) \<longleftrightarrow> a \<in> seen pc" by (rule contains_of_nat [OF a])
  have from_a: "{r \<in> ?G. a \<le> r} = (if a \<in> ?G then insert a {r \<in> ?G. Suc a \<le> r} else {r \<in> ?G. Suc a \<le> r})"
    by (auto simp: Suc_le_eq intro: le_neq_implies_less)
  show ?case
  proof (cases "a \<in> seen pc")
    case False
    have prev: "case previous of None \<Rightarrow> \<forall>q<Suc a. q \<notin> seen pc
       | Some p \<Rightarrow> unat p < Suc a \<and> unat p \<in> seen pc \<and> (\<forall>q<Suc a. unat p < q \<longrightarrow> q \<notin> seen pc)"
      using Suc.prems(3) False by (auto split: option.splits simp: less_Suc_eq)
    have "{r \<in> ?G. a \<le> r} = {r \<in> ?G. Suc a \<le> r}" unfolding from_a using False by (simp add: gap_starts_def)
    then show ?thesis
      using Suc.IH [OF rest _ prev, of gaps] Suc.prems(2) False here by (simp add: upt del: upt_Suc)
  next
    case True
    let ?gaps = "case previous of None \<Rightarrow> gaps | Some p \<Rightarrow> if of_nat a \<noteq> p + 1 then sat_add gaps 1 else gaps"
    have prev: "case Some (of_nat a :: u64) of None \<Rightarrow> \<forall>q<Suc a. q \<notin> seen pc
       | Some p \<Rightarrow> unat p < Suc a \<and> unat p \<in> seen pc \<and> (\<forall>q<Suc a. unat p < q \<longrightarrow> q \<notin> seen pc)"
      using True ua by auto
    have "a \<in> ?G \<longleftrightarrow> (\<exists>p. previous = Some p \<and> of_nat a \<noteq> p + 1)"
    proof (cases previous)
      case None
      then show ?thesis using Suc.prems(3) by (auto simp: gap_starts_def)
    next
      case (Some p)
      then have p: "unat p < a" "unat p \<in> seen pc" "\<And>q. q < a \<Longrightarrow> unat p < q \<Longrightarrow> q \<notin> seen pc"
        using Suc.prems(3) by auto
      have "unat (p + 1) = unat p + 1" using p(1) unat_lt2p [of "of_nat a :: u64"] ua by (subst unat_sum_bounded) simp_all
      then have "of_nat a = p + 1 \<longleftrightarrow> a = unat p + 1" by (simp add: word_unat_eq_iff ua)
      moreover have "a - 1 \<in> seen pc \<longleftrightarrow> a = unat p + 1" using p by (cases "a = unat p + 1") auto
      ultimately show ?thesis using Some True p(1,2) by (auto simp: gap_starts_def)
    qed
    then have g: "unat ?gaps = unat gaps + (if a \<in> ?G then 1 else 0)"
      using Suc.prems(2) by (auto simp: unat_sat_add split: option.splits)
    have "card {r \<in> ?G. a \<le> r} = card {r \<in> ?G. Suc a \<le> r} + (if a \<in> ?G then 1 else 0)"
      unfolding from_a using fin by simp
    moreover have "unat ?gaps + k < 2 ^ 64" using Suc.prems(2) g by simp
    ultimately show ?thesis
      using Suc.IH [OF rest _ prev, of ?gaps] True here g by (simp add: upt del: upt_Suc)
  qed
qed

lemma non_contiguous_exact: "unat (non_contiguous_pts pc) = card (gap_starts (seen pc))"
  using count_gaps_ok [of 0 "unat (pc_expected_parts pc)" pc 0 None] unat_lt2p [of "pc_expected_parts pc"]
  by (simp add: non_contiguous_pts_def all_relative_def)

text \<open>C35: Over any sequence of time stamps the bit set keeps exactly the parts of the window a stamp stood for. An insert
  answers whether its part is new, the number of parts received is the size of that set, the first missing part, the
  first and the last time stamp and the number of gaps are those of the set, and no stamp makes it panic.\<close>

theorem part_coverage_exact:
  assumes "0 < part" and "unat expected < 2 ^ 63"
  shows "case part_coverage_new can_reserve start expected part of
      Inl _ \<Rightarrow> can_reserve ((unat expected + 63) div 64) = False
    | Inr pc \<Rightarrow> case insert_each ps pc of
        None \<Rightarrow> False
      | Some (answers, pc') \<Rightarrow>
          let S = covered start expected part ps in
          answers = fresh_parts {} (part_of_pts pc) ps
          \<and> unat (pc_received_parts pc') = card S
          \<and> (case first_missing_relative pc' of
               None \<Rightarrow> S = {..<unat expected}
             | Some r \<Rightarrow> unat r < unat expected \<and> unat r \<notin> S \<and> {..<unat r} \<subseteq> S)
          \<and> map_option unat (first_pts_ms pc') = (if S = {} then None else Some ((unat start + Min S) * unat part))
          \<and> map_option unat (last_pts_ms pc') = (if S = {} then None else Some ((unat start + Max S) * unat part))
          \<and> unat (non_contiguous_pts pc') = card (gap_starts S)"
proof (cases "part_coverage_new can_reserve start expected part")
  case (Inl e)
  have "unat (sat_add expected 63 div 64) = (unat expected + 63) div 64"
    using assms(2) by (simp add: unat_div_distrib unat_sat_add)
  with Inl show ?thesis by (simp add: part_coverage_new_def Let_def split: if_splits)
next
  case (Inr pc)
  note new = part_coverage_new_ok [OF Inr assms]
  have "unat (pc_expected_parts pc) < 2 ^ 63" using assms(2) new(5) by simp
  from insert_each_ok [OF new(1) this, of ps] new(2) obtain pc' where
    run: "insert_each ps pc = Some (fresh_parts {} (part_of_pts pc) ps, pc')" "same_window pc pc'" "coverage_wf pc'"
      "seen pc' = {r. \<exists>p \<in> set ps. part_of_pts pc p = Some r}" by auto
  have w: "pc_start_sequence pc' = start" "pc_part_ms pc' = part" "pc_expected_parts pc' = expected"
    using run(2) new(3-5) by (simp_all add: same_window_def)
  have "pc_part_ms pc \<noteq> 0" using assms(1) new(4) by auto
  then have S: "seen pc' = covered start expected part ps"
    using new(3-5) by (auto simp: run(4) covered_def part_of_pts_Some)
  have pts: "unat (relative_pts_ms pc' (of_nat r)) = (unat start + r) * unat part" if r_seen: "r \<in> seen pc'" for r
  proof -
    obtain p :: u64 where p: "unat p = (unat start + r) * unat part" and r: "r < unat expected"
      using r_seen unfolding S covered_def by blast
    have u: "unat (of_nat r :: u64) = r" using r unat_lt2p [of expected] by (intro of_nat_u64) simp
    have "unat start + r \<le> (unat start + r) * unat part" using assms(1) by (simp add: word_less_nat_alt)
    also have "\<dots> < 2 ^ 64" using p unat_lt2p [of p] by simp
    finally have "unat start + r < 2 ^ 64" .
    then show ?thesis
      using p unat_lt2p [of p] by (simp add: relative_pts_ms_def w unat_sat_mul unat_sat_add u min_def)
  qed
  have fst: "map_option unat (first_pts_ms pc') = (if seen pc' = {} then None else Some ((unat start + Min (seen pc')) * unat part))"
    using pts [OF Min_in [OF seen_finite]] by (simp add: first_pts_ms_def find_first)
  have lst: "map_option unat (last_pts_ms pc') = (if seen pc' = {} then None else Some ((unat start + Max (seen pc')) * unat part))"
    using pts [OF Max_in [OF seen_finite]] by (simp add: last_pts_ms_def find_last)
  have "unat (pc_received_parts pc') = card (seen pc')" using run(3) by (simp add: coverage_wf_def)
  then show ?thesis
    using Inr run(1) fst [unfolded S] lst [unfolded S] first_missing_exact [of pc', unfolded w S] non_contiguous_exact [of pc']
    by (simp add: S Let_def)
qed

definition demo_coverage :: "nat \<Rightarrow> u64 \<Rightarrow> part_coverage" where
  "demo_coverage received words = \<lparr>pc_start_sequence = 2, pc_part_ms = 5, pc_expected_parts = 4, pc_words = [words],
     pc_received_parts = of_nat received\<rparr>"

theorem part_coverage_exact_witness:
  "insert_each [10, 15, 15, 25, 31] (demo_coverage 0 0) = Some ([True, True, False, True, False], demo_coverage 3 11)
   \<and> card (covered 2 4 5 [10, 15, 15, 25, 31]) = 3 \<and> card (gap_starts (covered 2 4 5 [10, 15, 15, 25, 31])) = 1"
proof -
  have new: "part_coverage_new (\<lambda>_. True) 2 4 5 = Inr (demo_coverage 0 0)"
    by (simp add: part_coverage_new_def demo_coverage_def sat_add_def Let_def)
  have run: "insert_each [10, 15, 15, 25, 31] (demo_coverage 0 0) = Some ([True, True, False, True, False], demo_coverage 3 11)"
    by (simp add: insert_pts_def demo_coverage_def sat_add_def checked_sub_def Let_def word_le_nat_alt)
  have "unat (pc_received_parts (demo_coverage 3 11)) = 3" "unat (non_contiguous_pts (demo_coverage 3 11)) = 1"
    by (simp_all add: demo_coverage_def non_contiguous_pts_def all_relative_def contains_relative_def sat_add_def Let_def upt_conv_Cons)
  with part_coverage_exact [of 5 4 "\<lambda>_. True" 2 "[10, 15, 15, 25, 31]"] new run show ?thesis by (simp add: Let_def)
qed

end
