(* ===== verification/Probe_Report_Facts.thy ===== *)
theory Probe_Report_Facts
  imports Probe_Coverage_Facts
begin

text \<open>
  What the reports of a reader say: percentiles and their reservoir, the seconds of a run, the discontinuities of the
  timeline, and the epochs of a group.
\<close>

section \<open>Percentiles\<close>

lemma percentile_at_rank:
  assumes "sorted vs" and "vs \<noteq> []" and "percent \<le> 100"
  shows "percentile_at vs percent \<in> set vs"
    and "length vs * percent \<le> 100 * length (filter (\<lambda>y. y \<le> percentile_at vs percent) vs)"
proof -
  define n where "n = length vs"
  define i where "i = max 1 (min (div_ceil_nat (n * percent) 100) n) - 1"
  have n: "0 < n" using assms(2) by (simp add: n_def)
  have "n * percent \<le> n * 100" using assms(3) by (rule mult_le_mono2)
  then have c: "div_ceil_nat (n * percent) 100 \<le> n" by (simp add: div_ceil_nat_le)
  with n have i: "i < n" "div_ceil_nat (n * percent) 100 \<le> i + 1" by (auto simp: i_def)
  have at: "percentile_at vs percent = vs ! i" by (simp add: percentile_at_def i_def n_def)
  show "percentile_at vs percent \<in> set vs" using i(1) by (simp add: at n_def)
  have "\<forall>y \<in> set (take (i + 1) vs). y \<le> vs ! i"
    using assms(1) i(1) by (auto simp: in_set_conv_nth n_def sorted_iff_nth_mono)
  then have "filter (\<lambda>y. y \<le> vs ! i) (take (i + 1) vs) = take (i + 1) vs" by (simp add: filter_id_conv)
  then have "i + 1 \<le> length (filter (\<lambda>y. y \<le> vs ! i) (take (i + 1) vs))" using i(1) by (simp add: n_def)
  also have "\<dots> \<le> length (filter (\<lambda>y. y \<le> vs ! i) (take (i + 1) vs @ drop (i + 1) vs))"
    by (simp only: filter_append length_append le_add1)
  finally have "i + 1 \<le> length (filter (\<lambda>y. y \<le> percentile_at vs percent) vs)" by (simp add: at)
  with i(2) have "div_ceil_nat (n * percent) 100 \<le> length (filter (\<lambda>y. y \<le> percentile_at vs percent) vs)" by simp
  then show "length vs * percent \<le> 100 * length (filter (\<lambda>y. y \<le> percentile_at vs percent) vs)"
    using div_ceil_nat_le [of 100 "n * percent"] by (simp add: n_def mult.commute)
qed

lemma percentile_mono: "sorted vs \<Longrightarrow> vs \<noteq> [] \<Longrightarrow> p \<le> q \<Longrightarrow> q \<le> 100 \<Longrightarrow> percentile_at vs p \<le> percentile_at vs q"
proof -
  assume a: "sorted vs" "vs \<noteq> []" "p \<le> q" "q \<le> 100"
  have "length vs * p \<le> length vs * q" using a(3) by simp
  also have "\<dots> \<le> div_ceil_nat (length vs * q) 100 * 100" using div_ceil_nat_le [of 100 "length vs * q" "div_ceil_nat (length vs * q) 100"] by simp
  finally have "div_ceil_nat (length vs * p) 100 \<le> div_ceil_nat (length vs * q) 100" by (simp add: div_ceil_nat_le)
  moreover have "max 1 (min x n) - 1 < n" if "0 < n" for x n :: nat using that by linarith
  ultimately show ?thesis
    unfolding percentile_at_def using a(1,2) by (intro sorted_nth_mono) auto
qed

definition at_least_percent :: "nat \<Rightarrow> u64 \<Rightarrow> u64 list \<Rightarrow> bool" where
  "at_least_percent p x xs \<longleftrightarrow> length xs * p \<le> 100 * length (filter (\<lambda>y. y \<le> x) xs)"

lemma at_least_percent_sort: "at_least_percent p x (sort xs) = at_least_percent p x xs"
proof -
  have "length (filter P (sort xs)) = length (filter P xs)" for P
    by (simp add: filter_sort)
  then show ?thesis by (simp add: at_least_percent_def)
qed

lemma sorted_ends:
  assumes "sorted vs" and "vs \<noteq> []"
  shows "vs ! 0 = Min (set vs)" and "last vs = Max (set vs)"
proof -
  have nth: "vs ! 0 \<le> x" "x \<le> vs ! (length vs - 1)" if "x \<in> set vs" for x
    using that assms(1) by (auto simp: in_set_conv_nth sorted_iff_nth_mono)
  show "vs ! 0 = Min (set vs)" using assms(2) nth(1) by (intro Min_eqI [symmetric]) auto
  show "last vs = Max (set vs)" using assms(2) nth(2) by (intro Max_eqI [symmetric]) (auto simp: last_conv_nth)
qed

lemma percentiles_sound:
  assumes "xs \<noteq> []"
  shows "let p = percentiles_with_count xs count in
    pl_sample_count p = length xs
    \<and> pl_min p \<le> pl_p50 p \<and> pl_p50 p \<le> pl_p95 p \<and> pl_p95 p \<le> pl_p99 p \<and> pl_p99 p \<le> pl_max p
    \<and> pl_min p = Min (set xs) \<and> pl_max p = Max (set xs)
    \<and> at_least_percent 50 (pl_p50 p) xs \<and> at_least_percent 95 (pl_p95 p) xs \<and> at_least_percent 99 (pl_p99 p) xs
    \<and> {pl_p50 p, pl_p95 p, pl_p99 p} \<subseteq> set xs"
proof -
  let ?v = "sort xs"
  have v: "sorted ?v" "?v \<noteq> []" using assms by (simp_all flip: length_greater_0_conv)
  have rank: "at_least_percent p (percentile_at ?v p) xs" "percentile_at ?v p \<in> set xs" if "p \<le> 100" for p
    using percentile_at_rank [OF v that] by (simp_all add: at_least_percent_def [of p _ ?v, unfolded at_least_percent_sort])
  have "?v ! 0 = Min (set xs)" "last ?v = Max (set xs)" using sorted_ends [OF v] by simp_all
  moreover have "pl_min (percentiles_with_count xs count) \<le> percentile_at ?v 50" "percentile_at ?v 99 \<le> Max (set xs)"
    using rank(2) [of 50] rank(2) [of 99] assms calculation by (auto simp: percentiles_with_count_def Let_def intro: Min_le Max_ge)
  ultimately show ?thesis
    using assms rank percentile_mono [OF v] by (simp add: percentiles_with_count_def Let_def)
qed

section \<open>The reservoir\<close>

definition recorded :: "u64 list \<Rightarrow> latency_samples" where
  "recorded xs = fold record_latency xs latency_samples_new"

lemma recorded_snoc: "recorded (xs @ [x]) = record_latency x (recorded xs)"
  by (simp add: recorded_def)

lemma recorded_ok:
  "unat (ls_observations (recorded xs)) = saturated (length xs)
   \<and> length (ls_values_ns (recorded xs)) = min (length xs) max_latency_samples
   \<and> set (ls_values_ns (recorded xs)) \<subseteq> set xs
   \<and> (length xs \<le> max_latency_samples \<longrightarrow> ls_values_ns (recorded xs) = xs)"
proof (induction xs rule: rev_induct)
  case (snoc x xs)
  let ?ls = "recorded xs"
  have "unat (sat_add (ls_observations ?ls) 1) = saturated (Suc (length xs))"
    using snoc.IH by (simp add: saturated_def unat_sat_add min_def)
  moreover have "set ((ls_values_ns ?ls)[i := x]) \<subseteq> insert x (set xs)" for i
    using set_update_subset_insert [of "ls_values_ns ?ls" i x] snoc.IH by blast
  ultimately show ?case
    using snoc.IH by (auto simp: recorded_snoc record_latency_def Let_def min_def split: if_splits)
qed (simp add: recorded_def latency_samples_new_def saturated_def)

text \<open>The reservoir of a latency keeps at most 65536 values, all of them observed, and every one of them up to that many;
  the count says how many were observed. In the summary the percentiles are kept values in increasing order,
  at least the named share of the kept values is at most the percentile, and the ends are the smallest and
  the largest kept value.\<close>

theorem latency_summary_sound:
  "let kept = ls_values_ns (recorded xs); p = latency_summary (recorded xs) in
   pl_count p = saturated (length xs) \<and> pl_sample_count p = length kept
   \<and> length kept = min (length xs) 65536 \<and> set kept \<subseteq> set xs \<and> (if length xs \<le> 65536 then kept = xs else length kept = 65536)
   \<and> (case xs of
        [] \<Rightarrow> pl_max p = 0
      | _ \<Rightarrow> pl_min p = Min (set kept) \<and> pl_min p \<le> pl_p50 p \<and> pl_p50 p \<le> pl_p95 p \<and> pl_p95 p \<le> pl_p99 p \<and> pl_p99 p \<le> pl_max p
          \<and> pl_max p = Max (set kept) \<and> {pl_p50 p, pl_p95 p, pl_p99 p} \<subseteq> set kept
          \<and> at_least_percent 50 (pl_p50 p) kept \<and> at_least_percent 95 (pl_p95 p) kept \<and> at_least_percent 99 (pl_p99 p) kept)"
proof (cases xs)
  case Nil
  then show ?thesis
    by (simp add: recorded_def latency_samples_new_def latency_summary_def percentiles_with_count_def saturated_def Let_def)
next
  case (Cons y ys)
  note ok = recorded_ok [of xs]
  have "length (ls_values_ns (recorded xs)) \<noteq> 0" using ok Cons by (simp add: max_latency_samples_def)
  then have ne: "ls_values_ns (recorded xs) \<noteq> []" by simp
  show ?thesis
    unfolding Let_def
    using percentiles_sound [OF ne, of "unat (ls_observations (recorded xs))"] ok ne
    by (simp add: latency_summary_def Let_def max_latency_samples_def Cons percentiles_with_count_def)
qed

section \<open>Groups of an epoch\<close>

fun observe_all :: "u64 \<Rightarrow> (u64 \<times> audio_group) list \<Rightarrow> receive_format_state \<Rightarrow> receive_format_state option" where
  "observe_all deadline_ms [] st = Some st"
| "observe_all deadline_ms ((arrival_ns, g) # gs) st =
     (case observe_group arrival_ns deadline_ms g st of None \<Rightarrow> None | Some st \<Rightarrow> observe_all deadline_ms gs st)"

definition group_key :: "audio_group \<Rightarrow> receive_audio_format \<times> u64" where
  "group_key g = (receive_format_of_kind (ag_payload_kind g), ag_epoch_id g)"

text \<open>The first group of every selected format and epoch, in the order of arrival.\<close>

fun first_groups :: "receive_audio_format set \<Rightarrow> (receive_audio_format \<times> u64) set \<Rightarrow> (u64 \<times> audio_group) list \<Rightarrow> (u64 \<times> audio_group) list" where
  "first_groups F S [] = []"
| "first_groups F S ((a, g) # gs) =
     (if fst (group_key g) \<in> F \<and> group_key g \<notin> S then (a, g) # first_groups F (insert (group_key g) S) gs
      else first_groups F S gs)"

definition wanted :: "receive_audio_format set \<Rightarrow> (u64 \<times> audio_group) list \<Rightarrow> (u64 \<times> audio_group) list" where
  "wanted F gs = filter (\<lambda>(a, g). fst (group_key g) \<in> F) gs"

definition group_missed :: "u64 \<Rightarrow> u64 \<times> audio_group \<Rightarrow> bool" where
  "group_missed deadline_ms = (\<lambda>(a, g). sat_mul deadline_ms 1000000 < group_latency_ns g a)"

text \<open>What a run of groups adds to a state.\<close>

definition adds_up :: "u64 \<Rightarrow> (u64 \<times> audio_group) list \<Rightarrow> receive_format_state \<Rightarrow> receive_format_state \<Rightarrow> bool" where
  "adds_up deadline_ms gs st st' \<longleftrightarrow>
     (let F = set (rf_formats st); fs = first_groups F (set (rf_selected st)) gs in
      rf_formats st' = rf_formats st
      \<and> rf_selected st' = rev (map (\<lambda>(a, g). group_key g) fs) @ rf_selected st
      \<and> rf_latencies_ns st' = rf_latencies_ns st @ map (\<lambda>(a, g). group_latency_ns g a) fs
      \<and> unat (rf_duplicate_or_late st') = saturated (unat (rf_duplicate_or_late st) + (length (wanted F gs) - length fs))
      \<and> unat (rf_deadline_misses st') = saturated (unat (rf_deadline_misses st) + length (filter (group_missed deadline_ms) fs))
      \<and> unat (rf_erasure_epochs st') = saturated (unat (rf_erasure_epochs st) + length (filter (\<lambda>(a, g). is_erasure g) fs))
      \<and> unat (rf_discontinuity_epochs st')
          = saturated (unat (rf_discontinuity_epochs st) + length (filter (\<lambda>(a, g). is_discontinuity g) fs))
      \<and> unat (rf_received_pcm_frames st')
          = saturated (unat (rf_received_pcm_frames st) + sum_list (map (\<lambda>(a, g). if is_erasure g then 0 else unat (ag_frame_count g)) fs)))"

lemma saturated_add [simp]: "saturated (saturated a + b) = saturated (a + b)"
  by (simp add: saturated_def min_def)

lemma unat_u64_saturated: "unat (a :: u64) = saturated (unat a)"
  using unat_lt2p [of a] by (simp add: saturated_def)

lemma unat_sat_add_small: "unat (sat_add (a :: u64) b) = saturated (unat a + unat b)"
  by (simp add: unat_sat_add saturated_def min_def)

lemma unat_sat_count: "unat (sat_count b a) = saturated (unat a + (if b then 1 else 0))"
  by (simp add: sat_count_def unat_sat_add_small)

lemma first_groups_wanted: "length (first_groups F S gs) \<le> length (wanted F gs)"
  by (induction F S gs rule: first_groups.induct) (auto simp: wanted_def)

lemma note_epoch_fields [simp]:
  "rf_formats (note_epoch g st) = rf_formats st" "rf_selected (note_epoch g st) = rf_selected st"
  "rf_latencies_ns (note_epoch g st) = rf_latencies_ns st" "rf_duplicate_or_late (note_epoch g st) = rf_duplicate_or_late st"
  "rf_deadline_misses (note_epoch g st) = rf_deadline_misses st" "rf_erasure_epochs (note_epoch g st) = rf_erasure_epochs st"
  "rf_discontinuity_epochs (note_epoch g st) = rf_discontinuity_epochs st"
  "rf_received_pcm_frames (note_epoch g st) = rf_received_pcm_frames st" "rf_buckets (note_epoch g st) = rf_buckets st"
  by (simp_all add: note_epoch_def split: receive_audio_format.split)

lemma adds_up_Nil [simp]: "adds_up d [] st st"
  by (simp add: adds_up_def wanted_def Let_def flip: unat_u64_saturated)

lemma observe_group_adds:
  assumes "observe_group a d g st = Some st'"
  shows "adds_up d [(a, g)] st st'"
proof -
  consider "fst (group_key g) \<notin> set (rf_formats st)"
    | "fst (group_key g) \<in> set (rf_formats st)" "group_key g \<in> set (rf_selected st)"
    | "fst (group_key g) \<in> set (rf_formats st)" "group_key g \<notin> set (rf_selected st)" by blast
  then show ?thesis
  proof cases
    case 1
    with assms show ?thesis
      by (auto simp: observe_group_def Let_def group_key_def adds_up_def wanted_def simp flip: unat_u64_saturated)
  next
    case 2
    with assms show ?thesis
      by (auto simp: observe_group_def Let_def group_key_def adds_up_def wanted_def unat_sat_add_small simp flip: unat_u64_saturated)
  next
    case 3
    with assms have "ag_sample_rate g \<noteq> 0" by (auto simp: observe_group_def Let_def group_key_def)
    moreover have "unat (ucast (ag_frame_count g) :: u64) = unat (ag_frame_count g)" by (simp add: unat_ucast_widen)
    ultimately show ?thesis
      using assms 3 by (auto simp: observe_group_def Let_def group_key_def adds_up_def wanted_def group_missed_def
          unat_sat_add_small unat_sat_count simp flip: unat_u64_saturated)
  qed
qed

lemma adds_up_Cons:
  assumes "adds_up d [x] st st1" and "adds_up d xs st1 st2"
  shows "adds_up d (x # xs) st st2"
proof -
  obtain a g where x: "x = (a, g)" by fastforce
  let ?F = "set (rf_formats st)"
  have le: "length (first_groups ?F S xs) \<le> length (wanted ?F xs)" for S by (rule first_groups_wanted)
  show ?thesis
  proof (cases "fst (group_key g) \<in> ?F \<and> group_key g \<notin> set (rf_selected st)")
    case True
    with assms le show ?thesis by (auto simp: adds_up_def Let_def x wanted_def add.assoc Suc_diff_le)
  next
    case False
    with assms le show ?thesis
      by (auto simp: adds_up_def Let_def x wanted_def add.assoc Suc_diff_le)
  qed
qed

lemma observe_all_adds: "observe_all d gs st = Some st' \<Longrightarrow> adds_up d gs st st'"
proof (induction d gs st rule: observe_all.induct)
  case (2 d a g gs st)
  from 2(2) obtain st1 where "observe_group a d g st = Some st1" "observe_all d gs st1 = Some st'"
    by (auto split: option.splits)
  with 2(1) observe_group_adds show ?case by (blast intro: adds_up_Cons)
qed simp

definition entry_or :: "'v \<Rightarrow> ('k, 'v) assoc \<Rightarrow> 'k \<Rightarrow> 'v" where
  "entry_or d m k = (case map_of m k of None \<Rightarrow> d | Some v \<Rightarrow> v)"

lemma entry_or_with_entry [simp]: "entry_or d (with_entry k d f m) j = (if j = k then f (entry_or d m k) else entry_or d m j)"
  by (simp add: entry_or_def with_entry_def map_of_update)

lemma entry_or_delete: "j \<noteq> k \<Longrightarrow> entry_or d (AList.delete k m) j = entry_or d m j"
  by (simp add: entry_or_def map_of_delete)

definition group_second :: "audio_group \<Rightarrow> u64" where
  "group_second g = sat_mul (ag_pts_samples g) 1000 div ucast (ag_sample_rate g) div 1000"

definition in_bucket :: "receive_audio_format \<Rightarrow> u64 \<Rightarrow> u64 \<times> audio_group \<Rightarrow> bool" where
  "in_bucket f second = (\<lambda>(a, g). fst (group_key g) = f \<and> group_second g = second)"

lemma format_order_inject [simp]: "format_order f = format_order f' \<longleftrightarrow> f = f'"
  by (cases f; cases f') simp_all

lemma observe_group_bucket:
  assumes "observe_group a d g st = Some st'"
  shows "ub_latencies_ns (entry_or udp_bucket_default (rf_buckets st') (format_order f, second))
    = ub_latencies_ns (entry_or udp_bucket_default (rf_buckets st) (format_order f, second))
      @ map (\<lambda>(a, g). group_latency_ns g a)
          (filter (in_bucket f second) (first_groups (set (rf_formats st)) (set (rf_selected st)) [(a, g)]))"
  using assms
  by (auto simp: observe_group_def Let_def group_key_def in_bucket_def group_second_def udp_bucket_record_def split: if_splits)

lemma observe_all_buckets:
  "observe_all d gs st = Some st' \<Longrightarrow>
     ub_latencies_ns (entry_or udp_bucket_default (rf_buckets st') (format_order f, second))
     = ub_latencies_ns (entry_or udp_bucket_default (rf_buckets st) (format_order f, second))
       @ map (\<lambda>(a, g). group_latency_ns g a)
           (filter (in_bucket f second) (first_groups (set (rf_formats st)) (set (rf_selected st)) gs))"
proof (induction d gs st rule: observe_all.induct)
  case (2 d a g gs st)
  from 2(2) obtain st1 where one: "observe_group a d g st = Some st1" and rest: "observe_all d gs st1 = Some st'"
    by (auto split: option.splits)
  have "rf_formats st1 = rf_formats st"
    "set (rf_selected st1) = set (map (\<lambda>(a, g). group_key g) (first_groups (set (rf_formats st)) (set (rf_selected st)) [(a, g)])) \<union> set (rf_selected st)"
    using observe_group_adds [OF one] by (auto simp: adds_up_def Let_def)
  with 2(1) [OF one rest] observe_group_bucket [OF one, of f second] show ?case by (auto split: if_splits)
qed simp

lemma take_buckets_exact:
  "distinct ks \<Longrightarrow> fst (take_buckets session ks m)
     = map (\<lambda>(second, f). udp_latency_bucket_of session second f (entry_or udp_bucket_default m (format_order f, second))) ks"
proof (induction ks arbitrary: m)
  case (Cons k ks)
  obtain second f where k: "k = (second, f)" by fastforce
  have "entry_or udp_bucket_default (AList.delete (format_order f, second) m) (format_order f', second')
      = entry_or udp_bucket_default m (format_order f', second')" if "(second', f') \<in> set ks" for second' f'
    using Cons.prems that by (intro entry_or_delete) (auto simp: k)
  then show ?case
    using Cons.prems Cons.IH [of "AList.delete (format_order f, second) m"]
    by (auto simp: k Let_def case_prod_unfold entry_or_def)
qed simp

lemma note_epoch_sets:
  "set (rf_opus_epochs (note_epoch g st)) = (if \<not> is_erasure g \<and> ag_payload_kind g = KindOpus then insert (ag_epoch_id g) (set (rf_opus_epochs st)) else set (rf_opus_epochs st))"
  "set (rf_flac_epochs (note_epoch g st)) = (if \<not> is_erasure g \<and> ag_payload_kind g = KindFlac then insert (ag_epoch_id g) (set (rf_flac_epochs st)) else set (rf_flac_epochs st))"
  "set (rf_pcm_epochs (note_epoch g st)) = (if \<not> is_erasure g \<and> ag_payload_kind g = KindPcm then insert (ag_epoch_id g) (set (rf_pcm_epochs st)) else set (rf_pcm_epochs st))"
  by (cases "ag_payload_kind g"; simp add: note_epoch_def)+

definition epochs_of_kind :: "audio_payload_kind \<Rightarrow> (u64 \<times> audio_group) list \<Rightarrow> u64 set" where
  "epochs_of_kind k gs = {ag_epoch_id g | a g. (a, g) \<in> set gs \<and> \<not> is_erasure g \<and> ag_payload_kind g = k}"

lemma observe_group_sets:
  "observe_group a d g st = Some st' \<Longrightarrow>
     set (rf_opus_epochs st') = set (rf_opus_epochs (note_epoch g st))
     \<and> set (rf_flac_epochs st') = set (rf_flac_epochs (note_epoch g st))
     \<and> set (rf_pcm_epochs st') = set (rf_pcm_epochs (note_epoch g st))"
  by (auto simp: observe_group_def Let_def split: if_splits)

lemma observe_all_sets:
  "observe_all d gs st = Some st' \<Longrightarrow>
     set (rf_opus_epochs st') = set (rf_opus_epochs st) \<union> epochs_of_kind KindOpus gs
     \<and> set (rf_flac_epochs st') = set (rf_flac_epochs st) \<union> epochs_of_kind KindFlac gs
     \<and> set (rf_pcm_epochs st') = set (rf_pcm_epochs st) \<union> epochs_of_kind KindPcm gs"
proof (induction d gs st rule: observe_all.induct)
  case (2 d a g gs st)
  from 2(2) obtain st1 where one: "observe_group a d g st = Some st1" and rest: "observe_all d gs st1 = Some st'"
    by (auto split: option.splits)
  have step: "epochs_of_kind k ((a, g) # gs) = (if \<not> is_erasure g \<and> ag_payload_kind g = k then insert (ag_epoch_id g) (epochs_of_kind k gs) else epochs_of_kind k gs)" for k
    by (auto simp: epochs_of_kind_def)
  from 2(1) [OF one rest] observe_group_sets [OF one] show ?case by (simp add: step note_epoch_sets)
qed (simp add: epochs_of_kind_def)

lemma observe_all_None: "observe_all d gs st = None \<Longrightarrow> list_ex (\<lambda>(a, g). ag_sample_rate g = 0) gs"
proof (induction d gs st rule: observe_all.induct)
  case (2 d a g gs st)
  show ?case
  proof (cases "observe_group a d g st")
    case None
    then have "ag_sample_rate g = 0" by (auto simp: observe_group_def Let_def split: if_splits)
    then show ?thesis by simp
  next
    case (Some st1)
    with 2 show ?thesis by simp
  qed
qed simp

lemma dedup_formats_ok: "distinct u \<Longrightarrow> distinct (dedup_formats u fs) \<and> set (dedup_formats u fs) = set u \<union> set fs"
  by (induction u fs rule: dedup_formats.induct) auto


end
