(* ===== verification/Probe_Timeline_Facts.thy ===== *)
theory Probe_Timeline_Facts
  imports Probe_Report_Facts
begin

text \<open>
  The discontinuities of the media timeline are the joints that do not fit and the ends that are off, and the seconds
  of a run partition its parts.
\<close>

section \<open>An ordered map\<close>

definition ordered :: "'v btree \<Rightarrow> bool" where
  "ordered m \<longleftrightarrow> sorted_wrt (<) (map fst m)"

lemma or_insert_keys: "set (map fst (or_insert k v m)) = insert k (set (map fst m))"
  by (induction k v m rule: or_insert.induct) auto

lemma or_insert_ordered: "ordered m \<Longrightarrow> ordered (or_insert k v m)"
proof (induction k v m rule: or_insert.induct)
  case (2 k v j w m)
  then show ?case
    using or_insert_keys [of k v m] by (auto simp: ordered_def)
qed (simp add: ordered_def)

lemma map_of_or_insert:
  "ordered m \<Longrightarrow> map_of (or_insert k v m) = (case map_of m k of None \<Rightarrow> (map_of m)(k \<mapsto> v) | Some _ \<Rightarrow> map_of m)"
proof (induction k v m rule: or_insert.induct)
  case (2 k v j w m)
  have "map_of m k = None" if "k < j"
    using 2(2) that by (auto simp: ordered_def map_of_eq_None_iff)
  with 2 show ?case by (auto simp: ordered_def fun_eq_iff split: option.splits)
qed simp

definition timeline_of :: "(u64 \<times> u64 \<times> u64) list \<Rightarrow> media_timeline \<Rightarrow> media_timeline" where
  "timeline_of evs mt = fold (\<lambda>(s, p, d). timeline_insert s p d) evs mt"

text \<open>The first insert of an object number stays.\<close>

lemma timeline_parts:
  assumes "ordered (mt_parts mt)"
  shows "ordered (mt_parts (timeline_of evs mt))
    \<and> map_of (mt_parts (timeline_of evs mt)) = map_of evs ++ map_of (mt_parts mt)"
  using assms
proof (induction evs arbitrary: mt)
  case (Cons e evs)
  obtain s p d where e: "e = (s, p, d)" by (cases e) auto
  let ?mt = "timeline_insert s p d mt"
  have "ordered (mt_parts ?mt)" using Cons.prems by (simp add: timeline_insert_def or_insert_ordered)
  from Cons.IH [OF this] Cons.prems show ?case
    by (auto simp: e timeline_of_def timeline_insert_def map_of_or_insert map_add_def fun_eq_iff split: option.splits)
qed (simp add: timeline_of_def)

lemma timeline_fields [simp]:
  "mt_start_sequence (timeline_of evs mt) = mt_start_sequence mt" "mt_expected_parts (timeline_of evs mt) = mt_expected_parts mt"
  "mt_start_offset_ms (timeline_of evs mt) = mt_start_offset_ms mt" "mt_end_offset_ms (timeline_of evs mt) = mt_end_offset_ms mt"
  by (induction evs arbitrary: mt) (auto simp: timeline_of_def timeline_insert_def)

lemma ordered_length: "ordered m \<Longrightarrow> length m = card (dom (map_of m))"
proof -
  assume "ordered m"
  then have "distinct (map fst m)" by (simp add: ordered_def strict_sorted_iff)
  then show ?thesis by (metis dom_map_of_conv_image_fst distinct_card length_map set_map)
qed

section \<open>Joints\<close>

text \<open>The object numbers whose successor is there and does not begin where the object ends.\<close>

definition bad_joints :: "(u64 \<Rightarrow> (u64 \<times> u64) option) \<Rightarrow> u64 set" where
  "bad_joints f = {s. \<exists>p d p' d'. f s = Some (p, d) \<and> s \<noteq> - 1 \<and> f (s + 1) = Some (p', d') \<and> p' \<noteq> sat_add p d}"

lemma unat_succ: "(s :: u64) \<noteq> - 1 \<Longrightarrow> unat (s + 1) = unat s + 1"
proof -
  assume "s \<noteq> - 1"
  then have "unat s \<noteq> 2 ^ 64 - 1" using unat_max_word [where 'a = 64] by (simp add: word_unat_eq_iff)
  then show ?thesis using unat_lt2p [of s] by (subst unat_sum_bounded) simp_all
qed

lemma succ_le: "(s :: u64) < t \<Longrightarrow> s \<noteq> - 1 \<and> s + 1 \<le> t"
proof -
  assume a: "s < t"
  then have "s \<noteq> - 1" using unat_lt2p [of t] by (auto simp: word_less_nat_alt unat_max_word)
  with a unat_succ [of s] show ?thesis by (simp add: word_less_nat_alt word_le_nat_alt)
qed

lemma bad_joints_Cons:
  assumes "ordered ((s, p, d) # (t, q, e) # m)"
  shows "bad_joints (map_of ((s, p, d) # (t, q, e) # m))
    = (if t = s + 1 \<and> q \<noteq> sat_add p d then {s} else {}) \<union> bad_joints (map_of ((t, q, e) # m))"
proof -
  have st: "s < t" and later: "\<And>k v. map_of ((t, q, e) # m) k = Some v \<Longrightarrow> s < k \<and> t \<le> k"
    using assms by (auto simp: ordered_def dest!: map_of_SomeD split: if_splits) 
  note succ = succ_le [OF st]
  let ?g = "map_of ((t, q, e) # m)"
  let ?f = "map_of ((s, p, d) # (t, q, e) # m)"
  have f: "?f = ?g(s \<mapsto> (p, d))" by simp
  have g_s: "?g s = None" using later [of s] by (cases "?g s") auto
  have g_succ: "?g (s + 1) = (if t = s + 1 then Some (q, e) else None)"
    using later [of "s + 1"] succ by (cases "?g (s + 1)") auto
  have up: "k + 1 \<noteq> s" if "?g k = Some v" "k \<noteq> - 1" for k v
    using later [OF that(1)] unat_succ [OF that(2)] by (auto simp: word_less_nat_alt word_unat_eq_iff)
  have ne: "s + 1 \<noteq> s" by simp
  have "k \<in> bad_joints ?f \<longleftrightarrow> k \<in> (if t = s + 1 \<and> q \<noteq> sat_add p d then {s} else {}) \<union> bad_joints ?g" for k
  proof (cases "k = s")
    case True
    then show ?thesis unfolding bad_joints_def f using g_s g_succ ne succ by auto
  next
    case False
    then show ?thesis unfolding bad_joints_def f using up [of k] by (auto simp: fun_upd_def split: if_splits)
  qed
  then show ?thesis by (rule set_eqI)
qed

lemma bad_joints_finite [simp]: "finite (bad_joints (map_of m))"
  by (rule finite_subset [OF _ finite_dom_map_of [of m]]) (auto simp: bad_joints_def)

lemma bad_joints_single: "bad_joints (map_of [(s, p, d)]) = {}"
  by (auto simp: bad_joints_def split: if_splits)

lemma count_jumps_exact:
  "ordered ((s, p, d) # m) \<Longrightarrow> unat n + length m < 2 ^ 64 \<Longrightarrow>
     unat (count_jumps (Some (s, p, d)) n m) = unat n + card (bad_joints (map_of ((s, p, d) # m)))"
proof (induction m arbitrary: s p d n)
  case Nil
  then show ?case by (simp add: bad_joints_single del: map_of.simps)
next
  case (Cons x m)
  obtain t q e where x: "x = (t, q, e)" by (cases x) auto
  have ord: "ordered ((t, q, e) # m)" using Cons.prems(1) by (simp add: ordered_def x)
  let ?bad = "t = s + 1 \<and> q \<noteq> sat_add p d"
  define B where "B = bad_joints (map_of ((t, q, e) # m))"
  have fresh: "s \<notin> B"
  proof
    assume "s \<in> B"
    then obtain v where "map_of ((t, q, e) # m) s = Some v" unfolding B_def bad_joints_def by blast
    then have "(s, v) \<in> set ((t, q, e) # m)" by (rule map_of_SomeD)
    then have "s \<in> set (map fst ((t, q, e) # m))" by force
    with Cons.prems(1) show False by (auto simp: ordered_def x)
  qed
  have "finite B" unfolding B_def by (rule bad_joints_finite)
  moreover have "bad_joints (map_of ((s, p, d) # x # m)) = (if ?bad then {s} else {}) \<union> B"
    using bad_joints_Cons [of s p d t q e m] Cons.prems(1) unfolding B_def x by blast
  ultimately have card: "card (bad_joints (map_of ((s, p, d) # x # m))) = (if ?bad then 1 else 0) + card B"
    using fresh by (cases ?bad) (simp_all del: map_of.simps)
  have n: "unat (if ?bad then sat_add n 1 else n) = unat n + (if ?bad then 1 else 0)"
    using Cons.prems(2) by (simp add: unat_sat_add)
  with Cons.IH [OF ord, of "if ?bad then sat_add n 1 else n"] Cons.prems(2) card show ?case
    unfolding B_def by (auto simp: x simp del: map_of.simps split: if_splits)
qed

lemma all_jumps: "ordered m \<Longrightarrow> length m < 2 ^ 64 \<Longrightarrow> unat (count_jumps None 0 m) = card (bad_joints (map_of m))"
proof (cases m)
  case (Cons x m')
  moreover assume "ordered m" "length m < 2 ^ 64"
  ultimately show ?thesis using count_jumps_exact [of "fst x" "fst (snd x)" "snd (snd x)" m' 0]
    by (cases x) (simp del: map_of.simps)
qed (simp add: bad_joints_def)

definition end_off :: "(u64 \<times> u64) option \<Rightarrow> (u64 \<times> u64 \<Rightarrow> u64) \<Rightarrow> u64 \<Rightarrow> nat" where
  "end_off part at target = (case part of None \<Rightarrow> 1 | Some pd \<Rightarrow> if 5 < abs_diff (at pd) target then 1 else 0)"

lemma count_if: "unat n + 1 < 2 ^ 64 \<Longrightarrow> unat (if b then sat_add n 1 else n :: u64) = unat n + (if b then 1 else 0)"
  by (simp add: unat_sat_add)

text \<open>C38: The discontinuities of a timeline are exactly its joints that do not fit, each object taken at its first insert, and,
  once as many objects are there as the window has parts, one for a first object that is missing or starts more than five
  milliseconds off, and one for a last object that is missing or ends more than five milliseconds off.\<close>

theorem timeline_exact:
  assumes "length evs < 2 ^ 63"
  shows "unat (discontinuities (timeline_of evs (media_timeline_new start expected start_ms end_ms)))
    = card (bad_joints (map_of evs))
      + (if card (dom (map_of evs)) = unat expected
         then end_off (map_of evs start) fst start_ms
           + end_off (map_of evs (sat_add start (sat_sub expected 1))) (\<lambda>(p, d). sat_add p d) end_ms
         else 0)"
proof -
  let ?mt = "timeline_of evs (media_timeline_new start expected start_ms end_ms)"
  have parts: "ordered (mt_parts ?mt)" "map_of (mt_parts ?mt) = map_of evs"
    using timeline_parts [of "media_timeline_new start expected start_ms end_ms" evs]
    by (simp_all add: media_timeline_new_def ordered_def)
  have len: "length (mt_parts ?mt) = card (dom (map_of evs))" using ordered_length [OF parts(1)] parts(2) by simp
  also have "\<dots> \<le> length evs"
    by (metis card_length dom_map_of_conv_image_fst length_map list.set_map)
  finally have small: "length (mt_parts ?mt) < 2 ^ 63" using assms by simp
  have u: "of_nat (length (mt_parts ?mt)) = expected \<longleftrightarrow> card (dom (map_of evs)) = unat expected"
    using small of_nat_u64 [of "length (mt_parts ?mt)"] len by (auto simp: word_unat_eq_iff)
  have jumps: "unat (count_jumps None 0 (mt_parts ?mt)) = card (bad_joints (map_of evs))"
    using all_jumps [OF parts(1)] small parts(2) by simp
  have "card (bad_joints (map_of evs)) \<le> card (dom (map_of evs))"
    by (rule card_mono [OF finite_dom_map_of]) (auto simp: bad_joints_def)
  with len small have "unat (count_jumps None 0 (mt_parts ?mt)) + 2 < 2 ^ 64" using jumps by simp
  then show ?thesis
    using u jumps parts(2)
    by (auto simp: discontinuities_def Let_def count_if end_off_def media_timeline_new_def split: option.splits prod.splits)
qed

text \<open>Two contiguous parts that fill the window from 0 to 10 ms, numbered from 7: the reader sets up its timeline with the
  number of the first part of the window and not of the first object, so both ends count as missing.\<close>

theorem timeline_exact_witness:
  "unat (discontinuities (timeline_of [(7, 0, 5), (8, 5, 5)] (media_timeline_new 0 2 0 10))) = 2
   \<and> unat (discontinuities (timeline_of [(7, 0, 5), (8, 5, 5)] (media_timeline_new 7 2 0 10))) = 0"
proof -
  have fine: "bad_joints [8 \<mapsto> (5, 5), 7 \<mapsto> (0, 5)] = {}"
    by (auto simp: bad_joints_def sat_add_def split: if_splits)
  have dom: "dom (map_of [(7 :: u64, 0 :: u64, 5 :: u64), (8, 5, 5)]) = {7, 8}" by auto
  show ?thesis
    using timeline_exact [of "[(7, 0, 5), (8, 5, 5)]" 0 2 0 10] timeline_exact [of "[(7, 0, 5), (8, 5, 5)]" 7 2 0 10]
    by (simp add: fine dom end_off_def sat_add_def sat_sub_def abs_diff_def)
qed

section \<open>Seconds of a run\<close>

datatype series_event = SeriesPart u64 u64 u64 bool | SeriesCache u64 u64 u64

fun series_step :: "series_event \<Rightarrow> hls_time_series \<Rightarrow> hls_time_series" where
  "series_step (SeriesPart pts a r missed) = series_record_part pts a r missed"
| "series_step (SeriesCache pts p c) = series_record_cache pts p c"

fun part_second :: "series_event \<Rightarrow> u64 option" where
  "part_second (SeriesPart pts a r missed) = Some (pts div 1000)"
| "part_second (SeriesCache pts p c) = None"

definition series_of :: "series_event list \<Rightarrow> hls_time_series" where
  "series_of evs = fold series_step evs []"

definition parts_in_second :: "u64 \<Rightarrow> series_event list \<Rightarrow> nat" where
  "parts_in_second second evs = length (filter (\<lambda>e. part_second e = Some second) evs)"

lemma series_of_lookup:
  "length (hb_availability_ns (entry_or hls_bucket_default (series_of evs) second)) = parts_in_second second evs"
proof (induction evs rule: rev_induct)
  case (snoc e evs)
  then show ?case
    by (cases e) (auto simp: series_of_def series_record_part_def series_record_cache_def parts_in_second_def)
qed (simp add: series_of_def parts_in_second_def entry_or_def hls_bucket_default_def)

lemma finish_series_unfold:
  assumes "unat end_ms + 1000 < 2 ^ 64"
  shows "1000 * k \<le> unat end_ms + 999 \<Longrightarrow> n = (unat end_ms + 999) div 1000 - k \<Longrightarrow>
    finish_series session start end_ms part (of_nat (1000 * k)) m
    = map (\<lambda>j. hls_latency_bucket_of session start end_ms part (of_nat (1000 * j)) (entry_or hls_bucket_default m (of_nat j)))
        [k..<k + n]"
proof (induction n arbitrary: k m)
  case 0
  have "unat (of_nat (1000 * k) :: u64) = 1000 * k" using assms 0(1) by (intro of_nat_u64) simp
  moreover have "unat end_ms \<le> 1000 * k" using 0(2) by linarith
  ultimately have "\<not> (of_nat (1000 * k) :: u64) < end_ms" by (simp add: word_less_nat_alt del: of_nat_mult)
  then show ?case by (subst finish_series.simps) simp
next
  case (Suc n)
  have u: "unat (of_nat (1000 * k) :: u64) = 1000 * k" using assms Suc.prems(1) by (intro of_nat_u64) simp
  have more: "1000 * k < unat end_ms" "1000 * Suc k \<le> unat end_ms + 999" "n = (unat end_ms + 999) div 1000 - Suc k"
  proof -
    define q where "q = (unat end_ms + 999) div 1000"
    have q: "k + Suc n = q" using Suc.prems(2) by (simp add: q_def)
    moreover have "1000 * q \<le> unat end_ms + 999" by (simp add: q_def)
    ultimately show "1000 * k < unat end_ms" "1000 * Suc k \<le> unat end_ms + 999" by auto
    from q [unfolded q_def] show "n = (unat end_ms + 999) div 1000 - Suc k" by simp
  qed
  have lt: "(of_nat (1000 * k) :: u64) < end_ms" using u more(1) by (simp add: word_less_nat_alt del: of_nat_mult)
  have step: "sat_add (of_nat (1000 * k)) 1000 = (of_nat (1000 * Suc k) :: u64)"
    using assms more(1) u of_nat_u64 [of "1000 * Suc k"]
    by (simp add: word_unat_eq_iff unat_sat_add del: of_nat_mult of_nat_Suc of_nat_add)
  have key: "(of_nat (1000 * k) :: u64) div 1000 = of_nat k"
    using u of_nat_u64 [of k] more(1) assms by (simp add: word_unat_eq_iff unat_div_distrib del: of_nat_mult)
  have other: "entry_or hls_bucket_default (AList.delete (of_nat k) m) (of_nat j) = entry_or hls_bucket_default m (of_nat j)"
    if "j \<in> set [Suc k..<Suc k + n]" for j
  proof (rule entry_or_delete)
    have "k < j" "1000 * j < 2 ^ 64" using that more assms by auto
    then show "(of_nat j :: u64) \<noteq> of_nat k" using of_nat_u64 [of j] of_nat_u64 [of k] by auto
  qed
  have "[k..<k + Suc n] = k # [Suc k..<Suc k + n]" by (simp add: upt_conv_Cons del: upt_Suc)
  then show ?case
    using Suc.IH [OF more(2,3), of "AList.delete (of_nat k) m"] lt step key other
    by (subst finish_series.simps) (simp add: Let_def entry_or_def del: upt_Suc of_nat_mult of_nat_Suc of_nat_add cong: map_cong)
qed

lemma telescope:
  assumes "\<And>j. p dvd c j" and "\<And>j. c j \<le> c (Suc j)"
  shows "sum_list (map (\<lambda>j. (c (Suc j) - c j) div p) [a..<a + n]) = (c (a + n) - c a :: nat) div p"
proof (induction n)
  case (Suc n)
  have "c a \<le> c (a + n)" by (rule lift_Suc_mono_le [of c]) (use assms(2) in simp_all)
  then have "c (Suc (a + n)) - c a = (c (a + n) - c a) + (c (Suc (a + n)) - c (a + n))" using assms(2) [of "a + n"] by simp
  also have "\<dots> div p = (c (a + n) - c a) div p + (c (Suc (a + n)) - c (a + n)) div p"
    by (rule div_plus_div_distrib_dvd_left) (simp add: assms(1) dvd_diff_nat)
  finally show ?case using Suc.IH by simp
qed simp

lemma second_bounds: "1000 * (n div 1000) \<le> (n :: nat)" "n < 1000 * (n div 1000) + 1000"
  using dividend_less_times_div [of 1000 n] by simp_all

text \<open>The part of the window before the start of a second.\<close>

definition window_until :: "u64 \<Rightarrow> u64 \<Rightarrow> nat \<Rightarrow> nat" where
  "window_until start end_ms j = max (unat start) (min (unat end_ms) (1000 * j))"

lemma bucket_expected:
  assumes "unat start div 1000 \<le> j" and "1000 * j < unat end_ms" and "start \<le> end_ms" and "unat end_ms + 1000 < 2 ^ 64"
  shows "unat (hl_expected_parts (hls_latency_bucket_of session start end_ms part (of_nat (1000 * j)) samples))
    = (window_until start end_ms (Suc j) - window_until start end_ms j) div unat part"
proof -
  have u: "unat (of_nat (1000 * j) :: u64) = 1000 * j" using assms(2,4) by (intro of_nat_u64) simp
  have mx: "unat (max a b) = max (unat a) (unat b)" and mn: "unat (min a b) = min (unat a) (unat b)" for a b :: u64
    by (simp_all add: max_def min_def word_le_nat_alt)
  have "unat start < 1000 * Suc j" by (rule less_le_trans [OF second_bounds(2)]) (simp add: assms(1))
  then have "window_until start end_ms (Suc j) = min (1000 * j + 1000) (unat end_ms)"
    using assms(3) by (simp add: window_until_def word_le_nat_alt max_def min_def)
  moreover have "window_until start end_ms j = max (1000 * j) (unat start)"
    using assms(2) by (simp add: window_until_def max.commute)
  ultimately show ?thesis
    using assms(2,4) u
    by (simp add: hls_latency_bucket_of_def Let_def unat_div_distrib unat_sat_sub mx mn unat_sat_add del: of_nat_mult)
qed

text \<open>Whatever was recorded, the time series of a reader has one entry for every second that meets its window, in order,
  its expected parts add up to the parts of the window, and its received parts are those recorded with a time stamp
  in that second. The part duration divides a second and the ends of the window.\<close>

theorem hls_series_exact:
  assumes "0 < part" and "unat part dvd 1000" and "unat part dvd unat start" and "unat part dvd unat end_ms"
    and "start \<le> end_ms" and "unat end_ms + 1000 < 2 ^ 64"
  shows "case series_finish session start end_ms part (series_of evs) of
      None \<Rightarrow> False
    | Some bs \<Rightarrow>
        map (\<lambda>b. unat (hl_start_offset_ms b)) bs = map (\<lambda>j. 1000 * j) [unat start div 1000..<(unat end_ms + 999) div 1000]
        \<and> map hl_received_parts bs = map (\<lambda>j. of_nat (parts_in_second (of_nat j) evs)) [unat start div 1000..<(unat end_ms + 999) div 1000]
        \<and> sum_list (map (\<lambda>b. unat (hl_expected_parts b)) bs) = (unat end_ms - unat start) div unat part"
proof -
  let ?a = "unat start div 1000" and ?K = "(unat end_ms + 999) div 1000"
  let ?b = "\<lambda>j. hls_latency_bucket_of session start end_ms part (of_nat (1000 * j)) (entry_or hls_bucket_default (series_of evs) (of_nat j))"
  have le: "unat start \<le> unat end_ms" using assms(5) by (simp add: word_le_nat_alt)
  have aK: "?a \<le> ?K" using le by (intro div_le_mono) simp
  have au: "unat (of_nat (1000 * ?a) :: u64) = 1000 * ?a"
    using le assms(6) by (intro of_nat_u64) (metis add_lessD1 le_less_trans mult.commute div_times_less_eq_dividend)
  have first: "start div 1000 * 1000 = of_nat (1000 * ?a)"
  proof -
    have "unat (start div 1000 * 1000) = ?a * 1000"
      using unat_mult_lem [of "start div 1000" 1000, THEN iffD1] unat_lt2p [of start]
      by (simp add: unat_div_distrib le_less_trans [OF div_times_less_eq_dividend])
    then show ?thesis by (simp add: word_unat_eq_iff au del: of_nat_mult)
  qed
  have K: "?a + (?K - ?a) = ?K" using aK by simp
  have start_le: "1000 * ?a \<le> unat end_ms + 999" using le by (metis add_increasing2 le_trans mult.commute div_times_less_eq_dividend zero_le)
  have run: "series_finish session start end_ms part (series_of evs) = Some (map ?b [?a..<?K])"
    using assms(1) finish_series_unfold [OF assms(6) start_le refl, of session start part "series_of evs"]
    by (auto simp: series_finish_def Let_def first K simp del: of_nat_mult)
  have off: "unat (hl_start_offset_ms (?b j)) = 1000 * j" "1000 * j < unat end_ms" if "j \<in> set [?a..<?K]" for j
  proof -
    have "j < ?K" using that by simp
    then have "1000 * Suc j \<le> 1000 * ?K" by (intro mult_le_mono2) simp
    also have "\<dots> \<le> unat end_ms + 999" by simp
    finally show "1000 * j < unat end_ms" by simp
    then have "unat (of_nat (1000 * j) :: u64) = 1000 * j" using assms(6) by (intro of_nat_u64) simp
    then show "unat (hl_start_offset_ms (?b j)) = 1000 * j"
      by (simp add: hls_latency_bucket_of_def Let_def del: of_nat_mult)
  qed
  have starts: "map (\<lambda>b. unat (hl_start_offset_ms b)) (map ?b [?a..<?K]) = map (\<lambda>j. 1000 * j) [?a..<?K]"
    using off(1) by simp
  have received: "map hl_received_parts (map ?b [?a..<?K]) = map (\<lambda>j. of_nat (parts_in_second (of_nat j) evs)) [?a..<?K]"
    by (simp add: hls_latency_bucket_of_def Let_def series_of_lookup)
  have exp: "unat (hl_expected_parts (?b j)) = (window_until start end_ms (Suc j) - window_until start end_ms j) div unat part"
    if "j \<in> set [?a..<?K]" for j
    using that off(2) [OF that] by (intro bucket_expected assms(5,6)) simp_all
  have "unat part dvd window_until start end_ms j" for j
    using assms(2-4) by (simp add: window_until_def max_def min_def)
  moreover have "window_until start end_ms j \<le> window_until start end_ms (Suc j)" for j
    by (simp add: window_until_def max_def min_def)
  ultimately have "sum_list (map (\<lambda>j. (window_until start end_ms (Suc j) - window_until start end_ms j) div unat part) [?a..<?K])
      = (window_until start end_ms ?K - window_until start end_ms ?a) div unat part"
    using telescope [of "unat part" "window_until start end_ms" ?a "?K - ?a"] K by simp
  moreover have "window_until start end_ms ?a = unat start"
    using second_bounds(1) [of "unat start"] by (simp add: window_until_def max_absorb1 min.coboundedI2)
  moreover have "unat end_ms \<le> 1000 * ?K"
    using second_bounds(2) [of "unat end_ms + 999"] by linarith
  then have "window_until start end_ms ?K = unat end_ms" using le by (simp add: window_until_def)
  moreover have "map (\<lambda>j. unat (hl_expected_parts (?b j))) [?a..<?K]
      = map (\<lambda>j. (window_until start end_ms (Suc j) - window_until start end_ms j) div unat part) [?a..<?K]"
    by (intro map_cong [OF refl] exp)
  ultimately have "sum_list (map (\<lambda>b. unat (hl_expected_parts b)) (map ?b [?a..<?K])) = (unat end_ms - unat start) div unat part"
    by (simp add: comp_def del: of_nat_mult map_eq_conv)
  then show ?thesis using run starts received by simp
qed

theorem hls_series_exact_witness:
  "\<exists>bs. series_finish 0 250 2000 250 (series_of [SeriesPart 250 9 9 False, SeriesPart 500 7 7 True, SeriesPart 1000 5 5 False]) = Some bs
    \<and> map (\<lambda>b. unat (hl_start_offset_ms b)) bs = [0, 1000] \<and> map hl_received_parts bs = [2, 1]
    \<and> sum_list (map (\<lambda>b. unat (hl_expected_parts b)) bs) = 7"
proof -
  let ?evs = "[SeriesPart 250 9 9 False, SeriesPart 500 7 7 True, SeriesPart 1000 5 5 False]"
  have "unat (250 :: u64) dvd 1000" "unat (250 :: u64) dvd unat (2000 :: u64)" by simp_all
  then show ?thesis
    using hls_series_exact [where part = 250 and start = 250 and end_ms = 2000 and session = 0 and evs = ?evs]
    by (auto simp: upt_conv_Cons parts_in_second_def split: option.splits)
qed

end
