(* ===== verification/Probe_Media.thy ===== *)
theory Probe_Media
  imports Probe_Wire Probe_Coverage
begin

text \<open>
  How a reader of \<^verbatim>\<open>src/src/bin/aep1-48k-probe.rs\<close> checks what it was sent: the parts of a playlist, the boxes of a
  fragmented MP4 part, and the packets of a SoundKit part. The header of a SoundKit packet and the length of an Opus
  packet are read by other crates and are parameters. A slice or an index outside its list is a panic, and sums of
  offsets that the code checks are checked at 64 bits.
\<close>

section \<open>Playlists\<close>

record object_window =
  ow_first_sequence :: "u64 option"
  ow_last_sequence :: "u64 option"
  ow_next_sequence :: u64

definition before_last :: "char \<Rightarrow> string \<Rightarrow> string option" where
  "before_last c s = (if c \<in> set s then Some (rev (tl (dropWhile (\<lambda>x. x \<noteq> c) (rev s)))) else None)"

definition hls_attribute_uri :: "string \<Rightarrow> string option" where
  "hls_attribute_uri line =
     (case find_sub (''URI='' @ [CHR 0x22]) line of
        None \<Rightarrow> None
      | Some start \<Rightarrow>
          let remainder = drop (start + 5) line in
          if CHR 0x22 \<in> set remainder then Some (takeWhile (\<lambda>c. c \<noteq> CHR 0x22) remainder) else None)"

definition hls_part_object_sequence :: "string \<Rightarrow> u64 option" where
  "hls_part_object_sequence uri =
     (let path = takeWhile (\<lambda>c. c \<noteq> CHR ''?'' \<and> c \<noteq> CHR ''#'') uri;
          file_name = last (split_on CHR ''/'' path);
          stem = (case before_last CHR ''.'' file_name of None \<Rightarrow> file_name | Some s \<Rightarrow> s) in
      case (case strip_prefix ''part'' stem of Some s \<Rightarrow> Some s | None \<Rightarrow> strip_prefix ''p'' stem) of
        None \<Rightarrow> None
      | Some s \<Rightarrow> if s = [] \<or> \<not> all_digits s then None else parse_uint s)"

record window_scan =
  ws_first :: "u64 option"
  ws_last :: "u64 option"
  ws_preload :: "u64 option"

datatype playlist_error = PlaylistNotText | PartWithoutUri | PartWithoutSequence | TwoPreloads | PreloadRecedes

definition is_part_preload :: "string \<Rightarrow> bool" where
  "is_part_preload line =
     (case strip_prefix ''#EXT-X-PRELOAD-HINT:'' line of
        None \<Rightarrow> False
      | Some attributes \<Rightarrow> list_ex (\<lambda>a. trim a = ''TYPE=PART'') (split_on CHR '','' attributes))"

definition scan_line :: "string \<Rightarrow> window_scan \<Rightarrow> playlist_error + window_scan" where
  "scan_line line ws =
     (let is_completed_part = starts_with ''#EXT-X-PART:'' line in
      if \<not> is_completed_part \<and> \<not> is_part_preload line then Inr ws
      else res_bind (ok_or PartWithoutUri (hls_attribute_uri line)) (\<lambda>uri.
        res_bind (ok_or PartWithoutSequence (hls_part_object_sequence uri)) (\<lambda>s.
          if is_completed_part then
            Inr (ws\<lparr>ws_first := Some (case ws_first ws of None \<Rightarrow> s | Some f \<Rightarrow> min f s),
                    ws_last := Some (case ws_last ws of None \<Rightarrow> s | Some l \<Rightarrow> max l s)\<rparr>)
          else if ws_preload ws \<noteq> None then Inl TwoPreloads
          else Inr (ws\<lparr>ws_preload := Some s\<rparr>))))"

fun scan_lines :: "string list \<Rightarrow> window_scan \<Rightarrow> playlist_error + window_scan" where
  "scan_lines [] ws = Inr ws"
| "scan_lines (line # lines) ws = res_bind (scan_line line ws) (scan_lines lines)"

definition hls_playlist_object_window :: "bytes \<Rightarrow> playlist_error + object_window option" where
  "hls_playlist_object_window bs =
     res_bind (ok_or PlaylistNotText (from_utf8 bs)) (\<lambda>playlist.
     res_bind (scan_lines (text_lines playlist) \<lparr>ws_first = None, ws_last = None, ws_preload = None\<rparr>) (\<lambda>ws.
       case (case ws_preload ws of
               Some s \<Rightarrow> Some s
             | None \<Rightarrow> (case ws_last ws of None \<Rightarrow> None | Some l \<Rightarrow> checked_add l 1)) of
         None \<Rightarrow> Inr None
       | Some next_sequence \<Rightarrow>
           if (case ws_last ws of None \<Rightarrow> False | Some l \<Rightarrow> next_sequence \<le> l) then Inl PreloadRecedes
           else Inr (Some \<lparr>ow_first_sequence = ws_first ws, ow_last_sequence = ws_last ws,
                           ow_next_sequence = next_sequence\<rparr>)))"

definition initial_hls_object_sequence :: "object_window \<Rightarrow> bool \<Rightarrow> u64" where
  "initial_hls_object_sequence w observed_empty_playlist =
     (if observed_empty_playlist then (case ow_first_sequence w of Some f \<Rightarrow> f | None \<Rightarrow> ow_next_sequence w)
      else ow_next_sequence w)"

definition refreshed_hls_object_sequence :: "u64 \<Rightarrow> object_window \<Rightarrow> u64" where
  "refreshed_hls_object_sequence current w =
     (case ow_first_sequence w of
        Some f \<Rightarrow> if current < f then f else current
      | None \<Rightarrow> if current < ow_next_sequence w then ow_next_sequence w else current)"

definition contains_bytes :: "string \<Rightarrow> bytes \<Rightarrow> bool" where
  "contains_bytes pat bs \<longleftrightarrow> find_sub (bytes_of_str pat) bs \<noteq> None"

definition is_opaque_codec :: "hls_audio_codec \<Rightarrow> bool" where
  "is_opaque_codec c \<longleftrightarrow> c = HlsOpaqueFlac \<or> c = HlsSoundkitOpus"

definition playlist_matches_format :: "bytes \<Rightarrow> hls_audio_codec \<Rightarrow> bool" where
  "playlist_matches_format bs codec \<longleftrightarrow>
     contains_bytes ''#EXT-X-PART:'' bs \<and> contains_bytes ''CAN-BLOCK-RELOAD=YES'' bs
     \<and> (\<not> is_opaque_codec codec \<or> contains_bytes ''.bin'' bs \<and> \<not> contains_bytes ''#EXT-X-MAP:'' bs)"

section \<open>Initialisation segments\<close>

definition detect_init_audio_codec :: "bytes \<Rightarrow> hls_audio_codec option" where
  "detect_init_audio_codec bs =
     find (\<lambda>c. case init_marker c of None \<Rightarrow> False | Some marker \<Rightarrow> find_sub marker bs \<noteq> None)
       [HlsOpus, HlsIpcm, HlsFpcm, HlsFlac]"

definition pcm_sample_entry_matches :: "bytes \<Rightarrow> u8 \<Rightarrow> string \<Rightarrow> u16 \<Rightarrow> bool" where
  "pcm_sample_entry_matches bs sample_size marker expected_channels =
     (case find_sub (bytes_of_str marker) bs of
        None \<Rightarrow> False
      | Some sample_entry \<Rightarrow>
          if length bs < sample_entry + 22 then False
          else case find_sub (bytes_of_str ''pcmC'') bs of
            None \<Rightarrow> False
          | Some pcmc \<Rightarrow>
              of_nat (be_value (take 2 (drop (sample_entry + 20) bs))) = expected_channels
              \<and> pcmc + 8 < length bs \<and> bs ! (pcmc + 8) = 1
              \<and> pcmc + 9 < length bs \<and> bs ! (pcmc + 9) = sample_size)"

definition pcm_init_parameters_match :: "bytes \<Rightarrow> hls_audio_codec \<Rightarrow> u16 \<Rightarrow> bool" where
  "pcm_init_parameters_match bs codec expected_channels =
     (case codec of
        HlsFlac \<Rightarrow> True
      | HlsOpus \<Rightarrow> True
      | HlsOpaqueFlac \<Rightarrow> False
      | HlsSoundkitOpus \<Rightarrow> False
      | HlsIpcm \<Rightarrow> pcm_sample_entry_matches bs 24 ''ipcm'' expected_channels
      | HlsFpcm \<Rightarrow> pcm_sample_entry_matches bs 32 ''fpcm'' expected_channels)"

definition expected_pcm_part_bytes :: "hls_audio_codec \<Rightarrow> u16 \<Rightarrow> u64 \<Rightarrow> u64 option" where
  "expected_pcm_part_bytes codec channels part_ms =
     (case (case codec of HlsIpcm \<Rightarrow> Some 3 | HlsFpcm \<Rightarrow> Some 4 | _ \<Rightarrow> None) of
        None \<Rightarrow> None
      | Some bytes_per_sample \<Rightarrow>
          Option.bind (checked_mul (ucast sample_rate_48k) part_ms)
            (\<lambda>n. Option.bind (checked_mul (n div 1000) (ucast channels))
              (\<lambda>n. checked_mul n bytes_per_sample)))"

definition opaque_flac_part_is_valid :: "bytes \<Rightarrow> bool" where
  "opaque_flac_part_is_valid bs \<longleftrightarrow> 2 \<le> length bs \<and> bs ! 0 = 0xFF \<and> bs ! 1 AND 0xFE = 0xF8"

section \<open>Fragmented MP4 parts\<close>

definition slice :: "nat \<Rightarrow> nat \<Rightarrow> 'a list \<Rightarrow> 'a list option" where
  "slice from until xs = (if from \<le> until \<and> until \<le> length xs then Some (take (until - from) (drop from xs)) else None)"

definition be_u32_at :: "nat \<Rightarrow> bytes \<Rightarrow> nat option" where
  "be_u32_at i bs = map_option be_value (slice i (i + 4) bs)"

fun trun_samples :: "bytes \<Rightarrow> bool \<Rightarrow> bool \<Rightarrow> nat \<Rightarrow> nat \<Rightarrow> ((u32 \<times> u32) list \<times> nat) option" where
  "trun_samples bs has_flags has_offset 0 cursor = Some ([], cursor)"
| "trun_samples bs has_flags has_offset (Suc n) cursor =
     Option.bind (be_u32_at cursor bs) (\<lambda>duration.
     Option.bind (be_u32_at (cursor + 4) bs) (\<lambda>sz.
       map_option (\<lambda>(samples, cursor). ((of_nat duration, of_nat sz) # samples, cursor))
         (trun_samples bs has_flags has_offset n
           (cursor + 8 + (if has_flags then 4 else 0) + (if has_offset then 4 else 0)))))"

text \<open>Offsets stay below the length of the part and four gigabytes more, so the checked sums do not fail.\<close>

definition fmp4_trun_sample_geometry :: "bytes \<Rightarrow> (u32 \<times> u32) list option" where
  "fmp4_trun_sample_geometry bs =
     Option.bind (find_sub (bytes_of_str ''trun'') bs) (\<lambda>type_offset.
     if type_offset < 4 then None else
     let box_start = type_offset - 4 in
     Option.bind (be_u32_at box_start bs) (\<lambda>box_size.
     let box_end = box_start + box_size in
     if box_size < 16 \<or> length bs < box_end then None else
     Option.bind (be_u32_at (type_offset + 4) bs) (\<lambda>version_and_flags.
     let flags = (of_nat version_and_flags :: u32) AND 0x00FFFFFF in
     if flags AND 0x000100 = 0 \<or> flags AND 0x000200 = 0 then None else
     Option.bind (be_u32_at (type_offset + 8) bs) (\<lambda>sample_count.
     if sample_count = 0 then None else
     let has_flags = flags AND 0x000400 \<noteq> 0; has_offset = flags AND 0x000800 \<noteq> 0;
         cursor = type_offset + 12 + (if flags AND 0x000001 \<noteq> 0 then 4 else 0) + (if flags AND 0x000004 \<noteq> 0 then 4 else 0);
         bytes_per_sample = (2 + (if has_flags then 1 else 0) + (if has_offset then 1 else 0)) * 4 in
     if box_end < cursor \<or> box_end - cursor < sample_count * bytes_per_sample then None else
     Option.bind (trun_samples bs has_flags has_offset sample_count cursor) (\<lambda>(samples, cursor).
       if cursor = box_end then Some samples else None)))))"

function mdat_from :: "bytes \<Rightarrow> nat \<Rightarrow> bytes option" where
  "mdat_from bs offset =
     (if length bs < offset + 8 then None
      else let sz = be_value (take 4 (drop offset bs)) in
        if sz < 8 \<or> length bs < offset + sz then None
        else if take 4 (drop (offset + 4) bs) = bytes_of_str ''mdat'' then slice (offset + 8) (offset + sz) bs
        else mdat_from bs (offset + sz))"
  by pat_completeness auto
termination
  by (relation "measure (\<lambda>(bs, offset). length bs - offset)") auto

declare mdat_from.simps [simp del]

definition fmp4_mdat_payload :: "bytes \<Rightarrow> bytes option" where
  "fmp4_mdat_payload bs = mdat_from bs 0"

definition parse_fmp4_tfdt_ms :: "bytes \<Rightarrow> u64 option" where
  "parse_fmp4_tfdt_ms bs =
     Option.bind (find_sub (bytes_of_str ''tfdt'') bs) (\<lambda>type_offset.
       if length bs \<le> type_offset + 4 then None
       else let version = bs ! (type_offset + 4); value_offset = type_offset + 8 in
         if version = 0 then map_option of_nat (be_u32_at value_offset bs)
         else if version = 1 then map_option (\<lambda>b. of_nat (be_value b)) (slice value_offset (value_offset + 8) bs)
         else None)"

text \<open>The packets a part's sample table cuts the payload into.\<close>

fun opus_samples_valid :: "(bytes \<Rightarrow> u32 option) \<Rightarrow> bytes \<Rightarrow> nat \<Rightarrow> u64 \<Rightarrow> (u32 \<times> u32) list \<Rightarrow> (nat \<times> u64) option" where
  "opus_samples_valid opus_duration payload offset ticks [] = Some (offset, ticks)"
| "opus_samples_valid opus_duration payload offset ticks ((duration, sz) # samples) =
     Option.bind (slice offset (offset + unat sz) payload) (\<lambda>packet.
       if opus_duration packet \<noteq> Some duration then None
       else opus_samples_valid opus_duration payload (offset + unat sz) (sat_add ticks (ucast duration)) samples)"

definition whole_part :: "u64 \<Rightarrow> u64 \<Rightarrow> bool" where
  "whole_part total_frames part_ms \<longleftrightarrow> sat_mul total_frames 1000 = sat_mul (ucast sample_rate_48k) part_ms"

definition fmp4_opus_part_is_valid :: "(bytes \<Rightarrow> u32 option) \<Rightarrow> bytes \<Rightarrow> u64 \<Rightarrow> bool" where
  "fmp4_opus_part_is_valid opus_duration bs part_ms =
     (if part_ms = 0 then False
      else case fmp4_trun_sample_geometry bs of None \<Rightarrow> False | Some samples \<Rightarrow>
      case fmp4_mdat_payload bs of None \<Rightarrow> False | Some payload \<Rightarrow>
      case opus_samples_valid opus_duration payload 0 0 samples of None \<Rightarrow> False | Some (offset, ticks) \<Rightarrow>
        offset = length payload \<and> whole_part ticks part_ms)"

section \<open>SoundKit parts\<close>

record soundkit_header =
  sh_payload_size :: u32
  sh_frame_count :: u32
  sh_is_opus :: bool
  sh_sample_rate :: u32
  sh_channels :: u8
  sh_encrypted :: bool
  sh_has_crc :: bool

record soundkit_api =
  sk_header_size :: "bytes \<Rightarrow> nat option"
  sk_decode :: "bytes \<Rightarrow> soundkit_header option"
  sk_verify_crc :: "soundkit_header \<Rightarrow> bytes \<Rightarrow> bytes \<Rightarrow> bool option"

datatype split_error =
  DurationOverflow | PartialFrames | HeaderNotReadable | OffsetOverflow | HeaderCut | FrameNotReadable | PayloadCut
| BoundaryCrossed | PartialUnit

definition fits_usize :: "nat \<Rightarrow> bool" where "fits_usize n \<longleftrightarrow> n < 2 ^ 64"

text \<open>The packet at an offset: where it ends and how many frames it has.\<close>

definition soundkit_packet_at :: "('z) soundkit_api_scheme \<Rightarrow> bytes \<Rightarrow> nat \<Rightarrow> split_error + nat \<times> u32" where
  "soundkit_packet_at api bs offset =
     res_bind (ok_or HeaderNotReadable (sk_header_size api (drop offset bs))) (\<lambda>header_size.
     let header_end = offset + header_size in
     if \<not> fits_usize header_end then Inl OffsetOverflow else
     res_bind (ok_or HeaderCut (slice offset header_end bs)) (\<lambda>header_bytes.
     res_bind (ok_or FrameNotReadable (sk_decode api header_bytes)) (\<lambda>header.
     let packet_end = header_end + unat (sh_payload_size header) in
     if \<not> fits_usize packet_end then Inl OffsetOverflow
     else if length bs < packet_end then Inl PayloadCut
     else Inr (packet_end, sh_frame_count header))))"

partial_function (option) split_loop ::
  "('z) soundkit_api_scheme \<Rightarrow> bytes \<Rightarrow> u64 \<Rightarrow> bytes list \<Rightarrow> nat \<Rightarrow> nat \<Rightarrow> u64 \<Rightarrow> (split_error + bytes list) option" where
  [code]: "split_loop api bs expected_frames parts part_start offset part_frames =
     (if length bs \<le> offset then
        Some (if part_frames \<noteq> 0 \<or> part_start \<noteq> length bs then Inl PartialUnit else Inr parts)
      else case soundkit_packet_at api bs offset of
        Inl e \<Rightarrow> Some (Inl e)
      | Inr (packet_end, frames) \<Rightarrow>
          let part_frames = sat_add part_frames (ucast frames) in
          if expected_frames < part_frames then Some (Inl BoundaryCrossed)
          else if part_frames = expected_frames
          then split_loop api bs expected_frames (parts @ [take (packet_end - part_start) (drop part_start bs)]) packet_end packet_end 0
          else split_loop api bs expected_frames parts part_start packet_end part_frames)"

definition split_soundkit_opus_parts :: "('z) soundkit_api_scheme \<Rightarrow> bytes \<Rightarrow> u64 \<Rightarrow> (split_error + bytes list) option" where
  "split_soundkit_opus_parts api bs part_ms =
     (case checked_mul (ucast sample_rate_48k) part_ms of
        None \<Rightarrow> Some (Inl DurationOverflow)
      | Some scaled_frames \<Rightarrow>
          if part_ms = 0 \<or> scaled_frames mod 1000 \<noteq> 0 then Some (Inl PartialFrames)
          else split_loop api bs (scaled_frames div 1000) [] 0 0 0)"

text \<open>The validity check walks the same packets but reads the header with an index that panics, the outcome \<^const>\<open>None\<close>
  of a step; \<^const>\<open>None\<close> of the loop stands for a panic or for not returning.\<close>

definition soundkit_packet_valid :: "('z) soundkit_api_scheme \<Rightarrow> bytes \<Rightarrow> (nat \<times> u32) option option" where
  "soundkit_packet_valid api bs =
     (case sk_header_size api bs of
        None \<Rightarrow> Some None
      | Some header_size \<Rightarrow>
          if length bs < header_size then None
          else case sk_decode api (take header_size bs) of
            None \<Rightarrow> Some None
          | Some header \<Rightarrow>
              let payload_size = unat (sh_payload_size header); packet_size = header_size + payload_size in
              if \<not> fits_usize packet_size \<or> length bs < packet_size \<or> \<not> sh_is_opus header
                 \<or> sh_sample_rate header \<noteq> sample_rate_48k \<or> \<not> (1 \<le> sh_channels header \<and> sh_channels header \<le> 2)
                 \<or> sh_frame_count header = 0 \<or> payload_size = 0 \<or> \<not> sh_encrypted header
                 \<or> sh_has_crc header
                   \<and> sk_verify_crc api header (take header_size bs) (take payload_size (drop header_size bs)) \<noteq> Some True
              then Some None
              else Some (Some (packet_size, sh_frame_count header)))"

partial_function (option) valid_loop :: "('z) soundkit_api_scheme \<Rightarrow> bytes \<Rightarrow> u64 \<Rightarrow> u64 \<Rightarrow> (u64 \<times> u64) option option" where
  [code]: "valid_loop api bs total_frames packets =
     (if bs = [] then Some (Some (total_frames, packets))
      else case soundkit_packet_valid api bs of
        None \<Rightarrow> None
      | Some None \<Rightarrow> Some None
      | Some (Some (packet_size, frames)) \<Rightarrow>
          valid_loop api (drop packet_size bs) (sat_add total_frames (ucast frames)) (sat_add packets 1))"

definition soundkit_opus_part_is_valid :: "('z) soundkit_api_scheme \<Rightarrow> bytes \<Rightarrow> u64 \<Rightarrow> bool option" where
  "soundkit_opus_part_is_valid api bs part_ms =
     (if bs = [] \<or> part_ms = 0 then Some False
      else map_option (\<lambda>r. case r of None \<Rightarrow> False | Some (total_frames, packets) \<Rightarrow> 0 < packets \<and> whole_part total_frames part_ms)
        (valid_loop api bs 0 0))"

section \<open>Times of a part\<close>

datatype part_time_error =
  BeforeBaseline | PositionOverflow | NoDecodeTime | TimeOverflow | NoSampleDurations

definition nominal_hls_object_pts_ms :: "u64 \<Rightarrow> u64 \<Rightarrow> u64 \<Rightarrow> u64 \<Rightarrow> part_time_error + u64" where
  "nominal_hls_object_pts_ms object_sequence baseline baseline_pts_ms part_ms =
     res_bind (ok_or BeforeBaseline (checked_sub object_sequence baseline)) (\<lambda>relative.
       ok_or PositionOverflow (Option.bind (checked_mul relative part_ms) (\<lambda>r. checked_add baseline_pts_ms r)))"

definition opus_ticks_to_ms :: "u64 \<Rightarrow> part_time_error + u64" where
  "opus_ticks_to_ms t = ok_or TimeOverflow (map_option (\<lambda>s. s div ucast sample_rate_48k) (checked_mul t 1000))"

definition media_part_pts_ms :: "hls_audio_codec \<Rightarrow> bytes \<Rightarrow> u64 \<Rightarrow> u64 \<Rightarrow> u64 \<Rightarrow> u64 \<Rightarrow> part_time_error + u64" where
  "media_part_pts_ms codec bs object_sequence baseline baseline_pts_ms part_ms =
     (if is_opaque_codec codec then nominal_hls_object_pts_ms object_sequence baseline baseline_pts_ms part_ms
      else res_bind (ok_or NoDecodeTime (parse_fmp4_tfdt_ms bs)) (\<lambda>decode_time.
        if codec = HlsOpus then opus_ticks_to_ms decode_time else Inr decode_time))"

fun checked_sum :: "u64 \<Rightarrow> u32 list \<Rightarrow> u64 option" where
  "checked_sum ticks [] = Some ticks"
| "checked_sum ticks (d # ds) = Option.bind (checked_add ticks (ucast d)) (\<lambda>ticks. checked_sum ticks ds)"

definition media_part_duration_ms :: "hls_audio_codec \<Rightarrow> bytes \<Rightarrow> u64 \<Rightarrow> part_time_error + u64" where
  "media_part_duration_ms codec bs part_ms =
     (if is_opaque_codec codec then Inr part_ms
      else res_bind (ok_or NoSampleDurations (fmp4_trun_sample_geometry bs)) (\<lambda>samples.
        res_bind (ok_or TimeOverflow (checked_sum 0 (map fst samples))) (\<lambda>duration.
          if codec = HlsOpus then opus_ticks_to_ms duration else Inr duration)))"

definition opus_media_part_is_valid ::
  "('z) soundkit_api_scheme \<Rightarrow> (bytes \<Rightarrow> u32 option) \<Rightarrow> hls_audio_codec \<Rightarrow> bytes \<Rightarrow> u64 \<Rightarrow> bool option option" where
  "opus_media_part_is_valid api opus_duration codec bs part_ms =
     (case codec of
        HlsOpus \<Rightarrow> Some (Some (fmp4_opus_part_is_valid opus_duration bs part_ms))
      | HlsSoundkitOpus \<Rightarrow> map_option Some (soundkit_opus_part_is_valid api bs part_ms)
      | _ \<Rightarrow> Some None)"

end
