(* ===== verification/Probe_Media_Facts.thy ===== *)
theory Probe_Media_Facts
  imports Probe_Media Probe_Timeline_Facts
begin

text \<open>
  A SoundKit body is cut at packets and at whole parts only, a playlist's window is that of its part lines, and an
  accepted Opus part is cut without rest into packets of the declared lengths.
\<close>

section \<open>SoundKit bodies\<close>

inductive packet_run :: "('z) soundkit_api_scheme \<Rightarrow> bytes \<Rightarrow> nat \<Rightarrow> nat \<Rightarrow> nat \<Rightarrow> bool" for api bs where
  no_packet: "packet_run api bs i i 0"
| one_more: "packet_run api bs i j n \<Longrightarrow> soundkit_packet_at api bs j = Inr (k, frames) \<Longrightarrow> packet_run api bs i k (n + unat frames)"

inductive_cases packet_runE: "packet_run api bs i j n"

text \<open>Consecutive slices, each a run of packets with exactly the frames of one part.\<close>

fun units :: "('z) soundkit_api_scheme \<Rightarrow> bytes \<Rightarrow> nat \<Rightarrow> nat \<Rightarrow> bytes list \<Rightarrow> nat \<Rightarrow> bool" where
  "units api bs frames i [] j \<longleftrightarrow> i = j"
| "units api bs frames i (p # ps) j \<longleftrightarrow>
     p = take (length p) (drop i bs) \<and> packet_run api bs i (i + length p) frames \<and> units api bs frames (i + length p) ps j"

lemma units_append: "units api bs frames i (ps @ qs) j \<longleftrightarrow> (\<exists>k. units api bs frames i ps k \<and> units api bs frames k qs j)"
  by (induction ps arbitrary: i) auto

lemma units_concat: "units api bs frames i ps j \<Longrightarrow> j \<le> length bs \<Longrightarrow> concat ps = take (j - i) (drop i bs) \<and> i \<le> j"
proof (induction ps arbitrary: i)
  case (Cons p ps)
  then have rest: "concat ps = take (j - (i + length p)) (drop (i + length p) bs)" "i + length p \<le> j" by auto
  have "concat (p # ps) = take (length p) (drop i bs) @ take (j - i - length p) (drop (length p) (drop i bs))"
    using Cons.prems(1) rest(1) by (simp add: add.commute)
  also have "\<dots> = take (length p + (j - i - length p)) (drop i bs)" by (simp add: take_add)
  finally show ?case using rest(2) by simp
qed simp

definition headers_not_empty :: "('z) soundkit_api_scheme \<Rightarrow> bool" where
  "headers_not_empty api \<longleftrightarrow> (\<forall>bs n. sk_header_size api bs = Some n \<longrightarrow> 0 < n)"

lemma soundkit_packet_at_bounds:
  "headers_not_empty api \<Longrightarrow> soundkit_packet_at api bs i = Inr (k, frames) \<Longrightarrow> i < k \<and> k \<le> length bs"
  by (auto simp: soundkit_packet_at_def res_ok Let_def headers_not_empty_def split: if_splits)

lemma split_loop_ok:
  assumes "headers_not_empty api" and "unat expected < 2 ^ 63"
  shows "units api bs (unat expected) 0 parts start \<Longrightarrow> packet_run api bs start offset (unat part_frames) \<Longrightarrow>
    part_frames < expected \<Longrightarrow> start \<le> offset \<Longrightarrow> offset \<le> length bs \<Longrightarrow>
    case split_loop api bs expected parts start offset part_frames of
      None \<Rightarrow> False
    | Some (Inl e) \<Rightarrow> True
    | Some (Inr ps) \<Rightarrow> units api bs (unat expected) 0 ps (length bs)"
proof (induction "length bs - offset" arbitrary: parts start offset part_frames rule: less_induct)
  case less
  show ?case
  proof (cases "length bs \<le> offset")
    case True
    with less.prems(1) show ?thesis by (subst split_loop.simps) auto
  next
    case False
    show ?thesis
    proof (cases "soundkit_packet_at api bs offset")
      case (Inl e)
      with False show ?thesis by (subst split_loop.simps) simp
    next
      case (Inr res)
      then obtain k frames where pk: "soundkit_packet_at api bs offset = Inr (k, frames)" by (cases res) auto
      note b = soundkit_packet_at_bounds [OF assms(1) pk]
      let ?f = "sat_add part_frames (ucast frames)"
      have "unat part_frames < unat expected" using less.prems(3) by (simp add: word_less_nat_alt)
      then have f: "unat ?f = unat part_frames + unat frames"
        using assms(2) unat_lt2p [of frames] by (simp add: unat_sat_add unat_ucast_widen)
      have run: "packet_run api bs start k (unat ?f)" unfolding f by (rule one_more [OF less.prems(2) pk])
      have shorter: "length bs - k < length bs - offset" using b False by (intro diff_less_mono2) auto
      consider "expected < ?f" | "?f = expected" | "?f < expected" by (metis linorder_neqE)
      then show ?thesis
      proof cases
        case 1
        with False pk show ?thesis by (subst split_loop.simps) (simp add: Let_def)
      next
        case 2
        let ?p = "take (k - start) (drop start bs)"
        have len: "length ?p = k - start" "start + (k - start) = k" using b less.prems(4) by auto
        then have "units api bs (unat expected) 0 (parts @ [?p]) k"
          using less.prems(1) run 2 by (auto simp: units_append)
        moreover have "packet_run api bs k k (unat (0 :: u64))" by (simp add: no_packet)
        ultimately have next_part: "case split_loop api bs expected (parts @ [?p]) k k 0 of
            None \<Rightarrow> False | Some (Inl e) \<Rightarrow> True | Some (Inr ps) \<Rightarrow> units api bs (unat expected) 0 ps (length bs)"
          using less.hyps [OF shorter, of "parts @ [?p]" k 0] less.prems(3) b by (auto simp: word_less_nat_alt)
        from False pk 2 next_part show ?thesis by (subst split_loop.simps) (simp add: Let_def)
      next
        case 3
        from less.hyps [OF shorter less.prems(1) run 3] b less.prems(4)
        have "case split_loop api bs expected parts start k ?f of
            None \<Rightarrow> False | Some (Inl e) \<Rightarrow> True | Some (Inr ps) \<Rightarrow> units api bs (unat expected) 0 ps (length bs)"
          by simp
        with False pk 3 less_imp_neq [OF 3] show ?thesis by (subst split_loop.simps) (simp add: Let_def)
      qed
    qed
  qed
qed

text \<open>C36: Cutting an aggregated body always returns, and when it accepts the body the parts put together are the body and each
  part is a run of whole packets with exactly the frames of one part duration, whatever the header reader of the
  codec library answers, as long as no header is empty.\<close>

theorem soundkit_split_sound:
  assumes "headers_not_empty api"
  shows "case split_soundkit_opus_parts api bs part_ms of
      None \<Rightarrow> False
    | Some (Inl e) \<Rightarrow> True
    | Some (Inr parts) \<Rightarrow> concat parts = bs \<and> units api bs (48 * unat part_ms) 0 parts (length bs)"
proof (cases "checked_mul (ucast sample_rate_48k) part_ms")
  case None
  then show ?thesis by (simp add: split_soundkit_opus_parts_def)
next
  case (Some scaled)
  then have s: "unat scaled = 48000 * unat part_ms"
    by (auto simp: checked_mul_eq_Some sample_rate_48k_def)
  show ?thesis
  proof (cases "part_ms = 0 \<or> scaled mod 1000 \<noteq> 0")
    case True
    with Some show ?thesis by (simp add: split_soundkit_opus_parts_def)
  next
    case False
    have e: "unat (scaled div 1000) = 48 * unat part_ms" by (simp add: unat_div_distrib s)
    have small: "unat (scaled div 1000) < 2 ^ 63" using unat_lt2p [of scaled] by (simp add: unat_div_distrib)
    have "(0 :: u64) < scaled div 1000" using e False by (simp add: word_less_nat_alt unat_gt_0)
    with split_loop_ok [OF assms small, of bs "[]" 0 0 0, unfolded e] no_packet [of api bs 0]
    have "case split_loop api bs (scaled div 1000) [] 0 0 0 of
        None \<Rightarrow> False | Some (Inl e) \<Rightarrow> True | Some (Inr ps) \<Rightarrow> units api bs (48 * unat part_ms) 0 ps (length bs)"
      by simp
    with Some False show ?thesis
      using units_concat [of api bs "48 * unat part_ms" 0 _ "length bs"]
      by (auto simp: split_soundkit_opus_parts_def split: option.splits sum.splits)
  qed
qed

text \<open>A header of two bytes: the number of frames in units of 48 and the payload length.\<close>

definition demo_soundkit :: soundkit_api where
  "demo_soundkit = \<lparr>sk_header_size = (\<lambda>bs. if length bs < 2 then None else Some 2),
     sk_decode = (\<lambda>bs. Some \<lparr>sh_payload_size = ucast (bs ! 1), sh_frame_count = 48 * ucast (bs ! 0), sh_is_opus = True,
       sh_sample_rate = 48000, sh_channels = 2, sh_encrypted = True, sh_has_crc = False\<rparr>),
     sk_verify_crc = (\<lambda>h a b. None)\<rparr>"

theorem soundkit_split_sound_witness:
  "split_soundkit_opus_parts demo_soundkit [1, 1, 7, 1, 0, 2, 1, 9] 2 = Some (Inr [[1, 1, 7, 1, 0], [2, 1, 9]])
   \<and> units demo_soundkit [1, 1, 7, 1, 0, 2, 1, 9] 96 0 [[1, 1, 7, 1, 0], [2, 1, 9]] 8"
proof -
  have api: "headers_not_empty demo_soundkit" by (simp add: headers_not_empty_def demo_soundkit_def)
  have run: "split_soundkit_opus_parts demo_soundkit [1, 1, 7, 1, 0, 2, 1, 9] 2 = Some (Inr [[1, 1, 7, 1, 0], [2, 1, 9]])"
    by (simp add: split_soundkit_opus_parts_def checked_mul_def sample_rate_48k_def demo_soundkit_def soundkit_packet_at_def
        slice_def fits_usize_def sat_add_def split_loop.simps Let_def)
  with soundkit_split_sound [OF api, of "[1, 1, 7, 1, 0, 2, 1, 9]" 2] show ?thesis by simp
qed

section \<open>Windows of a playlist\<close>

definition line_sequence :: "string \<Rightarrow> u64 option" where
  "line_sequence line = Option.bind (hls_attribute_uri line) hls_part_object_sequence"

definition completed_parts :: "string list \<Rightarrow> u64 list" where
  "completed_parts ls = List.map_filter line_sequence (filter (starts_with ''#EXT-X-PART:'') ls)"

definition hinted_parts :: "string list \<Rightarrow> u64 list" where
  "hinted_parts ls = List.map_filter line_sequence
     (filter (\<lambda>l. \<not> starts_with ''#EXT-X-PART:'' l \<and> is_part_preload l) ls)"

definition least_of :: "u64 list \<Rightarrow> u64 option" where
  "least_of xs = (if xs = [] then None else Some (Min (set xs)))"

definition greatest_of :: "u64 list \<Rightarrow> u64 option" where
  "greatest_of xs = (if xs = [] then None else Some (Max (set xs)))"

definition merge_with :: "(u64 \<Rightarrow> u64 \<Rightarrow> u64) \<Rightarrow> u64 option \<Rightarrow> u64 option \<Rightarrow> u64 option" where
  "merge_with f a b = (case a of None \<Rightarrow> b | Some x \<Rightarrow> (case b of None \<Rightarrow> a | Some y \<Rightarrow> Some (f x y)))"

lemma least_of_Cons: "least_of (x # xs) = merge_with min (Some x) (least_of xs)"
  by (simp add: least_of_def merge_with_def)

lemma greatest_of_Cons: "greatest_of (x # xs) = merge_with max (Some x) (greatest_of xs)"
  by (simp add: greatest_of_def merge_with_def)

lemma merge_None [simp]: "merge_with f None b = b" "merge_with f a None = a"
  by (simp_all add: merge_with_def split: option.split)

lemma merge_assoc:
  "merge_with min (merge_with min a b) c = merge_with min a (merge_with min b c)"
  "merge_with max (merge_with max a b) c = merge_with max a (merge_with max b c)"
  by (simp_all add: merge_with_def min.assoc max.assoc split: option.split)

lemma least_Nil [simp]: "least_of [] = None" "greatest_of [] = None"
  by (simp_all add: least_of_def greatest_of_def)

lemma parts_Cons:
  "completed_parts (l # ls) = (if starts_with ''#EXT-X-PART:'' l then (case line_sequence l of None \<Rightarrow> [] | Some s \<Rightarrow> [s]) else []) @ completed_parts ls"
  "hinted_parts (l # ls) = (if \<not> starts_with ''#EXT-X-PART:'' l \<and> is_part_preload l
     then (case line_sequence l of None \<Rightarrow> [] | Some s \<Rightarrow> [s]) else []) @ hinted_parts ls"
  by (simp_all add: completed_parts_def hinted_parts_def List.map_filter_simps split: option.split)

lemma scan_line_ok:
  "scan_line l ws = Inr ws' \<Longrightarrow>
     ws_first ws' = merge_with min (ws_first ws) (least_of (completed_parts [l]))
     \<and> ws_last ws' = merge_with max (ws_last ws) (greatest_of (completed_parts [l]))
     \<and> (case ws_preload ws of None \<Rightarrow> hinted_parts [l] = (case ws_preload ws' of None \<Rightarrow> [] | Some s \<Rightarrow> [s])
        | Some s \<Rightarrow> hinted_parts [l] = [] \<and> ws_preload ws' = Some s)"
  by (cases ws; cases "starts_with ''#EXT-X-PART:'' l")
    (auto simp: scan_line_def Let_def res_ok parts_Cons completed_parts_def [of "[]"] hinted_parts_def [of "[]"]
      List.map_filter_simps line_sequence_def least_of_Cons greatest_of_Cons merge_with_def
      split: if_splits option.splits)

lemma scan_lines_ok:
  "scan_lines ls ws = Inr ws' \<Longrightarrow>
     ws_first ws' = merge_with min (ws_first ws) (least_of (completed_parts ls))
     \<and> ws_last ws' = merge_with max (ws_last ws) (greatest_of (completed_parts ls))
     \<and> (case ws_preload ws of None \<Rightarrow> hinted_parts ls = (case ws_preload ws' of None \<Rightarrow> [] | Some s \<Rightarrow> [s])
        | Some s \<Rightarrow> hinted_parts ls = [] \<and> ws_preload ws' = Some s)"
proof (induction ls arbitrary: ws)
  case Nil
  then show ?case by (auto simp: completed_parts_def hinted_parts_def List.map_filter_simps split: option.splits)
next
  case (Cons l ls)
  from Cons.prems obtain ws1 where one: "scan_line l ws = Inr ws1" and rest: "scan_lines ls ws1 = Inr ws'"
    by (auto simp: res_ok)
  have app: "completed_parts (l # ls) = completed_parts [l] @ completed_parts ls"
      "hinted_parts (l # ls) = hinted_parts [l] @ hinted_parts ls"
    by (simp_all add: completed_parts_def hinted_parts_def List.map_filter_simps split: option.split)
  have single: "completed_parts [l] = [] \<or> (\<exists>s. completed_parts [l] = [s])"
    by (simp add: completed_parts_def List.map_filter_simps split: option.split)
  have "least_of (completed_parts (l # ls)) = merge_with min (least_of (completed_parts [l])) (least_of (completed_parts ls))"
      "greatest_of (completed_parts (l # ls)) = merge_with max (greatest_of (completed_parts [l])) (greatest_of (completed_parts ls))"
    using single by (auto simp: app(1) least_of_Cons greatest_of_Cons)
  with scan_line_ok [OF one] Cons.IH [OF rest] show ?case
    by (auto simp: app(2) merge_assoc split: option.splits)
qed

lemma scan_lines_error: "scan_lines ls ws = Inl e \<Longrightarrow> e \<noteq> PlaylistNotText"
proof (induction ls arbitrary: ws)
  case (Cons l ls)
  have "e \<noteq> PlaylistNotText" if err: "scan_line l ws = Inl e"
    using err by (cases "hls_attribute_uri l"; cases "hls_part_object_sequence (the (hls_attribute_uri l))")
      (auto simp: scan_line_def Let_def split: if_splits)
  with Cons show ?case by (cases "scan_line l ws") auto
qed simp

text \<open>The window read from a playlist is that of its parts: it starts at the least and ends at the greatest completed part,
  the next object is the one hinted, of which there is at most one, or else the one after the greatest, and it always comes
  after the greatest. There is no window exactly when no part is named, or the greatest has the last number.\<close>

theorem playlist_window_exact:
  "case from_utf8 bs of
     None \<Rightarrow> hls_playlist_object_window bs = Inl PlaylistNotText
   | Some text \<Rightarrow>
       let completed = completed_parts (text_lines text); hinted = hinted_parts (text_lines text) in
       case hls_playlist_object_window bs of
         Inl e \<Rightarrow> e \<noteq> PlaylistNotText
       | Inr None \<Rightarrow> hinted = [] \<and> (completed = [] \<or> Max (set completed) = - 1)
       | Inr (Some w) \<Rightarrow>
           ow_first_sequence w = least_of completed \<and> ow_last_sequence w = greatest_of completed
           \<and> (hinted = [ow_next_sequence w] \<or> hinted = [] \<and> completed \<noteq> [] \<and> ow_next_sequence w = Max (set completed) + 1)
           \<and> list_all (\<lambda>s. s < ow_next_sequence w) completed"
proof (cases "from_utf8 bs")
  case None
  then show ?thesis by (simp add: hls_playlist_object_window_def)
next
  case (Some playlist)
  let ?ls = "text_lines playlist" and ?start = "\<lparr>ws_first = None, ws_last = None, ws_preload = None\<rparr>"
  show ?thesis
  proof (cases "scan_lines ?ls ?start")
    case (Inl e)
    have "e \<noteq> PlaylistNotText" using Inl by (rule scan_lines_error)
    with Some Inl show ?thesis by (simp add: hls_playlist_object_window_def)
  next
    case (Inr ws)
    from scan_lines_ok [OF Inr] have ws: "ws_first ws = least_of (completed_parts ?ls)"
        "ws_last ws = greatest_of (completed_parts ?ls)"
        "hinted_parts ?ls = (case ws_preload ws of None \<Rightarrow> [] | Some s \<Rightarrow> [s])" by simp_all
    have top: "x = - 1" if "checked_add x (1 :: u64) = None" for x
      using that unat_succ [of x] unat_lt2p [of "x + 1"] by (cases "x = - 1") (auto simp: checked_add_def split: if_splits)
    show ?thesis
    proof (cases "completed_parts ?ls = []")
      case True
      with ws show ?thesis
        by (cases "ws_preload ws") (simp_all add: Some Inr hls_playlist_object_window_def)
    next
      case False
      let ?m = "Max (set (completed_parts ?ls))"
      have last: "ws_last ws = Some ?m" using False by (simp add: ws(2) greatest_of_def)
      have above: "list_all (\<lambda>s. s < k) (completed_parts ?ls) \<longleftrightarrow> ?m < k" for k
        using False by (simp add: list_all_iff)
      show ?thesis
      proof (cases "ws_preload ws")
        case None
        have "x < y" if "checked_add x 1 = Some y" for x y :: u64
          using that by (simp add: checked_add_eq_Some word_less_nat_alt)
        moreover have "y = x + 1" if "checked_add x 1 = Some y" for x y :: u64
          using that by (simp add: checked_add_def split: if_splits)
        ultimately show ?thesis
          using None last ws above top [of ?m] False
          by (auto simp: Let_def Some Inr hls_playlist_object_window_def not_le not_less split: option.splits)
      next
        case (Some s)
        with last ws above show ?thesis
          by (auto simp: \<open>from_utf8 bs = Some playlist\<close> Inr hls_playlist_object_window_def not_le)
      qed
    qed
  qed
qed

section \<open>Opus parts\<close>

text \<open>An accepted part: its payload is the packets of the sample table one after the other, each of the declared length and
  duration.\<close>

lemma opus_samples_valid_exact:
  "opus_samples_valid opus_duration payload offset ticks samples = Some (end_offset, end_ticks) \<Longrightarrow> offset \<le> length payload \<Longrightarrow>
     \<exists>packets. concat packets = take (end_offset - offset) (drop offset payload)
       \<and> offset \<le> end_offset \<and> end_offset \<le> length payload
       \<and> map length packets = map (\<lambda>s. unat (snd s)) samples
       \<and> map opus_duration packets = map (\<lambda>s. Some (fst s)) samples"
proof (induction samples arbitrary: offset ticks)
  case (Cons s samples)
  obtain duration sz where s: "s = (duration, sz)" by fastforce
  from Cons.prems obtain packet where pk: "slice offset (offset + unat sz) payload = Some packet"
      "opus_duration packet = Some duration"
      "opus_samples_valid opus_duration payload (offset + unat sz) (sat_add ticks (ucast duration)) samples = Some (end_offset, end_ticks)"
    by (auto simp: s bind_eq_Some_conv split: if_splits)
  then have fits: "offset + unat sz \<le> length payload" "packet = take (unat sz) (drop offset payload)"
    by (auto simp: slice_def split: if_splits)
  from Cons.IH [OF pk(3) fits(1)] obtain packets where ps: "concat packets = take (end_offset - (offset + unat sz)) (drop (offset + unat sz) payload)"
      "offset + unat sz \<le> end_offset" "end_offset \<le> length payload" "map length packets = map (\<lambda>s. unat (snd s)) samples"
      "map opus_duration packets = map (\<lambda>s. Some (fst s)) samples" by auto
  have "concat (packet # packets) = take (unat sz) (drop offset payload) @ take (end_offset - offset - unat sz) (drop (unat sz) (drop offset payload))"
    using ps(1) fits(2) by (simp add: add.commute)
  also have "\<dots> = take (unat sz + (end_offset - offset - unat sz)) (drop offset payload)" by (simp add: take_add)
  finally show ?case
    using ps fits pk(2) by (intro exI [of _ "packet # packets"]) (simp add: s)
qed (auto intro: exI [of _ "[]"])

end
