(* ===== verification/Outcome.thy ===== *)
theory Outcome
  imports Prelude
begin

text \<open>
  Steps of the probe that may panic or fail: \<^const>\<open>None\<close> is a panic or a loop that does not return, \<^const>\<open>Inl\<close> an error.
\<close>

type_synonym ('e, 'a) outcome = "('e + 'a) option"

definition obind :: "('e, 'a) outcome \<Rightarrow> ('a \<Rightarrow> ('e, 'b) outcome) \<Rightarrow> ('e, 'b) outcome" where
  "obind m f = (case m of None \<Rightarrow> None | Some (Inl e) \<Rightarrow> Some (Inl e) | Some (Inr a) \<Rightarrow> f a)"

lemma obind_simps [simp]:
  "obind None f = None"
  "obind (Some (Inl e)) f = Some (Inl e)"
  "obind (Some (Inr a)) f = f a"
  by (simp_all add: obind_def)

lemma obind_eq_Inr [simp]: "obind m f = Some (Inr b) \<longleftrightarrow> (\<exists>a. m = Some (Inr a) \<and> f a = Some (Inr b))"
  by (auto simp: obind_def split: option.splits sum.splits)

lemma if_fails: "(if P then None else m) = Some (Inr b) \<longleftrightarrow> \<not> P \<and> m = Some (Inr b)"
    "(if P then Some (Inl e) else m) = Some (Inr b) \<longleftrightarrow> \<not> P \<and> m = Some (Inr b)"
  by auto

end
