(* ===== verification/Probe_Bundle.thy ===== *)
theory Probe_Bundle
  imports Probe_Media Outcome
begin

text \<open>
  The bundled reader of \<^verbatim>\<open>src/src/bin/aep1-48k-probe.rs\<close>: one connection that receives, for every frame of a
  persistent response, the same range of parts of several streams. The decoder of a bundle, the SoundKit headers and
  the playlists fetched before the window are parameters; a poll of the response is an event with the clock read
  before it. Numbers that only label the report are left out, times stay in nanoseconds.
\<close>

section \<open>State of a stream\<close>

datatype bundle_error =
  WindowError string | NotWholeResponses | StreamIdOverflow | CoverageError string | PlaylistStatus | PlaylistFormat
| BundleStatus | BundleContentType | FrameFailed | BundleNotDecoded
| EntryCount | RangeOverflow | WrongStream | WrongRange | PartsNotSplit split_error | PartCount | DuplicatePts

record tail_entry =
  te_stream_id :: u64
  te_start_sequence :: u64
  te_end_sequence :: u64
  te_available_unix_us :: "u64 option"
  te_payload :: bytes

record bundle_stream =
  bs_stream_id :: u64
  bs_coverage :: part_coverage
  bs_media_responses :: u64
  bs_deadline_misses :: u64
  bs_parts_verified :: u64
  bs_packet_mismatches :: u64
  bs_playlist_ok :: bool
  bs_publication_to_cache :: latency_samples
  bs_cache_to_client :: latency_samples
  bs_availability :: latency_samples
  bs_first_part :: latency_samples
  bs_final_part :: latency_samples
  bs_render :: latency_samples
  bs_series :: hls_time_series

definition bundle_stream_new :: "(nat \<Rightarrow> bool) \<Rightarrow> u64 \<Rightarrow> u64 \<Rightarrow> u64 \<Rightarrow> u64 \<Rightarrow> bundle_error + bundle_stream" where
  "bundle_stream_new can_reserve stream_id start_sequence expected_parts part_ms =
     res_bind (map_err CoverageError (part_coverage_new can_reserve start_sequence expected_parts part_ms)) (\<lambda>coverage.
       Inr \<lparr>bs_stream_id = stream_id, bs_coverage = coverage, bs_media_responses = 0, bs_deadline_misses = 0,
            bs_parts_verified = 0, bs_packet_mismatches = 0, bs_playlist_ok = False,
            bs_publication_to_cache = latency_samples_new, bs_cache_to_client = latency_samples_new,
            bs_availability = latency_samples_new, bs_first_part = latency_samples_new,
            bs_final_part = latency_samples_new, bs_render = latency_samples_new, bs_series = []\<rparr>)"

record bundle_reader =
  br_stream_id :: u64
  br_stream_count :: nat
  br_session_id :: u64
  br_duration_seconds :: u64
  br_window_seconds :: "u64 option"
  br_part_ms :: u64
  br_response_ms :: u64
  br_deadline_ms :: u64
  br_tail_seconds :: u64
  br_codec :: hls_audio_codec

section \<open>One bundle\<close>

fun entries_match :: "u64 \<Rightarrow> u64 \<Rightarrow> u64 list \<Rightarrow> tail_entry list \<Rightarrow> bundle_error + unit" where
  "entries_match expected_start expected_end (stream_id # ids) (entry # entries) =
     (if te_stream_id entry \<noteq> stream_id then Inl WrongStream
      else if te_start_sequence entry \<noteq> expected_start \<or> te_end_sequence entry \<noteq> expected_end then Inl WrongRange
      else entries_match expected_start expected_end ids entries)"
| "entries_match expected_start expected_end _ _ = Inr ()"

definition validate_tail_bundle_entries ::
  "u64 list \<Rightarrow> tail_entry list \<Rightarrow> u64 option \<Rightarrow> u64 \<Rightarrow> u64 \<Rightarrow> bundle_error + unit" where
  "validate_tail_bundle_entries stream_ids entries after_sequence initial_from_sequence parts_per_response =
     (if length entries \<noteq> length stream_ids then Inl EntryCount
      else
        let expected_start = (case Option.bind after_sequence (\<lambda>s. checked_add s 1) of
              Some s \<Rightarrow> s | None \<Rightarrow> initial_from_sequence) in
        res_bind (ok_or RangeOverflow (checked_add expected_start (sat_sub parts_per_response 1))) (\<lambda>expected_end.
          entries_match expected_start expected_end stream_ids entries))"

definition capture_ns_of :: "bundle_reader \<Rightarrow> u64 \<Rightarrow> u64" where
  "capture_ns_of r s = sat_add (br_session_id r) (sat_mul (sat_mul s (br_part_ms r)) 1000000)"

definition bundle_part ::
  "('z) soundkit_api_scheme \<Rightarrow> bundle_reader \<Rightarrow> u64 \<Rightarrow> u64 \<Rightarrow> bytes \<Rightarrow> bundle_stream \<Rightarrow> (bundle_error, bundle_stream) outcome" where
  "bundle_part api r arrival_ns s part st =
     (let pts_ms = sat_mul s (br_part_ms r) in
      case insert_pts pts_ms (bs_coverage st) of
        None \<Rightarrow> None
      | Some (fresh, coverage) \<Rightarrow>
          if \<not> fresh then Some (Inl DuplicatePts)
          else
            let latency_ns = sat_sub arrival_ns (sat_add (br_session_id r) (sat_mul pts_ms 1000000));
                missed = sat_mul (br_deadline_ms r) 1000000 < latency_ns in
            case soundkit_opus_part_is_valid api part (br_part_ms r) of
              None \<Rightarrow> None
            | Some ok \<Rightarrow> Some (Inr (st\<lparr>bs_coverage := coverage,
                bs_deadline_misses := sat_count missed (bs_deadline_misses st),
                bs_availability := record_latency latency_ns (bs_availability st),
                bs_render := record_latency latency_ns (bs_render st),
                bs_series := series_record_part pts_ms latency_ns latency_ns missed (bs_series st),
                bs_parts_verified := sat_count ok (bs_parts_verified st),
                bs_packet_mismatches := sat_count (\<not> ok) (bs_packet_mismatches st)\<rparr>)))"

fun bundle_parts ::
  "('z) soundkit_api_scheme \<Rightarrow> bundle_reader \<Rightarrow> u64 \<Rightarrow> u64 \<Rightarrow> nat \<Rightarrow> bytes list \<Rightarrow> bundle_stream \<Rightarrow> (bundle_error, bundle_stream) outcome" where
  "bundle_parts api r arrival_ns start_sequence offset [] st = Some (Inr st)"
| "bundle_parts api r arrival_ns start_sequence offset (part # parts) st =
     obind (bundle_part api r arrival_ns (sat_add start_sequence (of_nat offset)) part st)
       (bundle_parts api r arrival_ns start_sequence (Suc offset) parts)"

definition entry_parts :: "('z) soundkit_api_scheme \<Rightarrow> bundle_reader \<Rightarrow> u64 \<Rightarrow> tail_entry \<Rightarrow> (bundle_error, bytes list) outcome" where
  "entry_parts api r parts_per_response entry =
     (if parts_per_response = 1 then Some (Inr [te_payload entry])
      else map_option (map_err PartsNotSplit) (split_soundkit_opus_parts api (te_payload entry) (br_part_ms r)))"

definition note_responses :: "u64 \<Rightarrow> u64 \<Rightarrow> u64 \<Rightarrow> bundle_stream \<Rightarrow> bundle_stream" where
  "note_responses first_capture_ns final_capture_ns arrival_ns st =
     (let st = (if first_capture_ns \<le> arrival_ns
                then st\<lparr>bs_first_part := record_latency (arrival_ns - first_capture_ns) (bs_first_part st)\<rparr> else st) in
      if final_capture_ns \<le> arrival_ns
      then st\<lparr>bs_final_part := record_latency (arrival_ns - final_capture_ns) (bs_final_part st)\<rparr> else st)"

definition note_cache :: "bundle_reader \<Rightarrow> tail_entry \<Rightarrow> u64 \<Rightarrow> u64 \<Rightarrow> bundle_stream \<Rightarrow> bundle_stream" where
  "note_cache r entry final_capture_ns arrival_ns st =
     (case Option.bind (te_available_unix_us entry) (\<lambda>us. checked_mul us 1000) of
        None \<Rightarrow> st
      | Some available_ns \<Rightarrow>
          if final_capture_ns \<le> available_ns \<and> available_ns \<le> arrival_ns then
            st\<lparr>bs_publication_to_cache := record_latency (available_ns - final_capture_ns) (bs_publication_to_cache st),
               bs_cache_to_client := record_latency (arrival_ns - available_ns) (bs_cache_to_client st),
               bs_series := series_record_cache (sat_mul (te_end_sequence entry) (br_part_ms r))
                 (available_ns - final_capture_ns) (arrival_ns - available_ns) (bs_series st)\<rparr>
          else st)"

definition bundle_entry ::
  "('z) soundkit_api_scheme \<Rightarrow> bundle_reader \<Rightarrow> u64 \<Rightarrow> u64 \<Rightarrow> tail_entry \<Rightarrow> bundle_stream \<Rightarrow> (bundle_error, bundle_stream) outcome" where
  "bundle_entry api r parts_per_response arrival_ns entry st =
     obind (entry_parts api r parts_per_response entry) (\<lambda>parts.
       if length parts \<noteq> unat parts_per_response then Some (Inl PartCount)
       else
         let final_capture_ns = capture_ns_of r (te_end_sequence entry);
             st = st\<lparr>bs_media_responses := sat_add (bs_media_responses st) 1\<rparr>;
             st = note_responses (capture_ns_of r (te_start_sequence entry)) final_capture_ns arrival_ns st in
         obind (bundle_parts api r arrival_ns (te_start_sequence entry) 0 parts st) (\<lambda>st.
           Some (Inr (note_cache r entry final_capture_ns arrival_ns st))))"

fun bundle_entries ::
  "('z) soundkit_api_scheme \<Rightarrow> bundle_reader \<Rightarrow> u64 \<Rightarrow> u64 \<Rightarrow> bundle_stream list \<Rightarrow> tail_entry list
   \<Rightarrow> (bundle_error, bundle_stream list) outcome" where
  "bundle_entries api r parts_per_response arrival_ns (st # sts) (entry # entries) =
     obind (bundle_entry api r parts_per_response arrival_ns entry st) (\<lambda>st.
     obind (bundle_entries api r parts_per_response arrival_ns sts entries) (\<lambda>sts. Some (Inr (st # sts))))"
| "bundle_entries api r parts_per_response arrival_ns sts _ = Some (Inr sts)"

section \<open>The persistent response\<close>

record late_observation =
  lo_start_sequence :: u64
  lo_end_sequence :: u64
  lo_capture_unix_ns :: u64
  lo_arrival_unix_ns :: u64
  lo_availability_ns :: u64
  lo_lateness_ns :: u64
  lo_publication_to_cache_ns :: "u64 option"
  lo_cache_to_client_ns :: "u64 option"

definition max_late_bundle_observations :: nat where "max_late_bundle_observations = 512"

record bundle_run =
  bu_streams :: "bundle_stream list"
  bu_requested_sequence :: u64
  bu_media_responses :: u64
  bu_late :: "late_observation list"

definition greatest_available_us :: "tail_entry list \<Rightarrow> u64 option" where
  "greatest_available_us entries =
     (let us = List.map_filter te_available_unix_us entries in if us = [] then None else Some (Max (set us)))"

definition late_observation_of :: "bundle_reader \<Rightarrow> tail_entry list \<Rightarrow> tail_entry \<Rightarrow> u64 \<Rightarrow> late_observation" where
  "late_observation_of r entries entry arrival_ns =
     (let final_capture_ns = capture_ns_of r (te_end_sequence entry);
          latency_ns = sat_sub arrival_ns final_capture_ns;
          available_ns = Option.bind (greatest_available_us entries) (\<lambda>us. checked_mul us 1000) in
      \<lparr>lo_start_sequence = te_start_sequence entry, lo_end_sequence = te_end_sequence entry,
       lo_capture_unix_ns = final_capture_ns, lo_arrival_unix_ns = arrival_ns, lo_availability_ns = latency_ns,
       lo_lateness_ns = sat_sub latency_ns (sat_mul (br_deadline_ms r) 1000000),
       lo_publication_to_cache_ns = Option.bind available_ns (\<lambda>a. if final_capture_ns \<le> a then Some (a - final_capture_ns) else None),
       lo_cache_to_client_ns = Option.bind available_ns (\<lambda>a. if a \<le> arrival_ns then Some (arrival_ns - a) else None)\<rparr>)"

definition observe_late :: "bundle_reader \<Rightarrow> tail_entry list \<Rightarrow> u64 \<Rightarrow> late_observation list \<Rightarrow> late_observation list" where
  "observe_late r entries arrival_ns late =
     (case entries of
        [] \<Rightarrow> late
      | entry # _ \<Rightarrow>
          if sat_mul (br_deadline_ms r) 1000000 < sat_sub arrival_ns (capture_ns_of r (te_end_sequence entry))
             \<and> length late < max_late_bundle_observations
          then late @ [late_observation_of r entries entry arrival_ns] else late)"

definition bundle_frame ::
  "('z) soundkit_api_scheme \<Rightarrow> (bytes \<Rightarrow> tail_entry list option) \<Rightarrow> bundle_reader \<Rightarrow> u64 list \<Rightarrow> u64 \<Rightarrow> u64
   \<Rightarrow> bytes \<Rightarrow> u64 \<Rightarrow> bundle_run \<Rightarrow> (bundle_error, bundle_run) outcome" where
  "bundle_frame api decode r stream_ids initial parts_per_response frame arrival_ns b =
     (case decode frame of
        None \<Rightarrow> Some (Inl BundleNotDecoded)
      | Some entries \<Rightarrow>
          let requested = bu_requested_sequence b;
              expected_after = (if requested \<noteq> initial then Some (sat_sub requested 1) else None) in
          obind (Some (validate_tail_bundle_entries stream_ids entries expected_after initial parts_per_response)) (\<lambda>_.
          obind (bundle_entries api r parts_per_response arrival_ns (bu_streams b) entries) (\<lambda>sts.
            Some (Inr \<lparr>bu_streams = sts, bu_requested_sequence = sat_add requested parts_per_response,
                       bu_media_responses = sat_add (bu_media_responses b) 1,
                       bu_late = observe_late r entries arrival_ns (bu_late b)\<rparr>))))"

text \<open>A poll: the clock of the loop condition and what the response gave before its time was up.\<close>

datatype bundle_poll = NextFrame bytes u64 | ResponseEnded | FrameError

fun bundle_loop ::
  "('z) soundkit_api_scheme \<Rightarrow> (bytes \<Rightarrow> tail_entry list option) \<Rightarrow> bundle_reader \<Rightarrow> u64 list \<Rightarrow> u64 \<Rightarrow> u64 \<Rightarrow> u64 \<Rightarrow> u64 \<Rightarrow> u64
   \<Rightarrow> (u64 \<times> bundle_poll) list \<Rightarrow> bundle_run \<Rightarrow> (bundle_error, bundle_run) outcome" where
  "bundle_loop api decode r stream_ids initial parts_per_response expected_parts final_sequence stop_ns [] b = Some (Inr b)"
| "bundle_loop api decode r stream_ids initial parts_per_response expected_parts final_sequence stop_ns ((now, poll) # polls) b =
     (if now < stop_ns
         \<and> (case bu_streams b of [] \<Rightarrow> False | st # _ \<Rightarrow> pc_received_parts (bs_coverage st) < expected_parts)
         \<and> bu_requested_sequence b < final_sequence
      then case poll of
          FrameError \<Rightarrow> Some (Inl FrameFailed)
        | ResponseEnded \<Rightarrow> Some (Inr b)
        | NextFrame frame arrival_ns \<Rightarrow>
            obind (bundle_frame api decode r stream_ids initial parts_per_response frame arrival_ns b)
              (bundle_loop api decode r stream_ids initial parts_per_response expected_parts final_sequence stop_ns polls)
      else Some (Inr b))"

fun check_playlists :: "hls_audio_codec \<Rightarrow> bundle_stream list \<Rightarrow> (u16 \<times> bytes) list \<Rightarrow> bundle_error + bundle_stream list" where
  "check_playlists codec (st # sts) ((status, body) # playlists) =
     (if status \<noteq> 200 then Inl PlaylistStatus
      else if \<not> playlist_matches_format body codec then Inl PlaylistFormat
      else res_bind (check_playlists codec sts playlists) (\<lambda>sts. Inr (st\<lparr>bs_playlist_ok := True\<rparr> # sts)))"
| "check_playlists codec sts _ = Inr sts"

fun new_streams :: "(nat \<Rightarrow> bool) \<Rightarrow> u64 \<Rightarrow> u64 \<Rightarrow> u64 \<Rightarrow> u64 list \<Rightarrow> bundle_error + bundle_stream list" where
  "new_streams can_reserve start_sequence expected_parts part_ms [] = Inr []"
| "new_streams can_reserve start_sequence expected_parts part_ms (i # is) =
     res_bind (bundle_stream_new can_reserve i start_sequence expected_parts part_ms) (\<lambda>st.
     res_bind (new_streams can_reserve start_sequence expected_parts part_ms is) (\<lambda>sts. Inr (st # sts)))"

fun bundle_stream_ids :: "u64 \<Rightarrow> nat list \<Rightarrow> bundle_error + u64 list" where
  "bundle_stream_ids first [] = Inr []"
| "bundle_stream_ids first (offset # os) =
     res_bind (ok_or StreamIdOverflow (checked_add first (of_nat offset))) (\<lambda>i.
     res_bind (bundle_stream_ids first os) (\<lambda>is. Inr (i # is)))"

text \<open>\<^verbatim>\<open>receive_hls_bundle_customer\<close>: \<open>playlists\<close> are the answers to the requests made before the window, \<open>opened\<close> the status and
  content type of the persistent response. A part duration of zero divides by zero in the first line.\<close>

definition bundle_content_type :: string where "bundle_content_type = ''content-type''"

definition receive_hls_bundle_customer ::
  "('z) soundkit_api_scheme \<Rightarrow> (bytes \<Rightarrow> tail_entry list option) \<Rightarrow> (nat \<Rightarrow> bool) \<Rightarrow> string \<Rightarrow> bundle_reader \<Rightarrow> u64
   \<Rightarrow> (u16 \<times> bytes) list \<Rightarrow> u16 \<times> (string, string) assoc \<Rightarrow> (u64 \<times> bundle_poll) list \<Rightarrow> (bundle_error, bundle_run) outcome" where
  "receive_hls_bundle_customer api decode can_reserve stream_content_type r start_offset_ms playlists opened polls =
     (if br_part_ms r = 0 then None
      else
        let parts_per_response = br_response_ms r div br_part_ms r in
        obind (Some (map_err WindowError
          (hls_window_end_ms (br_duration_seconds r) start_offset_ms (br_window_seconds r) (br_part_ms r)))) (\<lambda>end_offset_ms.
        let initial = start_offset_ms div br_part_ms r;
            expected_parts = sat_sub end_offset_ms start_offset_ms div br_part_ms r in
        if (if parts_per_response = 0 then expected_parts \<noteq> 0 else expected_parts mod parts_per_response \<noteq> 0)
        then Some (Inl NotWholeResponses)
        else
          let stop_ns = sat_add (sat_add (br_session_id r) (sat_mul end_offset_ms 1000000)) (sat_mul (br_tail_seconds r) 1000000000) in
          obind (Some (bundle_stream_ids (br_stream_id r) [0..<br_stream_count r])) (\<lambda>stream_ids.
          obind (Some (new_streams can_reserve initial expected_parts (br_part_ms r) stream_ids)) (\<lambda>streams.
          obind (Some (check_playlists (br_codec r) streams playlists)) (\<lambda>streams.
          if fst opened \<noteq> 200 then Some (Inl BundleStatus)
          else if map_of (snd opened) bundle_content_type \<noteq> Some stream_content_type then Some (Inl BundleContentType)
          else bundle_loop api decode r stream_ids initial parts_per_response expected_parts
                 (end_offset_ms div br_part_ms r) stop_ns polls
                 \<lparr>bu_streams = streams, bu_requested_sequence = initial, bu_media_responses = 0, bu_late = []\<rparr>)))))"

end
