(* ===== verification/Probe_Bundle_Facts.thy ===== *)
theory Probe_Bundle_Facts
  imports Probe_Bundle Probe_Coverage_Facts
begin

text \<open>
  A reader of bundles stays in lockstep: every stream it reads has, at every step, exactly the same parts, and they are
  the first ones of its window without a gap.
\<close>

lemma le_mult_unat: "p \<noteq> 0 \<Longrightarrow> a \<le> a * unat (p :: u64)"
  by (cases "unat p") (simp_all add: unat_eq_zero)

section \<open>One stream\<close>

text \<open>The stream has the first \<open>n\<close> parts of its window and no other.\<close>

definition prefix_read :: "u64 \<Rightarrow> u64 \<Rightarrow> u64 \<Rightarrow> nat \<Rightarrow> bundle_stream \<Rightarrow> bool" where
  "prefix_read initial part_ms expected n st \<longleftrightarrow>
     coverage_wf (bs_coverage st) \<and> seen (bs_coverage st) = {..<n} \<and> pc_start_sequence (bs_coverage st) = initial
     \<and> pc_part_ms (bs_coverage st) = part_ms \<and> pc_expected_parts (bs_coverage st) = expected"

lemma note_responses_coverage [simp]: "bs_coverage (note_responses f l a st) = bs_coverage st"
    and note_responses_id [simp]: "bs_stream_id (note_responses f l a st) = bs_stream_id st"
    and note_cache_coverage [simp]: "bs_coverage (note_cache r e l a st) = bs_coverage st"
    and note_cache_id [simp]: "bs_stream_id (note_cache r e l a st) = bs_stream_id st"
  by (simp_all add: note_responses_def note_cache_def Let_def split: option.splits)

lemma bundle_part_prefix:
  assumes part: "bundle_part api r arrival s bs st = Some (Inr st')"
    and pre: "prefix_read initial (br_part_ms r) expected n st"
    and s: "unat s = unat initial + n" and n: "n < unat expected" and room: "unat expected < 2 ^ 63"
    and small: "unat s * unat (br_part_ms r) < 2 ^ 64"
  shows "prefix_read initial (br_part_ms r) expected (Suc n) st' \<and> bs_stream_id st' = bs_stream_id st"
proof -
  let ?pc = "bs_coverage st" and ?pts = "sat_mul s (br_part_ms r)"
  have wf: "coverage_wf ?pc" and seen: "seen ?pc = {..<n}" and w: "pc_start_sequence ?pc = initial"
      "pc_part_ms ?pc = br_part_ms r" "pc_expected_parts ?pc = expected"
    using pre by (simp_all add: prefix_read_def)
  have p: "pc_part_ms ?pc \<noteq> 0" using wf by (simp add: coverage_wf_def)
  have "unat ?pts = unat s * unat (br_part_ms r)" using small by (simp add: unat_sat_mul)
  then have "part_of_pts ?pc ?pts = Some n" using p n by (simp add: part_of_pts_Some w s)
  from insert_pts_some [OF wf this] room obtain pc' where
    ins: "insert_pts ?pts ?pc = Some (True, pc')" "same_window ?pc pc'" "coverage_wf pc'" "seen pc' = insert n (seen ?pc)"
    by (auto simp: w seen)
  from part ins(1) have "bs_coverage st' = pc'" "bs_stream_id st' = bs_stream_id st"
    by (auto simp: bundle_part_def Let_def split: option.splits)
  with ins(2-4) w seen show ?thesis by (simp add: prefix_read_def same_window_def lessThan_Suc)
qed

lemma bundle_parts_prefix:
  assumes "bundle_parts api r arrival start offset parts st = Some (Inr st')"
    and "prefix_read initial (br_part_ms r) expected n st"
    and "unat start + offset = unat initial + n" and "n + length parts \<le> unat expected" and "unat expected < 2 ^ 63"
    and "(unat initial + unat expected) * unat (br_part_ms r) < 2 ^ 64" and "br_part_ms r \<noteq> 0"
  shows "prefix_read initial (br_part_ms r) expected (n + length parts) st' \<and> bs_stream_id st' = bs_stream_id st"
  using assms
proof (induction parts arbitrary: offset st n)
  case (Cons part parts)
  let ?s = "sat_add start (of_nat offset)"
  from Cons.prems(1) obtain st1 where one: "bundle_part api r arrival ?s part st = Some (Inr st1)"
      and more: "bundle_parts api r arrival start (Suc offset) parts st1 = Some (Inr st')" by auto
  have n: "n < unat expected" using Cons.prems(4) by simp
  have "unat initial + unat expected \<le> (unat initial + unat expected) * unat (br_part_ms r)"
    by (rule le_mult_unat) (rule Cons.prems(7))
  then have fits: "unat initial + unat expected < 2 ^ 64" using Cons.prems(6) by linarith
  have "unat (of_nat offset :: u64) = offset" using Cons.prems(3) n fits by (intro of_nat_u64) linarith
  then have s: "unat ?s = unat initial + n" using Cons.prems(3) n fits by (simp add: unat_sat_add)
  have "unat ?s * unat (br_part_ms r) \<le> (unat initial + unat expected) * unat (br_part_ms r)"
    using s n by (intro mult_right_mono) auto
  then have "unat ?s * unat (br_part_ms r) < 2 ^ 64" using Cons.prems(6) by linarith
  from bundle_part_prefix [OF one Cons.prems(2) s n Cons.prems(5) this]
  have step: "prefix_read initial (br_part_ms r) expected (Suc n) st1" "bs_stream_id st1 = bs_stream_id st" by auto
  from Cons.IH [OF more step(1)] Cons.prems(3-7) step(2) show ?case by simp
qed simp

lemma bundle_entry_prefix:
  assumes "bundle_entry api r pp arrival e st = Some (Inr st')"
    and "prefix_read initial (br_part_ms r) expected n st"
    and "unat (te_start_sequence e) = unat initial + n" and "n + unat pp \<le> unat expected" and "unat expected < 2 ^ 63"
    and "(unat initial + unat expected) * unat (br_part_ms r) < 2 ^ 64" and "br_part_ms r \<noteq> 0"
  shows "prefix_read initial (br_part_ms r) expected (n + unat pp) st' \<and> bs_stream_id st' = bs_stream_id st"
proof -
  let ?st = "note_responses (capture_ns_of r (te_start_sequence e)) (capture_ns_of r (te_end_sequence e)) arrival
    (st\<lparr>bs_media_responses := sat_add (bs_media_responses st) 1\<rparr>)"
  obtain st1 where st1: "st1 = ?st" by simp
  then have same: "bs_coverage st1 = bs_coverage st" "bs_stream_id st1 = bs_stream_id st" by simp_all
  from assms(1) obtain parts st2 where len: "length parts = unat pp"
      and parts: "bundle_parts api r arrival (te_start_sequence e) 0 parts st1 = Some (Inr st2)"
      and last: "st' = note_cache r e (capture_ns_of r (te_end_sequence e)) arrival st2"
    by (auto simp: bundle_entry_def Let_def st1 split: if_splits)
  have "prefix_read initial (br_part_ms r) expected n st1" using assms(2) same by (simp add: prefix_read_def)
  from bundle_parts_prefix [OF parts this] assms(3-7) len same last show ?thesis by (simp add: prefix_read_def)
qed

section \<open>One bundle\<close>

lemma entries_match_ok:
  "entries_match a z ids es = Inr u \<Longrightarrow> length ids = length es \<Longrightarrow> list_all (\<lambda>e. te_start_sequence e = a) es"
  by (induction a z ids es rule: entries_match.induct) (auto split: if_splits)

lemma bundle_entries_prefix:
  assumes "bundle_entries api r pp arrival sts es = Some (Inr sts')" and "length es = length sts"
    and "list_all (prefix_read initial (br_part_ms r) expected n) sts"
    and "list_all (\<lambda>e. unat (te_start_sequence e) = unat initial + n) es" and "n + unat pp \<le> unat expected"
    and "unat expected < 2 ^ 63" and "(unat initial + unat expected) * unat (br_part_ms r) < 2 ^ 64" and "br_part_ms r \<noteq> 0"
  shows "list_all (prefix_read initial (br_part_ms r) expected (n + unat pp)) sts' \<and> map bs_stream_id sts' = map bs_stream_id sts"
  using assms
proof (induction sts arbitrary: es sts')
  case (Cons st sts)
  from Cons.prems(2) obtain e es' where es: "es = e # es'" by (cases es) auto
  from Cons.prems(1) es obtain st' sts1 where one: "bundle_entry api r pp arrival e st = Some (Inr st')"
      and rest: "bundle_entries api r pp arrival sts es' = Some (Inr sts1)" "sts' = st' # sts1" by auto
  from bundle_entry_prefix [OF one] Cons.IH [OF rest(1)] Cons.prems(2-) rest(2) es show ?case by auto
qed simp

section \<open>The run\<close>

definition lockstep :: "u64 \<Rightarrow> u64 \<Rightarrow> u64 \<Rightarrow> u64 \<Rightarrow> u64 list \<Rightarrow> bundle_run \<Rightarrow> bool" where
  "lockstep initial part_ms expected pp ids b \<longleftrightarrow>
     (let n = unat (bu_requested_sequence b) - unat initial in
      unat (bu_requested_sequence b) = unat initial + n \<and> n = unat (bu_media_responses b) * unat pp \<and> n \<le> unat expected
      \<and> list_all (prefix_read initial part_ms expected n) (bu_streams b) \<and> map bs_stream_id (bu_streams b) = ids)"

lemma lockstepI:
  "unat (bu_requested_sequence b) = unat initial + n \<Longrightarrow> n = unat (bu_media_responses b) * unat pp \<Longrightarrow> n \<le> unat expected \<Longrightarrow>
   list_all (prefix_read initial part_ms expected n) (bu_streams b) \<Longrightarrow> map bs_stream_id (bu_streams b) = ids \<Longrightarrow>
   lockstep initial part_ms expected pp ids b"
  by (simp add: lockstep_def)

lemma lockstepD:
  assumes "lockstep initial part_ms expected pp ids b"
  obtains n where "unat (bu_requested_sequence b) = unat initial + n" "n = unat (bu_media_responses b) * unat pp"
    "n \<le> unat expected" "list_all (prefix_read initial part_ms expected n) (bu_streams b)" "map bs_stream_id (bu_streams b) = ids"
  using assms by (auto simp: lockstep_def Let_def)

text \<open>What the reader checks of its window before the first bundle.\<close>

definition window_ok :: "bundle_reader \<Rightarrow> u64 \<Rightarrow> u64 \<Rightarrow> u64 \<Rightarrow> bool" where
  "window_ok r initial expected pp \<longleftrightarrow> unat expected < 2 ^ 63 \<and> br_part_ms r \<noteq> 0
     \<and> (unat initial + unat expected) * unat (br_part_ms r) < 2 ^ 64 \<and> 0 < unat pp \<and> unat pp dvd unat expected"

lemma window_fits: "window_ok r initial expected pp \<Longrightarrow> unat initial + unat expected < 2 ^ 64"
proof -
  assume w: "window_ok r initial expected pp"
  then have "unat initial + unat expected \<le> (unat initial + unat expected) * unat (br_part_ms r)"
    by (intro le_mult_unat) (simp add: window_ok_def)
  also have "\<dots> < 2 ^ 64" using w by (simp add: window_ok_def)
  finally show ?thesis .
qed

lemma dvd_room: "(p :: nat) dvd e \<Longrightarrow> p dvd n \<Longrightarrow> n < e \<Longrightarrow> n + p \<le> e"
  by (metis add.commute dvd_diff_nat dvd_imp_le le_diff_conv2 less_imp_le_nat zero_less_diff)

lemma expected_start_is_requested:
  fixes requested initial :: u64
  assumes "unat initial \<le> unat requested"
  shows "(case Option.bind (if requested \<noteq> initial then Some (sat_sub requested 1) else None) (\<lambda>s. checked_add s 1) of
      Some s \<Rightarrow> s | None \<Rightarrow> initial) = requested"
proof (cases "requested = initial")
  case False
  with assms have "0 < unat requested" by (metis gr0I le_zero_eq word_unat_eq_iff)
  then have "unat (sat_sub requested 1) = unat requested - 1" by (simp add: unat_sat_sub)
  then have "checked_add (sat_sub requested 1) 1 = Some requested"
    using \<open>0 < unat requested\<close> by (simp add: checked_add_eq_Some)
  with False show ?thesis by simp
qed simp

lemma bundle_frame_lockstep:
  assumes frame: "bundle_frame api decode r ids initial pp frame arrival b = Some (Inr b')"
    and inv: "lockstep initial (br_part_ms r) expected pp ids b" and w: "window_ok r initial expected pp"
    and more: "unat (bu_requested_sequence b) < unat initial + unat expected"
  shows "lockstep initial (br_part_ms r) expected pp ids b'"
proof -
  from inv obtain n where n: "unat (bu_requested_sequence b) = unat initial + n" "n = unat (bu_media_responses b) * unat pp"
      "n \<le> unat expected" "list_all (prefix_read initial (br_part_ms r) expected n) (bu_streams b)"
      "map bs_stream_id (bu_streams b) = ids" by (rule lockstepD)
  let ?req = "bu_requested_sequence b"
  from frame obtain es sts u where
      valid: "validate_tail_bundle_entries ids es (if ?req \<noteq> initial then Some (sat_sub ?req 1) else None) initial pp = Inr u"
      and entries: "bundle_entries api r pp arrival (bu_streams b) es = Some (Inr sts)"
      and b': "bu_streams b' = sts" "bu_requested_sequence b' = sat_add ?req pp"
        "bu_media_responses b' = sat_add (bu_media_responses b) 1"
    by (auto simp: bundle_frame_def Let_def split: option.splits)
  have start: "(case Option.bind (if ?req \<noteq> initial then Some (sat_sub ?req 1) else None) (\<lambda>s. checked_add s 1) of
      Some s \<Rightarrow> s | None \<Rightarrow> initial) = ?req"
    by (rule expected_start_is_requested) (simp add: n(1))
  from valid obtain z where len: "length es = length ids" and "entries_match ?req z ids es = Inr u"
    unfolding validate_tail_bundle_entries_def start by (auto simp: Let_def res_ok split: if_splits)
  then have starts: "list_all (\<lambda>e. unat (te_start_sequence e) = unat initial + n) es"
    using entries_match_ok [of ?req z ids es u] n(1) by (simp add: list_all_iff)
  have step: "n + unat pp \<le> unat expected"
    using w more n(1,2) by (intro dvd_room) (auto simp: window_ok_def)
  have "length es = length (bu_streams b)" using len n(5) by (metis length_map)
  from bundle_entries_prefix [OF entries this n(4) starts step] w
  have sts: "list_all (prefix_read initial (br_part_ms r) expected (n + unat pp)) sts" "map bs_stream_id sts = ids"
    by (simp_all add: window_ok_def n(5))
  have req: "unat (sat_add ?req pp) = unat initial + (n + unat pp)"
    using step window_fits [OF w] n(1) by (simp add: unat_sat_add)
  have "unat (bu_media_responses b) \<le> n" using w n(2) by (simp add: window_ok_def)
  then have "unat (sat_add (bu_media_responses b) 1) = unat (bu_media_responses b) + 1"
    using n(3) w by (simp add: unat_sat_add window_ok_def)
  then show ?thesis using req step sts by (intro lockstepI [of b' initial "n + unat pp"]) (simp_all add: b' n(2))
qed

lemma bundle_loop_lockstep:
  assumes "bundle_loop api decode r ids initial pp expected final stop polls b = Some (Inr b')"
    and "lockstep initial (br_part_ms r) expected pp ids b" and "window_ok r initial expected pp"
    and "unat final = unat initial + unat expected"
  shows "lockstep initial (br_part_ms r) expected pp ids b'"
  using assms
proof (induction polls arbitrary: b)
  case (Cons p polls)
  obtain now poll where p: "p = (now, poll)" by (cases p)
  show ?case
  proof (cases "b' = b")
    case False
    with Cons.prems(1) p obtain frame arrival b1 where
        step: "bundle_frame api decode r ids initial pp frame arrival b = Some (Inr b1)" "bu_requested_sequence b < final"
        "bundle_loop api decode r ids initial pp expected final stop polls b1 = Some (Inr b')"
      by (auto split: if_splits bundle_poll.splits)
    have "unat (bu_requested_sequence b) < unat initial + unat expected"
      using step(2) Cons.prems(4) by (simp add: word_less_nat_alt)
    from Cons.IH [OF step(3) bundle_frame_lockstep [OF step(1) Cons.prems(2,3) this] Cons.prems(3,4)] show ?thesis .
  qed (use Cons.prems(2) in simp)
qed simp

section \<open>From the command line to the last bundle\<close>

lemma bundle_stream_ids_ok:
  "bundle_stream_ids first os = Inr ids \<Longrightarrow> list_all (\<lambda>i. i < 2 ^ 64) os \<Longrightarrow> map unat ids = map (\<lambda>i. unat first + i) os"
  by (induction os arbitrary: ids) (auto simp: res_ok checked_add_eq_Some of_nat_u64 simp del: of_nat_add)

lemma new_streams_ok:
  assumes "new_streams can_reserve initial expected part_ms ids = Inr sts" and "0 < part_ms" and "unat expected < 2 ^ 63"
  shows "list_all (prefix_read initial part_ms expected 0) sts \<and> map bs_stream_id sts = ids
    \<and> list_all (\<lambda>st. pc_received_parts (bs_coverage st) = 0) sts"
  using assms
proof (induction ids arbitrary: sts)
  case (Cons i ids)
  from Cons.prems(1) obtain st sts1 where st: "bundle_stream_new can_reserve i initial expected part_ms = Inr st"
      and sts: "new_streams can_reserve initial expected part_ms ids = Inr sts1" "sts = st # sts1"
    by (auto simp: res_ok)
  from st have pc: "part_coverage_new can_reserve initial expected part_ms = Inr (bs_coverage st)" and id: "bs_stream_id st = i"
    by (auto simp: res_ok bundle_stream_new_def)
  note new = part_coverage_new_ok [OF pc Cons.prems(2,3)]
  have "pc_received_parts (bs_coverage st) = 0" using new(1,2) by (simp add: coverage_wf_def unat_eq_zero)
  with Cons.IH [OF sts(1) Cons.prems(2,3)] new id sts(2) show ?case by (simp add: prefix_read_def)
qed simp

lemma check_playlists_ok:
  "check_playlists codec sts ps = Inr sts' \<Longrightarrow> map bs_stream_id sts' = map bs_stream_id sts
     \<and> (list_all (\<lambda>st. P (bs_coverage st)) sts \<longrightarrow> list_all (\<lambda>st. P (bs_coverage st)) sts')"
  by (induction codec sts ps arbitrary: sts' rule: check_playlists.induct) (auto simp: res_ok split: if_splits)

text \<open>The memory for the bit set of a window: less than four exabytes can be reserved.\<close>

definition reserve_bounded :: "(nat \<Rightarrow> bool) \<Rightarrow> bool" where
  "reserve_bounded can_reserve \<longleftrightarrow> (\<forall>n. can_reserve n \<longrightarrow> n < 2 ^ 57)"

lemma new_streams_room:
  assumes "new_streams can_reserve initial expected part_ms ids = Inr sts" and "reserve_bounded can_reserve" and "ids \<noteq> []"
  shows "unat expected < 2 ^ 63"
proof -
  from assms(1,3) obtain i st where "bundle_stream_new can_reserve i initial expected part_ms = Inr st"
    by (cases ids) (auto simp: res_ok)
  then have "can_reserve (unat (sat_add expected 63 div 64))"
    by (auto simp: bundle_stream_new_def part_coverage_new_def res_ok Let_def split: if_splits)
  then have "unat (sat_add expected 63) div 64 < 2 ^ 57" using assms(2) by (simp add: reserve_bounded_def unat_div_distrib)
  then have "unat (sat_add expected 63) < 2 ^ 63" by (simp add: div_less_iff_less_mult)
  then show ?thesis by (simp add: unat_sat_add min_def split: if_splits)
qed

lemma bundle_loop_idle:
  assumes "bundle_loop api decode r ids initial pp expected final stop polls b = Some (Inr b')"
    and "list_all (\<lambda>st. expected \<le> pc_received_parts (bs_coverage st)) (bu_streams b)"
  shows "b' = b"
  using assms by (cases polls) (auto simp: not_less [symmetric] split: list.splits prod.splits if_splits)

text \<open>The parts of a window that starts and ends on whole parts.\<close>

lemma window_parts:
  fixes start end_ms part :: u64
  assumes "0 < part" and "start < end_ms" and "start mod part = 0" and "end_ms mod part = 0"
  shows "unat (end_ms div part) = unat (start div part) + unat (sat_sub end_ms start div part)"
    and "(unat (start div part) + unat (sat_sub end_ms start div part)) * unat part = unat end_ms"
proof -
  have "unat part dvd unat start" "unat part dvd unat end_ms"
    using assms(3,4) by (simp_all add: word_unat_eq_iff unat_mod_distrib mod_0_imp_dvd del: unsigned_eq_0_iff)
  then obtain a b where ab: "unat start = unat part * a" "unat end_ms = unat part * b" by (auto elim!: dvdE)
  have p: "0 < unat part" using assms(1) by (simp add: word_less_nat_alt)
  have le: "unat start \<le> unat end_ms" using assms(2) by (simp add: word_less_nat_alt)
  have "unat (sat_sub end_ms start) = unat part * (b - a)" by (simp add: unat_sat_sub ab diff_mult_distrib2)
  moreover have "a \<le> b" using le p by (simp add: ab)
  ultimately show "unat (end_ms div part) = unat (start div part) + unat (sat_sub end_ms start div part)"
      "(unat (start div part) + unat (sat_sub end_ms start div part)) * unat part = unat end_ms"
    using p by (simp_all add: unat_div_distrib ab mult.commute)
qed

lemma customer_lockstep:
  assumes run: "receive_hls_bundle_customer api decode can_reserve content_type r start_ms playlists opened polls = Some (Inr b)"
    and res: "reserve_bounded can_reserve" and count: "fits_usize (br_stream_count r)"
  shows "\<exists>ids expected. map unat ids = map (\<lambda>i. unat (br_stream_id r) + i) [0..<br_stream_count r]
    \<and> lockstep (start_ms div br_part_ms r) (br_part_ms r) expected (br_response_ms r div br_part_ms r) ids b"
proof -
  let ?part = "br_part_ms r" and ?pp = "br_response_ms r div br_part_ms r" and ?initial = "start_ms div br_part_ms r"
  from run obtain end_ms ids streams checked stop where
      window: "hls_window_end_ms (br_duration_seconds r) start_ms (br_window_seconds r) ?part = Inr end_ms"
      and whole: "\<not> (if ?pp = 0 then sat_sub end_ms start_ms div ?part \<noteq> 0 else sat_sub end_ms start_ms div ?part mod ?pp \<noteq> 0)"
      and ids: "bundle_stream_ids (br_stream_id r) [0..<br_stream_count r] = Inr ids"
      and new: "new_streams can_reserve ?initial (sat_sub end_ms start_ms div ?part) ?part ids = Inr streams"
      and checked: "check_playlists (br_codec r) streams playlists = Inr checked"
      and loop: "bundle_loop api decode r ids ?initial ?pp (sat_sub end_ms start_ms div ?part) (end_ms div ?part) stop polls
         \<lparr>bu_streams = checked, bu_requested_sequence = ?initial, bu_media_responses = 0, bu_late = []\<rparr> = Some (Inr b)"
    unfolding receive_hls_bundle_customer_def Let_def
    by (simp only: obind_eq_Inr res_ok option.inject if_fails) blast
  let ?expected = "sat_sub end_ms start_ms div ?part"
  let ?b0 = "\<lparr>bu_streams = checked, bu_requested_sequence = ?initial, bu_media_responses = 0, bu_late = []\<rparr>"
  note ends = hls_window_whole_parts [OF window]
  note parts = window_parts [OF ends(1,2,4,5)]
  have idn: "map unat ids = map (\<lambda>i. unat (br_stream_id r) + i) [0..<br_stream_count r]"
    using count by (intro bundle_stream_ids_ok [OF ids]) (auto simp: list_all_iff fits_usize_def)
  have room: "ids \<noteq> [] \<Longrightarrow> unat ?expected < 2 ^ 63" by (rule new_streams_room [OF new res])
  have "list_all (prefix_read ?initial ?part ?expected 0) streams \<and> map bs_stream_id streams = ids
      \<and> list_all (\<lambda>st. pc_received_parts (bs_coverage st) = 0) streams"
    using new_streams_ok [OF new ends(1)] room new by (cases "ids = []") auto
  then have b0: "list_all (prefix_read ?initial ?part ?expected 0) checked" "map bs_stream_id checked = ids"
      "list_all (\<lambda>st. pc_received_parts (bs_coverage st) = 0) checked"
    using check_playlists_ok [OF checked, where P = "\<lambda>pc. pc_received_parts pc = 0"]
      check_playlists_ok [OF checked, where P = "\<lambda>pc. coverage_wf pc \<and> seen pc = {..<0} \<and> pc_start_sequence pc = ?initial
        \<and> pc_part_ms pc = ?part \<and> pc_expected_parts pc = ?expected"]
    unfolding prefix_read_def by simp_all
  have start: "lockstep ?initial ?part ?expected ?pp ids ?b0" using b0 by (intro lockstepI [of _ _ 0]) simp_all
  show ?thesis
  proof (cases "ids = [] \<or> ?pp = 0")
    case True
    then have "list_all (\<lambda>st. ?expected \<le> pc_received_parts (bs_coverage st)) checked"
      using whole b0(2,3) by (auto simp: list_all_iff)
    with bundle_loop_idle [OF loop] idn start show ?thesis by auto
  next
    case False
    have "ids \<noteq> []" and pp: "?pp \<noteq> 0" using False by simp_all
    have "?expected mod ?pp = 0" using whole pp by presburger
    then have "unat ?expected mod unat ?pp = 0" by (simp only: unat_mod_distrib [symmetric] unsigned_0)
    then have "unat ?pp dvd unat ?expected" by (rule dvd_eq_mod_eq_0 [THEN iffD2])
    moreover have "0 < unat ?pp" using pp unat_eq_zero [of ?pp] by (intro gr0I) blast
    moreover have "(unat ?initial + unat ?expected) * unat ?part < 2 ^ 64"
      unfolding parts(2) using unat_lt2p [of end_ms] by simp
    moreover have "?part \<noteq> 0" using ends(1) by (simp add: word_gt_0)
    ultimately have "window_ok r ?initial ?expected ?pp"
      unfolding window_ok_def using room [OF \<open>ids \<noteq> []\<close>] by blast
    from bundle_loop_lockstep [OF loop start this parts(1)] idn show ?thesis by auto
  qed
qed

section \<open>Evaluation\<close>

text \<open>The same operations over integers, which a generated evaluator computes in binary.\<close>

lemma unat_less_uint: "unat a + unat b < 2 ^ n \<longleftrightarrow> uint a + uint b < 2 ^ n" "unat a * unat b < 2 ^ n \<longleftrightarrow> uint a * uint b < 2 ^ n"
  by (simp_all flip: of_nat_less_iff [where 'a = int])

lemma saturating_code [code]:
  "sat_add a b = (if uint a + uint b < 2 ^ LENGTH('a) then a + b else - 1)"
  "sat_mul a b = (if uint a * uint b < 2 ^ LENGTH('a) then a * b else - 1)"
  "checked_add a b = (if uint a + uint b < 2 ^ LENGTH('a) then Some (a + b) else None)"
  "checked_mul a b = (if uint a * uint b < 2 ^ LENGTH('a) then Some (a * b) else None)"
  for a b :: "'a::len word"
  by (simp_all add: sat_add_def sat_mul_def checked_add_def checked_mul_def unat_less_uint)

lemma record_latency_code [code]:
  "record_latency value_ns ls =
     (let ls = ls\<lparr>ls_observations := sat_add (ls_observations ls) 1\<rparr> in
      if int (length (ls_values_ns ls)) < 65536 then ls\<lparr>ls_values_ns := ls_values_ns ls @ [value_ns]\<rparr>
      else let slot = deterministic_sample_index (ls_observations ls) mod ls_observations ls in
        if slot < 65536 then ls\<lparr>ls_values_ns := (ls_values_ns ls)[unat slot := value_ns]\<rparr>
        else ls)"
  by (simp add: record_latency_def max_latency_samples_def Let_def)

section \<open>Lockstep\<close>


definition demo_reader :: bundle_reader where
  "demo_reader = \<lparr>br_stream_id = 7, br_stream_count = 2, br_session_id = 0, br_duration_seconds = 1, br_window_seconds = None,
     br_part_ms = 250, br_response_ms = 250, br_deadline_ms = 100, br_tail_seconds = 1, br_codec = HlsSoundkitOpus\<rparr>"

definition demo_entry :: "u64 \<Rightarrow> u64 \<Rightarrow> tail_entry" where
  "demo_entry stream s = \<lparr>te_stream_id = stream, te_start_sequence = s, te_end_sequence = s, te_available_unix_us = None,
     te_payload = []\<rparr>"

definition demo_decode :: "bytes \<Rightarrow> tail_entry list option" where
  "demo_decode frame = Some (map (\<lambda>i. demo_entry i (ucast (hd frame))) [7, 8])"

definition demo_api :: soundkit_api where
  "demo_api = \<lparr>sk_header_size = (\<lambda>_. None), sk_decode = (\<lambda>_. None), sk_verify_crc = (\<lambda>_ _ _. None)\<rparr>"

definition demo_run :: "(bundle_error, bundle_run) outcome" where
  "demo_run = receive_hls_bundle_customer demo_api demo_decode (\<lambda>n. n < 100) ''bundle'' demo_reader 500
     (let body = bytes_of_str ''#EXT-X-PART: CAN-BLOCK-RELOAD=YES .bin'' in [(200, body), (200, body)])
     (200, [(bundle_content_type, ''bundle'')]) [(0, NextFrame [2] 550000000), (0, ResponseEnded)]"

lemma demo_run_result:
  "case demo_run of
     Some (Inr b) \<Rightarrow> bu_media_responses b = 1 \<and> map bs_stream_id (bu_streams b) = [7, 8]
   | _ \<Rightarrow> False"
  by code_simp


end
