(* ===== verification/Probe_Receive.thy ===== *)
theory Probe_Receive
  imports Probe_Wire Probe_Coverage Outcome
begin

text \<open>
  The two receivers of audio groups in \<^verbatim>\<open>src/src/bin/aep1-48k-probe.rs\<close>: \<^verbatim>\<open>receive_udp\<close>, which subscribes at a relay and
  counts several groups, and \<^verbatim>\<open>receive_webtransport\<close>, which opens a session at an edge and counts one. The transport
  envelope, the datagram inspection and the group receiver belong to other crates and are parameters. A poll of the
  socket comes with the clock read before it; what arrives comes with the clock read after the receiver took it. The
  system clock is past the epoch.
\<close>

section \<open>Groups in, counters up\<close>

record receiver_stats =
  rv_datagrams :: u64
  rv_systematic :: u64
  rv_recovered :: u64
  rv_duplicate_or_late :: u64

record 'rcv receive_api =
  ra_payload :: "bytes \<Rightarrow> bytes option"
  ra_is_source :: "bytes \<Rightarrow> bool option"
  ra_push :: "bytes \<Rightarrow> 'rcv \<Rightarrow> string + audio_group list \<times> 'rcv"
  ra_stats :: "'rcv \<Rightarrow> receiver_stats"
  ra_new :: 'rcv

record 'rcv receiving =
  rc_receiver :: 'rcv
  rc_states :: "(u16 \<times> receive_format_state) list"
  rc_wire_bytes :: u64
  rc_source :: u64
  rc_repair :: u64

datatype receive_error =
  ReceiveOptions string | AckTimedOut | UnexpectedAck | PushRefused string | SocketFailed | NoHttp200 | ResponseCut
| ContextCut string | ReportMissing

fun observe_first :: "u64 \<Rightarrow> u64 \<Rightarrow> audio_group \<Rightarrow> (u16 \<times> receive_format_state) list \<Rightarrow> (u16 \<times> receive_format_state) list option" where
  "observe_first arrival_ns deadline_ms g [] = Some []"
| "observe_first arrival_ns deadline_ms g ((group_id, st) # sts) =
     (if group_id = ag_group_id g
      then map_option (\<lambda>st. (group_id, st) # sts) (observe_group arrival_ns deadline_ms g st)
      else map_option (\<lambda>sts. (group_id, st) # sts) (observe_first arrival_ns deadline_ms g sts))"

fun observe_groups ::
  "u64 \<Rightarrow> u64 \<Rightarrow> u64 \<Rightarrow> audio_group list \<Rightarrow> (u16 \<times> receive_format_state) list \<Rightarrow> (u16 \<times> receive_format_state) list option" where
  "observe_groups session_id arrival_ns deadline_ms [] sts = Some sts"
| "observe_groups session_id arrival_ns deadline_ms (g # gs) sts =
     (if ag_session_id g \<noteq> session_id then observe_groups session_id arrival_ns deadline_ms gs sts
      else case observe_first arrival_ns deadline_ms g sts of
        None \<Rightarrow> None
      | Some sts \<Rightarrow> observe_groups session_id arrival_ns deadline_ms gs sts)"

definition count_identity :: "bool option \<Rightarrow> ('rcv, 'z) receiving_scheme \<Rightarrow> ('rcv, 'z) receiving_scheme" where
  "count_identity identity rc =
     (case identity of
        None \<Rightarrow> rc
      | Some True \<Rightarrow> rc\<lparr>rc_source := sat_add (rc_source rc) 1\<rparr>
      | Some False \<Rightarrow> rc\<lparr>rc_repair := sat_add (rc_repair rc) 1\<rparr>)"

definition take_payload ::
  "('rcv, 'y) receive_api_scheme \<Rightarrow> u64 \<Rightarrow> u64 \<Rightarrow> bytes \<Rightarrow> nat \<Rightarrow> u64 \<Rightarrow> ('rcv, 'z) receiving_scheme
   \<Rightarrow> (receive_error, ('rcv, 'z) receiving_scheme) outcome" where
  "take_payload api session_id deadline_ms payload len arrival_ns rc =
     (let rc = count_identity (ra_is_source api payload) rc;
          rc = rc\<lparr>rc_wire_bytes := sat_add (rc_wire_bytes rc) (of_nat len)\<rparr> in
      case ra_push api payload (rc_receiver rc) of
        Inl e \<Rightarrow> Some (Inl (PushRefused e))
      | Inr (groups, receiver) \<Rightarrow>
          map_option (\<lambda>sts. Inr (rc\<lparr>rc_receiver := receiver, rc_states := sts\<rparr>))
            (observe_groups session_id arrival_ns deadline_ms groups (rc_states rc)))"

section \<open>Reports\<close>

record receive_report =
  rr_schema :: string
  rr_lane :: string
  rr_session_id :: u64
  rr_group_id :: u16
  rr_formats :: "receive_audio_format list"
  rr_sample_rate :: u32
  rr_duration_seconds :: u64
  rr_expected_epochs :: u64
  rr_received_epochs :: u64
  rr_missing_epochs :: u64
  rr_deadline_ms :: u64
  rr_deadline_misses :: u64
  rr_counter_scope :: string
  rr_datagrams :: u64
  rr_source :: u64
  rr_repair :: u64
  rr_systematic :: u64
  rr_recovered :: u64
  rr_selected_recovered :: u64
  rr_opus_epochs :: u64
  rr_flac_epochs :: u64
  rr_pcm_epochs :: u64
  rr_erasure_epochs :: u64
  rr_unexpected_epochs :: u64
  rr_discontinuity_epochs :: u64
  rr_expected_pcm_frames :: u64
  rr_received_pcm_frames :: u64
  rr_missing_pcm_frames :: u64
  rr_duplicate_or_late :: u64
  rr_transport_duplicate_or_late :: u64
  rr_wire_bytes :: u64
  rr_latency :: percentiles
  rr_time_series :: "udp_latency_bucket list"

definition receive_report_of ::
  "string \<Rightarrow> string \<Rightarrow> bool \<Rightarrow> u64 \<Rightarrow> u64 \<Rightarrow> u64 \<Rightarrow> receiver_stats \<Rightarrow> ('rcv, 'z) receiving_scheme
   \<Rightarrow> u16 \<Rightarrow> receive_format_state \<Rightarrow> udp_latency_bucket list \<Rightarrow> receive_report" where
  "receive_report_of schema lane shared session_id duration_seconds deadline_ms stats rc group_id st series =
     (let selected_formats = of_nat (length (rf_formats st));
          expected_epochs = sat_mul (sat_mul duration_seconds 1000 div 5) selected_formats;
          expected_pcm_frames = sat_mul (sat_mul duration_seconds (ucast sample_rate_48k)) selected_formats;
          received_epochs = selected_epoch_count st;
          own = (\<lambda>n. if shared then 0 else n) in
      \<lparr>rr_schema = schema, rr_lane = lane, rr_session_id = session_id, rr_group_id = group_id, rr_formats = rf_formats st,
       rr_sample_rate = sample_rate_48k, rr_duration_seconds = duration_seconds, rr_expected_epochs = expected_epochs,
       rr_received_epochs = received_epochs, rr_missing_epochs = sat_sub expected_epochs received_epochs,
       rr_deadline_ms = deadline_ms, rr_deadline_misses = rf_deadline_misses st,
       rr_counter_scope = (if shared then ''multigroup_envelope'' else ''report''),
       rr_datagrams = own (rv_datagrams stats), rr_source = own (rc_source rc), rr_repair = own (rc_repair rc),
       rr_systematic = own (rv_systematic stats), rr_recovered = own (rv_recovered stats),
       rr_selected_recovered = rf_recovered_fragments st,
       rr_opus_epochs = of_nat (length (rf_opus_epochs st)), rr_flac_epochs = of_nat (length (rf_flac_epochs st)),
       rr_pcm_epochs = of_nat (length (rf_pcm_epochs st)), rr_erasure_epochs = rf_erasure_epochs st,
       rr_unexpected_epochs = 0, rr_discontinuity_epochs = rf_discontinuity_epochs st,
       rr_expected_pcm_frames = expected_pcm_frames, rr_received_pcm_frames = rf_received_pcm_frames st,
       rr_missing_pcm_frames = sat_sub expected_pcm_frames (rf_received_pcm_frames st),
       rr_duplicate_or_late = rf_duplicate_or_late st,
       rr_transport_duplicate_or_late = own (rv_duplicate_or_late stats), rr_wire_bytes = own (rc_wire_bytes rc),
       rr_latency = percentiles_of (rf_latencies_ns st), rr_time_series = series\<rparr>)"

section \<open>At a relay\<close>

record udp_options =
  uo_session_id :: u64
  uo_group_id :: u16
  uo_group_count :: u16
  uo_formats :: "receive_audio_format list"
  uo_duration_seconds :: u64
  uo_deadline_ms :: u64
  uo_tail_seconds :: u64

record 'rcv udp_receiving = "'rcv receiving" +
  rc_next_refresh :: nat
  rc_subscribed :: nat

text \<open>A release build wraps in the product of seconds and a billion.\<close>

definition receive_stop_ns :: "u64 \<Rightarrow> u64 \<Rightarrow> u64 \<Rightarrow> u64" where
  "receive_stop_ns session_id duration_seconds tail_seconds =
     sat_add session_id (sat_add duration_seconds tail_seconds * 1000000000)"

definition refresh_ns :: nat where "refresh_ns = 5 * 1000000000"

definition subscription :: "u64 \<Rightarrow> string" where "subscription session_id = ''WAVEY-DAW-SUBSCRIBE/2 '' @ to_string session_id"
definition subscribed_ack :: "u64 \<Rightarrow> string" where "subscribed_ack session_id = ''WAVEY-DAW-SUBSCRIBED/2 '' @ to_string session_id"

fun new_states :: "receive_audio_format list \<Rightarrow> u16 list \<Rightarrow> receive_error + (u16 \<times> receive_format_state) list" where
  "new_states formats [] = Inr []"
| "new_states formats (i # is) =
     res_bind (map_err ReceiveOptions (receive_format_state_new formats)) (\<lambda>st.
     res_bind (new_states formats is) (\<lambda>sts. Inr ((i, st) # sts)))"

datatype udp_event = Received bytes u64 | ReceiveFailed | NothingReceived

text \<open>A poll: the clock of the loop condition, the event, and the monotonic clock after it.\<close>

type_synonym udp_poll = "u64 \<times> udp_event \<times> nat"

definition udp_event_step ::
  "('rcv, 'y) receive_api_scheme \<Rightarrow> u64 \<Rightarrow> u64 \<Rightarrow> udp_event \<Rightarrow> ('rcv, 'z) receiving_scheme
   \<Rightarrow> (receive_error, bool \<times> ('rcv, 'z) receiving_scheme) outcome" where
  "udp_event_step api session_id deadline_ms event rc =
     (case event of
        NothingReceived \<Rightarrow> Some (Inr (True, rc))
      | ReceiveFailed \<Rightarrow> Some (Inl SocketFailed)
      | Received wire arrival_ns \<Rightarrow>
          case ra_payload api wire of
            None \<Rightarrow> Some (Inr (False, rc))
          | Some payload \<Rightarrow> obind (take_payload api session_id deadline_ms payload (length wire) arrival_ns rc)
              (\<lambda>rc. Some (Inr (True, rc))))"

text \<open>A datagram of another transport skips the refresh, which then waits for the next one.\<close>

definition refresh_step :: "(nat \<Rightarrow> bool) \<Rightarrow> nat \<Rightarrow> 'rcv udp_receiving \<Rightarrow> receive_error + 'rcv udp_receiving" where
  "refresh_step send_ok monotonic rc =
     (if rc_next_refresh rc \<le> monotonic then
        if send_ok (rc_subscribed rc)
        then Inr (rc\<lparr>rc_next_refresh := rc_next_refresh rc + refresh_ns, rc_subscribed := rc_subscribed rc + 1\<rparr>)
        else Inl SocketFailed
      else Inr rc)"

fun udp_loop ::
  "('rcv, 'y) receive_api_scheme \<Rightarrow> (nat \<Rightarrow> bool) \<Rightarrow> u64 \<Rightarrow> u64 \<Rightarrow> u64 \<Rightarrow> udp_poll list \<Rightarrow> 'rcv udp_receiving
   \<Rightarrow> (receive_error, 'rcv udp_receiving) outcome" where
  "udp_loop api send_ok session_id deadline_ms stop_ns [] rc = Some (Inr rc)"
| "udp_loop api send_ok session_id deadline_ms stop_ns ((now, event, monotonic) # polls) rc =
     (if now < stop_ns then
        obind (udp_event_step api session_id deadline_ms event rc) (\<lambda>(refresh, rc).
        obind (Some (if refresh then refresh_step send_ok monotonic rc else Inr rc))
          (udp_loop api send_ok session_id deadline_ms stop_ns polls))
      else Some (Inr rc))"

record transport_counters =
  tc_stats :: receiver_stats
  tc_source :: u64
  tc_repair :: u64
  tc_wire_bytes :: u64

datatype udp_output =
  SingleReport receive_report
| MultipleReports u16 "u16 list" transport_counters "receive_report list"

definition udp_report :: "udp_options \<Rightarrow> receiver_stats \<Rightarrow> ('rcv, 'z) receiving_scheme \<Rightarrow> u16 \<times> receive_format_state \<Rightarrow> receive_report" where
  "udp_report opts stats rc = (\<lambda>(group_id, st).
     case finish_latency_time_series (uo_session_id opts) (uo_duration_seconds opts) st of
       (series, st') \<Rightarrow> receive_report_of ''needletail.aep1-48k-probe.receive.v2'' ''native_udp_fec'' (1 < uo_group_count opts)
         (uo_session_id opts) (uo_duration_seconds opts) (uo_deadline_ms opts) stats rc group_id st' series)"

definition udp_output_of :: "('rcv, 'y) receive_api_scheme \<Rightarrow> udp_options \<Rightarrow> u16 list \<Rightarrow> ('rcv, 'z) receiving_scheme \<Rightarrow> receive_error + udp_output" where
  "udp_output_of api opts group_ids rc =
     (let stats = ra_stats api (rc_receiver rc); reports = map (udp_report opts stats rc) (rc_states rc) in
      if uo_group_count opts = 1 then
        (case reports of [] \<Rightarrow> Inl ReportMissing | report # _ \<Rightarrow> Inr (SingleReport report))
      else Inr (MultipleReports (uo_group_id opts) group_ids
        \<lparr>tc_stats = stats, tc_source = rc_source rc, tc_repair = rc_repair rc, tc_wire_bytes = rc_wire_bytes rc\<rparr> reports))"

text \<open>The answer to the first subscription is what came within three seconds: its bytes and whether the relay sent it.\<close>

definition receive_udp ::
  "('rcv, 'y) receive_api_scheme \<Rightarrow> (nat \<Rightarrow> bool) \<Rightarrow> udp_options \<Rightarrow> (bytes \<times> bool) option \<Rightarrow> nat \<Rightarrow> udp_poll list
   \<Rightarrow> (receive_error, udp_output) outcome" where
  "receive_udp api send_ok opts answer start polls =
     obind (Some (map_err ReceiveOptions (receive_group_ids (uo_group_id opts) (uo_group_count opts)))) (\<lambda>group_ids.
     if \<not> send_ok 0 then Some (Inl SocketFailed)
     else case answer of
       None \<Rightarrow> Some (Inl AckTimedOut)
     | Some (ack, from_relay) \<Rightarrow>
         if \<not> from_relay \<or> ack \<noteq> bytes_of_str (subscribed_ack (uo_session_id opts)) then Some (Inl UnexpectedAck)
         else
           obind (Some (new_states (uo_formats opts) group_ids)) (\<lambda>states.
           obind (udp_loop api send_ok (uo_session_id opts) (uo_deadline_ms opts)
               (receive_stop_ns (uo_session_id opts) (uo_duration_seconds opts) (uo_tail_seconds opts)) polls
               \<lparr>rc_receiver = ra_new api, rc_states = states, rc_wire_bytes = 0, rc_source = 0, rc_repair = 0,
                rc_next_refresh = start + refresh_ns, rc_subscribed = 1\<rparr>) (\<lambda>rc.
             Some (udp_output_of api opts group_ids rc))))"

section \<open>At an edge\<close>

definition webtransport_settings :: bytes where
  "webtransport_settings =
     (let payload = encode_varint 0x08 @ encode_varint 1 @ encode_varint 0x33 @ encode_varint 1
            @ encode_varint 0x2b603742 @ encode_varint 1 @ encode_varint 0x2b603743 @ encode_varint 16 in
      encode_varint 0x00 @ encode_varint 0x04 @ encode_varint (of_nat (length payload)) @ payload)"

definition webtransport_request :: "string \<Rightarrow> u16 \<Rightarrow> bytes" where
  "webtransport_request server_name port =
     (let headers = encode_webtransport_connect_headers (bytes_of_str (server_name @ '':'' @ to_string port)) in
      encode_varint 0x01 @ encode_varint (of_nat (length headers)) @ headers)"

definition webtransport_subscription :: "u64 \<Rightarrow> bytes" where
  "webtransport_subscription session_id = 0 # bytes_of_str (''WAVEY-AUDIO-EPOCH/2 '' @ to_string session_id)"

text \<open>What a read gave; a session the peer closed comes with the clock read after it.\<close>

datatype edge_event = EdgeDatagram bytes u64 | EdgeClosed u64 | NothingRead

definition edge_datagram ::
  "('rcv, 'y) receive_api_scheme \<Rightarrow> u64 \<Rightarrow> u64 \<Rightarrow> bytes \<Rightarrow> u64 \<Rightarrow> 'rcv receiving \<Rightarrow> (receive_error, 'rcv receiving) outcome" where
  "edge_datagram api session_id deadline_ms wire arrival_ns rc =
     obind (Some (map_err ContextCut (strip_h3_datagram_context wire))) (\<lambda>inner.
       case ra_payload api inner of
         None \<Rightarrow> Some (Inr rc)
       | Some payload \<Rightarrow> take_payload api session_id deadline_ms payload (length wire) arrival_ns rc)"

fun edge_loop ::
  "('rcv, 'y) receive_api_scheme \<Rightarrow> u64 \<Rightarrow> u64 \<Rightarrow> u64 \<Rightarrow> u64 \<Rightarrow> (u64 \<times> edge_event) list \<Rightarrow> 'rcv receiving
   \<Rightarrow> (receive_error, 'rcv receiving) outcome" where
  "edge_loop api session_id deadline_ms stop_ns media_end_ns [] rc = Some (Inr rc)"
| "edge_loop api session_id deadline_ms stop_ns media_end_ns ((now, event) # polls) rc =
     (if now < stop_ns then
        case event of
          NothingRead \<Rightarrow> edge_loop api session_id deadline_ms stop_ns media_end_ns polls rc
        | EdgeClosed closed_ns \<Rightarrow> if media_end_ns \<le> closed_ns then Some (Inr rc) else Some (Inl SocketFailed)
        | EdgeDatagram wire arrival_ns \<Rightarrow>
            obind (edge_datagram api session_id deadline_ms wire arrival_ns rc)
              (edge_loop api session_id deadline_ms stop_ns media_end_ns polls)
      else Some (Inr rc))"

record edge_options =
  eo_session_id :: u64
  eo_group_id :: u16
  eo_formats :: "receive_audio_format list"
  eo_duration_seconds :: u64
  eo_deadline_ms :: u64
  eo_tail_seconds :: u64

definition connect_accepted :: "bytes \<Rightarrow> receive_error + unit" where
  "connect_accepted response =
     (case read_h3_frame response of
        None \<Rightarrow> Inl ResponseCut
      | Some ((frame_type, headers), _) \<Rightarrow>
          if frame_type \<noteq> 1 \<or> \<not> qpack_block_has_static_status_200 headers then Inl NoHttp200 else Inr ())"

definition receive_webtransport ::
  "('rcv, 'y) receive_api_scheme \<Rightarrow> edge_options \<Rightarrow> bytes \<Rightarrow> (u64 \<times> edge_event) list \<Rightarrow> (receive_error, receive_report) outcome" where
  "receive_webtransport api opts response polls =
     obind (Some (connect_accepted response)) (\<lambda>_.
     obind (Some (map_err ReceiveOptions (receive_format_state_new (eo_formats opts)))) (\<lambda>st.
     obind (edge_loop api (eo_session_id opts) (eo_deadline_ms opts)
         (receive_stop_ns (eo_session_id opts) (eo_duration_seconds opts) (eo_tail_seconds opts))
         (sat_add (eo_session_id opts) (sat_mul (eo_duration_seconds opts) 1000000000)) polls
         \<lparr>rc_receiver = ra_new api, rc_states = [(eo_group_id opts, st)], rc_wire_bytes = 0, rc_source = 0, rc_repair = 0\<rparr>) (\<lambda>rc.
       case rc_states rc of
         [] \<Rightarrow> Some (Inl ReportMissing)
       | (group_id, st) # _ \<Rightarrow> Some (Inr (receive_report_of ''needletail.aep1-48k-probe.receive.v1'' ''webtransport'' False
           (eo_session_id opts) (eo_duration_seconds opts) (eo_deadline_ms opts) (ra_stats api (rc_receiver rc)) rc group_id st [])))))"

end
