(* ===== verification/Probe_Receive_Facts.thy ===== *)
theory Probe_Receive_Facts
  imports Probe_Receive Probe_Report_Facts
begin

text \<open>
  Both receivers report, for each of their groups, exactly the groups of that number and session that the group
  receiver completed from what arrived in time, in the order of arrival.
\<close>

section \<open>What arrived\<close>

text \<open>The datagrams of the audio transport that arrived before the stop: the payload, the wire bytes and the time.\<close>

type_synonym arrival = "bytes \<times> bytes \<times> u64"

fun udp_arrivals :: "('rcv, 'y) receive_api_scheme \<Rightarrow> u64 \<Rightarrow> udp_poll list \<Rightarrow> arrival list" where
  "udp_arrivals api stop [] = []"
| "udp_arrivals api stop ((now, event, monotonic) # polls) =
     (if now < stop then
        (case event of
           Received wire a \<Rightarrow> (case ra_payload api wire of None \<Rightarrow> [] | Some p \<Rightarrow> [(p, wire, a)])
         | _ \<Rightarrow> []) @ udp_arrivals api stop polls
      else [])"

fun edge_arrivals :: "('rcv, 'y) receive_api_scheme \<Rightarrow> u64 \<Rightarrow> (u64 \<times> edge_event) list \<Rightarrow> arrival list" where
  "edge_arrivals api stop [] = []"
| "edge_arrivals api stop ((now, event) # polls) =
     (if now < stop then
        (case event of
           EdgeDatagram wire a \<Rightarrow>
             (case Option.bind (case strip_h3_datagram_context wire of Inl _ \<Rightarrow> None | Inr p \<Rightarrow> Some p) (ra_payload api) of
                None \<Rightarrow> [] | Some p \<Rightarrow> [(p, wire, a)]) @ edge_arrivals api stop polls
         | EdgeClosed _ \<Rightarrow> []
         | NothingRead \<Rightarrow> edge_arrivals api stop polls)
      else [])"

text \<open>The groups a receiver completes from them, each with the time it was completed at.\<close>

fun completed :: "('rcv, 'y) receive_api_scheme \<Rightarrow> arrival list \<Rightarrow> 'rcv \<Rightarrow> (u64 \<times> audio_group) list" where
  "completed api [] r = []"
| "completed api ((p, wire, a) # xs) r = (case ra_push api p r of
     Inl e \<Rightarrow> []
   | Inr (gs, r) \<Rightarrow> map (Pair a) gs @ completed api xs r)"

fun receiver_after :: "('rcv, 'y) receive_api_scheme \<Rightarrow> arrival list \<Rightarrow> 'rcv \<Rightarrow> 'rcv" where
  "receiver_after api [] r = r"
| "receiver_after api ((p, wire, a) # xs) r = (case ra_push api p r of Inl e \<Rightarrow> r | Inr (gs, r) \<Rightarrow> receiver_after api xs r)"

definition own_groups :: "u64 \<Rightarrow> u16 \<Rightarrow> (u64 \<times> audio_group) list \<Rightarrow> (u64 \<times> audio_group) list" where
  "own_groups session_id group_id = filter (\<lambda>(a, g). ag_session_id g = session_id \<and> ag_group_id g = group_id)"

definition identified :: "('rcv, 'y) receive_api_scheme \<Rightarrow> bool \<Rightarrow> arrival list \<Rightarrow> nat" where
  "identified api source xs = length (filter (\<lambda>(p, wire, a). ra_is_source api p = Some source) xs)"

lemma own_groups_append [simp]: "own_groups s i (xs @ ys) = own_groups s i xs @ own_groups s i ys"
  by (simp add: own_groups_def)

lemma observe_all_append:
  "observe_all d (xs @ ys) st = Option.bind (observe_all d xs st) (observe_all d ys)"
  by (induction d xs st rule: observe_all.induct) (auto split: option.split)

section \<open>Groups of a number\<close>

text \<open>Every state has seen its own of these groups, in order.\<close>

definition all_observed ::
  "u64 \<Rightarrow> u64 \<Rightarrow> (u64 \<times> audio_group) list \<Rightarrow> (u16 \<times> receive_format_state) list \<Rightarrow> (u16 \<times> receive_format_state) list \<Rightarrow> bool" where
  "all_observed session d gs = list_all2 (\<lambda>(i, st) (i', st'). i' = i \<and> observe_all d (own_groups session i gs) st = Some st')"

lemma all_observed_ids: "all_observed s d gs sts sts' \<Longrightarrow> map fst sts' = map fst sts"
  unfolding all_observed_def by (induction rule: list_all2_induct) auto

lemma all_observed_Nil [simp]: "all_observed s d [] sts sts"
  by (auto simp: all_observed_def own_groups_def list_all2_same)

lemma all_observed_trans:
  assumes "all_observed s d xs sts sts1" and "all_observed s d ys sts1 sts2"
  shows "all_observed s d (xs @ ys) sts sts2"
  unfolding all_observed_def
  by (rule list_all2_trans [OF _ assms [unfolded all_observed_def]]) (auto simp: observe_all_append)

lemma observe_first_own:
  assumes "observe_first a d g sts = Some sts'" and "distinct (map fst sts)" and "ag_session_id g = s"
  shows "all_observed s d [(a, g)] sts sts'"
  using assms
proof (induction sts arbitrary: sts')
  case (Cons x sts)
  obtain i st where x: "x = (i, st)" by fastforce
  show ?case
  proof (cases "i = ag_group_id g")
    case True
    have other: "j \<noteq> i" if "(j, b) \<in> set sts" for j b using Cons.prems(2) x that by (force simp: image_iff)
    have "all_observed s d [(a, g)] sts sts"
      using True by (auto simp: all_observed_def own_groups_def list_all2_same dest: other)
    with Cons.prems x True show ?thesis by (auto simp: all_observed_def own_groups_def)
  next
    case False
    with Cons x show ?thesis by (auto simp: all_observed_def own_groups_def)
  qed
qed (simp add: all_observed_def)

lemma observe_groups_own:
  "observe_groups s a d gs sts = Some sts' \<Longrightarrow> distinct (map fst sts) \<Longrightarrow> all_observed s d (map (Pair a) gs) sts sts'"
proof (induction gs arbitrary: sts)
  case (Cons g gs)
  show ?case
  proof (cases "ag_session_id g = s")
    case True
    with Cons.prems(1) obtain sts1 where
      one: "observe_first a d g sts = Some sts1" "observe_groups s a d gs sts1 = Some sts'" by (auto split: option.splits)
    have step: "all_observed s d [(a, g)] sts sts1" by (rule observe_first_own [OF one(1) Cons.prems(2) True])
    from all_observed_ids [OF this] Cons.prems(2) have "distinct (map fst sts1)" by simp
    from all_observed_trans [OF step Cons.IH [OF one(2) this]] show ?thesis by simp
  next
    case False
    with Cons have "all_observed s d (map (Pair a) gs) sts sts'" by simp
    moreover have "own_groups s i (map (Pair a) (g # gs)) = own_groups s i (map (Pair a) gs)" for i
      using False by (simp add: own_groups_def)
    ultimately show ?thesis by (simp only: all_observed_def)
  qed
qed simp

section \<open>A run of datagrams\<close>

definition received_ok ::
  "('rcv, 'y) receive_api_scheme \<Rightarrow> u64 \<Rightarrow> u64 \<Rightarrow> arrival list \<Rightarrow> ('rcv, 'z) receiving_scheme \<Rightarrow> ('rcv, 'z) receiving_scheme \<Rightarrow> bool" where
  "received_ok api s d xs rc rc' \<longleftrightarrow>
     all_observed s d (completed api xs (rc_receiver rc)) (rc_states rc) (rc_states rc')
     \<and> rc_receiver rc' = receiver_after api xs (rc_receiver rc)
     \<and> rc_wire_bytes rc' = add_bytes (rc_wire_bytes rc) (map (\<lambda>(p, wire, a). wire) xs)
     \<and> unat (rc_source rc') = saturated (unat (rc_source rc) + identified api True xs)
     \<and> unat (rc_repair rc') = saturated (unat (rc_repair rc) + identified api False xs)"

lemma received_ok_Nil [simp]: "received_ok api s d [] rc rc"
  by (simp add: received_ok_def identified_def flip: unat_u64_saturated)

lemma take_payload_step:
  assumes one: "take_payload api s d p (length wire) a rc = Some (Inr rc1)" and "distinct (map fst (rc_states rc))"
    and rest: "received_ok api s d xs rc1 rc2"
  shows "received_ok api s d ((p, wire, a) # xs) rc rc2"
proof -
  let ?rc = "count_identity (ra_is_source api p) rc"
  have c: "rc_receiver ?rc = rc_receiver rc" "rc_states ?rc = rc_states rc" "rc_wire_bytes ?rc = rc_wire_bytes rc"
      "unat (rc_source ?rc) = saturated (unat (rc_source rc) + (if ra_is_source api p = Some True then 1 else 0))"
      "unat (rc_repair ?rc) = saturated (unat (rc_repair rc) + (if ra_is_source api p = Some False then 1 else 0))"
    by (auto simp: count_identity_def unat_sat_add_small split: option.split bool.split simp flip: unat_u64_saturated)
  from one obtain gs r sts where push: "ra_push api p (rc_receiver rc) = Inr (gs, r)"
      and obs: "observe_groups s a d gs (rc_states rc) = Some sts"
      and rc1: "rc1 = ?rc\<lparr>rc_wire_bytes := sat_add (rc_wire_bytes rc) (of_nat (length wire)), rc_receiver := r, rc_states := sts\<rparr>"
    by (auto simp: take_payload_def Let_def c split: sum.splits prod.splits)
  have "all_observed s d (map (Pair a) gs) (rc_states rc) sts" by (rule observe_groups_own [OF obs assms(2)])
  from all_observed_trans [OF this, of "completed api xs r" "rc_states rc2"] rest
  show ?thesis
    by (simp add: received_ok_def rc1 push c identified_def)
qed

lemma received_states: "received_ok api s d xs rc rc' \<Longrightarrow> map fst (rc_states rc') = map fst (rc_states rc)"
  by (auto simp: received_ok_def dest: all_observed_ids)

lemma take_payload_ids:
  "take_payload api s d p (length (wire :: bytes)) a rc = Some (Inr rc1) \<Longrightarrow> distinct (map fst (rc_states rc)) \<Longrightarrow>
     map fst (rc_states rc1) = map fst (rc_states rc)"
  by (erule (1) received_states [OF take_payload_step, OF _ _ received_ok_Nil])

lemma refresh_step_same:
  "refresh_step ok m rc = Inr rc1 \<Longrightarrow> rc_receiver rc1 = rc_receiver rc \<and> rc_states rc1 = rc_states rc
     \<and> rc_wire_bytes rc1 = rc_wire_bytes rc \<and> rc_source rc1 = rc_source rc \<and> rc_repair rc1 = rc_repair rc"
  by (auto simp: refresh_step_def split: if_splits)

lemma udp_loop_received:
  assumes "udp_loop api ok s d stop polls rc = Some (Inr rc')" and "distinct (map fst (rc_states rc))"
  shows "received_ok api s d (udp_arrivals api stop polls) rc rc'"
  using assms
proof (induction polls arbitrary: rc)
  case (Cons p polls)
  obtain now event m where p: "p = (now, event, m)" by (cases p)
  show ?case
  proof (cases "now < stop")
    case False
    with Cons.prems p show ?thesis by simp
  next
    case True
    with Cons.prems(1) p obtain refresh rc1 rc2 where
        step: "udp_event_step api s d event rc = Some (Inr (refresh, rc1))"
        and refresh: "(if refresh then refresh_step ok m rc1 else Inr rc1) = Inr rc2"
        and rest: "udp_loop api ok s d stop polls rc2 = Some (Inr rc')"
      by auto
    have same: "rc_receiver rc2 = rc_receiver rc1 \<and> rc_states rc2 = rc_states rc1
        \<and> rc_wire_bytes rc2 = rc_wire_bytes rc1 \<and> rc_source rc2 = rc_source rc1 \<and> rc_repair rc2 = rc_repair rc1"
      using refresh refresh_step_same [of ok m rc1 rc2] by (auto split: if_splits)
    have move: "received_ok api s d xs rc1 rc'" if "received_ok api s d xs rc2 rc'" for xs
      using that same by (simp add: received_ok_def)
    show ?thesis
    proof (cases event)
      case (Received wire a)
      show ?thesis
      proof (cases "ra_payload api wire")
        case None
        with step Received have "rc1 = rc" by (simp add: udp_event_step_def)
        with Cons.IH [OF rest] Cons.prems(2) same move Received None True p show ?thesis by auto
      next
        case (Some payload)
        with step Received have one: "take_payload api s d payload (length wire) a rc = Some (Inr rc1)"
          by (auto simp: udp_event_step_def)
        have "distinct (map fst (rc_states rc2))" using take_payload_ids [OF one Cons.prems(2)] Cons.prems(2) same by simp
        from take_payload_step [OF one Cons.prems(2) move [OF Cons.IH [OF rest this]]] Received Some True p
        show ?thesis by simp
      qed
    next
      case ReceiveFailed
      with step show ?thesis by (simp add: udp_event_step_def)
    next
      case NothingReceived
      with step have "rc1 = rc" by (simp add: udp_event_step_def)
      with Cons.IH [OF rest] Cons.prems(2) same move NothingReceived True p show ?thesis by auto
    qed
  qed
qed simp

lemma edge_loop_received:
  assumes "edge_loop api s d stop media_end polls rc = Some (Inr rc')" and "distinct (map fst (rc_states rc))"
  shows "received_ok api s d (edge_arrivals api stop polls) rc rc'"
  using assms
proof (induction polls arbitrary: rc)
  case (Cons p polls)
  obtain now event where p: "p = (now, event)" by (cases p)
  show ?case
  proof (cases "now < stop")
    case True
    show ?thesis
    proof (cases event)
      case (EdgeDatagram wire a)
      with Cons.prems(1) p True obtain inner rc1 where inner: "strip_h3_datagram_context wire = Inr inner"
          and step: "(case ra_payload api inner of None \<Rightarrow> Some (Inr rc)
             | Some payload \<Rightarrow> take_payload api s d payload (length wire) a rc) = Some (Inr rc1)"
          and rest: "edge_loop api s d stop media_end polls rc1 = Some (Inr rc')"
        by (auto simp: edge_datagram_def map_err_eq_Inr)
      show ?thesis
      proof (cases "ra_payload api inner")
        case None
        with step have "rc1 = rc" by simp
        with Cons.IH [OF rest] Cons.prems(2) EdgeDatagram None True p inner show ?thesis by simp
      next
        case (Some payload)
        with step have one: "take_payload api s d payload (length wire) a rc = Some (Inr rc1)" by simp
        have "distinct (map fst (rc_states rc1))" using take_payload_ids [OF one Cons.prems(2)] Cons.prems(2) by simp
        from take_payload_step [OF one Cons.prems(2) Cons.IH [OF rest this]] EdgeDatagram Some True p inner
        show ?thesis by simp
      qed
    qed (use Cons p True in \<open>auto split: if_splits\<close>)
  qed (use Cons.prems p in simp)
qed simp

section \<open>Reports\<close>

text \<open>What a report says of the groups its receiver completed, with the transport counters of the run or without.\<close>

definition report_exact ::
  "receive_audio_format list \<Rightarrow> u64 \<Rightarrow> u64 \<Rightarrow> (u64 \<times> audio_group) list \<Rightarrow> u64 \<Rightarrow> nat \<Rightarrow> nat \<Rightarrow> receive_report \<Rightarrow> bool" where
  "report_exact formats session_id deadline_ms gs wire_bytes source repair r \<longleftrightarrow>
     (let own = own_groups session_id (rr_group_id r) gs; fs = first_groups (set formats) {} own in
      rr_received_epochs r = of_nat (length fs)
      \<and> rr_missing_epochs r = sat_sub (rr_expected_epochs r) (of_nat (length fs))
      \<and> rr_latency r = percentiles_of (map (\<lambda>(a, g). group_latency_ns g a) fs)
      \<and> unat (rr_deadline_misses r) = saturated (length (filter (group_missed deadline_ms) fs))
      \<and> unat (rr_erasure_epochs r) = saturated (length (filter (\<lambda>(a, g). is_erasure g) fs))
      \<and> unat (rr_discontinuity_epochs r) = saturated (length (filter (\<lambda>(a, g). is_discontinuity g) fs))
      \<and> unat (rr_duplicate_or_late r) = saturated (length (wanted (set formats) own) - length fs)
      \<and> rr_wire_bytes r = wire_bytes \<and> unat (rr_source r) = saturated source \<and> unat (rr_repair r) = saturated repair)"

lemma new_format_state:
  assumes "receive_format_state_new formats = Inr st"
  shows "rf_formats st = dedup_formats [] formats" "rf_selected st = []" "rf_latencies_ns st = []" "rf_duplicate_or_late st = 0"
    "rf_deadline_misses st = 0" "rf_erasure_epochs st = 0" "rf_discontinuity_epochs st = 0" "rf_received_pcm_frames st = 0"
  using assms by (auto simp: receive_format_state_new_def Let_def split: if_splits)

lemma report_of_exact:
  assumes "receive_format_state_new formats = Inr st" and "adds_up d (own_groups s i gs) st st'"
    and "unat (rc_source rc) = saturated source" and "unat (rc_repair rc) = saturated repair"
  shows "report_exact formats s d gs (if shared then 0 else rc_wire_bytes rc) (if shared then 0 else source)
    (if shared then 0 else repair) (receive_report_of schema lane shared s duration d stats rc i st' series)"
proof -
  have zero: "saturated 0 = 0" by (simp add: saturated_def)
  have "set (rf_formats st) = set formats"
    using dedup_formats_ok [of "[]" formats] by (simp add: new_format_state [OF assms(1)])
  note st = this new_format_state(2-8) [OF assms(1)]
  have adds: "rf_selected st' = rev (map (\<lambda>(a, g). group_key g) (first_groups (set formats) {} (own_groups s i gs)))"
    "rf_latencies_ns st' = map (\<lambda>(a, g). group_latency_ns g a) (first_groups (set formats) {} (own_groups s i gs))"
    "unat (rf_duplicate_or_late st') = saturated (length (wanted (set formats) (own_groups s i gs))
       - length (first_groups (set formats) {} (own_groups s i gs)))"
    "unat (rf_deadline_misses st') = saturated (length (filter (group_missed d) (first_groups (set formats) {} (own_groups s i gs))))"
    "unat (rf_erasure_epochs st') = saturated (length (filter (\<lambda>(a, g). is_erasure g) (first_groups (set formats) {} (own_groups s i gs))))"
    "unat (rf_discontinuity_epochs st') = saturated (length (filter (\<lambda>(a, g). is_discontinuity g) (first_groups (set formats) {} (own_groups s i gs))))"
    using assms(2) by (simp_all add: adds_up_def Let_def st)
  show ?thesis
    using assms(3,4) zero by (simp add: report_exact_def receive_report_of_def Let_def selected_epoch_count_def adds)
qed

lemma new_states_ok:
  "new_states formats ids = Inr sts \<Longrightarrow> map fst sts = ids \<and> list_all (\<lambda>(i, st). receive_format_state_new formats = Inr st) sts"
  by (induction ids arbitrary: sts) (auto simp: res_ok)

lemma finish_series_state:
  "\<exists>m. snd (finish_latency_time_series s n st) = st\<lparr>rf_buckets := m\<rparr>"
  by (auto simp: finish_latency_time_series_def Let_def split: prod.split)

lemma report_group [simp]:
  "rr_group_id (receive_report_of schema lane shared s duration d stats rc i st series) = i"
  "rr_group_id (udp_report opts stats rc (i, st)) = i"
  by (simp_all add: udp_report_def receive_report_of_def Let_def split: prod.split)

lemma udp_report_exact:
  assumes "all_observed s d gs sts sts'" and "list_all (\<lambda>(i, st). receive_format_state_new formats = Inr st) sts"
    and "s = uo_session_id opts" and "d = uo_deadline_ms opts"
    and "unat (rc_source rc) = saturated source" and "unat (rc_repair rc) = saturated repair"
  shows "list_all (report_exact formats s d gs (if 1 < uo_group_count opts then 0 else rc_wire_bytes rc)
      (if 1 < uo_group_count opts then 0 else source) (if 1 < uo_group_count opts then 0 else repair))
     (map (udp_report opts stats rc) sts')
    \<and> map rr_group_id (map (udp_report opts stats rc) sts') = map fst sts"
  using assms(1,2) unfolding all_observed_def
proof (induction rule: list_all2_induct)
  case (Cons x xs y ys)
  obtain i st st' where xy: "x = (i, st)" "y = (i, st')" "observe_all d (own_groups s i gs) st = Some st'"
    using Cons(1) by (cases x; cases y) auto
  obtain series m where fin: "finish_latency_time_series (uo_session_id opts) (uo_duration_seconds opts) st'
      = (series, st'\<lparr>rf_buckets := m\<rparr>)"
    using finish_series_state [of "uo_session_id opts" "uo_duration_seconds opts" st'] by (metis prod.collapse)
  have "receive_format_state_new formats = Inr st" using Cons(4) xy(1) by simp
  moreover have "adds_up d (own_groups s i gs) st (st'\<lparr>rf_buckets := m\<rparr>)"
    using observe_all_adds [OF xy(3)] by (simp add: adds_up_def Let_def)
  ultimately have "report_exact formats s d gs (if 1 < uo_group_count opts then 0 else rc_wire_bytes rc)
      (if 1 < uo_group_count opts then 0 else source) (if 1 < uo_group_count opts then 0 else repair)
      (udp_report opts stats rc (i, st'))"
    using report_of_exact [of formats st d s i gs "st'\<lparr>rf_buckets := m\<rparr>" rc source repair "1 < uo_group_count opts"] assms(3-6) fin
    by (simp add: udp_report_def)
  moreover have rest: "list_all (\<lambda>(i, st). receive_format_state_new formats = Inr st) xs" using Cons(4) by simp
  ultimately show ?case
    using Cons(3) [OF rest] by (simp add: xy(1,2))
qed simp

fun reports_of :: "udp_output \<Rightarrow> receive_report list" where
  "reports_of (SingleReport r) = [r]"
| "reports_of (MultipleReports base ids counters rs) = rs"

lemma receive_group_ids_distinct:
  assumes "receive_group_ids base count = Inr ids"
  shows "distinct ids" and "ids = map (\<lambda>i. base + of_nat i) [0..<unat count]"
proof -
  from assms show ids: "ids = map (\<lambda>i. base + of_nat i) [0..<unat count]"
    by (auto simp: receive_group_ids_def split: if_splits)
  have u: "unat (of_nat i :: u16) = i" if "i < unat count" for i
    using that unat_lt2p [of count] by (simp add: unat_of_nat)
  have "inj_on (\<lambda>i. base + (of_nat i :: u16)) {0..<unat count}"
    by (rule inj_on_inverseI [where g = "\<lambda>w. unat (w - base)"]) (simp add: u)
  then show "distinct ids" by (simp add: ids distinct_map)
qed

text \<open>C39: Each report of the UDP receiver, one for each of its consecutive group numbers, counts exactly the groups of that number
  and session that the group receiver completed from what arrived before the stop, each selected format and epoch at
  its first group; the wire bytes and the source and repair datagrams are those that arrived, given once: in the report
  of a single group, or beside the reports of several, which then have none.\<close>

theorem udp_reports_exact:
  "case receive_udp api send_ok opts answer start polls of
     Some (Inr out) \<Rightarrow>
       let xs = udp_arrivals api (receive_stop_ns (uo_session_id opts) (uo_duration_seconds opts) (uo_tail_seconds opts)) polls;
           gs = completed api xs (ra_new api); wire = add_bytes 0 (map (\<lambda>(p, wire, a). wire) xs);
           source = identified api True xs; repair = identified api False xs;
           exact = report_exact (uo_formats opts) (uo_session_id opts) (uo_deadline_ms opts) gs in
       map rr_group_id (reports_of out) = map (\<lambda>i. uo_group_id opts + of_nat i) [0..<unat (uo_group_count opts)]
       \<and> (case out of
            SingleReport r \<Rightarrow> uo_group_count opts = 1 \<and> exact wire source repair r
          | MultipleReports base ids counters rs \<Rightarrow>
              1 < uo_group_count opts \<and> list_all (exact 0 0 0) rs \<and> tc_wire_bytes counters = wire
              \<and> unat (tc_source counters) = saturated source \<and> unat (tc_repair counters) = saturated repair
              \<and> tc_stats counters = ra_stats api (receiver_after api xs (ra_new api)))
   | _ \<Rightarrow> True"
proof (cases "\<exists>out. receive_udp api send_ok opts answer start polls = Some (Inr out)")
  case True
  let ?s = "uo_session_id opts" and ?d = "uo_deadline_ms opts"
  let ?xs = "udp_arrivals api (receive_stop_ns ?s (uo_duration_seconds opts) (uo_tail_seconds opts)) polls"
  let ?gs = "completed api ?xs (ra_new api)"
  from True obtain out where run: "receive_udp api send_ok opts answer start polls = Some (Inr out)" by blast
  define rc0 where "rc0 states = \<lparr>rc_receiver = ra_new api, rc_states = states, rc_wire_bytes = 0, rc_source = 0, rc_repair = 0,
    rc_next_refresh = start + refresh_ns, rc_subscribed = 1\<rparr>" for states
  from run obtain ids states rc where ids: "receive_group_ids (uo_group_id opts) (uo_group_count opts) = Inr ids"
      and states: "new_states (uo_formats opts) ids = Inr states"
      and loop: "udp_loop api send_ok ?s ?d (receive_stop_ns ?s (uo_duration_seconds opts) (uo_tail_seconds opts)) polls (rc0 states) = Some (Inr rc)"
      and out: "udp_output_of api opts ids rc = Inr out"
    unfolding receive_udp_def rc0_def [symmetric]
    by (auto simp: if_fails map_err_eq_Inr split: option.splits prod.splits)
  note gid = receive_group_ids_distinct [OF ids] and new = new_states_ok [OF states]
  have "received_ok api ?s ?d ?xs (rc0 states) rc" using udp_loop_received [OF loop] gid(1) new by (simp add: rc0_def)
  then have ok: "all_observed ?s ?d ?gs states (rc_states rc)" "rc_receiver rc = receiver_after api ?xs (ra_new api)"
      "rc_wire_bytes rc = add_bytes 0 (map (\<lambda>(p, wire, a). wire) ?xs)"
      "unat (rc_source rc) = saturated (identified api True ?xs)" "unat (rc_repair rc) = saturated (identified api False ?xs)"
    by (simp_all add: received_ok_def rc0_def)
  let ?reports = "map (udp_report opts (ra_stats api (rc_receiver rc)) rc) (rc_states rc)"
  let ?exact = "report_exact (uo_formats opts) ?s ?d ?gs"
  note reports = udp_report_exact [OF ok(1) conjunct2 [OF new] refl refl ok(4,5), of "ra_stats api (rc_receiver rc)"]
  have count: "uo_group_count opts \<noteq> 0" using ids by (auto simp: receive_group_ids_def split: if_splits)
  have numbers: "map rr_group_id ?reports = map (\<lambda>i. uo_group_id opts + of_nat i) [0..<unat (uo_group_count opts)]"
    using reports new gid(2) by simp
  show ?thesis
  proof (cases "uo_group_count opts = 1")
    case one: True
    have "length ?reports = 1" using arg_cong [OF numbers, of length] one by simp
    then obtain r where r: "?reports = [r]" by (auto simp: length_Suc_conv)
    with out one have o: "out = SingleReport r" by (simp add: udp_output_of_def Let_def)
    have "?exact (rc_wire_bytes rc) (identified api True ?xs) (identified api False ?xs) r"
      using conjunct1 [OF reports] unfolding r by (simp add: one)
    with numbers show ?thesis
      unfolding run o option.case sum.case udp_output.case Let_def reports_of.simps r ok(3) using one by blast
  next
    case False
    have many: "1 < uo_group_count opts"
      using False count by (metis less_one linorder_neqE word_less_nat_alt unat_1 unat_eq_zero)
    have "list_all (?exact 0 0 0) ?reports" using conjunct1 [OF reports] many by simp
    moreover have o: "out = MultipleReports (uo_group_id opts) ids \<lparr>tc_stats = ra_stats api (rc_receiver rc), tc_source = rc_source rc,
        tc_repair = rc_repair rc, tc_wire_bytes = rc_wire_bytes rc\<rparr> ?reports"
      using out False by (simp add: udp_output_of_def Let_def)
    ultimately show ?thesis
      unfolding run o option.case sum.case udp_output.case Let_def reports_of.simps transport_counters.simps ok(2,3)
      using numbers many ok(4,5) unfolding ok(2) by blast
  qed
next
  case False
  then show ?thesis by (auto split: option.split sum.split)
qed

text \<open>The report of a WebTransport receiver is that of its one group.\<close>

lemma webtransport_report_exact:
  assumes run: "receive_webtransport api opts response polls = Some (Inr r)"
  defines "xs \<equiv> edge_arrivals api (receive_stop_ns (eo_session_id opts) (eo_duration_seconds opts) (eo_tail_seconds opts)) polls"
  shows "rr_group_id r = eo_group_id opts
    \<and> report_exact (eo_formats opts) (eo_session_id opts) (eo_deadline_ms opts) (completed api xs (ra_new api))
        (add_bytes 0 (map (\<lambda>(p, wire, a). wire) xs)) (identified api True xs) (identified api False xs) r"
proof -
  let ?s = "eo_session_id opts" and ?d = "eo_deadline_ms opts"
  define rc0 where "rc0 st = \<lparr>rc_receiver = ra_new api, rc_states = [(eo_group_id opts, st)], rc_wire_bytes = 0, rc_source = 0,
    rc_repair = 0\<rparr>" for st
  from run obtain st rc where st: "receive_format_state_new (eo_formats opts) = Inr st"
      and loop: "edge_loop api ?s ?d (receive_stop_ns ?s (eo_duration_seconds opts) (eo_tail_seconds opts))
        (sat_add ?s (sat_mul (eo_duration_seconds opts) 1000000000)) polls (rc0 st) = Some (Inr rc)"
      and r: "(case rc_states rc of [] \<Rightarrow> Some (Inl ReportMissing)
        | (group_id, st) # _ \<Rightarrow> Some (Inr (receive_report_of ''needletail.aep1-48k-probe.receive.v1'' ''webtransport'' False
           ?s (eo_duration_seconds opts) ?d (ra_stats api (rc_receiver rc)) rc group_id st []))) = Some (Inr r)"
    unfolding receive_webtransport_def rc0_def [symmetric] by (auto simp: map_err_eq_Inr)
  have "received_ok api ?s ?d xs (rc0 st) rc" unfolding xs_def using edge_loop_received [OF loop] by (simp add: rc0_def)
  then have ok: "all_observed ?s ?d (completed api xs (ra_new api)) [(eo_group_id opts, st)] (rc_states rc)"
      "rc_wire_bytes rc = add_bytes 0 (map (\<lambda>(p, wire, a). wire) xs)"
      "unat (rc_source rc) = saturated (identified api True xs)" "unat (rc_repair rc) = saturated (identified api False xs)"
    by (simp_all add: received_ok_def rc0_def)
  then obtain st' where st': "rc_states rc = [(eo_group_id opts, st')]"
      and obs: "observe_all ?d (own_groups ?s (eo_group_id opts) (completed api xs (ra_new api))) st = Some st'"
    by (auto simp: all_observed_def list_all2_Cons1)
  from report_of_exact [OF st observe_all_adds [OF obs] ok(3,4), of False] r show ?thesis by (auto simp: st' ok(2))
qed

end
