(* ===== verification/Sender_Input.thy ===== *)
theory Sender_Input
  imports Outcome
begin

text \<open>
  What the command-line senders share: standard input, of which a read gives some of what it is asked for, the
  chunks of a byte string, as \<^verbatim>\<open>slice::chunks\<close> cuts them, and errors of the operating system.
\<close>

section \<open>Errors of the operating system\<close>

datatype io_kind = WouldBlock | Interrupted | OtherKind

record io_error =
  io_kind :: io_kind
  io_os_error :: "int option"

section \<open>Standard input\<close>

text \<open>What is left to read, and how the next reads end: an error, or the bytes at hand, of which there is at least one. After
  these a read gives all it is asked for.\<close>

record stdin =
  in_rest :: bytes
  in_reads :: "(io_error + nat) list"

definition stdin_read :: "nat \<Rightarrow> stdin \<Rightarrow> (io_error + bytes) \<times> stdin" where
  "stdin_read k s =
     (case in_reads s of
        [] \<Rightarrow> (Inr (take k (in_rest s)), s\<lparr>in_rest := drop k (in_rest s)\<rparr>)
      | Inl e # reads \<Rightarrow> (Inl e, s\<lparr>in_reads := reads\<rparr>)
      | Inr n # reads \<Rightarrow> let n = min k (max 1 n) in
          (Inr (take n (in_rest s)), \<lparr>in_rest = drop n (in_rest s), in_reads = reads\<rparr>))"

lemma stdin_read_Inr:
  "stdin_read k s = (Inr bs, s') \<Longrightarrow>
     in_rest s = bs @ in_rest s' \<and> length bs \<le> k \<and> (bs = [] \<longrightarrow> k = 0 \<or> in_rest s = [])"
  by (auto simp: stdin_read_def Let_def min_def max_def split: list.splits sum.splits if_splits)

lemma stdin_read_rest: "stdin_read k s = (r, s') \<Longrightarrow> length (in_rest s') \<le> length (in_rest s)"
  by (auto simp: stdin_read_def Let_def split: list.splits sum.splits)

text \<open>Reading to the end asks for some number of bytes each time; an interrupted read is repeated by the library.\<close>

fun read_to_end :: "nat list \<Rightarrow> bytes \<Rightarrow> stdin \<Rightarrow> (io_error + bytes) \<times> stdin" where
  "read_to_end [] input s = (Inr (input @ in_rest s), s\<lparr>in_rest := []\<rparr>)"
| "read_to_end (k # ks) input s =
     (case stdin_read (Suc k) s of
        (Inl e, s) \<Rightarrow> if io_kind e = Interrupted then read_to_end ks input s else (Inl e, s)
      | (Inr [], s) \<Rightarrow> (Inr input, s)
      | (Inr bs, s) \<Rightarrow> read_to_end ks (input @ bs) s)"

lemma read_to_end_Inr: "read_to_end ks input s = (Inr bs, s') \<Longrightarrow> bs = input @ in_rest s"
proof (induction ks input s rule: read_to_end.induct)
  case (2 k ks input s)
  obtain r s1 where read: "stdin_read (Suc k) s = (r, s1)" by fastforce
  show ?case
  proof (cases r)
    case (Inl e)
    then have "in_rest s1 = in_rest s"
      using read by (auto simp: stdin_read_def Let_def split: list.splits sum.splits)
    with 2 read Inl show ?thesis by (auto split: if_splits)
  next
    case (Inr b)
    from stdin_read_Inr [OF read [unfolded Inr]] 2 read Inr show ?thesis by (cases b) auto
  qed
qed auto

section \<open>Chunks\<close>

function chunks_of :: "nat \<Rightarrow> 'a list \<Rightarrow> 'a list list" where
  "chunks_of n xs = (if xs = [] \<or> n = 0 then [] else take n xs # chunks_of n (drop n xs))"
  by pat_completeness auto
termination by (relation "measure (\<lambda>(n, xs). length xs)") auto

declare chunks_of.simps [simp del]

lemma chunks_of_Nil [simp]: "chunks_of n [] = []"
  by (simp add: chunks_of.simps)

lemma chunks_of_step: "xs \<noteq> [] \<Longrightarrow> n \<noteq> 0 \<Longrightarrow> chunks_of n xs = take n xs # chunks_of n (drop n xs)"
  by (subst chunks_of.simps) simp

lemma concat_chunks_of: "0 < n \<Longrightarrow> concat (chunks_of n xs) = xs"
  by (induction n xs rule: chunks_of.induct) (subst chunks_of.simps, auto)

text \<open>Every chunk but the last is full, and none is empty.\<close>

lemma chunks_of_sizes:
  "0 < n \<Longrightarrow> list_all (\<lambda>c. c \<noteq> [] \<and> length c \<le> n) (chunks_of n xs) \<and> list_all (\<lambda>c. length c = n) (butlast (chunks_of n xs))"
proof (induction n xs rule: chunks_of.induct)
  case (1 n xs)
  show ?case
  proof (cases "xs = []")
    case False
    with 1 have IH: "list_all (\<lambda>c. c \<noteq> [] \<and> length c \<le> n) (chunks_of n (drop n xs))"
        "list_all (\<lambda>c. length c = n) (butlast (chunks_of n (drop n xs)))" by auto
    have "length (take n xs) = n" if "chunks_of n (drop n xs) \<noteq> []"
    proof (rule ccontr)
      assume "length (take n xs) \<noteq> n"
      then have "drop n xs = []" by simp
      with that show False by simp
    qed
    with IH False "1.prems" show ?thesis by (subst (1 2) chunks_of.simps) auto
  qed simp
qed

end
