(* ===== verification/Rist_Send.thy ===== *)
theory Rist_Send
  imports Sender_Input Text_Scan Relay_Config
begin

text \<open>
  \<^verbatim>\<open>src/src/bin/rist-send.rs\<close>: standard input cut into payloads, each handed to a RIST sender of one of two profiles with
  retries while the socket is busy, feedback drained between them and after the end. The two senders are parameters.
  Sleeps are recorded in milliseconds; a platform's number for a full send buffer is a parameter.
\<close>

section \<open>Retries\<close>

definition is_enobufs :: "int option \<Rightarrow> int option \<Rightarrow> bool" where
  "is_enobufs enobufs raw_os_error \<longleftrightarrow> enobufs \<noteq> None \<and> raw_os_error = enobufs"

definition is_transient_udp_error :: "int option \<Rightarrow> io_error \<Rightarrow> bool" where
  "is_transient_udp_error enobufs e \<longleftrightarrow> io_kind e \<in> {WouldBlock, Interrupted} \<or> is_enobufs enobufs (io_os_error e)"

definition initial_udp_retry_delay :: nat where "initial_udp_retry_delay = 1"
definition max_udp_retry_delay :: nat where "max_udp_retry_delay = 32"

text \<open>The sleeps between the attempts, and what the last attempt gave. An operation that panics ends everything.\<close>

partial_function (option) retry_loop ::
  "(io_error \<Rightarrow> bool) \<Rightarrow> ('s \<Rightarrow> ((io_error + 'a) \<times> 's) option) \<Rightarrow> nat \<Rightarrow> nat list \<Rightarrow> 's \<Rightarrow> ((io_error + 'a) \<times> nat list \<times> 's) option" where
  [code]: "retry_loop transient operation delay sleeps s =
     (case operation s of
        None \<Rightarrow> None
      | Some (Inr v, s) \<Rightarrow> Some (Inr v, sleeps, s)
      | Some (Inl e, s) \<Rightarrow>
          if transient e then retry_loop transient operation (min (delay * 2) max_udp_retry_delay) (sleeps @ [delay]) s
          else Some (Inl e, sleeps, s))"

section \<open>The sender\<close>

datatype send_profile = SimpleProfile | MainProfile

record rist_args =
  sa_target :: socket_addr
  sa_profile :: send_profile
  sa_flow_id :: u32
  sa_chunk_bytes :: nat
  sa_history_packets :: nat
  sa_final_repair_ms :: nat

datatype ('s, 'm) rist_sender = SimpleSender 's | MainSender 'm
datatype ('p, 'q) payload_packet = SimplePacket 'p | MainPacket 'q

record ('s, 'm, 'p, 'q) rist_api =
  ri_connect_simple :: "socket_addr \<Rightarrow> socket_addr \<Rightarrow> u32 \<Rightarrow> nat \<Rightarrow> io_error + 's"
  ri_connect_main :: "socket_addr \<Rightarrow> socket_addr \<Rightarrow> u32 \<Rightarrow> nat \<Rightarrow> io_error + 'm"
  ri_keepalive :: "bytes \<Rightarrow> 'm \<Rightarrow> (io_error + unit) \<times> 'm"
  ri_negotiate :: "nat \<Rightarrow> nat \<Rightarrow> 'm \<Rightarrow> (io_error + unit) \<times> 'm"
  ri_poll_report :: "nat \<Rightarrow> 'm \<Rightarrow> (io_error + unit) \<times> 'm"
  ri_build_simple :: "bytes \<Rightarrow> 's \<Rightarrow> 'p \<times> 's"
  ri_build_main :: "bytes \<Rightarrow> 'm \<Rightarrow> 'q \<times> 'm"
  ri_send_simple :: "'p \<Rightarrow> 's \<Rightarrow> (io_error + unit) \<times> 's"
  ri_send_main :: "'q \<Rightarrow> 'm \<Rightarrow> (io_error + unit) \<times> 'm"
  ri_recv_simple :: "'s \<Rightarrow> (io_error + bool) \<times> 's"
  ri_recv_main :: "'m \<Rightarrow> (io_error + bool) \<times> 'm"

text \<open>The calls that open a session of the main profile: keepalive, buffer negotiation and two reports, at once and as of a second
  later, each only after the one before. The pause of twenty milliseconds that follows is left out.\<close>

fun prime_calls :: "('m \<Rightarrow> (io_error + unit) \<times> 'm) list \<Rightarrow> 'm \<Rightarrow> io_error + 'm" where
  "prime_calls [] m = Inr m"
| "prime_calls (call # calls) m = (case call m of (Inl e, _) \<Rightarrow> Inl e | (Inr _, m) \<Rightarrow> prime_calls calls m)"

definition session_calls :: "('s, 'm, 'p, 'q) rist_api \<Rightarrow> ('m \<Rightarrow> (io_error + unit) \<times> 'm) list" where
  "session_calls api = [ri_keepalive api [1, 2, 3, 4, 5, 6], ri_negotiate api 1000 250, ri_poll_report api 0, ri_poll_report api 1]"

definition prime_session :: "('s, 'm, 'p, 'q) rist_api \<Rightarrow> ('s, 'm) rist_sender \<Rightarrow> io_error + ('s, 'm) rist_sender" where
  "prime_session api sender =
     (case sender of
        SimpleSender s \<Rightarrow> Inr sender
      | MainSender m \<Rightarrow> res_bind (prime_calls (session_calls api) m) (\<lambda>m. Inr (MainSender m)))"

definition sender_local_addr :: "socket_addr \<Rightarrow> socket_addr" where
  "sender_local_addr peer = (case peer of
      SocketV4 ip port \<Rightarrow> SocketV4 (if addr_is_loopback peer then 0x7F000001 else 0) 0
    | SocketV6 ip port flow scope \<Rightarrow> SocketV6 (if addr_is_loopback peer then 1 else 0) 0 0 0)"

definition rist_connect :: "('s, 'm, 'p, 'q) rist_api \<Rightarrow> rist_args \<Rightarrow> io_error + ('s, 'm) rist_sender" where
  "rist_connect api args =
     (let local_addr = sender_local_addr (sa_target args) in
      res_bind (case sa_profile args of
         SimpleProfile \<Rightarrow>
           res_bind (ri_connect_simple api local_addr (sa_target args) (sa_flow_id args) (sa_history_packets args)) (\<lambda>s. Inr (SimpleSender s))
       | MainProfile \<Rightarrow>
           res_bind (ri_connect_main api local_addr (sa_target args) (sa_flow_id args) (sa_history_packets args)) (\<lambda>m. Inr (MainSender m)))
       (prime_session api))"

definition build_payload ::
  "('s, 'm, 'p, 'q) rist_api \<Rightarrow> bytes \<Rightarrow> ('s, 'm) rist_sender \<Rightarrow> ('p, 'q) payload_packet \<times> ('s, 'm) rist_sender" where
  "build_payload api payload sender =
     (case sender of
        SimpleSender s \<Rightarrow> (case ri_build_simple api payload s of (p, s) \<Rightarrow> (SimplePacket p, SimpleSender s))
      | MainSender m \<Rightarrow> (case ri_build_main api payload m of (q, m) \<Rightarrow> (MainPacket q, MainSender m)))"

text \<open>\<^const>\<open>None\<close> is \<^verbatim>\<open>unreachable!\<close>: a packet of the other profile.\<close>

definition send_outbound ::
  "('s, 'm, 'p, 'q) rist_api \<Rightarrow> ('p, 'q) payload_packet \<Rightarrow> ('s, 'm) rist_sender \<Rightarrow> ((io_error + unit) \<times> ('s, 'm) rist_sender) option" where
  "send_outbound api packet sender =
     (case (sender, packet) of
        (SimpleSender s, SimplePacket p) \<Rightarrow> (case ri_send_simple api p s of (r, s) \<Rightarrow> Some (r, SimpleSender s))
      | (MainSender m, MainPacket q) \<Rightarrow> (case ri_send_main api q m of (r, m) \<Rightarrow> Some (r, MainSender m))
      | _ \<Rightarrow> None)"

definition receive_feedback :: "('s, 'm, 'p, 'q) rist_api \<Rightarrow> ('s, 'm) rist_sender \<Rightarrow> (io_error + bool) \<times> ('s, 'm) rist_sender" where
  "receive_feedback api sender =
     (case sender of
        SimpleSender s \<Rightarrow> (case ri_recv_simple api s of (r, s) \<Rightarrow> (r, SimpleSender s))
      | MainSender m \<Rightarrow> (case ri_recv_main api m of (r, m) \<Rightarrow> (r, MainSender m)))"

fun drain_loop :: "('s, 'm, 'p, 'q) rist_api \<Rightarrow> nat \<Rightarrow> ('s, 'm) rist_sender \<Rightarrow> (io_error + unit) \<times> ('s, 'm) rist_sender" where
  "drain_loop api 0 sender = (Inr (), sender)"
| "drain_loop api (Suc n) sender =
     (case receive_feedback api sender of
        (Inr True, sender) \<Rightarrow> drain_loop api n sender
      | (Inr False, sender) \<Rightarrow> (Inr (), sender)
      | (Inl e, sender) \<Rightarrow> if io_kind e = WouldBlock then (Inr (), sender) else (Inl e, sender))"

definition drain_feedback :: "('s, 'm, 'p, 'q) rist_api \<Rightarrow> ('s, 'm) rist_sender \<Rightarrow> (io_error + unit) \<times> ('s, 'm) rist_sender" where
  "drain_feedback api sender = drain_loop api 32 sender"

section \<open>Input\<close>

function read_chunk_loop :: "nat \<Rightarrow> bytes \<Rightarrow> stdin \<Rightarrow> (io_error + bytes) \<times> stdin" where
  "read_chunk_loop limit filled s =
     (if limit \<le> length filled then (Inr filled, s)
      else case stdin_read (limit - length filled) s of
        (Inl e, s) \<Rightarrow> (Inl e, s)
      | (Inr [], s) \<Rightarrow> (Inr filled, s)
      | (Inr (b # bs), s) \<Rightarrow> read_chunk_loop limit (filled @ b # bs) s)"
  by pat_completeness auto
termination by (relation "measure (\<lambda>(limit, filled, s). limit - length filled)") auto

declare read_chunk_loop.simps [simp del]

definition read_chunk :: "nat \<Rightarrow> stdin \<Rightarrow> (io_error + bytes) \<times> stdin" where
  "read_chunk limit s = read_chunk_loop limit [] s"

lemma read_chunk_loop_Inr:
  "read_chunk_loop limit filled s = (Inr bs, s') \<Longrightarrow> length filled \<le> limit \<Longrightarrow>
     bs = filled @ take (limit - length filled) (in_rest s) \<and> in_rest s' = drop (limit - length filled) (in_rest s)"
proof (induction limit filled s rule: read_chunk_loop.induct)
  case (1 limit filled s)
  show ?case
  proof (cases "limit \<le> length filled")
    case True
    with 1 show ?thesis by (subst (asm) read_chunk_loop.simps) simp
  next
    case False
    obtain r s1 where read: "stdin_read (limit - length filled) s = (r, s1)" by fastforce
    show ?thesis
    proof (cases r)
      case (Inl e)
      with 1(2) False read show ?thesis by (subst (asm) read_chunk_loop.simps) simp
    next
      case (Inr b)
      note r = stdin_read_Inr [OF read [unfolded Inr]]
      show ?thesis
      proof (cases b)
        case Nil
        with 1(2) False read Inr r show ?thesis by (subst (asm) read_chunk_loop.simps) auto
      next
        case (Cons c cs)
        with 1(2) False read Inr have run: "read_chunk_loop limit (filled @ b) s1 = (Inr bs, s')"
          by (subst (asm) read_chunk_loop.simps) simp
        have "length (filled @ b) \<le> limit" using r False by auto
        with 1(1) [OF False read [unfolded Inr, symmetric] refl Cons, folded Cons] run
        have IH: "bs = (filled @ b) @ take (limit - length (filled @ b)) (in_rest s1)"
            "in_rest s' = drop (limit - length (filled @ b)) (in_rest s1)" by blast+
        have "in_rest s = b @ in_rest s1" "length b \<le> limit - length filled" using r by simp_all
        then show ?thesis by (simp add: IH)
      qed
    qed
  qed
qed

text \<open>However the reads come in, a chunk is what the input has next.\<close>

lemma read_chunk_Inr:
  "read_chunk limit s = (Inr bs, s') \<Longrightarrow> bs = take limit (in_rest s) \<and> in_rest s' = drop limit (in_rest s)"
  using read_chunk_loop_Inr [of limit "[]"] by (auto simp: read_chunk_def)

section \<open>The program\<close>

record ('s, 'm) rist_run =
  rn_sender :: "('s, 'm) rist_sender"
  rn_stdin :: stdin
  rn_sleeps :: "nat list"
  rn_sent_bytes :: nat

datatype rist_send_error = SenderFailed io_error | InputFailed io_error | PayloadFailed io_error | FeedbackFailed io_error | FinalFailed io_error

definition retry_transient_udp ::
  "int option \<Rightarrow> (io_error \<Rightarrow> rist_send_error) \<Rightarrow> (('s, 'm) rist_sender \<Rightarrow> ((io_error + unit) \<times> ('s, 'm) rist_sender) option)
   \<Rightarrow> ('s, 'm) rist_run \<Rightarrow> (rist_send_error, ('s, 'm) rist_run) outcome" where
  "retry_transient_udp enobufs failed operation run =
     (case retry_loop (is_transient_udp_error enobufs) operation initial_udp_retry_delay (rn_sleeps run) (rn_sender run) of
        None \<Rightarrow> None
      | Some (Inl e, sleeps, sender) \<Rightarrow> Some (Inl (failed e))
      | Some (Inr _, sleeps, sender) \<Rightarrow> Some (Inr (run\<lparr>rn_sleeps := sleeps, rn_sender := sender\<rparr>)))"

definition drain_with ::
  "('s, 'm, 'p, 'q) rist_api \<Rightarrow> int option \<Rightarrow> (io_error \<Rightarrow> rist_send_error) \<Rightarrow> ('s, 'm) rist_run
   \<Rightarrow> (rist_send_error, ('s, 'm) rist_run) outcome" where
  "drain_with api enobufs failed = retry_transient_udp enobufs failed (\<lambda>sender. Some (drain_feedback api sender))"

definition send_chunk ::
  "('s, 'm, 'p, 'q) rist_api \<Rightarrow> int option \<Rightarrow> bytes \<Rightarrow> ('s, 'm) rist_run \<Rightarrow> (rist_send_error, ('s, 'm) rist_run) outcome" where
  "send_chunk api enobufs payload run =
     (case build_payload api payload (rn_sender run) of
        (packet, sender) \<Rightarrow>
          obind (retry_transient_udp enobufs PayloadFailed (send_outbound api packet) (run\<lparr>rn_sender := sender\<rparr>)) (\<lambda>run.
          obind (drain_with api enobufs FeedbackFailed run) (\<lambda>run.
            Some (Inr (run\<lparr>rn_sent_bytes := rn_sent_bytes run + length payload\<rparr>)))))"

partial_function (option) send_input ::
  "('s, 'm, 'p, 'q) rist_api \<Rightarrow> int option \<Rightarrow> nat \<Rightarrow> ('s, 'm) rist_run \<Rightarrow> (rist_send_error, ('s, 'm) rist_run) outcome" where
  [code]: "send_input api enobufs chunk_bytes run =
     (case read_chunk chunk_bytes (rn_stdin run) of
        (Inl e, s) \<Rightarrow> Some (Inl (InputFailed e))
      | (Inr payload, s) \<Rightarrow>
          if payload = [] then Some (Inr (run\<lparr>rn_stdin := s\<rparr>))
          else case send_chunk api enobufs payload (run\<lparr>rn_stdin := s\<rparr>) of
            None \<Rightarrow> None
          | Some (Inl e) \<Rightarrow> Some (Inl e)
          | Some (Inr run) \<Rightarrow> send_input api enobufs chunk_bytes run)"

text \<open>The monotonic clock is read before every round, and after the readings given the deadline is past; each round sleeps a
  millisecond.\<close>

fun final_repair ::
  "('s, 'm, 'p, 'q) rist_api \<Rightarrow> int option \<Rightarrow> nat \<Rightarrow> nat list \<Rightarrow> ('s, 'm) rist_run \<Rightarrow> (rist_send_error, ('s, 'm) rist_run) outcome" where
  "final_repair api enobufs deadline [] run = Some (Inr run)"
| "final_repair api enobufs deadline (now # clock) run =
     (if now < deadline then
        obind (drain_with api enobufs FinalFailed run) (\<lambda>run.
          final_repair api enobufs deadline clock (run\<lparr>rn_sleeps := rn_sleeps run @ [1]\<rparr>))
      else Some (Inr run))"

definition rist_send ::
  "('s, 'm, 'p, 'q) rist_api \<Rightarrow> int option \<Rightarrow> rist_args \<Rightarrow> stdin \<Rightarrow> nat \<Rightarrow> nat list \<Rightarrow> (rist_send_error, ('s, 'm) rist_run) outcome" where
  "rist_send api enobufs args input ended clock =
     obind (Some (map_err SenderFailed (rist_connect api args))) (\<lambda>sender.
     obind (send_input api enobufs (max 1 (sa_chunk_bytes args))
       \<lparr>rn_sender = sender, rn_stdin = input, rn_sleeps = [], rn_sent_bytes = 0\<rparr>) (\<lambda>run.
     obind (final_repair api enobufs (ended + sa_final_repair_ms args) clock run)
       (drain_with api enobufs FinalFailed)))"

definition parse_u32_auto :: "string \<Rightarrow> u32 option" where
  "parse_u32_auto value =
     (let trimmed = trim value in
      case (case strip_prefix ''0x'' trimmed of Some h \<Rightarrow> Some h | None \<Rightarrow> strip_prefix ''0X'' trimmed) of
        Some hex \<Rightarrow> Option.bind (parse_hex hex) (\<lambda>n. if n < 2 ^ 32 then Some (of_nat n) else None)
      | None \<Rightarrow> parse_uint trimmed)"

end
