(* ===== verification/Rist_Send_Facts.thy ===== *)
theory Rist_Send_Facts
  imports Rist_Send
begin

text \<open>
  A RIST sender that ends well handed over its input, cut into chunks, each once and in order; a packet is never given
  to a sender of the other profile; and a busy socket is tried again after one, two, four milliseconds and so on, up to
  thirty-two.
\<close>

section \<open>Retries\<close>

fun backoff :: "nat \<Rightarrow> nat \<Rightarrow> nat list" where
  "backoff d 0 = []"
| "backoff d (Suc n) = d # backoff (min (d * 2) max_udp_retry_delay) n"

lemma backoff_powers: "k \<le> 5 \<Longrightarrow> i < n \<Longrightarrow> backoff (2 ^ k) n ! i = min (2 ^ (k + i)) 32"
proof (induction n arbitrary: k i)
  case (Suc n)
  show ?case
  proof (cases i)
    case 0
    have "(2 :: nat) ^ k \<le> 2 ^ 5" using Suc.prems(1) by (rule power_increasing) simp
    with 0 show ?thesis by simp
  next
    case (Suc j)
    show ?thesis
    proof (cases "k = 5")
      case True
      have "(32 :: nat) * 2 ^ j \<ge> 32" by simp
      with True Suc Suc.IH [of 5 j] Suc.prems(2) show ?thesis
        by (simp add: max_udp_retry_delay_def power_add)
    next
      case False
      then have k: "Suc k \<le> 5" using Suc.prems(1) by simp
      then have "(2 :: nat) ^ Suc k \<le> 2 ^ 5" by (rule power_increasing) simp
      then have "min (2 ^ k * 2) 32 = (2 :: nat) ^ Suc k" by simp
      with Suc Suc.IH [OF k, of j] Suc.prems(2) show ?thesis by (simp add: max_udp_retry_delay_def mult.commute)
    qed
  qed
qed simp

text \<open>After some attempts on a busy socket and one that ends it, the loop returns with the sleeps in between.\<close>

inductive busy_then :: "(io_error \<Rightarrow> bool) \<Rightarrow> ('s \<Rightarrow> ((io_error + 'a) \<times> 's) option) \<Rightarrow> nat \<Rightarrow> 's \<Rightarrow> io_error + 'a \<Rightarrow> 's \<Rightarrow> bool"
  for transient operation where
  ends: "operation s = Some (r, s') \<Longrightarrow> (case r of Inl e \<Rightarrow> \<not> transient e | Inr _ \<Rightarrow> True) \<Longrightarrow> busy_then transient operation 0 s r s'"
| again: "operation s = Some (Inl e, s1) \<Longrightarrow> transient e \<Longrightarrow> busy_then transient operation n s1 r s'
    \<Longrightarrow> busy_then transient operation (Suc n) s r s'"

lemma retry_backoff:
  "busy_then transient operation n s r s' \<Longrightarrow>
     retry_loop transient operation d sleeps s = Some (r, sleeps @ backoff d n, s')"
proof (induction arbitrary: d sleeps rule: busy_then.induct)
  case (ends s r s')
  then show ?case by (subst retry_loop.simps) (cases r; simp)
next
  case (again s e s1 n r s')
  then show ?case by (subst retry_loop.simps) simp
qed

text \<open>And every return of the loop is of this kind.\<close>

lemma retry_returns_only:
  assumes "retry_loop transient operation d sleeps s = Some (r, sleeps', s')"
  shows "\<exists>n. busy_then transient operation n s r s'"
proof -
  have "case (r, sleeps', s') of (r, _, s') \<Rightarrow> \<exists>n. busy_then transient operation n s r s'"
  proof (rule retry_loop.raw_induct [where P = "\<lambda>transient operation d sleeps s y. case y of (r, _, s') \<Rightarrow> \<exists>n. busy_then transient operation n s r s'", OF _ assms])
    fix rec and transient :: "io_error \<Rightarrow> bool" and operation :: "'s \<Rightarrow> ((io_error + 'a) \<times> 's) option"
      and d sleeps s and y :: "(io_error + 'a) \<times> nat list \<times> 's"
    assume IH: "\<And>transient operation d sleeps s y. rec transient operation d sleeps s = Some y \<Longrightarrow>
        case y of (r, _, s') \<Rightarrow> \<exists>n. busy_then transient operation n s r s'"
      and body: "(case operation s of
          None \<Rightarrow> None
        | Some (Inl e, s) \<Rightarrow> if transient e then rec transient operation (min (d * 2) max_udp_retry_delay) (sleeps @ [d]) s
            else Some (Inl e, sleeps, s)
        | Some (Inr v, s) \<Rightarrow> Some (Inr v, sleeps, s)) = Some y"
    obtain r1 s1 where op: "operation s = Some (r1, s1)" using body by (auto split: option.splits)
    show "case y of (r, _, s') \<Rightarrow> \<exists>n. busy_then transient operation n s r s'"
    proof (cases "\<exists>e. r1 = Inl e \<and> transient e")
      case True
      then obtain e where e: "r1 = Inl e" "transient e" by blast
      with body op have "rec transient operation (min (d * 2) max_udp_retry_delay) (sleeps @ [d]) s1 = Some y" by simp
      from IH [OF this] op e show ?thesis by (auto intro: busy_then.again)
    next
      case False
      with body op have "y = (r1, sleeps, s1)" by (cases r1) auto
      moreover have "busy_then transient operation 0 s r1 s1" using op False by (intro busy_then.ends) (cases r1; auto)+
      ultimately show ?thesis by auto
    qed
  qed
  then show ?thesis by simp
qed

lemma busy_then_sound:
  assumes "busy_then transient operation n s r s'" and "I s"
    and "\<And>s r s'. I s \<Longrightarrow> operation s = Some (r, s') \<Longrightarrow> (case r of Inl _ \<Rightarrow> I s' | Inr v \<Rightarrow> Q s')"
  shows "case r of Inl e \<Rightarrow> I s' | Inr v \<Rightarrow> Q s'"
  using assms(1,2)
proof (induction rule: busy_then.induct)
  case (ends s r s')
  from assms(3) [OF ends(3,1)] show ?case .
next
  case (again s e s1 n r s')
  from assms(3) [OF again(5,1)] again(4) show ?case by simp
qed

lemma retry_sound:
  assumes "retry_transient_udp enobufs failed operation run = Some (Inr run')" and "I (rn_sender run)"
    and "\<And>s r s'. I s \<Longrightarrow> operation s = Some (r, s') \<Longrightarrow> (case r of Inl _ \<Rightarrow> I s' | Inr v \<Rightarrow> Q s')"
  shows "Q (rn_sender run') \<and> rn_stdin run' = rn_stdin run \<and> rn_sent_bytes run' = rn_sent_bytes run"
proof -
  from assms(1) obtain v sleeps s' where
    loop: "retry_loop (is_transient_udp_error enobufs) operation initial_udp_retry_delay (rn_sleeps run) (rn_sender run) = Some (Inr v, sleeps, s')"
    and run': "run' = run\<lparr>rn_sleeps := sleeps, rn_sender := s'\<rparr>"
    by (auto simp: retry_transient_udp_def split: option.splits sum.splits prod.splits)
  from retry_returns_only [OF loop] obtain n where "busy_then (is_transient_udp_error enobufs) operation n (rn_sender run) (Inr v) s'" ..
  then have "case (Inr v :: io_error + unit) of Inl e \<Rightarrow> I s' | Inr v \<Rightarrow> Q s'"
    by (rule busy_then_sound [where I = I and Q = Q]) (use assms(2,3) in blast)+
  then show ?thesis by (simp add: run')
qed

section \<open>Delivery\<close>

text \<open>Senders that remember the payloads the socket took, and packets that carry theirs.\<close>

type_synonym 's noting = "'s \<times> bytes list"

definition noting_build :: "(bytes \<Rightarrow> 's \<Rightarrow> 'p \<times> 's) \<Rightarrow> bytes \<Rightarrow> 's noting \<Rightarrow> ('p \<times> bytes) \<times> 's noting" where
  "noting_build build payload = (\<lambda>(s, sent). case build payload s of (p, s) \<Rightarrow> ((p, payload), (s, sent)))"

definition noting_send :: "('p \<Rightarrow> 's \<Rightarrow> (io_error + unit) \<times> 's) \<Rightarrow> 'p \<times> bytes \<Rightarrow> 's noting \<Rightarrow> (io_error + unit) \<times> 's noting" where
  "noting_send send = (\<lambda>(p, payload) (s, sent). case send p s of
     (Inl e, s) \<Rightarrow> (Inl e, (s, sent)) | (Inr u, s) \<Rightarrow> (Inr u, (s, sent @ [payload])))"

definition noting_call :: "('s \<Rightarrow> (io_error + 'a) \<times> 's) \<Rightarrow> 's noting \<Rightarrow> (io_error + 'a) \<times> 's noting" where
  "noting_call call = (\<lambda>(s, sent). case call s of (r, s) \<Rightarrow> (r, (s, sent)))"

definition noting_api :: "('s, 'm, 'p, 'q) rist_api \<Rightarrow> ('s noting, 'm noting, 'p \<times> bytes, 'q \<times> bytes) rist_api" where
  "noting_api api = \<lparr>
     ri_connect_simple = (\<lambda>l t f h. res_bind (ri_connect_simple api l t f h) (\<lambda>s. Inr (s, []))),
     ri_connect_main = (\<lambda>l t f h. res_bind (ri_connect_main api l t f h) (\<lambda>m. Inr (m, []))),
     ri_keepalive = (\<lambda>id. noting_call (ri_keepalive api id)),
     ri_negotiate = (\<lambda>a b. noting_call (ri_negotiate api a b)),
     ri_poll_report = (\<lambda>s. noting_call (ri_poll_report api s)),
     ri_build_simple = noting_build (ri_build_simple api), ri_build_main = noting_build (ri_build_main api),
     ri_send_simple = noting_send (ri_send_simple api), ri_send_main = noting_send (ri_send_main api),
     ri_recv_simple = noting_call (ri_recv_simple api), ri_recv_main = noting_call (ri_recv_main api)\<rparr>"

fun delivered :: "('s noting, 'm noting) rist_sender \<Rightarrow> bytes list" where
  "delivered (SimpleSender s) = snd s"
| "delivered (MainSender m) = snd m"

fun profile_of :: "('s, 'm) rist_sender \<Rightarrow> send_profile" where
  "profile_of (SimpleSender s) = SimpleProfile"
| "profile_of (MainSender m) = MainProfile"

fun packet_for :: "send_profile \<Rightarrow> bytes \<Rightarrow> ('p \<times> bytes, 'q \<times> bytes) payload_packet \<Rightarrow> bool" where
  "packet_for SimpleProfile payload (SimplePacket p) = (snd p = payload)"
| "packet_for MainProfile payload (MainPacket q) = (snd q = payload)"
| "packet_for _ _ _ = False"

lemma build_payload_noting:
  "build_payload (noting_api api) payload s = (packet, s') \<Longrightarrow>
     delivered s' = delivered s \<and> profile_of s' = profile_of s \<and> packet_for (profile_of s) payload packet"
  by (cases s) (auto simp: build_payload_def noting_api_def noting_build_def split: prod.splits)

lemma send_outbound_noting:
  assumes "packet_for (profile_of s) payload packet"
  shows "\<exists>r s'. send_outbound (noting_api api) packet s = Some (r, s') \<and> profile_of s' = profile_of s
    \<and> delivered s' = delivered s @ (case r of Inl _ \<Rightarrow> [] | Inr _ \<Rightarrow> [payload])"
proof (cases s)
  case (SimpleSender n)
  obtain m sent where n: "n = (m, sent)" by fastforce
  from assms SimpleSender obtain p where p: "packet = SimplePacket (p, payload)" by (cases packet) auto
  obtain r m' where "ri_send_simple api p m = (r, m')" by fastforce
  with SimpleSender n p show ?thesis by (cases r) (simp_all add: send_outbound_def noting_api_def noting_send_def)
next
  case (MainSender n)
  obtain m sent where n: "n = (m, sent)" by fastforce
  from assms MainSender obtain q where q: "packet = MainPacket (q, payload)" by (cases packet) auto
  obtain r m' where "ri_send_main api q m = (r, m')" by fastforce
  with MainSender n q show ?thesis by (cases r) (simp_all add: send_outbound_def noting_api_def noting_send_def)
qed

lemma receive_feedback_noting:
  assumes "receive_feedback (noting_api api) s = (r, s')"
  shows "delivered s' = delivered s \<and> profile_of s' = profile_of s"
proof (cases s)
  case (SimpleSender n)
  obtain m sent where n: "n = (m, sent)" by fastforce
  obtain r m' where "ri_recv_simple api m = (r, m')" by fastforce
  with SimpleSender n assms show ?thesis by (auto simp: receive_feedback_def noting_api_def noting_call_def)
next
  case (MainSender n)
  obtain m sent where n: "n = (m, sent)" by fastforce
  obtain r m' where "ri_recv_main api m = (r, m')" by fastforce
  with MainSender n assms show ?thesis by (auto simp: receive_feedback_def noting_api_def noting_call_def)
qed

lemma drain_loop_noting:
  "drain_loop (noting_api api) n s = (r, s') \<Longrightarrow> delivered s' = delivered s \<and> profile_of s' = profile_of s"
proof (induction n arbitrary: s)
  case (Suc n)
  obtain r1 s1 where recv: "receive_feedback (noting_api api) s = (r1, s1)" by fastforce
  note same = receive_feedback_noting [OF recv]
  show ?case
  proof (cases "r1 = Inr True")
    case True
    with Suc.prems recv have "drain_loop (noting_api api) n s1 = (r, s')" by simp
    from Suc.IH [OF this] same show ?thesis by simp
  next
    case False
    with Suc.prems recv have "s' = s1" by (cases r1) (auto split: if_splits)
    with same show ?thesis by simp
  qed
qed simp

lemma drain_with_noting:
  assumes "drain_with (noting_api api) enobufs failed run = Some (Inr run')"
  shows "delivered (rn_sender run') = delivered (rn_sender run) \<and> rn_stdin run' = rn_stdin run \<and> rn_sent_bytes run' = rn_sent_bytes run"
proof (rule retry_sound [OF assms [unfolded drain_with_def], where I = "\<lambda>s. delivered s = delivered (rn_sender run)"
      and Q = "\<lambda>s. delivered s = delivered (rn_sender run)"])
  fix s r s'
  assume "delivered s = delivered (rn_sender run)" and "Some (drain_feedback (noting_api api) s) = Some (r, s')"
  with drain_loop_noting [of api 32 s r s'] have "delivered s' = delivered (rn_sender run)"
    by (simp only: drain_feedback_def option.inject)
  then show "case r of Inl _ \<Rightarrow> delivered s' = delivered (rn_sender run) | Inr _ \<Rightarrow> delivered s' = delivered (rn_sender run)"
    by (cases r) simp_all
qed simp

lemma send_chunk_noting:
  assumes "send_chunk (noting_api api) enobufs payload run = Some (Inr run')"
  shows "delivered (rn_sender run') = delivered (rn_sender run) @ [payload] \<and> rn_stdin run' = rn_stdin run
    \<and> rn_sent_bytes run' = rn_sent_bytes run + length payload"
proof -
  let ?D = "delivered (rn_sender run)"
  obtain packet s where build: "build_payload (noting_api api) payload (rn_sender run) = (packet, s)" by fastforce
  note b = build_payload_noting [OF build]
  from assms build obtain run1 run2 where
      send: "retry_transient_udp enobufs PayloadFailed (send_outbound (noting_api api) packet) (run\<lparr>rn_sender := s\<rparr>) = Some (Inr run1)"
      and drain: "drain_with (noting_api api) enobufs FeedbackFailed run1 = Some (Inr run2)"
      and run': "run' = run2\<lparr>rn_sent_bytes := rn_sent_bytes run2 + length payload\<rparr>"
    by (auto simp: send_chunk_def)
  have "delivered (rn_sender run1) = ?D @ [payload] \<and> rn_stdin run1 = rn_stdin run \<and> rn_sent_bytes run1 = rn_sent_bytes run"
  proof -
    have "case r of Inl _ \<Rightarrow> delivered s' = ?D \<and> packet_for (profile_of s') payload packet | Inr _ \<Rightarrow> delivered s' = ?D @ [payload]"
      if "delivered s = ?D \<and> packet_for (profile_of s) payload packet" "send_outbound (noting_api api) packet s = Some (r, s')" for s r s'
      using send_outbound_noting [of s payload packet api] that by (cases r) auto
    from retry_sound [OF send, where I = "\<lambda>s. delivered s = ?D \<and> packet_for (profile_of s) payload packet"
        and Q = "\<lambda>s. delivered s = ?D @ [payload]", OF _ this] b show ?thesis by auto
  qed
  with drain_with_noting [OF drain] show ?thesis by (simp add: run')
qed

lemma send_input_noting:
  assumes "send_input (noting_api api) enobufs n run = Some (Inr run')" and "0 < n"
  shows "delivered (rn_sender run') = delivered (rn_sender run) @ chunks_of n (in_rest (rn_stdin run))
    \<and> rn_sent_bytes run' = rn_sent_bytes run + length (in_rest (rn_stdin run))"
  using assms
proof (induction "length (in_rest (rn_stdin run))" arbitrary: run rule: less_induct)
  case less
  let ?rest = "in_rest (rn_stdin run)"
  obtain r s where read: "read_chunk n (rn_stdin run) = (r, s)" by fastforce
  show ?case
  proof (cases r)
    case (Inl e)
    with less.prems(1) read show ?thesis by (subst (asm) send_input.simps) simp
  next
    case (Inr payload)
    note next_chunk = read_chunk_Inr [OF read [unfolded Inr]]
    show ?thesis
    proof (cases "payload = []")
      case True
      with next_chunk less.prems(2) have "?rest = []" by auto
      with less.prems(1) read Inr True show ?thesis by (subst (asm) send_input.simps) auto
    next
      case False
      with less.prems(1) read Inr obtain run1 where
          one: "send_chunk (noting_api api) enobufs payload (run\<lparr>rn_stdin := s\<rparr>) = Some (Inr run1)"
          and rest: "send_input (noting_api api) enobufs n run1 = Some (Inr run')"
        by (subst (asm) send_input.simps) (auto split: option.splits sum.splits)
      note c = send_chunk_noting [OF one]
      have "?rest \<noteq> []" using False next_chunk by auto
      moreover from this have "length (in_rest (rn_stdin run1)) < length ?rest" using c next_chunk less.prems(2) by simp
      ultimately show ?thesis
        using less.hyps [OF _ rest less.prems(2)] c next_chunk less.prems(2) chunks_of_step [of ?rest n]
        by (simp add: min_def)
    qed
  qed
qed

lemma final_repair_noting:
  "final_repair (noting_api api) enobufs deadline clock run = Some (Inr run') \<Longrightarrow>
     delivered (rn_sender run') = delivered (rn_sender run) \<and> rn_sent_bytes run' = rn_sent_bytes run"
proof (induction clock arbitrary: run)
  case (Cons now clock)
  show ?case
  proof (cases "now < deadline")
    case True
    with Cons.prems obtain run1 where "drain_with (noting_api api) enobufs FinalFailed run = Some (Inr run1)"
        "final_repair (noting_api api) enobufs deadline clock (run1\<lparr>rn_sleeps := rn_sleeps run1 @ [1]\<rparr>) = Some (Inr run')" by auto
    with Cons.IH drain_with_noting show ?thesis by fastforce
  qed (use Cons.prems in simp)
qed simp

lemma prime_calls_noting:
  "prime_calls (map noting_call calls) (m, sent) = Inr m' \<Longrightarrow> snd m' = sent"
proof (induction calls arbitrary: m)
  case (Cons c calls)
  obtain r m1 where "c m = (r, m1)" by fastforce
  with Cons show ?case by (cases r) (auto simp: noting_call_def)
qed auto

lemma session_calls_noting: "session_calls (noting_api api) = map noting_call (session_calls api)"
  by (simp add: session_calls_def noting_api_def)

lemma rist_connect_noting:
  assumes "rist_connect (noting_api api) args = Inr s"
  shows "delivered s = []"
proof (cases "sa_profile args")
  case SimpleProfile
  with assms show ?thesis by (auto simp: rist_connect_def Let_def res_ok prime_session_def noting_api_def)
next
  case MainProfile
  have connect: "ri_connect_main (noting_api api) l t f h = Inr m0 \<Longrightarrow> snd m0 = []" for l t f h m0
    by (auto simp: noting_api_def res_ok)
  from assms MainProfile obtain m m' l t f h where m: "ri_connect_main (noting_api api) l t f h = Inr m"
      "prime_calls (session_calls (noting_api api)) m = Inr m'" "s = MainSender m'"
    by (auto simp: rist_connect_def Let_def res_ok prime_session_def)
  obtain n sent where "m = (n, sent)" by fastforce
  with m connect [OF m(1)] prime_calls_noting [of "session_calls api" n "[]" m'] show ?thesis
    by (simp add: session_calls_noting)
qed

section \<open>The local address\<close>

text \<open>It is the one a relay sender binds for the same peer, so the peer can answer: a loopback peer on the loopback, of the same
  family.\<close>

lemma sender_local_addr_relay: "sender_local_addr peer = local_sender_addr peer"
  by (simp add: sender_local_addr_def local_sender_addr_def)

lemma sender_local_addr_family:
  "addr_is_ipv4 (sender_local_addr peer) = addr_is_ipv4 peer \<and> addr_is_loopback (sender_local_addr peer) = addr_is_loopback peer
     \<and> addr_port (sender_local_addr peer) = 0"
  by (cases peer) (auto simp: sender_local_addr_def)

section \<open>The whole program\<close>

text \<open>C40: A RIST sender that ends without an error gave the socket every byte of its input once and in order, as payloads of
  the asked size of which only the last may be shorter, however the reads of the input came in, however often the
  socket was busy and whatever feedback arrived; the byte count it prints is that of the input.\<close>

theorem rist_send_exact:
  "case rist_send (noting_api api) enobufs args input ended clock of
     Some (Inr run) \<Rightarrow>
       delivered (rn_sender run) = chunks_of (max 1 (sa_chunk_bytes args)) (in_rest input)
       \<and> concat (delivered (rn_sender run)) = in_rest input \<and> rn_sent_bytes run = length (in_rest input)
   | _ \<Rightarrow> True"
proof (cases "\<exists>run. rist_send (noting_api api) enobufs args input ended clock = Some (Inr run)")
  case True
  then obtain run sender run1 run2 where run: "rist_send (noting_api api) enobufs args input ended clock = Some (Inr run)"
      and connect: "rist_connect (noting_api api) args = Inr sender"
      and sent: "send_input (noting_api api) enobufs (max 1 (sa_chunk_bytes args))
        \<lparr>rn_sender = sender, rn_stdin = input, rn_sleeps = [], rn_sent_bytes = 0\<rparr> = Some (Inr run1)"
      and final: "final_repair (noting_api api) enobufs (ended + sa_final_repair_ms args) clock run1 = Some (Inr run2)"
      and drain: "drain_with (noting_api api) enobufs FinalFailed run2 = Some (Inr run)"
    by (auto simp: rist_send_def map_err_eq_Inr)
  from send_input_noting [OF sent] final_repair_noting [OF final] drain_with_noting [OF drain] rist_connect_noting [OF connect]
  show ?thesis by (simp add: run concat_chunks_of)
next
  case False
  then show ?thesis by (auto split: option.split sum.split)
qed

end
