(* ===== verification/Fec_Send.thy ===== *)
theory Fec_Send
  imports Sender_Input Media_Params
begin

text \<open>
  \<^verbatim>\<open>src/src/bin/media-fec-send.rs\<close> and \<^verbatim>\<open>src/src/bin/udp-fec-send.rs\<close>: standard input read to its end and sent as one media
  access unit, or cut into chunks for the byte lane. The FEC crate's encoder and sender, and the socket, are parameters;
  a sending step answers whether it succeeded. What the tools print is their result.
\<close>

section \<open>Sending in order\<close>

fun send_each :: "('x \<Rightarrow> 'n \<Rightarrow> bool \<times> 'n) \<Rightarrow> 'x list \<Rightarrow> 'n \<Rightarrow> bool \<times> 'n" where
  "send_each send [] n = (True, n)"
| "send_each send (x # xs) n = (case send x n of (True, n) \<Rightarrow> send_each send xs n | (False, n) \<Rightarrow> (False, n))"

datatype fec_send_error =
  DurationTooWide | StdinFailed io_error | EncodeFailed | BindFailed | DatagramFailed | SenderRefused | ChunkFailed

section \<open>One access unit\<close>

datatype codec_arg = ArgAuto | ArgUnknown | ArgH264 | ArgOpus | ArgAac | ArgData

fun codec_of_arg :: "codec_arg \<Rightarrow> media_codec" where
  "codec_of_arg ArgAuto = CodecData"
| "codec_of_arg ArgUnknown = CodecUnknown"
| "codec_of_arg ArgH264 = CodecH264"
| "codec_of_arg ArgOpus = CodecOpus"
| "codec_of_arg ArgAac = CodecAac"
| "codec_of_arg ArgData = CodecData"

definition resolve_codec :: "media_detector \<Rightarrow> codec_arg \<Rightarrow> bytes \<Rightarrow> media_codec" where
  "resolve_codec md arg payload = (case arg of ArgAuto \<Rightarrow> infer_media_codec md payload | _ \<Rightarrow> codec_of_arg arg)"

record media_fec_args =
  fa_stream_id :: u64
  fa_sequence :: u64
  fa_pts_ms :: u64
  fa_dts_ms :: "u64 option"
  fa_duration_ms :: u32
  fa_codec :: codec_arg
  fa_keyframe :: bool
  fa_codec_config :: bool
  fa_discontinuity :: bool
  fa_end_of_stream :: bool

definition raised_flags :: "media_flags_api \<Rightarrow> media_fec_args \<Rightarrow> u16" where
  "raised_flags fl args =
     (let flags = fl_default fl;
          flags = (if fa_keyframe args then fl_with fl flags (fl_keyframe fl) else flags);
          flags = (if fa_codec_config args then fl_with fl flags (fl_codec_config fl) else flags);
          flags = (if fa_discontinuity args then fl_with fl flags (fl_discontinuity fl) else flags)
      in if fa_end_of_stream args then fl_with fl flags (fl_end_of_stream fl) else flags)"

definition unit_metadata :: "media_flags_api \<Rightarrow> media_detector \<Rightarrow> media_fec_args \<Rightarrow> bytes \<Rightarrow> media_frame_metadata" where
  "unit_metadata fl md args input =
     \<lparr>mm_stream_id = fa_stream_id args, mm_sequence = fa_sequence args, mm_pts_ms = fa_pts_ms args,
      mm_dts_ms = fa_dts_ms args, mm_duration_ms = fa_duration_ms args,
      mm_codec = resolve_codec md (fa_codec args) input, mm_flags = raised_flags fl args\<rparr>"

record media_fec_report =
  fr_bytes :: nat
  fr_codec :: string
  fr_datagrams :: nat

definition media_fec_send ::
  "media_flags_api \<Rightarrow> media_detector \<Rightarrow> (media_frame_metadata \<Rightarrow> bytes \<Rightarrow> bytes list option) \<Rightarrow> bool
   \<Rightarrow> (bytes \<Rightarrow> 'n \<Rightarrow> bool \<times> 'n) \<Rightarrow> media_fec_args \<Rightarrow> nat list \<Rightarrow> stdin \<Rightarrow> 'n \<Rightarrow> (fec_send_error + media_fec_report) \<times> 'n" where
  "media_fec_send fl md encode bind_ok send args reads input n =
     (if fa_duration_ms args > 65535 then (Inl DurationTooWide, n)
      else case read_to_end reads [] input of
        (Inl e, _) \<Rightarrow> (Inl (StdinFailed e), n)
      | (Inr bs, _) \<Rightarrow>
          let metadata = unit_metadata fl md args bs in
          case encode metadata bs of
            None \<Rightarrow> (Inl EncodeFailed, n)
          | Some datagrams \<Rightarrow>
              if \<not> bind_ok then (Inl BindFailed, n)
              else case send_each send datagrams n of
                (False, n) \<Rightarrow> (Inl DatagramFailed, n)
              | (True, n) \<Rightarrow> (Inr \<lparr>fr_bytes = length bs, fr_codec = codec_name (mm_codec metadata), fr_datagrams = length datagrams\<rparr>, n))"

section \<open>The byte lane\<close>

record udp_fec_args =
  fu_repair_symbols :: u32
  fu_symbol_size :: u16
  fu_chunk_bytes :: "nat option"

definition fec_chunk_bytes :: "nat \<Rightarrow> udp_fec_args \<Rightarrow> nat" where
  "fec_chunk_bytes default_source_symbols args =
     max 1 (case fu_chunk_bytes args of Some b \<Rightarrow> b | None \<Rightarrow> default_source_symbols * unat (fu_symbol_size args))"

text \<open>Making a sender with its repair symbols and symbol size is a parameter, which may fail.\<close>

definition udp_fec_send ::
  "nat \<Rightarrow> (u32 \<Rightarrow> u16 \<Rightarrow> 'n option) \<Rightarrow> (bytes \<Rightarrow> 'n \<Rightarrow> bool \<times> 'n) \<Rightarrow> udp_fec_args \<Rightarrow> nat list \<Rightarrow> stdin
   \<Rightarrow> fec_send_error + nat \<times> nat \<times> 'n" where
  "udp_fec_send default_source_symbols new_sender send args reads input =
     (case read_to_end reads [] input of
        (Inl e, _) \<Rightarrow> Inl (StdinFailed e)
      | (Inr bs, _) \<Rightarrow>
          let chunk_bytes = fec_chunk_bytes default_source_symbols args in
          case new_sender (fu_repair_symbols args) (fu_symbol_size args) of
            None \<Rightarrow> Inl SenderRefused
          | Some n \<Rightarrow>
              case send_each send (chunks_of chunk_bytes bs) n of
                (False, n) \<Rightarrow> Inl ChunkFailed
              | (True, n) \<Rightarrow> Inr (length bs, chunk_bytes, n))"

section \<open>What is sent\<close>

text \<open>A socket that remembers what it took.\<close>

definition noting_sink :: "('x \<Rightarrow> 'n \<Rightarrow> bool \<times> 'n) \<Rightarrow> 'x \<Rightarrow> 'n \<times> 'x list \<Rightarrow> bool \<times> ('n \<times> 'x list)" where
  "noting_sink send x = (\<lambda>(n, sent). case send x n of (ok, n) \<Rightarrow> (ok, n, if ok then sent @ [x] else sent))"

lemma noting_sink_apply:
  "noting_sink send x (n, sent) = (case send x n of (ok, n) \<Rightarrow> (ok, n, if ok then sent @ [x] else sent))"
  by (simp add: noting_sink_def)

lemma send_each_noting:
  "send_each (noting_sink send) xs (n, sent) = (ok, n', sent') \<Longrightarrow>
     \<exists>k. sent' = sent @ take k xs \<and> (if ok then take k xs = xs else k < length xs)"
proof (induction xs arbitrary: n sent)
  case (Cons x xs)
  obtain ok1 n1 where send: "send x n = (ok1, n1)" by fastforce
  show ?case
  proof (cases ok1)
    case True
    with Cons.prems send have "send_each (noting_sink send) xs (n1, sent @ [x]) = (ok, n', sent')" by (simp add: noting_sink_apply)
    from Cons.IH [OF this] obtain k where "sent' = (sent @ [x]) @ take k xs" "if ok then take k xs = xs else k < length xs" by blast
    then show ?thesis by (intro exI [of _ "Suc k"]) (auto split: if_splits)
  next
    case False
    with Cons.prems send show ?thesis by (intro exI [of _ 0]) (auto simp: noting_sink_apply)
  qed
qed auto

text \<open>An access unit is sent under the metadata of the command line, the codec asked for or that of its bytes, and with as many
  datagrams as the encoder gave; a failure leaves a proper part of them.\<close>

lemma media_fec_send_exact:
  assumes "media_fec_send fl md encode bind_ok (noting_sink send) args reads input (n, []) = (Inr report, n', sent)"
  shows "encode (unit_metadata fl md args (in_rest input)) (in_rest input) = Some sent
    \<and> fr_bytes report = length (in_rest input) \<and> fr_datagrams report = length sent \<and> fa_duration_ms args \<le> 65535"
proof -
  from assms obtain bs s datagrams where read: "read_to_end reads [] input = (Inr bs, s)"
      and wide: "\<not> fa_duration_ms args > 65535" and enc: "encode (unit_metadata fl md args bs) bs = Some datagrams"
      and each: "send_each (noting_sink send) datagrams (n, []) = (True, n', sent)"
      and report: "report = \<lparr>fr_bytes = length bs, fr_codec = codec_name (mm_codec (unit_metadata fl md args bs)), fr_datagrams = length datagrams\<rparr>"
    by (auto simp: media_fec_send_def Let_def split: if_splits prod.splits sum.splits option.splits bool.splits)
  from send_each_noting [OF each] read_to_end_Inr [OF read] enc wide show ?thesis by (auto simp: report)
qed

lemma udp_fec_send_exact:
  assumes "udp_fec_send symbols (\<lambda>r s. map_option (\<lambda>n. (n, [])) (new_sender r s)) (noting_sink send) args reads input
    = Inr (sent_bytes, chunk_bytes, n, sent)"
  shows "0 < chunk_bytes \<and> sent = chunks_of chunk_bytes (in_rest input) \<and> concat sent = in_rest input
    \<and> sent_bytes = length (in_rest input)"
proof -
  obtain r s where read: "read_to_end reads [] input = (r, s)" by fastforce
  obtain bs where r: "r = Inr bs" using assms read by (cases r) (simp_all add: udp_fec_send_def)
  let ?c = "fec_chunk_bytes symbols args"
  obtain n0 where made: "new_sender (fu_repair_symbols args) (fu_symbol_size args) = Some n0"
    using assms read r by (cases "new_sender (fu_repair_symbols args) (fu_symbol_size args)") (simp_all add: udp_fec_send_def)
  obtain ok n' sent' where each: "send_each (noting_sink send) (chunks_of ?c bs) (n0, []) = (ok, n', sent')"
    by (cases "send_each (noting_sink send) (chunks_of ?c bs) (n0, [])") auto
  from assms read r made each have eq: "ok" "sent_bytes = length bs" "chunk_bytes = ?c" "n = n'" "sent = sent'"
    by (cases ok; simp add: udp_fec_send_def)+
  have "0 < ?c" by (simp add: fec_chunk_bytes_def)
  with send_each_noting [OF each] read_to_end_Inr [OF read [unfolded r]] show ?thesis by (auto simp: eq concat_chunks_of)
qed

end
